(* ===== verification/Ums_Prelude.thy ===== *)
theory Ums_Prelude
  imports Main "HOL-Library.Sorting_Algorithms"
begin

text \<open>
  Shared vocabulary of the development: results of code that throws, exits of Effect
  programs, the fragment of JavaScript's \<open>String\<close>, \<open>Array\<close>, \<open>Set\<close> and \<open>Map\<close> libraries the
  modelled sources call, and the lemmas about them that the component theories use.

  Conventions. A JavaScript string is a list of UTF-16 code units; the model uses HOL's
  \<open>string\<close>, that is, the code units below 256. Object identity is not modelled:
  \<open>structuredClone\<close> and \<open>Object.freeze\<close> are the identity on values.
  \<open>String.prototype.localeCompare\<close> depends on the host's collation tables, so it is a
  parameter of type \<open>string comparator\<close>: the type holds exactly the total preorders, and
  different strings may compare as equivalent, as they may under ICU collation.
  \<open>Array.prototype.sort\<close> is stable; \<open>sort\<close> of \<open>HOL-Library.Sorting_Algorithms\<close> is the
  stable sort for a comparator.
\<close>

section \<open>Collections of facts\<close>

named_theorems exec_simps "equations that run the modelled code"
named_theorems keeps "frame and preservation facts of the operations"

section \<open>Synchronous code that may throw, and Effect programs\<close>

type_synonym ('e, 'a) result = "'e + 'a"

text \<open>Sequencing of code that may throw: the first throw ends the computation.\<close>

definition chain :: "('e, 'a) result \<Rightarrow> ('a \<Rightarrow> ('e, 'b) result) \<Rightarrow> ('e, 'b) result" where
  "chain r k = (case r of Inl e \<Rightarrow> Inl e | Inr x \<Rightarrow> k x)"

lemma chain_simps [simp, exec_simps]:
  "chain (Inl e) k = Inl e"
  "chain (Inr x) k = k x"
  by (simp_all add: chain_def)

lemma chain_eq_Inr: "chain r k = Inr y \<longleftrightarrow> (\<exists>x. r = Inr x \<and> k x = Inr y)"
  by (cases r) auto

lemma chain_eq_Inl: "chain r k = Inl e \<longleftrightarrow> r = Inl e \<or> (\<exists>x. r = Inr x \<and> k x = Inl e)"
  by (cases r) auto

lemma chain_InrE:
  assumes "chain r k = Inr y"
  obtains x where "r = Inr x" "k x = Inr y"
  using assms by (auto simp: chain_eq_Inr)

text \<open>\<open>xs.map(f)\<close> of a callback that may throw.\<close>

fun traverse :: "('a \<Rightarrow> ('e, 'b) result) \<Rightarrow> 'a list \<Rightarrow> ('e, 'b list) result" where
  "traverse f [] = Inr []"
| "traverse f (x # xs) = chain (f x) (\<lambda>y. chain (traverse f xs) (\<lambda>ys. Inr (y # ys)))"

lemma traverse_cong [fundef_cong]:
  "\<lbrakk>xs = ys; \<And>x. x \<in> set ys \<Longrightarrow> f x = g x\<rbrakk> \<Longrightarrow> traverse f xs = traverse g ys"
  by (induction ys arbitrary: xs) auto

lemma traverse_Inr: "traverse f xs = Inr ys \<longleftrightarrow> list_all2 (\<lambda>x y. f x = Inr y) xs ys"
  by (induction xs arbitrary: ys) (auto simp: chain_eq_Inr list_all2_Cons1)

lemma traverse_length: "traverse f xs = Inr ys \<Longrightarrow> length ys = length xs"
  by (auto simp: traverse_Inr dest: list_all2_lengthD)

lemma traverse_map: "(\<And>x. x \<in> set xs \<Longrightarrow> f x = Inr (g x)) \<Longrightarrow> traverse f xs = Inr (map g xs)"
  by (induction xs) auto

text \<open>
  Running an Effect ends in a success, a typed failure (\<open>Effect.fail\<close>, or the \<open>catch\<close> of
  \<open>Effect.try\<close>), or a defect: an exception thrown inside \<open>Effect.sync\<close> or
  \<open>Effect.suspend\<close>, which the error channel does not carry.
\<close>

datatype ('e, 'a) exit = Succeed 'a | Fail 'e | Die 'e

fun effect_try :: "('e, 'a) result \<Rightarrow> ('e, 'a) exit" where
  "effect_try (Inl e) = Fail e"
| "effect_try (Inr x) = Succeed x"

fun effect_sync :: "('e, 'a) result \<Rightarrow> ('e, 'a) exit" where
  "effect_sync (Inl e) = Die e"
| "effect_sync (Inr x) = Succeed x"

fun effect_flatMap :: "('e, 'a) exit \<Rightarrow> ('a \<Rightarrow> ('e, 'b) exit) \<Rightarrow> ('e, 'b) exit" where
  "effect_flatMap (Succeed x) k = k x"
| "effect_flatMap (Fail e) k = Fail e"
| "effect_flatMap (Die e) k = Die e"

text \<open>\<open>Effect.mapError\<close>: \<open>f\<close> on the typed failure; \<open>d\<close> only carries a defect over to the new error type.\<close>

fun effect_mapError :: "('e \<Rightarrow> 'f) \<Rightarrow> ('e \<Rightarrow> 'f) \<Rightarrow> ('e, 'a) exit \<Rightarrow> ('f, 'a) exit" where
  "effect_mapError f d (Succeed x) = Succeed x"
| "effect_mapError f d (Fail e) = Fail (f e)"
| "effect_mapError f d (Die e) = Die (d e)"

text \<open>\<open>Effect.suspend\<close> of a thunk that throws is a defect, otherwise the Effect it returns.\<close>

fun effect_suspend :: "('e, ('e, 'a) exit) result \<Rightarrow> ('e, 'a) exit" where
  "effect_suspend (Inl e) = Die e"
| "effect_suspend (Inr m) = m"

lemma effect_try_iff [simp]:
  "effect_try r = Succeed x \<longleftrightarrow> r = Inr x"
  "effect_try r = Fail e \<longleftrightarrow> r = Inl e"
  "effect_try r \<noteq> Die e"
  by (cases r; simp)+

lemma effect_sync_iff [simp]:
  "effect_sync r = Succeed x \<longleftrightarrow> r = Inr x"
  "effect_sync r = Die e \<longleftrightarrow> r = Inl e"
  "effect_sync r \<noteq> Fail e"
  by (cases r; simp)+

lemma effect_suspend_Succeed [simp]:
  "effect_suspend r = Succeed x \<longleftrightarrow> r = Inr (Succeed x)"
  by (cases r) auto

lemma effect_mapError_Succeed [simp]: "effect_mapError f d m = Succeed x \<longleftrightarrow> m = Succeed x"
  by (cases m) auto

lemma effect_flatMap_Succeed [simp]:
  "effect_flatMap m k = Succeed y \<longleftrightarrow> (\<exists>x. m = Succeed x \<and> k x = Succeed y)"
  by (cases m) auto

section \<open>Strings\<close>

text \<open>
  \<open>trim\<close>: the code units below 256 that ECMAScript counts as white space or line
  terminators are 9 to 13, 32 and 160.
\<close>

definition isWhiteSpace :: "char \<Rightarrow> bool" where
  "isWhiteSpace c = (let n = (of_char c :: nat) in (9 \<le> n \<and> n \<le> 13) \<or> n = 32 \<or> n = 160)"

definition trim :: "string \<Rightarrow> string" where
  "trim s = rev (dropWhile isWhiteSpace (rev (dropWhile isWhiteSpace s)))"

text \<open>\<open>toLowerCase\<close>: A-Z, and the capital letters of the Latin-1 block.\<close>

definition lowerChar :: "char \<Rightarrow> char" where
  "lowerChar c = (let n = (of_char c :: nat) in
     if (65 \<le> n \<and> n \<le> 90) \<or> (192 \<le> n \<and> n \<le> 222 \<and> n \<noteq> 215) then char_of (n + 32) else c)"

definition toLowerCase :: "string \<Rightarrow> string" where
  "toLowerCase s = map lowerChar s"

fun startsWith :: "string \<Rightarrow> string \<Rightarrow> bool" where
  "startsWith s [] = True"
| "startsWith [] (c # cs) = False"
| "startsWith (d # ds) (c # cs) = (c = d \<and> startsWith ds cs)"

text \<open>\<open>s.includes(p)\<close>\<close>

fun strIncludes :: "string \<Rightarrow> string \<Rightarrow> bool" where
  "strIncludes [] p = (p = [])"
| "strIncludes (d # ds) p = (startsWith (d # ds) p \<or> strIncludes ds p)"

fun join :: "string \<Rightarrow> string list \<Rightarrow> string" where
  "join sep [] = []"
| "join sep [x] = x"
| "join sep (x # y # xs) = x @ sep @ join sep (y # xs)"

lemma hd_dropWhile_not: "dropWhile P xs = y # ys \<Longrightarrow> \<not> P y"
  by (induction xs) (auto split: if_splits)

lemma dropWhile_rev_dropWhile:
  "dropWhile P (rev (dropWhile P (rev (dropWhile P xs)))) = rev (dropWhile P (rev (dropWhile P xs)))"
proof (cases "dropWhile P xs")
  case Nil
  show ?thesis by (simp only: Nil) simp
next
  case (Cons y ys)
  then have "\<not> P y" by (rule hd_dropWhile_not)
  then have "dropWhile P (rev ys @ [y]) = dropWhile P (rev ys) @ [y]"
    by (simp add: dropWhile_append3)
  with Cons \<open>\<not> P y\<close> show ?thesis by simp
qed

text \<open>Trimming is idempotent: a trimmed identifier is stored and looked up unchanged.\<close>

lemma trim_trim [simp]: "trim (trim s) = trim s"
  by (simp add: trim_def dropWhile_rev_dropWhile)

lemma trim_Nil [simp]: "trim [] = []"
  by (simp add: trim_def)

lemma of_char_less_256: "(of_char c :: nat) < 256"
  using nat_of_char_less_256 [of c] by simp

text \<open>Lower-casing is idempotent, so normalised keys are fixed points of normalisation.\<close>

lemma lowerChar_idem [simp]: "lowerChar (lowerChar c) = lowerChar c"
proof -
  have eq: "of_char (char_of (of_char c + 32 :: nat)) = (of_char c + 32 :: nat)"
    if "of_char c \<le> (222 :: nat)"
    using that by (simp add: of_char_of)
  show ?thesis
    using eq by (auto simp: lowerChar_def Let_def)
qed

lemma toLowerCase_idem [simp]: "toLowerCase (toLowerCase s) = toLowerCase s"
  by (simp add: toLowerCase_def)

lemma isWhiteSpace_lowerChar [simp]: "isWhiteSpace (lowerChar c) = isWhiteSpace c"
proof -
  have eq: "of_char (char_of (of_char c + 32 :: nat)) = (of_char c + 32 :: nat)"
    if "of_char c \<le> (222 :: nat)"
    using that by (simp add: of_char_of)
  show ?thesis
    using eq by (auto simp: isWhiteSpace_def lowerChar_def Let_def)
qed

lemma trim_toLowerCase: "trim (toLowerCase s) = toLowerCase (trim s)"
proof -
  have "isWhiteSpace \<circ> lowerChar = isWhiteSpace" by (auto simp: fun_eq_iff)
  then show ?thesis
    by (simp add: trim_def toLowerCase_def dropWhile_map rev_map)
qed

lemma startsWith_iff: "startsWith s p \<longleftrightarrow> (\<exists>t. s = p @ t)"
  by (induction s p rule: startsWith.induct) auto

lemma includes_iff: "strIncludes s p \<longleftrightarrow> (\<exists>a b. s = a @ p @ b)"
proof (induction s)
  case Nil
  then show ?case by auto
next
  case (Cons d ds)
  show ?case
  proof
    assume "strIncludes (d # ds) p"
    then consider t where "d # ds = [] @ p @ t" | a b where "d # ds = (d # a) @ p @ b"
      using Cons.IH by (auto simp: startsWith_iff)
    then show "\<exists>a b. d # ds = a @ p @ b" by cases blast+
  next
    assume "\<exists>a b. d # ds = a @ p @ b"
    then obtain a b where ab: "d # ds = a @ p @ b" by blast
    show "strIncludes (d # ds) p"
    proof (cases a)
      case Nil
      with ab have "startsWith (d # ds) p" by (simp only: startsWith_iff) auto
      then show ?thesis by simp
    next
      case (Cons e es)
      with ab have "\<exists>a b. ds = a @ p @ b" by auto
      with Cons.IH show ?thesis by simp
    qed
  qed
qed

section \<open>Arrays, Sets and Maps\<close>

text \<open>\<open>[...new Set(xs)]\<close>: the distinct elements in order of first insertion.\<close>

fun setOrder :: "'a list \<Rightarrow> 'a list" where
  "setOrder [] = []"
| "setOrder (x # xs) = x # filter (\<lambda>y. y \<noteq> x) (setOrder xs)"

lemma set_setOrder [simp]: "set (setOrder xs) = set xs"
  by (induction xs) auto

lemma distinct_setOrder [simp]: "distinct (setOrder xs)"
  by (induction xs) (auto intro: distinct_filter)

lemma setOrder_eq_Nil [simp]: "setOrder xs = [] \<longleftrightarrow> xs = []"
  by (cases xs) auto

lemma setOrder_distinct: "distinct xs \<Longrightarrow> setOrder xs = xs"
  by (induction xs) (auto simp: filter_id_conv)

text \<open>\<open>xs.findIndex(p)\<close>, with \<open>None\<close> for -1, and \<open>xs.find(p)\<close> (library \<open>find\<close>).\<close>

fun findIndex :: "('a \<Rightarrow> bool) \<Rightarrow> 'a list \<Rightarrow> nat option" where
  "findIndex P [] = None"
| "findIndex P (x # xs) = (if P x then Some 0 else map_option Suc (findIndex P xs))"

text \<open>The update idiom of the sources: replace at the found index, or push.\<close>

definition replaceOrPush :: "nat option \<Rightarrow> 'a \<Rightarrow> 'a list \<Rightarrow> 'a list" where
  "replaceOrPush i x xs = (case i of None \<Rightarrow> xs @ [x] | Some n \<Rightarrow> xs[n := x])"

lemma findIndex_find: "find P xs = map_option (\<lambda>i. xs ! i) (findIndex P xs)"
  by (induction xs) (auto simp: option.map_comp comp_def)

lemma findIndex_None: "findIndex P xs = None \<longleftrightarrow> (\<forall>x\<in>set xs. \<not> P x)"
  by (induction xs) auto

lemma findIndex_SomeD:
  "findIndex P xs = Some i \<Longrightarrow> i < length xs \<and> P (xs ! i) \<and> (\<forall>j<i. \<not> P (xs ! j))"
proof (induction xs arbitrary: i)
  case Nil
  then show ?case by simp
next
  case (Cons x xs)
  then show ?case by (auto split: if_splits simp: less_Suc_eq_0_disj)
qed

lemma replaceOrPush_simps [simp]:
  "replaceOrPush (findIndex P []) x [] = [x]"
  "replaceOrPush (findIndex P (y # ys)) x (y # ys) =
     (if P y then x # ys else y # replaceOrPush (findIndex P ys) x ys)"
  by (simp_all add: replaceOrPush_def split: option.splits)

lemma find_replaceOrPush:
  "P x \<Longrightarrow> find P (replaceOrPush (findIndex P xs) x xs) = Some x"
  by (induction xs) (simp_all del: findIndex.simps)

lemma find_replaceOrPush_other:
  "\<lbrakk>\<not> Q x; \<And>y. P y \<Longrightarrow> \<not> Q y\<rbrakk> \<Longrightarrow>
    find Q (replaceOrPush (findIndex P xs) x xs) = find Q xs"
  by (induction xs) (simp_all del: findIndex.simps)

lemma set_replaceOrPush_subset: "set (replaceOrPush (findIndex P xs) x xs) \<subseteq> insert x (set xs)"
  by (induction xs) (auto simp del: findIndex.simps)

lemma in_set_replaceOrPush [simp]: "x \<in> set (replaceOrPush (findIndex P xs) x xs)"
  by (induction xs) (simp_all del: findIndex.simps)

lemma kept_in_replaceOrPush:
  "\<lbrakk>y \<in> set xs; \<not> P y\<rbrakk> \<Longrightarrow> y \<in> set (replaceOrPush (findIndex P xs) x xs)"
  by (induction xs) (auto simp del: findIndex.simps)

lemma filter_replaceOrPush:
  assumes "P x"
  shows "filter P (replaceOrPush (findIndex P xs) x xs) = x # tl (filter P xs)"
  using assms by (induction xs) (simp_all del: findIndex.simps)

lemma filter_replaceOrPush_other:
  "\<lbrakk>\<not> Q x; \<And>y. P y \<Longrightarrow> \<not> Q y\<rbrakk> \<Longrightarrow>
    filter Q (replaceOrPush (findIndex P xs) x xs) = filter Q xs"
  by (induction xs) (simp_all del: findIndex.simps)

lemma find_Some_set: "find P xs = Some x \<Longrightarrow> x \<in> set xs \<and> P x"
  by (metis find_Some_iff nth_mem)

section \<open>Comparators\<close>

type_synonym collator = "string comparator"

text \<open>\<open>a !== b ? a - b : rest\<close>, as a comparator: first by one key, then by another.\<close>

definition thenBy :: "'a comparator \<Rightarrow> 'a comparator \<Rightarrow> 'a comparator" where
  "thenBy c d = key (\<lambda>x. (x, x)) (prod_lex c d)"

lemma compare_thenBy [simp]:
  "compare (thenBy c d) x y =
     (case compare c x y of Less \<Rightarrow> Less | Equiv \<Rightarrow> compare d x y | Greater \<Rightarrow> Greater)"
  by (simp add: thenBy_def compare_prod_lex_apply cong: comp.case_cong)

abbreviation ascending :: "('a \<Rightarrow> 'b::linorder) \<Rightarrow> 'a comparator" where
  "ascending f \<equiv> key f default"

abbreviation descending :: "('a \<Rightarrow> 'b::linorder) \<Rightarrow> 'a comparator" where
  "descending f \<equiv> reversed (key f default)"

lemma compare_default_if [exec_simps]:
  "compare default (x :: 'a::linorder) y = (if x < y then Less else if x > y then Greater else Equiv)"
  by (auto intro: antisym_conv3 [THEN iffD1])

abbreviation arraySort :: "'a comparator \<Rightarrow> 'a list \<Rightarrow> 'a list" where
  "arraySort \<equiv> Sorting_Algorithms.sort"

abbreviation arraySorted :: "'a comparator \<Rightarrow> 'a list \<Rightarrow> bool" where
  "arraySorted \<equiv> Sorting_Algorithms.sorted"

text \<open>Sorting the distinct elements of a list: equal sets give equal lists when the
  comparator tells their elements apart.\<close>

lemma find_sort_unique:
  assumes "length (filter P xs) \<le> 1"
  shows "find P (arraySort c xs) = find P xs"
proof -
  have mset: "mset (filter P (arraySort c xs)) = mset (filter P xs)"
    by (simp only: mset_filter mset_sort)
  have eq: "filter P (arraySort c xs) = filter P xs"
    using mset assms by (cases "filter P xs" rule: remdups_adj.cases) (auto simp del: mset_filter)
  have hd: "find P ys = (case filter P ys of [] \<Rightarrow> None | z # _ \<Rightarrow> Some z)" for ys
    by (induction ys) auto
  show ?thesis by (simp add: hd eq)
qed

lemma sort_of_sorted: "arraySorted c xs \<Longrightarrow> arraySort c xs = xs"
  by (rule sort_eqI) simp_all

lemma sort_idem [simp]: "arraySort c (arraySort c xs) = arraySort c xs"
  by (simp add: sort_of_sorted)

lemma hd_sort_least:
  assumes "arraySort c xs = y # ys" and "z \<in> set xs"
  shows "compare c y z \<noteq> Greater"
proof -
  have srt: "arraySorted c (y # ys)" using assms(1) by (metis sorted_sort)
  have "z \<in> set (y # ys)" using assms by (metis set_sort)
  then consider "z = y" | "z \<in> set ys" by auto
  then show ?thesis
  proof cases
    case 1
    then show ?thesis by simp
  next
    case 2
    with srt have "compare c y z \<noteq> Greater" by (rule sorted_Cons_imp_not_less)
    then show ?thesis .
  qed
qed

text \<open>A page of a sorted array is sorted and holds the least elements.\<close>

lemma sorted_take: "arraySorted c xs \<Longrightarrow> arraySorted c (take n xs)"
  using sorted_append_iff [of c "take n xs" "drop n xs"] by simp

lemma take_least:
  "\<lbrakk>arraySorted c xs; x \<in> set (take n xs); y \<in> set xs; y \<notin> set (take n xs)\<rbrakk> \<Longrightarrow> compare c x y \<noteq> Greater"
  using sorted_append_iff [of c "take n xs" "drop n xs"] set_append [of "take n xs" "drop n xs"] by auto

text \<open>Sorting is stable: elements the comparator does not tell apart keep their order, so a
  search for one of them finds the same element before and after.\<close>

lemma filter_sort_equiv:
  assumes "\<And>x y. P x \<Longrightarrow> P y \<Longrightarrow> compare c x y = Equiv"
  shows "filter P (arraySort c xs) = filter P xs"
proof (cases "\<exists>a\<in>set xs. P a")
  case True
  then obtain a where a: "P a" by blast
  have seg: "filter P zs = filter P (filter (\<lambda>y. compare c a y = Equiv) zs)" for zs
    using assms [OF a] by (auto intro: filter_cong)
  show ?thesis by (subst (1 2) seg) (simp only: stable_sort)
next
  case False
  then show ?thesis by (simp add: filter_empty_conv)
qed

lemma find_filter: "find P xs = (case filter P xs of [] \<Rightarrow> None | x # _ \<Rightarrow> Some x)"
  by (induction xs) auto

lemma find_sort_equiv:
  assumes "\<And>x y. P x \<Longrightarrow> P y \<Longrightarrow> compare c x y = Equiv"
  shows "find P (arraySort c xs) = find P xs"
  by (simp only: find_filter filter_sort_equiv [OF assms])

text \<open>Adding to a JavaScript Set that is kept as a list in insertion order.\<close>

definition setAdd :: "'a \<Rightarrow> 'a list \<Rightarrow> 'a list" where
  "setAdd x xs = (if x \<in> set xs then xs else xs @ [x])"

lemma set_setAdd [simp]: "set (setAdd x xs) = insert x (set xs)"
  by (auto simp: setAdd_def)

lemma distinct_setAdd [simp]: "distinct (setAdd x xs) = distinct xs"
  by (simp add: setAdd_def)

lemma setAdd_not_Nil [simp]: "setAdd x xs \<noteq> []"
  by (auto simp: setAdd_def)

lemma set_map_filter: "set (List.map_filter f xs) = {y. \<exists>x\<in>set xs. f x = Some y}"
  by (induction xs) (auto simp: map_filter_simps split: option.splits)

lemma distinct_sort [simp]: "distinct (arraySort c xs) = distinct xs"
  by (metis mset_eq_imp_distinct_iff mset_sort)

lemma filter_sort_mset: "mset (filter P (arraySort c xs)) = mset (filter P xs)"
  by (simp only: mset_filter mset_sort)

lemma replaced_rows:
  assumes "\<And>x. x \<in> set new \<Longrightarrow> mine x"
  shows "mset (filter (\<lambda>x. \<not> mine x) (arraySort c (filter (\<lambda>x. \<not> mine x) old @ new))) = mset (filter (\<lambda>x. \<not> mine x) old)"
    and "mset (filter mine (arraySort c (filter (\<lambda>x. \<not> mine x) old @ new))) = mset new"
proof -
  have "filter (\<lambda>x. \<not> mine x) new = []" "filter mine new = new"
    using assms by (auto simp: filter_empty_conv filter_id_conv)
  then show "mset (filter (\<lambda>x. \<not> mine x) (arraySort c (filter (\<lambda>x. \<not> mine x) old @ new))) = mset (filter (\<lambda>x. \<not> mine x) old)"
    and "mset (filter mine (arraySort c (filter (\<lambda>x. \<not> mine x) old @ new))) = mset new"
    by (simp_all only: filter_sort_mset filter_append filter_filter) simp_all
qed

lemma find_sorted_least:
  "\<lbrakk>arraySorted c xs; find P xs = Some x; y \<in> set xs; P y\<rbrakk> \<Longrightarrow> compare c x y \<noteq> Greater"
proof (induction xs)
  case Nil
  then show ?case by simp
next
  case (Cons z zs)
  show ?case
  proof (cases "P z")
    case True
    with Cons.prems(2) have x: "x = z" by simp
    from Cons.prems(3) consider "y = z" | "y \<in> set zs" by auto
    then show ?thesis
    proof cases
      case 1
      then show ?thesis by (simp add: x)
    next
      case 2
      then show ?thesis using sorted_Cons_imp_not_less [OF Cons.prems(1)] by (simp add: x)
    qed
  next
    case False
    then show ?thesis
      using Cons.IH [OF sorted_Cons_imp_sorted [OF Cons.prems(1)]] Cons.prems(2-4) by auto
  qed
qed

lemma arraySorted_Cons:
  "arraySorted c (x # xs) \<longleftrightarrow> (\<forall>y\<in>set xs. compare c x y \<noteq> Greater) \<and> arraySorted c xs"
  using sorted_Cons_imp_not_less [of c x xs] sorted_Cons_imp_sorted [of c x xs]
  by (auto intro: sorted_ConsI)

lemma sorted_filter: "arraySorted c xs \<Longrightarrow> arraySorted c (filter P xs)"
  by (induction xs) (auto simp: arraySorted_Cons)

section \<open>The first element of each key\<close>

text \<open>What a loop keeps that stores an element under its key unless the key is taken.\<close>

fun firstPerKey :: "('a \<Rightarrow> 'k) \<Rightarrow> 'a list \<Rightarrow> 'a list" where
  "firstPerKey f [] = []"
| "firstPerKey f (x # xs) = x # filter (\<lambda>y. f y \<noteq> f x) (firstPerKey f xs)"

lemma set_firstPerKey: "set (firstPerKey f xs) \<subseteq> set xs"
  by (induction xs) auto

lemma firstPerKey_keys [simp]: "f ` set (firstPerKey f xs) = f ` set xs"
proof (induction xs)
  case Nil
  then show ?case by simp
next
  case (Cons x xs)
  have "f ` set (filter (\<lambda>y. f y \<noteq> f x) (firstPerKey f xs)) = f ` set (firstPerKey f xs) - {f x}" by auto
  with Cons.IH show ?case by simp
qed

lemma distinct_firstPerKey [simp]: "distinct (map f (firstPerKey f xs))"
  by (induction xs) (auto simp: distinct_map intro: inj_on_subset)

lemma sorted_firstPerKey: "arraySorted c xs \<Longrightarrow> arraySorted c (firstPerKey f xs)"
  using set_firstPerKey by (induction xs) (fastforce simp: arraySorted_Cons sorted_filter)+

lemma firstPerKey_least:
  assumes "arraySorted c xs" "x \<in> set xs"
  shows "\<exists>y\<in>set (firstPerKey f xs). f y = f x \<and> compare c y x \<noteq> Greater"
  using assms
proof (induction xs rule: list.induct)
  case Nil
  then show ?case by simp
next
  case (Cons z zs)
  show ?case
  proof (cases "f z = f x")
    case True
    have "\<forall>y\<in>set zs. compare c z y \<noteq> Greater"
      using Cons.prems(1) by (simp add: arraySorted_Cons)
    then have "compare c z x \<noteq> Greater" using Cons.prems(2) by (cases "x = z") simp_all
    with True show ?thesis by auto
  next
    case False
    with Cons.prems obtain y where "y \<in> set (firstPerKey f zs)" "f y = f x" "compare c y x \<noteq> Greater"
      using Cons.IH by (auto simp: arraySorted_Cons)
    with False show ?thesis by auto
  qed
qed

lemma firstPerKey_filter:
  "firstPerKey f (filter (\<lambda>x. f x \<notin> K) xs) = filter (\<lambda>x. f x \<notin> K) (firstPerKey f xs)"
  by (induction xs) (auto simp: filter_filter conj_commute intro!: filter_cong)

end
