(* ===== verification/Js_Number.thy ===== *)
theory Js_Number
  imports Complex_Main Ums_Prelude
begin

text \<open>
  The JavaScript Number type as the modelled sources use it: IEEE 754 binary64 with
  rounding to nearest, ties to even, overflow to the infinities, and NaN. The two zeros
  are one value (the modelled code never divides by a zero and never inspects its sign).
  \<open>round6_fixed\<close> is \<open>Number(x.toFixed(6))\<close>, \<open>math_round\<close> is \<open>Math.round\<close>, and
  \<open>number_to_string\<close> is \<open>Number::toString\<close> of ECMA-262 (shortest digits that read back as
  the same number). The lemmas show that rounding is monotone and exact on integers up to
  2^53, which is what the bounds on memory weights rest on.
\<close>

section \<open>Rounding to binary64\<close>

text \<open>The power of two \<open>b\<close> with \<open>b \<le> x < 2 b\<close>, for positive \<open>x\<close>.\<close>

function binade :: "rat \<Rightarrow> rat" where
  "binade x = (if x \<le> 0 then 1 else if 2 \<le> x then 2 * binade (x / 2)
     else if x < 1 then binade (2 * x) / 2 else 1)"
  by pat_completeness auto

definition binade_measure :: "rat \<Rightarrow> nat" where
  "binade_measure x = (if x \<ge> 1 then nat \<lfloor>x\<rfloor> else nat \<lceil>1 / x\<rceil> + 1)"

lemma binade_measure_half:
  assumes "2 \<le> x"
  shows "binade_measure (x / 2) < binade_measure x"
proof -
  have "\<lfloor>x / 2\<rfloor> < \<lfloor>x\<rfloor>"
    using assms by linarith
  moreover have "1 \<le> \<lfloor>x / 2\<rfloor>" using assms by linarith
  ultimately show ?thesis using assms by (simp add: binade_measure_def)
qed

lemma binade_measure_double:
  assumes "0 < x" and "x < 1"
  shows "binade_measure (2 * x) < binade_measure x"
proof (cases "2 * x \<ge> 1")
  case True
  have "1 < 1 / x" using assms by simp
  then have "1 < \<lceil>1 / x\<rceil>" by linarith
  moreover have "\<lfloor>2 * x\<rfloor> = 1" using True assms by linarith
  ultimately show ?thesis using True assms by (simp add: binade_measure_def)
next
  case False
  define y where "y = 1 / x"
  have "2 < y" using False assms by (simp add: y_def field_simps)
  then have "\<lceil>y / 2\<rceil> < \<lceil>y\<rceil>" and "0 < \<lceil>y / 2\<rceil>" by linarith+
  moreover have "1 / (2 * x) = y / 2" by (simp add: y_def)
  ultimately show ?thesis using False assms
    by (simp add: binade_measure_def y_def mult.commute)
qed

termination binade
  by (relation "measure binade_measure")
    (auto simp: not_le binade_measure_half binade_measure_double)

declare binade.simps [simp del]

lemma floor_divide_numeral_rat [simp]:
  "\<lfloor>numeral a / numeral b :: rat\<rfloor> = numeral a div numeral b"
  "\<lfloor>1 / numeral b :: rat\<rfloor> = 1 div numeral b"
  using floor_divide_of_int_eq [where 'a = rat, of "numeral a" "numeral b"]
    floor_divide_of_int_eq [where 'a = rat, of 1 "numeral b"] by simp_all

text \<open>Round to the nearest integer, ties to even.\<close>

definition roundEven :: "rat \<Rightarrow> int" where
  "roundEven x = (let n = \<lfloor>x\<rfloor>; d = x - of_int n in
     if d < 1 / 2 then n else if 1 / 2 < d then n + 1 else if even n then n else n + 1)"

text \<open>The spacing of the binary64 numbers around \<open>x\<close> (positive): 52 bits below the
  leading one, never finer than the subnormal spacing 2^-1074.\<close>

definition ulp :: "rat \<Rightarrow> rat" where
  "ulp x = max (binade x / 2 ^ 52) (1 / 2 ^ 1074)"

definition fl :: "rat \<Rightarrow> rat" where
  "fl x = (if x = 0 then 0
     else if 0 < x then of_int (roundEven (x / ulp x)) * ulp x
     else - (of_int (roundEven (- x / ulp (- x))) * ulp (- x)))"

section \<open>Numbers and their operations\<close>

datatype jsnum = JNaN | JInf | JNegInf | JFin rat

text \<open>The result of an operation whose exact value is \<open>x\<close>.\<close>

definition round64 :: "rat \<Rightarrow> jsnum" where
  "round64 x = (let r = fl x in
     if 2 ^ 1024 \<le> r then JInf else if r \<le> - (2 ^ 1024) then JNegInf else JFin r)"

definition isFinite :: "jsnum \<Rightarrow> bool" where
  "isFinite x = (case x of JFin r \<Rightarrow> True | _ \<Rightarrow> False)"

definition jint :: "int \<Rightarrow> jsnum" where
  "jint n = JFin (of_int n)"

text \<open>The value of a number that is known to be finite.\<close>

definition finiteValue :: "jsnum \<Rightarrow> rat" where
  "finiteValue x = (case x of JFin r \<Rightarrow> r | _ \<Rightarrow> 0)"

fun jneg :: "jsnum \<Rightarrow> jsnum" where
  "jneg JNaN = JNaN"
| "jneg JInf = JNegInf"
| "jneg JNegInf = JInf"
| "jneg (JFin x) = JFin (- x)"

fun jadd :: "jsnum \<Rightarrow> jsnum \<Rightarrow> jsnum" where
  "jadd (JFin x) (JFin y) = round64 (x + y)"
| "jadd JNaN _ = JNaN"
| "jadd _ JNaN = JNaN"
| "jadd JInf JNegInf = JNaN"
| "jadd JNegInf JInf = JNaN"
| "jadd JInf _ = JInf"
| "jadd _ JInf = JInf"
| "jadd JNegInf _ = JNegInf"
| "jadd _ JNegInf = JNegInf"

definition jsub :: "jsnum \<Rightarrow> jsnum \<Rightarrow> jsnum" where
  "jsub x y = jadd x (jneg y)"

text \<open>The sign of a nonzero or infinite operand; 0 for zero.\<close>

fun jsgn :: "jsnum \<Rightarrow> rat" where
  "jsgn JNaN = 0"
| "jsgn JInf = 1"
| "jsgn JNegInf = -1"
| "jsgn (JFin x) = sgn x"

definition jinf_of :: "rat \<Rightarrow> jsnum" where
  "jinf_of s = (if s = 0 then JNaN else if 0 < s then JInf else JNegInf)"

fun jmul :: "jsnum \<Rightarrow> jsnum \<Rightarrow> jsnum" where
  "jmul (JFin x) (JFin y) = round64 (x * y)"
| "jmul JNaN _ = JNaN"
| "jmul _ JNaN = JNaN"
| "jmul x y = jinf_of (jsgn x * jsgn y)"

fun jdiv :: "jsnum \<Rightarrow> jsnum \<Rightarrow> jsnum" where
  "jdiv (JFin x) (JFin y) = (if y = 0 then jinf_of (sgn x) else round64 (x / y))"
| "jdiv JNaN _ = JNaN"
| "jdiv _ JNaN = JNaN"
| "jdiv (JFin x) _ = JFin 0"
| "jdiv x (JFin y) = jinf_of (jsgn x * (if y < 0 then -1 else 1))"
| "jdiv _ _ = JNaN"

fun jlt :: "jsnum \<Rightarrow> jsnum \<Rightarrow> bool" where
  "jlt (JFin x) (JFin y) = (x < y)"
| "jlt (JFin x) JInf = True"
| "jlt JNegInf (JFin y) = True"
| "jlt JNegInf JInf = True"
| "jlt _ _ = False"

text \<open>\<open>===\<close> on numbers; \<open><=\<close>, which is false on NaN.\<close>

definition jeq :: "jsnum \<Rightarrow> jsnum \<Rightarrow> bool" where
  "jeq x y = (x \<noteq> JNaN \<and> x = y)"

definition jle :: "jsnum \<Rightarrow> jsnum \<Rightarrow> bool" where
  "jle x y = (jlt x y \<or> jeq x y)"

definition jmax :: "jsnum \<Rightarrow> jsnum \<Rightarrow> jsnum" where
  "jmax x y = (if x = JNaN \<or> y = JNaN then JNaN else if jlt x y then y else x)"

definition jmin :: "jsnum \<Rightarrow> jsnum \<Rightarrow> jsnum" where
  "jmin x y = (if x = JNaN \<or> y = JNaN then JNaN else if jlt y x then y else x)"

definition jabs :: "jsnum \<Rightarrow> jsnum" where
  "jabs x = (case x of JFin r \<Rightarrow> JFin \<bar>r\<bar> | JNegInf \<Rightarrow> JInf | _ \<Rightarrow> x)"

definition jtrunc :: "jsnum \<Rightarrow> jsnum" where
  "jtrunc x = (case x of JFin r \<Rightarrow> jint (if 0 \<le> r then \<lfloor>r\<rfloor> else \<lceil>r\<rceil>) | _ \<Rightarrow> x)"

text \<open>\<open>Math.round\<close>: halves go up.\<close>

definition math_round :: "jsnum \<Rightarrow> jsnum" where
  "math_round x = (case x of JFin r \<Rightarrow> jint \<lfloor>r + 1 / 2\<rfloor> | _ \<Rightarrow> x)"

text \<open>\<open>Number(x.toFixed(6))\<close> for finite \<open>x\<close>: the nearest multiple of 10^-6, halves away
  from zero, read back as a number; from 10^21 on \<open>toFixed\<close> prints the number itself.\<close>

definition toFixed6_units :: "rat \<Rightarrow> int" where
  "toFixed6_units r = (if 0 \<le> r then \<lfloor>r * 1000000 + 1 / 2\<rfloor> else - \<lfloor>- r * 1000000 + 1 / 2\<rfloor>)"

definition round6_fixed :: "rat \<Rightarrow> jsnum" where
  "round6_fixed r =
     (if 1000000000000000000000 \<le> \<bar>r\<bar> then JFin r else round64 (of_int (toFixed6_units r) / 1000000))"

section \<open>Number::toString\<close>

text \<open>Decimal digits of a non-negative integer.\<close>

definition digitChar :: "int \<Rightarrow> char" where
  "digitChar d = char_of (48 + d)"

function natDigits :: "int \<Rightarrow> string" where
  "natDigits n = (if n < 10 then [digitChar n] else natDigits (n div 10) @ [digitChar (n mod 10)])"
  by pat_completeness auto
termination natDigits
  by (relation "measure nat") auto

declare natDigits.simps [simp del]

definition intString :: "int \<Rightarrow> string" where
  "intString n = (if n < 0 then ''-'' @ natDigits (- n) else natDigits n)"

text \<open>The least \<open>e\<close> with \<open>x < 10^e\<close>, for positive \<open>x\<close>; the fuel covers the range of
  binary64 exponents.\<close>

definition pow10 :: "int \<Rightarrow> rat" where
  "pow10 e = (if 0 \<le> e then 10 ^ nat e else 1 / 10 ^ nat (- e))"

fun exponent10 :: "nat \<Rightarrow> int \<Rightarrow> rat \<Rightarrow> int" where
  "exponent10 0 e x = e"
| "exponent10 (Suc k) e x =
     (if pow10 e \<le> x then exponent10 k (e + 1) x
      else if x < pow10 (e - 1) then exponent10 k (e - 1) x else e)"

text \<open>The digits \<open>s\<close> for \<open>k\<close> significant figures that read back as \<open>x\<close>, the nearer first.\<close>

definition digitsFor :: "int \<Rightarrow> nat \<Rightarrow> rat \<Rightarrow> int option" where
  "digitsFor n k x =
     (let u = pow10 (n - int k); lo = \<lfloor>x / u\<rfloor>; hi = lo + 1;
          near = (if x / u - of_int lo \<le> of_int hi - x / u then [lo, hi] else [hi, lo])
      in find (\<lambda>s. fl (of_int s * u) = x) near)"

fun shortestDigits :: "nat \<Rightarrow> nat \<Rightarrow> int \<Rightarrow> rat \<Rightarrow> int \<times> nat" where
  "shortestDigits 0 k n x = (\<lfloor>x / pow10 (n - int k)\<rfloor>, k)"
| "shortestDigits (Suc f) k n x =
     (case digitsFor n k x of Some s \<Rightarrow> (s, k) | None \<Rightarrow> shortestDigits f (Suc k) n x)"

text \<open>Laying the digits out with decimal exponent \<open>n\<close> (value 0.digits times 10^n).\<close>

definition layoutDigits :: "string \<Rightarrow> int \<Rightarrow> string" where
  "layoutDigits ds n =
     (let k = int (length ds) in
      if k \<le> n \<and> n \<le> 21 then ds @ replicate (nat (n - k)) (CHR ''0'')
      else if 0 < n \<and> n \<le> 21 then take (nat n) ds @ ''.'' @ drop (nat n) ds
      else if -6 < n \<and> n \<le> 0 then ''0.'' @ replicate (nat (- n)) (CHR ''0'') @ ds
      else let e = n - 1; es = (if 0 \<le> e then ''+'' else ''-'') @ natDigits \<bar>e\<bar> in
        if k = 1 then ds @ ''e'' @ es
        else take 1 ds @ ''.'' @ drop 1 ds @ ''e'' @ es)"

definition positiveString :: "rat \<Rightarrow> string" where
  "positiveString x =
     (let n = exponent10 700 0 x; (s, k) = shortestDigits 17 1 n x; ds = natDigits s
      in if length ds = Suc k then layoutDigits (take 1 ds) (n + 1) else layoutDigits ds n)"

fun number_to_string :: "jsnum \<Rightarrow> string" where
  "number_to_string JNaN = ''NaN''"
| "number_to_string JInf = ''Infinity''"
| "number_to_string JNegInf = ''-Infinity''"
| "number_to_string (JFin x) =
     (if x = 0 then ''0'' else if x < 0 then ''-'' @ positiveString (- x) else positiveString x)"

section \<open>Rounding is monotone, and exact where the code needs it\<close>

definition isPow2 :: "rat \<Rightarrow> bool" where
  "isPow2 b \<longleftrightarrow> (\<exists>k::int. b = 2 powi k)"

lemma isPow2_basic [simp, intro]: "isPow2 1" "isPow2 (2 ^ n)" "isPow2 (1 / 2 ^ n)"
  unfolding isPow2_def
  by (rule exI [of _ 0], simp, rule exI [of _ "int n"], simp,
      rule exI [of _ "- int n"], simp add: power_int_minus divide_inverse)

lemma isPow2_arith:
  assumes "isPow2 a" and "isPow2 b"
  shows "isPow2 (a * b)" and "isPow2 (a / b)"
  using assms unfolding isPow2_def
  by (metis power_int_add zero_neq_numeral, metis power_int_diff zero_neq_numeral)

lemma isPow2_pos: "isPow2 a \<Longrightarrow> 0 < a"
  by (auto simp: isPow2_def)

lemma isPow2_max: "\<lbrakk>isPow2 a; isPow2 b\<rbrakk> \<Longrightarrow> isPow2 (max a b)"
  by (simp add: max_def)

lemma isPow2_quotient_int:
  assumes "isPow2 a" and "isPow2 b" and "b \<le> a"
  obtains n :: int where "a / b = of_int n"
proof -
  obtain k where k: "a / b = 2 powi k"
    using isPow2_arith(2) [OF assms(1,2)] by (auto simp: isPow2_def)
  have "1 \<le> a / b" using assms isPow2_pos by simp
  then have "(2::rat) powi 0 \<le> 2 powi k" by (simp add: k)
  then have "0 \<le> k" using power_int_strict_increasing [of k 0 "2::rat"] by fastforce
  then have "a / b = of_int (2 ^ nat k)" by (simp add: k power_int_nonneg_exp)
  then show thesis by (rule that)
qed

lemma isPow2_less_double:
  assumes "isPow2 a" and "isPow2 b" and "a < b"
  shows "2 * a \<le> b"
proof -
  obtain j k where jk: "a = 2 powi j" "b = 2 powi k"
    using assms by (auto simp: isPow2_def)
  have "j < k" using assms(3) power_int_increasing [of k j "2::rat"] unfolding jk by fastforce
  then have "(2::rat) powi (j + 1) \<le> 2 powi k" by (intro power_int_increasing) auto
  then show ?thesis by (simp add: jk power_int_add mult.commute)
qed

lemma binade_spec:
  "0 < x \<Longrightarrow> binade x \<le> x \<and> x < 2 * binade x \<and> isPow2 (binade x)"
proof (induction x rule: binade.induct)
  case (1 x)
  consider "2 \<le> x" | "x < 1" | "1 \<le> x" "x < 2" by linarith
  then show ?case
  proof cases
    case 1
    then have "binade x = 2 * binade (x / 2)" using \<open>0 < x\<close> by (simp add: binade.simps [of x])
    with 1 "1.IH"(1) \<open>0 < x\<close> isPow2_arith(1) [OF isPow2_basic(2) [of 1]] show ?thesis by simp
  next
    case 2
    then have eq: "binade x = binade (2 * x) / 2"
      using \<open>0 < x\<close> by (simp add: binade.simps [of x])
    have "isPow2 (binade (2 * x) / 2)"
      using 2 "1.IH"(2) \<open>0 < x\<close> isPow2_arith(2) [OF _ isPow2_basic(2) [of 1]] by simp
    then show ?thesis unfolding eq using 2 "1.IH"(2) \<open>0 < x\<close> by simp
  next
    case 3
    then have "binade x = 1" by (simp add: binade.simps [of x])
    with 3 show ?thesis by simp
  qed
qed

lemma ulp_pow2: "0 < x \<Longrightarrow> isPow2 (ulp x)"
  unfolding ulp_def by (intro isPow2_max isPow2_arith(2) isPow2_basic) (simp add: binade_spec)

lemma ulp_pos: "0 < x \<Longrightarrow> 0 < ulp x"
  by (rule isPow2_pos [OF ulp_pow2])

lemma roundEven_of_int [simp]: "roundEven (of_int n) = n"
  by (simp add: roundEven_def)

lemma roundEven_bounds: "\<lfloor>x\<rfloor> \<le> roundEven x" "roundEven x \<le> \<lfloor>x\<rfloor> + 1"
  by (auto simp: roundEven_def Let_def)

lemma roundEven_mono: "x \<le> y \<Longrightarrow> roundEven x \<le> roundEven y"
proof (cases "\<lfloor>x\<rfloor> = \<lfloor>y\<rfloor>")
  case True
  assume "x \<le> y"
  with True show ?thesis by (auto simp: roundEven_def Let_def)
next
  case False
  assume "x \<le> y"
  with False have "\<lfloor>x\<rfloor> + 1 \<le> \<lfloor>y\<rfloor>" using floor_mono [of x y] by linarith
  then show ?thesis using roundEven_bounds [of x] roundEven_bounds [of y] by linarith
qed

lemma roundEven_le_int: "x \<le> of_int n \<Longrightarrow> roundEven x \<le> n"
  using roundEven_mono [of x "of_int n"] by simp

lemma roundEven_ge_int: "of_int n \<le> x \<Longrightarrow> n \<le> roundEven x"
  using roundEven_mono [of "of_int n" x] by simp

lemma fl_zero [simp]: "fl 0 = 0"
  by (simp add: fl_def)

lemma fl_minus: "fl (- x) = - fl x"
  by (simp add: fl_def)

lemma fl_nonneg: "0 \<le> x \<Longrightarrow> 0 \<le> fl x"
  using roundEven_ge_int [of 0 "x / ulp x"] ulp_pos [of x] by (auto simp: fl_def)

text \<open>Within a binade the spacing is constant; across binades the power of two between
  the two arguments separates the results.\<close>

lemma fl_mono_pos:
  assumes "0 < x" and "x \<le> y"
  shows "fl x \<le> fl y"
proof -
  let ?a = "binade x" and ?b = "binade y"
  have y: "0 < y" using assms by simp
  note bx = binade_spec [OF assms(1)] and b_y = binade_spec [OF y]
  have same: ?thesis if "ulp x = ulp y"
    using that assms roundEven_mono [of "x / ulp x" "y / ulp x"] ulp_pos [OF y]
    by (simp add: fl_def divide_right_mono mult_right_mono)
  have "\<not> ?b < ?a" using isPow2_less_double [of ?b ?a] bx b_y assms by linarith
  then consider "?a = ?b" | "?a < ?b" by linarith
  then show ?thesis
  proof cases
    case 1
    then show ?thesis by (intro same) (simp add: ulp_def)
  next
    case 2
    show ?thesis
    proof (cases "ulp x = ulp y")
      case True
      then show ?thesis by (rule same)
    next
      case False
      with 2 have uy: "ulp y = ?b / 2 ^ 52" and ux: "ulp x < ulp y"
        by (auto simp: ulp_def max_def split: if_splits)
      have ub: "ulp x \<le> ?b" using ux uy isPow2_pos b_y by simp
      obtain n where n: "?b / ulp x = of_int n"
        using isPow2_quotient_int [of ?b "ulp x"] ub b_y ulp_pow2 [OF assms(1)] by blast
      have "x \<le> ?b" using isPow2_less_double [of ?a ?b] 2 bx b_y by linarith
      then have "x / ulp x \<le> of_int n"
        using n ulp_pos [OF assms(1)] by (metis divide_right_mono less_imp_le)
      then have "of_int (roundEven (x / ulp x)) * ulp x \<le> of_int n * ulp x"
        using roundEven_le_int ulp_pos [OF assms(1)] by (simp add: mult_right_mono)
      also have "\<dots> = ?b" using n ulp_pos [OF assms(1)] by (simp add: field_simps)
      also have "\<dots> = of_int (2 ^ 52) * ulp y" by (simp add: uy)
      also have "\<dots> \<le> of_int (roundEven (y / ulp y)) * ulp y"
      proof -
        have "of_int (2 ^ 52) \<le> y / ulp y"
          using b_y uy isPow2_pos by (simp add: field_simps)
        then have "2 ^ 52 \<le> roundEven (y / ulp y)" by (rule roundEven_ge_int)
        then show ?thesis using ulp_pos [OF y] by (intro mult_right_mono) (simp_all only: of_int_le_iff less_imp_le)
      qed
      finally show ?thesis using assms y by (simp add: fl_def)
    qed
  qed
qed

lemma fl_mono: "x \<le> y \<Longrightarrow> fl x \<le> fl y"
proof -
  assume xy: "x \<le> y"
  consider "0 < x" | "x \<le> 0" "0 \<le> y" | "y < 0" by linarith
  then show ?thesis
  proof cases
    case 1
    then show ?thesis using xy by (rule fl_mono_pos)
  next
    case 2
    then show ?thesis using fl_nonneg [of y] fl_nonneg [of "- x"] by (simp add: fl_minus)
  next
    case 3
    then show ?thesis using fl_mono_pos [of "- y" "- x"] xy by (simp add: fl_minus)
  qed
qed

text \<open>Integers up to 2^53 are represented exactly.\<close>

lemma fl_of_int:
  assumes "\<bar>n\<bar> \<le> 2 ^ 53"
  shows "fl (of_int n) = of_int n"
proof -
  have pos: "fl (of_int m) = of_int m" if m: "0 < m" "m \<le> 2 ^ 53" for m :: int
  proof -
    let ?x = "of_int m :: rat"
    have b: "binade ?x \<le> ?x" "?x < 2 * binade ?x" "isPow2 (binade ?x)"
      using binade_spec [of ?x] m by auto
    have "?x \<le> 2 ^ 53" using m by (metis of_int_le_iff of_int_numeral of_int_power)
    then have "binade ?x \<le> 2 ^ 53" using b by linarith
    moreover have "1 \<le> binade ?x"
    proof (rule ccontr)
      assume "\<not> 1 \<le> binade ?x"
      then have "2 * binade ?x \<le> 1" using isPow2_less_double [of "binade ?x" 1] b by simp
      then have "?x < 1" using b by linarith
      then show False using m by simp
    qed
    show ?thesis
    proof (cases "binade ?x = 2 ^ 53")
      case True
      then have "?x = 2 ^ 53" using b \<open>?x \<le> 2 ^ 53\<close> by linarith
      then have "?x / ulp ?x = of_int (2 ^ 52)" using True by (simp add: ulp_def max_def)
      then have "of_int (roundEven (?x / ulp ?x)) * ulp ?x = ?x / ulp ?x * ulp ?x"
        by (simp only: roundEven_of_int)
      then show ?thesis using ulp_pos [of ?x] m by (simp add: fl_def)
    next
      case False
      then have "2 * binade ?x \<le> 2 ^ 53"
        using isPow2_less_double [OF b(3) isPow2_basic(2) [of 53]] \<open>binade ?x \<le> 2 ^ 53\<close>
        by (simp add: le_less)
      then have "ulp ?x \<le> 1" by (simp add: ulp_def)
      then obtain k where "1 / ulp ?x = of_int k"
        using isPow2_quotient_int [of 1 "ulp ?x"] ulp_pow2 [of ?x] m by auto
      then have "?x * (1 / ulp ?x) = of_int (m * k)" by (simp only: of_int_mult)
      then have q: "?x / ulp ?x = of_int (m * k)" by simp
      then have "of_int (roundEven (?x / ulp ?x)) * ulp ?x = ?x / ulp ?x * ulp ?x" by (simp only: roundEven_of_int)
      then show ?thesis using ulp_pos [of ?x] m by (simp add: fl_def)
    qed
  qed
  consider "n = 0" | "0 < n" | "0 < - n" by linarith
  then show ?thesis
  proof cases
    case 3
    then show ?thesis using pos [of "- n"] assms fl_minus [of "of_int n"] by simp
  qed (use pos assms in auto)
qed

lemma fl_one [simp]: "fl 1 = 1"
  using fl_of_int [of 1] by simp

lemma fl_unit_interval: "\<lbrakk>0 \<le> x; x \<le> 1\<rbrakk> \<Longrightarrow> 0 \<le> fl x \<and> fl x \<le> 1"
  using fl_nonneg fl_mono [of x 1] by simp

lemma fl_unit_ball: "\<bar>x\<bar> \<le> 1 \<Longrightarrow> \<bar>fl x\<bar> \<le> 1"
  using fl_mono [of x 1] fl_mono [of "-1" x] by (auto simp: abs_le_iff fl_minus)

lemma round64_small: "\<bar>fl x\<bar> \<le> 1 \<Longrightarrow> round64 x = JFin (fl x)"
proof -
  assume "\<bar>fl x\<bar> \<le> 1"
  moreover have "(1::rat) < 2 ^ 1024" by simp
  ultimately show ?thesis unfolding round64_def Let_def by (auto simp: abs_le_iff)
qed

text \<open>\<open>Number(x.toFixed(6))\<close> keeps [0, 1] and [-1, 1], and is monotone on them.\<close>

lemma toFixed6_units_range:
  "\<lbrakk>0 \<le> r; r \<le> 1\<rbrakk> \<Longrightarrow> 0 \<le> toFixed6_units r \<and> toFixed6_units r \<le> 1000000"
  unfolding toFixed6_units_def by (simp add: le_floor_iff floor_le_iff)

lemma toFixed6_units_minus: "toFixed6_units (- r) = - toFixed6_units r"
proof -
  have "\<lfloor>1 / 2 :: rat\<rfloor> = 0" by simp
  then show ?thesis by (auto simp: toFixed6_units_def)
qed

lemma toFixed6_units_mono: "r \<le> r' \<Longrightarrow> toFixed6_units r \<le> toFixed6_units r'"
proof -
  assume le: "r \<le> r'"
  have pos: "toFixed6_units a \<le> toFixed6_units b" if "0 \<le> a" "a \<le> b" for a b
    using that by (auto simp: toFixed6_units_def intro!: floor_mono)
  have nn: "0 \<le> toFixed6_units a" if "0 \<le> a" for a
    using pos [of 0 a] that by (simp add: toFixed6_units_def)
  consider "0 \<le> r" | "r < 0" "0 \<le> r'" | "r' < 0" using le by linarith
  then show ?thesis
  proof cases
    case 1
    then show ?thesis using le by (rule pos)
  next
    case 2
    then show ?thesis using nn [of r'] nn [of "- r"] by (simp add: toFixed6_units_minus)
  next
    case 3
    then show ?thesis using pos [of "- r'" "- r"] le by (simp add: toFixed6_units_minus)
  qed
qed

lemma round6_fixed_unit:
  assumes "0 \<le> r" and "r \<le> 1"
  shows "\<exists>w. round6_fixed r = JFin w \<and> 0 \<le> w \<and> w \<le> 1"
proof -
  let ?x = "of_int (toFixed6_units r) / 1000000 :: rat"
  have "0 \<le> ?x" "?x \<le> 1" using toFixed6_units_range [OF assms] by simp_all
  then have "0 \<le> fl ?x \<and> fl ?x \<le> 1" by (rule fl_unit_interval)
  then show ?thesis using assms round64_small [of ?x] by (auto simp: round6_fixed_def)
qed

section \<open>Rounding error near the unit interval\<close>

lemma roundEven_error: "\<bar>of_int (roundEven x) - x\<bar> \<le> 1 / 2"
proof -
  have "of_int \<lfloor>x\<rfloor> \<le> x" "x < of_int \<lfloor>x\<rfloor> + 1" by linarith+
  then show ?thesis unfolding roundEven_def Let_def abs_le_iff by (simp split: if_split) linarith
qed

lemma fl_error_pos:
  assumes "0 < x" "x \<le> 1"
  shows "\<bar>fl x - x\<bar> \<le> 1 / 2 ^ 53"
proof -
  have u: "0 < ulp x" using assms(1) by (rule ulp_pos)
  have "binade x \<le> 1" using binade_spec [OF assms(1)] assms(2) by simp
  moreover have "(1 / 2 ^ 1074 :: rat) \<le> 1 / 2 ^ 52" by (simp add: divide_simps)
  ultimately have ulp: "ulp x \<le> 1 / 2 ^ 52" by (simp add: ulp_def divide_simps)
  have "fl x - x = (of_int (roundEven (x / ulp x)) - x / ulp x) * ulp x"
    using assms(1) u by (simp add: fl_def left_diff_distrib)
  then have "\<bar>fl x - x\<bar> = \<bar>of_int (roundEven (x / ulp x)) - x / ulp x\<bar> * ulp x"
    using u by (simp add: abs_mult)
  also have "\<dots> \<le> 1 / 2 * ulp x"
    using roundEven_error [of "x / ulp x"] u by (intro mult_right_mono) simp_all
  also have "\<dots> \<le> 1 / 2 ^ 53" using ulp by simp
  finally show ?thesis .
qed

lemma fl_error: "\<bar>x\<bar> \<le> 1 \<Longrightarrow> \<bar>fl x - x\<bar> \<le> 1 / 2 ^ 53"
proof -
  assume x: "\<bar>x\<bar> \<le> 1"
  consider "x = 0" | "0 < x" | "x < 0" by linarith
  then show ?thesis
  proof cases
    case 3
    then have "\<bar>fl (- x) - (- x)\<bar> \<le> 1 / 2 ^ 53" using x by (intro fl_error_pos) simp_all
    then show ?thesis by (simp add: fl_minus abs_minus_commute)
  next
    case 2
    then show ?thesis using x by (intro fl_error_pos) simp_all
  qed simp
qed

text \<open>The double nearest to a multiple of 10^-6 prints as that multiple.\<close>

lemma toFixed6_units_near:
  assumes "0 \<le> n" "0 \<le> r" "\<bar>r - of_int n / 1000000\<bar> < 1 / 2000000"
  shows "toFixed6_units r = n"
proof -
  have "r - of_int n / 1000000 < 1 / 2000000" "of_int n / 1000000 - r < 1 / 2000000"
    using assms(3) by linarith+
  then have "of_int n \<le> r * 1000000 + 1 / 2" "r * 1000000 + 1 / 2 < of_int n + 1"
    by linarith+
  then show ?thesis using assms(2) by (simp add: toFixed6_units_def floor_eq_iff)
qed

lemma toFixed6_units_fl:
  assumes "0 \<le> n" "n \<le> 1000000"
  shows "toFixed6_units (fl (of_int n / 1000000)) = n"
    and "toFixed6_units (fl (fl (of_int n / 1000000))) = n"
proof -
  let ?x = "of_int n / 1000000 :: rat"
  have x: "0 \<le> ?x" "?x \<le> 1" using assms by simp_all
  have y: "0 \<le> fl ?x" "fl ?x \<le> 1" using fl_unit_interval [OF x] by auto
  have e1: "\<bar>fl ?x - ?x\<bar> \<le> 1 / 2 ^ 53" using x by (intro fl_error) linarith
  have e2: "\<bar>fl (fl ?x) - fl ?x\<bar> \<le> 1 / 2 ^ 53" using y by (intro fl_error) linarith
  have eps: "(1 / 2 ^ 53 :: rat) < 1 / 4000000" by simp
  show "toFixed6_units (fl ?x) = n"
    using assms(1) y(1) e1 eps by (intro toFixed6_units_near) linarith+
  show "toFixed6_units (fl (fl ?x)) = n"
  proof (rule toFixed6_units_near [OF assms(1)])
    show "0 \<le> fl (fl ?x)" by (rule fl_nonneg [OF y(1)])
    show "\<bar>fl (fl ?x) - ?x\<bar> < 1 / 2000000" using e1 e2 eps by linarith
  qed
qed

text \<open>Integer sums are exact while they stay in the safe range.\<close>

lemma round64_of_int: "\<bar>n\<bar> \<le> 2 ^ 53 \<Longrightarrow> round64 (of_int n) = jint n"
proof -
  assume n: "\<bar>n\<bar> \<le> 2 ^ 53"
  then have "\<bar>of_int n :: rat\<bar> \<le> 2 ^ 53" by (metis of_int_abs of_int_le_iff of_int_power of_int_numeral)
  then have "\<bar>of_int n :: rat\<bar> < 2 ^ 1024" by (rule order.strict_trans1) simp
  then show ?thesis using fl_of_int [OF n] by (simp add: round64_def jint_def abs_less_iff)
qed

lemma jadd_int: "\<bar>a + b\<bar> \<le> 2 ^ 53 \<Longrightarrow> jadd (jint a) (jint b) = jint (a + b)"
  using round64_of_int [of "a + b"] by (simp add: jint_def)

section \<open>Numbers that are not negative\<close>

text \<open>A non-negative number or infinity: sums and products of these are never NaN.\<close>

definition jnonneg :: "jsnum \<Rightarrow> bool" where
  "jnonneg x = (case x of JFin r \<Rightarrow> 0 \<le> r | JInf \<Rightarrow> True | _ \<Rightarrow> False)"

lemma jnonneg_simps [simp]:
  "jnonneg (JFin r) \<longleftrightarrow> 0 \<le> r" "jnonneg JInf" "\<not> jnonneg JNegInf" "\<not> jnonneg JNaN"
  by (simp_all add: jnonneg_def)

lemma jnonneg_jle: "jnonneg x \<longleftrightarrow> jle (jint 0) x"
  by (cases x) (auto simp: jle_def jint_def jeq_def)

lemma round64_not_NaN [simp]: "round64 x \<noteq> JNaN"
  by (simp add: round64_def Let_def)

lemma jnonneg_round64 [intro!]: "0 \<le> x \<Longrightarrow> jnonneg (round64 x)"
  using fl_nonneg [of x] by (auto simp: jnonneg_def round64_def Let_def)

lemma jnonneg_jint [simp]: "jnonneg (jint n) \<longleftrightarrow> 0 \<le> n"
  by (simp add: jnonneg_def jint_def)

lemma jnonneg_jadd [intro!]: "\<lbrakk>jnonneg x; jnonneg y\<rbrakk> \<Longrightarrow> jnonneg (jadd x y)"
  by (cases x; cases y) auto

end
