(* ===== verification/Json_Text.thy ===== *)
theory Json_Text
  imports Js_Number
begin

text \<open>
  JSON values and the canonical text the services hash and compare: \<open>stableSortObject\<close>
  sorts the keys of every object with \<open>localeCompare\<close>, \<open>stableStringify\<close> prints the result
  with \<open>JSON.stringify\<close>. SHA-256 (node:crypto) is a parameter \<open>sha256\<close> of the components.
  The lemmas show that the printed form of an array of strings determines the array, which
  is what the Map keys built from identifiers need. \<open>unescape1\<close> and \<open>readString\<close> are the
  inverse of string quoting and serve only these lemmas.
\<close>

section \<open>Values\<close>

datatype json =
    JNull
  | JBool bool
  | JNum jsnum
  | JStr string
  | JArr "json list"
  | JObj "(string \<times> json) list"

text \<open>An absent optional value (\<open>x ?? null\<close>).\<close>

definition orNull :: "('a \<Rightarrow> json) \<Rightarrow> 'a option \<Rightarrow> json" where
  "orNull f x = (case x of None \<Rightarrow> JNull | Some y \<Rightarrow> f y)"

section \<open>JSON.stringify\<close>

definition hexDigit :: "nat \<Rightarrow> char" where
  "hexDigit n = (if n < 10 then char_of (48 + n) else char_of (87 + n))"

definition escapeChar :: "char \<Rightarrow> string" where
  "escapeChar c =
     (if c = CHR 0x22 then [CHR 0x5C, CHR 0x22]
      else if c = CHR 0x5C then [CHR 0x5C, CHR 0x5C]
      else if c = CHR 0x08 then [CHR 0x5C, CHR ''b'']
      else if c = CHR 0x09 then [CHR 0x5C, CHR ''t'']
      else if c = CHR 0x0A then [CHR 0x5C, CHR ''n'']
      else if c = CHR 0x0C then [CHR 0x5C, CHR ''f'']
      else if c = CHR 0x0D then [CHR 0x5C, CHR ''r'']
      else if (of_char c :: nat) < 32 then
        [CHR 0x5C, CHR ''u'', CHR ''0'', CHR ''0'', hexDigit (of_char c div 16), hexDigit (of_char c mod 16)]
      else [c])"

definition quoted :: "string \<Rightarrow> string" where
  "quoted s = CHR 0x22 # concat (map escapeChar s) @ [CHR 0x22]"

fun jsonStringify :: "json \<Rightarrow> string" where
  "jsonStringify JNull = ''null''"
| "jsonStringify (JBool b) = (if b then ''true'' else ''false'')"
| "jsonStringify (JNum x) = (if isFinite x then number_to_string x else ''null'')"
| "jsonStringify (JStr s) = quoted s"
| "jsonStringify (JArr vs) = ''['' @ join '','' (map jsonStringify vs) @ '']''"
| "jsonStringify (JObj kvs) =
     ''{'' @ join '','' (map (\<lambda>(k, v). quoted k @ '':'' @ jsonStringify v) kvs) @ ''}''"

section \<open>Canonical form\<close>

fun stableSortObject :: "collator \<Rightarrow> json \<Rightarrow> json" where
  "stableSortObject lc (JArr vs) = JArr (map (stableSortObject lc) vs)"
| "stableSortObject lc (JObj kvs) =
     JObj (arraySort (key fst lc) (map (\<lambda>(k, v). (k, stableSortObject lc v)) kvs))"
| "stableSortObject lc v = v"

definition stableStringify :: "collator \<Rightarrow> json \<Rightarrow> string" where
  "stableStringify lc v = jsonStringify (stableSortObject lc v)"

section \<open>Reading a quoted string back\<close>

definition hexValue :: "char \<Rightarrow> nat" where
  "hexValue c = (let n = of_char c in if n < 58 then n - 48 else n - 87)"

definition unescapeLetter :: "char \<Rightarrow> char" where
  "unescapeLetter d =
     (if d = CHR ''b'' then CHR 0x08 else if d = CHR ''t'' then CHR 0x09
      else if d = CHR ''n'' then CHR 0x0A else if d = CHR ''f'' then CHR 0x0C
      else if d = CHR ''r'' then CHR 0x0D else d)"

fun unescape1 :: "string \<Rightarrow> (char \<times> string) option" where
  "unescape1 [] = None"
| "unescape1 (c # cs) =
     (if c = CHR 0x22 then None
      else if c \<noteq> CHR 0x5C then Some (c, cs)
      else (case cs of
          d # ds \<Rightarrow>
            (if d = CHR ''u'' then
               (case ds of z # y # h # l # r \<Rightarrow> Some (char_of (16 * hexValue h + hexValue l), r) | _ \<Rightarrow> None)
             else Some (unescapeLetter d, ds))
        | [] \<Rightarrow> None))"

lemma hexValue_hexDigit: "n < 16 \<Longrightarrow> hexValue (hexDigit n) = n"
  by (simp add: hexValue_def hexDigit_def)

lemma hexDigits_char:
  "(of_char c :: nat) < 32 \<Longrightarrow>
    char_of (16 * hexValue (hexDigit (of_char c div 16)) + hexValue (hexDigit (of_char c mod 16))) = c"
  by (simp add: hexValue_hexDigit)

lemma unescape1_special:
  "unescape1 (escapeChar (CHR 0x22) @ x) = Some (CHR 0x22, x)"
  "unescape1 (escapeChar (CHR 0x5C) @ x) = Some (CHR 0x5C, x)"
  "unescape1 (escapeChar (CHR 0x08) @ x) = Some (CHR 0x08, x)"
  "unescape1 (escapeChar (CHR 0x09) @ x) = Some (CHR 0x09, x)"
  "unescape1 (escapeChar (CHR 0x0A) @ x) = Some (CHR 0x0A, x)"
  "unescape1 (escapeChar (CHR 0x0C) @ x) = Some (CHR 0x0C, x)"
  "unescape1 (escapeChar (CHR 0x0D) @ x) = Some (CHR 0x0D, x)"
  by (simp_all add: escapeChar_def unescapeLetter_def)

definition namedEscapes :: string where
  "namedEscapes = [CHR 0x22, CHR 0x5C, CHR 0x08, CHR 0x09, CHR 0x0A, CHR 0x0C, CHR 0x0D]"

lemma unescape1_named: "c \<in> set namedEscapes \<Longrightarrow> unescape1 (escapeChar c @ x) = Some (c, x)"
proof -
  have "\<forall>c\<in>set namedEscapes. unescape1 (escapeChar c @ x) = Some (c, x)"
    unfolding namedEscapes_def
    by (simp only: list.set ball_simps unescape1_special simp_thms)
  then show "c \<in> set namedEscapes \<Longrightarrow> unescape1 (escapeChar c @ x) = Some (c, x)" by (rule bspec)
qed

lemma unescape1_plain:
  assumes "c \<notin> set namedEscapes"
  shows "unescape1 (escapeChar c @ x) = Some (c, x)"
proof (cases "(of_char c :: nat) < 32")
  case True
  then show ?thesis using assms by (simp add: escapeChar_def hexDigits_char namedEscapes_def)
next
  case False
  then show ?thesis using assms by (simp add: escapeChar_def namedEscapes_def)
qed

lemma unescape1_escapeChar: "unescape1 (escapeChar c @ x) = Some (c, x)"
  by (cases "c \<in> set namedEscapes") (rule unescape1_named unescape1_plain, assumption)+

lemma escapeChar_not_quote: "escapeChar c @ x \<noteq> CHR 0x22 # y"
  by (metis unescape1_escapeChar unescape1.simps(2) option.distinct(1))

lemma escapeChar_prefix: "escapeChar c @ x = escapeChar d @ y \<Longrightarrow> c = d \<and> x = y"
  by (drule arg_cong [where f = unescape1]) (simp only: unescape1_escapeChar option.inject prod.inject)

lemma escaped_body_inj:
  "concat (map escapeChar s) @ CHR 0x22 # r = concat (map escapeChar t) @ CHR 0x22 # r'
    \<Longrightarrow> s = t \<and> r = r'"
proof (induction s arbitrary: t)
  case Nil
  then show ?case
    using escapeChar_not_quote by (cases t) (auto simp: eq_commute [of "CHR 0x22 # r"])
next
  case (Cons c s)
  show ?case
  proof (cases t)
    case Nil
    with Cons.prems show ?thesis using escapeChar_not_quote by auto
  next
    case (Cons d t')
    with Cons.prems have "escapeChar c @ (concat (map escapeChar s) @ CHR 0x22 # r)
        = escapeChar d @ (concat (map escapeChar t') @ CHR 0x22 # r')" by simp
    then have "c = d" and "concat (map escapeChar s) @ CHR 0x22 # r = concat (map escapeChar t') @ CHR 0x22 # r'"
      using escapeChar_prefix by blast+
    with Cons.IH Cons show ?thesis by blast
  qed
qed

lemma quoted_prefix: "quoted s @ r = quoted t @ r' \<Longrightarrow> s = t \<and> r = r'"
  using escaped_body_inj [of s r t r'] by (simp add: quoted_def)

lemma quoted_inj [simp]: "quoted s = quoted t \<longleftrightarrow> s = t"
  using quoted_prefix [of s "[]" t "[]"] by auto

definition strings :: "string list \<Rightarrow> json" where
  "strings xs = JArr (map JStr xs)"

lemma stableStringify_strings:
  "stableStringify lc (strings xs) = ''['' @ join '','' (map quoted xs) @ '']''"
  by (simp add: stableStringify_def strings_def comp_def)

lemma join_quoted_inj:
  "join '','' (map quoted xs) @ '']'' = join '','' (map quoted ys) @ '']'' \<Longrightarrow> xs = ys"
proof (induction xs arbitrary: ys)
  case Nil
  then show ?case by (cases ys rule: remdups_adj.cases) (auto simp: quoted_def)
next
  case (Cons x xs)
  show ?case
  proof (cases ys)
    case Nil
    with Cons.prems show ?thesis by (cases xs) (auto simp: quoted_def)
  next
    case (Cons y ys')
    let ?tail = "\<lambda>zs. case zs of [] \<Rightarrow> '']'' | _ \<Rightarrow> '','' @ join '','' (map quoted zs) @ '']''"
    have split: "join '','' (map quoted (z # zs)) @ '']'' = quoted z @ ?tail zs" for z zs
      by (cases zs) auto
    from Cons.prems Cons have "quoted x @ ?tail xs = quoted y @ ?tail ys'"
      by (simp only: split)
    then have "x = y" and tails: "?tail xs = ?tail ys'"
      using quoted_prefix by blast+
    from tails have "xs = ys'"
      using Cons.IH [of ys'] by (cases xs; cases ys') auto
    with \<open>x = y\<close> Cons show ?thesis by simp
  qed
qed

text \<open>Two arrays of strings have the same canonical text only if they are equal.\<close>

lemma stableStringify_strings_inj [simp]:
  "stableStringify lc (strings xs) = stableStringify lc (strings ys) \<longleftrightarrow> xs = ys"
  using join_quoted_inj [of xs ys] by (auto simp: stableStringify_strings)

section \<open>Lengths\<close>

text \<open>Sorting the keys permutes the members of an object, so the length of its text is the sum
  over the members.\<close>

lemma length_join: "length (join [c] xs) = sum_list (map length xs) + (length xs - 1)"
  by (induction "[c]" xs rule: join.induct) simp_all

lemma sum_list_sort: "sum_list (map f (arraySort c xs)) = (sum_list (map f xs) :: nat)"
  using arg_cong [OF mset_sort [of c xs], of "\<lambda>m. sum_mset (image_mset f m)"]
  by (simp add: sum_mset_sum_list [symmetric])

lemma length_sortedObject:
  "length (stableStringify lc (JObj kvs)) =
     2 + sum_list (map (\<lambda>(k, v). length (quoted k) + 1 + length (stableStringify lc v)) kvs) + (length kvs - 1)"
  by (simp add: stableStringify_def length_join comp_def case_prod_unfold sum_list_sort)

end
