(* ===== verification/Contracts.thy ===== *)
theory Contracts
  imports Json_Text
begin

text \<open>
  The contract layer the services share (libs/shared/src/effect/contracts and errors.ts):
  the schema checks on identifiers and numbers, the decoder that turns a failed check into
  a \<open>ContractValidationError\<close>, and the host functions the code calls but does not contain
  (collation, SHA-256, the schema library's issue formatter), collected in a record.
\<close>

section \<open>Host functions\<close>

record host =
  localeCompare :: collator
  sha256 :: "string \<Rightarrow> string"
  formatIssue :: "string \<Rightarrow> json \<Rightarrow> string"

text \<open>A host for the concrete examples: code units compared by the length of the string, and
  the identity in place of the hash. Nothing is proved for this host only.\<close>

definition sampleHost :: host where
  "sampleHost = \<lparr>localeCompare = ascending length, sha256 = (\<lambda>s. s), formatIssue = (\<lambda>c j. c)\<rparr>"

section \<open>Errors\<close>

record ContractValidationError =
  contract :: string
  message :: string
  details :: string

definition mkContractValidationError :: "string \<Rightarrow> string \<Rightarrow> string \<Rightarrow> ContractValidationError" where
  "mkContractValidationError c m d = \<lparr>contract = c, message = m, details = d\<rparr>"

text \<open>\<open>Effect.fail(new E(fields))\<close> for an error class declared by \<open>Schema.TaggedErrorClass\<close>: the
  constructor checks the fields against the class's schema and throws when they do not
  conform, which inside \<open>Effect.suspend\<close> is a defect.\<close>

definition failNew :: "('e \<Rightarrow> bool) \<Rightarrow> 'e \<Rightarrow> ('e, 'a) exit" where
  "failNew schema e = (if schema e then Fail e else Die e)"

lemma failNew_ne [simp]: "failNew schema e \<noteq> Succeed x" "Succeed x \<noteq> failNew schema e"
  by (simp_all add: failNew_def)

section \<open>Schema checks\<close>

text \<open>\<open>isTrimmed\<close> and \<open>isNonEmpty\<close>: branded identifiers and non-empty trimmed strings.\<close>

definition nonEmptyTrimmedString :: "string \<Rightarrow> bool" where
  "nonEmptyTrimmedString s = (trim s = s \<and> s \<noteq> [])"

definition maxSafeInteger :: int where
  "maxSafeInteger = 9007199254740991"

definition isSafeInteger :: "int \<Rightarrow> bool" where
  "isSafeInteger n = (\<bar>n\<bar> \<le> maxSafeInteger)"

definition nonNegativeInt :: "int \<Rightarrow> bool" where
  "nonNegativeInt n = (isSafeInteger n \<and> 0 \<le> n)"

definition isBetween :: "rat \<Rightarrow> rat \<Rightarrow> jsnum \<Rightarrow> bool" where
  "isBetween lo hi x = (jle (JFin lo) x \<and> jle x (JFin hi))"

text \<open>\<open>decodeUnknownEffect\<close>: the input itself when the schema accepts it, otherwise a typed
  failure that names the contract.\<close>

definition decodeUnknownEffect ::
  "host \<Rightarrow> ('a \<Rightarrow> bool) \<Rightarrow> string \<Rightarrow> ('a \<Rightarrow> json) \<Rightarrow> 'a \<Rightarrow> (ContractValidationError, 'a) result" where
  "decodeUnknownEffect h schema c toJson input =
     (if schema input then Inr input
      else Inl (mkContractValidationError c (''Contract validation failed for '' @ c)
                  (formatIssue h c (toJson input))))"

lemma decodeUnknownEffect_Inr [simp]:
  "decodeUnknownEffect h schema c toJson input = Inr x \<longleftrightarrow> schema input \<and> x = input"
  by (auto simp: decodeUnknownEffect_def)

lemma isBetween_finite: "isBetween lo hi x \<Longrightarrow> \<exists>r. x = JFin r \<and> lo \<le> r \<and> r \<le> hi"
  by (cases x) (auto simp: isBetween_def jle_def jeq_def)

lemma sample_identifiers [simp]:
  "nonEmptyTrimmedString ''a''" "nonEmptyTrimmedString ''b''" "nonEmptyTrimmedString ''c''"
  by (simp_all add: nonEmptyTrimmedString_def trim_def isWhiteSpace_def)

end
