(* ===== verification/Idempotent_Calls.thy ===== *)
theory Idempotent_Calls
  imports Ums_Prelude
begin

text \<open>
  The interface of a service that answers a repeated request from a response cache: the
  locale \<open>response_cache\<close> fixes one step of the service (the result of a call and the next
  state) and the cache's view of a request, and promises that a hit is answered without
  touching the state, that a success is cached, that a failure leaves the state alone and
  that no call evicts another call's answer. Its lemmas are about whole histories of calls.
\<close>

text \<open>The state after a list of calls, whatever their results.\<close>

fun runAll :: "('q \<Rightarrow> 's \<Rightarrow> 'x \<times> 's) \<Rightarrow> 'q list \<Rightarrow> 's \<Rightarrow> 's" where
  "runAll step [] s = s"
| "runAll step (q # qs) s = runAll step qs (snd (step q s))"

lemma runAll_append [simp]: "runAll step (qs @ rs) s = runAll step rs (runAll step qs s)"
  by (induction qs arbitrary: s) simp_all

locale response_cache =
  fixes step :: "'q \<Rightarrow> 's \<Rightarrow> ('e, 'r) exit \<times> 's"
    and cached :: "'q \<Rightarrow> 's \<Rightarrow> 'r option"
  assumes hit: "cached q s = Some r \<Longrightarrow> step q s = (Succeed r, s)"
    and success_cached: "step q s = (Succeed r, s') \<Longrightarrow> cached q s' = Some r"
    and failure_keeps: "step q s = (Fail e, s') \<Longrightarrow> s' = s"
    and no_defect: "fst (step q s) \<noteq> Die e"
    and no_eviction: "cached q s = Some r \<Longrightarrow> cached q (snd (step q' s)) = Some r"
begin

lemma never_evicted: "cached q s = Some r \<Longrightarrow> cached q (runAll step qs s) = Some r"
  by (induction qs arbitrary: s) (simp_all add: no_eviction)

lemma retry: "step q s = (Succeed r, s') \<Longrightarrow> step q s' = (Succeed r, s')"
  by (rule hit [OF success_cached])

text \<open>However many calls come between, a repeated request gets its first answer and changes
  nothing.\<close>

lemma replay:
  assumes "step q s = (Succeed r, s')"
  shows "step q (runAll step qs s') = (Succeed r, runAll step qs s')"
  by (rule hit [OF never_evicted [OF success_cached [OF assms]]])

text \<open>A rejected request can be retried: it left no trace.\<close>

lemma failure_retry: "step q s = (Fail e, s') \<Longrightarrow> s' = s \<and> step q s' = (Fail e, s')"
  using failure_keeps by blast

lemma step_cases:
  obtains r where "fst (step q s) = Succeed r" "cached q (snd (step q s)) = Some r"
  | e where "fst (step q s) = Fail e" "snd (step q s) = s"
proof (cases "step q s")
  case (Pair x s')
  show thesis
  proof (cases x)
    case (Succeed r)
    then show thesis using Pair success_cached that(1) by simp
  next
    case (Fail e)
    then show thesis using Pair failure_keeps that(2) by simp
  next
    case (Die e)
    then show thesis using Pair no_defect [of q s e] by simp
  qed
qed

end

end
