(* ===== verification/Authorization.thy ===== *)
theory Authorization
  imports Contracts
begin

text \<open>
  Role-based access control (libs/shared/src/effect/services/authorization-service.ts): the
  role/action matrix, the decision with its reason code, and the two service operations.
  Roles and actions are the literals of the contract, plus one constructor for any other
  string, which untyped callers can pass and which the code denies. The locale
  \<open>authorization_service\<close> is the interface the identity service relies on.
\<close>

section \<open>Data\<close>

datatype AuthorizationRole = Admin | Lead | Dev | Auditor | OtherRole string

datatype AuthorizationAction =
    MemoryRead | MemoryWrite | MemoryPromote | MemoryDemote | MemoryReplayEval
  | PolicyRead | PolicyWrite | PolicyOverride | ComplianceRead | ComplianceExport
  | OtherAction string

datatype AuthorizationDecisionReasonCode = RBAC_ALLOW | RBAC_DENY_ROLE_ACTION

record AuthorizationRequest =
  req_role :: AuthorizationRole
  req_action :: AuthorizationAction

record AuthorizationResponse =
  role :: AuthorizationRole
  action :: AuthorizationAction
  allowed :: bool
  reasonCode :: AuthorizationDecisionReasonCode
  evaluatedAtMillis :: int

record AuthorizationDeniedError =
  denied_role :: AuthorizationRole
  denied_action :: AuthorizationAction
  denied_reasonCode :: AuthorizationDecisionReasonCode
  denied_evaluatedAtMillis :: int
  denied_message :: string

fun roleName :: "AuthorizationRole \<Rightarrow> string" where
  "roleName Admin = ''admin''"
| "roleName Lead = ''lead''"
| "roleName Dev = ''dev''"
| "roleName Auditor = ''auditor''"
| "roleName (OtherRole s) = s"

definition actionNames :: "(AuthorizationAction \<times> string) list" where
  "actionNames =
    [(MemoryRead, ''memory.read''), (MemoryWrite, ''memory.write''),
     (MemoryPromote, ''memory.promote''), (MemoryDemote, ''memory.demote''),
     (MemoryReplayEval, ''memory.replay_eval''), (PolicyRead, ''policy.read''),
     (PolicyWrite, ''policy.write''), (PolicyOverride, ''policy.override''),
     (ComplianceRead, ''compliance.read''), (ComplianceExport, ''compliance.export'')]"

definition actionName :: "AuthorizationAction \<Rightarrow> string" where
  "actionName a = (case a of OtherAction s \<Rightarrow> s
     | _ \<Rightarrow> (case map_of actionNames a of Some s \<Rightarrow> s | None \<Rightarrow> []))"

text \<open>The action a runtime string stands for.\<close>

definition parseAction :: "string \<Rightarrow> AuthorizationAction" where
  "parseAction s = (case find (\<lambda>p. snd p = s) actionNames of Some p \<Rightarrow> fst p | None \<Rightarrow> OtherAction s)"

section \<open>The matrix and the decision\<close>

fun authorizationRoleActionMatrix :: "AuthorizationRole \<Rightarrow> (AuthorizationAction \<rightharpoonup> bool) option" where
  "authorizationRoleActionMatrix Admin = Some (map_of
    [(MemoryRead, True), (MemoryWrite, True), (MemoryPromote, True), (MemoryDemote, True),
     (MemoryReplayEval, True), (PolicyRead, True), (PolicyWrite, True), (PolicyOverride, True),
     (ComplianceRead, True), (ComplianceExport, True)])"
| "authorizationRoleActionMatrix Lead = Some (map_of
    [(MemoryRead, True), (MemoryWrite, True), (MemoryPromote, True), (MemoryDemote, True),
     (MemoryReplayEval, True), (PolicyRead, True), (PolicyWrite, True), (PolicyOverride, False),
     (ComplianceRead, True), (ComplianceExport, True)])"
| "authorizationRoleActionMatrix Dev = Some (map_of
    [(MemoryRead, True), (MemoryWrite, True), (MemoryPromote, False), (MemoryDemote, False),
     (MemoryReplayEval, True), (PolicyRead, True), (PolicyWrite, False), (PolicyOverride, False),
     (ComplianceRead, False), (ComplianceExport, False)])"
| "authorizationRoleActionMatrix Auditor = Some (map_of
    [(MemoryRead, True), (MemoryWrite, False), (MemoryPromote, False), (MemoryDemote, False),
     (MemoryReplayEval, False), (PolicyRead, True), (PolicyWrite, False), (PolicyOverride, False),
     (ComplianceRead, True), (ComplianceExport, True)])"
| "authorizationRoleActionMatrix (OtherRole s) = None"

definition decisionReasonCode :: "bool \<Rightarrow> AuthorizationDecisionReasonCode" where
  "decisionReasonCode ok = (if ok then RBAC_ALLOW else RBAC_DENY_ROLE_ACTION)"

definition resolvePermission :: "AuthorizationRole \<Rightarrow> AuthorizationAction \<Rightarrow> bool" where
  "resolvePermission r a =
     (case authorizationRoleActionMatrix r of None \<Rightarrow> False | Some roleMatrix \<Rightarrow> roleMatrix a = Some True)"

definition evaluateAuthorizationDecision :: "AuthorizationRequest \<Rightarrow> int \<Rightarrow> AuthorizationResponse" where
  "evaluateAuthorizationDecision request now =
     (let ok = resolvePermission (req_role request) (req_action request)
      in \<lparr>role = req_role request, action = req_action request, allowed = ok,
          reasonCode = decisionReasonCode ok, evaluatedAtMillis = now\<rparr>)"

section \<open>The service (\<open>makeAuthorizationService\<close>; \<open>clock\<close> is the clock's reading)\<close>

definition evaluate ::
  "int \<Rightarrow> AuthorizationRequest \<Rightarrow> (AuthorizationDeniedError, AuthorizationResponse) exit" where
  "evaluate clock request = effect_sync (Inr (evaluateAuthorizationDecision request (max 0 clock)))"

definition knownRole :: "AuthorizationRole \<Rightarrow> bool" where
  "knownRole r = (case r of OtherRole s \<Rightarrow> False | _ \<Rightarrow> True)"

definition knownAction :: "AuthorizationAction \<Rightarrow> bool" where
  "knownAction a = (case a of OtherAction s \<Rightarrow> False | _ \<Rightarrow> True)"

text \<open>The fields the error class accepts.\<close>

definition validAuthorizationDeniedError :: "AuthorizationDeniedError \<Rightarrow> bool" where
  "validAuthorizationDeniedError e =
     (knownRole (denied_role e) \<and> knownAction (denied_action e) \<and> nonNegativeInt (denied_evaluatedAtMillis e))"

definition assertAllowed ::
  "int \<Rightarrow> AuthorizationRequest \<Rightarrow> (AuthorizationDeniedError, AuthorizationResponse) exit" where
  "assertAllowed clock request =
     (let decision = evaluateAuthorizationDecision request (max 0 clock)
      in if allowed decision then Succeed decision
         else failNew validAuthorizationDeniedError
                \<lparr>denied_role = req_role request, denied_action = req_action request,
                 denied_reasonCode = reasonCode decision,
                 denied_evaluatedAtMillis = evaluatedAtMillis decision,
                 denied_message = ''RBAC denied action '' @ [CHR 0x27] @ actionName (req_action request)
                   @ [CHR 0x27] @ '' for role '' @ [CHR 0x27] @ roleName (req_role request) @ [CHR 0x27]\<rparr>)"

section \<open>The interface\<close>

text \<open>
  What a client may rely on: a total \<open>evaluate\<close> whose decision echoes the request, whose
  reason code agrees with its verdict, and which denies what the role's row does not grant.
\<close>

locale authorization_service =
  fixes eval :: "AuthorizationRequest \<Rightarrow> (AuthorizationDeniedError, AuthorizationResponse) exit"
    and granted :: "AuthorizationRole \<Rightarrow> AuthorizationAction \<Rightarrow> bool"
  assumes eval_total: "\<exists>d. eval q = Succeed d"
    and eval_echo: "eval q = Succeed d \<Longrightarrow> role d = req_role q \<and> action d = req_action q"
    and eval_allowed: "eval q = Succeed d \<Longrightarrow> allowed d \<longleftrightarrow> granted (req_role q) (req_action q)"
    and eval_reason: "eval q = Succeed d \<Longrightarrow> reasonCode d = decisionReasonCode (allowed d)"
begin

definition decisionOf :: "AuthorizationRequest \<Rightarrow> AuthorizationResponse" where
  "decisionOf q = (case eval q of Succeed d \<Rightarrow> d | _ \<Rightarrow> undefined)"

lemma eval_decision: "eval q = Succeed (decisionOf q)"
  using eval_total [of q] by (auto simp: decisionOf_def)

lemma decisionOf_echo [simp]:
  "role (decisionOf q) = req_role q" "action (decisionOf q) = req_action q"
  using eval_echo [OF eval_decision] by auto

lemma decisionOf_allowed [simp]: "allowed (decisionOf q) \<longleftrightarrow> granted (req_role q) (req_action q)"
  by (rule eval_allowed [OF eval_decision])

lemma decisionOf_reason [simp]:
  "reasonCode (decisionOf q) = decisionReasonCode (granted (req_role q) (req_action q))"
  using eval_reason [OF eval_decision, of q] by simp

end

lemmas authorization_defs =
  evaluateAuthorizationDecision_def evaluate_def assertAllowed_def Let_def

interpretation rbac: authorization_service "evaluate clock" resolvePermission
  by unfold_locales (auto simp: authorization_defs)

section \<open>Properties\<close>

lemma parseAction_actionName: "\<not> (\<exists>s. a = OtherAction s) \<Longrightarrow> parseAction (actionName a) = a"
  by (cases a) (simp_all add: parseAction_def actionName_def actionNames_def)

lemma resolvePermission_simps [simp]:
  "resolvePermission (OtherRole s) a = False"
  "resolvePermission r (OtherAction s) = False"
  by (simp_all add: resolvePermission_def, cases r, simp_all)

text \<open>C6: The matrix is a hierarchy and fails closed. Whatever a dev or an auditor may do a
  lead may do, whatever a lead may do an admin may do; only an admin may override policy;
  an unknown role or an unknown action is never permitted.\<close>

theorem rbac_hierarchy:
  "(resolvePermission Dev a \<or> resolvePermission Auditor a \<longrightarrow> resolvePermission Lead a)
   \<and> (resolvePermission Lead a \<longrightarrow> resolvePermission Admin a)
   \<and> (resolvePermission r PolicyOverride \<longleftrightarrow> r = Admin)
   \<and> \<not> resolvePermission (OtherRole s) a \<and> \<not> resolvePermission r (OtherAction s)"
proof -
  have "resolvePermission r PolicyOverride \<longleftrightarrow> r = Admin"
    by (cases r) (simp_all add: resolvePermission_def)
  moreover have "(resolvePermission Dev a \<or> resolvePermission Auditor a \<longrightarrow> resolvePermission Lead a)
      \<and> (resolvePermission Lead a \<longrightarrow> resolvePermission Admin a)"
    by (cases a) (simp_all add: resolvePermission_def)
  ultimately show ?thesis by simp
qed

theorem rbac_hierarchy_witness:
  "resolvePermission Lead MemoryRead \<and> resolvePermission Admin MemoryRead"
proof -
  have "resolvePermission Dev MemoryRead" by (simp add: resolvePermission_def)
  then show ?thesis using rbac_hierarchy [of MemoryRead Dev "''x''"] by blast
qed

text \<open>\<open>assertAllowed\<close> enforces exactly what \<open>evaluate\<close> decides: it succeeds, with the
  decision, if and only if the role's row grants the action; a denial of a role and an action
  of the contract is a typed failure that carries the request, the deny code and the time of
  the decision, and never a defect.\<close>

theorem assertAllowed_enforces:
  assumes "isSafeInteger clock"
  shows "((\<exists>d. assertAllowed clock q = Succeed d) \<longleftrightarrow> resolvePermission (req_role q) (req_action q))
    \<and> (assertAllowed clock q = Succeed d \<longrightarrow> evaluate clock q = Succeed d \<and> allowed d \<and> reasonCode d = RBAC_ALLOW)
    \<and> (knownRole (req_role q) \<and> knownAction (req_action q) \<and> \<not> resolvePermission (req_role q) (req_action q) \<longrightarrow>
        (\<exists>e d. assertAllowed clock q = Fail e \<and> evaluate clock q = Succeed d \<and> \<not> allowed d
          \<and> denied_role e = req_role q \<and> denied_action e = req_action q
          \<and> denied_reasonCode e = RBAC_DENY_ROLE_ACTION
          \<and> denied_evaluatedAtMillis e = evaluatedAtMillis d \<and> 0 \<le> evaluatedAtMillis d))"
proof -
  have "nonNegativeInt (max 0 clock)" using assms by (auto simp: nonNegativeInt_def isSafeInteger_def maxSafeInteger_def)
  then show ?thesis
    by (simp add: authorization_defs decisionReasonCode_def failNew_def validAuthorizationDeniedError_def) auto
qed

theorem assertAllowed_enforces_witness:
  "\<exists>e. assertAllowed 5 \<lparr>req_role = Dev, req_action = PolicyWrite\<rparr> = Fail e \<and> denied_role e = Dev"
proof -
  have "isSafeInteger 5" by (simp add: isSafeInteger_def maxSafeInteger_def)
  from assertAllowed_enforces [OF this, of "\<lparr>req_role = Dev, req_action = PolicyWrite\<rparr>"]
  show ?thesis by (auto simp: knownRole_def knownAction_def resolvePermission_def)
qed

end
