(* ===== verification/Tenant_Routing.thy ===== *)
theory Tenant_Routing
  imports Contracts
begin

text \<open>
  Tenant routing (libs/shared/src/effect/services/tenant-routing-service.ts): the decision
  that maps identity claims and an issuer to a tenant of the catalog, with its indexes
  (tenants by id, by slug, by issuer) built by the code's loops, and the two service
  operations. The locale \<open>tenant_router\<close> is the interface the identity service relies on.
\<close>

section \<open>Data\<close>

type_synonym TenantId = string

datatype TenantRouteResolutionSource = Tenant_id_claim | Tenant_slug_claim | Issuer_binding

datatype TenantRouteDenyReasonCode = TENANT_ROUTE_MISSING | TENANT_ROUTE_CONFLICT | TENANT_ISSUER_MISMATCH

record TenantCatalogEntry =
  tenantId :: TenantId
  tenantSlug :: string

record TenantIssuerBinding =
  ib_issuer :: string
  ib_tenantId :: TenantId

record TenantRoutingRequest =
  tenantIdClaim :: "TenantId option"
  tenantSlugClaim :: "string option"
  issuer :: "string option"
  tenants :: "TenantCatalogEntry list"
  issuerBindings :: "TenantIssuerBinding list"

record TenantRoutingResponse =
  resolved :: bool
  routedTenantId :: "TenantId option"
  routeSource :: "TenantRouteResolutionSource option"
  denyReasonCode :: "TenantRouteDenyReasonCode option"
  candidateTenantIds :: "TenantId list"
  routedAtMillis :: int

record TenantRoutingCandidate =
  cand_source :: TenantRouteResolutionSource
  cand_tenantId :: TenantId

record TenantRoutingDeniedError =
  err_denyReasonCode :: TenantRouteDenyReasonCode
  err_tenantId :: "TenantId option"
  err_candidateTenantIds :: "TenantId list"
  err_evaluatedAtMillis :: int
  err_message :: string

fun denyCodeName :: "TenantRouteDenyReasonCode \<Rightarrow> string" where
  "denyCodeName TENANT_ROUTE_MISSING = ''TENANT_ROUTE_MISSING''"
| "denyCodeName TENANT_ROUTE_CONFLICT = ''TENANT_ROUTE_CONFLICT''"
| "denyCodeName TENANT_ISSUER_MISMATCH = ''TENANT_ISSUER_MISMATCH''"

section \<open>Helpers\<close>

definition normalizeLookupValue :: "string \<Rightarrow> string" where
  "normalizeLookupValue value = toLowerCase (trim value)"

type_synonym TenantIndex = "TenantId \<rightharpoonup> TenantCatalogEntry"

definition pushCandidateIfKnown ::
  "TenantRoutingCandidate list \<Rightarrow> TenantIndex \<Rightarrow> TenantRouteResolutionSource \<Rightarrow> TenantId option
    \<Rightarrow> TenantRoutingCandidate list" where
  "pushCandidateIfKnown candidates tenantById source t =
     (case t of None \<Rightarrow> candidates
      | Some tid \<Rightarrow> if tenantById tid = None then candidates
          else candidates @ [\<lparr>cand_source = source, cand_tenantId = tid\<rparr>])"

text \<open>\<open>dedupeTenantIds\<close>: the loop with its \<open>seen\<close> set and output array.\<close>

fun dedupeLoop :: "TenantId set \<Rightarrow> TenantId list \<Rightarrow> TenantId list \<Rightarrow> TenantId list" where
  "dedupeLoop seen deduped [] = deduped"
| "dedupeLoop seen deduped (t # ts) =
     (if t \<in> seen then dedupeLoop seen deduped ts
      else dedupeLoop (insert t seen) (deduped @ [t]) ts)"

definition dedupeTenantIds :: "TenantId list \<Rightarrow> TenantId list" where
  "dedupeTenantIds ts = dedupeLoop {} [] ts"

definition canonicalizeTenantIds :: "collator \<Rightarrow> TenantId list \<Rightarrow> TenantId list" where
  "canonicalizeTenantIds lc ts = arraySort lc (dedupeTenantIds ts)"

definition toDeniedResponse ::
  "TenantRouteDenyReasonCode \<Rightarrow> int \<Rightarrow> TenantId list \<Rightarrow> TenantId option \<Rightarrow> TenantRoutingResponse" where
  "toDeniedResponse code now candidates t =
     \<lparr>resolved = False, routedTenantId = t, routeSource = None, denyReasonCode = Some code,
      candidateTenantIds = candidates, routedAtMillis = now\<rparr>"

section \<open>The indexes\<close>

fun indexById :: "TenantIndex \<Rightarrow> TenantCatalogEntry list \<Rightarrow> TenantIndex" where
  "indexById m [] = m"
| "indexById m (t # ts) =
     (if m (tenantId t) \<noteq> None then indexById m ts else indexById (m(tenantId t \<mapsto> t)) ts)"

fun indexBySlug ::
  "(string \<rightharpoonup> TenantId) \<Rightarrow> TenantId list \<Rightarrow> TenantCatalogEntry list
    \<Rightarrow> (string \<rightharpoonup> TenantId) \<times> TenantId list" where
  "indexBySlug m conflicting [] = (m, conflicting)"
| "indexBySlug m conflicting (t # ts) =
     (let slugKey = normalizeLookupValue (tenantSlug t)
      in case m slugKey of
           None \<Rightarrow> indexBySlug (m(slugKey \<mapsto> tenantId t)) conflicting ts
         | Some existing \<Rightarrow>
             if existing \<noteq> tenantId t then indexBySlug m (conflicting @ [existing, tenantId t]) ts
             else indexBySlug m conflicting ts)"

text \<open>The result is the issuer map, the conflicting tenants, and the issuers with a binding
  to a tenant outside the catalog.\<close>

fun indexByIssuer ::
  "TenantIndex \<Rightarrow> (string \<rightharpoonup> TenantId) \<Rightarrow> TenantId list \<Rightarrow> string set \<Rightarrow> TenantIssuerBinding list
    \<Rightarrow> (string \<rightharpoonup> TenantId) \<times> TenantId list \<times> string set" where
  "indexByIssuer byId m conflicting invalid [] = (m, conflicting, invalid)"
| "indexByIssuer byId m conflicting invalid (b # bs) =
     (let issuerKey = normalizeLookupValue (ib_issuer b)
      in if byId (ib_tenantId b) = None then indexByIssuer byId m conflicting (insert issuerKey invalid) bs
         else (case m issuerKey of
             None \<Rightarrow> indexByIssuer byId (m(issuerKey \<mapsto> ib_tenantId b)) conflicting invalid bs
           | Some existing \<Rightarrow>
               if existing \<noteq> ib_tenantId b
               then indexByIssuer byId m (conflicting @ [existing, ib_tenantId b]) invalid bs
               else indexByIssuer byId m conflicting invalid bs))"

section \<open>The decision\<close>

definition optionList :: "'a option \<Rightarrow> 'a list" where
  "optionList x = (case x of None \<Rightarrow> [] | Some y \<Rightarrow> [y])"

definition firstOf :: "'a list \<Rightarrow> 'a option" where
  "firstOf xs = (case xs of [] \<Rightarrow> None | x # _ \<Rightarrow> Some x)"

definition claimCandidatesOf ::
  "TenantRoutingRequest \<Rightarrow> TenantIndex \<Rightarrow> (string \<rightharpoonup> TenantId) \<Rightarrow> TenantRoutingCandidate list" where
  "claimCandidatesOf request byId bySlug =
     pushCandidateIfKnown
       (pushCandidateIfKnown [] byId Tenant_id_claim (tenantIdClaim request))
       byId Tenant_slug_claim
       (case tenantSlugClaim request of None \<Rightarrow> None | Some slug \<Rightarrow> bySlug (normalizeLookupValue slug))"

text \<open>The last two statements of the decision, reached when neither a claim nor a binding
  routes the request.\<close>

definition routeMissing ::
  "collator \<Rightarrow> TenantRoutingRequest \<Rightarrow> int \<Rightarrow> TenantRoutingCandidate list \<Rightarrow> TenantId option
    \<Rightarrow> TenantRoutingResponse" where
  "routeMissing lc request now claimCandidates issuerBoundTenantId =
    (let candidates = canonicalizeTenantIds lc (map cand_tenantId claimCandidates);
         code = (if issuer request \<noteq> None \<and> issuerBoundTenantId = None \<and> 0 < length candidates
                 then TENANT_ISSUER_MISMATCH else TENANT_ROUTE_MISSING)
     in (toDeniedResponse code now candidates None)\<lparr>routedTenantId := firstOf candidates\<rparr>)"

text \<open>The part of \<open>evaluateTenantRoutingDecision\<close> after the indexes are built and no route
  is duplicated.\<close>

definition decideRoute ::
  "collator \<Rightarrow> TenantRoutingRequest \<Rightarrow> int \<Rightarrow> TenantIndex \<Rightarrow> TenantRoutingCandidate list
    \<Rightarrow> TenantId option \<Rightarrow> bool \<Rightarrow> TenantRoutingResponse" where
  "decideRoute lc request now byId claimCandidates issuerBoundTenantId hasInvalidIssuerBinding =
    (let claimTenantIds = dedupeTenantIds (map cand_tenantId claimCandidates) in
     if 1 < length claimTenantIds then toDeniedResponse TENANT_ROUTE_CONFLICT now claimTenantIds None
     else if hasInvalidIssuerBinding then
       (let invalidBindingCandidates =
          canonicalizeTenantIds lc (map cand_tenantId claimCandidates @ optionList issuerBoundTenantId)
        in toDeniedResponse TENANT_ISSUER_MISMATCH now invalidBindingCandidates (firstOf invalidBindingCandidates))
     else (case claimCandidates of
         c # _ \<Rightarrow>
           if issuer request \<noteq> None \<and> issuerBoundTenantId \<noteq> Some (cand_tenantId c)
           then toDeniedResponse TENANT_ISSUER_MISMATCH now
                  (dedupeTenantIds (cand_tenantId c # optionList issuerBoundTenantId)) (Some (cand_tenantId c))
           else \<lparr>resolved = True, routedTenantId = Some (cand_tenantId c), routeSource = Some (cand_source c),
                 denyReasonCode = None, candidateTenantIds = [cand_tenantId c], routedAtMillis = now\<rparr>
       | [] \<Rightarrow>
           (case issuerBoundTenantId of
              None \<Rightarrow> routeMissing lc request now claimCandidates issuerBoundTenantId
            | Some t \<Rightarrow>
                if issuer request \<noteq> None \<and> byId t \<noteq> None
                then \<lparr>resolved = True, routedTenantId = Some t, routeSource = Some Issuer_binding,
                      denyReasonCode = None, candidateTenantIds = [t], routedAtMillis = now\<rparr>
                else routeMissing lc request now claimCandidates issuerBoundTenantId)))"

definition evaluateTenantRoutingDecision ::
  "collator \<Rightarrow> TenantRoutingRequest \<Rightarrow> int \<Rightarrow> TenantRoutingResponse" where
  "evaluateTenantRoutingDecision lc request now =
    (let byId = indexById Map.empty (tenants request);
         (bySlug, conflictingSlug) = indexBySlug Map.empty [] (tenants request);
         (byIssuer, conflictingIssuer, invalidIssuers) =
           indexByIssuer byId Map.empty [] {} (issuerBindings request);
         duplicateRouteTenantIds = canonicalizeTenantIds lc (conflictingSlug @ conflictingIssuer)
     in if duplicateRouteTenantIds \<noteq> []
        then toDeniedResponse TENANT_ROUTE_CONFLICT now duplicateRouteTenantIds None
        else decideRoute lc request now byId (claimCandidatesOf request byId bySlug)
               (case issuer request of None \<Rightarrow> None | Some i \<Rightarrow> byIssuer (normalizeLookupValue i))
               (case issuer request of None \<Rightarrow> False | Some i \<Rightarrow> normalizeLookupValue i \<in> invalidIssuers))"

section \<open>The service (\<open>makeTenantRoutingService\<close>)\<close>

definition resolve ::
  "collator \<Rightarrow> int \<Rightarrow> TenantRoutingRequest \<Rightarrow> (TenantRoutingDeniedError, TenantRoutingResponse) exit" where
  "resolve lc clock request = effect_sync (Inr (evaluateTenantRoutingDecision lc request (max 0 clock)))"

text \<open>The fields the error class accepts.\<close>

definition validTenantRoutingDeniedError :: "TenantRoutingDeniedError \<Rightarrow> bool" where
  "validTenantRoutingDeniedError e =
     ((case err_tenantId e of None \<Rightarrow> True | Some t \<Rightarrow> nonEmptyTrimmedString t)
      \<and> list_all nonEmptyTrimmedString (err_candidateTenantIds e)
      \<and> nonNegativeInt (err_evaluatedAtMillis e))"

definition assertResolved ::
  "collator \<Rightarrow> int \<Rightarrow> TenantRoutingRequest \<Rightarrow> (TenantRoutingDeniedError, TenantRoutingResponse) exit" where
  "assertResolved lc clock request =
    (let decision = evaluateTenantRoutingDecision lc request (max 0 clock);
         code = (case denyReasonCode decision of Some c \<Rightarrow> c | None \<Rightarrow> TENANT_ROUTE_MISSING)
     in if resolved decision then Succeed decision
        else failNew validTenantRoutingDeniedError
               \<lparr>err_denyReasonCode = code, err_tenantId = routedTenantId decision,
                err_candidateTenantIds = candidateTenantIds decision,
                err_evaluatedAtMillis = routedAtMillis decision,
                err_message = ''Tenant routing denied: '' @ denyCodeName code\<rparr>)"

section \<open>The indexes are what they should be\<close>

lemma dedupeLoop_setOrder:
  "dedupeLoop seen deduped ts = deduped @ filter (\<lambda>t. t \<notin> seen) (setOrder ts)"
proof (induction ts arbitrary: seen deduped)
  case Nil
  then show ?case by simp
next
  case (Cons t ts)
  have "filter (\<lambda>x. x \<notin> insert t seen) (setOrder ts) = filter (\<lambda>x. x \<notin> seen) (filter (\<lambda>y. y \<noteq> t) (setOrder ts))"
    by (auto intro: filter_cong)
  moreover have "t \<in> seen \<Longrightarrow>
      filter (\<lambda>x. x \<notin> seen) (filter (\<lambda>y. y \<noteq> t) (setOrder ts)) = filter (\<lambda>x. x \<notin> seen) (setOrder ts)"
    by (auto intro: filter_cong)
  ultimately show ?case by (simp add: Cons.IH)
qed

lemma dedupeTenantIds_setOrder [simp]: "dedupeTenantIds ts = setOrder ts"
  by (simp add: dedupeTenantIds_def dedupeLoop_setOrder)

lemma set_canonicalizeTenantIds [simp]: "set (canonicalizeTenantIds lc ts) = set ts"
  by (simp add: canonicalizeTenantIds_def)

lemma canonicalizeTenantIds_Nil [simp]: "canonicalizeTenantIds lc ts = [] \<longleftrightarrow> ts = []"
  using set_canonicalizeTenantIds [of lc ts] by (cases "canonicalizeTenantIds lc ts"; cases ts) auto

lemma distinct_canonicalizeTenantIds [simp]: "distinct (canonicalizeTenantIds lc ts)"
  using mset_sort [of lc "setOrder ts"] by (simp add: canonicalizeTenantIds_def mset_eq_imp_distinct_iff)

lemma indexById_find:
  "indexById m ts t = (case m t of None \<Rightarrow> find (\<lambda>e. tenantId e = t) ts | Some e \<Rightarrow> Some e)"
  by (induction ts arbitrary: m) (auto split: option.splits)

lemma indexById_None [simp]: "indexById Map.empty ts t = None \<longleftrightarrow> t \<notin> tenantId ` set ts"
  by (auto simp: indexById_find find_None_iff)

abbreviation slugKey :: "TenantCatalogEntry \<Rightarrow> string" where
  "slugKey e \<equiv> normalizeLookupValue (tenantSlug e)"

abbreviation issuerKey :: "TenantIssuerBinding \<Rightarrow> string" where
  "issuerKey b \<equiv> normalizeLookupValue (ib_issuer b)"

lemma indexBySlug_fst:
  "fst (indexBySlug m c ts) k =
     (case m k of Some t \<Rightarrow> Some t | None \<Rightarrow> map_option tenantId (find (\<lambda>e. slugKey e = k) ts))"
  by (induction ts arbitrary: m c) (simp_all add: Let_def split: option.splits)

lemma indexBySlug_conflicts:
  "snd (indexBySlug m c ts) = [] \<longleftrightarrow>
     c = [] \<and> (\<forall>e\<in>set ts. fst (indexBySlug m c ts) (slugKey e) = Some (tenantId e))"
  by (induction ts arbitrary: m c) (auto simp: Let_def indexBySlug_fst split: option.splits)

lemma indexByIssuer_fst:
  "fst (indexByIssuer byId m c v bs) k =
     (case m k of Some t \<Rightarrow> Some t
      | None \<Rightarrow> map_option ib_tenantId (find (\<lambda>b. byId (ib_tenantId b) \<noteq> None \<and> issuerKey b = k) bs))"
  by (induction bs arbitrary: m c v) (auto simp: Let_def split: option.splits)

lemma indexByIssuer_conflicts:
  "fst (snd (indexByIssuer byId m c v bs)) = [] \<longleftrightarrow>
     c = [] \<and> (\<forall>b\<in>set bs. byId (ib_tenantId b) \<noteq> None \<longrightarrow>
       fst (indexByIssuer byId m c v bs) (issuerKey b) = Some (ib_tenantId b))"
  by (induction bs arbitrary: m c v) (auto simp: Let_def indexByIssuer_fst split: option.splits)

lemma indexByIssuer_invalid:
  "snd (snd (indexByIssuer byId m c v bs)) =
     v \<union> issuerKey ` {b \<in> set bs. byId (ib_tenantId b) = None}"
  by (induction bs arbitrary: m c v) (auto simp: Let_def split: option.splits)

section \<open>The decision, without its loops\<close>

text \<open>Two entries or two bindings that compete for a key.\<close>

definition ambiguousCatalog :: "TenantRoutingRequest \<Rightarrow> bool" where
  "ambiguousCatalog q =
     ((\<exists>e\<in>set (tenants q). \<exists>f\<in>set (tenants q). slugKey e = slugKey f \<and> tenantId e \<noteq> tenantId f)
      \<or> (\<exists>b\<in>set (issuerBindings q). \<exists>d\<in>set (issuerBindings q).
           issuerKey b = issuerKey d \<and> ib_tenantId b \<noteq> ib_tenantId d
           \<and> ib_tenantId b \<in> tenantId ` set (tenants q) \<and> ib_tenantId d \<in> tenantId ` set (tenants q)))"

definition issuerTarget :: "TenantRoutingRequest \<Rightarrow> string \<Rightarrow> TenantId option" where
  "issuerTarget q i = map_option ib_tenantId
     (find (\<lambda>b. ib_tenantId b \<in> tenantId ` set (tenants q) \<and> issuerKey b = normalizeLookupValue i)
        (issuerBindings q))"

definition issuerDangling :: "TenantRoutingRequest \<Rightarrow> string \<Rightarrow> bool" where
  "issuerDangling q i =
     (\<exists>b\<in>set (issuerBindings q). ib_tenantId b \<notin> tenantId ` set (tenants q) \<and> issuerKey b = normalizeLookupValue i)"

definition slugTarget :: "TenantRoutingRequest \<Rightarrow> string \<Rightarrow> TenantId option" where
  "slugTarget q slug = map_option tenantId (find (\<lambda>e. slugKey e = normalizeLookupValue slug) (tenants q))"

text \<open>The tenants of the catalog that the claims of a request name, in the code's order.\<close>

definition claimed :: "TenantRoutingRequest \<Rightarrow> TenantRoutingCandidate list" where
  "claimed q =
     (case tenantIdClaim q of
        Some t \<Rightarrow> if t \<in> tenantId ` set (tenants q) then [\<lparr>cand_source = Tenant_id_claim, cand_tenantId = t\<rparr>] else []
      | None \<Rightarrow> [])
     @ (case tenantSlugClaim q of
        Some s \<Rightarrow> (case slugTarget q s of
            Some t \<Rightarrow> [\<lparr>cand_source = Tenant_slug_claim, cand_tenantId = t\<rparr>] | None \<Rightarrow> [])
      | None \<Rightarrow> [])"

lemma find_SomeE:
  assumes "find P xs = Some x" obtains "x \<in> set xs" "P x"
  using find_Some_set [OF assms] by blast

lemma same_target:
  assumes "\<And>x y. x \<in> set xs \<Longrightarrow> y \<in> set xs \<Longrightarrow> P x \<Longrightarrow> P y \<Longrightarrow> k x = k y \<Longrightarrow> v x = v y"
    and "x \<in> set xs" "P x"
  shows "map_option v (find (\<lambda>y. P y \<and> k y = k x) xs) = Some (v x)"
proof -
  obtain y where y: "find (\<lambda>y. P y \<and> k y = k x) xs = Some y"
    using assms(2,3) by (cases "find (\<lambda>y. P y \<and> k y = k x) xs") (auto simp: find_None_iff)
  then have yin: "y \<in> set xs" "P y" "k y = k x" using find_Some_set by fastforce+
  then have "v y = v x" by (intro assms(1) assms(2,3))
  with y show ?thesis by simp
qed

lemma catalog_by_id: "indexById Map.empty ts t \<noteq> None \<longleftrightarrow> t \<in> tenantId ` set ts"
  by simp

lemma no_conflicts:
  fixes q defines "byId \<equiv> indexById Map.empty (tenants q)"
  shows "snd (indexBySlug Map.empty [] (tenants q)) @ fst (snd (indexByIssuer byId Map.empty [] {} (issuerBindings q))) = []
     \<longleftrightarrow> \<not> ambiguousCatalog q"
proof -
  have slug: "snd (indexBySlug Map.empty [] (tenants q)) = [] \<longleftrightarrow>
      \<not> (\<exists>e\<in>set (tenants q). \<exists>f\<in>set (tenants q). slugKey e = slugKey f \<and> tenantId e \<noteq> tenantId f)"
    (is "?L \<longleftrightarrow> \<not> ?R")
  proof
    assume ?L
    then have "\<forall>e\<in>set (tenants q). fst (indexBySlug Map.empty [] (tenants q)) (slugKey e) = Some (tenantId e)"
      by (simp add: indexBySlug_conflicts)
    then show "\<not> ?R" by (metis option.inject)
  next
    assume "\<not> ?R"
    then have "map_option tenantId (find (\<lambda>y. True \<and> slugKey y = slugKey e) (tenants q)) = Some (tenantId e)"
      if "e \<in> set (tenants q)" for e
      using that by (intro same_target) blast+
    then show ?L by (simp add: indexBySlug_conflicts indexBySlug_fst)
  qed
  have issuer: "fst (snd (indexByIssuer byId Map.empty [] {} (issuerBindings q))) = [] \<longleftrightarrow>
      \<not> (\<exists>b\<in>set (issuerBindings q). \<exists>d\<in>set (issuerBindings q).
           issuerKey b = issuerKey d \<and> ib_tenantId b \<noteq> ib_tenantId d
           \<and> ib_tenantId b \<in> tenantId ` set (tenants q) \<and> ib_tenantId d \<in> tenantId ` set (tenants q))"
    (is "?L \<longleftrightarrow> \<not> ?R")
  proof
    assume ?L
    then have "\<forall>b\<in>set (issuerBindings q). byId (ib_tenantId b) \<noteq> None \<longrightarrow>
        fst (indexByIssuer byId Map.empty [] {} (issuerBindings q)) (issuerKey b) = Some (ib_tenantId b)"
      by (simp add: indexByIssuer_conflicts)
    then show "\<not> ?R" unfolding byId_def catalog_by_id by (metis option.inject)
  next
    assume "\<not> ?R"
    then have "map_option ib_tenantId (find (\<lambda>y. byId (ib_tenantId y) \<noteq> None \<and> issuerKey y = issuerKey b) (issuerBindings q))
        = Some (ib_tenantId b)" if "b \<in> set (issuerBindings q)" "byId (ib_tenantId b) \<noteq> None" for b
      using that unfolding byId_def catalog_by_id by (intro same_target) blast+
    then show ?L by (simp add: indexByIssuer_conflicts indexByIssuer_fst)
  qed
  show ?thesis by (simp add: slug issuer ambiguousCatalog_def)
qed

text \<open>The whole decision as a specification over the request.\<close>

definition routeSpec :: "collator \<Rightarrow> TenantRoutingRequest \<Rightarrow> int \<Rightarrow> TenantRoutingResponse \<Rightarrow> bool" where
  "routeSpec lc q now d =
     (if ambiguousCatalog q then
        \<not> resolved d \<and> denyReasonCode d = Some TENANT_ROUTE_CONFLICT \<and> routedTenantId d = None
        \<and> candidateTenantIds d \<noteq> []
      else if 1 < card (cand_tenantId ` set (claimed q)) then
        \<not> resolved d \<and> denyReasonCode d = Some TENANT_ROUTE_CONFLICT \<and> routedTenantId d = None
        \<and> set (candidateTenantIds d) = cand_tenantId ` set (claimed q)
      else if (\<exists>i. issuer q = Some i \<and> issuerDangling q i) then
        \<not> resolved d \<and> denyReasonCode d = Some TENANT_ISSUER_MISMATCH
      else (case (claimed q, issuer q) of
          (c # _, None) \<Rightarrow> resolved d \<and> routedTenantId d = Some (cand_tenantId c) \<and> routeSource d = Some (cand_source c)
        | (c # _, Some i) \<Rightarrow>
            (if issuerTarget q i = Some (cand_tenantId c)
             then resolved d \<and> routedTenantId d = Some (cand_tenantId c) \<and> routeSource d = Some (cand_source c)
             else \<not> resolved d \<and> denyReasonCode d = Some TENANT_ISSUER_MISMATCH)
        | ([], None) \<Rightarrow> \<not> resolved d \<and> denyReasonCode d = Some TENANT_ROUTE_MISSING
        | ([], Some i) \<Rightarrow>
            (case issuerTarget q i of
               Some t \<Rightarrow> resolved d \<and> routedTenantId d = Some t \<and> routeSource d = Some Issuer_binding
             | None \<Rightarrow> \<not> resolved d \<and> denyReasonCode d = Some TENANT_ROUTE_MISSING)))"

lemma claimCandidates_claimed:
  "claimCandidatesOf q (indexById Map.empty (tenants q)) (fst (indexBySlug Map.empty [] (tenants q))) = claimed q"
proof -
  have "e \<in> set (tenants q) \<Longrightarrow> indexById Map.empty (tenants q) (tenantId e) \<noteq> None" for e by simp
  then show ?thesis
    by (auto simp: claimCandidatesOf_def pushCandidateIfKnown_def claimed_def slugTarget_def indexBySlug_fst
        split: option.splits dest!: find_Some_set)
qed

lemma issuerTarget_index:
  "fst (indexByIssuer (indexById Map.empty (tenants q)) Map.empty [] {} (issuerBindings q)) (normalizeLookupValue i)
     = issuerTarget q i"
  by (simp only: indexByIssuer_fst issuerTarget_def catalog_by_id) simp

lemma ran_new: "m k = None \<Longrightarrow> ran (m(k \<mapsto> v)) = insert v (ran m)"
  by simp

lemma indexBySlug_known:
  "set (snd (indexBySlug m c ts)) \<subseteq> set c \<union> ran m \<union> tenantId ` set ts"
proof (induction ts arbitrary: m c)
  case (Cons t ts)
  show ?case
  proof (cases "m (slugKey t)")
    case None
    have "set (snd (indexBySlug (m(slugKey t \<mapsto> tenantId t)) c ts)) \<subseteq> set c \<union> insert (tenantId t) (ran m) \<union> tenantId ` set ts"
      using Cons.IH [of "m(slugKey t \<mapsto> tenantId t)" c]
      unfolding ran_new [where m = m and k = "slugKey t" and v = "tenantId t", OF None] .
    then show ?thesis using None by (simp add: Let_def)
  next
    case (Some x)
    have "x \<in> ran m" using Some by (rule ranI)
    then show ?thesis using Some Cons.IH [of m c] Cons.IH [of m "c @ [x, tenantId t]"]
      by (simp add: Let_def) blast
  qed
qed simp

lemma indexByIssuer_known:
  "set (fst (snd (indexByIssuer byId m c v bs))) \<subseteq> set c \<union> ran m \<union> {t. byId t \<noteq> None}"
proof (induction bs arbitrary: m c v)
  case (Cons b bs)
  show ?case
  proof (cases "byId (ib_tenantId b) = None")
    case True
    then show ?thesis using Cons.IH [of m c "insert (issuerKey b) v"] by (simp add: Let_def)
  next
    case False
    then obtain a where known: "byId (ib_tenantId b) = Some a" by blast
    show ?thesis
    proof (cases "m (issuerKey b)")
      case None
      have "set (fst (snd (indexByIssuer byId (m(issuerKey b \<mapsto> ib_tenantId b)) c v bs)))
          \<subseteq> set c \<union> insert (ib_tenantId b) (ran m) \<union> {t. byId t \<noteq> None}"
        using Cons.IH [of "m(issuerKey b \<mapsto> ib_tenantId b)" c v]
        unfolding ran_new [where m = m and k = "issuerKey b" and v = "ib_tenantId b", OF None] .
      moreover have "ib_tenantId b \<in> {t. byId t \<noteq> None}" using known by simp
      ultimately have "set (fst (snd (indexByIssuer byId (m(issuerKey b \<mapsto> ib_tenantId b)) c v bs)))
          \<subseteq> set c \<union> ran m \<union> {t. byId t \<noteq> None}" by blast
      then show ?thesis using None known by (simp add: Let_def)
    next
      case (Some x)
      have "x \<in> ran m" using Some by (rule ranI)
      then show ?thesis using Some known Cons.IH [of m c v] Cons.IH [of m "c @ [x, ib_tenantId b]" v]
        by (simp add: Let_def) blast
    qed
  qed
qed auto

lemma mem_image_filter: "x \<in> {} \<union> f ` {b \<in> S. P b} \<longleftrightarrow> (\<exists>b\<in>S. P b \<and> f b = x)"
  by auto

lemma issuerDangling_index:
  "normalizeLookupValue i \<in> snd (snd (indexByIssuer (indexById Map.empty (tenants q)) Map.empty [] {} (issuerBindings q)))
     \<longleftrightarrow> issuerDangling q i"
  by (simp only: indexByIssuer_invalid issuerDangling_def indexById_None mem_image_filter)

lemma issuerTarget_known: "issuerTarget q i = Some t \<Longrightarrow> t \<in> tenantId ` set (tenants q)"
  by (auto simp: issuerTarget_def dest!: find_Some_set)

lemma slugTarget_known: "slugTarget q s = Some t \<Longrightarrow> t \<in> tenantId ` set (tenants q)"
  by (auto simp: slugTarget_def dest!: find_Some_set)

lemma claimed_known: "c \<in> set (claimed q) \<Longrightarrow> cand_tenantId c \<in> tenantId ` set (tenants q)"
  by (auto simp: claimed_def split: option.splits if_splits dest!: sym [THEN slugTarget_known] slugTarget_known)

text \<open>The decision in terms of the request alone.\<close>

lemma evaluate_decideRoute:
  "evaluateTenantRoutingDecision lc q now =
    (let byId = indexById Map.empty (tenants q);
         duplicates = canonicalizeTenantIds lc (snd (indexBySlug Map.empty [] (tenants q))
           @ fst (snd (indexByIssuer byId Map.empty [] {} (issuerBindings q))))
     in if ambiguousCatalog q then toDeniedResponse TENANT_ROUTE_CONFLICT now duplicates None
        else decideRoute lc q now byId (claimed q) (Option.bind (issuer q) (issuerTarget q))
               (\<exists>i. issuer q = Some i \<and> issuerDangling q i))"
proof -
  let ?byId = "indexById Map.empty (tenants q)"
  have bound: "(case issuer q of None \<Rightarrow> None
      | Some i \<Rightarrow> fst (indexByIssuer ?byId Map.empty [] {} (issuerBindings q)) (normalizeLookupValue i))
      = Option.bind (issuer q) (issuerTarget q)"
    by (simp add: issuerTarget_index split: option.splits)
  have dangling: "(case issuer q of None \<Rightarrow> False
      | Some i \<Rightarrow> normalizeLookupValue i \<in> snd (snd (indexByIssuer ?byId Map.empty [] {} (issuerBindings q))))
      = (\<exists>i. issuer q = Some i \<and> issuerDangling q i)"
    by (simp add: issuerDangling_index split: option.splits)
  show ?thesis
    unfolding evaluateTenantRoutingDecision_def Let_def case_prod_beta bound dangling claimCandidates_claimed
      canonicalizeTenantIds_Nil
    by (simp only: no_conflicts if_not_P if_P not_not split: if_splits)
qed

lemma at_most_one_claim:
  assumes "\<not> 1 < length (setOrder (map cand_tenantId cs))" and "c \<in> set cs" "d \<in> set cs"
  shows "cand_tenantId c = cand_tenantId d"
proof -
  have "cand_tenantId c \<in> set (setOrder (map cand_tenantId cs))" "cand_tenantId d \<in> set (setOrder (map cand_tenantId cs))"
    using assms(2,3) by simp_all
  then show ?thesis using assms(1) by (cases "setOrder (map cand_tenantId cs)") auto
qed

lemma length_setOrder: "length (setOrder xs) = card (set xs)"
  using distinct_card [OF distinct_setOrder, of xs] by simp

lemma unambiguous_issuer:
  assumes "\<not> ambiguousCatalog q" "\<not> issuerDangling q i" "issuerTarget q i = Some t"
    and "b \<in> set (issuerBindings q)" "issuerKey b = normalizeLookupValue i"
  shows "ib_tenantId b = t"
proof -
  obtain d where d: "d \<in> set (issuerBindings q)" "ib_tenantId d \<in> tenantId ` set (tenants q)"
      "issuerKey d = normalizeLookupValue i" "ib_tenantId d = t"
    using assms(3) by (auto simp: issuerTarget_def dest!: find_Some_set)
  have b: "ib_tenantId b \<in> tenantId ` set (tenants q)"
    using assms(2,4,5) unfolding issuerDangling_def by blast
  have "issuerKey b = issuerKey d" using d(3) assms(5) by (simp only:)
  then have "ib_tenantId b = ib_tenantId d"
    using assms(1,4) d(1,2) b unfolding ambiguousCatalog_def by blast
  then show ?thesis using d(4) by simp
qed

lemma issuerTarget_bound:
  "issuerTarget q i = Some t \<Longrightarrow> \<exists>b\<in>set (issuerBindings q). issuerKey b = normalizeLookupValue i \<and> ib_tenantId b = t"
  by (auto simp: issuerTarget_def dest!: find_Some_set)

text \<open>A route that is granted: its shape and where it comes from.\<close>

lemma denied_not_resolved [simp]: "resolved (toDeniedResponse c now ts t) = False"
  by (simp add: toDeniedResponse_def)

lemma routeMissing_not_resolved [simp]: "resolved (routeMissing lc q now cs b) = False"
  by (simp add: routeMissing_def toDeniedResponse_def Let_def)

lemma decideRoute_resolved:
  assumes "resolved (decideRoute lc q now byId cs bound invalid)"
  shows "\<not> 1 < length (setOrder (map cand_tenantId cs)) \<and> \<not> invalid
    \<and> (\<exists>t src. decideRoute lc q now byId cs bound invalid =
           \<lparr>resolved = True, routedTenantId = Some t, routeSource = Some src, denyReasonCode = None,
            candidateTenantIds = [t], routedAtMillis = now\<rparr>
         \<and> (cs \<noteq> [] \<longrightarrow> t = cand_tenantId (hd cs))
         \<and> (cs = [] \<longrightarrow> issuer q \<noteq> None)
         \<and> (issuer q \<noteq> None \<longrightarrow> bound = Some t))"
  using assms by (cases cs; cases bound) (simp_all add: decideRoute_def Let_def split: if_splits)

lemma resolved_shape:
  assumes "resolved (evaluateTenantRoutingDecision lc q now)"
  shows "\<not> ambiguousCatalog q"
    and "\<not> 1 < length (setOrder (map cand_tenantId (claimed q)))"
    and "issuer q = Some i \<Longrightarrow> \<not> issuerDangling q i"
    and "\<exists>t src. evaluateTenantRoutingDecision lc q now =
           \<lparr>resolved = True, routedTenantId = Some t, routeSource = Some src, denyReasonCode = None,
            candidateTenantIds = [t], routedAtMillis = now\<rparr>
         \<and> (claimed q \<noteq> [] \<longrightarrow> t = cand_tenantId (hd (claimed q)))
         \<and> (claimed q = [] \<longrightarrow> issuer q \<noteq> None)
         \<and> (issuer q \<noteq> None \<longrightarrow> Option.bind (issuer q) (issuerTarget q) = Some t)"
proof -
  show unamb: "\<not> ambiguousCatalog q"
    using assms by (simp add: evaluate_decideRoute Let_def split: if_splits)
  then have eq: "evaluateTenantRoutingDecision lc q now =
      decideRoute lc q now (indexById Map.empty (tenants q)) (claimed q) (Option.bind (issuer q) (issuerTarget q))
        (\<exists>i. issuer q = Some i \<and> issuerDangling q i)"
    by (simp add: evaluate_decideRoute Let_def)
  note d = decideRoute_resolved [OF assms [unfolded eq]]
  show "\<not> 1 < length (setOrder (map cand_tenantId (claimed q)))" using d by blast
  show "issuer q = Some i \<Longrightarrow> \<not> issuerDangling q i" using d by blast
  show "\<exists>t src. evaluateTenantRoutingDecision lc q now =
           \<lparr>resolved = True, routedTenantId = Some t, routeSource = Some src, denyReasonCode = None,
            candidateTenantIds = [t], routedAtMillis = now\<rparr>
         \<and> (claimed q \<noteq> [] \<longrightarrow> t = cand_tenantId (hd (claimed q)))
         \<and> (claimed q = [] \<longrightarrow> issuer q \<noteq> None)
         \<and> (issuer q \<noteq> None \<longrightarrow> Option.bind (issuer q) (issuerTarget q) = Some t)"
    unfolding eq using d by blast
qed

text \<open>C7: The optimised routine (three indexes built by loops, then a cascade of early returns)
  decides exactly what the declarative specification of a route says, for every request and
  every collation.\<close>

theorem evaluateTenantRoutingDecision_refines:
  "routeSpec lc q now (evaluateTenantRoutingDecision lc q now)"
proof (cases "ambiguousCatalog q")
  case True
  then have "snd (indexBySlug Map.empty [] (tenants q))
      @ fst (snd (indexByIssuer (indexById Map.empty (tenants q)) Map.empty [] {} (issuerBindings q))) \<noteq> []"
    by (simp only: no_conflicts) simp
  with True show ?thesis
    by (simp only: evaluate_decideRoute routeSpec_def Let_def if_True toDeniedResponse_def
        TenantRoutingResponse.simps canonicalizeTenantIds_Nil) simp
next
  case False
  show ?thesis
    using issuerTarget_known [of q]
    by (cases "issuer q") (auto simp: False evaluate_decideRoute routeSpec_def decideRoute_def routeMissing_def toDeniedResponse_def
        Let_def length_setOrder optionList_def split: list.splits option.splits)
qed


lemma route_granted:
  assumes "resolved (evaluateTenantRoutingDecision lc q now)"
  shows "\<exists>t src. evaluateTenantRoutingDecision lc q now =
           \<lparr>resolved = True, routedTenantId = Some t, routeSource = Some src, denyReasonCode = None,
            candidateTenantIds = [t], routedAtMillis = now\<rparr>
     \<and> t \<in> tenantId ` set (tenants q)
     \<and> (\<forall>c\<in>set (claimed q). cand_tenantId c = t)
     \<and> (\<forall>i. issuer q = Some i \<longrightarrow>
          (\<exists>b\<in>set (issuerBindings q). issuerKey b = normalizeLookupValue i \<and> ib_tenantId b = t)
          \<and> (\<forall>b\<in>set (issuerBindings q). issuerKey b = normalizeLookupValue i \<longrightarrow> ib_tenantId b = t))"
proof -
  note shape = resolved_shape [OF assms]
  obtain t src where
    eq: "evaluateTenantRoutingDecision lc q now =
           \<lparr>resolved = True, routedTenantId = Some t, routeSource = Some src, denyReasonCode = None,
            candidateTenantIds = [t], routedAtMillis = now\<rparr>"
    and hd: "claimed q \<noteq> [] \<Longrightarrow> t = cand_tenantId (hd (claimed q))"
    and nil: "claimed q = [] \<Longrightarrow> issuer q \<noteq> None"
    and target: "\<And>i. issuer q = Some i \<Longrightarrow> issuerTarget q i = Some t"
    using shape(4) by fastforce
  have "t \<in> tenantId ` set (tenants q)"
    using hd nil target claimed_known [of "hd (claimed q)"] issuerTarget_known by (cases "claimed q = []") auto
  moreover have "\<forall>c\<in>set (claimed q). cand_tenantId c = t"
    using hd at_most_one_claim [OF shape(2)] by (metis list.set_sel(1) empty_iff list.set(1))
  moreover have "\<forall>i. issuer q = Some i \<longrightarrow>
      (\<exists>b\<in>set (issuerBindings q). issuerKey b = normalizeLookupValue i \<and> ib_tenantId b = t)
      \<and> (\<forall>b\<in>set (issuerBindings q). issuerKey b = normalizeLookupValue i \<longrightarrow> ib_tenantId b = t)"
    using target issuerTarget_bound unambiguous_issuer shape(1,3) by blast
  ultimately show ?thesis using eq by blast
qed

lemma routedAtMillis_evaluate: "routedAtMillis (evaluateTenantRoutingDecision lc q now) = now"
  by (simp add: evaluate_decideRoute decideRoute_def routeMissing_def toDeniedResponse_def Let_def
      split: list.split option.split)

text \<open>C18: Soundness of a granted route. The tenant is in the catalog and is the only
  candidate; every claim of the request that names a tenant of the catalog names this one; and
  when an issuer is given it is bound, every binding of it is to this tenant, so no identity
  is routed to a tenant its issuer is not bound to.\<close>

theorem route_sound:
  assumes "resolved (evaluateTenantRoutingDecision lc q now)"
  shows "\<exists>t src. evaluateTenantRoutingDecision lc q now =
           \<lparr>resolved = True, routedTenantId = Some t, routeSource = Some src, denyReasonCode = None,
            candidateTenantIds = [t], routedAtMillis = now\<rparr>
     \<and> t \<in> tenantId ` set (tenants q)
     \<and> (\<forall>c\<in>set (claimed q). cand_tenantId c = t)
     \<and> (\<forall>i. issuer q = Some i \<longrightarrow>
          (\<exists>b\<in>set (issuerBindings q). issuerKey b = normalizeLookupValue i \<and> ib_tenantId b = t)
          \<and> (\<forall>b\<in>set (issuerBindings q). issuerKey b = normalizeLookupValue i \<longrightarrow> ib_tenantId b = t))"
  using assms by (rule route_granted)

theorem route_sound_witness:
  "resolved (evaluateTenantRoutingDecision (localeCompare sampleHost)
     \<lparr>tenantIdClaim = None, tenantSlugClaim = None, issuer = Some ''i'',
      tenants = [\<lparr>tenantId = ''t'', tenantSlug = ''s''\<rparr>], issuerBindings = [\<lparr>ib_issuer = ''i'', ib_tenantId = ''t''\<rparr>]\<rparr> 0)"
proof -
  let ?q = "\<lparr>tenantIdClaim = None, tenantSlugClaim = None, issuer = Some ''i'',
      tenants = [\<lparr>tenantId = ''t'', tenantSlug = ''s''\<rparr>], issuerBindings = [\<lparr>ib_issuer = ''i'', ib_tenantId = ''t''\<rparr>]\<rparr>"
  have "resolved (evaluateTenantRoutingDecision (localeCompare sampleHost) ?q 0)"
    by (simp add: evaluateTenantRoutingDecision_def decideRoute_def claimCandidatesOf_def pushCandidateIfKnown_def
        canonicalizeTenantIds_def Let_def)
  from route_sound [OF this] show ?thesis by auto
qed

section \<open>The interface\<close>

text \<open>What a client of \<open>assertResolved\<close> relies on: no defects, one tenant of the catalog, the
  tenant the issuer is bound to and the tenant the id claim names.\<close>

locale tenant_router =
  fixes route :: "TenantRoutingRequest \<Rightarrow> (TenantRoutingDeniedError, TenantRoutingResponse) exit"
    and clean :: "TenantRoutingRequest \<Rightarrow> bool"
  assumes route_no_defect: "clean q \<Longrightarrow> route q \<noteq> Die e"
    and route_one: "route q = Succeed d \<Longrightarrow>
      \<exists>t. routedTenantId d = Some t \<and> candidateTenantIds d = [t] \<and> t \<in> tenantId ` set (tenants q)"
    and route_bound: "route q = Succeed d \<Longrightarrow> issuer q = Some i \<Longrightarrow>
      \<exists>b\<in>set (issuerBindings q). issuerKey b = normalizeLookupValue i \<and> routedTenantId d = Some (ib_tenantId b)"
    and route_issuer: "route q = Succeed d \<Longrightarrow> issuer q = Some i \<Longrightarrow> b \<in> set (issuerBindings q) \<Longrightarrow>
      issuerKey b = normalizeLookupValue i \<Longrightarrow> routedTenantId d = Some (ib_tenantId b)"
    and route_claim: "route q = Succeed d \<Longrightarrow> tenantIdClaim q = Some c \<Longrightarrow> c \<in> tenantId ` set (tenants q) \<Longrightarrow>
      routedTenantId d = Some c"
begin

lemma routed_cases:
  assumes "clean q"
  obtains d t where "route q = Succeed d" "routedTenantId d = Some t" "t \<in> tenantId ` set (tenants q)"
  | e where "route q = Fail e"
proof (cases "route q")
  case (Succeed d)
  then show thesis using route_one [OF Succeed] that(1) by blast
next
  case (Fail e)
  then show thesis by (rule that(2))
next
  case (Die e)
  then show thesis using route_no_defect [OF assms] by simp
qed

text \<open>Identities of one issuer land in one tenant, whatever they claim.\<close>

lemma same_issuer_same_tenant:
  assumes "route q = Succeed d" "route q' = Succeed d'" "issuer q = Some i" "issuer q' = Some i'"
    and "normalizeLookupValue i = normalizeLookupValue i'" "set (issuerBindings q) = set (issuerBindings q')"
  shows "routedTenantId d = routedTenantId d'"
proof -
  obtain b where "b \<in> set (issuerBindings q)" "issuerKey b = normalizeLookupValue i" "routedTenantId d = Some (ib_tenantId b)"
    using route_bound [OF assms(1,3)] by blast
  with route_issuer [OF assms(2,4), of b] assms(5,6) show ?thesis by simp
qed

text \<open>A claim for a known tenant other than the issuer's is never routed.\<close>

lemma foreign_claim_denied:
  assumes "issuer q = Some i" "b \<in> set (issuerBindings q)" "issuerKey b = normalizeLookupValue i"
    and "tenantIdClaim q = Some c" "c \<in> tenantId ` set (tenants q)" "c \<noteq> ib_tenantId b"
  shows "route q \<noteq> Succeed d" and "clean q \<Longrightarrow> \<exists>e. route q = Fail e"
proof -
  show never: "route q \<noteq> Succeed d" for d
  proof
    assume ok: "route q = Succeed d"
    show False using route_claim [OF ok assms(4,5)] route_issuer [OF ok assms(1,2,3)] assms(6) by simp
  qed
  show "\<exists>e. route q = Fail e" if "clean q" using that never by (cases q rule: routed_cases) blast+
qed

end

lemma assertResolved_Succeed:
  "assertResolved lc clock q = Succeed d \<longleftrightarrow>
     d = evaluateTenantRoutingDecision lc q (max 0 clock) \<and> resolved d"
proof (cases "resolved (evaluateTenantRoutingDecision lc q (max 0 clock))")
  case True
  then have "assertResolved lc clock q = Succeed (evaluateTenantRoutingDecision lc q (max 0 clock))"
    by (simp only: assertResolved_def Let_def if_True)
  with True show ?thesis by (metis exit.inject(1))
next
  case False
  then have "assertResolved lc clock q \<noteq> Succeed d"
    by (simp only: assertResolved_def Let_def if_False failNew_ne simp_thms)
  with False show ?thesis by blast
qed

lemma claimed_id: "tenantIdClaim q = Some c \<Longrightarrow> c \<in> tenantId ` set (tenants q) \<Longrightarrow> \<exists>k\<in>set (claimed q). cand_tenantId k = c"
  by (simp add: claimed_def)

text \<open>The ids of a catalog are branded ids: trimmed and not empty.\<close>

definition brandedCatalog :: "TenantRoutingRequest \<Rightarrow> bool" where
  "brandedCatalog q = list_all (\<lambda>e. nonEmptyTrimmedString (tenantId e)) (tenants q)"

text \<open>A denial only ever names tenants of the catalog.\<close>

lemma optionList_simps [simp]: "set (optionList x) = {y. x = Some y}"
  by (auto simp: optionList_def split: option.splits)

lemma firstOf_Some: "firstOf xs = Some t \<Longrightarrow> t \<in> set xs"
  by (auto simp: firstOf_def split: list.splits)

lemma decideRoute_candidates:
  assumes "\<And>c. c \<in> set cs \<Longrightarrow> cand_tenantId c \<in> K" "\<And>t. bound = Some t \<Longrightarrow> t \<in> K"
    and "d = decideRoute lc q now byId cs bound invalid"
  shows "set (candidateTenantIds d) \<subseteq> K \<and> (\<forall>t. routedTenantId d = Some t \<longrightarrow> t \<in> K)"
  unfolding assms(3) using assms(1,2)
  by (cases cs; cases bound)
     (auto simp: decideRoute_def routeMissing_def toDeniedResponse_def Let_def canonicalizeTenantIds_def
        dest!: firstOf_Some split: if_splits)

lemma evaluate_candidates:
  "set (candidateTenantIds (evaluateTenantRoutingDecision lc q now)) \<subseteq> tenantId ` set (tenants q)
   \<and> (\<forall>t. routedTenantId (evaluateTenantRoutingDecision lc q now) = Some t \<longrightarrow> t \<in> tenantId ` set (tenants q))"
proof (cases "ambiguousCatalog q")
  case True
  then have eq: "evaluateTenantRoutingDecision lc q now = toDeniedResponse TENANT_ROUTE_CONFLICT now
      (canonicalizeTenantIds lc (snd (indexBySlug Map.empty [] (tenants q))
         @ fst (snd (indexByIssuer (indexById Map.empty (tenants q)) Map.empty [] {} (issuerBindings q))))) None"
    by (simp add: evaluate_decideRoute Let_def)
  have "{t. indexById Map.empty (tenants q) t \<noteq> None} = tenantId ` set (tenants q)" by auto
  then show ?thesis
    using indexBySlug_known [of Map.empty "[]" "tenants q"]
      indexByIssuer_known [of "indexById Map.empty (tenants q)" Map.empty "[]" "{}" "issuerBindings q"]
    by (simp add: eq toDeniedResponse_def)
next
  case False
  have "Option.bind (issuer q) (issuerTarget q) = Some t \<Longrightarrow> t \<in> tenantId ` set (tenants q)" for t
    by (auto simp: bind_eq_Some_conv dest: issuerTarget_known)
  with False claimed_known [of _ q] show ?thesis
    by (intro decideRoute_candidates [where cs = "claimed q" and bound = "Option.bind (issuer q) (issuerTarget q)"])
       (simp_all add: evaluate_decideRoute Let_def)
qed

lemma assertResolved_no_defect:
  assumes "isSafeInteger clock" "brandedCatalog q"
  shows "assertResolved lc clock q \<noteq> Die e"
proof -
  let ?d = "evaluateTenantRoutingDecision lc q (max 0 clock)"
  have now: "nonNegativeInt (max 0 clock)"
    using assms(1) by (auto simp: nonNegativeInt_def isSafeInteger_def maxSafeInteger_def)
  have branded: "t \<in> tenantId ` set (tenants q) \<Longrightarrow> nonEmptyTrimmedString t" for t
    using assms(2) by (auto simp: brandedCatalog_def list_all_iff)
  have "list_all nonEmptyTrimmedString (candidateTenantIds ?d)"
    and "case routedTenantId ?d of None \<Rightarrow> True | Some t \<Rightarrow> nonEmptyTrimmedString t"
    using evaluate_candidates [of lc q "max 0 clock"] branded
    by (auto simp: list_all_iff split: option.split)
  then show ?thesis
    by (simp only: assertResolved_def Let_def failNew_def validTenantRoutingDeniedError_def
        TenantRoutingDeniedError.simps routedAtMillis_evaluate now simp_thms if_True exit.distinct split: if_split)
qed

interpretation tr: tenant_router "assertResolved lc clock" "\<lambda>q. isSafeInteger clock \<and> brandedCatalog q"
proof unfold_locales
  fix q d e i b c
  show "assertResolved lc clock q \<noteq> Die e" if "isSafeInteger clock \<and> brandedCatalog q"
    using that by (intro assertResolved_no_defect) simp_all
  assume "assertResolved lc clock q = Succeed d"
  then have d: "d = evaluateTenantRoutingDecision lc q (max 0 clock)"
    and "resolved d"
    unfolding assertResolved_Succeed by blast+
  then have r: "resolved (evaluateTenantRoutingDecision lc q (max 0 clock))" by (simp only:)
  obtain t src where eq: "d = \<lparr>resolved = True, routedTenantId = Some t, routeSource = Some src,
        denyReasonCode = None, candidateTenantIds = [t], routedAtMillis = max 0 clock\<rparr>"
    and t: "t \<in> tenantId ` set (tenants q)" "\<forall>c\<in>set (claimed q). cand_tenantId c = t"
    and bound: "\<And>i. issuer q = Some i \<Longrightarrow>
          (\<exists>b\<in>set (issuerBindings q). issuerKey b = normalizeLookupValue i \<and> ib_tenantId b = t)
          \<and> (\<forall>b\<in>set (issuerBindings q). issuerKey b = normalizeLookupValue i \<longrightarrow> ib_tenantId b = t)"
    using route_granted [OF r] unfolding d by blast
  have routed: "routedTenantId d = Some t" "candidateTenantIds d = [t]" by (simp_all add: eq)
  show "\<exists>t. routedTenantId d = Some t \<and> candidateTenantIds d = [t] \<and> t \<in> tenantId ` set (tenants q)"
    using routed t by blast
  show "routedTenantId d = Some c" if "tenantIdClaim q = Some c" "c \<in> tenantId ` set (tenants q)"
    using claimed_id [OF that] t routed by auto
  assume i: "issuer q = Some i"
  show "\<exists>b\<in>set (issuerBindings q). issuerKey b = normalizeLookupValue i \<and> routedTenantId d = Some (ib_tenantId b)"
    using bound [OF i] routed by auto
  show "routedTenantId d = Some (ib_tenantId b)"
    if "b \<in> set (issuerBindings q)" "issuerKey b = normalizeLookupValue i"
    using bound [OF i] that routed by simp
qed

text \<open>A cross-tenant claim fails closed at the service boundary. If the issuer of the
  request is bound to a tenant and the id claim names a different tenant of the catalog,
  \<open>assertResolved\<close> never succeeds, and when the catalog's ids are well-formed ids the denial
  is a typed failure with the time of the decision.\<close>

theorem cross_tenant_claim_denied:
  assumes "issuer q = Some i" "b \<in> set (issuerBindings q)" "issuerKey b = normalizeLookupValue i"
    and "tenantIdClaim q = Some c" "c \<in> tenantId ` set (tenants q)" "c \<noteq> ib_tenantId b"
  shows "assertResolved lc clock q \<noteq> Succeed d
    \<and> (isSafeInteger clock \<and> brandedCatalog q \<longrightarrow>
        (\<exists>e. assertResolved lc clock q = Fail e \<and> err_evaluatedAtMillis e = max 0 clock))"
proof (intro conjI impI)
  show "assertResolved lc clock q \<noteq> Succeed d" by (rule tr.foreign_claim_denied(1) [OF assms])
  assume "isSafeInteger clock \<and> brandedCatalog q"
  then obtain e where e: "assertResolved lc clock q = Fail e"
    using tr.foreign_claim_denied(2) [OF assms, where lc = lc and clock = clock] by blast
  then have "err_evaluatedAtMillis e = routedAtMillis (evaluateTenantRoutingDecision lc q (max 0 clock))"
    by (auto simp: assertResolved_def Let_def failNew_def split: if_splits)
  with e show "\<exists>e. assertResolved lc clock q = Fail e \<and> err_evaluatedAtMillis e = max 0 clock"
    by (simp add: routedAtMillis_evaluate)
qed

theorem cross_tenant_claim_denied_witness:
  "\<exists>e. assertResolved (localeCompare sampleHost) 5
     \<lparr>tenantIdClaim = Some ''b'', tenantSlugClaim = None, issuer = Some ''c'',
      tenants = [\<lparr>tenantId = ''a'', tenantSlug = ''a''\<rparr>, \<lparr>tenantId = ''b'', tenantSlug = ''b''\<rparr>],
      issuerBindings = [\<lparr>ib_issuer = ''c'', ib_tenantId = ''a''\<rparr>]\<rparr> = Fail e \<and> err_evaluatedAtMillis e = max 0 5"
proof -
  let ?q = "\<lparr>tenantIdClaim = Some ''b'', tenantSlugClaim = None, issuer = Some ''c'',
      tenants = [\<lparr>tenantId = ''a'', tenantSlug = ''a''\<rparr>, \<lparr>tenantId = ''b'', tenantSlug = ''b''\<rparr>],
      issuerBindings = [\<lparr>ib_issuer = ''c'', ib_tenantId = ''a''\<rparr>]\<rparr>"
  have "isSafeInteger 5 \<and> brandedCatalog ?q" by (simp add: isSafeInteger_def maxSafeInteger_def brandedCatalog_def)
  with cross_tenant_claim_denied [where q = ?q and i = "''c''" and c = "''b''"
      and b = "\<lparr>ib_issuer = ''c'', ib_tenantId = ''a''\<rparr>" and lc = "localeCompare sampleHost" and clock = 5]
  show ?thesis by simp
qed

end
