(* ===== verification/Lifecycle.thy ===== *)
theory Lifecycle
  imports Contracts Idempotent_Calls
begin

text \<open>
  The memory lifecycle (libs/shared/src/effect/services/lifecycle-service.ts, with the
  request schemas of contracts/services.ts): candidates are written in shadow, evaluated by
  replay, promoted to rules and demoted. The service keeps three Maps (candidates, the latest
  replay evaluation, responses by request digest); each operation is a function from a
  request and the state to the exit of its Effect and the next state.
\<close>

section \<open>Data\<close>

datatype LifecycleOperation = Shadow_write | Replay_eval | Promote | Demote

datatype CandidateStatus = Shadow | Promoted | Demoted

datatype GateStatus = GatePass | GateFail

datatype PreconditionReasonCode =
    SHADOW_WRITE_REQUIRES_SOURCE_EPISODES | SHADOW_WRITE_REJECTS_PROMOTED_CANDIDATE
  | REPLAY_EVAL_REQUIRES_SHADOW_CANDIDATE | PROMOTE_REQUIRES_EXISTING_CANDIDATE
  | PROMOTE_REQUIRES_PASSING_REPLAY_EVAL | PROMOTE_REQUIRES_FRESH_EVIDENCE
  | DEMOTE_REQUIRES_EXISTING_CANDIDATE | DEMOTE_REQUIRES_REASON_CODES

record QualityDelta =
  successRateDelta :: jsnum
  reopenRateDelta :: jsnum

record EfficiencyDelta =
  latencyP95DeltaMs :: int
  tokenCostDelta :: jsnum

record SafetyDelta =
  policyViolationsDelta :: int
  hallucinationFlagDelta :: int

record Candidate =
  c_spaceId :: string
  c_candidateId :: string
  c_statement :: string
  c_scope :: string
  c_sourceEpisodeIds :: "string list"
  c_status :: CandidateStatus
  c_expiresAtMillis :: int
  c_latestReplayEvalId :: "string option"
  c_promotedRuleId :: "string option"
  c_promotedAtMillis :: "int option"
  c_demotedAtMillis :: "int option"
  c_updatedAtMillis :: int

record ShadowWriteRequest =
  sw_spaceId :: string
  sw_candidateId :: string
  sw_statement :: string
  sw_scope :: "string option"
  sw_sourceEpisodeIds :: "string list"
  sw_expiresAtMillis :: int
  sw_writtenAtMillis :: int

record ReplayEvalRequest =
  re_spaceId :: string
  re_candidateId :: string
  re_evaluationPackId :: string
  re_targetMemorySpace :: string
  re_evaluatedAtMillis :: int
  re_qualityDelta :: QualityDelta
  re_efficiencyDelta :: EfficiencyDelta
  re_safetyDelta :: SafetyDelta

record PromoteRequest =
  pr_spaceId :: string
  pr_candidateId :: string
  pr_promotedAtMillis :: int

record DemoteRequest =
  de_spaceId :: string
  de_candidateId :: string
  de_demotedAtMillis :: int
  de_reasonCodes :: "string list"

datatype WriteAction = Created | Updated | WriteNoop

record ReplayEvalResponse =
  rr_requestDigest :: string
  rr_replayEvalId :: string
  rr_candidateId :: string
  rr_evaluationPackId :: string
  rr_targetMemorySpace :: string
  rr_qualityDelta :: QualityDelta
  rr_efficiencyDelta :: EfficiencyDelta
  rr_safetyDelta :: SafetyDelta
  rr_netValueScore :: jsnum
  rr_gateStatus :: GateStatus

text \<open>The union \<open>MemoryLifecycleResponse\<close>. The flag of the last two says whether the action
  was taken (false: \<open>noop\<close>).\<close>

datatype LifecycleResponse =
    ShadowWritten (requestDigest: string) (writeAction: WriteAction) (candidateOf: Candidate)
  | ReplayEvaluated ReplayEvalResponse
  | PromoteAnswered (requestDigest: string) (took: bool) (candidateOf: Candidate)
      (ruleId: "string option") (replayEvalId: "string option") (gateStatusOf: GateStatus)
  | DemoteAnswered (requestDigest: string) (took: bool) (candidateOf: Candidate)
      (removedRuleId: "string option") (reasonCodes: "string list")

record PreconditionError =
  pe_operation :: LifecycleOperation
  pe_spaceId :: string
  pe_candidateId :: string
  pe_reasonCode :: PreconditionReasonCode
  pe_message :: string

datatype LifecycleServiceError = ContractViolation ContractValidationError | Precondition PreconditionError

record ReplayEvaluationState =
  rs_replayEvalId :: string
  rs_gateStatus :: GateStatus
  rs_safetyDelta :: SafetyDelta

record LifecycleState =
  candidatesByKey :: "string \<rightharpoonup> Candidate"
  latestReplayByKey :: "string \<rightharpoonup> ReplayEvaluationState"
  responseByRequestDigest :: "string \<rightharpoonup> LifecycleResponse"

section \<open>Schemas\<close>

definition scoreDelta :: "jsnum \<Rightarrow> bool" where
  "scoreDelta x = isBetween (- 1) 1 x"

definition validShadowWrite :: "ShadowWriteRequest \<Rightarrow> bool" where
  "validShadowWrite r =
     (nonEmptyTrimmedString (sw_spaceId r) \<and> nonEmptyTrimmedString (sw_candidateId r)
      \<and> nonEmptyTrimmedString (sw_statement r)
      \<and> (case sw_scope r of None \<Rightarrow> True | Some s \<Rightarrow> nonEmptyTrimmedString s)
      \<and> list_all nonEmptyTrimmedString (sw_sourceEpisodeIds r)
      \<and> nonNegativeInt (sw_expiresAtMillis r) \<and> nonNegativeInt (sw_writtenAtMillis r))"

definition validReplayEval :: "ReplayEvalRequest \<Rightarrow> bool" where
  "validReplayEval r =
     (nonEmptyTrimmedString (re_spaceId r) \<and> nonEmptyTrimmedString (re_candidateId r)
      \<and> nonEmptyTrimmedString (re_evaluationPackId r) \<and> nonEmptyTrimmedString (re_targetMemorySpace r)
      \<and> nonNegativeInt (re_evaluatedAtMillis r)
      \<and> scoreDelta (successRateDelta (re_qualityDelta r)) \<and> scoreDelta (reopenRateDelta (re_qualityDelta r))
      \<and> \<bar>latencyP95DeltaMs (re_efficiencyDelta r)\<bar> \<le> 86400000
      \<and> isBetween (- 100000) 100000 (tokenCostDelta (re_efficiencyDelta r))
      \<and> isSafeInteger (policyViolationsDelta (re_safetyDelta r))
      \<and> isSafeInteger (hallucinationFlagDelta (re_safetyDelta r)))"

definition validPromote :: "PromoteRequest \<Rightarrow> bool" where
  "validPromote r =
     (nonEmptyTrimmedString (pr_spaceId r) \<and> nonEmptyTrimmedString (pr_candidateId r)
      \<and> nonNegativeInt (pr_promotedAtMillis r))"

definition validDemote :: "DemoteRequest \<Rightarrow> bool" where
  "validDemote r =
     (nonEmptyTrimmedString (de_spaceId r) \<and> nonEmptyTrimmedString (de_candidateId r)
      \<and> nonNegativeInt (de_demotedAtMillis r) \<and> list_all nonEmptyTrimmedString (de_reasonCodes r))"

section \<open>Requests as JSON\<close>

fun operationName :: "LifecycleOperation \<Rightarrow> string" where
  "operationName Shadow_write = ''shadow_write''"
| "operationName Replay_eval = ''replay_eval''"
| "operationName Promote = ''promote''"
| "operationName Demote = ''demote''"

definition jnumInt :: "int \<Rightarrow> json" where
  "jnumInt n = JNum (jint n)"

definition shadowWriteJson :: "ShadowWriteRequest \<Rightarrow> json" where
  "shadowWriteJson r = JObj (
     [(''spaceId'', JStr (sw_spaceId r)), (''candidateId'', JStr (sw_candidateId r)),
      (''statement'', JStr (sw_statement r))]
     @ (case sw_scope r of None \<Rightarrow> [] | Some s \<Rightarrow> [(''scope'', JStr s)])
     @ [(''sourceEpisodeIds'', strings (sw_sourceEpisodeIds r)),
        (''expiresAtMillis'', jnumInt (sw_expiresAtMillis r)),
        (''writtenAtMillis'', jnumInt (sw_writtenAtMillis r))])"

definition replayEvalJson :: "ReplayEvalRequest \<Rightarrow> json" where
  "replayEvalJson r = JObj
     [(''spaceId'', JStr (re_spaceId r)), (''candidateId'', JStr (re_candidateId r)),
      (''evaluationPackId'', JStr (re_evaluationPackId r)),
      (''targetMemorySpace'', JStr (re_targetMemorySpace r)),
      (''evaluatedAtMillis'', jnumInt (re_evaluatedAtMillis r)),
      (''qualityDelta'', JObj
         [(''successRateDelta'', JNum (successRateDelta (re_qualityDelta r))),
          (''reopenRateDelta'', JNum (reopenRateDelta (re_qualityDelta r)))]),
      (''efficiencyDelta'', JObj
         [(''latencyP95DeltaMs'', jnumInt (latencyP95DeltaMs (re_efficiencyDelta r))),
          (''tokenCostDelta'', JNum (tokenCostDelta (re_efficiencyDelta r)))]),
      (''safetyDelta'', JObj
         [(''policyViolationsDelta'', jnumInt (policyViolationsDelta (re_safetyDelta r))),
          (''hallucinationFlagDelta'', jnumInt (hallucinationFlagDelta (re_safetyDelta r)))])]"

definition promoteJson :: "PromoteRequest \<Rightarrow> json" where
  "promoteJson r = JObj
     [(''spaceId'', JStr (pr_spaceId r)), (''candidateId'', JStr (pr_candidateId r)),
      (''promotedAtMillis'', jnumInt (pr_promotedAtMillis r))]"

definition demoteJson :: "DemoteRequest \<Rightarrow> json" where
  "demoteJson r = JObj
     [(''spaceId'', JStr (de_spaceId r)), (''candidateId'', JStr (de_candidateId r)),
      (''demotedAtMillis'', jnumInt (de_demotedAtMillis r)),
      (''reasonCodes'', strings (de_reasonCodes r))]"

section \<open>Helpers\<close>

definition toRequestDigest :: "host \<Rightarrow> LifecycleOperation \<Rightarrow> json \<Rightarrow> string" where
  "toRequestDigest h operation request =
     sha256 h (stableStringify (localeCompare h)
       (JObj [(''operation'', JStr (operationName operation)), (''request'', request)]))"

definition toDeterministicId :: "host \<Rightarrow> string \<Rightarrow> string \<Rightarrow> string \<Rightarrow> string \<Rightarrow> string" where
  "toDeterministicId h prefix seed left right =
     prefix @ ''_'' @ take 16 (sha256 h (stableStringify (localeCompare h)
       (JObj [(''seed'', JStr seed), (''left'', JStr left), (''right'', JStr right)])))"

definition roundToSix :: "jsnum \<Rightarrow> jsnum" where
  "roundToSix value = jdiv (math_round (jmul value (jint 1000000))) (jint 1000000)"

definition toSortedUnique :: "collator \<Rightarrow> string list \<Rightarrow> string list" where
  "toSortedUnique lc values = arraySort lc (setOrder values)"

definition toCandidateKey :: "host \<Rightarrow> string \<Rightarrow> string \<Rightarrow> string" where
  "toCandidateKey h s c = stableStringify (localeCompare h) (strings [s, c])"

definition canonicalizeShadowWriteRequest :: "host \<Rightarrow> ShadowWriteRequest \<Rightarrow> ShadowWriteRequest" where
  "canonicalizeShadowWriteRequest h request =
     request\<lparr>sw_scope := Some (case sw_scope request of None \<Rightarrow> ''global'' | Some s \<Rightarrow> s),
             sw_sourceEpisodeIds := toSortedUnique (localeCompare h) (sw_sourceEpisodeIds request)\<rparr>"

definition canonicalizeDemoteRequest :: "host \<Rightarrow> DemoteRequest \<Rightarrow> DemoteRequest" where
  "canonicalizeDemoteRequest h request =
     request\<lparr>de_reasonCodes := toSortedUnique (localeCompare h) (de_reasonCodes request)\<rparr>"

definition toMemoryLifecyclePreconditionError ::
  "LifecycleOperation \<Rightarrow> string \<Rightarrow> string \<Rightarrow> PreconditionReasonCode \<Rightarrow> string \<Rightarrow> LifecycleServiceError" where
  "toMemoryLifecyclePreconditionError operation s c code msg =
     Precondition \<lparr>pe_operation = operation, pe_spaceId = s, pe_candidateId = c,
                   pe_reasonCode = code, pe_message = msg\<rparr>"

text \<open>A decimal literal of the source is the double nearest to it.\<close>

definition computeNetValueScore :: "ReplayEvalRequest \<Rightarrow> jsnum" where
  "computeNetValueScore request =
     roundToSix
       (jadd (jadd (jadd (jadd (jadd
         (jmul (successRateDelta (re_qualityDelta request)) (round64 (1 / 2)))
         (jmul (reopenRateDelta (re_qualityDelta request)) (round64 (- (1 / 5)))))
         (jmul (jint (latencyP95DeltaMs (re_efficiencyDelta request))) (round64 (- (5 / 1000000)))))
         (jmul (tokenCostDelta (re_efficiencyDelta request)) (round64 (- (4 / 10000)))))
         (jmul (jint (policyViolationsDelta (re_safetyDelta request))) (round64 (- (1 / 5)))))
         (jmul (jint (hallucinationFlagDelta (re_safetyDelta request))) (round64 (- (1 / 5)))))"

definition evaluateReplayGate :: "ReplayEvalRequest \<Rightarrow> jsnum \<Rightarrow> GateStatus" where
  "evaluateReplayGate request netValueScore =
     (if 0 < policyViolationsDelta (re_safetyDelta request) then GateFail
      else if 0 < hallucinationFlagDelta (re_safetyDelta request) then GateFail
      else if jle (jint 0) netValueScore then GatePass else GateFail)"

definition createMutableLifecycleState :: LifecycleState where
  "createMutableLifecycleState =
     \<lparr>candidatesByKey = Map.empty, latestReplayByKey = Map.empty, responseByRequestDigest = Map.empty\<rparr>"

definition getCachedResponse :: "LifecycleState \<Rightarrow> string \<Rightarrow> LifecycleResponse option" where
  "getCachedResponse state digest = responseByRequestDigest state digest"

definition cacheResponse :: "LifecycleState \<Rightarrow> string \<Rightarrow> LifecycleResponse \<Rightarrow> LifecycleState" where
  "cacheResponse state digest response =
     state\<lparr>responseByRequestDigest := (responseByRequestDigest state)(digest \<mapsto> response)\<rparr>"

definition latestGateStatusOrPass :: "ReplayEvaluationState option \<Rightarrow> GateStatus" where
  "latestGateStatusOrPass rs = (case rs of None \<Rightarrow> GatePass | Some r \<Rightarrow> rs_gateStatus r)"

text \<open>\<open>state.candidatesByKey.set\<close>, \<open>state.latestReplayByKey.set\<close> and \<open>delete\<close>.\<close>

definition setCandidate :: "string \<Rightarrow> Candidate \<Rightarrow> LifecycleState \<Rightarrow> LifecycleState" where
  "setCandidate k c state = state\<lparr>candidatesByKey := (candidatesByKey state)(k \<mapsto> c)\<rparr>"

definition putReplay :: "string \<Rightarrow> ReplayEvaluationState option \<Rightarrow> LifecycleState \<Rightarrow> LifecycleState" where
  "putReplay k r state = state\<lparr>latestReplayByKey := (latestReplayByKey state)(k := r)\<rparr>"

section \<open>The operations\<close>

type_synonym LifecycleExit = "(LifecycleServiceError, LifecycleResponse) exit"

text \<open>\<open>Effect.succeed(cacheResponse(state, requestDigest, response))\<close>\<close>

definition answer :: "string \<Rightarrow> LifecycleResponse \<Rightarrow> LifecycleState \<Rightarrow> LifecycleExit \<times> LifecycleState" where
  "answer digest response state = (Succeed response, cacheResponse state digest response)"

text \<open>The decoder of the request, then the continuation on the decoded value.\<close>

definition decoded ::
  "host \<Rightarrow> ('q \<Rightarrow> bool) \<Rightarrow> string \<Rightarrow> ('q \<Rightarrow> json) \<Rightarrow> 'q \<Rightarrow> LifecycleState
    \<Rightarrow> ('q \<Rightarrow> LifecycleExit \<times> LifecycleState) \<Rightarrow> LifecycleExit \<times> LifecycleState" where
  "decoded h valid c toJson request state k =
     (case decodeUnknownEffect h valid c toJson request of
        Inl e \<Rightarrow> (Fail (ContractViolation e), state)
      | Inr r \<Rightarrow> k r)"

definition sameShadowCandidate :: "host \<Rightarrow> Candidate \<Rightarrow> ShadowWriteRequest \<Rightarrow> bool" where
  "sameShadowCandidate h existing request =
     (c_status existing = Shadow \<and> c_statement existing = sw_statement request
      \<and> Some (c_scope existing) = sw_scope request
      \<and> stableStringify (localeCompare h) (strings (c_sourceEpisodeIds existing)) =
          stableStringify (localeCompare h) (strings (sw_sourceEpisodeIds request))
      \<and> c_expiresAtMillis existing = sw_expiresAtMillis request
      \<and> c_updatedAtMillis existing = sw_writtenAtMillis request
      \<and> c_latestReplayEvalId existing = None)"

definition shadowWrite ::
  "host \<Rightarrow> ShadowWriteRequest \<Rightarrow> LifecycleState \<Rightarrow> LifecycleExit \<times> LifecycleState" where
  "shadowWrite h request0 state =
    decoded h validShadowWrite ''MemoryLifecycleShadowWriteRequest'' shadowWriteJson request0 state (\<lambda>r0.
     let request = canonicalizeShadowWriteRequest h r0;
         digest = toRequestDigest h Shadow_write (shadowWriteJson request) in
     case getCachedResponse state digest of Some response \<Rightarrow> (Succeed response, state)
     | None \<Rightarrow>
       if length (sw_sourceEpisodeIds request) = 0
       then (Fail (toMemoryLifecyclePreconditionError Shadow_write (sw_spaceId request) (sw_candidateId request)
               SHADOW_WRITE_REQUIRES_SOURCE_EPISODES
               ''shadow_write requires at least one sourceEpisodeId for deterministic replay lineage.''), state)
       else
         let key = toCandidateKey h (sw_spaceId request) (sw_candidateId request);
             existing = candidatesByKey state key in
         if map_option c_status existing = Some Promoted
         then (Fail (toMemoryLifecyclePreconditionError Shadow_write (sw_spaceId request) (sw_candidateId request)
                 SHADOW_WRITE_REJECTS_PROMOTED_CANDIDATE
                 ''shadow_write cannot overwrite promoted candidates; demote first to preserve lifecycle determinism.''), state)
         else if (case existing of None \<Rightarrow> False | Some c \<Rightarrow> sameShadowCandidate h c request)
         then answer digest (ShadowWritten digest WriteNoop (the existing)) state
         else
           let next = \<lparr>c_spaceId = sw_spaceId request, c_candidateId = sw_candidateId request,
                 c_statement = sw_statement request,
                 c_scope = (case sw_scope request of None \<Rightarrow> ''global'' | Some s \<Rightarrow> s),
                 c_sourceEpisodeIds = sw_sourceEpisodeIds request, c_status = Shadow,
                 c_expiresAtMillis = sw_expiresAtMillis request, c_latestReplayEvalId = None,
                 c_promotedRuleId = None, c_promotedAtMillis = None, c_demotedAtMillis = None,
                 c_updatedAtMillis = sw_writtenAtMillis request\<rparr>;
               state' = putReplay key None (setCandidate key next state)
           in answer digest
                (ShadowWritten digest (if existing = None then Created else Updated) next) state')"

definition replayEval ::
  "host \<Rightarrow> ReplayEvalRequest \<Rightarrow> LifecycleState \<Rightarrow> LifecycleExit \<times> LifecycleState" where
  "replayEval h request0 state =
    decoded h validReplayEval ''MemoryLifecycleReplayEvalRequest'' replayEvalJson request0 state (\<lambda>request.
     let digest = toRequestDigest h Replay_eval (replayEvalJson request) in
     case getCachedResponse state digest of Some response \<Rightarrow> (Succeed response, state)
     | None \<Rightarrow>
       let key = toCandidateKey h (re_spaceId request) (re_candidateId request);
           precondition = (Fail (toMemoryLifecyclePreconditionError Replay_eval (re_spaceId request)
               (re_candidateId request) REPLAY_EVAL_REQUIRES_SHADOW_CANDIDATE
               ''replay_eval requires an existing candidate in shadow status.''), state) in
       (case candidatesByKey state key of None \<Rightarrow> precondition
       | Some existing \<Rightarrow>
         if c_status existing \<noteq> Shadow then precondition
         else
           let score = computeNetValueScore request;
               gate = evaluateReplayGate request score;
               evalId = toDeterministicId h ''replay_eval'' digest (re_spaceId request) (re_candidateId request);
               response = \<lparr>rr_requestDigest = digest, rr_replayEvalId = evalId,
                 rr_candidateId = re_candidateId request, rr_evaluationPackId = re_evaluationPackId request,
                 rr_targetMemorySpace = re_targetMemorySpace request,
                 rr_qualityDelta = re_qualityDelta request, rr_efficiencyDelta = re_efficiencyDelta request,
                 rr_safetyDelta = re_safetyDelta request, rr_netValueScore = score, rr_gateStatus = gate\<rparr>;
               next = existing\<lparr>c_latestReplayEvalId := Some evalId,
                 c_updatedAtMillis := max (c_updatedAtMillis existing) (re_evaluatedAtMillis request)\<rparr>;
               state' = putReplay key
                 (Some \<lparr>rs_replayEvalId = evalId, rs_gateStatus = gate, rs_safetyDelta = re_safetyDelta request\<rparr>)
                 (setCandidate key next state)
           in answer digest (ReplayEvaluated response) state'))"

text \<open>The third guard of \<open>promote\<close>: a passing evaluation without unresolved regressions.\<close>

definition replayPasses :: "ReplayEvaluationState option \<Rightarrow> bool" where
  "replayPasses rs =
     (case rs of None \<Rightarrow> False
      | Some r \<Rightarrow> \<not> (rs_gateStatus r \<noteq> GatePass \<or> 0 < policyViolationsDelta (rs_safetyDelta r)
                    \<or> 0 < hallucinationFlagDelta (rs_safetyDelta r)))"

definition promote ::
  "host \<Rightarrow> PromoteRequest \<Rightarrow> LifecycleState \<Rightarrow> LifecycleExit \<times> LifecycleState" where
  "promote h request0 state =
    decoded h validPromote ''MemoryLifecyclePromoteRequest'' promoteJson request0 state (\<lambda>request.
     let digest = toRequestDigest h Promote (promoteJson request) in
     case getCachedResponse state digest of Some response \<Rightarrow> (Succeed response, state)
     | None \<Rightarrow>
       let key = toCandidateKey h (pr_spaceId request) (pr_candidateId request);
           precondition = (\<lambda>code msg. (Fail (toMemoryLifecyclePreconditionError Promote (pr_spaceId request)
               (pr_candidateId request) code msg), state)) in
       (case candidatesByKey state key of
         None \<Rightarrow> precondition PROMOTE_REQUIRES_EXISTING_CANDIDATE ''promote requires an existing candidate.''
       | Some existing \<Rightarrow>
         let replay = latestReplayByKey state key in
         if c_status existing = Promoted
         then answer digest (PromoteAnswered digest False existing (c_promotedRuleId existing)
                (c_latestReplayEvalId existing) (latestGateStatusOrPass replay)) state
         else if \<not> replayPasses replay
         then precondition PROMOTE_REQUIRES_PASSING_REPLAY_EVAL
                ''promote requires latest replay_eval gateStatus=pass with no unresolved safety regressions.''
         else if c_expiresAtMillis existing < pr_promotedAtMillis request
         then precondition PROMOTE_REQUIRES_FRESH_EVIDENCE ''promote requires non-expired evidence lineage.''
         else
           let rule = (case c_promotedRuleId existing of Some r \<Rightarrow> r
                 | None \<Rightarrow> toDeterministicId h ''rule'' ''promote'' (pr_spaceId request) (pr_candidateId request));
               next = existing\<lparr>c_status := Promoted, c_promotedRuleId := Some rule,
                 c_promotedAtMillis := Some (case c_promotedAtMillis existing of Some m \<Rightarrow> m
                   | None \<Rightarrow> pr_promotedAtMillis request),
                 c_demotedAtMillis := None, c_latestReplayEvalId := Some (rs_replayEvalId (the replay)),
                 c_updatedAtMillis := pr_promotedAtMillis request\<rparr>
           in answer digest (PromoteAnswered digest True next (Some rule)
                (Some (rs_replayEvalId (the replay))) (rs_gateStatus (the replay)))
                (setCandidate key next state)))"

definition demote ::
  "host \<Rightarrow> DemoteRequest \<Rightarrow> LifecycleState \<Rightarrow> LifecycleExit \<times> LifecycleState" where
  "demote h request0 state =
    decoded h validDemote ''MemoryLifecycleDemoteRequest'' demoteJson request0 state (\<lambda>r0.
     let request = canonicalizeDemoteRequest h r0;
         digest = toRequestDigest h Demote (demoteJson request) in
     case getCachedResponse state digest of Some response \<Rightarrow> (Succeed response, state)
     | None \<Rightarrow>
       let key = toCandidateKey h (de_spaceId request) (de_candidateId request);
           precondition = (\<lambda>code msg. (Fail (toMemoryLifecyclePreconditionError Demote (de_spaceId request)
               (de_candidateId request) code msg), state)) in
       (case candidatesByKey state key of
         None \<Rightarrow> precondition DEMOTE_REQUIRES_EXISTING_CANDIDATE ''demote requires an existing candidate.''
       | Some existing \<Rightarrow>
         let codes = de_reasonCodes request in
         if length codes = 0
         then precondition DEMOTE_REQUIRES_REASON_CODES
                ''demote requires at least one deterministic reasonCode for auditability.''
         else if c_status existing = Demoted
         then answer digest (DemoteAnswered digest False existing None codes) state
         else
           let next = existing\<lparr>c_status := Demoted, c_promotedRuleId := None,
                 c_demotedAtMillis := Some (de_demotedAtMillis request),
                 c_updatedAtMillis := de_demotedAtMillis request\<rparr>
           in answer digest (DemoteAnswered digest True next (c_promotedRuleId existing) codes)
                (setCandidate key next state)))"

section \<open>Calls and histories\<close>

datatype LifecycleCall =
    ShadowWriteCall ShadowWriteRequest | ReplayEvalCall ReplayEvalRequest
  | PromoteCall PromoteRequest | DemoteCall DemoteRequest

fun lifecycleStep :: "host \<Rightarrow> LifecycleCall \<Rightarrow> LifecycleState \<Rightarrow> LifecycleExit \<times> LifecycleState" where
  "lifecycleStep h (ShadowWriteCall r) s = shadowWrite h r s"
| "lifecycleStep h (ReplayEvalCall r) s = replayEval h r s"
| "lifecycleStep h (PromoteCall r) s = promote h r s"
| "lifecycleStep h (DemoteCall r) s = demote h r s"

text \<open>The digest under which the answer of a well-formed call is cached.\<close>

fun callDigest :: "host \<Rightarrow> LifecycleCall \<Rightarrow> string option" where
  "callDigest h (ShadowWriteCall r) = (if validShadowWrite r
     then Some (toRequestDigest h Shadow_write (shadowWriteJson (canonicalizeShadowWriteRequest h r))) else None)"
| "callDigest h (ReplayEvalCall r) = (if validReplayEval r
     then Some (toRequestDigest h Replay_eval (replayEvalJson r)) else None)"
| "callDigest h (PromoteCall r) = (if validPromote r
     then Some (toRequestDigest h Promote (promoteJson r)) else None)"
| "callDigest h (DemoteCall r) = (if validDemote r
     then Some (toRequestDigest h Demote (demoteJson (canonicalizeDemoteRequest h r))) else None)"

fun callCandidate :: "LifecycleCall \<Rightarrow> string \<times> string" where
  "callCandidate (ShadowWriteCall r) = (sw_spaceId r, sw_candidateId r)"
| "callCandidate (ReplayEvalCall r) = (re_spaceId r, re_candidateId r)"
| "callCandidate (PromoteCall r) = (pr_spaceId r, pr_candidateId r)"
| "callCandidate (DemoteCall r) = (de_spaceId r, de_candidateId r)"

definition cachedAnswer :: "host \<Rightarrow> LifecycleCall \<Rightarrow> LifecycleState \<Rightarrow> LifecycleResponse option" where
  "cachedAnswer h call s = Option.bind (callDigest h call) (getCachedResponse s)"

section \<open>The abstract state machine\<close>

text \<open>
  One slot per candidate key: the candidate and its latest replay evaluation. The relation
  says which moves the lifecycle promises; the operations refine it.
\<close>

type_synonym LifecycleSlot = "Candidate option \<times> ReplayEvaluationState option"

definition slot :: "LifecycleState \<Rightarrow> string \<Rightarrow> LifecycleSlot" where
  "slot s k = (candidatesByKey s k, latestReplayByKey s k)"

definition freshShadow :: "Candidate \<Rightarrow> bool" where
  "freshShadow c = (c_status c = Shadow \<and> c_sourceEpisodeIds c \<noteq> [] \<and> c_latestReplayEvalId c = None
     \<and> c_promotedRuleId c = None \<and> c_promotedAtMillis c = None \<and> c_demotedAtMillis c = None)"

inductive lifecycle_move ::
  "host \<Rightarrow> LifecycleOperation \<Rightarrow> string \<times> string \<Rightarrow> LifecycleSlot \<Rightarrow> LifecycleSlot \<Rightarrow> bool"
  for h :: host and operation :: LifecycleOperation and ident :: "string \<times> string" where
  stutter: "lifecycle_move h operation ident x x"
| shadow_writing: "\<lbrakk>operation = Shadow_write; map_option c_status old \<noteq> Some Promoted; freshShadow c;
      (c_spaceId c, c_candidateId c) = ident\<rbrakk>
    \<Longrightarrow> lifecycle_move h operation ident (old, r) (Some c, None)"
| evaluation: "\<lbrakk>operation = Replay_eval; c_status c = Shadow; rs_gateStatus e = GatePass \<Longrightarrow> replayPasses (Some e)\<rbrakk>
    \<Longrightarrow> lifecycle_move h operation ident (Some c, r)
         (Some (c\<lparr>c_latestReplayEvalId := Some (rs_replayEvalId e), c_updatedAtMillis := max (c_updatedAtMillis c) m\<rparr>), Some e)"
| promotion: "\<lbrakk>operation = Promote; c_status c \<noteq> Promoted; replayPasses (Some e); m \<le> c_expiresAtMillis c;
      rule = (case c_promotedRuleId c of Some q \<Rightarrow> q
        | None \<Rightarrow> case_prod (toDeterministicId h ''rule'' ''promote'') ident)\<rbrakk>
    \<Longrightarrow> lifecycle_move h operation ident (Some c, Some e)
         (Some (c\<lparr>c_status := Promoted, c_promotedRuleId := Some rule,
                  c_promotedAtMillis := Some (case c_promotedAtMillis c of Some n \<Rightarrow> n | None \<Rightarrow> m),
                  c_demotedAtMillis := None, c_latestReplayEvalId := Some (rs_replayEvalId e),
                  c_updatedAtMillis := m\<rparr>), Some e)"
| demotion: "\<lbrakk>operation = Demote; c_status c \<noteq> Demoted\<rbrakk>
    \<Longrightarrow> lifecycle_move h operation ident (Some c, r)
         (Some (c\<lparr>c_status := Demoted, c_promotedRuleId := None, c_demotedAtMillis := Some m,
                  c_updatedAtMillis := m\<rparr>), r)"

inductive_cases lifecycle_moveE: "lifecycle_move h operation ident x y"

fun callOperation :: "LifecycleCall \<Rightarrow> LifecycleOperation" where
  "callOperation (ShadowWriteCall r) = Shadow_write"
| "callOperation (ReplayEvalCall r) = Replay_eval"
| "callOperation (PromoteCall r) = Promote"
| "callOperation (DemoteCall r) = Demote"

definition callKey :: "host \<Rightarrow> LifecycleCall \<Rightarrow> string" where
  "callKey h call = case_prod (toCandidateKey h) (callCandidate call)"

section \<open>Lemmas\<close>

lemma slot_updates [simp]:
  "slot (setCandidate k c s) k' = (if k' = k then (Some c, latestReplayByKey s k) else slot s k')"
  "slot (putReplay k r s) k' = (if k' = k then (candidatesByKey s k, r) else slot s k')"
  "slot (cacheResponse s d resp) k' = slot s k'"
  by (simp_all add: slot_def setCandidate_def putReplay_def cacheResponse_def)

lemma state_reads [simp]:
  "candidatesByKey (setCandidate k c s) = (candidatesByKey s)(k \<mapsto> c)"
  "latestReplayByKey (setCandidate k c s) = latestReplayByKey s"
  "candidatesByKey (putReplay k r s) = candidatesByKey s"
  "latestReplayByKey (putReplay k r s) = (latestReplayByKey s)(k := r)"
  "candidatesByKey (cacheResponse s d resp) = candidatesByKey s"
  "latestReplayByKey (cacheResponse s d resp) = latestReplayByKey s"
  "getCachedResponse (setCandidate k c s) = getCachedResponse s"
  "getCachedResponse (putReplay k r s) = getCachedResponse s"
  "getCachedResponse (cacheResponse s d resp) = (getCachedResponse s)(d \<mapsto> resp)"
  by (auto simp: setCandidate_def putReplay_def cacheResponse_def getCachedResponse_def)

lemma toCandidateKey_inj [simp]: "toCandidateKey h s c = toCandidateKey h s' c' \<longleftrightarrow> s = s' \<and> c = c'"
  by (simp add: toCandidateKey_def)

lemma toSortedUnique_simps [simp]:
  "set (toSortedUnique lc xs) = set xs" "toSortedUnique lc xs = [] \<longleftrightarrow> xs = []"
proof -
  show eq: "set (toSortedUnique lc xs) = set xs" by (simp add: toSortedUnique_def)
  show "toSortedUnique lc xs = [] \<longleftrightarrow> xs = []" using eq by (metis set_empty)
qed

lemma canonicalize_simps [simp]:
  "sw_spaceId (canonicalizeShadowWriteRequest h r) = sw_spaceId r"
  "sw_candidateId (canonicalizeShadowWriteRequest h r) = sw_candidateId r"
  "sw_expiresAtMillis (canonicalizeShadowWriteRequest h r) = sw_expiresAtMillis r"
  "de_spaceId (canonicalizeDemoteRequest h d) = de_spaceId d"
  "de_candidateId (canonicalizeDemoteRequest h d) = de_candidateId d"
  "de_demotedAtMillis (canonicalizeDemoteRequest h d) = de_demotedAtMillis d"
  by (simp_all add: canonicalizeShadowWriteRequest_def canonicalizeDemoteRequest_def)

text \<open>Canonicalisation is idempotent, so the digest of a request does not depend on whether
  the caller sorted its lists.\<close>

lemma toSortedUnique_idem [simp]: "toSortedUnique lc (toSortedUnique lc xs) = toSortedUnique lc xs"
proof -
  have "distinct (toSortedUnique lc xs)"
    using mset_sort [of lc "setOrder xs"] by (simp add: toSortedUnique_def mset_eq_imp_distinct_iff)
  then show ?thesis by (simp add: toSortedUnique_def [of lc "toSortedUnique lc xs"] setOrder_distinct)
     (simp add: toSortedUnique_def)
qed

lemma canonicalizeShadowWriteRequest_idem [simp]:
  "canonicalizeShadowWriteRequest h (canonicalizeShadowWriteRequest h r) = canonicalizeShadowWriteRequest h r"
  by (simp add: canonicalizeShadowWriteRequest_def)

lemma decoded_eq:
  "decoded h valid c toJson r s k =
     (if valid r then k r
      else (Fail (ContractViolation (mkContractValidationError c (''Contract validation failed for '' @ c)
              (formatIssue h c (toJson r)))), s))"
  by (simp add: decoded_def decodeUnknownEffect_def)

lemma replayPasses_Some [simp]:
  "replayPasses (Some e) \<longleftrightarrow> rs_gateStatus e = GatePass
     \<and> policyViolationsDelta (rs_safetyDelta e) \<le> 0 \<and> hallucinationFlagDelta (rs_safetyDelta e) \<le> 0"
  by (auto simp: replayPasses_def)

lemma replayPasses_None [simp]: "\<not> replayPasses None"
  by (simp add: replayPasses_def)

lemma gate_pass_safe:
  "evaluateReplayGate r x = GatePass \<Longrightarrow>
    policyViolationsDelta (re_safetyDelta r) \<le> 0 \<and> hallucinationFlagDelta (re_safetyDelta r) \<le> 0"
  by (auto simp: evaluateReplayGate_def split: if_splits)

text \<open>What one call can do: reject and change nothing, answer from the cache and change
  nothing, or make one move of its candidate's slot and cache the answer.\<close>

definition outcome :: "host \<Rightarrow> LifecycleCall \<Rightarrow> LifecycleState \<Rightarrow> LifecycleExit \<times> LifecycleState \<Rightarrow> bool" where
  "outcome h call s res \<longleftrightarrow>
     ((\<exists>e. res = (Fail e, s)) \<and> cachedAnswer h call s = None)
     \<or> (\<exists>r. res = (Succeed r, s) \<and> cachedAnswer h call s = Some r)
     \<or> (\<exists>d r m. res = (Succeed r, cacheResponse m d r) \<and> callDigest h call = Some d
          \<and> getCachedResponse s d = None \<and> getCachedResponse m = getCachedResponse s
          \<and> lifecycle_move h (callOperation call) (callCandidate call) (slot s (callKey h call)) (slot m (callKey h call))
          \<and> (\<forall>k. k \<noteq> callKey h call \<longrightarrow> slot m k = slot s k))"

lemma outcome_answer:
  assumes "callDigest h call = Some d" "getCachedResponse s d = None"
    and "getCachedResponse m = getCachedResponse s" and "k = callKey h call"
    and "lifecycle_move h (callOperation call) (callCandidate call) (slot s k) (slot m k)"
    and "\<And>k'. k' \<noteq> k \<Longrightarrow> slot m k' = slot s k'"
  shows "outcome h call s (answer d r m)"
  using assms unfolding outcome_def answer_def by blast

lemma outcome_fail: "cachedAnswer h call s = None \<Longrightarrow> outcome h call s (Fail e, s)"
  by (simp add: outcome_def)

lemma shadowWrite_outcome: "outcome h (ShadowWriteCall r) s (shadowWrite h r s)"
proof (cases "validShadowWrite r")
  case False
  then show ?thesis by (simp add: shadowWrite_def decoded_eq outcome_def cachedAnswer_def)
next
  case valid: True
  let ?d = "toRequestDigest h Shadow_write (shadowWriteJson (canonicalizeShadowWriteRequest h r))"
  show ?thesis
  proof (cases "getCachedResponse s ?d")
    case (Some a)
    then show ?thesis using valid by (simp add: shadowWrite_def decoded_eq outcome_def cachedAnswer_def Let_def)
  next
    case None
    have stut: "lifecycle_move h operation ident x x" for operation ident x by (rule stutter)
    show ?thesis
      using valid None stut shadow_writing [where operation = Shadow_write and c = "\<lparr>c_spaceId = _, c_candidateId = _, c_statement = _,
          c_scope = _, c_sourceEpisodeIds = _, c_status = Shadow, c_expiresAtMillis = _, c_latestReplayEvalId = None,
          c_promotedRuleId = None, c_promotedAtMillis = None, c_demotedAtMillis = None, c_updatedAtMillis = _\<rparr>"]
      by (auto simp: shadowWrite_def decoded_eq outcome_def cachedAnswer_def Let_def answer_def freshShadow_def slot_def callKey_def)
  qed
qed

lemma replayEval_outcome: "outcome h (ReplayEvalCall r) s (replayEval h r s)"
proof (cases "validReplayEval r")
  case False
  then show ?thesis by (simp add: replayEval_def decoded_eq outcome_def cachedAnswer_def)
next
  case valid: True
  let ?d = "toRequestDigest h Replay_eval (replayEvalJson r)"
  show ?thesis
  proof (cases "getCachedResponse s ?d")
    case (Some a)
    then show ?thesis using valid by (simp add: replayEval_def decoded_eq outcome_def cachedAnswer_def Let_def)
  next
    case None
    show ?thesis
      using valid None stutter gate_pass_safe evaluation [where operation = Replay_eval and e = "\<lparr>rs_replayEvalId = _, rs_gateStatus = _, rs_safetyDelta = _\<rparr>"]
      by (auto simp: replayEval_def decoded_eq outcome_def cachedAnswer_def Let_def answer_def slot_def callKey_def
          split: option.split)
  qed
qed

lemma promote_outcome: "outcome h (PromoteCall r) s (promote h r s)"
proof (cases "validPromote r")
  case False
  then show ?thesis by (simp add: promote_def decoded_eq outcome_def cachedAnswer_def)
next
  case valid: True
  define d where "d = toRequestDigest h Promote (promoteJson r)"
  define k where "k = toCandidateKey h (pr_spaceId r) (pr_candidateId r)"
  have dig: "callDigest h (PromoteCall r) = Some d" using valid by (simp add: d_def)
  show ?thesis
  proof (cases "getCachedResponse s d")
    case (Some a)
    then show ?thesis using valid dig
      by (simp add: promote_def decoded_eq outcome_def cachedAnswer_def Let_def d_def)
  next
    case None
    then have miss: "cachedAnswer h (PromoteCall r) s = None" using dig by (simp add: cachedAnswer_def)
    note run = promote_def decoded_eq valid Let_def d_def [symmetric] k_def [symmetric] None
    note intros = outcome_fail [OF miss] outcome_answer [where k = k, OF dig None]
    show ?thesis
    proof (cases "candidatesByKey s k")
      case None
      then show ?thesis by (simp add: run intros)
    next
      case c: (Some c)
      show ?thesis
      proof (cases "c_status c = Promoted")
        case True
        have "outcome h (PromoteCall r) s (answer d resp s)" for resp
          by (rule intros(2)) (simp_all add: k_def callKey_def stutter)
        then show ?thesis by (simp add: run c True)
      next
        case status: False
        show ?thesis
        proof (cases "replayPasses (latestReplayByKey s k) \<and> \<not> c_expiresAtMillis c < pr_promotedAtMillis r")
          case False
          then show ?thesis by (cases "replayPasses (latestReplayByKey s k)") (simp_all add: run c status intros)
        next
          case True
          then obtain e where e: "latestReplayByKey s k = Some e" "replayPasses (Some e)"
            by (cases "latestReplayByKey s k") auto
          define rule where "rule = (case c_promotedRuleId c of Some q \<Rightarrow> q
                 | None \<Rightarrow> toDeterministicId h ''rule'' ''promote'' (pr_spaceId r) (pr_candidateId r))"
          define next_c where "next_c = c\<lparr>c_status := Promoted, c_promotedRuleId := Some rule,
                  c_promotedAtMillis := Some (case c_promotedAtMillis c of Some n \<Rightarrow> n | None \<Rightarrow> pr_promotedAtMillis r),
                  c_demotedAtMillis := None, c_latestReplayEvalId := Some (rs_replayEvalId e),
                  c_updatedAtMillis := pr_promotedAtMillis r\<rparr>"
          have "lifecycle_move h Promote (pr_spaceId r, pr_candidateId r) (Some c, Some e) (Some next_c, Some e)"
            unfolding next_c_def using True status e(2) by (intro promotion) (simp_all add: rule_def split: option.split)
          then have "outcome h (PromoteCall r) s (answer d resp (setCandidate k next_c s))" for resp
            by (intro intros(2)) (simp, simp add: k_def callKey_def, simp_all add: slot_def c e(1))
          moreover have "promote h r s =
              answer d (PromoteAnswered d True next_c (Some rule) (Some (rs_replayEvalId e)) (rs_gateStatus e))
                (setCandidate k next_c s)"
            using True status e by (simp add: run c next_c_def rule_def)
          ultimately show ?thesis by simp
        qed
      qed
    qed
  qed
qed

lemma demote_outcome: "outcome h (DemoteCall r) s (demote h r s)"
proof (cases "validDemote r")
  case False
  then show ?thesis by (simp add: demote_def decoded_eq outcome_def cachedAnswer_def)
next
  case valid: True
  let ?d = "toRequestDigest h Demote (demoteJson (canonicalizeDemoteRequest h r))"
  show ?thesis
  proof (cases "getCachedResponse s ?d")
    case (Some a)
    then show ?thesis using valid by (simp add: demote_def decoded_eq outcome_def cachedAnswer_def Let_def)
  next
    case None
    show ?thesis
      using valid None stutter demotion [where operation = Demote]
      by (auto simp: demote_def decoded_eq outcome_def cachedAnswer_def Let_def answer_def slot_def callKey_def
          split: option.split)
  qed
qed

lemma step_outcome: "outcome h call s (lifecycleStep h call s)"
  by (cases call) (simp_all add: shadowWrite_outcome replayEval_outcome promote_outcome demote_outcome)

lemma step_outcomeE:
  assumes "lifecycleStep h call s = (x, s')"
  obtains (rejected) e where "x = Fail e" "s' = s" "cachedAnswer h call s = None"
  | (replayed) r where "x = Succeed r" "s' = s" "cachedAnswer h call s = Some r"
  | (moved) d r m where "x = Succeed r" "s' = cacheResponse m d r" "callDigest h call = Some d"
      "getCachedResponse s d = None" "getCachedResponse m = getCachedResponse s"
      "lifecycle_move h (callOperation call) (callCandidate call) (slot s (callKey h call)) (slot m (callKey h call))"
      "\<And>k. k \<noteq> callKey h call \<Longrightarrow> slot m k = slot s k"
  using step_outcome [of h call s] unfolding assms outcome_def by blast

interpretation lifecycle: response_cache "lifecycleStep h" "cachedAnswer h"
proof unfold_locales
  fix q q' s s' r e
  show "lifecycleStep h q s = (Succeed r, s)" if "cachedAnswer h q s = Some r"
    using that by (cases "lifecycleStep h q s") (auto elim: step_outcomeE simp: cachedAnswer_def)
  show "cachedAnswer h q s' = Some r" if "lifecycleStep h q s = (Succeed r, s')"
    using that by (rule step_outcomeE) (auto simp: cachedAnswer_def)
  show "s' = s" if "lifecycleStep h q s = (Fail e, s')"
    using that by (rule step_outcomeE) auto
  show "fst (lifecycleStep h q s) \<noteq> Die e"
    by (cases "lifecycleStep h q s") (auto elim: step_outcomeE)
  show "cachedAnswer h q (snd (lifecycleStep h q' s)) = Some r" if "cachedAnswer h q s = Some r"
  proof (cases "lifecycleStep h q' s")
    case (Pair x s')
    from this that have "cachedAnswer h q s' = Some r"
      by (cases rule: step_outcomeE) (auto simp: cachedAnswer_def bind_eq_Some_conv)
    with Pair show ?thesis by simp
  qed
qed

section \<open>Reachable states\<close>

inductive reachable :: "host \<Rightarrow> LifecycleState \<Rightarrow> bool" for h :: host where
  initial: "reachable h createMutableLifecycleState"
| call: "reachable h s \<Longrightarrow> reachable h (snd (lifecycleStep h q s))"

text \<open>The invariant of one slot: the candidate carries the identifiers of its key; it points
  to its latest evaluation; a rule id and a promotion time exist exactly as the status says;
  and a promoted candidate is backed by a passing evaluation without safety regressions.\<close>

fun slotOk :: "host \<Rightarrow> string \<times> string \<Rightarrow> LifecycleSlot \<Rightarrow> bool" where
  "slotOk h ident (None, r) = (r = None)"
| "slotOk h ident (Some c, r) =
    ((c_spaceId c, c_candidateId c) = ident \<and> c_sourceEpisodeIds c \<noteq> []
     \<and> c_latestReplayEvalId c = map_option rs_replayEvalId r
     \<and> (map_option rs_gateStatus r = Some GatePass \<longrightarrow> replayPasses r)
     \<and> (case c_status c of
          Shadow \<Rightarrow> c_promotedRuleId c = None \<and> c_promotedAtMillis c = None \<and> c_demotedAtMillis c = None
        | Promoted \<Rightarrow> c_promotedRuleId c = Some (case_prod (toDeterministicId h ''rule'' ''promote'') ident)
            \<and> c_promotedAtMillis c \<noteq> None \<and> c_demotedAtMillis c = None \<and> replayPasses r
        | Demoted \<Rightarrow> c_promotedRuleId c = None \<and> c_demotedAtMillis c \<noteq> None))"

lemma move_keeps_slotOk: "lifecycle_move h operation ident x y \<Longrightarrow> slotOk h ident x \<Longrightarrow> slotOk h ident y"
  by (induction rule: lifecycle_move.induct)
     (auto simp: freshShadow_def split: CandidateStatus.splits option.splits)

text \<open>Every key of the Maps is the key of a pair of identifiers, and its slot is well formed.\<close>

definition stateOk :: "host \<Rightarrow> LifecycleState \<Rightarrow> bool" where
  "stateOk h s = (\<forall>sp c. slotOk h (sp, c) (slot s (toCandidateKey h sp c)))"

lemma step_slot:
  assumes "lifecycleStep h q s = (x, s')"
  shows "slot s' k = slot s k
    \<or> (k = callKey h q \<and> lifecycle_move h (callOperation q) (callCandidate q) (slot s k) (slot s' k))"
  using assms by (cases rule: step_outcomeE; cases "k = callKey h q") auto

lemma callKey_eq [simp]: "toCandidateKey h sp c = callKey h q \<longleftrightarrow> callCandidate q = (sp, c)"
  by (cases "callCandidate q") (auto simp: callKey_def)

lemma step_keeps_stateOk [keeps]: "stateOk h s \<Longrightarrow> stateOk h (snd (lifecycleStep h q s))"
proof (unfold stateOk_def, intro allI)
  fix sp c
  assume ok: "\<forall>sp c. slotOk h (sp, c) (slot s (toCandidateKey h sp c))"
  obtain x s' where step: "lifecycleStep h q s = (x, s')" by fastforce
  show "slotOk h (sp, c) (slot (snd (lifecycleStep h q s)) (toCandidateKey h sp c))"
    using step_slot [OF step, of "toCandidateKey h sp c"] ok move_keeps_slotOk step by fastforce
qed

lemma reachable_stateOk: "reachable h s \<Longrightarrow> stateOk h s"
  by (induction rule: reachable.induct)
     (simp_all add: keeps, simp add: stateOk_def slot_def createMutableLifecycleState_def)

lemma slotOk_at: "reachable h s \<Longrightarrow> slotOk h (sp, c) (slot s (toCandidateKey h sp c))"
  using reachable_stateOk by (auto simp: stateOk_def)

lemma reachable_runAll: "reachable h s \<Longrightarrow> reachable h (runAll (lifecycleStep h) qs s)"
  by (induction qs arbitrary: s) (simp_all add: call)

section \<open>Arithmetic of the net value score\<close>

lemma round64_unit: "\<bar>r\<bar> \<le> 1 \<Longrightarrow> round64 r = JFin (fl r)"
  by (intro round64_small fl_unit_ball)

lemma jmul_gain: "0 \<le> a \<Longrightarrow> 0 \<le> r \<Longrightarrow> r \<le> 1 \<Longrightarrow> jnonneg (jmul (JFin a) (round64 r))"
  by (simp add: round64_unit jnonneg_round64 fl_nonneg)

lemma jmul_saving: "a \<le> 0 \<Longrightarrow> 0 \<le> r \<Longrightarrow> r \<le> 1 \<Longrightarrow> jnonneg (jmul (JFin a) (round64 (- r)))"
  by (simp add: round64_unit fl_minus jnonneg_round64 fl_nonneg mult_nonpos_nonneg)

lemma roundToSix_nonneg: "jnonneg x \<Longrightarrow> jnonneg (roundToSix x)"
proof -
  have pos: "jnonneg (jdiv (math_round y) (jint 1000000))" if "jnonneg y" for y
    using that by (cases y) (simp_all add: math_round_def jint_def jnonneg_round64 jinf_of_def)
  assume "jnonneg x"
  then have "jnonneg (jmul x (jint 1000000))"
    by (cases x) (simp_all add: jint_def jnonneg_round64 jinf_of_def)
  then show ?thesis unfolding roundToSix_def by (rule pos)
qed

section \<open>Properties\<close>

text \<open>C8: The operations refine the abstract state machine. Each call either rejects and
  changes nothing, or answers from the cache and changes nothing, or makes one allowed move of
  the slot of its own candidate (and of no other) and caches its answer under its digest.\<close>

theorem lifecycle_refines: "outcome h call s (lifecycleStep h call s)"
  by (rule step_outcome)

text \<open>C19: Idempotence over histories. Once a call has succeeded, repeating it after any further
  calls gives the first answer again and changes nothing.\<close>

theorem lifecycle_idempotent:
  assumes "lifecycleStep h q s = (Succeed r, s')"
  shows "lifecycleStep h q (runAll (lifecycleStep h) qs s') = (Succeed r, runAll (lifecycleStep h) qs s')"
  using assms by (rule lifecycle.replay)

text \<open>C20: The slots of a reachable state are well formed: identifiers match the key, the
  candidate points to its latest evaluation, rule id and times agree with the status, and a
  promoted candidate is backed by a passing evaluation without safety regressions.\<close>

theorem lifecycle_invariant:
  "reachable h s \<Longrightarrow> slotOk h (sp, c) (slot s (toCandidateKey h sp c))"
  by (rule slotOk_at)

text \<open>C21: Only \<open>promote\<close> makes a candidate promoted, only from a latest evaluation that passed
  without safety regressions, and never with expired evidence.\<close>

theorem promotion_gate:
  assumes "lifecycleStep h q s = (x, s')"
    and "candidatesByKey s' k = Some c" "c_status c = Promoted"
    and "map_option c_status (candidatesByKey s k) \<noteq> Some Promoted"
  shows "callOperation q = Promote \<and> k = callKey h q \<and> replayPasses (latestReplayByKey s k)
    \<and> c_updatedAtMillis c \<le> c_expiresAtMillis c"
proof -
  have "slot s' k \<noteq> slot s k" using assms(2-4) by (auto simp: slot_def)
  then have "k = callKey h q" "lifecycle_move h (callOperation q) (callCandidate q) (slot s k) (slot s' k)"
    using step_slot [OF assms(1), of k] by auto
  then show ?thesis using assms(2-4)
    by (auto simp: slot_def freshShadow_def elim!: lifecycle_moveE)
qed

text \<open>C22: Only \<open>demote\<close> takes a candidate out of the promoted status, and it removes the rule.\<close>

theorem promoted_until_demoted:
  assumes "lifecycleStep h q s = (x, s')"
    and "candidatesByKey s k = Some c" "c_status c = Promoted"
  shows "candidatesByKey s' k = Some c
    \<or> (callOperation q = Demote \<and> k = callKey h q
       \<and> (\<exists>c'. candidatesByKey s' k = Some c' \<and> c_status c' = Demoted \<and> c_promotedRuleId c' = None))"
proof (cases "slot s' k = slot s k")
  case True
  then show ?thesis using assms(2) by (simp add: slot_def)
next
  case False
  then have "k = callKey h q" "lifecycle_move h (callOperation q) (callCandidate q) (slot s k) (slot s' k)"
    using step_slot [OF assms(1), of k] by auto
  then show ?thesis using assms(2,3) False
    by (auto simp: slot_def elim!: lifecycle_moveE)
qed

text \<open>A replay evaluation without any regression passes the gate: if the request is valid
  and no delta is for the worse, the rounded floating-point score is nonnegative and the gate
  is \<open>pass\<close>.\<close>

theorem no_regression_passes:
  assumes "validReplayEval r"
    and "jle (jint 0) (successRateDelta (re_qualityDelta r))" "jle (reopenRateDelta (re_qualityDelta r)) (jint 0)"
    and "latencyP95DeltaMs (re_efficiencyDelta r) \<le> 0" "jle (tokenCostDelta (re_efficiencyDelta r)) (jint 0)"
    and "policyViolationsDelta (re_safetyDelta r) \<le> 0" "hallucinationFlagDelta (re_safetyDelta r) \<le> 0"
  shows "evaluateReplayGate r (computeNetValueScore r) = GatePass"
proof -
  obtain a b t where fin: "successRateDelta (re_qualityDelta r) = JFin a"
      "reopenRateDelta (re_qualityDelta r) = JFin b" "tokenCostDelta (re_efficiencyDelta r) = JFin t"
    using assms(1) unfolding validReplayEval_def scoreDelta_def by (blast dest: isBetween_finite)
  have "0 \<le> a" "b \<le> 0" "t \<le> 0"
    using assms(2,3,5) by (auto simp: fin jle_def jint_def jeq_def)
  then have "jnonneg (computeNetValueScore r)"
    unfolding computeNetValueScore_def fin jint_def using assms(4,6,7)
    by (intro roundToSix_nonneg jnonneg_jadd jmul_gain jmul_saving) simp_all
  then show ?thesis using assms(6,7) by (simp add: evaluateReplayGate_def jnonneg_jle)
qed

section \<open>Examples\<close>

definition sampleKey :: string where
  "sampleKey = toCandidateKey sampleHost ''a'' ''b''"

definition sampleShadow :: Candidate where
  "sampleShadow = \<lparr>c_spaceId = ''a'', c_candidateId = ''b'', c_statement = ''c'', c_scope = ''a'',
     c_sourceEpisodeIds = [''a''], c_status = Shadow, c_expiresAtMillis = 9, c_latestReplayEvalId = Some ''c'',
     c_promotedRuleId = None, c_promotedAtMillis = None, c_demotedAtMillis = None, c_updatedAtMillis = 1\<rparr>"

definition sampleReplay :: ReplayEvaluationState where
  "sampleReplay = \<lparr>rs_replayEvalId = ''c'', rs_gateStatus = GatePass,
     rs_safetyDelta = \<lparr>policyViolationsDelta = 0, hallucinationFlagDelta = 0\<rparr>\<rparr>"

definition sampleState :: "Candidate \<Rightarrow> LifecycleState" where
  "sampleState c = \<lparr>candidatesByKey = [sampleKey \<mapsto> c], latestReplayByKey = [sampleKey \<mapsto> sampleReplay],
     responseByRequestDigest = Map.empty\<rparr>"

definition sampleWrite :: ShadowWriteRequest where
  "sampleWrite = \<lparr>sw_spaceId = ''a'', sw_candidateId = ''b'', sw_statement = ''c'', sw_scope = None,
     sw_sourceEpisodeIds = [''a''], sw_expiresAtMillis = 9, sw_writtenAtMillis = 1\<rparr>"

definition samplePromote :: PromoteRequest where
  "samplePromote = \<lparr>pr_spaceId = ''a'', pr_candidateId = ''b'', pr_promotedAtMillis = 5\<rparr>"

lemma sampleKey [simp]: "toCandidateKey sampleHost ''a'' ''b'' = sampleKey"
  by (simp add: sampleKey_def)

lemmas sample_defs = sampleShadow_def sampleReplay_def sampleState_def sampleWrite_def samplePromote_def

lemma sample_ints [simp]: "nonNegativeInt 1" "nonNegativeInt 5" "nonNegativeInt 9"
  by (simp_all add: nonNegativeInt_def isSafeInteger_def maxSafeInteger_def)

lemma sample_no_cache [simp]:
  "getCachedResponse (sampleState c) d = None" "getCachedResponse createMutableLifecycleState d = None"
  by (simp_all add: getCachedResponse_def sampleState_def createMutableLifecycleState_def)

lemma sample_write_ok:
  "\<exists>r s'. lifecycleStep sampleHost (ShadowWriteCall sampleWrite) createMutableLifecycleState = (Succeed r, s')
     \<and> map_option c_status (candidatesByKey s' sampleKey) = Some Shadow"
  by (simp add: shadowWrite_def decoded_eq validShadowWrite_def sampleWrite_def Let_def answer_def)
     (simp add: createMutableLifecycleState_def canonicalizeShadowWriteRequest_def answer_def)

lemma sample_promote_ok:
  "\<exists>r s' c. lifecycleStep sampleHost (PromoteCall samplePromote) (sampleState sampleShadow) = (Succeed r, s')
     \<and> candidatesByKey s' sampleKey = Some c \<and> c_status c = Promoted"
  by (simp add: promote_def decoded_eq validPromote_def samplePromote_def Let_def answer_def)
     (simp add: sampleState_def sampleShadow_def sampleReplay_def Let_def answer_def)

theorem lifecycle_idempotent_witness:
  "\<exists>r s'. lifecycleStep sampleHost (ShadowWriteCall sampleWrite) createMutableLifecycleState = (Succeed r, s')
     \<and> lifecycleStep sampleHost (ShadowWriteCall sampleWrite)
         (runAll (lifecycleStep sampleHost) [PromoteCall samplePromote] s')
         = (Succeed r, runAll (lifecycleStep sampleHost) [PromoteCall samplePromote] s')"
proof -
  obtain r s' where "lifecycleStep sampleHost (ShadowWriteCall sampleWrite) createMutableLifecycleState = (Succeed r, s')"
    using sample_write_ok by blast
  with lifecycle_idempotent [OF this] show ?thesis by blast
qed

theorem lifecycle_invariant_witness:
  "\<exists>c. candidatesByKey (snd (lifecycleStep sampleHost (ShadowWriteCall sampleWrite) createMutableLifecycleState))
          (toCandidateKey sampleHost ''a'' ''b'') = Some c
     \<and> c_status c = Shadow \<and> c_promotedRuleId c = None"
proof -
  let ?s = "snd (lifecycleStep sampleHost (ShadowWriteCall sampleWrite) createMutableLifecycleState)"
  have "reachable sampleHost ?s" by (intro reachable.intros)
  from lifecycle_invariant [OF this, of "''a''" "''b''"] sample_write_ok show ?thesis
    by (auto simp: slot_def)
qed

theorem promotion_gate_witness:
  "replayPasses (latestReplayByKey (sampleState sampleShadow) sampleKey)"
proof -
  obtain r s' c where
    "lifecycleStep sampleHost (PromoteCall samplePromote) (sampleState sampleShadow) = (Succeed r, s')"
    "candidatesByKey s' sampleKey = Some c" "c_status c = Promoted"
    using sample_promote_ok by blast
  from promotion_gate [OF this] show ?thesis by (simp add: sampleState_def sampleShadow_def)
qed

theorem promoted_until_demoted_witness:
  "candidatesByKey (snd (lifecycleStep sampleHost (PromoteCall samplePromote)
     (sampleState (sampleShadow\<lparr>c_status := Promoted\<rparr>)))) sampleKey = Some (sampleShadow\<lparr>c_status := Promoted\<rparr>)"
  using promoted_until_demoted [of sampleHost "PromoteCall samplePromote" "sampleState (sampleShadow\<lparr>c_status := Promoted\<rparr>)" _ _ sampleKey
      "sampleShadow\<lparr>c_status := Promoted\<rparr>", OF prod.collapse [symmetric]]
  by (simp add: sampleState_def)

definition sampleEvaluation :: ReplayEvalRequest where
  "sampleEvaluation = \<lparr>re_spaceId = ''a'', re_candidateId = ''b'', re_evaluationPackId = ''c'', re_targetMemorySpace = ''a'',
     re_evaluatedAtMillis = 1, re_qualityDelta = \<lparr>successRateDelta = JFin (1 / 4), reopenRateDelta = JFin (- 1 / 4)\<rparr>,
     re_efficiencyDelta = \<lparr>latencyP95DeltaMs = - 10, tokenCostDelta = JFin (- 5)\<rparr>,
     re_safetyDelta = \<lparr>policyViolationsDelta = 0, hallucinationFlagDelta = 0\<rparr>\<rparr>"

theorem no_regression_passes_witness:
  "evaluateReplayGate sampleEvaluation (computeNetValueScore sampleEvaluation) = GatePass"
  by (rule no_regression_passes)
     (simp_all add: sampleEvaluation_def validReplayEval_def scoreDelta_def isBetween_def jle_def jeq_def jint_def
        isSafeInteger_def maxSafeInteger_def)

section \<open>What the cache and the stored evaluation do not undo\<close>

text \<open>After a demotion the candidate is demoted, but the promote request that once succeeded
  is still answered with its first response, in which the candidate is promoted.\<close>

lemma stale_promote_answer:
  assumes "lifecycleStep h (PromoteCall r) s = (Succeed (PromoteAnswered d True c rule ev g), s1)"
    and "c_status c = Promoted" "s2 = runAll (lifecycleStep h) qs s1"
    and "map_option c_status (candidatesByKey s2 (callKey h (PromoteCall r))) = Some Demoted"
  shows "\<exists>c'. lifecycleStep h (PromoteCall r) s2 = (Succeed (PromoteAnswered d True c rule ev g), s2)
     \<and> c_status c = Promoted \<and> candidatesByKey s2 (callKey h (PromoteCall r)) = Some c' \<and> c_status c' = Demoted"
  using lifecycle.replay [OF assms(1), of qs] assms(2-4) by auto

end
