(* ===== verification/Ncm_Model.thy ===== *)
theory Ncm_Model
  imports Contracts
begin

text \<open>
  The data model and the pure helpers of the NCM hybrid service
  (libs/shared/src/effect/services/ncm-hybrid-service.ts, lines 19-622): feedback events,
  decay transitions, operator adjustments, tenant policies, the normalisers that throw, the
  digests, and the decay/reheat evaluation in IEEE binary64. Weights, deltas and knobs are
  JavaScript numbers; times are integers checked for the safe range, as \<open>normalizeMillis\<close>
  does. The numeric lemmas show that rounding to six decimals is stable, so that weights stay
  in [0, 1] and move in the direction of the net delta.
\<close>

section \<open>Data\<close>

datatype NcmFeedbackSource = Human_feedback | Agent_outcome | OtherSource string

datatype NcmFeedbackSignal = Helpful | Failure | OtherSignal string

datatype NcmDecayAction = Decay | Reheat | Stable

record NcmFeedbackProvenanceEnvelope =
  pv_tenantId :: string
  pv_projectId :: "string option"
  pv_roleId :: "string option"
  pv_userId :: "string option"
  pv_agentId :: "string option"
  pv_conversationId :: "string option"
  pv_messageId :: "string option"
  pv_sourceId :: "string option"
  pv_batchId :: "string option"

record NcmFeedbackEvent =
  fe_feedbackId :: string
  fe_spaceId :: string
  fe_memoryId :: string
  fe_source :: NcmFeedbackSource
  fe_signal :: NcmFeedbackSignal
  fe_actorUserId :: "string option"
  fe_actorAgentId :: "string option"
  fe_note :: "string option"
  fe_idempotencyKey :: "string option"
  fe_occurredAtMillis :: int
  fe_provenance :: "NcmFeedbackProvenanceEnvelope option"

record NcmDecayTransitionRecord =
  tr_transitionId :: string
  tr_spaceId :: string
  tr_memoryId :: string
  tr_action :: NcmDecayAction
  tr_fromWeight :: jsnum
  tr_toWeight :: jsnum
  tr_netDelta :: jsnum
  tr_reasonCodes :: "string list"
  tr_sourceFeedbackIds :: "string list"
  tr_policyDigestSha256 :: string
  tr_recordedAtMillis :: int

record NcmOperatorWeightAdjustmentRecord =
  oa_adjustmentId :: string
  oa_spaceId :: string
  oa_memoryId :: string
  oa_actorUserId :: string
  oa_reason :: string
  oa_delta :: jsnum
  oa_fromWeight :: jsnum
  oa_toWeight :: jsnum
  oa_recordedAtMillis :: int
  oa_policyDigestSha256 :: string

record NcmTenantPolicyKnobs =
  enableFeedbackIngestion :: bool
  enableDeterministicDecayReheat :: bool
  enableManualWeightTuning :: bool
  failClosed :: bool
  maxManualWeightDelta :: jsnum
  helpfulSignalBoost :: jsnum
  failureSignalPenalty :: jsnum
  retrievalReheatBoost :: jsnum
  timeDecayFactor :: jsnum
  halfLifeDays :: jsnum

record NcmTenantPolicy =
  po_tenantId :: string
  po_knobs :: NcmTenantPolicyKnobs
  po_updatedAtMillis :: int

record NcmDecayReheatPolicyResponse =
  dr_action :: NcmDecayAction
  dr_fromWeight :: jsnum
  dr_toWeight :: jsnum
  dr_netDelta :: jsnum
  dr_reasonCodes :: "string list"
  dr_explainability :: "string list"

fun sourceName :: "NcmFeedbackSource \<Rightarrow> string" where
  "sourceName Human_feedback = ''human_feedback''"
| "sourceName Agent_outcome = ''agent_outcome''"
| "sourceName (OtherSource s) = s"

fun signalName :: "NcmFeedbackSignal \<Rightarrow> string" where
  "signalName Helpful = ''helpful''"
| "signalName Failure = ''failure''"
| "signalName (OtherSignal s) = s"

fun decayActionName :: "NcmDecayAction \<Rightarrow> string" where
  "decayActionName Decay = ''decay''"
| "decayActionName Reheat = ''reheat''"
| "decayActionName Stable = ''stable''"

section \<open>Defaults\<close>

definition millisecondsPerDay :: int where
  "millisecondsPerDay = 24 * 60 * 60 * 1000"

definition defaultConsoleLimit :: int where
  "defaultConsoleLimit = 100"

definition reasonCodePolicyDisabled :: string where
  "reasonCodePolicyDisabled = ''NCM_POLICY_DISABLED''"

definition defaultTenantPolicyKnobs :: NcmTenantPolicyKnobs where
  "defaultTenantPolicyKnobs =
     \<lparr>enableFeedbackIngestion = True, enableDeterministicDecayReheat = True,
      enableManualWeightTuning = True, failClosed = True,
      maxManualWeightDelta = round64 (35 / 100), helpfulSignalBoost = round64 (8 / 100),
      failureSignalPenalty = round64 (2 / 10), retrievalReheatBoost = round64 (35 / 1000),
      timeDecayFactor = round64 (25 / 1000), halfLifeDays = JFin 21\<rparr>"

definition defaultTenantPolicy :: "string \<Rightarrow> int \<Rightarrow> NcmTenantPolicy" where
  "defaultTenantPolicy t now =
     \<lparr>po_tenantId = t, po_knobs = defaultTenantPolicyKnobs, po_updatedAtMillis = now\<rparr>"

section \<open>Numbers\<close>

definition clamp :: "jsnum \<Rightarrow> jsnum \<Rightarrow> jsnum \<Rightarrow> jsnum" where
  "clamp value lo hi = jmin hi (jmax lo value)"

definition round6 :: "jsnum \<Rightarrow> jsnum" where
  "round6 value = (case value of JFin r \<Rightarrow> round6_fixed r | _ \<Rightarrow> JFin 0)"

section \<open>Normalisers (a throw is an \<open>Inl\<close>)\<close>

type_synonym 'a ncm = "(ContractValidationError, 'a) result"

definition throwContract :: "string \<Rightarrow> string \<Rightarrow> string \<Rightarrow> 'a ncm" where
  "throwContract c m d = Inl (mkContractValidationError c m d)"

definition normalizeNonEmptyTrimmed :: "string \<Rightarrow> string \<Rightarrow> string \<Rightarrow> string ncm" where
  "normalizeNonEmptyTrimmed value c field =
     (let normalized = trim value in
      if length normalized = 0
      then throwContract c (field @ '' must be a non-empty trimmed string.'') (field @ '' received empty input.'')
      else Inr normalized)"

definition normalizeMillis :: "int \<Rightarrow> string \<Rightarrow> string \<Rightarrow> int ncm" where
  "normalizeMillis value c field =
     (if \<not> isSafeInteger value \<or> value < 0
      then throwContract c (field @ '' must be a non-negative safe integer.'')
             (field @ '' received '' @ intString value @ ''.'')
      else Inr value)"

definition normalizeWeight :: "jsnum \<Rightarrow> string \<Rightarrow> string \<Rightarrow> jsnum ncm" where
  "normalizeWeight value c field =
     (if \<not> isFinite value
      then throwContract c (field @ '' must be finite.'') (field @ '' received '' @ number_to_string value @ ''.'')
      else Inr (round6 (clamp value (jint 0) (jint 1))))"

definition normalizeDelta :: "jsnum \<Rightarrow> string \<Rightarrow> string \<Rightarrow> jsnum ncm" where
  "normalizeDelta value c field =
     (if \<not> isFinite value \<or> jlt value (jint (- 1)) \<or> jlt (jint 1) value
      then throwContract c (field @ '' must be in [-1, 1].'') (field @ '' received '' @ number_to_string value @ ''.'')
      else Inr (round6 value))"

definition checkPolicy :: "string \<Rightarrow> NcmTenantPolicy \<Rightarrow> NcmTenantPolicy ncm" where
  "checkPolicy s candidate =
     (if po_tenantId candidate \<noteq> s
      then throwContract ''NcmPolicy'' ''Policy tenant must match spaceId.''
             (''policy.tenantId='' @ po_tenantId candidate @ '' does not match spaceId='' @ s @ ''.'')
      else
        let knobs = po_knobs candidate in
        if \<not> isFinite (maxManualWeightDelta knobs) \<or> jle (maxManualWeightDelta knobs) (jint 0)
           \<or> jlt (jint 1) (maxManualWeightDelta knobs)
        then throwContract ''NcmPolicy'' ''maxManualWeightDelta must be in (0,1].''
               (''Received '' @ number_to_string (maxManualWeightDelta knobs) @ ''.'')
        else if \<not> isFinite (halfLifeDays knobs) \<or> jle (halfLifeDays knobs) (jint 0)
        then throwContract ''NcmPolicy'' ''halfLifeDays must be > 0.''
               (''Received '' @ number_to_string (halfLifeDays knobs) @ ''.'')
        else Inr candidate)"

definition normalizePolicy ::
  "string \<Rightarrow> int \<Rightarrow> NcmTenantPolicy option \<Rightarrow> NcmTenantPolicy option \<Rightarrow> NcmTenantPolicy ncm" where
  "normalizePolicy s now policy fallbackDefaultPolicy =
     chain (case policy of Some p \<Rightarrow> Inr p
            | None \<Rightarrow> (case fallbackDefaultPolicy of Some p \<Rightarrow> Inr p
                | None \<Rightarrow> chain (normalizeMillis now ''NcmPolicy'' ''nowMillis'')
                    (\<lambda>n. Inr (defaultTenantPolicy s n))))
       (checkPolicy s)"

section \<open>Sorted logs\<close>

definition feedbackOrder :: "collator \<Rightarrow> NcmFeedbackEvent comparator" where
  "feedbackOrder lc = thenBy (ascending fe_occurredAtMillis) (key fe_feedbackId lc)"

definition toSortedFeedbackEvents :: "collator \<Rightarrow> NcmFeedbackEvent list \<Rightarrow> NcmFeedbackEvent list" where
  "toSortedFeedbackEvents lc events = arraySort (feedbackOrder lc) events"

definition transitionOrder :: "collator \<Rightarrow> NcmDecayTransitionRecord comparator" where
  "transitionOrder lc = thenBy (ascending tr_recordedAtMillis) (key tr_transitionId lc)"

definition toSortedTransitions ::
  "collator \<Rightarrow> NcmDecayTransitionRecord list \<Rightarrow> NcmDecayTransitionRecord list" where
  "toSortedTransitions lc transitions = arraySort (transitionOrder lc) transitions"

definition adjustmentOrder :: "collator \<Rightarrow> NcmOperatorWeightAdjustmentRecord comparator" where
  "adjustmentOrder lc = thenBy (ascending oa_recordedAtMillis) (key oa_adjustmentId lc)"

definition toSortedAdjustments ::
  "collator \<Rightarrow> NcmOperatorWeightAdjustmentRecord list \<Rightarrow> NcmOperatorWeightAdjustmentRecord list" where
  "toSortedAdjustments lc adjustments = arraySort (adjustmentOrder lc) adjustments"

section \<open>Feedback events\<close>

definition normalizeSource :: "string \<Rightarrow> NcmFeedbackSource \<Rightarrow> NcmFeedbackSource ncm" where
  "normalizeSource c source =
     (case source of
        OtherSource s \<Rightarrow> throwContract c
          (''source must be '' @ [CHR 0x27] @ ''human_feedback'' @ [CHR 0x27] @ '' or '' @ [CHR 0x27]
             @ ''agent_outcome'' @ [CHR 0x27] @ ''.'')
          (''Received '' @ s @ ''.'')
      | _ \<Rightarrow> Inr source)"

definition normalizeSignal :: "string \<Rightarrow> NcmFeedbackSignal \<Rightarrow> NcmFeedbackSignal ncm" where
  "normalizeSignal c signal =
     (case signal of
        OtherSignal s \<Rightarrow> throwContract c
          (''signal must be '' @ [CHR 0x27] @ ''helpful'' @ [CHR 0x27] @ '' or '' @ [CHR 0x27]
             @ ''failure'' @ [CHR 0x27] @ ''.'')
          (''Received '' @ s @ ''.'')
      | _ \<Rightarrow> Inr signal)"

definition normalizeOptional :: "string option \<Rightarrow> string \<Rightarrow> string \<Rightarrow> string option ncm" where
  "normalizeOptional value c field =
     (case value of None \<Rightarrow> Inr None
      | Some v \<Rightarrow> chain (normalizeNonEmptyTrimmed v c field) (\<lambda>n. Inr (Some n)))"

definition normalizeFeedbackEvent :: "NcmFeedbackEvent \<Rightarrow> string \<Rightarrow> NcmFeedbackEvent ncm" where
  "normalizeFeedbackEvent event c =
     chain (normalizeNonEmptyTrimmed (fe_feedbackId event) c ''feedbackId'') (\<lambda>feedbackId.
     chain (normalizeNonEmptyTrimmed (fe_spaceId event) c ''spaceId'') (\<lambda>spaceId.
     chain (normalizeNonEmptyTrimmed (fe_memoryId event) c ''memoryId'') (\<lambda>memoryId.
     chain (normalizeMillis (fe_occurredAtMillis event) c ''occurredAtMillis'') (\<lambda>occurredAtMillis.
     chain (normalizeSource c (fe_source event)) (\<lambda>source.
     chain (normalizeSignal c (fe_signal event)) (\<lambda>signal.
     chain (normalizeOptional (fe_note event) c ''note'') (\<lambda>note.
     chain (normalizeOptional (fe_idempotencyKey event) c ''idempotencyKey'') (\<lambda>idempotencyKey.
       Inr (event\<lparr>fe_feedbackId := feedbackId, fe_spaceId := spaceId, fe_memoryId := memoryId,
                 fe_source := source, fe_signal := signal, fe_occurredAtMillis := occurredAtMillis,
                 fe_note := note, fe_idempotencyKey := idempotencyKey\<rparr>)))))))))"

text \<open>\<open>map\<close> of a callback that may throw.\<close>

fun mapThrowing :: "('a \<Rightarrow> 'b ncm) \<Rightarrow> 'a list \<Rightarrow> 'b list ncm" where
  "mapThrowing f [] = Inr []"
| "mapThrowing f (x # xs) = chain (f x) (\<lambda>y. chain (mapThrowing f xs) (\<lambda>ys. Inr (y # ys)))"

section \<open>Digests\<close>

definition optField :: "string \<Rightarrow> string option \<Rightarrow> (string \<times> json) list" where
  "optField k v = (case v of None \<Rightarrow> [] | Some s \<Rightarrow> [(k, JStr s)])"

definition provenanceJson :: "NcmFeedbackProvenanceEnvelope \<Rightarrow> json" where
  "provenanceJson p = JObj ([(''tenantId'', JStr (pv_tenantId p))]
     @ optField ''projectId'' (pv_projectId p) @ optField ''roleId'' (pv_roleId p)
     @ optField ''userId'' (pv_userId p) @ optField ''agentId'' (pv_agentId p)
     @ optField ''conversationId'' (pv_conversationId p) @ optField ''messageId'' (pv_messageId p)
     @ optField ''sourceId'' (pv_sourceId p) @ optField ''batchId'' (pv_batchId p))"

definition feedbackEventJson :: "NcmFeedbackEvent \<Rightarrow> json" where
  "feedbackEventJson event = JObj
     [(''feedbackId'', JStr (fe_feedbackId event)), (''spaceId'', JStr (fe_spaceId event)),
      (''memoryId'', JStr (fe_memoryId event)), (''source'', JStr (sourceName (fe_source event))),
      (''signal'', JStr (signalName (fe_signal event))),
      (''actorUserId'', orNull JStr (fe_actorUserId event)),
      (''actorAgentId'', orNull JStr (fe_actorAgentId event)),
      (''note'', orNull JStr (fe_note event)),
      (''idempotencyKey'', orNull JStr (fe_idempotencyKey event)),
      (''occurredAtMillis'', JNum (jint (fe_occurredAtMillis event))),
      (''provenance'', orNull provenanceJson (fe_provenance event))]"

definition feedbackEventDigest :: "host \<Rightarrow> NcmFeedbackEvent \<Rightarrow> string" where
  "feedbackEventDigest h event = sha256 h (stableStringify (localeCompare h) (feedbackEventJson event))"

definition adjustmentJson ::
  "string \<Rightarrow> string \<Rightarrow> string \<Rightarrow> string \<Rightarrow> string \<Rightarrow> jsnum \<Rightarrow> jsnum \<Rightarrow> int \<Rightarrow> json" where
  "adjustmentJson adjustmentId s m actorUserId reason delta currentWeight now = JObj
     [(''adjustmentId'', JStr adjustmentId), (''spaceId'', JStr s), (''memoryId'', JStr m),
      (''actorUserId'', JStr actorUserId), (''reason'', JStr reason), (''delta'', JNum delta),
      (''currentWeight'', JNum currentWeight), (''nowMillis'', JNum (jint now))]"

definition knobsJson :: "NcmTenantPolicyKnobs \<Rightarrow> json" where
  "knobsJson k = JObj
     [(''enableFeedbackIngestion'', JBool (enableFeedbackIngestion k)),
      (''enableDeterministicDecayReheat'', JBool (enableDeterministicDecayReheat k)),
      (''enableManualWeightTuning'', JBool (enableManualWeightTuning k)),
      (''failClosed'', JBool (failClosed k)), (''maxManualWeightDelta'', JNum (maxManualWeightDelta k)),
      (''helpfulSignalBoost'', JNum (helpfulSignalBoost k)),
      (''failureSignalPenalty'', JNum (failureSignalPenalty k)),
      (''retrievalReheatBoost'', JNum (retrievalReheatBoost k)),
      (''timeDecayFactor'', JNum (timeDecayFactor k)), (''halfLifeDays'', JNum (halfLifeDays k))]"

definition policyDigest :: "host \<Rightarrow> NcmTenantPolicy \<Rightarrow> string" where
  "policyDigest h policy = sha256 h (stableStringify (localeCompare h) (knobsJson (po_knobs policy)))"

definition isSameFeedbackIdentity :: "NcmFeedbackEvent \<Rightarrow> NcmFeedbackEvent \<Rightarrow> bool" where
  "isSameFeedbackIdentity left right =
     (fe_feedbackId left = fe_feedbackId right
      \<or> (fe_idempotencyKey left \<noteq> None \<and> fe_idempotencyKey right \<noteq> None
         \<and> fe_idempotencyKey left = fe_idempotencyKey right))"

section \<open>Decay and reheat\<close>

definition staleDaysOf :: "int \<Rightarrow> jsnum option \<Rightarrow> NcmTenantPolicy \<Rightarrow> jsnum" where
  "staleDaysOf now lastRetrievedAtMillis policy =
     (case lastRetrievedAtMillis of
        None \<Rightarrow> halfLifeDays (po_knobs policy)
      | Some l \<Rightarrow> jmax (jint 0) (jdiv (jsub (jint now) l) (jint millisecondsPerDay)))"

definition decayReasonCodes :: "nat \<Rightarrow> nat \<Rightarrow> jsnum \<Rightarrow> jsnum \<Rightarrow> jsnum \<Rightarrow> NcmDecayAction \<Rightarrow> string list" where
  "decayReasonCodes helpfulCount failureCount recentRetrievalCount staleDays halfLife act =
     (if 0 < helpfulCount then [''HELPFUL_SIGNAL''] else [])
     @ (if 0 < failureCount then [''FAILURE_SIGNAL''] else [])
     @ (if jlt (jint 0) recentRetrievalCount then [''RECENT_RETRIEVAL_REHEAT''] else [])
     @ (if jlt halfLife staleDays then [''STALE_TIME_DECAY''] else [])
     @ (if act = Stable then [''NO_CHANGE''] else [])"

definition evaluateDecayFromSignals ::
  "jsnum \<Rightarrow> int \<Rightarrow> jsnum option \<Rightarrow> jsnum \<Rightarrow> NcmFeedbackSignal list \<Rightarrow> NcmTenantPolicy
    \<Rightarrow> NcmDecayReheatPolicyResponse ncm" where
  "evaluateDecayFromSignals weight now lastRetrievedAtMillis recentRetrievals signals policy =
     chain (normalizeWeight weight ''NcmDecayReheatPolicyRequest'' ''currentWeight'') (\<lambda>currentWeight.
     chain (normalizeMillis now ''NcmDecayReheatPolicyRequest'' ''nowMillis'') (\<lambda>nowMillis.
      let knobs = po_knobs policy;
          recentRetrievalCount = jmax (jint 0) (jtrunc recentRetrievals);
          helpfulCount = length (filter (\<lambda>signal. signal = Helpful) signals);
          failureCount = length signals - helpfulCount;
          staleDays = staleDaysOf nowMillis lastRetrievedAtMillis policy;
          timeDecay = jmul (jdiv staleDays (halfLifeDays knobs)) (timeDecayFactor knobs);
          helpfulBoost = jmul (jint (int helpfulCount)) (helpfulSignalBoost knobs);
          failurePenalty = jmul (jint (int failureCount)) (failureSignalPenalty knobs);
          retrievalBoost = jmul (jmin (jint 10) recentRetrievalCount) (retrievalReheatBoost knobs);
          netDelta = round6 (jsub (jsub (jadd helpfulBoost retrievalBoost) failurePenalty) timeDecay)
      in chain (normalizeWeight (jadd currentWeight netDelta) ''NcmDecay'' ''toWeight'') (\<lambda>toWeight.
          let act = (if jlt (jint 0) netDelta then Reheat else if jlt netDelta (jint 0) then Decay else Stable)
          in Inr \<lparr>dr_action = act, dr_fromWeight = currentWeight, dr_toWeight = toWeight, dr_netDelta = netDelta,
               dr_reasonCodes = decayReasonCodes helpfulCount failureCount recentRetrievalCount staleDays
                 (halfLifeDays knobs) act,
               dr_explainability =
                 [''helpful='' @ intString (int helpfulCount) @ '', failure='' @ intString (int failureCount)
                    @ '', retrievals='' @ number_to_string recentRetrievalCount
                    @ '', staleDays='' @ number_to_string (round6 staleDays),
                  ''boost='' @ number_to_string (round6 (jadd helpfulBoost retrievalBoost))
                    @ '', penalty='' @ number_to_string (round6 (jadd failurePenalty timeDecay))
                    @ '', netDelta='' @ number_to_string netDelta,
                  ''weight '' @ number_to_string currentWeight @ '' -> '' @ number_to_string toWeight
                    @ '' ('' @ decayActionName act @ '')'']\<rparr>)))"

text \<open>The truthiness test of the source: neither \<open>undefined\<close> nor the empty string.\<close>

definition lineageRef :: "string \<Rightarrow> string option \<Rightarrow> string list" where
  "lineageRef prefix v = (case v of None \<Rightarrow> [] | Some s \<Rightarrow> if s = [] then [] else [prefix @ s])"

definition toLineageRefs :: "NcmFeedbackEvent \<Rightarrow> string list" where
  "toLineageRefs event =
     (case fe_provenance event of None \<Rightarrow> []
      | Some p \<Rightarrow> lineageRef ''user:'' (pv_userId p) @ lineageRef ''agent:'' (pv_agentId p)
          @ lineageRef ''conversation:'' (pv_conversationId p) @ lineageRef ''message:'' (pv_messageId p)
          @ lineageRef ''source:'' (pv_sourceId p) @ lineageRef ''batch:'' (pv_batchId p))"

section \<open>Weights\<close>

text \<open>A normalised weight is the double nearest to a multiple of 10^-6 in [0, 1].\<close>

definition isWeight :: "jsnum \<Rightarrow> bool" where
  "isWeight w = (\<exists>n. 0 \<le> n \<and> n \<le> 1000000 \<and> w = JFin (fl (of_int n / 1000000)))"

definition clamp01 :: "rat \<Rightarrow> rat" where
  "clamp01 x = min 1 (max 0 x)"

lemma clamp01_bounds [simp]: "0 \<le> clamp01 x" "clamp01 x \<le> 1"
  by (simp_all add: clamp01_def)

lemma clamp01_mono: "x \<le> y \<Longrightarrow> clamp01 x \<le> clamp01 y"
  by (simp add: clamp01_def)

lemma clamp01_unit: "0 \<le> x \<Longrightarrow> x \<le> 1 \<Longrightarrow> clamp01 x = x"
  by (simp add: clamp01_def)

lemma clamp_unit: "clamp (JFin x) (jint 0) (jint 1) = JFin (clamp01 x)"
  by (simp add: clamp_def jmax_def jmin_def jint_def clamp01_def)

lemma round6_unit:
  assumes "0 \<le> x" "x \<le> 1"
  shows "round6 (JFin x) = JFin (fl (of_int (toFixed6_units x) / 1000000))"
proof -
  have "0 \<le> toFixed6_units x" "toFixed6_units x \<le> 1000000" using toFixed6_units_range [OF assms] by auto
  then have "\<bar>of_int (toFixed6_units x) / 1000000 :: rat\<bar> \<le> 1" by simp
  then have "round64 (of_int (toFixed6_units x) / 1000000) = JFin (fl (of_int (toFixed6_units x) / 1000000))"
    by (intro round64_small fl_unit_ball)
  moreover have "\<not> 1000000000000000000000 \<le> \<bar>x\<bar>" using assms by simp
  ultimately show ?thesis by (simp add: round6_def round6_fixed_def)
qed

lemma normalizeWeight_JFin:
  "normalizeWeight (JFin x) c f = Inr (JFin (fl (of_int (toFixed6_units (clamp01 x)) / 1000000)))"
  by (simp add: normalizeWeight_def isFinite_def clamp_unit round6_unit)

lemma normalizeWeight_Inr:
  "normalizeWeight v c f = Inr w \<longleftrightarrow> (\<exists>x. v = JFin x \<and> w = JFin (fl (of_int (toFixed6_units (clamp01 x)) / 1000000)))"
  by (cases v) (auto simp: normalizeWeight_JFin, auto simp: normalizeWeight_def isFinite_def throwContract_def)

lemma normalizeWeight_isWeight: "normalizeWeight v c f = Inr w \<Longrightarrow> isWeight w"
  unfolding normalizeWeight_Inr isWeight_def using toFixed6_units_range [OF clamp01_bounds] by blast

lemma isWeight_fl:
  assumes "isWeight (JFin w)"
  shows "0 \<le> w \<and> w \<le> 1 \<and> fl (of_int (toFixed6_units w) / 1000000) = w
    \<and> toFixed6_units (clamp01 (fl w)) = toFixed6_units w"
proof -
  obtain n where n: "0 \<le> n" "n \<le> 1000000" "w = fl (of_int n / 1000000)"
    using assms by (auto simp: isWeight_def)
  have "0 \<le> w" "w \<le> 1" unfolding n(3) using n(1,2) fl_unit_interval [of "of_int n / 1000000"] by auto
  moreover have "clamp01 (fl w) = fl w" using fl_unit_interval [of w] calculation by (intro clamp01_unit) auto
  ultimately show ?thesis using toFixed6_units_fl [OF n(1,2)] by (simp add: n(3))
qed

text \<open>A normalised weight is left alone by a second normalisation.\<close>

lemma normalizeWeight_idem: "isWeight w \<Longrightarrow> normalizeWeight w c f = Inr w"
proof -
  assume w: "isWeight w"
  then obtain r where r: "w = JFin r" by (auto simp: isWeight_def)
  have "0 \<le> r \<and> r \<le> 1 \<and> fl (of_int (toFixed6_units r) / 1000000) = r"
    using isWeight_fl w unfolding r by blast
  then show ?thesis by (simp add: r normalizeWeight_JFin clamp01_unit)
qed

text \<open>Adding a delta to a normalised weight moves it in the direction of the delta.\<close>

lemma round64_JFin: "round64 x = JFin r \<Longrightarrow> r = fl x"
  by (simp add: round64_def Let_def split: if_splits)

lemma weight_moves:
  assumes w: "isWeight (JFin w)" and t: "normalizeWeight (jadd (JFin w) (JFin d)) c f = Inr (JFin t)"
  shows "(0 \<le> d \<longrightarrow> w \<le> t) \<and> (d \<le> 0 \<longrightarrow> t \<le> w)"
proof -
  obtain x where "round64 (w + d) = JFin x" and tx: "t = fl (of_int (toFixed6_units (clamp01 x)) / 1000000)"
    using t by (auto simp: normalizeWeight_Inr)
  then have x: "x = fl (w + d)" by (intro round64_JFin)
  have wfix: "fl (of_int (toFixed6_units (clamp01 (fl w))) / 1000000) = w" using isWeight_fl [OF w] by simp
  have mono: "fl (of_int (toFixed6_units (clamp01 (fl a))) / 1000000) \<le> fl (of_int (toFixed6_units (clamp01 (fl b))) / 1000000)"
    if "a \<le> b" for a b
    using that by (intro fl_mono divide_right_mono) (simp_all add: fl_mono clamp01_mono toFixed6_units_mono)
  show ?thesis
    using mono [of w "w + d"] mono [of "w + d" w] unfolding wfix tx x by simp
qed

end
