(* ===== verification/Ncm_Service.thy ===== *)
theory Ncm_Service
  imports Ncm_Model Idempotent_Calls
begin

text \<open>
  The operations of the NCM hybrid service (ncm-hybrid-service.ts, lines 93-183 and
  624-1231): feedback ingestion, the decay/reheat policy, operator weight adjustment and the
  console signals, each an \<open>Effect.try\<close> whose throw is a typed failure, and the noop service.
  \<open>dp\<close> is \<open>options.defaultPolicy\<close>. The service keeps no state: the caller passes the logs and
  stores the logs of the response. The locale \<open>replayable_log\<close> states what a caller relies on
  when it submits a request twice; both log-writing operations are interpretations of it.
\<close>

section \<open>Requests and responses\<close>

record NcmFeedbackIngestionRequest =
  fi_event :: NcmFeedbackEvent
  fi_currentWeight :: jsnum
  fi_recentRetrievalCount :: "jsnum option"
  fi_lastRetrievedAtMillis :: "jsnum option"
  fi_nowMillis :: int
  fi_policy :: "NcmTenantPolicy option"
  fi_existingEvents :: "NcmFeedbackEvent list option"
  fi_existingTransitions :: "NcmDecayTransitionRecord list option"

datatype NcmIngestionAction = IngestCreated | IngestReplayed | IngestRejected

record NcmFeedbackIngestionResponse =
  fr_action :: NcmIngestionAction
  fr_idempotentReplay :: bool
  fr_policyDeniedReasonCode :: "string option"
  fr_event :: NcmFeedbackEvent
  fr_events :: "NcmFeedbackEvent list"
  fr_transitions :: "NcmDecayTransitionRecord list"
  fr_computedWeight :: jsnum
  fr_transition :: "NcmDecayTransitionRecord option"
  fr_explainability :: "string list"

record NcmDecayReheatPolicyRequest =
  dq_spaceId :: string
  dq_memoryId :: string
  dq_nowMillis :: int
  dq_currentWeight :: jsnum
  dq_recentRetrievalCount :: "jsnum option"
  dq_lastRetrievedAtMillis :: "jsnum option"
  dq_feedbackSignals :: "NcmFeedbackSignal list"
  dq_policy :: "NcmTenantPolicy option"

record NcmOperatorWeightAdjustmentRequest =
  aq_adjustmentId :: string
  aq_spaceId :: string
  aq_memoryId :: string
  aq_actorUserId :: string
  aq_reason :: string
  aq_delta :: jsnum
  aq_currentWeight :: jsnum
  aq_nowMillis :: int
  aq_policy :: "NcmTenantPolicy option"
  aq_existingAdjustments :: "NcmOperatorWeightAdjustmentRecord list option"

datatype NcmAdjustmentAction = Applied | AdjustReplayed | AdjustRejected

record NcmOperatorWeightAdjustmentResponse =
  ar_action :: NcmAdjustmentAction
  ar_idempotentReplay :: bool
  ar_policyDeniedReasonCode :: "string option"
  ar_tunedWeight :: jsnum
  ar_adjustment :: NcmOperatorWeightAdjustmentRecord
  ar_adjustments :: "NcmOperatorWeightAdjustmentRecord list"

record NcmConsoleSignalsRequest =
  cq_spaceId :: string
  cq_memoryId :: "string option"
  cq_limit :: "int option"
  cq_feedbackEvents :: "NcmFeedbackEvent list"
  cq_decayTransitions :: "NcmDecayTransitionRecord list"
  cq_operatorAdjustments :: "NcmOperatorWeightAdjustmentRecord list"

datatype NcmConsoleSignalKind = FeedbackSignal | DecayTransitionSignal | OperatorAdjustmentSignal

record NcmConsoleSignalEntry =
  ce_kind :: NcmConsoleSignalKind
  ce_signalId :: string
  ce_memoryId :: string
  ce_occurredAtMillis :: int
  ce_summary :: string
  ce_lineageRefs :: "string list"

record NcmConsoleSignalsResponse =
  cr_totalFeedbackEvents :: nat
  cr_totalDecayTransitions :: nat
  cr_totalOperatorAdjustments :: nat
  cr_entries :: "NcmConsoleSignalEntry list"

type_synonym 'a ncm_exit = "(ContractValidationError, 'a) exit"

section \<open>Feedback ingestion\<close>

text \<open>The branch of a tenant whose policy disables ingestion.\<close>

definition ingestDisabled ::
  "NcmTenantPolicy \<Rightarrow> NcmFeedbackEvent \<Rightarrow> NcmFeedbackEvent list \<Rightarrow> NcmDecayTransitionRecord list \<Rightarrow> jsnum
    \<Rightarrow> NcmFeedbackIngestionResponse ncm" where
  "ingestDisabled policy normalizedEvent existingEvents existingTransitions currentWeight =
     (if failClosed (po_knobs policy)
      then throwContract ''NcmFeedbackIngestionRequest'' ''Feedback ingestion is disabled by tenant policy.''
             (''Policy knob enableFeedbackIngestion=false for tenant '' @ po_tenantId policy @ ''.'')
      else Inr \<lparr>fr_action = IngestRejected, fr_idempotentReplay = False,
             fr_policyDeniedReasonCode = Some reasonCodePolicyDisabled, fr_event = normalizedEvent,
             fr_events = existingEvents, fr_transitions = existingTransitions,
             fr_computedWeight = currentWeight, fr_transition = None,
             fr_explainability =
               [''feedback ingestion disabled by policy; fail-open rejection without state mutation.'']\<rparr>)"

text \<open>The branch of an event whose identity is in the log.\<close>

definition ingestReplay ::
  "host \<Rightarrow> NcmFeedbackEvent \<Rightarrow> NcmFeedbackEvent \<Rightarrow> NcmFeedbackEvent list \<Rightarrow> NcmDecayTransitionRecord list
    \<Rightarrow> jsnum \<Rightarrow> NcmFeedbackIngestionResponse ncm" where
  "ingestReplay h existingMatch normalizedEvent existingEvents existingTransitions currentWeight =
     (if feedbackEventDigest h existingMatch \<noteq> feedbackEventDigest h normalizedEvent
      then throwContract ''NcmFeedbackIngestionRequest''
             ''Feedback replay identity collision detected with different payload.''
             (''feedbackId/idempotencyKey collision for '' @ fe_feedbackId normalizedEvent @ ''.'')
      else Inr \<lparr>fr_action = IngestReplayed, fr_idempotentReplay = True, fr_policyDeniedReasonCode = None,
             fr_event = existingMatch, fr_events = existingEvents, fr_transitions = existingTransitions,
             fr_computedWeight = currentWeight, fr_transition = None,
             fr_explainability = [''idempotent replay detected; previous feedback payload reused.'']\<rparr>)"

definition sameMemory :: "NcmFeedbackEvent \<Rightarrow> NcmFeedbackEvent \<Rightarrow> bool" where
  "sameMemory normalizedEvent event =
     (fe_spaceId event = fe_spaceId normalizedEvent \<and> fe_memoryId event = fe_memoryId normalizedEvent)"

definition transitionIdJson ::
  "NcmFeedbackEvent \<Rightarrow> NcmDecayReheatPolicyResponse \<Rightarrow> string list \<Rightarrow> int \<Rightarrow> NcmTenantPolicy \<Rightarrow> json" where
  "transitionIdJson event evaluation feedbackIds now policy = JObj
     [(''spaceId'', JStr (fe_spaceId event)), (''memoryId'', JStr (fe_memoryId event)),
      (''fromWeight'', JNum (dr_fromWeight evaluation)), (''toWeight'', JNum (dr_toWeight evaluation)),
      (''netDelta'', JNum (dr_netDelta evaluation)), (''sourceFeedbackIds'', strings feedbackIds),
      (''recordedAtMillis'', JNum (jint now)), (''policy'', knobsJson (po_knobs policy))]"

text \<open>The branch that appends the event and records the transition of its memory.\<close>

definition ingestCreate ::
  "host \<Rightarrow> NcmFeedbackIngestionRequest \<Rightarrow> NcmTenantPolicy \<Rightarrow> NcmFeedbackEvent \<Rightarrow> NcmFeedbackEvent list
    \<Rightarrow> NcmDecayTransitionRecord list \<Rightarrow> jsnum \<Rightarrow> int \<Rightarrow> NcmFeedbackIngestionResponse ncm" where
  "ingestCreate h request policy normalizedEvent existingEvents existingTransitions currentWeight nowMillis =
    (let nextEvents = toSortedFeedbackEvents (localeCompare h) (existingEvents @ [normalizedEvent]);
         memoryEvents = filter (sameMemory normalizedEvent) nextEvents in
     chain (evaluateDecayFromSignals currentWeight nowMillis (fi_lastRetrievedAtMillis request)
              (case fi_recentRetrievalCount request of None \<Rightarrow> jint 0 | Some c \<Rightarrow> c)
              (map fe_signal memoryEvents) policy) (\<lambda>decayEvaluation.
      let transitionId = ''ncm-transition:'' @ sha256 h (stableStringify (localeCompare h)
            (transitionIdJson normalizedEvent decayEvaluation (map fe_feedbackId memoryEvents) nowMillis policy));
          transition = \<lparr>tr_transitionId = transitionId, tr_spaceId = fe_spaceId normalizedEvent,
            tr_memoryId = fe_memoryId normalizedEvent, tr_action = dr_action decayEvaluation,
            tr_fromWeight = dr_fromWeight decayEvaluation, tr_toWeight = dr_toWeight decayEvaluation,
            tr_netDelta = dr_netDelta decayEvaluation, tr_reasonCodes = dr_reasonCodes decayEvaluation,
            tr_sourceFeedbackIds = map fe_feedbackId memoryEvents,
            tr_policyDigestSha256 = policyDigest h policy, tr_recordedAtMillis = nowMillis\<rparr>
      in Inr \<lparr>fr_action = IngestCreated, fr_idempotentReplay = False, fr_policyDeniedReasonCode = None,
           fr_event = normalizedEvent, fr_events = nextEvents,
           fr_transitions = toSortedTransitions (localeCompare h) (existingTransitions @ [transition]),
           fr_computedWeight = dr_toWeight decayEvaluation, fr_transition = Some transition,
           fr_explainability = dr_explainability decayEvaluation\<rparr>))"

definition listOr :: "'a list option \<Rightarrow> 'a list" where
  "listOr xs = (case xs of None \<Rightarrow> [] | Some ys \<Rightarrow> ys)"

definition ingestBody ::
  "host \<Rightarrow> NcmTenantPolicy option \<Rightarrow> NcmFeedbackIngestionRequest \<Rightarrow> NcmFeedbackIngestionResponse ncm" where
  "ingestBody h dp request =
    (let c = ''NcmFeedbackIngestionRequest'' in
     chain (normalizeFeedbackEvent (fi_event request) c) (\<lambda>normalizedEvent.
     chain (normalizePolicy (fe_spaceId normalizedEvent) (fi_nowMillis request) (fi_policy request) dp) (\<lambda>policy.
     chain (normalizeWeight (fi_currentWeight request) c ''currentWeight'') (\<lambda>currentWeight.
     chain (normalizeMillis (fi_nowMillis request) c ''nowMillis'') (\<lambda>nowMillis.
     chain (mapThrowing (\<lambda>event. normalizeFeedbackEvent event c) (listOr (fi_existingEvents request))) (\<lambda>events.
      let existingEvents = toSortedFeedbackEvents (localeCompare h) events;
          existingTransitions = toSortedTransitions (localeCompare h) (listOr (fi_existingTransitions request))
      in if \<not> enableFeedbackIngestion (po_knobs policy)
         then ingestDisabled policy normalizedEvent existingEvents existingTransitions currentWeight
         else (case find (\<lambda>existing. isSameFeedbackIdentity existing normalizedEvent) existingEvents of
             Some existingMatch \<Rightarrow>
               ingestReplay h existingMatch normalizedEvent existingEvents existingTransitions currentWeight
           | None \<Rightarrow>
               ingestCreate h request policy normalizedEvent existingEvents existingTransitions currentWeight nowMillis)))))))"

definition ingestFeedback ::
  "host \<Rightarrow> NcmTenantPolicy option \<Rightarrow> NcmFeedbackIngestionRequest \<Rightarrow> NcmFeedbackIngestionResponse ncm_exit" where
  "ingestFeedback h dp request = effect_try (ingestBody h dp request)"

section \<open>The decay/reheat policy\<close>

definition evaluateDecayReheatPolicy ::
  "NcmTenantPolicy option \<Rightarrow> NcmDecayReheatPolicyRequest \<Rightarrow> NcmDecayReheatPolicyResponse ncm_exit" where
  "evaluateDecayReheatPolicy dp request = effect_try
    (let c = ''NcmDecayReheatPolicyRequest'' in
     chain (normalizeNonEmptyTrimmed (dq_spaceId request) c ''spaceId'') (\<lambda>spaceId.
     chain (normalizeNonEmptyTrimmed (dq_memoryId request) c ''memoryId'') (\<lambda>memoryId.
     chain (normalizePolicy spaceId (dq_nowMillis request) (dq_policy request) dp) (\<lambda>policy.
      if \<not> enableDeterministicDecayReheat (po_knobs policy)
      then if failClosed (po_knobs policy)
        then throwContract c ''Deterministic decay/reheat is disabled by policy.''
               (''Policy knob enableDeterministicDecayReheat=false for tenant '' @ spaceId @ ''.'')
        else chain (normalizeWeight (dq_currentWeight request) c ''currentWeight'') (\<lambda>currentWeight.
          Inr \<lparr>dr_action = Stable, dr_fromWeight = currentWeight, dr_toWeight = currentWeight,
               dr_netDelta = JFin 0, dr_reasonCodes = [reasonCodePolicyDisabled],
               dr_explainability = [''deterministic decay/reheat disabled by policy; no mutation.'']\<rparr>)
      else chain (evaluateDecayFromSignals (dq_currentWeight request) (dq_nowMillis request)
                   (dq_lastRetrievedAtMillis request)
                   (case dq_recentRetrievalCount request of None \<Rightarrow> jint 0 | Some n \<Rightarrow> n)
                   (dq_feedbackSignals request) policy) (\<lambda>response.
        if length spaceId = 0 \<or> length memoryId = 0
        then throwContract c ''spaceId and memoryId must be non-empty.'' ''Normalized identifiers unexpectedly empty.''
        else Inr response)))))"

section \<open>Operator weight adjustment\<close>

definition operatorAdjustmentDigest :: "host \<Rightarrow> NcmOperatorWeightAdjustmentRequest \<Rightarrow> string" where
  "operatorAdjustmentDigest h request = sha256 h (stableStringify (localeCompare h)
     (adjustmentJson (aq_adjustmentId request) (aq_spaceId request) (aq_memoryId request)
        (aq_actorUserId request) (aq_reason request) (round6 (aq_delta request))
        (round6 (aq_currentWeight request)) (aq_nowMillis request)))"

text \<open>The digest recomputed from a stored record.\<close>

definition storedAdjustmentDigest :: "host \<Rightarrow> NcmOperatorWeightAdjustmentRecord \<Rightarrow> string" where
  "storedAdjustmentDigest h existing = sha256 h (stableStringify (localeCompare h)
     (adjustmentJson (oa_adjustmentId existing) (oa_spaceId existing) (oa_memoryId existing)
        (oa_actorUserId existing) (oa_reason existing) (oa_delta existing)
        (oa_fromWeight existing) (oa_recordedAtMillis existing)))"

text \<open>The steps after the request is normalised; \<open>entry\<close> is the record to be stored, with
  \<open>toWeight\<close> still the current weight.\<close>

definition adjustNormalized ::
  "host \<Rightarrow> NcmOperatorWeightAdjustmentRequest \<Rightarrow> NcmTenantPolicy \<Rightarrow> NcmOperatorWeightAdjustmentRecord
    \<Rightarrow> NcmOperatorWeightAdjustmentRecord list \<Rightarrow> NcmOperatorWeightAdjustmentResponse ncm" where
  "adjustNormalized h request policy entry existingAdjustments =
    (let c = ''NcmOperatorWeightAdjustmentRequest'' in
     if \<not> enableManualWeightTuning (po_knobs policy)
     then if failClosed (po_knobs policy)
       then throwContract c ''Manual weight tuning is disabled by tenant policy.''
              (''Policy knob enableManualWeightTuning=false for tenant '' @ oa_spaceId entry @ ''.'')
       else Inr \<lparr>ar_action = AdjustRejected, ar_idempotentReplay = False,
              ar_policyDeniedReasonCode = Some reasonCodePolicyDisabled, ar_tunedWeight = oa_fromWeight entry,
              ar_adjustment = entry, ar_adjustments = existingAdjustments\<rparr>
     else if jlt (maxManualWeightDelta (po_knobs policy)) (jabs (oa_delta entry))
     then throwContract c ''delta exceeds policy maxManualWeightDelta.''
            (''delta='' @ number_to_string (oa_delta entry) @ '', max=''
               @ number_to_string (maxManualWeightDelta (po_knobs policy)) @ ''.'')
     else (case find (\<lambda>e. oa_adjustmentId e = oa_adjustmentId entry) existingAdjustments of
         Some existing \<Rightarrow>
           if storedAdjustmentDigest h existing \<noteq> operatorAdjustmentDigest h request
           then throwContract c ''adjustmentId already exists with a different payload.''
                  (''adjustmentId='' @ oa_adjustmentId entry @ ''.'')
           else Inr \<lparr>ar_action = AdjustReplayed, ar_idempotentReplay = True, ar_policyDeniedReasonCode = None,
                  ar_tunedWeight = oa_toWeight existing, ar_adjustment = existing,
                  ar_adjustments = existingAdjustments\<rparr>
       | None \<Rightarrow>
           chain (normalizeWeight (jadd (oa_fromWeight entry) (oa_delta entry)) c ''tunedWeight'') (\<lambda>tunedWeight.
            let adjustment = entry\<lparr>oa_toWeight := tunedWeight\<rparr>
            in Inr \<lparr>ar_action = Applied, ar_idempotentReplay = False, ar_policyDeniedReasonCode = None,
                 ar_tunedWeight = tunedWeight, ar_adjustment = adjustment,
                 ar_adjustments = toSortedAdjustments (localeCompare h) (existingAdjustments @ [adjustment])\<rparr>)))"

definition adjustBody ::
  "host \<Rightarrow> NcmTenantPolicy option \<Rightarrow> NcmOperatorWeightAdjustmentRequest
    \<Rightarrow> NcmOperatorWeightAdjustmentResponse ncm" where
  "adjustBody h dp request =
    (let c = ''NcmOperatorWeightAdjustmentRequest'' in
     chain (normalizeNonEmptyTrimmed (aq_adjustmentId request) c ''adjustmentId'') (\<lambda>adjustmentId.
     chain (normalizeNonEmptyTrimmed (aq_spaceId request) c ''spaceId'') (\<lambda>spaceId.
     chain (normalizeNonEmptyTrimmed (aq_memoryId request) c ''memoryId'') (\<lambda>memoryId.
     chain (normalizeNonEmptyTrimmed (aq_actorUserId request) c ''actorUserId'') (\<lambda>actorUserId.
     chain (normalizeNonEmptyTrimmed (aq_reason request) c ''reason'') (\<lambda>reason.
     chain (normalizeMillis (aq_nowMillis request) c ''nowMillis'') (\<lambda>nowMillis.
     chain (normalizeWeight (aq_currentWeight request) c ''currentWeight'') (\<lambda>currentWeight.
     chain (normalizeDelta (aq_delta request) c ''delta'') (\<lambda>delta.
     chain (normalizePolicy spaceId nowMillis (aq_policy request) dp) (\<lambda>policy.
      adjustNormalized h request policy
        \<lparr>oa_adjustmentId = adjustmentId, oa_spaceId = spaceId, oa_memoryId = memoryId,
         oa_actorUserId = actorUserId, oa_reason = reason, oa_delta = delta, oa_fromWeight = currentWeight,
         oa_toWeight = currentWeight, oa_recordedAtMillis = nowMillis,
         oa_policyDigestSha256 = policyDigest h policy\<rparr>
        (toSortedAdjustments (localeCompare h) (listOr (aq_existingAdjustments request)))))))))))))"

definition applyOperatorWeightAdjustment ::
  "host \<Rightarrow> NcmTenantPolicy option \<Rightarrow> NcmOperatorWeightAdjustmentRequest
    \<Rightarrow> NcmOperatorWeightAdjustmentResponse ncm_exit" where
  "applyOperatorWeightAdjustment h dp request = effect_try (adjustBody h dp request)"

section \<open>Console signals\<close>

definition consoleFilter :: "string \<Rightarrow> string option \<Rightarrow> string \<Rightarrow> string \<Rightarrow> bool" where
  "consoleFilter s memoryFilter recordSpace recordMemory =
     (if recordSpace \<noteq> s then False
      else if memoryFilter \<noteq> None \<and> memoryFilter \<noteq> Some recordMemory then False else True)"

definition feedbackEntry :: "NcmFeedbackEvent \<Rightarrow> NcmConsoleSignalEntry" where
  "feedbackEntry event =
     \<lparr>ce_kind = FeedbackSignal, ce_signalId = fe_feedbackId event, ce_memoryId = fe_memoryId event,
      ce_occurredAtMillis = fe_occurredAtMillis event,
      ce_summary = signalName (fe_signal event) @ '' from '' @ sourceName (fe_source event),
      ce_lineageRefs = toLineageRefs event\<rparr>"

definition transitionEntry :: "NcmDecayTransitionRecord \<Rightarrow> NcmConsoleSignalEntry" where
  "transitionEntry entry =
     \<lparr>ce_kind = DecayTransitionSignal, ce_signalId = tr_transitionId entry, ce_memoryId = tr_memoryId entry,
      ce_occurredAtMillis = tr_recordedAtMillis entry,
      ce_summary = decayActionName (tr_action entry) @ '' '' @ number_to_string (tr_fromWeight entry)
        @ '' -> '' @ number_to_string (tr_toWeight entry) @ '' ('' @ join '','' (tr_reasonCodes entry) @ '')'',
      ce_lineageRefs = map (\<lambda>feedbackId. ''feedback:'' @ feedbackId) (tr_sourceFeedbackIds entry)\<rparr>"

definition adjustmentEntry :: "NcmOperatorWeightAdjustmentRecord \<Rightarrow> NcmConsoleSignalEntry" where
  "adjustmentEntry entry =
     \<lparr>ce_kind = OperatorAdjustmentSignal, ce_signalId = oa_adjustmentId entry, ce_memoryId = oa_memoryId entry,
      ce_occurredAtMillis = oa_recordedAtMillis entry,
      ce_summary = ''manual delta='' @ number_to_string (oa_delta entry) @ '' by '' @ oa_actorUserId entry,
      ce_lineageRefs = [''user:'' @ oa_actorUserId entry]\<rparr>"

definition consoleOrder :: "collator \<Rightarrow> NcmConsoleSignalEntry comparator" where
  "consoleOrder lc = thenBy (descending ce_occurredAtMillis) (key ce_signalId lc)"

text \<open>The limit and the memory filter of the request.\<close>

definition consoleLimit :: "NcmConsoleSignalsRequest \<Rightarrow> int ncm" where
  "consoleLimit request =
     (let limitRaw = (case cq_limit request of None \<Rightarrow> defaultConsoleLimit | Some l \<Rightarrow> l) in
      if \<not> isSafeInteger limitRaw \<or> limitRaw \<le> 0
      then throwContract ''NcmConsoleSignalsRequest'' ''limit must be a positive safe integer.''
             (''Received '' @ intString limitRaw @ ''.'')
      else Inr (min limitRaw 2000))"

definition getConsoleSignals :: "host \<Rightarrow> NcmConsoleSignalsRequest \<Rightarrow> NcmConsoleSignalsResponse ncm_exit" where
  "getConsoleSignals h request = effect_try
    (let c = ''NcmConsoleSignalsRequest''; lc = localeCompare h in
     chain (normalizeNonEmptyTrimmed (cq_spaceId request) c ''spaceId'') (\<lambda>spaceId.
     chain (consoleLimit request) (\<lambda>limit.
     chain (normalizeOptional (cq_memoryId request) c ''memoryId'') (\<lambda>memoryFilter.
      let feedbackEvents = toSortedFeedbackEvents lc
            (filter (\<lambda>e. consoleFilter spaceId memoryFilter (fe_spaceId e) (fe_memoryId e)) (cq_feedbackEvents request));
          transitions = toSortedTransitions lc
            (filter (\<lambda>e. consoleFilter spaceId memoryFilter (tr_spaceId e) (tr_memoryId e)) (cq_decayTransitions request));
          adjustments = toSortedAdjustments lc
            (filter (\<lambda>e. consoleFilter spaceId memoryFilter (oa_spaceId e) (oa_memoryId e)) (cq_operatorAdjustments request))
      in Inr \<lparr>cr_totalFeedbackEvents = length feedbackEvents, cr_totalDecayTransitions = length transitions,
           cr_totalOperatorAdjustments = length adjustments,
           cr_entries = take (nat limit) (arraySort (consoleOrder lc)
             (map feedbackEntry feedbackEvents @ map transitionEntry transitions @ map adjustmentEntry adjustments))\<rparr>))))"

section \<open>The noop service\<close>

definition noopIngestFeedback :: "NcmFeedbackIngestionRequest \<Rightarrow> NcmFeedbackIngestionResponse ncm_exit" where
  "noopIngestFeedback request = Succeed
     \<lparr>fr_action = IngestCreated, fr_idempotentReplay = False, fr_policyDeniedReasonCode = None,
      fr_event = fi_event request, fr_events = [fi_event request], fr_transitions = [],
      fr_computedWeight = clamp (fi_currentWeight request) (jint 0) (jint 1), fr_transition = None,
      fr_explainability = [''noop ncm hybrid service'']\<rparr>"

definition noopEvaluateDecayReheatPolicy ::
  "NcmDecayReheatPolicyRequest \<Rightarrow> NcmDecayReheatPolicyResponse ncm_exit" where
  "noopEvaluateDecayReheatPolicy request = Succeed
     \<lparr>dr_action = Stable, dr_fromWeight = clamp (dq_currentWeight request) (jint 0) (jint 1),
      dr_toWeight = clamp (dq_currentWeight request) (jint 0) (jint 1), dr_netDelta = JFin 0,
      dr_reasonCodes = [''NOOP''], dr_explainability = [''noop ncm hybrid service'']\<rparr>"

definition noopApplyOperatorWeightAdjustment ::
  "NcmOperatorWeightAdjustmentRequest \<Rightarrow> NcmOperatorWeightAdjustmentResponse ncm_exit" where
  "noopApplyOperatorWeightAdjustment request =
    (let tuned = clamp (jadd (aq_currentWeight request) (aq_delta request)) (jint 0) (jint 1) in Succeed
     \<lparr>ar_action = Applied, ar_idempotentReplay = False, ar_policyDeniedReasonCode = None, ar_tunedWeight = tuned,
      ar_adjustment = \<lparr>oa_adjustmentId = aq_adjustmentId request, oa_spaceId = aq_spaceId request,
        oa_memoryId = aq_memoryId request, oa_actorUserId = aq_actorUserId request, oa_reason = aq_reason request,
        oa_delta = aq_delta request, oa_fromWeight = clamp (aq_currentWeight request) (jint 0) (jint 1),
        oa_toWeight = tuned, oa_recordedAtMillis = aq_nowMillis request, oa_policyDigestSha256 = ''noop''\<rparr>,
      ar_adjustments = []\<rparr>)"

definition noopGetConsoleSignals :: "NcmConsoleSignalsRequest \<Rightarrow> NcmConsoleSignalsResponse ncm_exit" where
  "noopGetConsoleSignals request = Succeed
     \<lparr>cr_totalFeedbackEvents = 0, cr_totalDecayTransitions = 0, cr_totalOperatorAdjustments = 0, cr_entries = []\<rparr>"

end
