(* ===== verification/Ncm_Properties.thy ===== *)
theory Ncm_Properties
  imports Ncm_Service
begin

text \<open>
  Lemmas and properties of the NCM hybrid service: what the normalisers accept, that a
  normalised log is a fixed point of the code's own normalisation and sorting, the interface
  \<open>replayable_log\<close> with its two interpretations, the bounds and the direction of weights, the
  fail-closed policies, and the console's isolation and bounds.
\<close>

section \<open>What the normalisers accept\<close>

lemma throwContract_ne [simp]: "throwContract c m d \<noteq> Inr x" "Inr x \<noteq> throwContract c m d"
  by (simp_all add: throwContract_def)

lemma normalizeNonEmptyTrimmed_Inr [simp]:
  "normalizeNonEmptyTrimmed v c f = Inr n \<longleftrightarrow> n = trim v \<and> trim v \<noteq> []"
  by (auto simp: normalizeNonEmptyTrimmed_def Let_def)

lemma normalizeMillis_Inr [simp]:
  "normalizeMillis v c f = Inr n \<longleftrightarrow> n = v \<and> isSafeInteger v \<and> 0 \<le> v"
  by (auto simp: normalizeMillis_def)

lemma normalizeMillis_ok [simp]: "isSafeInteger v \<Longrightarrow> 0 \<le> v \<Longrightarrow> normalizeMillis v c f = Inr v"
  by simp

lemma normalizeSource_Inr [simp]: "normalizeSource c x = Inr y \<longleftrightarrow> y = x \<and> (\<forall>s. x \<noteq> OtherSource s)"
  by (cases x) (auto simp: normalizeSource_def)

lemma normalizeSignal_Inr [simp]: "normalizeSignal c x = Inr y \<longleftrightarrow> y = x \<and> (\<forall>s. x \<noteq> OtherSignal s)"
  by (cases x) (auto simp: normalizeSignal_def)

lemma normalizeOptional_Inr:
  "normalizeOptional v c f = Inr n \<longleftrightarrow>
     n = map_option trim v \<and> (case v of None \<Rightarrow> True | Some s \<Rightarrow> trim s \<noteq> [])"
  by (auto simp: normalizeOptional_def chain_eq_Inr split: option.splits)

lemma normalizeOptional_idem: "normalizeOptional v c f = Inr n \<Longrightarrow> normalizeOptional n c f = Inr n"
  by (cases v) (simp_all add: normalizeOptional_Inr)

text \<open>A normalised event is a fixed point of normalisation.\<close>

lemma normalizeFeedbackEvent_idem:
  "normalizeFeedbackEvent e c = Inr n \<Longrightarrow> normalizeFeedbackEvent n c = Inr n"
  by (auto simp: normalizeFeedbackEvent_def chain_eq_Inr normalizeOptional_idem)

lemma normalizePolicy_tenant: "normalizePolicy s now p dp = Inr q \<Longrightarrow> po_tenantId q = s"
  by (auto simp: normalizePolicy_def chain_eq_Inr checkPolicy_def Let_def split: if_splits)

section \<open>Logs\<close>

lemma mapThrowing_Inr: "mapThrowing f xs = Inr ys \<longleftrightarrow> list_all2 (\<lambda>x y. f x = Inr y) xs ys"
  by (induction xs arbitrary: ys) (auto simp: chain_eq_Inr list_all2_Cons1)

lemma mapThrowing_fixed: "(\<And>x. x \<in> set xs \<Longrightarrow> f x = Inr x) \<Longrightarrow> mapThrowing f xs = Inr xs"
  by (simp add: mapThrowing_Inr list_all2_same)

abbreviation normalEvent :: "NcmFeedbackEvent \<Rightarrow> bool" where
  "normalEvent e \<equiv> normalizeFeedbackEvent e ''NcmFeedbackIngestionRequest'' = Inr e"

lemma mapThrowing_normal:
  assumes "mapThrowing (\<lambda>e. normalizeFeedbackEvent e ''NcmFeedbackIngestionRequest'') es = Inr ns" "n \<in> set ns"
  shows "normalEvent n"
proof -
  obtain e where "normalizeFeedbackEvent e ''NcmFeedbackIngestionRequest'' = Inr n"
    using assms by (auto simp: mapThrowing_Inr list_all2_conv_all_nth in_set_conv_nth)
  then show ?thesis by (rule normalizeFeedbackEvent_idem)
qed

lemma set_toSorted [simp]:
  "set (toSortedFeedbackEvents lc es) = set es" "set (toSortedTransitions lc ts) = set ts"
  "set (toSortedAdjustments lc as) = set as"
  by (simp_all add: toSortedFeedbackEvents_def toSortedTransitions_def toSortedAdjustments_def)

lemma toSorted_idem [simp]:
  "toSortedFeedbackEvents lc (toSortedFeedbackEvents lc es) = toSortedFeedbackEvents lc es"
  "toSortedTransitions lc (toSortedTransitions lc ts) = toSortedTransitions lc ts"
  "toSortedAdjustments lc (toSortedAdjustments lc as) = toSortedAdjustments lc as"
  by (simp_all add: toSortedFeedbackEvents_def toSortedTransitions_def toSortedAdjustments_def)

text \<open>The entry appended to a log that had none of its identity is the one found afterwards.\<close>

lemma find_appended:
  assumes "find P (arraySort c xs) = None" "P y"
  shows "find P (arraySort c (arraySort c xs @ [y])) = Some y"
proof -
  have none: "find P xs = None" "filter P (arraySort c xs) = []"
    using assms(1) by (auto simp: find_None_iff filter_empty_conv)
  have "find P (arraySort c (arraySort c xs @ [y])) = find P (arraySort c xs @ [y])"
    by (rule find_sort_unique) (use none in simp)
  also have "\<dots> = Some y"
  proof -
    have "find P (zs @ [y]) = Some y" if "filter P zs = []" for zs
      using that assms(2) by (induction zs) (auto split: if_splits)
    then show ?thesis using none by simp
  qed
  finally show ?thesis .
qed

section \<open>The interface of a log\<close>

text \<open>
  A caller submits a request with the logs it stores and stores the logs it gets back. The
  laws: submitting never is a defect, an answer that is not fresh is stable under
  resubmission, and a fresh answer is replayed, with the same entry and the same logs.
\<close>

locale replayable_log =
  fixes submit :: "'l \<Rightarrow> 'q \<Rightarrow> ('e, 'r) exit"
    and logs :: "'r \<Rightarrow> 'l" and fresh :: "'r \<Rightarrow> bool" and entry :: "'r \<Rightarrow> 'x"
    and canonical :: "'q \<Rightarrow> bool"
  assumes no_defect: "submit l q \<noteq> Die e"
    and stable: "submit l q = Succeed r \<Longrightarrow> \<not> fresh r \<Longrightarrow> submit (logs r) q = Succeed r"
    and replayed: "canonical q \<Longrightarrow> submit l q = Succeed r \<Longrightarrow> fresh r \<Longrightarrow>
      \<exists>r'. submit (logs r) q = Succeed r' \<and> \<not> fresh r' \<and> entry r' = entry r \<and> logs r' = logs r"
begin

definition store :: "'q \<Rightarrow> 'l \<Rightarrow> 'l" where
  "store q l = (case submit l q of Succeed r \<Rightarrow> logs r | _ \<Rightarrow> l)"

lemma store_replay: "canonical q \<Longrightarrow> submit l q = Succeed r \<Longrightarrow> store q (logs r) = logs r"
  using replayed stable by (cases "fresh r") (fastforce simp: store_def)+

text \<open>Exactly-once storage under at-least-once delivery.\<close>

lemma store_idempotent: "canonical q \<Longrightarrow> (store q ^^ Suc n) l = store q l"
proof (induction n)
  case (Suc n)
  have "store q (store q l) = store q l"
    using store_replay [OF Suc.prems] by (cases "submit l q") (simp_all add: store_def)
  then show ?case using Suc by simp
qed simp

lemma resubmission_same_entry:
  "canonical q \<Longrightarrow> submit l q = Succeed r \<Longrightarrow>
    \<exists>r'. submit (store q l) q = Succeed r' \<and> \<not> fresh r' \<and> entry r' = entry r"
  using replayed stable by (cases "fresh r") (fastforce simp: store_def)+

end

section \<open>Ingestion\<close>

lemma evaluateDecay_Inr:
  assumes "evaluateDecayFromSignals w now l n sigs policy = Inr d"
  shows "\<exists>cw. normalizeWeight w ''NcmDecayReheatPolicyRequest'' ''currentWeight'' = Inr cw \<and> dr_fromWeight d = cw
    \<and> normalizeWeight (jadd cw (dr_netDelta d)) ''NcmDecay'' ''toWeight'' = Inr (dr_toWeight d)
    \<and> dr_action d = (if jlt (jint 0) (dr_netDelta d) then Reheat
         else if jlt (dr_netDelta d) (jint 0) then Decay else Stable)"
  using assms by (auto simp: evaluateDecayFromSignals_def chain_eq_Inr Let_def)

text \<open>What a successful ingestion computed before its three-way branch.\<close>

lemma ingestBody_InrE:
  assumes "ingestBody h dp q = Inr r"
  obtains e policy w es ts where
    "normalizeFeedbackEvent (fi_event q) ''NcmFeedbackIngestionRequest'' = Inr e"
    "normalizePolicy (fe_spaceId e) (fi_nowMillis q) (fi_policy q) dp = Inr policy"
    "normalizeWeight (fi_currentWeight q) ''NcmFeedbackIngestionRequest'' ''currentWeight'' = Inr w"
    "isSafeInteger (fi_nowMillis q)" "0 \<le> fi_nowMillis q"
    "mapThrowing (\<lambda>x. normalizeFeedbackEvent x ''NcmFeedbackIngestionRequest'') (listOr (fi_existingEvents q)) = Inr es"
    "ts = toSortedTransitions (localeCompare h) (listOr (fi_existingTransitions q))"
    "(if \<not> enableFeedbackIngestion (po_knobs policy)
      then ingestDisabled policy e (toSortedFeedbackEvents (localeCompare h) es) ts w
      else (case find (\<lambda>x. isSameFeedbackIdentity x e) (toSortedFeedbackEvents (localeCompare h) es) of
          Some m \<Rightarrow> ingestReplay h m e (toSortedFeedbackEvents (localeCompare h) es) ts w
        | None \<Rightarrow> ingestCreate h q policy e (toSortedFeedbackEvents (localeCompare h) es) ts w (fi_nowMillis q))) = Inr r"
  using assms unfolding ingestBody_def Let_def chain_eq_Inr by auto

text \<open>Submitting a request with given logs.\<close>

type_synonym ncm_logs = "NcmFeedbackEvent list \<times> NcmDecayTransitionRecord list"

definition withLogs :: "ncm_logs \<Rightarrow> NcmFeedbackIngestionRequest \<Rightarrow> NcmFeedbackIngestionRequest" where
  "withLogs l q = q\<lparr>fi_existingEvents := Some (fst l), fi_existingTransitions := Some (snd l)\<rparr>"

definition responseLogs :: "NcmFeedbackIngestionResponse \<Rightarrow> ncm_logs" where
  "responseLogs r = (fr_events r, fr_transitions r)"

lemma responseLogs_simps [simp]: "fst (responseLogs r) = fr_events r" "snd (responseLogs r) = fr_transitions r"
  by (simp_all add: responseLogs_def)

lemma withLogs_simps [simp]:
  "fi_event (withLogs l q) = fi_event q" "fi_currentWeight (withLogs l q) = fi_currentWeight q"
  "fi_nowMillis (withLogs l q) = fi_nowMillis q" "fi_policy (withLogs l q) = fi_policy q"
  "listOr (fi_existingEvents (withLogs l q)) = fst l" "listOr (fi_existingTransitions (withLogs l q)) = snd l"
  by (simp_all add: withLogs_def listOr_def)

text \<open>Resubmission with the logs of the answer: the same computation on a log that is already
  normalised and sorted.\<close>

lemma resubmit_body:
  assumes "normalizeFeedbackEvent (fi_event q) ''NcmFeedbackIngestionRequest'' = Inr e"
    and "normalizePolicy (fe_spaceId e) (fi_nowMillis q) (fi_policy q) dp = Inr policy"
    and "normalizeWeight (fi_currentWeight q) ''NcmFeedbackIngestionRequest'' ''currentWeight'' = Inr w"
    and "isSafeInteger (fi_nowMillis q)" "0 \<le> fi_nowMillis q"
    and "\<And>x. x \<in> set (fst l) \<Longrightarrow> normalEvent x"
    and "toSortedFeedbackEvents (localeCompare h) (fst l) = fst l"
    and "toSortedTransitions (localeCompare h) (snd l) = snd l"
  shows "ingestBody h dp (withLogs l q) =
     (if \<not> enableFeedbackIngestion (po_knobs policy) then ingestDisabled policy e (fst l) (snd l) w
      else (case find (\<lambda>x. isSameFeedbackIdentity x e) (fst l) of
          Some m \<Rightarrow> ingestReplay h m e (fst l) (snd l) w
        | None \<Rightarrow> ingestCreate h (withLogs l q) policy e (fst l) (snd l) w (fi_nowMillis q)))"
proof -
  have millis: "normalizeMillis (fi_nowMillis q) ''NcmFeedbackIngestionRequest'' ''nowMillis'' = Inr (fi_nowMillis q)"
    using assms(4,5) by simp
  have es: "mapThrowing (\<lambda>event. normalizeFeedbackEvent event ''NcmFeedbackIngestionRequest'') (fst l) = Inr (fst l)"
    using assms(6) by (intro mapThrowing_fixed) blast
  show ?thesis
    unfolding ingestBody_def Let_def withLogs_simps assms(1-3) chain_simps millis es assms(7,8) by (rule refl)
qed

lemma ingestDisabled_Inr:
  "ingestDisabled policy e es ts w = Inr r \<Longrightarrow>
     fr_events r = es \<and> fr_transitions r = ts \<and> fr_action r = IngestRejected \<and> fr_computedWeight r = w
     \<and> \<not> failClosed (po_knobs policy)"
  by (auto simp: ingestDisabled_def split: if_splits)

lemma ingestDisabled_again:
  "ingestDisabled policy e es ts w = Inr r \<Longrightarrow> ingestDisabled policy e (fr_events r) (fr_transitions r) w = Inr r"
  by (auto simp: ingestDisabled_def split: if_splits)

lemma ingestReplay_Inr:
  "ingestReplay h m e es ts w = Inr r \<longleftrightarrow> feedbackEventDigest h m = feedbackEventDigest h e
     \<and> r = \<lparr>fr_action = IngestReplayed, fr_idempotentReplay = True, fr_policyDeniedReasonCode = None,
            fr_event = m, fr_events = es, fr_transitions = ts, fr_computedWeight = w, fr_transition = None,
            fr_explainability = [''idempotent replay detected; previous feedback payload reused.'']\<rparr>"
  by (auto simp: ingestReplay_def split: if_splits)

lemma ingestCreate_Inr:
  assumes "ingestCreate h q policy e es ts w now = Inr r"
  shows "fr_action r = IngestCreated \<and> fr_event r = e
    \<and> fr_events r = toSortedFeedbackEvents (localeCompare h) (es @ [e])
    \<and> (\<exists>t d l n sigs. fr_transitions r = toSortedTransitions (localeCompare h) (ts @ [t]) \<and> fr_transition r = Some t
         \<and> evaluateDecayFromSignals w now l n sigs policy = Inr d \<and> fr_computedWeight r = dr_toWeight d
         \<and> tr_fromWeight t = dr_fromWeight d \<and> tr_toWeight t = dr_toWeight d \<and> tr_netDelta t = dr_netDelta d
         \<and> tr_action t = dr_action d \<and> tr_spaceId t = fe_spaceId e \<and> tr_memoryId t = fe_memoryId e)"
  using assms unfolding ingestCreate_def Let_def chain_eq_Inr by force

lemma isSame_refl [simp]: "isSameFeedbackIdentity e e"
  by (simp add: isSameFeedbackIdentity_def)

text \<open>The logs of an answer are normalised and sorted.\<close>

lemma ingest_logs:
  assumes "ingestBody h dp q = Inr r"
  shows "toSortedFeedbackEvents (localeCompare h) (fr_events r) = fr_events r"
    and "toSortedTransitions (localeCompare h) (fr_transitions r) = fr_transitions r"
    and "\<And>x. x \<in> set (fr_events r) \<Longrightarrow> normalEvent x"
proof -
  obtain e policy w es ts where
    e: "normalizeFeedbackEvent (fi_event q) ''NcmFeedbackIngestionRequest'' = Inr e"
    and es: "mapThrowing (\<lambda>x. normalizeFeedbackEvent x ''NcmFeedbackIngestionRequest'') (listOr (fi_existingEvents q)) = Inr es"
    and ts: "ts = toSortedTransitions (localeCompare h) (listOr (fi_existingTransitions q))"
    and run: "(if \<not> enableFeedbackIngestion (po_knobs policy)
      then ingestDisabled policy e (toSortedFeedbackEvents (localeCompare h) es) ts w
      else (case find (\<lambda>x. isSameFeedbackIdentity x e) (toSortedFeedbackEvents (localeCompare h) es) of
          Some m \<Rightarrow> ingestReplay h m e (toSortedFeedbackEvents (localeCompare h) es) ts w
        | None \<Rightarrow> ingestCreate h q policy e (toSortedFeedbackEvents (localeCompare h) es) ts w (fi_nowMillis q))) = Inr r"
    using assms by (rule ingestBody_InrE) blast
  have shape: "(fr_events r = toSortedFeedbackEvents (localeCompare h) es \<and> fr_transitions r = ts)
      \<or> (fr_events r = toSortedFeedbackEvents (localeCompare h) (toSortedFeedbackEvents (localeCompare h) es @ [e])
         \<and> (\<exists>t. fr_transitions r = toSortedTransitions (localeCompare h) (ts @ [t])))"
    using run by (auto split: if_splits option.splits dest!: ingestDisabled_Inr ingestCreate_Inr simp: ingestReplay_Inr)
  then show "toSortedFeedbackEvents (localeCompare h) (fr_events r) = fr_events r"
    and "toSortedTransitions (localeCompare h) (fr_transitions r) = fr_transitions r"
    using ts by (elim disjE conjE exE; simp)+
  fix x assume "x \<in> set (fr_events r)"
  then have "x \<in> set es \<or> x = e" using shape by auto
  then show "normalEvent x" using mapThrowing_normal [OF es] normalizeFeedbackEvent_idem [OF e] by blast
qed

interpretation ingest_log: replayable_log "\<lambda>l q. ingestFeedback h dp (withLogs l q)" responseLogs
    "\<lambda>r. fr_action r = IngestCreated" fr_event "\<lambda>q. True"
proof unfold_locales
  fix l q e r
  show "ingestFeedback h dp (withLogs l q) \<noteq> Die e" by (simp add: ingestFeedback_def)
  assume "ingestFeedback h dp (withLogs l q) = Succeed r"
  then have body: "ingestBody h dp (withLogs l q) = Inr r" by (simp add: ingestFeedback_def)
  obtain e policy w es ts where
    e: "normalizeFeedbackEvent (fi_event q) ''NcmFeedbackIngestionRequest'' = Inr e"
    and pw: "normalizePolicy (fe_spaceId e) (fi_nowMillis q) (fi_policy q) dp = Inr policy"
      "normalizeWeight (fi_currentWeight q) ''NcmFeedbackIngestionRequest'' ''currentWeight'' = Inr w"
      "isSafeInteger (fi_nowMillis q)" "0 \<le> fi_nowMillis q"
    and run: "(if \<not> enableFeedbackIngestion (po_knobs policy)
      then ingestDisabled policy e (toSortedFeedbackEvents (localeCompare h) es) ts w
      else (case find (\<lambda>x. isSameFeedbackIdentity x e) (toSortedFeedbackEvents (localeCompare h) es) of
          Some m \<Rightarrow> ingestReplay h m e (toSortedFeedbackEvents (localeCompare h) es) ts w
        | None \<Rightarrow> ingestCreate h (withLogs l q) policy e (toSortedFeedbackEvents (localeCompare h) es) ts w (fi_nowMillis q))) = Inr r"
    using ingestBody_InrE [OF body] unfolding withLogs_simps by metis
  have again: "ingestBody h dp (withLogs (responseLogs r) q) =
     (if \<not> enableFeedbackIngestion (po_knobs policy) then ingestDisabled policy e (fr_events r) (fr_transitions r) w
      else (case find (\<lambda>x. isSameFeedbackIdentity x e) (fr_events r) of
          Some m \<Rightarrow> ingestReplay h m e (fr_events r) (fr_transitions r) w
        | None \<Rightarrow> ingestCreate h (withLogs (responseLogs r) q) policy e (fr_events r) (fr_transitions r) w (fi_nowMillis q)))"
    using resubmit_body [OF e pw, of "responseLogs r" h] ingest_logs [OF body]
    unfolding responseLogs_simps by blast
  show "ingestFeedback h dp (withLogs (responseLogs r) q) = Succeed r" if "fr_action r \<noteq> IngestCreated"
    using run that unfolding ingestFeedback_def effect_try_iff again
    by (auto split: if_splits option.splits dest: ingestDisabled_again ingestCreate_Inr simp: ingestReplay_Inr)
  show "\<exists>r'. ingestFeedback h dp (withLogs (responseLogs r) q) = Succeed r' \<and> fr_action r' \<noteq> IngestCreated
      \<and> fr_event r' = fr_event r \<and> responseLogs r' = responseLogs r" if "fr_action r = IngestCreated"
  proof -
    have enabled: "enableFeedbackIngestion (po_knobs policy)"
      and none: "find (\<lambda>x. isSameFeedbackIdentity x e) (toSortedFeedbackEvents (localeCompare h) es) = None"
      and create: "ingestCreate h (withLogs l q) policy e (toSortedFeedbackEvents (localeCompare h) es) ts w (fi_nowMillis q) = Inr r"
      using run that by (auto split: if_splits option.splits dest!: ingestDisabled_Inr simp: ingestReplay_Inr)
    have r: "fr_event r = e" "fr_events r = toSortedFeedbackEvents (localeCompare h) (toSortedFeedbackEvents (localeCompare h) es @ [e])"
      using ingestCreate_Inr [OF create] by auto
    have "find (\<lambda>x. isSameFeedbackIdentity x e) (fr_events r) = Some e"
      using none unfolding r(2) toSortedFeedbackEvents_def by (rule find_appended) simp
    then show ?thesis
      using enabled unfolding ingestFeedback_def effect_try_iff again
      by (simp add: ingestReplay_Inr r(1) responseLogs_def)
  qed
qed

lemma decay_moves:
  assumes "evaluateDecayFromSignals w now l n sigs policy = Inr d"
  shows "isWeight (dr_fromWeight d) \<and> isWeight (dr_toWeight d)
    \<and> (dr_action d = Reheat \<longrightarrow> jle (dr_fromWeight d) (dr_toWeight d))
    \<and> (dr_action d = Decay \<longrightarrow> jle (dr_toWeight d) (dr_fromWeight d))
    \<and> (dr_action d = Stable \<longrightarrow> dr_toWeight d = dr_fromWeight d)"
proof -
  obtain cw where cw: "normalizeWeight w ''NcmDecayReheatPolicyRequest'' ''currentWeight'' = Inr cw" "dr_fromWeight d = cw"
    and tw: "normalizeWeight (jadd cw (dr_netDelta d)) ''NcmDecay'' ''toWeight'' = Inr (dr_toWeight d)"
    and act: "dr_action d = (if jlt (jint 0) (dr_netDelta d) then Reheat
         else if jlt (dr_netDelta d) (jint 0) then Decay else Stable)"
    using evaluateDecay_Inr [OF assms] by blast
  have weights: "isWeight cw" "isWeight (dr_toWeight d)" using cw tw normalizeWeight_isWeight by auto
  obtain a where a: "cw = JFin a" using weights(1) by (auto simp: isWeight_def)
  obtain b where b: "dr_toWeight d = JFin b" using weights(2) by (auto simp: isWeight_def)
  obtain x where x: "dr_netDelta d = JFin x"
    using tw a by (cases "dr_netDelta d") (auto simp: normalizeWeight_Inr)
  have "(0 \<le> x \<longrightarrow> a \<le> b) \<and> (x \<le> 0 \<longrightarrow> b \<le> a)"
    using tw weights(1) unfolding a b x by (rule weight_moves [rotated])
  then show ?thesis using weights act unfolding cw(2) a b x
    by (auto simp: jle_def jeq_def jint_def split: if_splits)
qed

lemma ingest_create_run:
  assumes "ingestFeedback h dp q = Succeed r" "fr_action r = IngestCreated"
  obtains e policy w es ts where
    "normalizeFeedbackEvent (fi_event q) ''NcmFeedbackIngestionRequest'' = Inr e"
    "mapThrowing (\<lambda>x. normalizeFeedbackEvent x ''NcmFeedbackIngestionRequest'') (listOr (fi_existingEvents q)) = Inr es"
    "ts = toSortedTransitions (localeCompare h) (listOr (fi_existingTransitions q))"
    "ingestCreate h q policy e (toSortedFeedbackEvents (localeCompare h) es) ts w (fi_nowMillis q) = Inr r"
proof -
  have body: "ingestBody h dp q = Inr r" using assms(1) by (simp add: ingestFeedback_def)
  show thesis
    using body
  proof (rule ingestBody_InrE)
    fix e policy w es ts
    assume "normalizeFeedbackEvent (fi_event q) ''NcmFeedbackIngestionRequest'' = Inr e"
      "mapThrowing (\<lambda>x. normalizeFeedbackEvent x ''NcmFeedbackIngestionRequest'') (listOr (fi_existingEvents q)) = Inr es"
      "ts = toSortedTransitions (localeCompare h) (listOr (fi_existingTransitions q))"
      and run: "(if \<not> enableFeedbackIngestion (po_knobs policy)
      then ingestDisabled policy e (toSortedFeedbackEvents (localeCompare h) es) ts w
      else (case find (\<lambda>x. isSameFeedbackIdentity x e) (toSortedFeedbackEvents (localeCompare h) es) of
          Some m \<Rightarrow> ingestReplay h m e (toSortedFeedbackEvents (localeCompare h) es) ts w
        | None \<Rightarrow> ingestCreate h q policy e (toSortedFeedbackEvents (localeCompare h) es) ts w (fi_nowMillis q))) = Inr r"
    moreover have "ingestCreate h q policy e (toSortedFeedbackEvents (localeCompare h) es) ts w (fi_nowMillis q) = Inr r"
      using run assms(2) by (auto split: if_splits option.splits dest!: ingestDisabled_Inr simp: ingestReplay_Inr)
    ultimately show thesis using that by blast
  qed
qed

section \<open>Properties of ingestion\<close>

text \<open>The logs a caller holds after submitting a request with the logs it had.\<close>

definition storeFeedback ::
  "host \<Rightarrow> NcmTenantPolicy option \<Rightarrow> NcmFeedbackIngestionRequest \<Rightarrow> ncm_logs \<Rightarrow> ncm_logs" where
  "storeFeedback h dp q l =
     (case ingestFeedback h dp (withLogs l q) of Succeed r \<Rightarrow> responseLogs r | _ \<Rightarrow> l)"

lemma storeFeedback_store: "storeFeedback h dp q = ingest_log.store h dp q"
  by (rule ext) (simp add: storeFeedback_def ingest_log.store_def)

text \<open>C23: At-least-once delivery of a feedback request is exactly-once storage. Submitting a
  request any number of times, each time with the logs of the previous answer, stores what one
  submission stores.\<close>

theorem ingest_exactly_once: "(storeFeedback h dp q ^^ Suc n) l = storeFeedback h dp q l"
  unfolding storeFeedback_store by (rule ingest_log.store_idempotent) simp

text \<open>A created event is the normalised event of the request, appended once to the sorted
  log, with one new transition of its memory; the transition starts from the normalised current
  weight, ends in [0, 1], and moves in the direction of its net delta: a reheat never lowers
  the weight, a decay never raises it, a stable evaluation leaves it alone.\<close>

theorem ingest_created:
  assumes "ingestFeedback h dp q = Succeed r" "fr_action r = IngestCreated"
  shows "\<exists>t es. fr_transition r = Some t
    \<and> mapThrowing (\<lambda>x. normalizeFeedbackEvent x ''NcmFeedbackIngestionRequest'') (listOr (fi_existingEvents q)) = Inr es
    \<and> mset (fr_events r) = add_mset (fr_event r) (mset es)
    \<and> mset (fr_transitions r) = add_mset t (mset (listOr (fi_existingTransitions q)))
    \<and> arraySorted (feedbackOrder (localeCompare h)) (fr_events r)
    \<and> normalizeFeedbackEvent (fi_event q) ''NcmFeedbackIngestionRequest'' = Inr (fr_event r)
    \<and> isWeight (tr_toWeight t) \<and> isWeight (tr_fromWeight t) \<and> fr_computedWeight r = tr_toWeight t
    \<and> (tr_action t = Reheat \<longrightarrow> jle (tr_fromWeight t) (tr_toWeight t))
    \<and> (tr_action t = Decay \<longrightarrow> jle (tr_toWeight t) (tr_fromWeight t))
    \<and> (tr_action t = Stable \<longrightarrow> tr_toWeight t = tr_fromWeight t)"
proof -
  obtain e policy w es ts where
    e: "normalizeFeedbackEvent (fi_event q) ''NcmFeedbackIngestionRequest'' = Inr e"
    and es: "mapThrowing (\<lambda>x. normalizeFeedbackEvent x ''NcmFeedbackIngestionRequest'') (listOr (fi_existingEvents q)) = Inr es"
    and ts: "ts = toSortedTransitions (localeCompare h) (listOr (fi_existingTransitions q))"
    and create: "ingestCreate h q policy e (toSortedFeedbackEvents (localeCompare h) es) ts w (fi_nowMillis q) = Inr r"
    using assms by (rule ingest_create_run)
  obtain t d l n sigs where
    r: "fr_event r = e" "fr_events r = toSortedFeedbackEvents (localeCompare h) (toSortedFeedbackEvents (localeCompare h) es @ [e])"
      "fr_transitions r = toSortedTransitions (localeCompare h) (ts @ [t])" "fr_transition r = Some t"
      "fr_computedWeight r = tr_toWeight t"
    and d: "evaluateDecayFromSignals w (fi_nowMillis q) l n sigs policy = Inr d"
    and t: "tr_fromWeight t = dr_fromWeight d" "tr_toWeight t = dr_toWeight d" "tr_action t = dr_action d"
    using ingestCreate_Inr [OF create] by auto
  have logs: "mset (fr_events r) = add_mset e (mset es)"
      "mset (fr_transitions r) = add_mset t (mset (listOr (fi_existingTransitions q)))"
      "arraySorted (feedbackOrder (localeCompare h)) (fr_events r)"
    by (simp_all add: r ts toSortedFeedbackEvents_def toSortedTransitions_def)
  show ?thesis
    using decay_moves [OF d] logs e es r t by (intro exI [of _ t] exI [of _ es]) simp
qed

text \<open>Log entries have pairwise different identities.\<close>

definition uniqueIdentities :: "NcmFeedbackEvent list \<Rightarrow> bool" where
  "uniqueIdentities es = list_all (\<lambda>x. length (filter (isSameFeedbackIdentity x) es) = 1) es"

lemma uniqueIdentities_mset:
  "uniqueIdentities es \<longleftrightarrow> (\<forall>x\<in>#mset es. size (filter_mset (isSameFeedbackIdentity x) (mset es)) = 1)"
  by (simp add: uniqueIdentities_def list_all_iff mset_filter [symmetric] del: mset_filter)

lemma isSame_sym: "isSameFeedbackIdentity x y \<longleftrightarrow> isSameFeedbackIdentity y x"
  by (auto simp: isSameFeedbackIdentity_def)

lemma uniqueIdentities_sorted [simp]: "uniqueIdentities (toSortedFeedbackEvents lc es) = uniqueIdentities es"
  by (simp only: uniqueIdentities_mset toSortedFeedbackEvents_def mset_sort)

lemma uniqueIdentities_append:
  assumes "uniqueIdentities es" "find (\<lambda>x. isSameFeedbackIdentity x e) es = None"
  shows "uniqueIdentities (es @ [e])"
proof -
  have none: "\<not> isSameFeedbackIdentity x e" "\<not> isSameFeedbackIdentity e x" if "x \<in> set es" for x
    using assms(2) that isSame_sym [of x e] by (auto simp: find_None_iff)
  have "filter (isSameFeedbackIdentity e) es = []" using none(2) by (simp add: filter_empty_conv)
  then show ?thesis using assms(1) none by (auto simp: uniqueIdentities_def list_all_iff)
qed

text \<open>The log never holds two events of one identity (a shared feedback id or idempotency
  key): every successful ingestion, whatever its branch, keeps the identities of the log
  pairwise different.\<close>

theorem ingest_keeps_identities:
  assumes "ingestFeedback h dp q = Succeed r"
    and "mapThrowing (\<lambda>x. normalizeFeedbackEvent x ''NcmFeedbackIngestionRequest'') (listOr (fi_existingEvents q)) = Inr es"
    and "uniqueIdentities es"
  shows "uniqueIdentities (fr_events r)"
proof -
  have body: "ingestBody h dp q = Inr r" using assms(1) by (simp add: ingestFeedback_def)
  show ?thesis
    using body
  proof (rule ingestBody_InrE)
    fix e policy w es' ts
    assume "mapThrowing (\<lambda>x. normalizeFeedbackEvent x ''NcmFeedbackIngestionRequest'') (listOr (fi_existingEvents q)) = Inr es'"
      and run: "(if \<not> enableFeedbackIngestion (po_knobs policy)
      then ingestDisabled policy e (toSortedFeedbackEvents (localeCompare h) es') ts w
      else (case find (\<lambda>x. isSameFeedbackIdentity x e) (toSortedFeedbackEvents (localeCompare h) es') of
          Some m \<Rightarrow> ingestReplay h m e (toSortedFeedbackEvents (localeCompare h) es') ts w
        | None \<Rightarrow> ingestCreate h q policy e (toSortedFeedbackEvents (localeCompare h) es') ts w (fi_nowMillis q))) = Inr r"
    then have u: "uniqueIdentities (toSortedFeedbackEvents (localeCompare h) es')" using assms(2,3) by simp
    show ?thesis
      using run u by (auto split: if_splits option.splits dest!: ingestDisabled_Inr ingestCreate_Inr
          simp: ingestReplay_Inr uniqueIdentities_append)
  qed
qed

section \<open>Properties of the policies\<close>

text \<open>Fail closed. Under a policy that disables a feature and says \<open>failClosed\<close>, no request
  of that feature succeeds: ingestion, the decay/reheat policy and manual tuning all answer
  with a typed failure.\<close>

theorem ncm_fail_closed:
  assumes "failClosed (po_knobs p)"
  shows "(fi_policy q1 = Some p \<and> \<not> enableFeedbackIngestion (po_knobs p) \<longrightarrow> (\<exists>e. ingestFeedback h dp q1 = Fail e))
    \<and> (dq_policy q2 = Some p \<and> \<not> enableDeterministicDecayReheat (po_knobs p) \<longrightarrow> (\<exists>e. evaluateDecayReheatPolicy dp q2 = Fail e))
    \<and> (aq_policy q3 = Some p \<and> \<not> enableManualWeightTuning (po_knobs p) \<longrightarrow> (\<exists>e. applyOperatorWeightAdjustment h dp q3 = Fail e))"
proof (intro conjI impI)
  have own: "normalizePolicy s n (Some p) dp = Inr p' \<Longrightarrow> p' = p" for s n p'
    by (auto simp: normalizePolicy_def checkPolicy_def Let_def split: if_splits)
  have fails: "\<exists>e. effect_try b = Fail e" if "\<And>r. b \<noteq> Inr r" for b :: "'x ncm"
    using that by (cases b) auto
  show "\<exists>e. ingestFeedback h dp q1 = Fail e" if "fi_policy q1 = Some p \<and> \<not> enableFeedbackIngestion (po_knobs p)"
    unfolding ingestFeedback_def
  proof (rule fails)
    fix r show "ingestBody h dp q1 \<noteq> Inr r"
      using that assms own by (auto simp: ingestBody_def Let_def chain_eq_Inr ingestDisabled_def)
  qed
  show "\<exists>e. evaluateDecayReheatPolicy dp q2 = Fail e" if "dq_policy q2 = Some p \<and> \<not> enableDeterministicDecayReheat (po_knobs p)"
    unfolding evaluateDecayReheatPolicy_def
    using that assms own by (intro fails) (auto simp: Let_def chain_eq_Inr)
  show "\<exists>e. applyOperatorWeightAdjustment h dp q3 = Fail e" if "aq_policy q3 = Some p \<and> \<not> enableManualWeightTuning (po_knobs p)"
    unfolding applyOperatorWeightAdjustment_def
  proof (rule fails)
    fix r show "adjustBody h dp q3 \<noteq> Inr r"
      using that assms own by (auto simp: adjustBody_def Let_def chain_eq_Inr adjustNormalized_def)
  qed
qed

section \<open>Properties of the operator adjustment\<close>

lemma adjustBody_InrE:
  assumes "adjustBody h dp q = Inr r"
  obtains now w d policy where
    "trim (aq_adjustmentId q) \<noteq> []" "trim (aq_spaceId q) \<noteq> []" "trim (aq_memoryId q) \<noteq> []"
    "trim (aq_actorUserId q) \<noteq> []" "trim (aq_reason q) \<noteq> []"
    "isSafeInteger (aq_nowMillis q)" "0 \<le> aq_nowMillis q"
    "normalizeWeight (aq_currentWeight q) ''NcmOperatorWeightAdjustmentRequest'' ''currentWeight'' = Inr w"
    "normalizeDelta (aq_delta q) ''NcmOperatorWeightAdjustmentRequest'' ''delta'' = Inr d"
    "normalizePolicy (trim (aq_spaceId q)) (aq_nowMillis q) (aq_policy q) dp = Inr policy"
    "adjustNormalized h q policy
        \<lparr>oa_adjustmentId = trim (aq_adjustmentId q), oa_spaceId = trim (aq_spaceId q), oa_memoryId = trim (aq_memoryId q),
         oa_actorUserId = trim (aq_actorUserId q), oa_reason = trim (aq_reason q), oa_delta = d, oa_fromWeight = w,
         oa_toWeight = w, oa_recordedAtMillis = aq_nowMillis q, oa_policyDigestSha256 = policyDigest h policy\<rparr>
        (toSortedAdjustments (localeCompare h) (listOr (aq_existingAdjustments q))) = Inr r"
  using assms unfolding adjustBody_def Let_def chain_eq_Inr by auto

lemma adjustNormalized_Inr:
  assumes "adjustNormalized h q policy n as = Inr r"
  shows "(ar_action r = AdjustRejected \<and> ar_adjustments r = as)
    \<or> (enableManualWeightTuning (po_knobs policy)
       \<and> \<not> jlt (maxManualWeightDelta (po_knobs policy)) (jabs (oa_delta n))
       \<and> ((\<exists>x. find (\<lambda>e. oa_adjustmentId e = oa_adjustmentId n) as = Some x \<and> ar_action r = AdjustReplayed
             \<and> ar_adjustment r = x \<and> ar_adjustments r = as)
          \<or> (\<exists>t. find (\<lambda>e. oa_adjustmentId e = oa_adjustmentId n) as = None \<and> ar_action r = Applied
               \<and> normalizeWeight (jadd (oa_fromWeight n) (oa_delta n)) ''NcmOperatorWeightAdjustmentRequest'' ''tunedWeight'' = Inr t
               \<and> ar_tunedWeight r = t \<and> ar_adjustment r = n\<lparr>oa_toWeight := t\<rparr>
               \<and> ar_adjustments r = toSortedAdjustments (localeCompare h) (as @ [n\<lparr>oa_toWeight := t\<rparr>]))))"
  using assms unfolding adjustNormalized_def Let_def chain_eq_Inr
  by (auto split: if_splits option.splits simp: chain_eq_Inr)

lemma adjustNormalized_applied:
  assumes "adjustNormalized h q policy n as = Inr r" "ar_action r = Applied"
  obtains t where "enableManualWeightTuning (po_knobs policy)"
    "\<not> jlt (maxManualWeightDelta (po_knobs policy)) (jabs (oa_delta n))"
    "find (\<lambda>e. oa_adjustmentId e = oa_adjustmentId n) as = None"
    "normalizeWeight (jadd (oa_fromWeight n) (oa_delta n)) ''NcmOperatorWeightAdjustmentRequest'' ''tunedWeight'' = Inr t"
    "ar_tunedWeight r = t" "ar_adjustment r = n\<lparr>oa_toWeight := t\<rparr>"
    "ar_adjustments r = toSortedAdjustments (localeCompare h) (as @ [n\<lparr>oa_toWeight := t\<rparr>])"
proof -
  have "ar_action r \<noteq> AdjustRejected" "ar_action r \<noteq> AdjustReplayed" using assms(2) by simp_all
  then show thesis using adjustNormalized_Inr [OF assms(1)] that by blast
qed

lemma adjustNormalized_unapplied:
  "adjustNormalized h q policy n as = Inr r \<Longrightarrow> ar_action r \<noteq> Applied \<Longrightarrow> ar_adjustments r = as"
  using adjustNormalized_Inr [of h q policy n as r] by blast

definition withAdjustments ::
  "NcmOperatorWeightAdjustmentRecord list \<Rightarrow> NcmOperatorWeightAdjustmentRequest \<Rightarrow> NcmOperatorWeightAdjustmentRequest" where
  "withAdjustments l q = q\<lparr>aq_existingAdjustments := Some l\<rparr>"

text \<open>A request whose identifiers are trimmed and whose current weight is in [0, 1].\<close>

definition canonicalAdjustment :: "NcmOperatorWeightAdjustmentRequest \<Rightarrow> bool" where
  "canonicalAdjustment q =
     (trim (aq_adjustmentId q) = aq_adjustmentId q \<and> trim (aq_spaceId q) = aq_spaceId q
      \<and> trim (aq_memoryId q) = aq_memoryId q \<and> trim (aq_actorUserId q) = aq_actorUserId q
      \<and> trim (aq_reason q) = aq_reason q \<and> isBetween 0 1 (aq_currentWeight q))"

lemma withAdjustments_simps [simp]:
  "aq_adjustmentId (withAdjustments l q) = aq_adjustmentId q" "aq_spaceId (withAdjustments l q) = aq_spaceId q"
  "aq_memoryId (withAdjustments l q) = aq_memoryId q" "aq_actorUserId (withAdjustments l q) = aq_actorUserId q"
  "aq_reason (withAdjustments l q) = aq_reason q" "aq_nowMillis (withAdjustments l q) = aq_nowMillis q"
  "aq_currentWeight (withAdjustments l q) = aq_currentWeight q" "aq_delta (withAdjustments l q) = aq_delta q"
  "aq_policy (withAdjustments l q) = aq_policy q" "listOr (aq_existingAdjustments (withAdjustments l q)) = l"
  "operatorAdjustmentDigest h (withAdjustments l q) = operatorAdjustmentDigest h q"
  by (simp_all add: withAdjustments_def listOr_def operatorAdjustmentDigest_def)

lemma adjustNormalized_withAdjustments [simp]:
  "adjustNormalized h (withAdjustments l q) policy n as = adjustNormalized h q policy n as"
  by (simp only: adjustNormalized_def withAdjustments_simps)

lemma normalizeDelta_Inr: "normalizeDelta v c f = Inr d \<Longrightarrow> d = round6 v"
  by (auto simp: normalizeDelta_def split: if_splits)

lemma canonical_weight:
  assumes "isBetween 0 1 v" "normalizeWeight v c f = Inr w"
  shows "w = round6 v"
proof -
  obtain x where "v = JFin x" "0 \<le> x" "x \<le> 1" using isBetween_finite [OF assms(1)] by auto
  then show ?thesis using assms(2) by (simp add: normalizeWeight_def isFinite_def clamp_unit clamp01_unit)
qed

text \<open>What one submission computes, for any log it is given.\<close>

lemma adjust_submission:
  assumes "adjustBody h dp (withAdjustments l q) = Inr r"
  obtains policy n where
    "\<And>l'. adjustBody h dp (withAdjustments l' q) = adjustNormalized h q policy n (toSortedAdjustments (localeCompare h) l')"
    "canonicalAdjustment q \<Longrightarrow> storedAdjustmentDigest h n = operatorAdjustmentDigest h q"
    "\<And>t. storedAdjustmentDigest h (n\<lparr>oa_toWeight := t\<rparr>) = storedAdjustmentDigest h n"
    "isWeight (oa_fromWeight n)"
  using assms
proof (rule adjustBody_InrE)
  fix w d policy
  let ?n = "\<lparr>oa_adjustmentId = trim (aq_adjustmentId q), oa_spaceId = trim (aq_spaceId q), oa_memoryId = trim (aq_memoryId q),
         oa_actorUserId = trim (aq_actorUserId q), oa_reason = trim (aq_reason q), oa_delta = d, oa_fromWeight = w,
         oa_toWeight = w, oa_recordedAtMillis = aq_nowMillis q, oa_policyDigestSha256 = policyDigest h policy\<rparr>"
  assume *: "trim (aq_adjustmentId (withAdjustments l q)) \<noteq> []" "trim (aq_spaceId (withAdjustments l q)) \<noteq> []"
    "trim (aq_memoryId (withAdjustments l q)) \<noteq> []" "trim (aq_actorUserId (withAdjustments l q)) \<noteq> []"
    "trim (aq_reason (withAdjustments l q)) \<noteq> []"
    "isSafeInteger (aq_nowMillis (withAdjustments l q))" "0 \<le> aq_nowMillis (withAdjustments l q)"
    "normalizeWeight (aq_currentWeight (withAdjustments l q)) ''NcmOperatorWeightAdjustmentRequest'' ''currentWeight'' = Inr w"
    "normalizeDelta (aq_delta (withAdjustments l q)) ''NcmOperatorWeightAdjustmentRequest'' ''delta'' = Inr d"
    "normalizePolicy (trim (aq_spaceId (withAdjustments l q))) (aq_nowMillis (withAdjustments l q)) (aq_policy (withAdjustments l q)) dp = Inr policy"
  have trims: "normalizeNonEmptyTrimmed v c f = Inr (trim v)" if "trim v \<noteq> []" for v c f using that by simp
  have body: "adjustBody h dp (withAdjustments l' q) = adjustNormalized h q policy ?n (toSortedAdjustments (localeCompare h) l')" for l'
    using * by (simp add: adjustBody_def Let_def trims)
  have digest: "storedAdjustmentDigest h ?n = operatorAdjustmentDigest h q" if "canonicalAdjustment q"
  proof -
    have "d = round6 (aq_delta q)" using *(9) normalizeDelta_Inr by simp
    moreover have "w = round6 (aq_currentWeight q)"
      using *(8) that canonical_weight by (simp add: canonicalAdjustment_def)
    ultimately show ?thesis using that
      by (simp add: storedAdjustmentDigest_def operatorAdjustmentDigest_def canonicalAdjustment_def)
  qed
  have weight: "isWeight (oa_fromWeight ?n)" using *(8) normalizeWeight_isWeight by simp
  show thesis
    by (rule that [of policy ?n]) (simp_all only: body digest weight, simp add: storedAdjustmentDigest_def)
qed

interpretation adjust_log: replayable_log "\<lambda>l q. applyOperatorWeightAdjustment h dp (withAdjustments l q)"
    ar_adjustments "\<lambda>r. ar_action r = Applied" ar_adjustment canonicalAdjustment
proof unfold_locales
  fix l q e r
  show "applyOperatorWeightAdjustment h dp (withAdjustments l q) \<noteq> Die e"
    by (simp add: applyOperatorWeightAdjustment_def)
  assume "applyOperatorWeightAdjustment h dp (withAdjustments l q) = Succeed r"
  then have run: "adjustBody h dp (withAdjustments l q) = Inr r" by (simp add: applyOperatorWeightAdjustment_def)
  obtain policy n where
    body: "\<And>l'. adjustBody h dp (withAdjustments l' q) = adjustNormalized h q policy n (toSortedAdjustments (localeCompare h) l')"
    and digest: "canonicalAdjustment q \<Longrightarrow> storedAdjustmentDigest h n = operatorAdjustmentDigest h q"
      "\<And>t. storedAdjustmentDigest h (n\<lparr>oa_toWeight := t\<rparr>) = storedAdjustmentDigest h n"
    using adjust_submission [OF run] by metis
  let ?as = "toSortedAdjustments (localeCompare h) l"
  have result: "adjustNormalized h q policy n ?as = Inr r" using run body by simp
  show "applyOperatorWeightAdjustment h dp (withAdjustments (ar_adjustments r) q) = Succeed r" if "ar_action r \<noteq> Applied"
  proof -
    have "ar_adjustments r = ?as" using result that by (rule adjustNormalized_unapplied)
    then show ?thesis using result by (simp add: applyOperatorWeightAdjustment_def body)
  qed
  show "\<exists>r'. applyOperatorWeightAdjustment h dp (withAdjustments (ar_adjustments r) q) = Succeed r'
      \<and> ar_action r' \<noteq> Applied \<and> ar_adjustment r' = ar_adjustment r \<and> ar_adjustments r' = ar_adjustments r"
    if canonical: "canonicalAdjustment q" and applied: "ar_action r = Applied"
  proof -
    obtain t where enabled: "enableManualWeightTuning (po_knobs policy)"
      "\<not> jlt (maxManualWeightDelta (po_knobs policy)) (jabs (oa_delta n))"
      and none: "find (\<lambda>e. oa_adjustmentId e = oa_adjustmentId n) ?as = None"
      and r: "ar_adjustment r = n\<lparr>oa_toWeight := t\<rparr>"
        "ar_adjustments r = toSortedAdjustments (localeCompare h) (?as @ [n\<lparr>oa_toWeight := t\<rparr>])"
      using adjustNormalized_applied [OF result applied] by blast
    have found: "find (\<lambda>e. oa_adjustmentId e = oa_adjustmentId n) (ar_adjustments r) = Some (n\<lparr>oa_toWeight := t\<rparr>)"
      using none unfolding r(2) toSortedAdjustments_def by (rule find_appended) simp
    have sorted: "toSortedAdjustments (localeCompare h) (ar_adjustments r) = ar_adjustments r" by (simp add: r(2))
    have "\<exists>r'. adjustNormalized h q policy n (ar_adjustments r) = Inr r' \<and> ar_action r' = AdjustReplayed
        \<and> ar_adjustment r' = n\<lparr>oa_toWeight := t\<rparr> \<and> ar_adjustments r' = ar_adjustments r"
      using enabled found digest canonical by (simp add: adjustNormalized_def Let_def)
    then show ?thesis using r(1) by (auto simp: applyOperatorWeightAdjustment_def body sorted)
  qed
qed

definition storeAdjustment ::
  "host \<Rightarrow> NcmTenantPolicy option \<Rightarrow> NcmOperatorWeightAdjustmentRequest
    \<Rightarrow> NcmOperatorWeightAdjustmentRecord list \<Rightarrow> NcmOperatorWeightAdjustmentRecord list" where
  "storeAdjustment h dp q l =
     (case applyOperatorWeightAdjustment h dp (withAdjustments l q) of Succeed r \<Rightarrow> ar_adjustments r | _ \<Rightarrow> l)"

lemma storeAdjustment_store: "storeAdjustment h dp q = adjust_log.store h dp q"
  by (rule ext) (simp add: storeAdjustment_def adjust_log.store_def)

text \<open>C24: For a request with trimmed identifiers and a current weight in [0, 1], at-least-once
  delivery of an operator adjustment is exactly-once storage.\<close>

theorem adjust_exactly_once:
  "canonicalAdjustment q \<Longrightarrow> (storeAdjustment h dp q ^^ Suc n) l = storeAdjustment h dp q l"
  unfolding storeAdjustment_store by (rule adjust_log.store_idempotent)

text \<open>An applied adjustment was allowed by the tenant's policy: tuning is enabled, the
  recorded delta does not exceed the policy's maximum, the weights are normalised weights in
  [0, 1], and the tuned weight moves in the direction of the delta.\<close>

theorem adjust_applied:
  assumes "applyOperatorWeightAdjustment h dp q = Succeed r" "ar_action r = Applied"
  shows "\<exists>p. normalizePolicy (trim (aq_spaceId q)) (aq_nowMillis q) (aq_policy q) dp = Inr p
    \<and> enableManualWeightTuning (po_knobs p)
    \<and> \<not> jlt (maxManualWeightDelta (po_knobs p)) (jabs (oa_delta (ar_adjustment r)))
    \<and> oa_delta (ar_adjustment r) = round6 (aq_delta q)
    \<and> isWeight (oa_fromWeight (ar_adjustment r)) \<and> isWeight (ar_tunedWeight r)
    \<and> oa_toWeight (ar_adjustment r) = ar_tunedWeight r
    \<and> (jle (jint 0) (oa_delta (ar_adjustment r)) \<longrightarrow> jle (oa_fromWeight (ar_adjustment r)) (ar_tunedWeight r))
    \<and> (jle (oa_delta (ar_adjustment r)) (jint 0) \<longrightarrow> jle (ar_tunedWeight r) (oa_fromWeight (ar_adjustment r)))"
proof -
  have "adjustBody h dp q = Inr r" using assms(1) by (simp add: applyOperatorWeightAdjustment_def)
  then show ?thesis
  proof (rule adjustBody_InrE)
    fix w d policy
    let ?n = "\<lparr>oa_adjustmentId = trim (aq_adjustmentId q), oa_spaceId = trim (aq_spaceId q), oa_memoryId = trim (aq_memoryId q),
         oa_actorUserId = trim (aq_actorUserId q), oa_reason = trim (aq_reason q), oa_delta = d, oa_fromWeight = w,
         oa_toWeight = w, oa_recordedAtMillis = aq_nowMillis q, oa_policyDigestSha256 = policyDigest h policy\<rparr>"
    assume w: "normalizeWeight (aq_currentWeight q) ''NcmOperatorWeightAdjustmentRequest'' ''currentWeight'' = Inr w"
      and d: "normalizeDelta (aq_delta q) ''NcmOperatorWeightAdjustmentRequest'' ''delta'' = Inr d"
      and p: "normalizePolicy (trim (aq_spaceId q)) (aq_nowMillis q) (aq_policy q) dp = Inr policy"
      and run: "adjustNormalized h q policy ?n
        (toSortedAdjustments (localeCompare h) (listOr (aq_existingAdjustments q))) = Inr r"
    obtain t where t: "normalizeWeight (jadd w d) ''NcmOperatorWeightAdjustmentRequest'' ''tunedWeight'' = Inr t"
      and r: "ar_tunedWeight r = t" "ar_adjustment r = ?n\<lparr>oa_toWeight := t\<rparr>"
      and ok: "enableManualWeightTuning (po_knobs policy)" "\<not> jlt (maxManualWeightDelta (po_knobs policy)) (jabs d)"
      using run assms(2) by (rule adjustNormalized_applied) simp
    have weights: "isWeight w" "isWeight t" using w t normalizeWeight_isWeight by auto
    obtain a where a: "w = JFin a" using weights(1) by (auto simp: isWeight_def)
    obtain b where b: "t = JFin b" using weights(2) by (auto simp: isWeight_def)
    obtain x where x: "d = JFin x" using t a by (cases d) (auto simp: normalizeWeight_Inr)
    have "(0 \<le> x \<longrightarrow> a \<le> b) \<and> (x \<le> 0 \<longrightarrow> b \<le> a)"
      using t weights(1) unfolding a b x by (rule weight_moves [rotated])
    then have "jle (jint 0) d \<longrightarrow> jle w t" "jle d (jint 0) \<longrightarrow> jle t w"
      unfolding a b x by (auto simp: jle_def jeq_def jint_def)
    then show ?thesis using p ok weights r d normalizeDelta_Inr [OF d] by auto
  qed
qed

text \<open>The replay check of an adjustment compares the stored record, whose fields are trimmed
  and clamped, with the raw request. So an applied request is rejected as a payload collision
  when it is submitted again unchanged, whenever its raw text gives another digest.\<close>

theorem adjust_raw_resubmission_rejected:
  assumes "applyOperatorWeightAdjustment h dp (withAdjustments l q) = Succeed r" "ar_action r = Applied"
    and "storedAdjustmentDigest h (ar_adjustment r) \<noteq> operatorAdjustmentDigest h q"
  shows "\<exists>m d. applyOperatorWeightAdjustment h dp (withAdjustments (ar_adjustments r) q)
     = Fail (mkContractValidationError m ''adjustmentId already exists with a different payload.'' d)"
proof -
  have run: "adjustBody h dp (withAdjustments l q) = Inr r" using assms(1) by (simp add: applyOperatorWeightAdjustment_def)
  obtain policy n where
    body: "\<And>l'. adjustBody h dp (withAdjustments l' q) = adjustNormalized h q policy n (toSortedAdjustments (localeCompare h) l')"
    using adjust_submission [OF run] by metis
  let ?as = "toSortedAdjustments (localeCompare h) l"
  have result: "adjustNormalized h q policy n ?as = Inr r" using run body by simp
  obtain t where enabled: "enableManualWeightTuning (po_knobs policy)"
      "\<not> jlt (maxManualWeightDelta (po_knobs policy)) (jabs (oa_delta n))"
    and none: "find (\<lambda>e. oa_adjustmentId e = oa_adjustmentId n) ?as = None"
    and r: "ar_adjustment r = n\<lparr>oa_toWeight := t\<rparr>"
      "ar_adjustments r = toSortedAdjustments (localeCompare h) (?as @ [n\<lparr>oa_toWeight := t\<rparr>])"
    using adjustNormalized_applied [OF result assms(2)] by blast
  have "find (\<lambda>e. oa_adjustmentId e = oa_adjustmentId n) (ar_adjustments r) = Some (n\<lparr>oa_toWeight := t\<rparr>)"
    using none unfolding r(2) toSortedAdjustments_def by (rule find_appended) simp
  moreover have "toSortedAdjustments (localeCompare h) (ar_adjustments r) = ar_adjustments r" by (simp add: r(2))
  ultimately show ?thesis using enabled assms(3)
    by (simp add: applyOperatorWeightAdjustment_def body adjustNormalized_def Let_def throwContract_def r(1)) blast
qed

section \<open>Properties of the console\<close>

text \<open>The rows of a request that belong to one space.\<close>

definition restrictToSpace :: "string \<Rightarrow> NcmConsoleSignalsRequest \<Rightarrow> NcmConsoleSignalsRequest" where
  "restrictToSpace s q = q\<lparr>cq_feedbackEvents := filter (\<lambda>e. fe_spaceId e = s) (cq_feedbackEvents q),
     cq_decayTransitions := filter (\<lambda>e. tr_spaceId e = s) (cq_decayTransitions q),
     cq_operatorAdjustments := filter (\<lambda>e. oa_spaceId e = s) (cq_operatorAdjustments q)\<rparr>"

lemma consoleFilter_conj [simp]: "(x = s \<and> consoleFilter s m x y) = consoleFilter s m x y"
  by (auto simp: consoleFilter_def)

lemma consoleFilter_restrict:
  "filter (\<lambda>e. consoleFilter s m (sp e) (mem e)) (filter (\<lambda>e. sp e = s) es) = filter (\<lambda>e. consoleFilter s m (sp e) (mem e)) es"
  by (auto simp: consoleFilter_def intro: filter_cong)

text \<open>C25: Tenant isolation of the console: the answer depends only on the rows of the
  requested space; rows of other spaces never appear, are never counted and never push an
  entry out of the limit.\<close>

theorem console_isolation:
  "getConsoleSignals h (restrictToSpace (trim (cq_spaceId q)) q) = getConsoleSignals h q"
proof -
  have limit: "consoleLimit (restrictToSpace s q) = consoleLimit q" for s
    by (simp add: consoleLimit_def restrictToSpace_def)
  show ?thesis
  proof (cases "trim (cq_spaceId q) = []")
    case True
    then show ?thesis by (simp add: getConsoleSignals_def restrictToSpace_def normalizeNonEmptyTrimmed_def Let_def throwContract_def)
  next
    case False
    then have space: "normalizeNonEmptyTrimmed (cq_spaceId q) c f = Inr (trim (cq_spaceId q))" for c f by simp
    show ?thesis
      unfolding getConsoleSignals_def limit Let_def
      by (simp add: restrictToSpace_def space consoleFilter_restrict)
  qed
qed

text \<open>The page of console entries: at most the requested limit and never more than 2000,
  newest first, as many as there are rows up to the limit, and no entry left out comes before
  one that is shown.\<close>

theorem console_page:
  assumes "getConsoleSignals h q = Succeed r"
  shows "\<exists>n rest. consoleLimit q = Inr n \<and> 0 < n \<and> n \<le> 2000
    \<and> length (cr_entries r) = min (nat n) (cr_totalFeedbackEvents r + cr_totalDecayTransitions r + cr_totalOperatorAdjustments r)
    \<and> length (cr_entries r) + length rest = cr_totalFeedbackEvents r + cr_totalDecayTransitions r + cr_totalOperatorAdjustments r
    \<and> arraySorted (consoleOrder (localeCompare h)) (cr_entries r @ rest)"
proof -
  obtain n xs where n: "consoleLimit q = Inr n"
    and xs: "cr_entries r = take (nat n) (arraySort (consoleOrder (localeCompare h)) xs)"
    and len: "length xs = cr_totalFeedbackEvents r + cr_totalDecayTransitions r + cr_totalOperatorAdjustments r"
    using assms by (auto simp: getConsoleSignals_def Let_def chain_eq_Inr)
  have "0 < n \<and> n \<le> 2000"
    using n by (auto simp: consoleLimit_def Let_def split: if_splits option.splits)
  moreover have "cr_entries r @ drop (nat n) (arraySort (consoleOrder (localeCompare h)) xs)
      = arraySort (consoleOrder (localeCompare h)) xs" by (simp add: xs)
  ultimately show ?thesis
    using n len xs by (intro exI [of _ n] exI [of _ "drop (nat n) (arraySort (consoleOrder (localeCompare h)) xs)"]) auto
qed

section \<open>Examples\<close>

definition sampleEvent :: NcmFeedbackEvent where
  "sampleEvent = \<lparr>fe_feedbackId = ''a'', fe_spaceId = ''b'', fe_memoryId = ''c'', fe_source = Human_feedback,
     fe_signal = Helpful, fe_actorUserId = None, fe_actorAgentId = None, fe_note = None, fe_idempotencyKey = None,
     fe_occurredAtMillis = 1, fe_provenance = None\<rparr>"

definition samplePolicy :: "bool \<Rightarrow> NcmTenantPolicy" where
  "samplePolicy enabled = \<lparr>po_tenantId = ''b'', po_knobs = \<lparr>enableFeedbackIngestion = enabled,
     enableDeterministicDecayReheat = enabled, enableManualWeightTuning = enabled, failClosed = True,
     maxManualWeightDelta = JFin 1, helpfulSignalBoost = JFin 1, failureSignalPenalty = JFin 0,
     retrievalReheatBoost = JFin 0, timeDecayFactor = JFin 0, halfLifeDays = JFin 1\<rparr>, po_updatedAtMillis = 0\<rparr>"

definition sampleIngestion :: "bool \<Rightarrow> NcmFeedbackIngestionRequest" where
  "sampleIngestion enabled = \<lparr>fi_event = sampleEvent, fi_currentWeight = JFin 0, fi_recentRetrievalCount = None,
     fi_lastRetrievedAtMillis = None, fi_nowMillis = 5, fi_policy = Some (samplePolicy enabled),
     fi_existingEvents = None, fi_existingTransitions = None\<rparr>"

lemma sample_trims [simp]: "trim ''a'' = ''a''" "trim ''b'' = ''b''" "trim ''c'' = ''c''"
  using sample_identifiers by (simp_all add: nonEmptyTrimmedString_def)

lemma sample_event_ok [simp]: "normalizeFeedbackEvent sampleEvent c = Inr sampleEvent"
  by (simp add: normalizeFeedbackEvent_def chain_eq_Inr normalizeOptional_Inr sampleEvent_def
      isSafeInteger_def maxSafeInteger_def)

lemma sample_policy_ok [simp]: "normalizePolicy ''b'' n (Some (samplePolicy b)) dp = Inr (samplePolicy b)"
  by (simp add: normalizePolicy_def checkPolicy_def samplePolicy_def isFinite_def jle_def jeq_def jint_def)

lemma round64_01 [simp]: "round64 0 = JFin 0" "round64 1 = JFin 1"
  by (simp_all add: round64_small)

lemma round6_01 [simp]: "round6 (JFin 0) = JFin 0" "round6 (JFin 1) = JFin 1"
  by (simp_all add: round6_unit toFixed6_units_def)

lemma clamp01_01 [simp]: "clamp01 0 = 0" "clamp01 1 = 1"
  by (simp_all add: clamp01_def)

lemma normalizeWeight_01 [simp]: "normalizeWeight (JFin 0) c f = Inr (JFin 0)" "normalizeWeight (JFin 1) c f = Inr (JFin 1)"
  by (simp_all add: normalizeWeight_JFin toFixed6_units_def)

lemma sample_decay:
  "\<exists>d. evaluateDecayFromSignals (JFin 0) 5 None (jint 0) [Helpful] (samplePolicy True) = Inr d \<and> dr_action d = Reheat"
  by (simp add: evaluateDecayFromSignals_def samplePolicy_def staleDaysOf_def chain_eq_Inr isSafeInteger_def
      maxSafeInteger_def jint_def jmax_def jmin_def jtrunc_def jsub_def Let_def)

lemma sort_single [simp]: "arraySort c [x] = [x]"
  by (rule sort_of_sorted) simp

lemma sample_ingest_ok:
  "\<exists>r. ingestFeedback sampleHost None (sampleIngestion True) = Succeed r \<and> fr_action r = IngestCreated"
proof -
  obtain d where d: "evaluateDecayFromSignals (JFin 0) 5 None (jint 0) [Helpful] (samplePolicy True) = Inr d"
    using sample_decay by blast
  have "fe_spaceId sampleEvent = ''b''" "fe_signal sampleEvent = Helpful" by (simp_all add: sampleEvent_def)
  moreover have "enableFeedbackIngestion (po_knobs (samplePolicy True))" by (simp add: samplePolicy_def)
  moreover have "isSafeInteger 5" by (simp add: isSafeInteger_def maxSafeInteger_def)
  ultimately show ?thesis
    using d by (simp add: ingestFeedback_def ingestBody_def sampleIngestion_def listOr_def ingestCreate_def Let_def
        toSortedFeedbackEvents_def toSortedTransitions_def sameMemory_def)
qed

theorem ingest_created_witness:
  "\<exists>r t. ingestFeedback sampleHost None (sampleIngestion True) = Succeed r \<and> fr_transition r = Some t
     \<and> isWeight (tr_toWeight t)"
proof -
  obtain r where "ingestFeedback sampleHost None (sampleIngestion True) = Succeed r" "fr_action r = IngestCreated"
    using sample_ingest_ok by blast
  with ingest_created [OF this] show ?thesis by blast
qed

theorem ingest_keeps_identities_witness:
  "\<exists>r. ingestFeedback sampleHost None (sampleIngestion True) = Succeed r \<and> fr_action r = IngestCreated
     \<and> uniqueIdentities (fr_events r)"
proof -
  obtain r where r: "ingestFeedback sampleHost None (sampleIngestion True) = Succeed r" "fr_action r = IngestCreated"
    using sample_ingest_ok by blast
  have "uniqueIdentities (fr_events r)"
    by (rule ingest_keeps_identities [OF r(1), of "[]"]) (simp_all add: sampleIngestion_def listOr_def uniqueIdentities_def)
  with r show ?thesis by blast
qed

theorem ncm_fail_closed_witness: "\<exists>e. ingestFeedback sampleHost None (sampleIngestion False) = Fail e"
  using ncm_fail_closed [of "samplePolicy False" "sampleIngestion False"]
  by (simp add: samplePolicy_def sampleIngestion_def)

definition sampleAdjustment :: "string \<Rightarrow> NcmOperatorWeightAdjustmentRequest" where
  "sampleAdjustment why = \<lparr>aq_adjustmentId = ''a'', aq_spaceId = ''b'', aq_memoryId = ''c'', aq_actorUserId = ''a'',
     aq_reason = why, aq_delta = JFin 1, aq_currentWeight = JFin 0, aq_nowMillis = 5, aq_policy = Some (samplePolicy True),
     aq_existingAdjustments = Some []\<rparr>"

lemma sample_adjust_ok:
  assumes "trim why = ''c''"
  shows "\<exists>r. applyOperatorWeightAdjustment sampleHost None (withAdjustments [] (sampleAdjustment why)) = Succeed r
    \<and> ar_action r = Applied \<and> ar_adjustments r = [ar_adjustment r]
    \<and> ar_adjustment r = \<lparr>oa_adjustmentId = ''a'', oa_spaceId = ''b'', oa_memoryId = ''c'', oa_actorUserId = ''a'',
        oa_reason = ''c'', oa_delta = JFin 1, oa_fromWeight = JFin 0, oa_toWeight = JFin 1, oa_recordedAtMillis = 5,
        oa_policyDigestSha256 = policyDigest sampleHost (samplePolicy True)\<rparr>"
proof -
  have trims: "normalizeNonEmptyTrimmed v c f = Inr (trim v)" if "trim v \<noteq> []" for v c f using that by simp
  have delta: "normalizeDelta (JFin 1) c f = Inr (JFin 1)" for c f by (simp add: normalizeDelta_def isFinite_def jint_def)
  have five: "isSafeInteger 5" by (simp add: isSafeInteger_def maxSafeInteger_def)
  have policy: "enableManualWeightTuning (po_knobs (samplePolicy True))" "maxManualWeightDelta (po_knobs (samplePolicy True)) = JFin 1"
    by (simp_all add: samplePolicy_def)
  have abs1: "jabs (JFin 1) = JFin 1" by (simp add: jabs_def)
  show ?thesis
    using assms by (simp add: applyOperatorWeightAdjustment_def adjustBody_def Let_def trims delta five sampleAdjustment_def
        adjustNormalized_def policy toSortedAdjustments_def abs1)
qed

theorem adjust_exactly_once_witness:
  "(storeAdjustment sampleHost None (sampleAdjustment ''c'') ^^ 3) [] = storeAdjustment sampleHost None (sampleAdjustment ''c'') []
   \<and> storeAdjustment sampleHost None (sampleAdjustment ''c'') [] \<noteq> []"
proof -
  have canonical: "canonicalAdjustment (sampleAdjustment ''c'')"
    by (simp add: canonicalAdjustment_def sampleAdjustment_def isBetween_def jle_def jeq_def)
  obtain r where r: "applyOperatorWeightAdjustment sampleHost None (withAdjustments [] (sampleAdjustment ''c'')) = Succeed r"
      "ar_adjustments r = [ar_adjustment r]" using sample_adjust_ok [of "''c''"] by auto
  then show ?thesis
    using adjust_exactly_once [OF canonical, where h = sampleHost and dp = None and n = 2 and l = "[]"] r
    by (simp add: numeral_3_eq_3 storeAdjustment_def)
qed

theorem adjust_applied_witness:
  "\<exists>r. applyOperatorWeightAdjustment sampleHost None (withAdjustments [] (sampleAdjustment ''c'')) = Succeed r
     \<and> isWeight (ar_tunedWeight r)"
proof -
  obtain r where r: "applyOperatorWeightAdjustment sampleHost None (withAdjustments [] (sampleAdjustment ''c'')) = Succeed r"
      "ar_action r = Applied" using sample_adjust_ok [of "''c''"] by auto
  show ?thesis using adjust_applied [OF r] r(1) by blast
qed

text \<open>The request with the reason \<open>''c ''\<close> is applied, and rejected when it is sent again.\<close>

theorem adjust_raw_resubmission_rejected_witness:
  "\<exists>r m d. applyOperatorWeightAdjustment sampleHost None (withAdjustments [] (sampleAdjustment ''c '')) = Succeed r
     \<and> applyOperatorWeightAdjustment sampleHost None (withAdjustments (ar_adjustments r) (sampleAdjustment ''c ''))
         = Fail (mkContractValidationError m ''adjustmentId already exists with a different payload.'' d)"
proof -
  have "trim ''c '' = ''c''" by (simp add: trim_def isWhiteSpace_def)
  then obtain r where r: "applyOperatorWeightAdjustment sampleHost None (withAdjustments [] (sampleAdjustment ''c '')) = Succeed r"
      "ar_action r = Applied"
      and adj: "ar_adjustment r = \<lparr>oa_adjustmentId = ''a'', oa_spaceId = ''b'', oa_memoryId = ''c'', oa_actorUserId = ''a'',
        oa_reason = ''c'', oa_delta = JFin 1, oa_fromWeight = JFin 0, oa_toWeight = JFin 1, oa_recordedAtMillis = 5,
        oa_policyDigestSha256 = policyDigest sampleHost (samplePolicy True)\<rparr>"
    using sample_adjust_ok by blast
  have "length (stableStringify lc (adjustmentJson ''a'' ''b'' ''c'' ''a'' ''c'' (JFin 1) (JFin 0) 5))
      \<noteq> length (stableStringify lc (adjustmentJson ''a'' ''b'' ''c'' ''a'' ''c '' (JFin 1) (JFin 0) 5))" for lc
    unfolding adjustmentJson_def length_sortedObject by (simp add: stableStringify_def quoted_def escapeChar_def)
  then have "storedAdjustmentDigest sampleHost (ar_adjustment r) \<noteq> operatorAdjustmentDigest sampleHost (sampleAdjustment ''c '')"
    unfolding storedAdjustmentDigest_def operatorAdjustmentDigest_def adj
    by (simp add: sampleAdjustment_def sampleHost_def) metis
  with adjust_raw_resubmission_rejected [OF r] r(1) show ?thesis by blast
qed

definition sampleConsole :: NcmConsoleSignalsRequest where
  "sampleConsole = \<lparr>cq_spaceId = ''b'', cq_memoryId = None, cq_limit = Some 5, cq_feedbackEvents = [sampleEvent],
     cq_decayTransitions = [], cq_operatorAdjustments = []\<rparr>"

theorem console_page_witness:
  "\<exists>r. getConsoleSignals sampleHost sampleConsole = Succeed r \<and> length (cr_entries r) \<le> 2000"
proof -
  have "consoleLimit sampleConsole = Inr 5"
    by (simp add: consoleLimit_def sampleConsole_def isSafeInteger_def maxSafeInteger_def)
  then have "\<exists>r. getConsoleSignals sampleHost sampleConsole = Succeed r"
    by (simp add: getConsoleSignals_def Let_def chain_eq_Inr normalizeOptional_Inr) (simp add: sampleConsole_def)
  then obtain r where r: "getConsoleSignals sampleHost sampleConsole = Succeed r" by blast
  from console_page [OF r] obtain n where "n \<le> 2000" "length (cr_entries r) \<le> nat n" by (metis min.cobounded1)
  with r show ?thesis by (intro exI [of _ r]) linarith
qed

end
