(* ===== verification/Identity_Model.thy ===== *)
theory Identity_Model
  imports Tenant_Routing Authorization
begin

text \<open>
  The data model and the helpers of the enterprise identity service
  (libs/shared/src/effect/services/enterprise-identity-service.ts, lines 27-463): issuer
  bindings, users, external subjects, sync checkpoints, role assignments and project
  memberships, the normalisers that throw, the sorted logs, the identifiers derived by
  SHA-256, and the mapping of directory role ids to authorization roles.
\<close>

section \<open>Data\<close>

datatype UserStatus = Active | Disabled | Pending

datatype IdentityIssuerKind = Oidc | Saml | Scim

datatype IdentitySubjectSource = FromSso | FromScim | Manual

datatype IdentitySyncChannel = Scim_users | Scim_groups

datatype AuditEventType = SsoLogin | UserProvision | UserSync | GroupSync

datatype AuditDetailValue = DetailString string | DetailNumber int | DetailBool bool | DetailNull

record AuditEvent =
  ae_eventType :: AuditEventType
  ae_tenantId :: string
  ae_userId :: "string option"
  ae_occurredAtMillis :: int
  ae_details :: "(string \<times> AuditDetailValue) list"

record IssuerBinding =
  bi_tenantId :: string
  bi_issuerBindingId :: string
  bi_issuer :: string
  bi_issuerKind :: IdentityIssuerKind
  bi_isPrimary :: bool

record UserRecord =
  us_tenantId :: string
  us_userId :: string
  us_email :: string
  us_displayName :: string
  us_status :: UserStatus
  us_createdAtMillis :: int
  us_updatedAtMillis :: int

record ExternalSubjectRecord =
  sb_tenantId :: string
  sb_issuerBindingId :: string
  sb_externalSubjectId :: string
  sb_userId :: string
  sb_subjectHashSha256 :: string
  sb_subjectSource :: IdentitySubjectSource
  sb_firstSeenAtMillis :: int
  sb_lastSeenAtMillis :: int

record SyncCheckpointRecord =
  cp_tenantId :: string
  cp_issuerBindingId :: string
  cp_syncChannel :: IdentitySyncChannel
  cp_checkpointCursor :: string
  cp_cursorHashSha256 :: string
  cp_cursorSequence :: int
  cp_checkpointedAtMillis :: int
  cp_updatedAtMillis :: int

record UserRoleAssignmentRecord =
  ra_tenantId :: string
  ra_userId :: string
  ra_roleId :: string
  ra_assignedAtMillis :: int
  ra_assignedByUserId :: "string option"

record ProjectMembershipRecord =
  pm_tenantId :: string
  pm_projectId :: string
  pm_userId :: string
  pm_roleId :: "string option"
  pm_assignedAtMillis :: int

record ScimGroupBinding =
  gb_tenantId :: string
  gb_issuerBindingId :: string
  gb_externalGroupId :: string
  gb_roleId :: "string option"
  gb_projectId :: "string option"

datatype IdentityError = ContractError ContractValidationError | RoutingError TenantRoutingDeniedError
  | AuthorizationError AuthorizationDeniedError

type_synonym 'a identity = "(IdentityError, 'a) result"

definition defaultSessionTtlMillis :: int where
  "defaultSessionTtlMillis = 8 * 60 * 60 * 1000"

fun channelName :: "IdentitySyncChannel \<Rightarrow> string" where
  "channelName Scim_users = ''scim_users''"
| "channelName Scim_groups = ''scim_groups''"

section \<open>Normalisers\<close>

definition throwIdentity :: "string \<Rightarrow> string \<Rightarrow> string \<Rightarrow> 'a identity" where
  "throwIdentity c m d = Inl (ContractError (mkContractValidationError c m d))"

definition normalizeTrimmedNonEmpty :: "string \<Rightarrow> string \<Rightarrow> string \<Rightarrow> string identity" where
  "normalizeTrimmedNonEmpty value c field =
     (let normalized = trim value in
      if length normalized = 0
      then throwIdentity c (field @ '' must be a non-empty trimmed string.'')
             (field @ '' received an empty or whitespace-only value.'')
      else Inr normalized)"

definition normalizeEmail :: "string \<Rightarrow> string \<Rightarrow> string \<Rightarrow> string identity" where
  "normalizeEmail value c field =
     chain (normalizeTrimmedNonEmpty value c field) (\<lambda>normalized.
       if \<not> strIncludes normalized ''@''
       then throwIdentity c (field @ '' must contain '' @ [CHR 0x27] @ ''@'' @ [CHR 0x27] @ ''.'')
              (field @ '' '' @ [CHR 0x22] @ normalized @ [CHR 0x22] @ '' is not a valid email-like identifier.'')
       else Inr (toLowerCase normalized))"

definition normalizeSequence :: "int \<Rightarrow> string \<Rightarrow> string \<Rightarrow> int identity" where
  "normalizeSequence value c field =
     (if \<not> isSafeInteger value \<or> value < 0
      then throwIdentity c (field @ '' must be a non-negative safe integer.'')
             (field @ '' received '' @ intString value @ ''.'')
      else Inr value)"

definition normalizeMillisId :: "int \<Rightarrow> string \<Rightarrow> string \<Rightarrow> int identity" where
  "normalizeMillisId value c field = normalizeSequence value c field"

section \<open>Sorted records\<close>

definition userSortKey :: "UserRecord \<Rightarrow> string" where
  "userSortKey u = us_tenantId u @ '':'' @ us_userId u"

definition toSortedUsers :: "collator \<Rightarrow> UserRecord list \<Rightarrow> UserRecord list" where
  "toSortedUsers lc users = arraySort (key userSortKey lc) users"

definition subjectSortKey :: "ExternalSubjectRecord \<Rightarrow> string" where
  "subjectSortKey s = sb_tenantId s @ '':'' @ sb_issuerBindingId s @ '':'' @ sb_externalSubjectId s"

definition toSortedSubjectBindings :: "collator \<Rightarrow> ExternalSubjectRecord list \<Rightarrow> ExternalSubjectRecord list" where
  "toSortedSubjectBindings lc subjects = arraySort (key subjectSortKey lc) subjects"

definition checkpointSortKey :: "SyncCheckpointRecord \<Rightarrow> string" where
  "checkpointSortKey c = cp_tenantId c @ '':'' @ cp_issuerBindingId c @ '':'' @ channelName (cp_syncChannel c)"

definition toSortedCheckpoints :: "collator \<Rightarrow> SyncCheckpointRecord list \<Rightarrow> SyncCheckpointRecord list" where
  "toSortedCheckpoints lc checkpoints = arraySort (key checkpointSortKey lc) checkpoints"

definition assignmentSortKey :: "UserRoleAssignmentRecord \<Rightarrow> string" where
  "assignmentSortKey a = ra_tenantId a @ '':'' @ ra_userId a @ '':'' @ ra_roleId a"

definition toSortedUserRoleAssignments ::
  "collator \<Rightarrow> UserRoleAssignmentRecord list \<Rightarrow> UserRoleAssignmentRecord list" where
  "toSortedUserRoleAssignments lc assignments = arraySort (key assignmentSortKey lc) assignments"

definition membershipSortKey :: "ProjectMembershipRecord \<Rightarrow> string" where
  "membershipSortKey m = pm_tenantId m @ '':'' @ pm_userId m @ '':'' @ pm_projectId m @ '':''
     @ (case pm_roleId m of None \<Rightarrow> [] | Some r \<Rightarrow> r)"

definition toSortedProjectMemberships ::
  "collator \<Rightarrow> ProjectMembershipRecord list \<Rightarrow> ProjectMembershipRecord list" where
  "toSortedProjectMemberships lc memberships = arraySort (key membershipSortKey lc) memberships"

section \<open>Identifiers and audit events\<close>

definition toCursorHash :: "host \<Rightarrow> string \<Rightarrow> string" where
  "toCursorHash h cursor = sha256 h cursor"

definition newline :: string where
  "newline = [CHR 0x0A]"

definition toSessionId :: "host \<Rightarrow> string \<Rightarrow> string \<Rightarrow> string \<Rightarrow> string \<Rightarrow> int \<Rightarrow> string" where
  "toSessionId h t u issuerBindingId externalSubjectId issuedAtMillis =
     ''session:'' @ sha256 h (join newline [t, u, issuerBindingId, externalSubjectId, intString issuedAtMillis])"

definition toPrincipalId :: "string \<Rightarrow> string \<Rightarrow> string" where
  "toPrincipalId t u = ''principal:'' @ t @ '':'' @ u"

definition createEnterpriseIdentityAuditEvent ::
  "AuditEventType \<Rightarrow> string \<Rightarrow> string option \<Rightarrow> int \<Rightarrow> (string \<times> AuditDetailValue) list \<Rightarrow> AuditEvent" where
  "createEnterpriseIdentityAuditEvent eventType t u occurredAtMillis detailList =
     \<lparr>ae_eventType = eventType, ae_tenantId = t, ae_userId = u,
      ae_occurredAtMillis = occurredAtMillis, ae_details = detailList\<rparr>"

section \<open>Roles\<close>

fun authorizationRoleRank :: "AuthorizationRole \<Rightarrow> int" where
  "authorizationRoleRank Admin = 4"
| "authorizationRoleRank Lead = 3"
| "authorizationRoleRank Dev = 2"
| "authorizationRoleRank Auditor = 1"
| "authorizationRoleRank (OtherRole s) = 0"

definition toAuthorizationRoleFromRoleId :: "string option \<Rightarrow> AuthorizationRole option" where
  "toAuthorizationRoleFromRoleId roleId =
     (case roleId of None \<Rightarrow> None
      | Some r \<Rightarrow>
          let normalized = toLowerCase (trim r) in
          if length normalized = 0 then None
          else if strIncludes normalized ''admin'' then Some Admin
          else if strIncludes normalized ''lead'' \<or> strIncludes normalized ''maintainer''
             \<or> strIncludes normalized ''owner'' then Some Lead
          else if strIncludes normalized ''audit'' \<or> strIncludes normalized ''compliance''
             \<or> strIncludes normalized ''read_only'' then Some Auditor
          else Some Dev)"

text \<open>Descending rank; the ranks of the four roles differ, so the tie-break by name is between
  equal roles.\<close>

definition roleOrder :: "collator \<Rightarrow> AuthorizationRole comparator" where
  "roleOrder lc = thenBy (descending authorizationRoleRank) (key roleName lc)"

definition toSortedCandidateAuthorizationRoles :: "collator \<Rightarrow> string list \<Rightarrow> AuthorizationRole list" where
  "toSortedCandidateAuthorizationRoles lc roleIds =
     (let mapped = List.map_filter (\<lambda>r. toAuthorizationRoleFromRoleId (Some r)) roleIds;
          roles = (if mapped = [] then [Dev] else setOrder mapped)
      in arraySort (roleOrder lc) roles)"

end
