(* ===== verification/Identity_Service.thy ===== *)
theory Identity_Service
  imports Identity_Model
begin

text \<open>
  The operations of the enterprise identity service
  (libs/shared/src/effect/services/enterprise-identity-service.ts, lines 110-222 and
  466-1211): opening a session at the boundary, applying a SCIM user event, reconciling the
  SCIM groups of a user, and evaluating an action for a user from stored roles. The tenant
  router and the authorization service are injected, as in the source; exceptions thrown in
  \<open>Effect.sync\<close> and \<open>Effect.suspend\<close> are defects.
\<close>

section \<open>Requests and responses\<close>

record SessionRequest =
  sr_issuer :: string
  sr_externalSubjectId :: string
  sr_occurredAtMillis :: int
  sr_tenantIdClaim :: "TenantId option"
  sr_tenantSlugClaim :: "string option"
  sr_sessionTtlMillis :: "int option"
  sr_tenants :: "TenantCatalogEntry list"
  sr_issuerBindings :: "IssuerBinding list"
  sr_users :: "UserRecord list"
  sr_subjectBindings :: "ExternalSubjectRecord list"

record SessionResponse =
  ss_sessionId :: string
  ss_principalId :: string
  ss_tenantId :: TenantId
  ss_userId :: string
  ss_routeSource :: TenantRouteResolutionSource
  ss_expiresAtMillis :: jsnum
  ss_issuedAtMillis :: int
  ss_auditEvents :: "AuditEvent list"

datatype ScimUserLifecycleOperation = CreateUser | UpdateUser | DisableUser | ReprovisionUser

datatype ScimUserAction = UserCreated | UserUpdated | UserDisabled | UserReprovisioned | UserReplayed

record ScimUserLifecycleRequest =
  su_operation :: ScimUserLifecycleOperation
  su_tenantId :: TenantId
  su_issuerBindingId :: string
  su_issuer :: string
  su_externalSubjectId :: string
  su_userId :: string
  su_email :: string
  su_displayName :: string
  su_cursor :: string
  su_cursorSequence :: int
  su_occurredAtMillis :: int
  su_users :: "UserRecord list"
  su_subjectBindings :: "ExternalSubjectRecord list"
  su_checkpoints :: "SyncCheckpointRecord list"

record ScimUserLifecycleResponse =
  ur_operation :: ScimUserLifecycleOperation
  ur_action :: ScimUserAction
  ur_staleRejected :: bool
  ur_idempotentReplay :: bool
  ur_user :: UserRecord
  ur_users :: "UserRecord list"
  ur_subjectBindings :: "ExternalSubjectRecord list"
  ur_checkpoints :: "SyncCheckpointRecord list"
  ur_auditEvents :: "AuditEvent list"

record ScimGroupReconciliationRequest =
  sg_tenantId :: TenantId
  sg_issuerBindingId :: string
  sg_issuer :: string
  sg_userId :: string
  sg_externalGroupIds :: "string list"
  sg_groupBindings :: "ScimGroupBinding list"
  sg_userRoleAssignments :: "UserRoleAssignmentRecord list"
  sg_projectMemberships :: "ProjectMembershipRecord list"
  sg_checkpoints :: "SyncCheckpointRecord list"
  sg_cursor :: string
  sg_cursorSequence :: int
  sg_occurredAtMillis :: int

datatype ScimGroupAction = GroupsReconciled | GroupsReplayed

record ScimGroupReconciliationResponse =
  gr_action :: ScimGroupAction
  gr_staleRejected :: bool
  gr_idempotentReplay :: bool
  gr_userRoleAssignments :: "UserRoleAssignmentRecord list"
  gr_projectMemberships :: "ProjectMembershipRecord list"
  gr_checkpoints :: "SyncCheckpointRecord list"
  gr_auditEvents :: "AuditEvent list"

record IdentityAuthorizationRequest =
  aq_tenantId :: TenantId
  aq_userId :: string
  aq_action :: AuthorizationAction
  aq_resourceTenantId :: TenantId
  aq_resourceProjectId :: "string option"
  aq_userRoleAssignments :: "UserRoleAssignmentRecord list"
  aq_projectMemberships :: "ProjectMembershipRecord list"

record IdentityAuthorizationResponse =
  as_tenantId :: TenantId
  as_userId :: string
  as_action :: AuthorizationAction
  as_role :: AuthorizationRole
  as_allowed :: bool
  as_reasonCode :: AuthorizationDecisionReasonCode
  as_crossTenantDenied :: bool
  as_evaluatedAtMillis :: int

type_synonym 'a identity_exit = "(IdentityError, 'a) exit"

text \<open>A failure of an injected service in the error type of this one.\<close>

fun mapError :: "('e \<Rightarrow> 'f) \<Rightarrow> ('e, 'a) exit \<Rightarrow> ('f, 'a) exit" where
  "mapError f (Succeed x) = Succeed x"
| "mapError f (Fail e) = Fail (f e)"
| "mapError f (Die e) = Die (f e)"

fun operationName :: "ScimUserLifecycleOperation \<Rightarrow> string" where
  "operationName CreateUser = ''create''"
| "operationName UpdateUser = ''update''"
| "operationName DisableUser = ''disable''"
| "operationName ReprovisionUser = ''reprovision''"

fun userActionName :: "ScimUserAction \<Rightarrow> string" where
  "userActionName UserCreated = ''created''"
| "userActionName UserUpdated = ''updated''"
| "userActionName UserDisabled = ''disabled''"
| "userActionName UserReprovisioned = ''reprovisioned''"
| "userActionName UserReplayed = ''replayed''"

fun statusName :: "UserStatus \<Rightarrow> string" where
  "statusName Active = ''active''"
| "statusName Disabled = ''disabled''"
| "statusName Pending = ''pending''"

fun routeSourceName :: "TenantRouteResolutionSource \<Rightarrow> string" where
  "routeSourceName Tenant_id_claim = ''tenant_id_claim''"
| "routeSourceName Tenant_slug_claim = ''tenant_slug_claim''"
| "routeSourceName Issuer_binding = ''issuer_binding''"

section \<open>Opening a session\<close>

definition effectiveSessionTtl :: "jsnum option \<Rightarrow> jsnum" where
  "effectiveSessionTtl configured =
     jmax (jint 1) (case configured of None \<Rightarrow> jint defaultSessionTtlMillis | Some t \<Rightarrow> t)"

text \<open>The thunk that runs once the router has answered: the issuer binding, the subject and
  the user of the routed tenant, each of which must exist.\<close>

definition openSession ::
  "host \<Rightarrow> SessionRequest \<Rightarrow> string \<Rightarrow> string \<Rightarrow> int \<Rightarrow> jsnum \<Rightarrow> TenantRoutingResponse \<Rightarrow> SessionResponse identity" where
  "openSession h request issuerName externalSubjectId issuedAtMillis ttlMillis resolution =
    (let c = ''EnterpriseIdentitySessionRequest'' in
     case routedTenantId resolution of
       None \<Rightarrow> throwIdentity c ''Tenant routing did not resolve a tenantId.''
         ''resolveSessionBoundary requires tenant routing to produce a tenantId.''
     | Some resolvedTenantId \<Rightarrow>
     (case TenantRoutingResponse.routeSource resolution of
       None \<Rightarrow> throwIdentity c ''Tenant routing did not produce a resolution source.''
         ''resolveSessionBoundary requires a deterministic route source.''
     | Some source \<Rightarrow>
     (case find (\<lambda>b. bi_tenantId b = resolvedTenantId \<and> toLowerCase (trim (bi_issuer b)) = issuerName)
             (sr_issuerBindings request) of
       None \<Rightarrow> throwIdentity c ''Issuer is not bound to the resolved tenant for session mapping.''
         (''issuer='' @ issuerName @ '' tenantId='' @ resolvedTenantId)
     | Some issuerBinding \<Rightarrow>
     (case find (\<lambda>b. sb_tenantId b = resolvedTenantId
               \<and> sb_issuerBindingId b = bi_issuerBindingId issuerBinding
               \<and> sb_externalSubjectId b = externalSubjectId) (sr_subjectBindings request) of
       None \<Rightarrow> throwIdentity c ''Authenticated subject is not provisioned for the resolved tenant.''
         (''issuerBindingId='' @ bi_issuerBindingId issuerBinding @ '' externalSubjectId='' @ externalSubjectId)
     | Some subjectBinding \<Rightarrow>
     (case find (\<lambda>u. us_tenantId u = resolvedTenantId \<and> us_userId u = sb_userId subjectBinding)
             (sr_users request) of
       None \<Rightarrow> throwIdentity c ''Subject binding references a user that does not exist in tenant scope.''
         (''tenantId='' @ resolvedTenantId @ '' userId='' @ sb_userId subjectBinding)
     | Some user \<Rightarrow>
       if us_status user = Disabled
       then throwIdentity c ''Subject binding references a disabled user and cannot open a session.''
         (''tenantId='' @ resolvedTenantId @ '' userId='' @ us_userId user)
       else
        (let sessionId = toSessionId h resolvedTenantId (us_userId user)
               (bi_issuerBindingId issuerBinding) externalSubjectId issuedAtMillis;
             principalId = toPrincipalId resolvedTenantId (us_userId user)
         in Inr \<lparr>ss_sessionId = sessionId, ss_principalId = principalId,
              ss_tenantId = resolvedTenantId, ss_userId = us_userId user, ss_routeSource = source,
              ss_expiresAtMillis = jadd (jint issuedAtMillis) ttlMillis,
              ss_issuedAtMillis = issuedAtMillis,
              ss_auditEvents = [createEnterpriseIdentityAuditEvent SsoLogin resolvedTenantId
                (Some (us_userId user)) issuedAtMillis
                [(''issuer'', DetailString issuerName),
                 (''issuerBindingId'', DetailString (bi_issuerBindingId issuerBinding)),
                 (''routeSource'', DetailString (routeSourceName source)),
                 (''sessionId'', DetailString sessionId),
                 (''principalId'', DetailString principalId)]]\<rparr>))))))"

definition sessionRoutingRequest :: "SessionRequest \<Rightarrow> string \<Rightarrow> TenantRoutingRequest" where
  "sessionRoutingRequest request issuerName =
     \<lparr>tenantIdClaim = sr_tenantIdClaim request, tenantSlugClaim = sr_tenantSlugClaim request,
      issuer = Some issuerName, tenants = sr_tenants request,
      issuerBindings = map (\<lambda>b. \<lparr>ib_issuer = bi_issuer b, ib_tenantId = bi_tenantId b\<rparr>)
        (sr_issuerBindings request)\<rparr>"

definition resolveSessionBoundary ::
  "host \<Rightarrow> (TenantRoutingRequest \<Rightarrow> (TenantRoutingDeniedError, TenantRoutingResponse) exit)
    \<Rightarrow> jsnum option \<Rightarrow> SessionRequest \<Rightarrow> SessionResponse identity_exit" where
  "resolveSessionBoundary h route configuredTtl request = effect_suspend
    (let c = ''EnterpriseIdentitySessionRequest'' in
     chain (map_sum id toLowerCase (normalizeTrimmedNonEmpty (sr_issuer request) c ''issuer'')) (\<lambda>issuerName.
     chain (normalizeTrimmedNonEmpty (sr_externalSubjectId request) c ''externalSubjectId'') (\<lambda>externalSubjectId.
     chain (normalizeMillisId (sr_occurredAtMillis request) c ''occurredAtMillis'') (\<lambda>issuedAtMillis.
     chain (case sr_sessionTtlMillis request of None \<Rightarrow> Inr (effectiveSessionTtl configuredTtl)
            | Some t \<Rightarrow> map_sum id (\<lambda>n. jmax (jint 1) (jint n)) (normalizeMillisId t c ''sessionTtlMillis'')) (\<lambda>ttlMillis.
      Inr (effect_flatMap (mapError RoutingError (route (sessionRoutingRequest request issuerName)))
        (\<lambda>resolution. effect_sync
          (openSession h request issuerName externalSubjectId issuedAtMillis ttlMillis resolution))))))))"

section \<open>SCIM user events\<close>

text \<open>The checkpoint of the channel decides: a lower sequence is stale, the same sequence is a
  replay if the cursor hash agrees and a conflict otherwise, a higher one is new.\<close>

definition userCheckpointOf :: "TenantId \<Rightarrow> string \<Rightarrow> SyncCheckpointRecord \<Rightarrow> bool" where
  "userCheckpointOf t issuerBindingId checkpoint =
     (cp_tenantId checkpoint = t \<and> cp_issuerBindingId checkpoint = issuerBindingId
      \<and> cp_syncChannel checkpoint = Scim_users)"

definition userSyncGate ::
  "int \<Rightarrow> string \<Rightarrow> SyncCheckpointRecord option \<Rightarrow> bool identity" where
  "userSyncGate cursorSequence checkpointCursorHash existingCheckpoint =
    (let c = ''ScimUserLifecycleRequest'' in
     case existingCheckpoint of None \<Rightarrow> Inr False
     | Some existing \<Rightarrow>
       if cursorSequence < cp_cursorSequence existing
       then throwIdentity c ''SCIM user lifecycle event rejected as stale based on cursorSequence.''
              (''incoming='' @ intString cursorSequence @ '' existing='' @ intString (cp_cursorSequence existing))
       else if cursorSequence = cp_cursorSequence existing
       then (if checkpointCursorHash \<noteq> cp_cursorHashSha256 existing
             then throwIdentity c ''SCIM user lifecycle event rejected due to conflicting replay cursor hash.''
                    (''incomingHash='' @ checkpointCursorHash @ '' existingHash='' @ cp_cursorHashSha256 existing)
             else Inr True)
       else Inr False)"

definition sameUser :: "TenantId \<Rightarrow> string \<Rightarrow> UserRecord \<Rightarrow> bool" where
  "sameUser t u candidate = (us_tenantId candidate = t \<and> us_userId candidate = u)"

definition sameSubject :: "TenantId \<Rightarrow> string \<Rightarrow> string \<Rightarrow> ExternalSubjectRecord \<Rightarrow> bool" where
  "sameSubject t issuerBindingId externalSubjectId candidate =
     (sb_tenantId candidate = t \<and> sb_issuerBindingId candidate = issuerBindingId
      \<and> sb_externalSubjectId candidate = externalSubjectId)"

fun statusAfter :: "ScimUserLifecycleOperation \<Rightarrow> UserStatus" where
  "statusAfter DisableUser = Disabled"
| "statusAfter operation = Active"

definition scimUserReplay ::
  "host \<Rightarrow> ScimUserLifecycleRequest \<Rightarrow> string \<Rightarrow> string \<Rightarrow> int \<Rightarrow> int \<Rightarrow> ScimUserLifecycleResponse" where
  "scimUserReplay h request email displayName cursorSequence occurredAtMillis =
    (let replayUser = (case find (sameUser (su_tenantId request) (su_userId request)) (su_users request) of
           Some u \<Rightarrow> u
         | None \<Rightarrow> \<lparr>us_tenantId = su_tenantId request, us_userId = su_userId request, us_email = email,
             us_displayName = displayName, us_status = statusAfter (su_operation request),
             us_createdAtMillis = occurredAtMillis, us_updatedAtMillis = occurredAtMillis\<rparr>)
     in \<lparr>ur_operation = su_operation request, ur_action = UserReplayed, ur_staleRejected = False,
         ur_idempotentReplay = True, ur_user = replayUser,
         ur_users = toSortedUsers (localeCompare h) (su_users request),
         ur_subjectBindings = toSortedSubjectBindings (localeCompare h) (su_subjectBindings request),
         ur_checkpoints = toSortedCheckpoints (localeCompare h) (su_checkpoints request),
         ur_auditEvents = [createEnterpriseIdentityAuditEvent UserSync (su_tenantId request)
           (Some (su_userId request)) occurredAtMillis
           [(''channel'', DetailString ''scim_users''),
            (''operation'', DetailString (operationName (su_operation request))),
            (''action'', DetailString ''replayed''), (''cursorSequence'', DetailNumber cursorSequence),
            (''idempotentReplay'', DetailBool True)]]\<rparr>)"

definition scimUserAction :: "ScimUserLifecycleOperation \<Rightarrow> UserRecord option \<Rightarrow> ScimUserAction" where
  "scimUserAction operation currentUser =
     (if operation = DisableUser then UserDisabled
      else if operation = ReprovisionUser then UserReprovisioned
      else if currentUser = None then UserCreated else UserUpdated)"

definition scimUserUpsert ::
  "host \<Rightarrow> ScimUserLifecycleRequest \<Rightarrow> string \<Rightarrow> string \<Rightarrow> string \<Rightarrow> string \<Rightarrow> int \<Rightarrow> int \<Rightarrow> string \<Rightarrow> string
    \<Rightarrow> ScimUserLifecycleResponse" where
  "scimUserUpsert h request issuerBindingId issuerName externalSubjectId cursor cursorSequence
     occurredAtMillis email displayName =
    (let t = su_tenantId request; u = su_userId request;
         currentUserIndex = findIndex (sameUser t u) (su_users request);
         currentUser = map_option (\<lambda>i. su_users request ! i) currentUserIndex;
         nextUser = \<lparr>us_tenantId = t, us_userId = u, us_email = email, us_displayName = displayName,
           us_status = statusAfter (su_operation request),
           us_createdAtMillis = (case currentUser of None \<Rightarrow> occurredAtMillis | Some x \<Rightarrow> us_createdAtMillis x),
           us_updatedAtMillis = occurredAtMillis\<rparr>;
         subjectIndex = findIndex (sameSubject t issuerBindingId externalSubjectId) (su_subjectBindings request);
         subjectRecord = \<lparr>sb_tenantId = t, sb_issuerBindingId = issuerBindingId,
           sb_externalSubjectId = externalSubjectId, sb_userId = u,
           sb_subjectHashSha256 = sha256 h (join newline [t, issuerName, externalSubjectId]),
           sb_subjectSource = FromScim,
           sb_firstSeenAtMillis = (case subjectIndex of None \<Rightarrow> occurredAtMillis
             | Some i \<Rightarrow> sb_firstSeenAtMillis (su_subjectBindings request ! i)),
           sb_lastSeenAtMillis = occurredAtMillis\<rparr>;
         checkpointIndex = findIndex (userCheckpointOf t issuerBindingId) (su_checkpoints request);
         checkpointRecord = \<lparr>cp_tenantId = t, cp_issuerBindingId = issuerBindingId,
           cp_syncChannel = Scim_users, cp_checkpointCursor = cursor,
           cp_cursorHashSha256 = toCursorHash h cursor, cp_cursorSequence = cursorSequence,
           cp_checkpointedAtMillis = occurredAtMillis, cp_updatedAtMillis = occurredAtMillis\<rparr>;
         action = scimUserAction (su_operation request) currentUser
     in \<lparr>ur_operation = su_operation request, ur_action = action, ur_staleRejected = False,
         ur_idempotentReplay = False, ur_user = nextUser,
         ur_users = toSortedUsers (localeCompare h) (replaceOrPush currentUserIndex nextUser (su_users request)),
         ur_subjectBindings = toSortedSubjectBindings (localeCompare h)
           (replaceOrPush subjectIndex subjectRecord (su_subjectBindings request)),
         ur_checkpoints = toSortedCheckpoints (localeCompare h)
           (replaceOrPush checkpointIndex checkpointRecord (su_checkpoints request)),
         ur_auditEvents =
          [createEnterpriseIdentityAuditEvent UserProvision t (Some u) occurredAtMillis
             [(''operation'', DetailString (operationName (su_operation request))),
              (''action'', DetailString (userActionName action)),
              (''status'', DetailString (statusName (us_status nextUser)))],
           createEnterpriseIdentityAuditEvent UserSync t (Some u) occurredAtMillis
             [(''channel'', DetailString ''scim_users''),
              (''operation'', DetailString (operationName (su_operation request))),
              (''action'', DetailString (userActionName action)),
              (''cursorSequence'', DetailNumber cursorSequence),
              (''idempotentReplay'', DetailBool False)]]\<rparr>)"

definition scimUserBody :: "host \<Rightarrow> ScimUserLifecycleRequest \<Rightarrow> ScimUserLifecycleResponse identity" where
  "scimUserBody h request =
    (let c = ''ScimUserLifecycleRequest'' in
     chain (normalizeTrimmedNonEmpty (su_issuerBindingId request) c ''issuerBindingId'') (\<lambda>issuerBindingId.
     chain (map_sum id toLowerCase (normalizeTrimmedNonEmpty (su_issuer request) c ''issuer'')) (\<lambda>issuerName.
     chain (normalizeTrimmedNonEmpty (su_externalSubjectId request) c ''externalSubjectId'') (\<lambda>externalSubjectId.
     chain (normalizeTrimmedNonEmpty (su_cursor request) c ''cursor'') (\<lambda>cursor.
     chain (normalizeSequence (su_cursorSequence request) c ''cursorSequence'') (\<lambda>cursorSequence.
     chain (normalizeMillisId (su_occurredAtMillis request) c ''occurredAtMillis'') (\<lambda>occurredAtMillis.
     chain (normalizeEmail (su_email request) c ''email'') (\<lambda>email.
     chain (normalizeTrimmedNonEmpty (su_displayName request) c ''displayName'') (\<lambda>displayName.
     chain (userSyncGate cursorSequence (toCursorHash h cursor)
              (find (userCheckpointOf (su_tenantId request) issuerBindingId) (su_checkpoints request))) (\<lambda>isReplay.
      if isReplay then Inr (scimUserReplay h request email displayName cursorSequence occurredAtMillis)
      else Inr (scimUserUpsert h request issuerBindingId issuerName externalSubjectId cursor cursorSequence
             occurredAtMillis email displayName)))))))))))"

definition applyScimUserLifecycle ::
  "host \<Rightarrow> ScimUserLifecycleRequest \<Rightarrow> ScimUserLifecycleResponse identity_exit" where
  "applyScimUserLifecycle h request = effect_sync (scimUserBody h request)"

section \<open>SCIM group reconciliation\<close>

definition groupCheckpointOf :: "TenantId \<Rightarrow> string \<Rightarrow> SyncCheckpointRecord \<Rightarrow> bool" where
  "groupCheckpointOf t issuerBindingId checkpoint =
     (cp_tenantId checkpoint = t \<and> cp_issuerBindingId checkpoint = issuerBindingId
      \<and> cp_syncChannel checkpoint = Scim_groups)"

definition groupSyncGate ::
  "int \<Rightarrow> string \<Rightarrow> SyncCheckpointRecord option \<Rightarrow> bool identity" where
  "groupSyncGate cursorSequence checkpointCursorHash existingCheckpoint =
    (let c = ''ScimGroupReconciliationRequest'' in
     case existingCheckpoint of None \<Rightarrow> Inr False
     | Some existing \<Rightarrow>
       if cursorSequence < cp_cursorSequence existing
       then throwIdentity c ''SCIM group reconciliation event rejected as stale based on cursorSequence.''
              (''incoming='' @ intString cursorSequence @ '' existing='' @ intString (cp_cursorSequence existing))
       else if cursorSequence = cp_cursorSequence existing
       then (if checkpointCursorHash \<noteq> cp_cursorHashSha256 existing
             then throwIdentity c ''SCIM group reconciliation event rejected due to conflicting replay cursor hash.''
                    (''incomingHash='' @ checkpointCursorHash @ '' existingHash='' @ cp_cursorHashSha256 existing)
             else Inr True)
       else Inr False)"

definition groupSyncEvents ::
  "ScimGroupReconciliationRequest \<Rightarrow> int \<Rightarrow> (string \<times> AuditDetailValue) list
    \<Rightarrow> (string \<times> AuditDetailValue) list \<Rightarrow> AuditEvent list" where
  "groupSyncEvents request occurredAtMillis groupDetails userDetails =
     [createEnterpriseIdentityAuditEvent GroupSync (sg_tenantId request) (Some (sg_userId request))
        occurredAtMillis groupDetails,
      createEnterpriseIdentityAuditEvent UserSync (sg_tenantId request) (Some (sg_userId request))
        occurredAtMillis userDetails]"

definition scimGroupReplay ::
  "host \<Rightarrow> ScimGroupReconciliationRequest \<Rightarrow> int \<Rightarrow> int \<Rightarrow> ScimGroupReconciliationResponse" where
  "scimGroupReplay h request cursorSequence occurredAtMillis =
    (let replayDetails = [(''channel'', DetailString ''scim_groups''), (''action'', DetailString ''replayed''),
           (''cursorSequence'', DetailNumber cursorSequence), (''idempotentReplay'', DetailBool True)]
     in \<lparr>gr_action = GroupsReplayed, gr_staleRejected = False, gr_idempotentReplay = True,
         gr_userRoleAssignments = toSortedUserRoleAssignments (localeCompare h) (sg_userRoleAssignments request),
         gr_projectMemberships = toSortedProjectMemberships (localeCompare h) (sg_projectMemberships request),
         gr_checkpoints = toSortedCheckpoints (localeCompare h) (sg_checkpoints request),
         gr_auditEvents = groupSyncEvents request occurredAtMillis replayDetails replayDetails\<rparr>)"

text \<open>The state of the loop over the matching bindings: the desired roles and the projects
  without a role (JavaScript Sets, kept in insertion order), and the role candidates of each
  project (a Map from projects to Sets, in insertion order).\<close>

record DesiredState =
  ds_roleIds :: "string list"
  ds_projectRoles :: "(string \<times> string list) list"
  ds_projectsWithoutRole :: "string list"

fun addProjectRole :: "string \<Rightarrow> string \<Rightarrow> (string \<times> string list) list \<Rightarrow> (string \<times> string list) list" where
  "addProjectRole p r [] = [(p, [r])]"
| "addProjectRole p r ((q, rs) # m) = (if q = p then (q, setAdd r rs) # m else (q, rs) # addProjectRole p r m)"

definition collectBinding :: "ScimGroupBinding \<Rightarrow> DesiredState \<Rightarrow> DesiredState" where
  "collectBinding binding s =
    (let s1 = (case gb_roleId binding of None \<Rightarrow> s | Some r \<Rightarrow> s\<lparr>ds_roleIds := setAdd r (ds_roleIds s)\<rparr>) in
     case gb_projectId binding of None \<Rightarrow> s1
     | Some p \<Rightarrow>
        (case gb_roleId binding of
           None \<Rightarrow> s1\<lparr>ds_projectsWithoutRole := setAdd p (ds_projectsWithoutRole s1)\<rparr>
         | Some r \<Rightarrow> s1\<lparr>ds_projectRoles := addProjectRole p r (ds_projectRoles s1)\<rparr>))"

definition matchingBindingsOf :: "ScimGroupReconciliationRequest \<Rightarrow> string \<Rightarrow> string list \<Rightarrow> ScimGroupBinding list" where
  "matchingBindingsOf request issuerBindingId groupIds =
     filter (\<lambda>b. gb_tenantId b = sg_tenantId request \<and> gb_issuerBindingId b = issuerBindingId
        \<and> gb_externalGroupId b \<in> set groupIds) (sg_groupBindings request)"

definition desiredAssignments ::
  "collator \<Rightarrow> TenantId \<Rightarrow> string \<Rightarrow> int \<Rightarrow> string list \<Rightarrow> UserRoleAssignmentRecord list" where
  "desiredAssignments lc t u now roleIds =
     map (\<lambda>r. \<lparr>ra_tenantId = t, ra_userId = u, ra_roleId = r, ra_assignedAtMillis = now,
            ra_assignedByUserId = None\<rparr>) (arraySort lc roleIds)"

definition resolvedProjectRole :: "collator \<Rightarrow> string list option \<Rightarrow> string option" where
  "resolvedProjectRole lc roleCandidates =
     (case roleCandidates of None \<Rightarrow> None | Some rs \<Rightarrow> firstOf (arraySort lc rs))"

definition desiredMemberships ::
  "collator \<Rightarrow> TenantId \<Rightarrow> string \<Rightarrow> int \<Rightarrow> DesiredState \<Rightarrow> ProjectMembershipRecord list" where
  "desiredMemberships lc t u now s =
     map (\<lambda>p. \<lparr>pm_tenantId = t, pm_projectId = p, pm_userId = u,
            pm_roleId = resolvedProjectRole lc (map_of (ds_projectRoles s) p), pm_assignedAtMillis = now\<rparr>)
       (arraySort lc (setOrder (map fst (ds_projectRoles s) @ ds_projectsWithoutRole s)))"

definition scimGroupReconcile ::
  "host \<Rightarrow> ScimGroupReconciliationRequest \<Rightarrow> string \<Rightarrow> string \<Rightarrow> int \<Rightarrow> int \<Rightarrow> ScimGroupReconciliationResponse" where
  "scimGroupReconcile h request issuerBindingId cursor cursorSequence occurredAtMillis =
    (let lc = localeCompare h; t = sg_tenantId request; u = sg_userId request;
         groupIds = arraySort lc (setOrder (sg_externalGroupIds request));
         desired = fold collectBinding (matchingBindingsOf request issuerBindingId groupIds)
           \<lparr>ds_roleIds = [], ds_projectRoles = [], ds_projectsWithoutRole = []\<rparr>;
         assignments = desiredAssignments lc t u occurredAtMillis (ds_roleIds desired);
         memberships = desiredMemberships lc t u occurredAtMillis desired;
         retainedAssignments = filter (\<lambda>a. \<not> (ra_tenantId a = t \<and> ra_userId a = u)) (sg_userRoleAssignments request);
         retainedMemberships = filter (\<lambda>m. \<not> (pm_tenantId m = t \<and> pm_userId m = u)) (sg_projectMemberships request);
         checkpointRecord = \<lparr>cp_tenantId = t, cp_issuerBindingId = issuerBindingId,
           cp_syncChannel = Scim_groups, cp_checkpointCursor = cursor,
           cp_cursorHashSha256 = toCursorHash h cursor, cp_cursorSequence = cursorSequence,
           cp_checkpointedAtMillis = occurredAtMillis, cp_updatedAtMillis = occurredAtMillis\<rparr>;
         checkpointIndex = findIndex (groupCheckpointOf t issuerBindingId) (sg_checkpoints request)
     in \<lparr>gr_action = GroupsReconciled, gr_staleRejected = False, gr_idempotentReplay = False,
         gr_userRoleAssignments = toSortedUserRoleAssignments lc (retainedAssignments @ assignments),
         gr_projectMemberships = toSortedProjectMemberships lc (retainedMemberships @ memberships),
         gr_checkpoints = toSortedCheckpoints lc
           (replaceOrPush checkpointIndex checkpointRecord (sg_checkpoints request)),
         gr_auditEvents = groupSyncEvents request occurredAtMillis
           [(''channel'', DetailString ''scim_groups''), (''action'', DetailString ''reconciled''),
            (''cursorSequence'', DetailNumber cursorSequence),
            (''groupCount'', DetailNumber (int (length groupIds)))]
           [(''channel'', DetailString ''scim_groups''), (''action'', DetailString ''reconciled''),
            (''cursorSequence'', DetailNumber cursorSequence),
            (''roleAssignmentCount'', DetailNumber (int (length assignments))),
            (''projectMembershipCount'', DetailNumber (int (length memberships)))]\<rparr>)"

definition scimGroupBody ::
  "host \<Rightarrow> ScimGroupReconciliationRequest \<Rightarrow> ScimGroupReconciliationResponse identity" where
  "scimGroupBody h request =
    (let c = ''ScimGroupReconciliationRequest'' in
     chain (normalizeTrimmedNonEmpty (sg_issuerBindingId request) c ''issuerBindingId'') (\<lambda>issuerBindingId.
     chain (normalizeTrimmedNonEmpty (sg_issuer request) c ''issuer'') (\<lambda>_.
     chain (normalizeTrimmedNonEmpty (sg_cursor request) c ''cursor'') (\<lambda>cursor.
     chain (normalizeSequence (sg_cursorSequence request) c ''cursorSequence'') (\<lambda>cursorSequence.
     chain (normalizeMillisId (sg_occurredAtMillis request) c ''occurredAtMillis'') (\<lambda>occurredAtMillis.
     chain (groupSyncGate cursorSequence (toCursorHash h cursor)
              (find (groupCheckpointOf (sg_tenantId request) issuerBindingId) (sg_checkpoints request))) (\<lambda>isReplay.
      if isReplay then Inr (scimGroupReplay h request cursorSequence occurredAtMillis)
      else Inr (scimGroupReconcile h request issuerBindingId cursor cursorSequence occurredAtMillis))))))))"

definition applyScimGroupReconciliation ::
  "host \<Rightarrow> ScimGroupReconciliationRequest \<Rightarrow> ScimGroupReconciliationResponse identity_exit" where
  "applyScimGroupReconciliation h request = effect_sync (scimGroupBody h request)"

section \<open>Authorization from stored roles\<close>

text \<open>\<open>Effect.all\<close>: the results in order, or the first failure.\<close>

fun effect_all :: "('e, 'a) exit list \<Rightarrow> ('e, 'a list) exit" where
  "effect_all [] = Succeed []"
| "effect_all (m # ms) = effect_flatMap m (\<lambda>x. effect_flatMap (effect_all ms) (\<lambda>xs. Succeed (x # xs)))"

definition matchingRoleIds :: "IdentityAuthorizationRequest \<Rightarrow> string option \<Rightarrow> string list" where
  "matchingRoleIds request resourceProjectId =
     map ra_roleId (filter (\<lambda>a. ra_tenantId a = aq_tenantId request \<and> ra_userId a = aq_userId request)
        (aq_userRoleAssignments request))
     @ List.map_filter pm_roleId (filter (\<lambda>m. pm_tenantId m = aq_tenantId request
          \<and> pm_userId m = aq_userId request
          \<and> (resourceProjectId = None \<or> resourceProjectId = Some (pm_projectId m)))
        (aq_projectMemberships request))"

definition selectDecision ::
  "IdentityAuthorizationRequest \<Rightarrow> AuthorizationAction \<Rightarrow> AuthorizationResponse list
    \<Rightarrow> IdentityAuthorizationResponse identity_exit" where
  "selectDecision request requested decisions =
     (case (case find allowed decisions of Some d \<Rightarrow> Some d | None \<Rightarrow> firstOf decisions) of
        None \<Rightarrow> Fail (ContractError (mkContractValidationError ''EnterpriseIdentityAuthorizationRequest''
          ''No authorization decision candidates available for enterprise identity authorization evaluation.''
          (''tenantId='' @ aq_tenantId request @ '' userId='' @ aq_userId request)))
      | Some selected \<Rightarrow> Succeed \<lparr>as_tenantId = aq_tenantId request, as_userId = aq_userId request,
          as_action = requested, as_role = role selected, as_allowed = allowed selected,
          as_reasonCode = reasonCode selected, as_crossTenantDenied = False,
          as_evaluatedAtMillis = evaluatedAtMillis selected\<rparr>)"

definition evaluateAuthorization ::
  "host \<Rightarrow> (AuthorizationRequest \<Rightarrow> (AuthorizationDeniedError, AuthorizationResponse) exit)
    \<Rightarrow> IdentityAuthorizationRequest \<Rightarrow> IdentityAuthorizationResponse identity_exit" where
  "evaluateAuthorization h eval request = effect_suspend
    (let c = ''EnterpriseIdentityAuthorizationRequest'' in
     chain (case aq_resourceProjectId request of None \<Rightarrow> Inr None
            | Some p \<Rightarrow> map_sum id Some (normalizeTrimmedNonEmpty p c ''resourceProjectId'')) (\<lambda>resourceProjectId.
     chain (map_sum id parseAction (normalizeTrimmedNonEmpty (actionName (aq_action request)) c ''action'')) (\<lambda>requested.
      if aq_resourceTenantId request \<noteq> aq_tenantId request
      then Inr (Succeed \<lparr>as_tenantId = aq_tenantId request, as_userId = aq_userId request,
             as_action = requested, as_role = Dev, as_allowed = False, as_reasonCode = RBAC_DENY_ROLE_ACTION,
             as_crossTenantDenied = True, as_evaluatedAtMillis = 0\<rparr>)
      else Inr (effect_flatMap
             (effect_all (map (\<lambda>r. mapError AuthorizationError (eval \<lparr>req_role = r, req_action = requested\<rparr>))
               (toSortedCandidateAuthorizationRoles (localeCompare h) (matchingRoleIds request resourceProjectId))))
             (selectDecision request requested)))))"

end
