(* ===== verification/Identity_Sync.thy ===== *)
theory Identity_Sync
  imports Identity_Service Idempotent_Calls
begin

text \<open>
  Directory synchronisation: the SCIM user and group events of a tenant's issuer bindings,
  delivered one after another to a store that keeps the lists the operations return. The
  locale \<open>sync_channel\<close> states the contract of such a channel (the checkpoint decides which
  events are new, replayed, stale or in conflict) and proves what follows for every history;
  it is interpreted on the deliveries of the modelled service.
\<close>

section \<open>The interface of a synchronisation channel\<close>

text \<open>A channel keeps one checkpoint, a sequence number and a hash, per key. \<open>view\<close> is what the
  store holds, up to the order of its rows.\<close>

locale sync_channel =
  fixes deliver1 :: "'q \<Rightarrow> 's \<Rightarrow> ('e, 'r) exit \<times> 's"
    and keyOf :: "'q \<Rightarrow> 'k"
    and seqOf :: "'q \<Rightarrow> int"
    and hashOf :: "'q \<Rightarrow> string"
    and checkpoint :: "'k \<Rightarrow> 's \<Rightarrow> (int \<times> string) option"
    and view :: "'s \<Rightarrow> 'v"
  assumes never_fails: "fst (deliver1 q s) \<noteq> Fail e"
    and rejected_keeps: "deliver1 q s = (Die e, s') \<Longrightarrow> s' = s"
    and gate: "deliver1 q s = (Succeed r, s') \<Longrightarrow> checkpoint (keyOf q) s = Some (n, h) \<Longrightarrow>
      n < seqOf q \<or> (n = seqOf q \<and> h = hashOf q)"
    and recorded: "deliver1 q s = (Succeed r, s') \<Longrightarrow> checkpoint (keyOf q) s' = Some (seqOf q, hashOf q)"
    and replay_keeps: "deliver1 q s = (Succeed r, s') \<Longrightarrow>
      checkpoint (keyOf q) s = Some (seqOf q, hashOf q) \<Longrightarrow> view s' = view s"
    and other_keys: "k \<noteq> keyOf q \<Longrightarrow> checkpoint k (snd (deliver1 q s)) = checkpoint k s"
begin

lemma delivery_cases:
  obtains r s' where "deliver1 q s = (Succeed r, s')" "checkpoint (keyOf q) s' = Some (seqOf q, hashOf q)"
  | e where "deliver1 q s = (Die e, s)"
proof (cases "deliver1 q s")
  case (Pair x s')
  show thesis
  proof (cases x)
    case (Succeed r)
    with Pair have "deliver1 q s = (Succeed r, s')" by simp
    then show thesis using recorded that(1) by blast
  next
    case (Fail e)
    then show thesis using never_fails [of q s e] Pair by simp
  next
    case (Die e)
    with Pair have "deliver1 q s = (Die e, s')" by simp
    then show thesis using rejected_keeps that(2) by blast
  qed
qed

text \<open>One delivery never moves a checkpoint back, and never swaps the hash of a sequence.\<close>

lemma delivery_advances:
  assumes "checkpoint k s = Some (n, h)"
  shows "\<exists>n' h'. checkpoint k (snd (deliver1 q s)) = Some (n', h') \<and> (n < n' \<or> (n = n' \<and> h = h'))"
proof (cases "k = keyOf q")
  case True
  show ?thesis
  proof (cases rule: delivery_cases [of q s])
    case (1 r s')
    then show ?thesis using gate [OF 1(1), of n h] True assms by auto
  qed (use assms in simp)
next
  case False
  then show ?thesis using assms by (simp add: other_keys)
qed

lemma history_advances:
  "checkpoint k s = Some (n, h) \<Longrightarrow>
     \<exists>n' h'. checkpoint k (runAll deliver1 qs s) = Some (n', h') \<and> (n < n' \<or> (n = n' \<and> h = h'))"
proof (induction qs arbitrary: s n h)
  case Nil
  then show ?case by simp
next
  case (Cons q qs)
  obtain n1 h1 where mid: "checkpoint k (snd (deliver1 q s)) = Some (n1, h1)" "n < n1 \<or> (n = n1 \<and> h = h1)"
    using delivery_advances [OF Cons.prems] by blast
  obtain n' h' where "checkpoint k (runAll deliver1 qs (snd (deliver1 q s))) = Some (n', h')"
      "n1 < n' \<or> (n1 = n' \<and> h1 = h')"
    using Cons.IH [OF mid(1)] by blast
  with mid(2) show ?case by auto
qed

lemma stale_rejected:
  assumes "checkpoint (keyOf q) s = Some (n, h)" "seqOf q < n \<or> (seqOf q = n \<and> hashOf q \<noteq> h)"
  shows "\<exists>e. deliver1 q s = (Die e, s)"
  using gate [of q s _ _ n h] assms by (cases rule: delivery_cases [of q s]) fastforce+

text \<open>An accepted event that is delivered again, however late, changes nothing.\<close>

lemma redelivery_keeps:
  assumes "deliver1 q s = (Succeed r, s1)"
  shows "view (snd (deliver1 q (runAll deliver1 qs s1))) = view (runAll deliver1 qs s1)"
proof -
  let ?t = "runAll deliver1 qs s1"
  obtain n h where cp: "checkpoint (keyOf q) ?t = Some (n, h)" "seqOf q < n \<or> (seqOf q = n \<and> hashOf q = h)"
    using history_advances [OF recorded [OF assms]] by blast
  show ?thesis
  proof (cases rule: delivery_cases [of q ?t])
    case (1 r' s')
    with gate [OF 1(1) cp(1)] cp have "checkpoint (keyOf q) ?t = Some (seqOf q, hashOf q)" by auto
    then show ?thesis using replay_keeps [OF 1(1)] 1(1) by simp
  qed simp
qed

text \<open>An event older than an accepted one of its key is rejected for ever.\<close>

lemma superseded:
  assumes "deliver1 q s = (Succeed r, s1)" "keyOf q' = keyOf q" "seqOf q' < seqOf q"
  shows "\<exists>e. deliver1 q' (runAll deliver1 qs s1) = (Die e, runAll deliver1 qs s1)"
proof -
  obtain n h where cp: "checkpoint (keyOf q') (runAll deliver1 qs s1) = Some (n, h)" "seqOf q \<le> n"
    using history_advances [OF recorded [OF assms(1)], of qs] assms(2) by auto
  show ?thesis by (rule stale_rejected [OF cp(1)]) (use cp(2) assms(3) in simp)
qed

end

section \<open>The deliveries\<close>

record DirectoryStore =
  st_users :: "UserRecord list"
  st_subjects :: "ExternalSubjectRecord list"
  st_assignments :: "UserRoleAssignmentRecord list"
  st_memberships :: "ProjectMembershipRecord list"
  st_checkpoints :: "SyncCheckpointRecord list"

datatype DirectoryEvent = UserEvent ScimUserLifecycleRequest | GroupEvent ScimGroupReconciliationRequest

datatype DirectoryAnswer = UserAnswer ScimUserLifecycleResponse | GroupAnswer ScimGroupReconciliationResponse

definition withUserLists :: "DirectoryStore \<Rightarrow> ScimUserLifecycleRequest \<Rightarrow> ScimUserLifecycleRequest" where
  "withUserLists s q = q\<lparr>su_users := st_users s, su_subjectBindings := st_subjects s,
     su_checkpoints := st_checkpoints s\<rparr>"

definition withGroupLists :: "DirectoryStore \<Rightarrow> ScimGroupReconciliationRequest \<Rightarrow> ScimGroupReconciliationRequest" where
  "withGroupLists s q = q\<lparr>sg_userRoleAssignments := st_assignments s, sg_projectMemberships := st_memberships s,
     sg_checkpoints := st_checkpoints s\<rparr>"

text \<open>One delivery: the request is completed with the stored lists, and on success the lists of
  the response are stored.\<close>

fun deliver :: "host \<Rightarrow> DirectoryEvent \<Rightarrow> DirectoryStore \<Rightarrow> DirectoryAnswer identity_exit \<times> DirectoryStore" where
  "deliver h (UserEvent q) s =
     (case applyScimUserLifecycle h (withUserLists s q) of
        Succeed r \<Rightarrow> (Succeed (UserAnswer r), s\<lparr>st_users := ur_users r, st_subjects := ur_subjectBindings r,
          st_checkpoints := ur_checkpoints r\<rparr>)
      | Fail e \<Rightarrow> (Fail e, s) | Die e \<Rightarrow> (Die e, s))"
| "deliver h (GroupEvent q) s =
     (case applyScimGroupReconciliation h (withGroupLists s q) of
        Succeed r \<Rightarrow> (Succeed (GroupAnswer r), s\<lparr>st_assignments := gr_userRoleAssignments r,
          st_memberships := gr_projectMemberships r, st_checkpoints := gr_checkpoints r\<rparr>)
      | Fail e \<Rightarrow> (Fail e, s) | Die e \<Rightarrow> (Die e, s))"

fun eventKey :: "DirectoryEvent \<Rightarrow> TenantId \<times> string \<times> IdentitySyncChannel" where
  "eventKey (UserEvent q) = (su_tenantId q, trim (su_issuerBindingId q), Scim_users)"
| "eventKey (GroupEvent q) = (sg_tenantId q, trim (sg_issuerBindingId q), Scim_groups)"

fun eventSequence :: "DirectoryEvent \<Rightarrow> int" where
  "eventSequence (UserEvent q) = su_cursorSequence q"
| "eventSequence (GroupEvent q) = sg_cursorSequence q"

fun eventHash :: "host \<Rightarrow> DirectoryEvent \<Rightarrow> string" where
  "eventHash h (UserEvent q) = toCursorHash h (trim (su_cursor q))"
| "eventHash h (GroupEvent q) = toCursorHash h (trim (sg_cursor q))"

definition checkpointAt :: "TenantId \<times> string \<times> IdentitySyncChannel \<Rightarrow> SyncCheckpointRecord \<Rightarrow> bool" where
  "checkpointAt k c = ((cp_tenantId c, cp_issuerBindingId c, cp_syncChannel c) = k)"

definition storedCheckpoint ::
  "TenantId \<times> string \<times> IdentitySyncChannel \<Rightarrow> DirectoryStore \<Rightarrow> (int \<times> string) option" where
  "storedCheckpoint k s =
     map_option (\<lambda>c. (cp_cursorSequence c, cp_cursorHashSha256 c)) (find (checkpointAt k) (st_checkpoints s))"

definition storeView :: "host \<Rightarrow> DirectoryStore \<Rightarrow> DirectoryStore" where
  "storeView h s = \<lparr>st_users = toSortedUsers (localeCompare h) (st_users s),
     st_subjects = toSortedSubjectBindings (localeCompare h) (st_subjects s),
     st_assignments = toSortedUserRoleAssignments (localeCompare h) (st_assignments s),
     st_memberships = toSortedProjectMemberships (localeCompare h) (st_memberships s),
     st_checkpoints = toSortedCheckpoints (localeCompare h) (st_checkpoints s)\<rparr>"

section \<open>The checkpoint rows\<close>

lemma checkpointOf_at:
  "userCheckpointOf t b = checkpointAt (t, b, Scim_users)"
  "groupCheckpointOf t b = checkpointAt (t, b, Scim_groups)"
  by (auto simp: userCheckpointOf_def groupCheckpointOf_def checkpointAt_def)

lemma find_sorted_checkpoints [simp]:
  "find (checkpointAt k) (toSortedCheckpoints lc cs) = find (checkpointAt k) cs"
  unfolding toSortedCheckpoints_def
  by (rule find_sort_equiv) (auto simp: checkpointAt_def checkpointSortKey_def)

lemma find_sorted_users [simp]:
  "find (sameUser t u) (toSortedUsers lc us) = find (sameUser t u) us"
  unfolding toSortedUsers_def by (rule find_sort_equiv) (auto simp: sameUser_def userSortKey_def)

lemma find_sorted_subjects [simp]:
  "find (sameSubject t b x) (toSortedSubjectBindings lc ss) = find (sameSubject t b x) ss"
  unfolding toSortedSubjectBindings_def
  by (rule find_sort_equiv) (auto simp: sameSubject_def subjectSortKey_def)

text \<open>Writing the row of one key answers a search for that key and no other.\<close>

lemma find_written_checkpoint:
  assumes "checkpointAt k c"
  shows "find (checkpointAt k') (replaceOrPush (findIndex (checkpointAt k) cs) c cs) =
    (if k' = k then Some c else find (checkpointAt k') cs)"
proof (cases "k' = k")
  case True
  then show ?thesis using find_replaceOrPush [of "checkpointAt k" c cs] assms by simp
next
  case False
  then show ?thesis
    using find_replaceOrPush_other [of "checkpointAt k'" c "checkpointAt k" cs] assms
    by (simp add: checkpointAt_def)
qed

lemmas sorters_idem =
  toSortedUsers_def toSortedSubjectBindings_def toSortedCheckpoints_def
  toSortedUserRoleAssignments_def toSortedProjectMemberships_def

section \<open>What an accepted event did\<close>

lemma normalizeTrimmedNonEmpty_Inr [simp]:
  "normalizeTrimmedNonEmpty v c f = Inr x \<longleftrightarrow> x = trim v \<and> trim v \<noteq> []"
  by (auto simp: normalizeTrimmedNonEmpty_def throwIdentity_def Let_def)

lemma normalizeSequence_Inr [simp]:
  "normalizeSequence v c f = Inr n \<longleftrightarrow> n = v \<and> isSafeInteger v \<and> 0 \<le> v"
  "normalizeMillisId v c f = Inr n \<longleftrightarrow> n = v \<and> isSafeInteger v \<and> 0 \<le> v"
  by (auto simp: normalizeMillisId_def normalizeSequence_def throwIdentity_def)

lemma map_sum_Inr [simp]: "map_sum id f r = Inr y \<longleftrightarrow> (\<exists>x. r = Inr x \<and> y = f x)"
  by (cases r) auto

lemma userSyncGate_Inr:
  "userSyncGate n hsh cp = Inr b \<longleftrightarrow>
     (case cp of None \<Rightarrow> \<not> b
      | Some x \<Rightarrow> (cp_cursorSequence x < n \<and> \<not> b)
          \<or> (cp_cursorSequence x = n \<and> cp_cursorHashSha256 x = hsh \<and> b))"
  by (auto simp: userSyncGate_def throwIdentity_def Let_def split: option.splits)

lemma groupSyncGate_Inr:
  "groupSyncGate n hsh cp = Inr b \<longleftrightarrow>
     (case cp of None \<Rightarrow> \<not> b
      | Some x \<Rightarrow> (cp_cursorSequence x < n \<and> \<not> b)
          \<or> (cp_cursorSequence x = n \<and> cp_cursorHashSha256 x = hsh \<and> b))"
  by (auto simp: groupSyncGate_def throwIdentity_def Let_def split: option.splits)

lemma scimUserBody_InrE:
  assumes "scimUserBody h q = Inr r"
  obtains email isReplay where
    "userSyncGate (su_cursorSequence q) (toCursorHash h (trim (su_cursor q)))
       (find (userCheckpointOf (su_tenantId q) (trim (su_issuerBindingId q))) (su_checkpoints q)) = Inr isReplay"
    "(if isReplay
       then Inr (scimUserReplay h q email (trim (su_displayName q)) (su_cursorSequence q) (su_occurredAtMillis q))
       else Inr (scimUserUpsert h q (trim (su_issuerBindingId q)) (toLowerCase (trim (su_issuer q)))
              (trim (su_externalSubjectId q)) (trim (su_cursor q)) (su_cursorSequence q)
              (su_occurredAtMillis q) email (trim (su_displayName q)))) = Inr r"
    "normalizeEmail (su_email q) ''ScimUserLifecycleRequest'' ''email'' = Inr email"
  using assms unfolding scimUserBody_def Let_def chain_eq_Inr by (auto split: if_splits)

lemma scimGroupBody_InrE:
  assumes "scimGroupBody h q = Inr r"
  obtains isReplay where
    "groupSyncGate (sg_cursorSequence q) (toCursorHash h (trim (sg_cursor q)))
       (find (groupCheckpointOf (sg_tenantId q) (trim (sg_issuerBindingId q))) (sg_checkpoints q)) = Inr isReplay"
    "(if isReplay
       then Inr (scimGroupReplay h q (sg_cursorSequence q) (sg_occurredAtMillis q))
       else Inr (scimGroupReconcile h q (trim (sg_issuerBindingId q)) (trim (sg_cursor q)) (sg_cursorSequence q)
              (sg_occurredAtMillis q))) = Inr r"
  using assms unfolding scimGroupBody_def Let_def chain_eq_Inr by (auto split: if_splits)

lemma withUserLists_simps [simp]:
  "su_operation (withUserLists s q) = su_operation q" "su_tenantId (withUserLists s q) = su_tenantId q"
  "su_issuerBindingId (withUserLists s q) = su_issuerBindingId q" "su_issuer (withUserLists s q) = su_issuer q"
  "su_externalSubjectId (withUserLists s q) = su_externalSubjectId q" "su_userId (withUserLists s q) = su_userId q"
  "su_email (withUserLists s q) = su_email q" "su_displayName (withUserLists s q) = su_displayName q"
  "su_cursor (withUserLists s q) = su_cursor q" "su_cursorSequence (withUserLists s q) = su_cursorSequence q"
  "su_occurredAtMillis (withUserLists s q) = su_occurredAtMillis q"
  "su_users (withUserLists s q) = st_users s" "su_subjectBindings (withUserLists s q) = st_subjects s"
  "su_checkpoints (withUserLists s q) = st_checkpoints s"
  by (simp_all add: withUserLists_def)

lemma withGroupLists_simps [simp]:
  "sg_tenantId (withGroupLists s q) = sg_tenantId q" "sg_issuerBindingId (withGroupLists s q) = sg_issuerBindingId q"
  "sg_issuer (withGroupLists s q) = sg_issuer q" "sg_userId (withGroupLists s q) = sg_userId q"
  "sg_externalGroupIds (withGroupLists s q) = sg_externalGroupIds q"
  "sg_groupBindings (withGroupLists s q) = sg_groupBindings q"
  "sg_cursor (withGroupLists s q) = sg_cursor q" "sg_cursorSequence (withGroupLists s q) = sg_cursorSequence q"
  "sg_occurredAtMillis (withGroupLists s q) = sg_occurredAtMillis q"
  "sg_userRoleAssignments (withGroupLists s q) = st_assignments s"
  "sg_projectMemberships (withGroupLists s q) = st_memberships s"
  "sg_checkpoints (withGroupLists s q) = st_checkpoints s"
  by (simp_all add: withGroupLists_def)

text \<open>The checkpoint row an update writes.\<close>

definition checkpointRow ::
  "host \<Rightarrow> TenantId \<times> string \<times> IdentitySyncChannel \<Rightarrow> string \<Rightarrow> int \<Rightarrow> int \<Rightarrow> SyncCheckpointRecord" where
  "checkpointRow h k cursor n now = \<lparr>cp_tenantId = fst k, cp_issuerBindingId = fst (snd k),
     cp_syncChannel = snd (snd k), cp_checkpointCursor = cursor, cp_cursorHashSha256 = toCursorHash h cursor,
     cp_cursorSequence = n, cp_checkpointedAtMillis = now, cp_updatedAtMillis = now\<rparr>"

lemma checkpointRow_simps [simp]:
  "checkpointAt k (checkpointRow h k cursor n now)"
  "cp_cursorSequence (checkpointRow h k cursor n now) = n"
  "cp_cursorHashSha256 (checkpointRow h k cursor n now) = toCursorHash h cursor"
  by (simp_all add: checkpointRow_def checkpointAt_def)

lemma scimUserReplay_lists:
  "ur_users (scimUserReplay h q email dn n now) = toSortedUsers (localeCompare h) (su_users q)"
  "ur_subjectBindings (scimUserReplay h q email dn n now) =
     toSortedSubjectBindings (localeCompare h) (su_subjectBindings q)"
  "ur_checkpoints (scimUserReplay h q email dn n now) = toSortedCheckpoints (localeCompare h) (su_checkpoints q)"
  by (simp_all add: scimUserReplay_def Let_def)

lemma scimUserUpsert_checkpoints:
  "ur_checkpoints (scimUserUpsert h q b i x cursor n now email dn) =
     toSortedCheckpoints (localeCompare h) (replaceOrPush
       (findIndex (checkpointAt (su_tenantId q, b, Scim_users)) (su_checkpoints q))
       (checkpointRow h (su_tenantId q, b, Scim_users) cursor n now) (su_checkpoints q))"
  by (simp add: scimUserUpsert_def Let_def checkpointRow_def checkpointOf_at)

lemma scimGroupReplay_lists:
  "gr_userRoleAssignments (scimGroupReplay h q n now) =
     toSortedUserRoleAssignments (localeCompare h) (sg_userRoleAssignments q)"
  "gr_projectMemberships (scimGroupReplay h q n now) =
     toSortedProjectMemberships (localeCompare h) (sg_projectMemberships q)"
  "gr_checkpoints (scimGroupReplay h q n now) = toSortedCheckpoints (localeCompare h) (sg_checkpoints q)"
  by (simp_all add: scimGroupReplay_def Let_def)

lemma scimGroupReconcile_checkpoints:
  "gr_checkpoints (scimGroupReconcile h q b cursor n now) =
     toSortedCheckpoints (localeCompare h) (replaceOrPush
       (findIndex (checkpointAt (sg_tenantId q, b, Scim_groups)) (sg_checkpoints q))
       (checkpointRow h (sg_tenantId q, b, Scim_groups) cursor n now) (sg_checkpoints q))"
  by (simp add: scimGroupReconcile_def Let_def checkpointRow_def checkpointOf_at)

text \<open>A delivery is a rejection that changes nothing, a replay that only sorts the stored
  lists, or an update that writes the event's checkpoint.\<close>

definition delivered :: "host \<Rightarrow> DirectoryEvent \<Rightarrow> DirectoryStore \<Rightarrow> bool \<Rightarrow> DirectoryStore \<Rightarrow> bool" where
  "delivered h ev s isReplay s' =
     (if isReplay
      then storedCheckpoint (eventKey ev) s = Some (eventSequence ev, eventHash h ev)
        \<and> st_checkpoints s' = toSortedCheckpoints (localeCompare h) (st_checkpoints s)
        \<and> storeView h s' = storeView h s
      else (\<forall>n hsh. storedCheckpoint (eventKey ev) s = Some (n, hsh) \<longrightarrow> n < eventSequence ev)
        \<and> (\<exists>c. checkpointAt (eventKey ev) c \<and> cp_cursorSequence c = eventSequence ev
             \<and> cp_cursorHashSha256 c = eventHash h ev
             \<and> st_checkpoints s' = toSortedCheckpoints (localeCompare h)
                 (replaceOrPush (findIndex (checkpointAt (eventKey ev)) (st_checkpoints s)) c (st_checkpoints s))))"

lemma storedCheckpoint_gate:
  "storedCheckpoint k s = map_option (\<lambda>c. (cp_cursorSequence c, cp_cursorHashSha256 c))
     (find (checkpointAt k) (st_checkpoints s))"
  by (rule storedCheckpoint_def)

lemma user_delivery:
  "deliver h (UserEvent q) s = (case scimUserBody h (withUserLists s q) of Inl e \<Rightarrow> (Die e, s)
     | Inr r \<Rightarrow> (Succeed (UserAnswer r), s\<lparr>st_users := ur_users r, st_subjects := ur_subjectBindings r,
          st_checkpoints := ur_checkpoints r\<rparr>))"
  by (simp add: applyScimUserLifecycle_def split: sum.split)

lemma group_delivery:
  "deliver h (GroupEvent q) s = (case scimGroupBody h (withGroupLists s q) of Inl e \<Rightarrow> (Die e, s)
     | Inr r \<Rightarrow> (Succeed (GroupAnswer r), s\<lparr>st_assignments := gr_userRoleAssignments r,
          st_memberships := gr_projectMemberships r, st_checkpoints := gr_checkpoints r\<rparr>))"
  by (simp add: applyScimGroupReconciliation_def split: sum.split)

lemma user_delivered:
  assumes "scimUserBody h (withUserLists s q) = Inr r"
  shows "\<exists>isReplay. delivered h (UserEvent q) s isReplay
    (s\<lparr>st_users := ur_users r, st_subjects := ur_subjectBindings r, st_checkpoints := ur_checkpoints r\<rparr>)"
  using assms
proof (rule scimUserBody_InrE, simp only: withUserLists_simps checkpointOf_at)
  fix email isReplay
  assume gate: "userSyncGate (su_cursorSequence q) (toCursorHash h (trim (su_cursor q)))
       (find (checkpointAt (su_tenantId q, trim (su_issuerBindingId q), Scim_users)) (st_checkpoints s)) = Inr isReplay"
    and r: "(if isReplay
       then Inr (scimUserReplay h (withUserLists s q) email (trim (su_displayName q)) (su_cursorSequence q)
              (su_occurredAtMillis q))
       else Inr (scimUserUpsert h (withUserLists s q) (trim (su_issuerBindingId q)) (toLowerCase (trim (su_issuer q)))
              (trim (su_externalSubjectId q)) (trim (su_cursor q)) (su_cursorSequence q)
              (su_occurredAtMillis q) email (trim (su_displayName q)))) = Inr r"
  show ?thesis
  proof (intro exI [of _ isReplay], cases isReplay)
    case True
    have "ur_users r = toSortedUsers (localeCompare h) (st_users s)"
      "ur_subjectBindings r = toSortedSubjectBindings (localeCompare h) (st_subjects s)"
      "ur_checkpoints r = toSortedCheckpoints (localeCompare h) (st_checkpoints s)"
      using r True by (auto simp: scimUserReplay_lists)
    with gate True show "delivered h (UserEvent q) s isReplay
        (s\<lparr>st_users := ur_users r, st_subjects := ur_subjectBindings r, st_checkpoints := ur_checkpoints r\<rparr>)"
      by (simp add: delivered_def storeView_def sorters_idem userSyncGate_Inr storedCheckpoint_def split: option.splits)
  next
    case False
    have "ur_checkpoints r = toSortedCheckpoints (localeCompare h) (replaceOrPush
       (findIndex (checkpointAt (eventKey (UserEvent q))) (st_checkpoints s))
       (checkpointRow h (eventKey (UserEvent q)) (trim (su_cursor q)) (su_cursorSequence q) (su_occurredAtMillis q))
       (st_checkpoints s))"
      using r False by (auto simp: scimUserUpsert_checkpoints)
    moreover have "\<forall>n hsh. storedCheckpoint (eventKey (UserEvent q)) s = Some (n, hsh) \<longrightarrow> n < su_cursorSequence q"
      using gate False by (auto simp: userSyncGate_Inr storedCheckpoint_def split: option.splits)
    ultimately show "delivered h (UserEvent q) s isReplay
        (s\<lparr>st_users := ur_users r, st_subjects := ur_subjectBindings r, st_checkpoints := ur_checkpoints r\<rparr>)"
      unfolding delivered_def using False
      by (simp del: eventKey.simps) (rule exI, rule conjI, rule checkpointRow_simps(1), simp)
  qed
qed

lemma group_delivered:
  assumes "scimGroupBody h (withGroupLists s q) = Inr r"
  shows "\<exists>isReplay. delivered h (GroupEvent q) s isReplay
    (s\<lparr>st_assignments := gr_userRoleAssignments r, st_memberships := gr_projectMemberships r,
       st_checkpoints := gr_checkpoints r\<rparr>)"
  using assms
proof (rule scimGroupBody_InrE, simp only: withGroupLists_simps checkpointOf_at)
  fix isReplay
  assume gate: "groupSyncGate (sg_cursorSequence q) (toCursorHash h (trim (sg_cursor q)))
       (find (checkpointAt (sg_tenantId q, trim (sg_issuerBindingId q), Scim_groups)) (st_checkpoints s)) = Inr isReplay"
    and r: "(if isReplay
       then Inr (scimGroupReplay h (withGroupLists s q) (sg_cursorSequence q) (sg_occurredAtMillis q))
       else Inr (scimGroupReconcile h (withGroupLists s q) (trim (sg_issuerBindingId q)) (trim (sg_cursor q))
              (sg_cursorSequence q) (sg_occurredAtMillis q))) = Inr r"
  let ?s' = "s\<lparr>st_assignments := gr_userRoleAssignments r, st_memberships := gr_projectMemberships r,
       st_checkpoints := gr_checkpoints r\<rparr>"
  show ?thesis
  proof (intro exI [of _ isReplay], cases isReplay)
    case True
    have "gr_userRoleAssignments r = toSortedUserRoleAssignments (localeCompare h) (st_assignments s)"
      "gr_projectMemberships r = toSortedProjectMemberships (localeCompare h) (st_memberships s)"
      "gr_checkpoints r = toSortedCheckpoints (localeCompare h) (st_checkpoints s)"
      using r True by (auto simp: scimGroupReplay_lists)
    with gate True show "delivered h (GroupEvent q) s isReplay ?s'"
      by (simp add: delivered_def storeView_def sorters_idem groupSyncGate_Inr storedCheckpoint_def split: option.splits)
  next
    case False
    have "gr_checkpoints r = toSortedCheckpoints (localeCompare h) (replaceOrPush
       (findIndex (checkpointAt (eventKey (GroupEvent q))) (st_checkpoints s))
       (checkpointRow h (eventKey (GroupEvent q)) (trim (sg_cursor q)) (sg_cursorSequence q) (sg_occurredAtMillis q))
       (st_checkpoints s))"
      using r False by (auto simp: scimGroupReconcile_checkpoints)
    moreover have "\<forall>n hsh. storedCheckpoint (eventKey (GroupEvent q)) s = Some (n, hsh) \<longrightarrow> n < sg_cursorSequence q"
      using gate False by (auto simp: groupSyncGate_Inr storedCheckpoint_def split: option.splits)
    ultimately show "delivered h (GroupEvent q) s isReplay ?s'"
      unfolding delivered_def using False
      by (simp del: eventKey.simps) (rule exI, rule conjI, rule checkpointRow_simps(1), simp)
  qed
qed

lemma deliver_cases:
  obtains (rejected) e where "deliver h ev s = (Die e, s)"
  | (accepted) r s' isReplay where "deliver h ev s = (Succeed r, s')" "delivered h ev s isReplay s'"
proof (cases ev)
  case (UserEvent q)
  show thesis
  proof (cases "scimUserBody h (withUserLists s q)")
    case (Inl e)
    then show thesis using rejected by (simp only: UserEvent user_delivery sum.case)
  next
    case (Inr r)
    show thesis
      using user_delivered [OF Inr]
      by (elim exE) (rule accepted, simp only: UserEvent user_delivery Inr sum.case, simp only: UserEvent)
  qed
next
  case (GroupEvent q)
  show thesis
  proof (cases "scimGroupBody h (withGroupLists s q)")
    case (Inl e)
    then show thesis using rejected by (simp only: GroupEvent group_delivery sum.case)
  next
    case (Inr r)
    show thesis
      using group_delivered [OF Inr]
      by (elim exE) (rule accepted, simp only: GroupEvent group_delivery Inr sum.case, simp only: GroupEvent)
  qed
qed

lemma delivered_checkpoint:
  assumes "delivered h ev s isReplay s'"
  shows "storedCheckpoint k s' =
    (if k = eventKey ev then Some (eventSequence ev, eventHash h ev) else storedCheckpoint k s)"
proof (cases isReplay)
  case True
  then have "st_checkpoints s' = toSortedCheckpoints (localeCompare h) (st_checkpoints s)"
    and "storedCheckpoint (eventKey ev) s = Some (eventSequence ev, eventHash h ev)"
    using assms by (simp_all only: delivered_def if_True)
  then show ?thesis by (simp add: storedCheckpoint_def)
next
  case False
  then obtain c where c: "checkpointAt (eventKey ev) c" "cp_cursorSequence c = eventSequence ev"
      "cp_cursorHashSha256 c = eventHash h ev"
    and s': "st_checkpoints s' = toSortedCheckpoints (localeCompare h)
         (replaceOrPush (findIndex (checkpointAt (eventKey ev)) (st_checkpoints s)) c (st_checkpoints s))"
    using assms by (simp only: delivered_def if_False) blast
  then show ?thesis by (simp add: storedCheckpoint_def s' find_written_checkpoint [OF c(1)])
qed

interpretation directory: sync_channel "deliver h" eventKey eventSequence "eventHash h" storedCheckpoint "storeView h"
proof unfold_locales
  fix q s s' e r n hsh k
  show "fst (deliver h q s) \<noteq> Fail e"
    by (cases rule: deliver_cases [of h q s]) simp_all
  show "s' = s" if "deliver h q s = (Die e, s')"
    using that by (cases rule: deliver_cases [of h q s]) simp_all
  show "storedCheckpoint k (snd (deliver h q s)) = storedCheckpoint k s" if "k \<noteq> eventKey q"
    using that delivered_checkpoint by (cases rule: deliver_cases [of h q s]) simp_all
  assume ok: "deliver h q s = (Succeed r, s')"
  then obtain isReplay where d: "delivered h q s isReplay s'"
    by (cases rule: deliver_cases [of h q s]) auto
  show "storedCheckpoint (eventKey q) s' = Some (eventSequence q, eventHash h q)"
    using delivered_checkpoint [OF d] by simp
  show "n < eventSequence q \<or> (n = eventSequence q \<and> hsh = eventHash h q)"
    if "storedCheckpoint (eventKey q) s = Some (n, hsh)"
    using d that by (simp add: delivered_def split: if_splits)
  show "storeView h s' = storeView h s"
    if "storedCheckpoint (eventKey q) s = Some (eventSequence q, eventHash h q)"
    using d that by (simp add: delivered_def split: if_splits)
qed

end
