(* ===== verification/Identity_Properties.thy ===== *)
theory Identity_Properties
  imports Identity_Sync
begin

text \<open>
  Properties of the enterprise identity service: what an applied SCIM event writes and what
  it leaves alone, delivery histories, the isolation of sessions, and authorization from
  stored roles.
\<close>

section \<open>Rows the user events write\<close>

lemma find_written_user:
  assumes "sameUser t u x"
  shows "find (sameUser t' u') (replaceOrPush (findIndex (sameUser t u) us) x us) =
    (if t' = t \<and> u' = u then Some x else find (sameUser t' u') us)"
proof (cases "t' = t \<and> u' = u")
  case True
  then show ?thesis using find_replaceOrPush [of "sameUser t u" x us] assms by simp
next
  case False
  then show ?thesis
    using find_replaceOrPush_other [of "sameUser t' u'" x "sameUser t u" us] assms
    by (auto simp: sameUser_def)
qed

lemma find_written_subject:
  assumes "sameSubject t b y x"
  shows "find (sameSubject t' b' y') (replaceOrPush (findIndex (sameSubject t b y) ss) x ss) =
    (if t' = t \<and> b' = b \<and> y' = y then Some x else find (sameSubject t' b' y') ss)"
proof (cases "t' = t \<and> b' = b \<and> y' = y")
  case True
  then show ?thesis using find_replaceOrPush [of "sameSubject t b y" x ss] assms by simp
next
  case False
  then show ?thesis
    using find_replaceOrPush_other [of "sameSubject t' b' y'" x "sameSubject t b y" ss] assms
    by (auto simp: sameSubject_def)
qed

text \<open>The user and subject rows of an update, read from the request.\<close>

definition userAfter :: "ScimUserLifecycleRequest \<Rightarrow> string \<Rightarrow> UserRecord" where
  "userAfter q email = \<lparr>us_tenantId = su_tenantId q, us_userId = su_userId q, us_email = email,
     us_displayName = trim (su_displayName q), us_status = statusAfter (su_operation q),
     us_createdAtMillis = (case find (sameUser (su_tenantId q) (su_userId q)) (su_users q) of
        None \<Rightarrow> su_occurredAtMillis q | Some x \<Rightarrow> us_createdAtMillis x),
     us_updatedAtMillis = su_occurredAtMillis q\<rparr>"

definition subjectAfter :: "host \<Rightarrow> ScimUserLifecycleRequest \<Rightarrow> ExternalSubjectRecord" where
  "subjectAfter h q = \<lparr>sb_tenantId = su_tenantId q, sb_issuerBindingId = trim (su_issuerBindingId q),
     sb_externalSubjectId = trim (su_externalSubjectId q), sb_userId = su_userId q,
     sb_subjectHashSha256 = sha256 h (join newline [su_tenantId q, toLowerCase (trim (su_issuer q)),
        trim (su_externalSubjectId q)]),
     sb_subjectSource = FromScim,
     sb_firstSeenAtMillis = (case find (sameSubject (su_tenantId q) (trim (su_issuerBindingId q))
          (trim (su_externalSubjectId q))) (su_subjectBindings q) of
        None \<Rightarrow> su_occurredAtMillis q | Some x \<Rightarrow> sb_firstSeenAtMillis x),
     sb_lastSeenAtMillis = su_occurredAtMillis q\<rparr>"

lemma scimUserUpsert_rows:
  assumes "r = scimUserUpsert h q (trim (su_issuerBindingId q)) (toLowerCase (trim (su_issuer q)))
      (trim (su_externalSubjectId q)) cursor n (su_occurredAtMillis q) email (trim (su_displayName q))"
  shows "ur_user r = userAfter q email" and "ur_idempotentReplay r = False"
    and "ur_users r = toSortedUsers (localeCompare h) (replaceOrPush
      (findIndex (sameUser (su_tenantId q) (su_userId q)) (su_users q)) (userAfter q email) (su_users q))"
    and "ur_subjectBindings r = toSortedSubjectBindings (localeCompare h) (replaceOrPush
      (findIndex (sameSubject (su_tenantId q) (trim (su_issuerBindingId q)) (trim (su_externalSubjectId q)))
        (su_subjectBindings q)) (subjectAfter h q) (su_subjectBindings q))"
    and "ur_action r = scimUserAction (su_operation q) (find (sameUser (su_tenantId q) (su_userId q)) (su_users q))"
  unfolding assms
  by (simp_all add: scimUserUpsert_def Let_def userAfter_def subjectAfter_def findIndex_find
      option.case_eq_if option.map_sel)

lemma scimUser_upsert_cases:
  assumes "applyScimUserLifecycle h q = Succeed r" "\<not> ur_idempotentReplay r"
  obtains email where
    "normalizeEmail (su_email q) ''ScimUserLifecycleRequest'' ''email'' = Inr email"
    "r = scimUserUpsert h q (trim (su_issuerBindingId q)) (toLowerCase (trim (su_issuer q)))
       (trim (su_externalSubjectId q)) (trim (su_cursor q)) (su_cursorSequence q)
       (su_occurredAtMillis q) email (trim (su_displayName q))"
proof -
  have "scimUserBody h q = Inr r" using assms(1) by (simp add: applyScimUserLifecycle_def)
  then show thesis
  proof (rule scimUserBody_InrE)
    fix email isReplay
    assume r: "(if isReplay
       then Inr (scimUserReplay h q email (trim (su_displayName q)) (su_cursorSequence q) (su_occurredAtMillis q))
       else Inr (scimUserUpsert h q (trim (su_issuerBindingId q)) (toLowerCase (trim (su_issuer q)))
              (trim (su_externalSubjectId q)) (trim (su_cursor q)) (su_cursorSequence q)
              (su_occurredAtMillis q) email (trim (su_displayName q)))) = Inr r"
      and e: "normalizeEmail (su_email q) ''ScimUserLifecycleRequest'' ''email'' = Inr email"
    have "\<not> isReplay"
    proof
      assume isReplay
      with r have "r = scimUserReplay h q email (trim (su_displayName q)) (su_cursorSequence q) (su_occurredAtMillis q)"
        by simp
      with assms(2) show False by (simp add: scimUserReplay_def Let_def)
    qed
    with r show thesis by (intro that [OF e]) simp
  qed
qed

lemma statusAfter_Disabled [simp]: "statusAfter operation = Disabled \<longleftrightarrow> operation = DisableUser"
  by (cases operation) simp_all

section \<open>Sessions\<close>

lemma openSession_InrE:
  assumes "openSession h q issuerName x now ttl d = Inr s"
  obtains t src and b :: IssuerBinding and y :: ExternalSubjectRecord and u :: UserRecord where
    "routedTenantId d = Some t" "TenantRoutingResponse.routeSource d = Some src"
    "find (\<lambda>b. bi_tenantId b = t \<and> toLowerCase (trim (bi_issuer b)) = issuerName) (sr_issuerBindings q) = Some b"
    "find (sameSubject t (bi_issuerBindingId b) x) (sr_subjectBindings q) = Some y"
    "find (sameUser t (sb_userId y)) (sr_users q) = Some u" "us_status u \<noteq> Disabled"
    "ss_tenantId s = t" "ss_userId s = us_userId u" "ss_routeSource s = src"
    "ss_expiresAtMillis s = jadd (jint now) ttl" "ss_issuedAtMillis s = now"
  using assms
  unfolding openSession_def Let_def throwIdentity_def sameSubject_def [abs_def] sameUser_def [abs_def]
  by (auto split: option.splits if_splits)

lemma resolveSessionBoundary_SucceedE:
  assumes "resolveSessionBoundary h route ttl0 q = Succeed s"
  obtains ttl d where
    "(case sr_sessionTtlMillis q of None \<Rightarrow> ttl = effectiveSessionTtl ttl0 | Some n \<Rightarrow> ttl = jmax (jint 1) (jint n))"
    "route (sessionRoutingRequest q (toLowerCase (trim (sr_issuer q)))) = Succeed d"
    "openSession h q (toLowerCase (trim (sr_issuer q))) (trim (sr_externalSubjectId q)) (sr_occurredAtMillis q) ttl d = Inr s"
proof -
  have mapErr: "mapError f m = Succeed d \<longleftrightarrow> m = Succeed d" for f :: "TenantRoutingDeniedError \<Rightarrow> IdentityError" and m and d :: TenantRoutingResponse
    by (cases m) auto
  show thesis
    using assms that
    unfolding resolveSessionBoundary_def Let_def effect_suspend_Succeed chain_eq_Inr
    by (auto simp: mapErr split: option.splits)
qed

lemma jmax_int [simp]: "jmax (jint a) (jint b) = jint (max a b)"
  by (simp add: jmax_def jint_def)

text \<open>C4: Session isolation, with the real tenant router. A session is only opened for a tenant
  of the request's catalog; every binding of the issuer names that tenant; the subject is the
  one the request presented, bound under one of the tenant's own issuer bindings; and the user
  exists in that tenant and is not disabled. The session is that user's, starts at the time of
  the request and, while the sum is exactly representable, ends after the requested time to
  live, which is at least one millisecond.\<close>

theorem session_isolation:
  assumes "resolveSessionBoundary h (assertResolved lc clock) ttl0 q = Succeed s"
  shows "ss_tenantId s \<in> tenantId ` set (sr_tenants q)
    \<and> (\<forall>b\<in>set (sr_issuerBindings q). toLowerCase (trim (bi_issuer b)) = toLowerCase (trim (sr_issuer q))
          \<longrightarrow> bi_tenantId b = ss_tenantId s)
    \<and> (\<exists>b\<in>set (sr_issuerBindings q). \<exists>y\<in>set (sr_subjectBindings q). \<exists>u\<in>set (sr_users q).
          bi_tenantId b = ss_tenantId s \<and> sb_tenantId y = ss_tenantId s \<and> us_tenantId u = ss_tenantId s
          \<and> sb_issuerBindingId y = bi_issuerBindingId b
          \<and> sb_externalSubjectId y = trim (sr_externalSubjectId q)
          \<and> sb_userId y = us_userId u \<and> ss_userId s = us_userId u \<and> us_status u \<noteq> Disabled)
    \<and> ss_issuedAtMillis s = sr_occurredAtMillis q
    \<and> (\<forall>n. sr_sessionTtlMillis q = Some n \<and> \<bar>sr_occurredAtMillis q + max 1 n\<bar> \<le> 2 ^ 53
          \<longrightarrow> ss_expiresAtMillis s = jint (sr_occurredAtMillis q + max 1 n))"
proof -
  let ?i = "toLowerCase (trim (sr_issuer q))" and ?x = "trim (sr_externalSubjectId q)"
  let ?rq = "sessionRoutingRequest q ?i"
  from assms obtain ttl d where
    ttl: "case sr_sessionTtlMillis q of None \<Rightarrow> ttl = effectiveSessionTtl ttl0 | Some n \<Rightarrow> ttl = jmax (jint 1) (jint n)"
    and d: "assertResolved lc clock ?rq = Succeed d"
    and s: "openSession h q ?i ?x (sr_occurredAtMillis q) ttl d = Inr s"
    by (rule resolveSessionBoundary_SucceedE)
  from s obtain t src b and y :: ExternalSubjectRecord and u where w:
    "routedTenantId d = Some t"
    "find (\<lambda>b. bi_tenantId b = t \<and> toLowerCase (trim (bi_issuer b)) = ?i) (sr_issuerBindings q) = Some b"
    "find (sameSubject t (bi_issuerBindingId b) ?x) (sr_subjectBindings q) = Some y"
    "find (sameUser t (sb_userId y)) (sr_users q) = Some u" "us_status u \<noteq> Disabled"
    "ss_tenantId s = t" "ss_userId s = us_userId u"
    "ss_expiresAtMillis s = jadd (jint (sr_occurredAtMillis q)) ttl" "ss_issuedAtMillis s = sr_occurredAtMillis q"
    by (rule openSession_InrE)
  have issuerOf: "issuer ?rq = Some ?i" and cat: "tenants ?rq = sr_tenants q"
    and binds: "issuerBindings ?rq = map (\<lambda>b. \<lparr>ib_issuer = bi_issuer b, ib_tenantId = bi_tenantId b\<rparr>) (sr_issuerBindings q)"
    by (simp_all add: sessionRoutingRequest_def)
  have norm: "normalizeLookupValue ?i = ?i" by (simp add: normalizeLookupValue_def trim_toLowerCase)
  have member: "t \<in> tenantId ` set (sr_tenants q)"
    using tr.route_one [OF d] w(1) cat by auto
  have only: "bi_tenantId b' = t" if "b' \<in> set (sr_issuerBindings q)" "toLowerCase (trim (bi_issuer b')) = ?i" for b'
    using tr.route_issuer [OF d issuerOf, of "\<lparr>ib_issuer = bi_issuer b', ib_tenantId = bi_tenantId b'\<rparr>"] that w(1)
    by (simp add: binds norm) (simp add: normalizeLookupValue_def)
  have expires: "ss_expiresAtMillis s = jint (sr_occurredAtMillis q + max 1 n)"
    if "sr_sessionTtlMillis q = Some n" "\<bar>sr_occurredAtMillis q + max 1 n\<bar> \<le> 2 ^ 53" for n
    using ttl that w(8) by (simp add: jadd_int)
  have b: "b \<in> set (sr_issuerBindings q)" "bi_tenantId b = t"
    and y: "y \<in> set (sr_subjectBindings q)" "sameSubject t (bi_issuerBindingId b) ?x y"
    and u: "u \<in> set (sr_users q)" "sameUser t (sb_userId y) u"
    using find_Some_set [OF w(2)] find_Some_set [OF w(3)] find_Some_set [OF w(4)] by simp_all
  have "\<exists>b\<in>set (sr_issuerBindings q). \<exists>y\<in>set (sr_subjectBindings q). \<exists>u\<in>set (sr_users q).
      bi_tenantId b = t \<and> sb_tenantId y = t \<and> us_tenantId u = t \<and> sb_issuerBindingId y = bi_issuerBindingId b
      \<and> sb_externalSubjectId y = ?x \<and> sb_userId y = us_userId u \<and> ss_userId s = us_userId u \<and> us_status u \<noteq> Disabled"
    by (intro bexI [of _ b] bexI [of _ y] bexI [of _ u])
      (use b y u w(5,7) in \<open>simp_all add: sameSubject_def sameUser_def\<close>)
  then show ?thesis
    using member only w(6,9) expires by simp
qed

text \<open>C26: A disabled user is locked out. Once a SCIM disable event of a user has been applied,
  no session request that presents the resulting users opens a session for that user in that
  tenant, whatever router, catalog, bindings and subjects it presents.\<close>

theorem no_session_after_disable:
  assumes "applyScimUserLifecycle h q = Succeed r" "su_operation q = DisableUser" "\<not> ur_idempotentReplay r"
    and "sr_users sq = ur_users r" "resolveSessionBoundary h' route ttl0 sq = Succeed s"
  shows "\<not> (ss_tenantId s = su_tenantId q \<and> ss_userId s = su_userId q)"
proof
  assume same: "ss_tenantId s = su_tenantId q \<and> ss_userId s = su_userId q"
  obtain email where "r = scimUserUpsert h q (trim (su_issuerBindingId q)) (toLowerCase (trim (su_issuer q)))
       (trim (su_externalSubjectId q)) (trim (su_cursor q)) (su_cursorSequence q)
       (su_occurredAtMillis q) email (trim (su_displayName q))"
    by (rule scimUser_upsert_cases [OF assms(1,3)])
  note users = scimUserUpsert_rows(3) [OF this]
  have stored: "find (sameUser (su_tenantId q) (su_userId q)) (ur_users r) = Some (userAfter q email)"
    by (simp add: users find_written_user sameUser_def userAfter_def)
  from assms(5) obtain ttl d where
    "openSession h' sq (toLowerCase (trim (sr_issuer sq))) (trim (sr_externalSubjectId sq)) (sr_occurredAtMillis sq) ttl d = Inr s"
    by (rule resolveSessionBoundary_SucceedE)
  then obtain t u and y :: ExternalSubjectRecord where
    "find (sameUser t (sb_userId y)) (sr_users sq) = Some u" "us_status u \<noteq> Disabled"
    "ss_tenantId s = t" "ss_userId s = us_userId u"
    by (rule openSession_InrE)
  moreover from this have "sb_userId y = us_userId u"
    using find_Some_set [of "sameUser t (sb_userId y)" "sr_users sq" u] by (simp add: sameUser_def)
  ultimately have "u = userAfter q email" "us_status u \<noteq> Disabled"
    using stored same assms(4) by simp_all
  with assms(2) show False by (simp add: userAfter_def)
qed

text \<open>What an applied SCIM user event writes. The user row of the event is the trimmed and
  lower-cased data with the status of the operation, keeping its creation time; the subject row
  points at the user, keeping its first-seen time; every other user, subject and checkpoint is
  found as before; and the checkpoint of the channel is the event's.\<close>

theorem scim_user_applied:
  assumes "applyScimUserLifecycle h q = Succeed r" "\<not> ur_idempotentReplay r"
  shows "\<exists>email. normalizeEmail (su_email q) ''ScimUserLifecycleRequest'' ''email'' = Inr email
    \<and> ur_user r = userAfter q email
    \<and> (\<forall>t u. find (sameUser t u) (ur_users r) =
          (if t = su_tenantId q \<and> u = su_userId q then Some (userAfter q email) else find (sameUser t u) (su_users q)))
    \<and> (\<forall>t b x. find (sameSubject t b x) (ur_subjectBindings r) =
          (if t = su_tenantId q \<and> b = trim (su_issuerBindingId q) \<and> x = trim (su_externalSubjectId q)
           then Some (subjectAfter h q) else find (sameSubject t b x) (su_subjectBindings q)))
    \<and> (\<forall>k. find (checkpointAt k) (ur_checkpoints r) =
          (if k = (su_tenantId q, trim (su_issuerBindingId q), Scim_users)
           then Some (checkpointRow h k (trim (su_cursor q)) (su_cursorSequence q) (su_occurredAtMillis q))
           else find (checkpointAt k) (su_checkpoints q)))"
proof -
  obtain email where e: "normalizeEmail (su_email q) ''ScimUserLifecycleRequest'' ''email'' = Inr email"
    and r: "r = scimUserUpsert h q (trim (su_issuerBindingId q)) (toLowerCase (trim (su_issuer q)))
       (trim (su_externalSubjectId q)) (trim (su_cursor q)) (su_cursorSequence q)
       (su_occurredAtMillis q) email (trim (su_displayName q))"
    by (rule scimUser_upsert_cases [OF assms])
  note rows = scimUserUpsert_rows [OF r]
  have u: "sameUser (su_tenantId q) (su_userId q) (userAfter q email)"
    and y: "sameSubject (su_tenantId q) (trim (su_issuerBindingId q)) (trim (su_externalSubjectId q)) (subjectAfter h q)"
    by (simp_all add: sameUser_def userAfter_def sameSubject_def subjectAfter_def)
  have cps: "ur_checkpoints r = toSortedCheckpoints (localeCompare h) (replaceOrPush
       (findIndex (checkpointAt (su_tenantId q, trim (su_issuerBindingId q), Scim_users)) (su_checkpoints q))
       (checkpointRow h (su_tenantId q, trim (su_issuerBindingId q), Scim_users) (trim (su_cursor q))
          (su_cursorSequence q) (su_occurredAtMillis q)) (su_checkpoints q))"
    unfolding r by (rule scimUserUpsert_checkpoints)
  show ?thesis
  proof (intro exI [of _ email] conjI allI)
    show "ur_user r = userAfter q email" by (rule rows(1))
    show "find (sameUser t u) (ur_users r) =
        (if t = su_tenantId q \<and> u = su_userId q then Some (userAfter q email) else find (sameUser t u) (su_users q))" for t u
      by (simp only: rows(3) find_sorted_users find_written_user [OF u])
    show "find (sameSubject t b x) (ur_subjectBindings r) =
          (if t = su_tenantId q \<and> b = trim (su_issuerBindingId q) \<and> x = trim (su_externalSubjectId q)
           then Some (subjectAfter h q) else find (sameSubject t b x) (su_subjectBindings q))" for t b x
      by (simp only: rows(4) find_sorted_subjects find_written_subject [OF y])
    show "find (checkpointAt k) (ur_checkpoints r) =
          (if k = (su_tenantId q, trim (su_issuerBindingId q), Scim_users)
           then Some (checkpointRow h k (trim (su_cursor q)) (su_cursorSequence q) (su_occurredAtMillis q))
           else find (checkpointAt k) (su_checkpoints q))" for k
      by (simp add: cps find_written_checkpoint)
  qed (rule e)
qed

section \<open>Delivery histories\<close>

text \<open>Directory events take effect at most once. An event that was accepted can be
  delivered again after any number of other user and group events, and the store holds what it
  held: it is either recognised as a replay or rejected as stale.\<close>

theorem sync_at_most_once:
  assumes "deliver h ev s = (Succeed r, s1)"
  shows "storeView h (snd (deliver h ev (runAll (deliver h) evs s1))) = storeView h (runAll (deliver h) evs s1)"
  by (rule directory.redelivery_keeps [OF assms])

text \<open>C27: Checkpoints only advance. Over any history of deliveries the checkpoint of a channel
  keeps its sequence and hash or moves to a higher sequence, and once an event was accepted,
  every event of its channel with a lower sequence is rejected without a trace.\<close>

theorem checkpoints_advance:
  assumes "deliver h ev s = (Succeed r, s1)"
  shows "(\<exists>n hsh. storedCheckpoint (eventKey ev) (runAll (deliver h) evs s1) = Some (n, hsh)
      \<and> (eventSequence ev < n \<or> (eventSequence ev = n \<and> hsh = eventHash h ev)))
    \<and> (\<forall>ev'. eventKey ev' = eventKey ev \<and> eventSequence ev' < eventSequence ev \<longrightarrow>
        (\<exists>e. deliver h ev' (runAll (deliver h) evs s1) = (Die e, runAll (deliver h) evs s1)))"
  using directory.history_advances [OF directory.recorded [OF assms]] directory.superseded [OF assms] by blast

section \<open>Group reconciliation\<close>

















section \<open>Authorization\<close>

text \<open>The roles a user holds for a request, and the role ids they come from.\<close>

definition heldRoleIds :: "IdentityAuthorizationRequest \<Rightarrow> string set" where
  "heldRoleIds q =
     {ra_roleId a | a. a \<in> set (aq_userRoleAssignments q) \<and> ra_tenantId a = aq_tenantId q \<and> ra_userId a = aq_userId q}
     \<union> {i. \<exists>m\<in>set (aq_projectMemberships q). pm_tenantId m = aq_tenantId q \<and> pm_userId m = aq_userId q
          \<and> pm_roleId m = Some i \<and> (\<forall>p. aq_resourceProjectId q = Some p \<longrightarrow> pm_projectId m = trim p)}"

definition heldRoles :: "IdentityAuthorizationRequest \<Rightarrow> AuthorizationRole set" where
  "heldRoles q = (let rs = {r. \<exists>i\<in>heldRoleIds q. toAuthorizationRoleFromRoleId (Some i) = Some r}
     in if rs = {} then {Dev} else rs)"

lemma roleOrder_rank: "compare (roleOrder lc) x y \<noteq> Greater \<Longrightarrow> authorizationRoleRank y \<le> authorizationRoleRank x"
  by (rule ccontr) (simp add: roleOrder_def compare_default_if)

lemma candidateRoles:
  assumes "set ids = heldRoleIds q"
  shows "set (toSortedCandidateAuthorizationRoles lc ids) = heldRoles q"
    and "arraySorted (roleOrder lc) (toSortedCandidateAuthorizationRoles lc ids)"
proof -
  let ?mapped = "List.map_filter (\<lambda>i. toAuthorizationRoleFromRoleId (Some i)) ids"
  have mapped: "set ?mapped = {r. \<exists>i\<in>heldRoleIds q. toAuthorizationRoleFromRoleId (Some i) = Some r}"
    by (simp only: set_map_filter assms)
  show "set (toSortedCandidateAuthorizationRoles lc ids) = heldRoles q"
  proof (cases "?mapped = []")
    case True
    then show ?thesis
      using mapped by (simp add: toSortedCandidateAuthorizationRoles_def heldRoles_def)
  next
    case False
    then have ne: "{r. \<exists>i\<in>heldRoleIds q. toAuthorizationRoleFromRoleId (Some i) = Some r} \<noteq> {}"
      unfolding mapped [symmetric] by simp
    have "set (toSortedCandidateAuthorizationRoles lc ids) = set ?mapped"
      using False by (simp add: toSortedCandidateAuthorizationRoles_def)
    also have "\<dots> = heldRoles q"
      unfolding mapped heldRoles_def Let_def if_not_P [OF ne] ..
    finally show ?thesis .
  qed
  show "arraySorted (roleOrder lc) (toSortedCandidateAuthorizationRoles lc ids)"
    by (simp add: toSortedCandidateAuthorizationRoles_def Let_def)
qed

lemma heldRoles_ne [simp]: "heldRoles q \<noteq> {}"
  by (auto simp: heldRoles_def Let_def)

lemma matchingRoleIds_held:
  "set (matchingRoleIds q (map_option trim (aq_resourceProjectId q))) = heldRoleIds q"
  by (cases "aq_resourceProjectId q")
    (auto simp: matchingRoleIds_def heldRoleIds_def set_map_filter)

lemma known_action_name:
  "knownAction a \<Longrightarrow> trim (actionName a) = actionName a \<and> actionName a \<noteq> [] \<and> parseAction (actionName a) = a"
  by (cases a) (simp_all add: knownAction_def actionName_def actionNames_def parseAction_def trim_def isWhiteSpace_def)

context authorization_service
begin

lemma mapError_eval: "mapError f (eval q) = Succeed (decisionOf q)"
proof -
  obtain d where "eval q = Succeed d" using eval_total by blast
  then show ?thesis by (simp add: decisionOf_def)
qed

lemma all_decisions:
  "effect_all (map (\<lambda>r. mapError f (eval \<lparr>req_role = r, req_action = a\<rparr>)) rs)
   = Succeed (map (\<lambda>r. decisionOf \<lparr>req_role = r, req_action = a\<rparr>) rs)"
  by (induction rs) (simp_all add: mapError_eval)

text \<open>Whatever the provider, the answer for a user is the decision of a highest role that the
  provider grants, and a denial only when it grants none of the held roles.\<close>

lemma selected_role:
  assumes "set rs = held" "held \<noteq> {}" "arraySorted (roleOrder lc) rs"
  shows "\<exists>x. selectDecision q a (map (\<lambda>r. decisionOf \<lparr>req_role = r, req_action = a\<rparr>) rs) = Succeed x
    \<and> as_crossTenantDenied x = False \<and> as_role x \<in> held
    \<and> (as_allowed x \<longleftrightarrow> (\<exists>r\<in>held. granted r a))
    \<and> (as_allowed x \<longrightarrow> granted (as_role x) a
        \<and> (\<forall>r\<in>held. granted r a \<longrightarrow> authorizationRoleRank r \<le> authorizationRoleRank (as_role x)))"
proof -
  let ?D = "\<lambda>r. decisionOf \<lparr>req_role = r, req_action = a\<rparr>"
  have find: "find allowed (map ?D rs) = map_option ?D (find (\<lambda>r. granted r a) rs)"
    by (induction rs) simp_all
  show ?thesis
  proof (cases "find (\<lambda>r. granted r a) rs")
    case (Some r)
    then have r: "r \<in> held" "granted r a"
      using find_Some_set [OF Some] assms(1) by auto
    moreover have "authorizationRoleRank r' \<le> authorizationRoleRank r" if "r' \<in> held" "granted r' a" for r'
      using find_sorted_least [OF assms(3) Some, of r'] that assms(1) by (blast intro: roleOrder_rank)
    ultimately show ?thesis
      by (auto simp: selectDecision_def find Some)
  next
    case None
    then have none: "\<forall>r\<in>held. \<not> granted r a" using assms(1) by (auto simp: find_None_iff)
    obtain r0 rs' where rs: "rs = r0 # rs'" using assms(1,2) by (cases rs) auto
    then have "r0 \<in> held" using assms(1) by auto
    with none show ?thesis
      by (auto simp: selectDecision_def find None) (auto simp: rs firstOf_def)
  qed
qed

end

text \<open>C29: Authorization from stored roles. For a known action, and a project that is not blank,
  the service always answers. A request for another tenant's resource is denied. Otherwise it is
  allowed exactly when some role the user holds in the tenant (in the project, for memberships;
  dev when there is none) may do the action, and the answer then names a highest such role.\<close>

theorem stored_roles_decide:
  assumes "knownAction (aq_action q)" "\<And>p. aq_resourceProjectId q = Some p \<Longrightarrow> trim p \<noteq> []"
  shows "\<exists>x. evaluateAuthorization h (evaluate clock) q = Succeed x
    \<and> (as_crossTenantDenied x \<longleftrightarrow> aq_resourceTenantId q \<noteq> aq_tenantId q)
    \<and> (as_allowed x \<longleftrightarrow> aq_resourceTenantId q = aq_tenantId q \<and> (\<exists>r\<in>heldRoles q. resolvePermission r (aq_action q)))
    \<and> (as_allowed x \<longrightarrow> as_role x \<in> heldRoles q \<and> resolvePermission (as_role x) (aq_action q)
        \<and> (\<forall>r\<in>heldRoles q. resolvePermission r (aq_action q) \<longrightarrow> authorizationRoleRank r \<le> authorizationRoleRank (as_role x)))"
proof -
  let ?p = "map_option trim (aq_resourceProjectId q)" and ?a = "aq_action q"
  have project: "(case aq_resourceProjectId q of None \<Rightarrow> Inr None
      | Some p \<Rightarrow> map_sum id Some (normalizeTrimmedNonEmpty p ''EnterpriseIdentityAuthorizationRequest'' ''resourceProjectId''))
      = Inr ?p"
    using assms(2) by (auto simp: normalizeTrimmedNonEmpty_def Let_def split: option.splits)
  have action: "map_sum id parseAction (normalizeTrimmedNonEmpty (actionName ?a)
      ''EnterpriseIdentityAuthorizationRequest'' ''action'') = Inr ?a"
    using known_action_name [OF assms(1)] by (simp add: normalizeTrimmedNonEmpty_def Let_def)
  note run = evaluateAuthorization_def Let_def project action chain_simps effect_suspend.simps
  show ?thesis
  proof (cases "aq_resourceTenantId q = aq_tenantId q")
    case False
    then show ?thesis
      by (simp only: run if_True) simp
  next
    case True
    have roles: "set (toSortedCandidateAuthorizationRoles (localeCompare h) (matchingRoleIds q ?p)) = heldRoles q"
      "arraySorted (roleOrder (localeCompare h)) (toSortedCandidateAuthorizationRoles (localeCompare h) (matchingRoleIds q ?p))"
      by (rule candidateRoles [OF matchingRoleIds_held])+
    have "evaluateAuthorization h (evaluate clock) q = selectDecision q ?a
        (map (\<lambda>r. rbac.decisionOf clock \<lparr>req_role = r, req_action = ?a\<rparr>)
          (toSortedCandidateAuthorizationRoles (localeCompare h) (matchingRoleIds q ?p)))"
      by (simp only: run True simp_thms if_False rbac.all_decisions effect_flatMap.simps)
    with rbac.selected_role [OF roles(1) heldRoles_ne roles(2), of q ?a clock] True show ?thesis
      by auto
  qed
qed

section \<open>Concrete runs\<close>

definition sampleUserEvent :: "UserRecord list \<Rightarrow> ScimUserLifecycleOperation \<Rightarrow> int \<Rightarrow> ScimUserLifecycleRequest" where
  "sampleUserEvent us op n = \<lparr>su_operation = op, su_tenantId = ''a'', su_issuerBindingId = ''b'', su_issuer = ''c'',
     su_externalSubjectId = ''a'', su_userId = ''b'', su_email = ''a@b'', su_displayName = ''a'', su_cursor = ''c'',
     su_cursorSequence = n, su_occurredAtMillis = 5, su_users = us, su_subjectBindings = [], su_checkpoints = []\<rparr>"

definition sampleUserAnswer :: "UserRecord list \<Rightarrow> ScimUserLifecycleOperation \<Rightarrow> int \<Rightarrow> ScimUserLifecycleResponse" where
  "sampleUserAnswer us op n = scimUserUpsert sampleHost (sampleUserEvent us op n) ''b'' ''c'' ''a'' ''c'' n 5 ''a@b'' ''a''"

definition sampleGroupEvent :: "ScimGroupReconciliationRequest" where
  "sampleGroupEvent = \<lparr>sg_tenantId = ''a'', sg_issuerBindingId = ''b'', sg_issuer = ''c'', sg_userId = ''b'',
     sg_externalGroupIds = [''c''], sg_groupBindings = [\<lparr>gb_tenantId = ''a'', gb_issuerBindingId = ''b'',
       gb_externalGroupId = ''c'', gb_roleId = Some ''a'', gb_projectId = Some ''b''\<rparr>],
     sg_userRoleAssignments = [], sg_projectMemberships = [], sg_checkpoints = [], sg_cursor = ''c'',
     sg_cursorSequence = 1, sg_occurredAtMillis = 5\<rparr>"

definition emptyStore :: DirectoryStore where
  "emptyStore = \<lparr>st_users = [], st_subjects = [], st_assignments = [], st_memberships = [], st_checkpoints = []\<rparr>"

lemma sample_strings [simp]:
  "trim ''a'' = ''a''" "trim ''b'' = ''b''" "trim ''c'' = ''c''" "trim ''a@b'' = ''a@b''"
  "toLowerCase ''a'' = ''a''" "toLowerCase ''b'' = ''b''" "toLowerCase ''c'' = ''c''" "toLowerCase ''a@b'' = ''a@b''"
  "strIncludes ''a@b'' ''@''"
  by (simp_all add: trim_def isWhiteSpace_def toLowerCase_def lowerChar_def)

lemma sample_normalised [simp]:
  "normalizeTrimmedNonEmpty ''a'' c f = Inr ''a''" "normalizeTrimmedNonEmpty ''b'' c f = Inr ''b''"
  "normalizeTrimmedNonEmpty ''c'' c f = Inr ''c''" "normalizeEmail ''a@b'' c f = Inr ''a@b''"
  "normalizeSequence 1 c f = Inr 1" "normalizeSequence 2 c f = Inr 2" "normalizeMillisId 5 c f = Inr 5"
  by (simp_all add: normalizeTrimmedNonEmpty_def normalizeEmail_def normalizeMillisId_def normalizeSequence_def
      isSafeInteger_def maxSafeInteger_def Let_def)

lemma sample_user_ok:
  "applyScimUserLifecycle sampleHost (sampleUserEvent us op 1) = Succeed (sampleUserAnswer us op 1)"
  by (simp add: applyScimUserLifecycle_def scimUserBody_def sampleUserEvent_def sampleUserAnswer_def
      userSyncGate_def)

lemma sample_user_fresh: "\<not> ur_idempotentReplay (sampleUserAnswer us op n)"
  by (simp add: sampleUserAnswer_def scimUserUpsert_def Let_def)

theorem scim_user_applied_witness:
  "ur_user (sampleUserAnswer [] CreateUser 1) = userAfter (sampleUserEvent [] CreateUser 1) ''a@b''
   \<and> find (sameUser ''a'' ''c'') (ur_users (sampleUserAnswer [] CreateUser 1)) = None"
proof -
  obtain email where e: "normalizeEmail (su_email (sampleUserEvent [] CreateUser 1)) ''ScimUserLifecycleRequest'' ''email'' = Inr email"
    and u: "ur_user (sampleUserAnswer [] CreateUser 1) = userAfter (sampleUserEvent [] CreateUser 1) email"
    and rows: "\<forall>t u. find (sameUser t u) (ur_users (sampleUserAnswer [] CreateUser 1)) =
          (if t = su_tenantId (sampleUserEvent [] CreateUser 1) \<and> u = su_userId (sampleUserEvent [] CreateUser 1)
           then Some (userAfter (sampleUserEvent [] CreateUser 1) email)
           else find (sameUser t u) (su_users (sampleUserEvent [] CreateUser 1)))"
    using scim_user_applied [OF sample_user_ok [of "[]" CreateUser] sample_user_fresh] by blast
  have "email = ''a@b''" using e by (simp add: sampleUserEvent_def)
  with u rows show ?thesis by (simp add: sampleUserEvent_def)
qed

definition sampleSession :: "UserRecord list \<Rightarrow> string \<Rightarrow> SessionRequest" where
  "sampleSession us u = \<lparr>sr_issuer = ''c'', sr_externalSubjectId = ''a'', sr_occurredAtMillis = 5,
     sr_tenantIdClaim = None, sr_tenantSlugClaim = None, sr_sessionTtlMillis = Some 5,
     sr_tenants = [\<lparr>tenantId = ''a'', tenantSlug = ''a''\<rparr>],
     sr_issuerBindings = [\<lparr>bi_tenantId = ''a'', bi_issuerBindingId = ''b'', bi_issuer = ''c'',
        bi_issuerKind = Oidc, bi_isPrimary = True\<rparr>],
     sr_users = us,
     sr_subjectBindings = [\<lparr>sb_tenantId = ''a'', sb_issuerBindingId = ''b'', sb_externalSubjectId = ''a'',
        sb_userId = u, sb_subjectHashSha256 = ''c'', sb_subjectSource = FromScim,
        sb_firstSeenAtMillis = 5, sb_lastSeenAtMillis = 5\<rparr>]\<rparr>"

definition sampleUser :: "string \<Rightarrow> UserRecord" where
  "sampleUser u = \<lparr>us_tenantId = ''a'', us_userId = u, us_email = ''a@b'', us_displayName = ''a'',
     us_status = Active, us_createdAtMillis = 5, us_updatedAtMillis = 5\<rparr>"

definition sampleRoute :: TenantRoutingResponse where
  "sampleRoute = \<lparr>resolved = True, routedTenantId = Some ''a'', routeSource = Some Issuer_binding,
       denyReasonCode = None, candidateTenantIds = [''a''], routedAtMillis = 5\<rparr>"

lemma sample_route:
  "assertResolved (localeCompare sampleHost) 5 (sessionRoutingRequest (sampleSession us u) ''c'') = Succeed sampleRoute"
  by (simp add: assertResolved_def evaluateTenantRoutingDecision_def sessionRoutingRequest_def sampleSession_def
      decideRoute_def claimCandidatesOf_def pushCandidateIfKnown_def canonicalizeTenantIds_def dedupeTenantIds_def
      normalizeLookupValue_def optionList_def Let_def sampleRoute_def)

lemma sampleSession_fields:
  "sr_issuer (sampleSession us u) = ''c''" "sr_externalSubjectId (sampleSession us u) = ''a''"
  "sr_occurredAtMillis (sampleSession us u) = 5" "sr_sessionTtlMillis (sampleSession us u) = Some 5"
  by (simp_all add: sampleSession_def)

definition sampleSessionAnswer :: "UserRecord list \<Rightarrow> string \<Rightarrow> SessionResponse" where
  "sampleSessionAnswer us u =
     projr (openSession sampleHost (sampleSession us u) ''c'' ''a'' 5 (jint 5) sampleRoute)"

lemma sample_session_ok:
  assumes "find (\<lambda>x. us_tenantId x = ''a'' \<and> us_userId x = u) us = Some x" "us_status x \<noteq> Disabled"
  shows "resolveSessionBoundary sampleHost (assertResolved (localeCompare sampleHost) 5) None (sampleSession us u)
     = Succeed (sampleSessionAnswer us u)"
    and "ss_tenantId (sampleSessionAnswer us u) = ''a''" "ss_userId (sampleSessionAnswer us u) = us_userId x"
    and "ss_expiresAtMillis (sampleSessionAnswer us u) = jadd (jint 5) (jint 5)"
proof -
  let ?r = "openSession sampleHost (sampleSession us u) ''c'' ''a'' 5 (jint 5) sampleRoute"
  have "\<exists>s. ?r = Inr s \<and> ss_tenantId s = ''a'' \<and> ss_userId s = us_userId x
      \<and> ss_expiresAtMillis s = jadd (jint 5) (jint 5)"
    using assms by (simp add: openSession_def sampleSession_def sampleRoute_def Let_def)
  then have s: "?r = Inr (sampleSessionAnswer us u)" "ss_tenantId (sampleSessionAnswer us u) = ''a''"
    "ss_userId (sampleSessionAnswer us u) = us_userId x"
    "ss_expiresAtMillis (sampleSessionAnswer us u) = jadd (jint 5) (jint 5)"
    unfolding sampleSessionAnswer_def by (metis sum.sel(2))+
  show "resolveSessionBoundary sampleHost (assertResolved (localeCompare sampleHost) 5) None (sampleSession us u)
     = Succeed (sampleSessionAnswer us u)"
    by (simp add: resolveSessionBoundary_def sampleSession_fields sample_route s(1))
  show "ss_tenantId (sampleSessionAnswer us u) = ''a''" "ss_userId (sampleSessionAnswer us u) = us_userId x"
    "ss_expiresAtMillis (sampleSessionAnswer us u) = jadd (jint 5) (jint 5)"
    by (rule s)+
qed

theorem session_isolation_witness:
  "ss_tenantId (sampleSessionAnswer [sampleUser ''b''] ''b'') \<in> {''a''}
   \<and> ss_expiresAtMillis (sampleSessionAnswer [sampleUser ''b''] ''b'') = jint 10"
proof -
  have "find (\<lambda>x. us_tenantId x = ''a'' \<and> us_userId x = ''b'') [sampleUser ''b''] = Some (sampleUser ''b'')"
    "us_status (sampleUser ''b'') \<noteq> Disabled"
    by (simp_all add: sampleUser_def)
  note run = sample_session_ok(1) [OF this]
  note iso = session_isolation [OF run]
  have "ss_tenantId (sampleSessionAnswer [sampleUser ''b''] ''b'') \<in> tenantId ` set (sr_tenants (sampleSession [sampleUser ''b''] ''b''))"
    using iso by blast
  moreover have "ss_expiresAtMillis (sampleSessionAnswer [sampleUser ''b''] ''b'') = jint (5 + max 1 5)"
    using iso by (simp add: sampleSession_fields)
  ultimately show ?thesis by (simp add: sampleSession_def)
qed

theorem no_session_after_disable_witness:
  "\<not> (ss_tenantId (sampleSessionAnswer (ur_users (sampleUserAnswer [sampleUser ''c''] DisableUser 1)) ''c'') = ''a''
      \<and> ss_userId (sampleSessionAnswer (ur_users (sampleUserAnswer [sampleUser ''c''] DisableUser 1)) ''c'') = ''b'')"
proof -
  let ?us = "ur_users (sampleUserAnswer [sampleUser ''c''] DisableUser 1)"
  have "find (sameUser ''a'' ''c'') ?us = Some (sampleUser ''c'')"
    by (simp add: sampleUserAnswer_def scimUserUpsert_def sampleUserEvent_def Let_def sameUser_def sampleUser_def
        replaceOrPush_def)
  then have "find (\<lambda>x. us_tenantId x = ''a'' \<and> us_userId x = ''c'') ?us = Some (sampleUser ''c'')"
    by (simp only: sameUser_def [abs_def])
  moreover have "us_status (sampleUser ''c'') \<noteq> Disabled" by (simp add: sampleUser_def)
  ultimately have "resolveSessionBoundary sampleHost (assertResolved (localeCompare sampleHost) 5) None
      (sampleSession ?us ''c'') = Succeed (sampleSessionAnswer ?us ''c'')"
    by (rule sample_session_ok(1))
  from no_session_after_disable [OF sample_user_ok _ sample_user_fresh _ this] show ?thesis
    by (simp add: sampleUserEvent_def sampleSession_def)
qed

lemma sample_deliver:
  "deliver sampleHost (UserEvent (sampleUserEvent [] CreateUser 1)) emptyStore
   = (Succeed (UserAnswer (sampleUserAnswer [] CreateUser 1)),
      emptyStore\<lparr>st_users := ur_users (sampleUserAnswer [] CreateUser 1),
        st_subjects := ur_subjectBindings (sampleUserAnswer [] CreateUser 1),
        st_checkpoints := ur_checkpoints (sampleUserAnswer [] CreateUser 1)\<rparr>)"
proof -
  have "withUserLists emptyStore (sampleUserEvent [] CreateUser 1) = sampleUserEvent [] CreateUser 1"
    by (simp add: withUserLists_def emptyStore_def sampleUserEvent_def)
  then show ?thesis by (simp add: sample_user_ok)
qed

theorem sync_at_most_once_witness:
  "\<exists>s1. deliver sampleHost (UserEvent (sampleUserEvent [] CreateUser 1)) emptyStore
       = (Succeed (UserAnswer (sampleUserAnswer [] CreateUser 1)), s1)
     \<and> storeView sampleHost (snd (deliver sampleHost (UserEvent (sampleUserEvent [] CreateUser 1))
          (snd (deliver sampleHost (GroupEvent sampleGroupEvent) s1))))
       = storeView sampleHost (snd (deliver sampleHost (GroupEvent sampleGroupEvent) s1))"
  using sync_at_most_once [OF sample_deliver, of "[GroupEvent sampleGroupEvent]"] sample_deliver
  by (simp only: runAll.simps) blast

theorem checkpoints_advance_witness:
  "\<exists>s1 e. deliver sampleHost (UserEvent (sampleUserEvent [] CreateUser 1)) emptyStore
       = (Succeed (UserAnswer (sampleUserAnswer [] CreateUser 1)), s1)
     \<and> deliver sampleHost (UserEvent (sampleUserEvent [] DisableUser 0)) s1 = (Die e, s1)"
proof -
  have "eventKey (UserEvent (sampleUserEvent [] DisableUser 0)) = eventKey (UserEvent (sampleUserEvent [] CreateUser 1))
    \<and> eventSequence (UserEvent (sampleUserEvent [] DisableUser 0)) < eventSequence (UserEvent (sampleUserEvent [] CreateUser 1))"
    by (simp add: sampleUserEvent_def)
  then show ?thesis
    using checkpoints_advance [OF sample_deliver, of "[]"] sample_deliver by (simp only: runAll.simps) blast
qed



definition sampleAuthorization :: "string \<Rightarrow> IdentityAuthorizationRequest" where
  "sampleAuthorization i = \<lparr>aq_tenantId = ''a'', aq_userId = ''b'', aq_action = MemoryPromote,
     aq_resourceTenantId = ''a'', aq_resourceProjectId = Some ''c'',
     aq_userRoleAssignments = [\<lparr>ra_tenantId = ''a'', ra_userId = ''b'', ra_roleId = i, ra_assignedAtMillis = 5,
        ra_assignedByUserId = None\<rparr>], aq_projectMemberships = []\<rparr>"

theorem stored_roles_decide_witness:
  "\<exists>x. evaluateAuthorization sampleHost (evaluate 5) (sampleAuthorization ''lead'') = Succeed x
     \<and> as_allowed x \<and> as_role x = Lead"
proof -
  have roles: "heldRoles (sampleAuthorization ''lead'') = {Lead}"
  proof -
    have "heldRoleIds (sampleAuthorization ''lead'') = {''lead''}"
      by (auto simp: heldRoleIds_def sampleAuthorization_def)
    moreover have "toAuthorizationRoleFromRoleId (Some ''lead'') = Some Lead"
      by (simp add: toAuthorizationRoleFromRoleId_def trim_def isWhiteSpace_def toLowerCase_def lowerChar_def Let_def)
    ultimately show ?thesis by (simp add: heldRoles_def)
  qed
  have "knownAction (aq_action (sampleAuthorization ''lead''))"
    and "\<And>p. aq_resourceProjectId (sampleAuthorization ''lead'') = Some p \<Longrightarrow> trim p \<noteq> []"
    by (auto simp: sampleAuthorization_def knownAction_def)
  from stored_roles_decide [OF this, of sampleHost 5] roles show ?thesis
    by (auto simp: sampleAuthorization_def resolvePermission_def)
qed

end
