(* ===== verification/Federation.thy ===== *)
theory Federation
  imports Contracts
begin

text \<open>
  Federated sharing of memories (apps/api/src/federation): the canary decision on one share
  (canary-routing.ts) and the shadow evaluation that compares what would be served with what
  is served (shadow-evaluator.ts). The schema decoders are third-party code and parameters;
  on a value of the schema's type a decoder returns the value. Scores are finite numbers, the
  only ones a JSON request can carry; for finite binary64 values the sign of a difference is
  the sign of the comparison, so \<open>right.score - left.score\<close> is the descending order.
\<close>

section \<open>The canary decision (canary-routing.ts)\<close>

datatype FederationShareScope = ShareCommon | ShareProject | ShareJobRole | ShareUser

datatype FederationCanaryDenyReasonCode = Cross_tenant_forbidden | Space_not_allowlisted
  | Share_not_allowlisted | Selector_mismatch | Policy_deny

datatype FederationDecision = Allow | Deny

datatype FederationEventType = ShareAllowed | ShareDenied

record FederationCanaryRouteRequest =
  fc_actorTenantId :: string
  fc_sourceTenantId :: string
  fc_targetTenantId :: string
  fc_sourceSpaceId :: string
  fc_targetSpaceId :: string
  fc_shareId :: string
  fc_shareScope :: FederationShareScope
  fc_allowlistedTargetSpaceIds :: "string list"
  fc_allowlistedShareIds :: "string list"
  fc_selectorMatches :: bool
  fc_policyAllows :: bool
  fc_userMappingApproved :: "bool option"
  fc_evaluatedAtMillis :: rat

record FederationCanaryAuditEvent =
  fa_eventType :: FederationEventType
  fa_decision :: FederationDecision
  fa_reasonCode :: "FederationCanaryDenyReasonCode option"
  fa_actorTenantId :: string
  fa_sourceTenantId :: string
  fa_targetTenantId :: string
  fa_sourceSpaceId :: string
  fa_targetSpaceId :: string
  fa_shareId :: string
  fa_shareScope :: FederationShareScope
  fa_evaluatedAtMillis :: rat

record FederationCanaryRouteDecision =
  fd_decision :: FederationDecision
  fd_reasonCode :: "FederationCanaryDenyReasonCode option"
  fd_auditEvent :: FederationCanaryAuditEvent

definition includesString :: "string list \<Rightarrow> string \<Rightarrow> bool" where
  "includesString values candidate = (candidate \<in> set values)"

definition evaluateFederationCanaryReasonCode ::
  "FederationCanaryRouteRequest \<Rightarrow> FederationCanaryDenyReasonCode option" where
  "evaluateFederationCanaryReasonCode request =
    (if fc_actorTenantId request \<noteq> fc_sourceTenantId request
        \<or> fc_actorTenantId request \<noteq> fc_targetTenantId request then Some Cross_tenant_forbidden
     else if \<not> includesString (fc_allowlistedTargetSpaceIds request) (fc_targetSpaceId request)
     then Some Space_not_allowlisted
     else if \<not> includesString (fc_allowlistedShareIds request) (fc_shareId request)
     then Some Share_not_allowlisted
     else if fc_shareScope request = ShareUser \<and> fc_userMappingApproved request \<noteq> Some True
     then Some Selector_mismatch
     else if \<not> fc_selectorMatches request then Some Selector_mismatch
     else if \<not> fc_policyAllows request then Some Policy_deny
     else None)"

definition buildFederationCanaryAuditEvent ::
  "FederationCanaryRouteRequest \<Rightarrow> FederationCanaryDenyReasonCode option \<Rightarrow> FederationCanaryAuditEvent" where
  "buildFederationCanaryAuditEvent request reason =
     \<lparr>fa_eventType = (if reason = None then ShareAllowed else ShareDenied),
      fa_decision = (if reason = None then Allow else Deny), fa_reasonCode = reason,
      fa_actorTenantId = fc_actorTenantId request, fa_sourceTenantId = fc_sourceTenantId request,
      fa_targetTenantId = fc_targetTenantId request, fa_sourceSpaceId = fc_sourceSpaceId request,
      fa_targetSpaceId = fc_targetSpaceId request, fa_shareId = fc_shareId request,
      fa_shareScope = fc_shareScope request, fa_evaluatedAtMillis = fc_evaluatedAtMillis request\<rparr>"

definition evaluateFederationCanaryRoute ::
  "('i \<Rightarrow> (ContractValidationError, FederationCanaryRouteRequest) result) \<Rightarrow> 'i
    \<Rightarrow> (ContractValidationError, FederationCanaryRouteDecision) exit" where
  "evaluateFederationCanaryRoute decode input = effect_flatMap (effect_try (decode input)) (\<lambda>request.
     let reason = evaluateFederationCanaryReasonCode request in
     Succeed \<lparr>fd_decision = (if reason = None then Allow else Deny), fd_reasonCode = reason,
       fd_auditEvent = buildFederationCanaryAuditEvent request reason\<rparr>)"

section \<open>The shadow evaluation (shadow-evaluator.ts)\<close>

datatype FederationCandidateScope = ScopeLocal | ScopeProject | ScopeJobRole | ScopeCommon | ScopeUser

record FederationCandidate =
  fk_memoryId :: string
  fk_digest :: string
  fk_statement :: string
  fk_score :: rat
  fk_updatedAtMillis :: rat
  fk_sourceSpaceId :: string
  fk_scope :: FederationCandidateScope
  fk_shareId :: "string option"
  fk_policyDecisionId :: "string option"

text \<open>The fields the source copies one by one into the canary request are kept as one record.\<close>

record FederationShadowReadRequest =
  fs_canary :: FederationCanaryRouteRequest
  fs_localCandidates :: "FederationCandidate list"
  fs_federatedCandidates :: "FederationCandidate list"

datatype FederationOrigin = OriginLocal | OriginFederated

record FederationProvenance =
  fp_origin :: FederationOrigin
  fp_sourceSpaceId :: string
  fp_shareId :: "string option"
  fp_policyDecisionId :: "string option"

record FederationShadowReadCandidate =
  fr_memoryId :: string
  fr_digest :: string
  fr_statement :: string
  fr_score :: rat
  fr_updatedAtMillis :: rat
  fr_sourceSpaceId :: string
  fr_scope :: FederationCandidateScope
  fr_provenance :: FederationProvenance

record FederationSideEffects =
  fx_writeCount :: int
  fx_persistedAuditEventCount :: int
  fx_mutatedState :: bool

record FederationShadowReadReport =
  fo_decision :: FederationDecision
  fo_reasonCode :: "FederationCanaryDenyReasonCode option"
  fo_servedCandidates :: "FederationShadowReadCandidate list"
  fo_shadowCandidates :: "FederationShadowReadCandidate list"
  fo_auditPreview :: FederationCanaryAuditEvent
  fo_sideEffects :: FederationSideEffects

fun scopePrecedence :: "FederationCandidateScope \<Rightarrow> int" where
  "scopePrecedence ScopeLocal = 0"
| "scopePrecedence ScopeUser = 1"
| "scopePrecedence ScopeProject = 2"
| "scopePrecedence ScopeJobRole = 3"
| "scopePrecedence ScopeCommon = 4"

definition compareShadowCandidates :: "collator \<Rightarrow> FederationCandidate comparator" where
  "compareShadowCandidates lc =
     thenBy (ascending (scopePrecedence \<circ> fk_scope))
    (thenBy (descending fk_score)
    (thenBy (descending fk_updatedAtMillis)
    (thenBy (key fk_memoryId lc) (key fk_sourceSpaceId lc))))"

definition normalizeShadowCandidate :: "FederationCandidate \<Rightarrow> FederationShadowReadCandidate" where
  "normalizeShadowCandidate candidate =
     \<lparr>fr_memoryId = fk_memoryId candidate, fr_digest = fk_digest candidate,
      fr_statement = fk_statement candidate, fr_score = fk_score candidate,
      fr_updatedAtMillis = fk_updatedAtMillis candidate, fr_sourceSpaceId = fk_sourceSpaceId candidate,
      fr_scope = fk_scope candidate,
      fr_provenance = \<lparr>fp_origin = (if fk_scope candidate = ScopeLocal then OriginLocal else OriginFederated),
        fp_sourceSpaceId = fk_sourceSpaceId candidate, fp_shareId = fk_shareId candidate,
        fp_policyDecisionId = fk_policyDecisionId candidate\<rparr>\<rparr>"

text \<open>The Map from digests to candidates, as the list of its values: every value is stored under
  its own digest, in insertion order.\<close>

definition selectByDigest :: "FederationCandidate \<Rightarrow> FederationCandidate list \<Rightarrow> FederationCandidate list" where
  "selectByDigest candidate selected =
     (if fk_digest candidate \<in> fk_digest ` set selected then selected else selected @ [candidate])"

definition deduplicateShadowCandidates ::
  "collator \<Rightarrow> FederationCandidate list \<Rightarrow> FederationShadowReadCandidate list" where
  "deduplicateShadowCandidates lc candidates =
    (let selectedByDigest = fold selectByDigest (arraySort (compareShadowCandidates lc) candidates) []
     in map normalizeShadowCandidate (arraySort (compareShadowCandidates lc) selectedByDigest))"

definition buildShadowReport ::
  "collator \<Rightarrow> FederationCanaryRouteDecision \<Rightarrow> FederationShadowReadRequest \<Rightarrow> FederationShadowReadReport" where
  "buildShadowReport lc canaryDecision request =
     \<lparr>fo_decision = fd_decision canaryDecision, fo_reasonCode = fd_reasonCode canaryDecision,
      fo_servedCandidates = deduplicateShadowCandidates lc (fs_localCandidates request),
      fo_shadowCandidates = (if fd_decision canaryDecision = Allow
        then deduplicateShadowCandidates lc (fs_localCandidates request @ fs_federatedCandidates request) else []),
      fo_auditPreview = fd_auditEvent canaryDecision,
      fo_sideEffects = \<lparr>fx_writeCount = 0, fx_persistedAuditEventCount = 0, fx_mutatedState = False\<rparr>\<rparr>"

definition evaluateShadowFederationRead ::
  "collator \<Rightarrow> ('i \<Rightarrow> (ContractValidationError, FederationShadowReadRequest) result)
    \<Rightarrow> (FederationCanaryRouteRequest \<Rightarrow> (ContractValidationError, FederationCanaryRouteRequest) result)
    \<Rightarrow> 'i \<Rightarrow> (ContractValidationError, FederationShadowReadReport) exit" where
  "evaluateShadowFederationRead lc decode decodeCanary input =
     effect_flatMap (effect_try (decode input)) (\<lambda>request.
     effect_flatMap (evaluateFederationCanaryRoute decodeCanary (fs_canary request)) (\<lambda>canaryDecision.
       Succeed (buildShadowReport lc canaryDecision request)))"

section \<open>Deduplication\<close>

lemma selectByDigest_fold:
  "fold selectByDigest xs sel = sel @ filter (\<lambda>x. fk_digest x \<notin> fk_digest ` set sel) (firstPerKey fk_digest xs)"
proof (induction xs arbitrary: sel)
  case Nil
  then show ?case by simp
next
  case (Cons x xs)
  show ?case
  proof (cases "fk_digest x \<in> fk_digest ` set sel")
    case True
    have "filter (\<lambda>y. fk_digest y \<notin> fk_digest ` set sel) (filter (\<lambda>y. fk_digest y \<noteq> fk_digest x) (firstPerKey fk_digest xs))
        = filter (\<lambda>y. fk_digest y \<notin> fk_digest ` set sel) (firstPerKey fk_digest xs)"
      unfolding filter_filter using True by (intro filter_cong refl) metis
    with True Cons.IH show ?thesis by (simp add: selectByDigest_def)
  next
    case False
    have "filter (\<lambda>y. fk_digest y \<notin> fk_digest ` set sel) (filter (\<lambda>y. fk_digest y \<noteq> fk_digest x) (firstPerKey fk_digest xs))
        = filter (\<lambda>y. fk_digest y \<notin> insert (fk_digest x) (fk_digest ` set sel)) (firstPerKey fk_digest xs)"
      unfolding filter_filter by (intro filter_cong refl) blast
    with False Cons.IH [of "sel @ [x]"] show ?thesis by (simp add: selectByDigest_def)
  qed
qed

text \<open>The best candidates, one per digest, in order; sorting them again changes nothing.\<close>

definition bestPerDigest :: "collator \<Rightarrow> FederationCandidate list \<Rightarrow> FederationCandidate list" where
  "bestPerDigest lc cs = firstPerKey fk_digest (arraySort (compareShadowCandidates lc) cs)"

lemma sorted_best: "arraySorted (compareShadowCandidates lc) (bestPerDigest lc cs)"
  by (simp add: bestPerDigest_def sorted_firstPerKey)

lemma deduplicate_best: "deduplicateShadowCandidates lc cs = map normalizeShadowCandidate (bestPerDigest lc cs)"
  using sort_of_sorted [OF sorted_best [of lc cs]]
  by (simp add: deduplicateShadowCandidates_def selectByDigest_fold bestPerDigest_def Let_def)

lemma bestPerDigest_spec:
  "set (bestPerDigest lc cs) \<subseteq> set cs"
  "distinct (map fk_digest (bestPerDigest lc cs))"
  "x \<in> set cs \<Longrightarrow> \<exists>y\<in>set (bestPerDigest lc cs). fk_digest y = fk_digest x \<and> compare (compareShadowCandidates lc) y x \<noteq> Greater"
  using set_firstPerKey [of fk_digest "arraySort (compareShadowCandidates lc) cs"]
    firstPerKey_least [OF sorted_sort, of x "compareShadowCandidates lc" cs fk_digest]
  by (auto simp: bestPerDigest_def)

section \<open>Properties\<close>

text \<open>The conditions on a share, in the order in which they are reported.\<close>

definition shareConditions :: "FederationCanaryRouteRequest \<Rightarrow> (bool \<times> FederationCanaryDenyReasonCode) list" where
  "shareConditions q =
    [(fc_sourceTenantId q = fc_actorTenantId q \<and> fc_targetTenantId q = fc_actorTenantId q, Cross_tenant_forbidden),
     (fc_targetSpaceId q \<in> set (fc_allowlistedTargetSpaceIds q), Space_not_allowlisted),
     (fc_shareId q \<in> set (fc_allowlistedShareIds q), Share_not_allowlisted),
     ((fc_shareScope q = ShareUser \<longrightarrow> fc_userMappingApproved q = Some True) \<and> fc_selectorMatches q, Selector_mismatch),
     (fc_policyAllows q, Policy_deny)]"

lemma reason_conditions:
  "evaluateFederationCanaryReasonCode q = map_option snd (find (\<lambda>c. \<not> fst c) (shareConditions q))"
  by (auto simp: evaluateFederationCanaryReasonCode_def shareConditions_def includesString_def)

lemma no_reason:
  "evaluateFederationCanaryReasonCode q = None \<longleftrightarrow> (\<forall>c\<in>set (shareConditions q). fst c)"
  by (simp only: reason_conditions option.map_disc_iff find_None_iff) blast

text \<open>C31: The canary fails closed. On a decoded request the decision is allow exactly when every
  condition on the share holds, and otherwise deny with the reason of the first condition that
  fails; the audit event carries the decision, its reason and the identities of the request.\<close>

theorem canary_fail_closed:
  assumes "decode i = Inr q"
  shows "\<exists>d. evaluateFederationCanaryRoute decode i = Succeed d
    \<and> (fd_decision d = Allow \<longleftrightarrow> (\<forall>c\<in>set (shareConditions q). fst c))
    \<and> fd_reasonCode d = map_option snd (find (\<lambda>c. \<not> fst c) (shareConditions q))
    \<and> fa_decision (fd_auditEvent d) = fd_decision d \<and> fa_reasonCode (fd_auditEvent d) = fd_reasonCode d
    \<and> (fa_eventType (fd_auditEvent d) = ShareAllowed \<longleftrightarrow> fd_decision d = Allow)
    \<and> fa_actorTenantId (fd_auditEvent d) = fc_actorTenantId q \<and> fa_sourceTenantId (fd_auditEvent d) = fc_sourceTenantId q
    \<and> fa_targetTenantId (fd_auditEvent d) = fc_targetTenantId q \<and> fa_shareId (fd_auditEvent d) = fc_shareId q"
proof -
  note none = no_reason [of q, unfolded reason_conditions]
  show ?thesis
    using assms none
    by (simp add: evaluateFederationCanaryRoute_def buildFederationCanaryAuditEvent_def reason_conditions Let_def)
qed

text \<open>The shadow evaluation is read only and serves local memories only. With a decoder that
  returns values of the schema's type, the report serves the best local candidate of every
  digest whatever is federated and whatever the decision, computes no shadow answer when the
  share is denied, records no write, and every shadow answer has distinct digests, holds only
  offered candidates, and for each offered candidate one of its digest that is not worse.\<close>

theorem shadow_serves_local:
  assumes "decode i = Inr q" "\<And>c. decodeCanary c = Inr c"
  shows "\<exists>r. evaluateShadowFederationRead lc decode decodeCanary i = Succeed r
    \<and> fo_servedCandidates r = map normalizeShadowCandidate (bestPerDigest lc (fs_localCandidates q))
    \<and> (fo_decision r = Deny \<longrightarrow> fo_shadowCandidates r = [])
    \<and> (fo_decision r = Allow \<longrightarrow> (\<forall>c\<in>set (shareConditions (fs_canary q)). fst c)
         \<and> (\<exists>best. fo_shadowCandidates r = map normalizeShadowCandidate best
              \<and> arraySorted (compareShadowCandidates lc) best \<and> distinct (map fk_digest best)
              \<and> set best \<subseteq> set (fs_localCandidates q) \<union> set (fs_federatedCandidates q)
              \<and> (\<forall>x\<in>set (fs_localCandidates q) \<union> set (fs_federatedCandidates q).
                   \<exists>y\<in>set best. fk_digest y = fk_digest x \<and> compare (compareShadowCandidates lc) y x \<noteq> Greater)))
    \<and> fx_writeCount (fo_sideEffects r) = 0 \<and> fx_persistedAuditEventCount (fo_sideEffects r) = 0
    \<and> \<not> fx_mutatedState (fo_sideEffects r)"
proof -
  obtain d where d: "evaluateFederationCanaryRoute decodeCanary (fs_canary q) = Succeed d"
    "fd_decision d = Allow \<longleftrightarrow> (\<forall>c\<in>set (shareConditions (fs_canary q)). fst c)"
  proof -
    have "\<exists>d. evaluateFederationCanaryRoute decodeCanary (fs_canary q) = Succeed d
        \<and> (fd_decision d = Allow \<longleftrightarrow> evaluateFederationCanaryReasonCode (fs_canary q) = None)"
      by (simp add: evaluateFederationCanaryRoute_def assms(2) Let_def)
    then show thesis using that unfolding no_reason by blast
  qed
  have "evaluateShadowFederationRead lc decode decodeCanary i = Succeed (buildShadowReport lc d q)"
    by (simp add: evaluateShadowFederationRead_def assms(1) d(1))
  moreover have "fo_shadowCandidates (buildShadowReport lc d q) =
      (if fd_decision d = Allow then map normalizeShadowCandidate
         (bestPerDigest lc (fs_localCandidates q @ fs_federatedCandidates q)) else [])"
    by (simp add: buildShadowReport_def deduplicate_best)
  ultimately show ?thesis
    using d(2) sorted_best [of lc "fs_localCandidates q @ fs_federatedCandidates q"]
      bestPerDigest_spec [where lc = lc and cs = "fs_localCandidates q @ fs_federatedCandidates q"]
    by (intro exI [of _ "buildShadowReport lc d q"]) (auto simp: buildShadowReport_def deduplicate_best)
qed

section \<open>Concrete runs\<close>

definition sampleShare :: "string \<Rightarrow> FederationCanaryRouteRequest" where
  "sampleShare t = \<lparr>fc_actorTenantId = ''a'', fc_sourceTenantId = ''a'', fc_targetTenantId = t,
     fc_sourceSpaceId = ''b'', fc_targetSpaceId = ''c'', fc_shareId = ''s'', fc_shareScope = ShareProject,
     fc_allowlistedTargetSpaceIds = [''c''], fc_allowlistedShareIds = [''s''], fc_selectorMatches = True,
     fc_policyAllows = True, fc_userMappingApproved = None, fc_evaluatedAtMillis = 5\<rparr>"

theorem canary_fail_closed_witness:
  "(\<exists>d. evaluateFederationCanaryRoute Inr (sampleShare ''a'') = Succeed d \<and> fd_decision d = Allow)
   \<and> (\<exists>d. evaluateFederationCanaryRoute Inr (sampleShare ''b'') = Succeed d
        \<and> fd_reasonCode d = Some Cross_tenant_forbidden)"
  using canary_fail_closed [of Inr "sampleShare ''a''" "sampleShare ''a''"]
    canary_fail_closed [of Inr "sampleShare ''b''" "sampleShare ''b''"]
  by (auto simp: shareConditions_def sampleShare_def)

theorem shadow_serves_local_witness:
  "\<exists>r. evaluateShadowFederationRead (localeCompare sampleHost) Inr Inr
       \<lparr>fs_canary = sampleShare ''b'', fs_localCandidates = [], fs_federatedCandidates = []\<rparr> = Succeed r
     \<and> fx_writeCount (fo_sideEffects r) = 0"
proof -
  let ?q = "\<lparr>fs_canary = sampleShare ''b'', fs_localCandidates = [], fs_federatedCandidates = []\<rparr>"
  from shadow_serves_local [where decode = Inr and decodeCanary = Inr and i = ?q and q = ?q
      and lc = "localeCompare sampleHost"] show ?thesis by auto
qed

end
