(* ===== verification/Ace_Pipeline.thy ===== *)
theory Ace_Pipeline
  imports Js_Number
begin

text \<open>
  The ACE pipeline of the API (apps/api/src/ace): the reflector proposes rule candidates from
  events (reflector.ts), the validator grades their evidence (validator.ts), the curation
  picks one winner per conflict key (curation-tiebreaks.ts), and the context pack selects
  events and chronology notes for a query (context-pack.ts).

  Numbers that reach a comparison here (confidence, evidence depth, contradiction count,
  freshness) are finite; an absent contradiction count or freshness is positive infinity, as in
  the source. \<open>Date.parse\<close> is the host's, \<open>None\<close> standing for NaN.
\<close>

section \<open>The reflector\<close>

record ReflectorEvent =
  rv_eventId :: string
  rv_type :: string
  rv_source :: string
  rv_content :: string
  rv_timestamp :: "string option"

text \<open>What the reflector passes to the injected \<open>normalizeRuleCandidate\<close>.\<close>

record RuleCandidateDraft =
  dr_statement :: string
  dr_sourceEventId :: string
  dr_sourceEventIds :: "string list"
  dr_evidenceEventIds :: "string list"
  dr_contradictionEventIds :: "string list"
  dr_scope :: string
  dr_confidence :: jsnum

record ReflectedCandidate =
  rc_candidateId :: string
  rc_ruleId :: string
  rc_statement :: string
  rc_sourceEventId :: string
  rc_sourceEventIds :: "string list"
  rc_evidenceEventIds :: "string list"
  rc_contradictionEventIds :: "string list"
  rc_scope :: string
  rc_confidence :: rat

definition MAX_REFLECTED_CANDIDATES :: int where
  "MAX_REFLECTED_CANDIDATES = 32"

definition stringOr :: "string option \<Rightarrow> string" where
  "stringOr s = (case s of None \<Rightarrow> [] | Some x \<Rightarrow> x)"

definition reflectorOrder :: "collator \<Rightarrow> (ReflectorEvent \<times> nat) comparator" where
  "reflectorOrder lc = thenBy (descending snd)
     (thenBy (reversed (key (\<lambda>e. stringOr (rv_timestamp (fst e))) lc)) (key (rv_eventId \<circ> fst) lc))"

definition draftOf :: "ReflectorEvent \<Rightarrow> RuleCandidateDraft" where
  "draftOf event =
     \<lparr>dr_statement = ''Prefer source='' @ rv_source event @ '' for type='' @ rv_type event,
      dr_sourceEventId = rv_eventId event, dr_sourceEventIds = [rv_eventId event],
      dr_evidenceEventIds = [rv_eventId event], dr_contradictionEventIds = [], dr_scope = ''global'',
      dr_confidence = round64 (6 / 10)\<rparr>"

definition conflictKey :: "ReflectedCandidate \<Rightarrow> string" where
  "conflictKey candidate = rc_scope candidate @ ''::'' @ rc_statement candidate"

text \<open>The loop, with its \<open>continue\<close> and \<open>break\<close>: the keys seen so far and the candidates kept.\<close>

fun reflectLoop ::
  "(RuleCandidateDraft \<Rightarrow> ReflectedCandidate) \<Rightarrow> int \<Rightarrow> (ReflectorEvent \<times> nat) list \<Rightarrow> string set
    \<Rightarrow> (nat \<times> ReflectedCandidate) list \<Rightarrow> (nat \<times> ReflectedCandidate) list" where
  "reflectLoop normalizeRule bound [] seen candidates = candidates"
| "reflectLoop normalizeRule bound ((event, index) # rest) seen candidates =
    (let candidate = normalizeRule (draftOf event) in
     if conflictKey candidate \<in> seen then reflectLoop normalizeRule bound rest seen candidates
     else let next = candidates @ [(index, candidate)] in
       if bound \<le> int (length next) then next
       else reflectLoop normalizeRule bound rest (insert (conflictKey candidate) seen) next)"

definition boundedMaxOf :: "int \<Rightarrow> int" where
  "boundedMaxOf maxCandidates = min (max maxCandidates 1) MAX_REFLECTED_CANDIDATES"

definition buildReflectedCandidates ::
  "collator \<Rightarrow> (RuleCandidateDraft \<Rightarrow> ReflectedCandidate) \<Rightarrow> ReflectorEvent list \<Rightarrow> int \<Rightarrow> ReflectedCandidate list" where
  "buildReflectedCandidates lc normalizeRule events maxCandidates =
    (let prioritized = arraySort (reflectorOrder lc) (zip events [0..<length events]);
         candidates = reflectLoop normalizeRule (boundedMaxOf maxCandidates) prioritized {} []
     in map snd (arraySort (ascending fst) candidates))"

section \<open>The validator\<close>

record ValidatorEvent =
  ve_eventId :: string
  ve_timestamp :: "string option"

record ValidatorCandidate =
  vc_candidateId :: string
  vc_statement :: string
  vc_sourceEventId :: string
  vc_sourceEventIds :: "string list"
  vc_evidenceEventIds :: "string list"
  vc_contradictionEventIds :: "string list"

record CandidateValidation =
  cv_candidateId :: string
  cv_valid :: bool
  cv_evidenceEventId :: "string option"
  cv_evidenceEventIds :: "string list"
  cv_evidenceDepth :: int
  cv_contradictionCount :: int
  cv_freshnessDays :: "jsnum option"
  cv_reasonCodes :: "string list"

definition MILLISECONDS_PER_DAY :: int where
  "MILLISECONDS_PER_DAY = 24 * 60 * 60 * 1000"

text \<open>\<open>Math.floor\<close>\<close>

fun jfloor :: "jsnum \<Rightarrow> jsnum" where
  "jfloor (JFin r) = jint \<lfloor>r\<rfloor>"
| "jfloor x = x"

text \<open>An absent or an empty timestamp is falsy.\<close>

definition differenceInDays ::
  "(string \<Rightarrow> int option) \<Rightarrow> string \<Rightarrow> string option \<Rightarrow> jsnum option" where
  "differenceInDays dateParse evaluatedAt evidenceTimestamp =
     (case evidenceTimestamp of
        None \<Rightarrow> None
      | Some ts \<Rightarrow>
          if ts = [] then None
          else (case (dateParse evaluatedAt, dateParse ts) of
             (Some evaluatedAtMs, Some evidenceMs) \<Rightarrow>
               Some (jmax (jint 0) (jfloor (jdiv (jsub (jint evaluatedAtMs) (jint evidenceMs)) (jint MILLISECONDS_PER_DAY))))
           | _ \<Rightarrow> None))"

definition sortEventIds :: "collator \<Rightarrow> string list \<Rightarrow> string list" where
  "sortEventIds lc eventIds = arraySort lc eventIds"

text \<open>\<open>new Map(events.map(e => [e.eventId, e]))\<close>: the last event of an id counts.\<close>

definition eventByIdOf :: "ValidatorEvent list \<Rightarrow> string \<Rightarrow> ValidatorEvent option" where
  "eventByIdOf events i = find (\<lambda>e. ve_eventId e = i) (rev events)"

definition latestTimestamp :: "collator \<Rightarrow> ValidatorEvent list \<Rightarrow> string option" where
  "latestTimestamp lc evidenceEvents =
    (let timestamps = filter (\<lambda>ts. ts \<noteq> []) (List.map_filter ve_timestamp evidenceEvents)
     in case arraySort (reversed lc) timestamps of [] \<Rightarrow> None | ts # _ \<Rightarrow> Some ts)"

definition validationReasons :: "string \<Rightarrow> int \<Rightarrow> int \<Rightarrow> jsnum option \<Rightarrow> jsnum \<Rightarrow> int \<Rightarrow> string list" where
  "validationReasons statement depth contradictions freshnessDays freshnessWarningDays minEvidenceDepth =
    (let codes =
       (if length statement = 0 then [''empty_statement''] else [])
       @ (if depth < minEvidenceDepth then [''insufficient_evidence_depth''] else [])
       @ (if 0 < contradictions then [''contradicting_evidence''] else [])
       @ (case freshnessDays of None \<Rightarrow> []
          | Some d \<Rightarrow> if jlt freshnessWarningDays d then [''stale_evidence''] else [])
     in if length codes = 0 then [''accepted''] else codes)"

definition validateCandidate ::
  "collator \<Rightarrow> (string \<Rightarrow> int option) \<Rightarrow> ValidatorEvent list \<Rightarrow> string \<Rightarrow> jsnum \<Rightarrow> int
    \<Rightarrow> ValidatorCandidate \<Rightarrow> CandidateValidation" where
  "validateCandidate lc dateParse events evaluatedAt freshnessWarningDays minEvidenceDepth candidate =
    (let evidenceIds = sortEventIds lc (filter (\<lambda>i. 0 < length i) (setOrder
           (vc_sourceEventId candidate # vc_sourceEventIds candidate @ vc_evidenceEventIds candidate)));
         contradictionIds = sortEventIds lc (filter (\<lambda>i. 0 < length i) (setOrder (vc_contradictionEventIds candidate)));
         evidenceEvents = List.map_filter (eventByIdOf events) evidenceIds;
         contradictionEvents = List.map_filter (eventByIdOf events) contradictionIds;
         freshnessDays = differenceInDays dateParse evaluatedAt (latestTimestamp lc evidenceEvents);
         reasons = validationReasons (vc_statement candidate) (int (length evidenceEvents))
           (int (length contradictionEvents)) freshnessDays freshnessWarningDays minEvidenceDepth
     in \<lparr>cv_candidateId = vc_candidateId candidate, cv_valid = (reasons = [''accepted'']),
         cv_evidenceEventId = (case evidenceIds of [] \<Rightarrow> None | i # _ \<Rightarrow> Some i),
         cv_evidenceEventIds = evidenceIds, cv_evidenceDepth = int (length evidenceEvents),
         cv_contradictionCount = int (length contradictionEvents), cv_freshnessDays = freshnessDays,
         cv_reasonCodes = reasons\<rparr>)"

definition buildCandidateValidations ::
  "collator \<Rightarrow> (string \<Rightarrow> int option) \<Rightarrow> ValidatorCandidate list \<Rightarrow> ValidatorEvent list \<Rightarrow> string \<Rightarrow> jsnum \<Rightarrow> int
    \<Rightarrow> CandidateValidation list" where
  "buildCandidateValidations lc dateParse candidates events evaluatedAt freshnessWarningDays minEvidenceDepth =
     map (validateCandidate lc dateParse events evaluatedAt freshnessWarningDays minEvidenceDepth) candidates"

section \<open>The curation\<close>

text \<open>The curation returns the candidates it was given: a caller may hand in records with more
  fields (\<open>CuratableCandidate_scheme\<close>).\<close>

record CuratableCandidate =
  cc_candidateId :: string
  cc_ruleId :: string
  cc_statement :: string
  cc_scope :: "string option"
  cc_confidence :: rat

record CandidateValidationSummary =
  cs_candidateId :: string
  cs_valid :: bool
  cs_evidenceDepth :: "rat option"
  cs_contradictionCount :: "rat option"
  cs_freshnessDays :: "rat option"

record ExistingCuratedRule =
  er_ruleId :: string
  er_statement :: "string option"
  er_scope :: "string option"
  er_selectedCandidateId :: "string option"

record CurationRejection =
  cj_candidateId :: string
  cj_ruleId :: string
  cj_winnerCandidateId :: string

definition conflictKeyForCandidate :: "'a CuratableCandidate_scheme \<Rightarrow> string" where
  "conflictKeyForCandidate candidate =
     (case cc_scope candidate of None \<Rightarrow> ''global'' | Some s \<Rightarrow> s) @ ''::'' @ cc_statement candidate"

definition conflictKeyForRule :: "ExistingCuratedRule \<Rightarrow> string" where
  "conflictKeyForRule rule = (case er_scope rule of None \<Rightarrow> ''global'' | Some s \<Rightarrow> s) @ ''::''
     @ (case er_statement rule of None \<Rightarrow> er_ruleId rule | Some s \<Rightarrow> s)"

definition validationByCandidateId ::
  "CandidateValidationSummary list \<Rightarrow> string \<Rightarrow> CandidateValidationSummary option" where
  "validationByCandidateId validations i = find (\<lambda>v. cs_candidateId v = i) (rev validations)"

definition incumbentByConflictKey :: "ExistingCuratedRule list \<Rightarrow> string \<Rightarrow> string option" where
  "incumbentByConflictKey existingRules k =
     Option.bind (find (\<lambda>r. conflictKeyForRule r = k) (rev existingRules)) er_selectedCandidateId"

text \<open>A value that defaults to positive infinity, as a pair in lexicographic order.\<close>

definition orInfinity :: "rat option \<Rightarrow> int \<times> rat" where
  "orInfinity x = (case x of None \<Rightarrow> (1, 0) | Some r \<Rightarrow> (0, r))"

definition isValid :: "CandidateValidationSummary option \<Rightarrow> int" where
  "isValid v = (case v of None \<Rightarrow> 0 | Some x \<Rightarrow> of_bool (cs_valid x))"

definition evidenceDepthOf :: "CandidateValidationSummary option \<Rightarrow> rat" where
  "evidenceDepthOf v = (case Option.bind v cs_evidenceDepth of None \<Rightarrow> 0 | Some d \<Rightarrow> d)"

text \<open>The comparator of one conflict group; an empty incumbent id is falsy.\<close>

definition curationOrder ::
  "collator \<Rightarrow> CandidateValidationSummary list \<Rightarrow> string option \<Rightarrow> 'a CuratableCandidate_scheme comparator" where
  "curationOrder lc validations incumbent =
    (let validation = (\<lambda>c. validationByCandidateId validations (cc_candidateId c)) in
     thenBy (descending (\<lambda>c. isValid (validation c)))
    (thenBy (descending (\<lambda>c. evidenceDepthOf (validation c)))
    (thenBy (ascending (\<lambda>c. fst (orInfinity (Option.bind (validation c) cs_contradictionCount))))
    (thenBy (ascending (\<lambda>c. snd (orInfinity (Option.bind (validation c) cs_contradictionCount))))
    (thenBy (ascending (\<lambda>c. fst (orInfinity (Option.bind (validation c) cs_freshnessDays))))
    (thenBy (ascending (\<lambda>c. snd (orInfinity (Option.bind (validation c) cs_freshnessDays))))
    (thenBy (descending cc_confidence)
    (thenBy (descending (\<lambda>c. of_bool (incumbent \<noteq> None \<and> incumbent \<noteq> Some [] \<and> incumbent = Some (cc_candidateId c)) :: int))
            (key cc_candidateId lc)))))))))"

definition curateGroup ::
  "collator \<Rightarrow> CandidateValidationSummary list \<Rightarrow> ExistingCuratedRule list \<Rightarrow> 'a CuratableCandidate_scheme list \<Rightarrow> string
    \<Rightarrow> 'a CuratableCandidate_scheme list \<times> CurationRejection list \<Rightarrow> 'a CuratableCandidate_scheme list \<times> CurationRejection list" where
  "curateGroup lc validations existingRules candidates k acc =
    (case arraySort (curationOrder lc validations (incumbentByConflictKey existingRules k))
            (filter (\<lambda>c. conflictKeyForCandidate c = k) candidates) of
       [] \<Rightarrow> acc
     | winner # losers \<Rightarrow>
         (fst acc @ [winner],
          snd acc @ map (\<lambda>l. \<lparr>cj_candidateId = cc_candidateId l, cj_ruleId = cc_ruleId l,
             cj_winnerCandidateId = cc_candidateId winner\<rparr>) losers))"

definition selectCurationCandidates ::
  "collator \<Rightarrow> 'a CuratableCandidate_scheme list \<Rightarrow> CandidateValidationSummary list \<Rightarrow> ExistingCuratedRule list
    \<Rightarrow> 'a CuratableCandidate_scheme list \<times> CurationRejection list" where
  "selectCurationCandidates lc candidates validations existingRules =
     fold (curateGroup lc validations existingRules candidates)
       (arraySort lc (setOrder (map conflictKeyForCandidate candidates))) ([], [])"

section \<open>The context pack\<close>

record ContextEventRecord =
  ce_eventId :: string
  ce_type :: string
  ce_source :: string
  ce_content :: string
  ce_digest :: string

record ContextMatchRecord =
  cm_eventId :: string
  cm_usageId :: string
  cm_type :: string
  cm_source :: string
  cm_excerpt :: string
  cm_digest :: string

record MisconceptionChronologyRecord =
  mc_noteId :: string
  mc_misconceptionId :: "string option"
  mc_misconceptionKey :: string
  mc_profileId :: "string option"
  mc_timestamp :: string
  mc_changedFields :: "string list"
  mc_previousDigest :: "string option"
  mc_nextDigest :: "string option"
  mc_confidence :: "rat option"
  mc_harmfulSignalCount :: "rat option"
  mc_evidenceEventIds :: "string list"

datatype ChronologyPrioritization = QueryRelevance | Severity

record ContextPackOutput =
  cp_matches :: "ContextMatchRecord list"
  cp_bounded :: bool
  cp_truncated :: bool
  cp_prioritization :: ChronologyPrioritization
  cp_limit :: int
  cp_totalAvailable :: int
  cp_notes :: "(MisconceptionChronologyRecord \<times> int) list"
  cp_formatting :: "string list"

text \<open>\<open>xs.slice(0, n)\<close>: a negative \<open>n\<close> counts from the end.\<close>

definition sliceTo :: "int \<Rightarrow> 'a list \<Rightarrow> 'a list" where
  "sliceTo n xs = (if 0 \<le> n then take (nat n) xs else take (nat (int (length xs) + n)) xs)"

definition scoreChronologyEntry :: "MisconceptionChronologyRecord \<Rightarrow> string \<Rightarrow> int" where
  "scoreChronologyEntry note query =
    (let searchable = toLowerCase (mc_misconceptionKey note @ '' '' @ join '' '' (mc_changedFields note)) in
     (if 0 < length query \<and> strIncludes searchable query then 60 else 0)
     + (if ''harmfulSignalCount'' \<in> set (mc_changedFields note) then 20 else 0)
     + (if ''status'' \<in> set (mc_changedFields note) then 15 else 0)
     + (if ''confidence'' \<in> set (mc_changedFields note) then 10 else 0))"

definition priorityOrder :: "collator \<Rightarrow> (MisconceptionChronologyRecord \<times> int) comparator" where
  "priorityOrder lc = thenBy (descending snd)
     (thenBy (reversed (key (mc_timestamp \<circ> fst) lc)) (key (mc_noteId \<circ> fst) lc))"

definition sortByTimestampAndId ::
  "collator \<Rightarrow> (MisconceptionChronologyRecord \<times> int) list \<Rightarrow> (MisconceptionChronologyRecord \<times> int) list" where
  "sortByTimestampAndId lc values =
     arraySort (thenBy (key (mc_timestamp \<circ> fst) lc) (key (mc_noteId \<circ> fst) lc)) values"

definition eventMatches :: "string \<Rightarrow> ContextEventRecord \<Rightarrow> bool" where
  "eventMatches normalizedQuery event =
     (length normalizedQuery = 0
      \<or> strIncludes (toLowerCase (ce_type event @ '' '' @ ce_source event @ '' '' @ ce_content event)) normalizedQuery)"

definition toContextMatch :: "(ContextEventRecord \<Rightarrow> string) \<Rightarrow> ContextEventRecord \<Rightarrow> ContextMatchRecord" where
  "toContextMatch makeUsageId event =
     \<lparr>cm_eventId = ce_eventId event, cm_usageId = makeUsageId event, cm_type = ce_type event,
      cm_source = ce_source event, cm_excerpt = take 180 (ce_content event), cm_digest = ce_digest event\<rparr>"

definition formatNote :: "nat \<Rightarrow> MisconceptionChronologyRecord \<times> int \<Rightarrow> string" where
  "formatNote index note =
     intString (int index + 1) @ ''. '' @ mc_timestamp (fst note) @ '' '' @ mc_misconceptionKey (fst note)
       @ '' -> '' @ join ''|'' (mc_changedFields (fst note))"

definition buildContextPack ::
  "collator \<Rightarrow> (ContextEventRecord \<Rightarrow> string) \<Rightarrow> string \<Rightarrow> int \<Rightarrow> int \<Rightarrow> ContextEventRecord list
    \<Rightarrow> MisconceptionChronologyRecord list \<Rightarrow> ContextPackOutput" where
  "buildContextPack lc makeUsageId query limit chronologyLimit events chronologyHistory =
    (let normalizedQuery = toLowerCase query;
         matches = map (toContextMatch makeUsageId) (sliceTo limit (filter (eventMatches normalizedQuery) events));
         prioritized = sliceTo chronologyLimit (arraySort (priorityOrder lc)
           (map (\<lambda>note. (note, scoreChronologyEntry note normalizedQuery)) chronologyHistory));
         ordered = sortByTimestampAndId lc prioritized
     in \<lparr>cp_matches = matches, cp_bounded = (int (length chronologyHistory) \<le> chronologyLimit),
         cp_truncated = (chronologyLimit < int (length chronologyHistory)),
         cp_prioritization = (if 0 < length normalizedQuery then QueryRelevance else Severity),
         cp_limit = chronologyLimit, cp_totalAvailable = int (length chronologyHistory),
         cp_notes = ordered, cp_formatting = map (\<lambda>i. formatNote i (ordered ! i)) [0..<length ordered]\<rparr>)"

end
