(* ===== verification/Ace_Properties.thy ===== *)
theory Ace_Properties
  imports Ace_Pipeline Contracts
begin

text \<open>
  Properties of the ACE pipeline: the reflector returns the newest last occurrences of the
  conflict keys, the validator's verdict is a condition on known events, the curation splits
  the candidates into one winner per key and the losers and is stable under re-election, and
  the context pack is a bounded selection of the best notes.
\<close>

section \<open>Sorted by a number\<close>

lemma arraySorted_ascending: "arraySorted (ascending f) xs \<longleftrightarrow> sorted_wrt (\<lambda>x y. f x \<le> f y) xs"
  by (induction xs) (auto simp: arraySorted_Cons compare_default_if)

section \<open>The reflector\<close>

definition keyOfEvent :: "(RuleCandidateDraft \<Rightarrow> ReflectedCandidate) \<Rightarrow> ReflectorEvent \<times> nat \<Rightarrow> string" where
  "keyOfEvent nrm e = conflictKey (nrm (draftOf (fst e)))"

lemma reflectLoop_firstPerKey:
  "int (length cs) < bound \<Longrightarrow> reflectLoop nrm bound es seen cs =
     take (nat bound) (cs @ map (\<lambda>e. (snd e, nrm (draftOf (fst e))))
       (filter (\<lambda>e. keyOfEvent nrm e \<notin> seen) (firstPerKey (keyOfEvent nrm) es)))"
proof (induction es arbitrary: seen cs)
  case Nil
  then show ?case by simp
next
  case (Cons e es)
  obtain ev i where e: "e = (ev, i)" by (cases e)
  let ?k = "keyOfEvent nrm e" and ?F = "firstPerKey (keyOfEvent nrm) es"
  show ?case
  proof (cases "?k \<in> seen")
    case True
    have "filter (\<lambda>x. keyOfEvent nrm x \<notin> seen) (filter (\<lambda>x. keyOfEvent nrm x \<noteq> ?k) ?F)
        = filter (\<lambda>x. keyOfEvent nrm x \<notin> seen) ?F"
      unfolding filter_filter using True by (intro filter_cong refl) metis
    moreover have "reflectLoop nrm bound (e # es) seen cs = reflectLoop nrm bound es seen cs"
      using True by (simp add: e keyOfEvent_def)
    ultimately show ?thesis using True Cons.IH [OF Cons.prems, of seen] by simp
  next
    case False
    have rest: "filter (\<lambda>x. keyOfEvent nrm x \<notin> seen) (filter (\<lambda>x. keyOfEvent nrm x \<noteq> ?k) ?F)
        = filter (\<lambda>x. keyOfEvent nrm x \<notin> insert ?k seen) ?F"
      unfolding filter_filter by (intro filter_cong refl) blast
    let ?next = "cs @ [(i, nrm (draftOf ev))]"
    have step: "reflectLoop nrm bound (e # es) seen cs = (if bound \<le> int (length ?next) then ?next
        else reflectLoop nrm bound es (insert ?k seen) ?next)"
      using False by (simp add: e keyOfEvent_def Let_def)
    show ?thesis
    proof (cases "bound \<le> int (length ?next)")
      case True
      then have "nat bound = length ?next" using Cons.prems by simp
      with True False show ?thesis unfolding step by (simp add: e)
    next
      case False2: False
      have "reflectLoop nrm bound (e # es) seen cs = take (nat bound) (?next @ map (\<lambda>e. (snd e, nrm (draftOf (fst e))))
          (filter (\<lambda>x. keyOfEvent nrm x \<notin> insert ?k seen) ?F))"
        unfolding step using Cons.IH [of ?next "insert ?k seen"] False2 by simp
      with False show ?thesis by (simp add: rest e)
    qed
  qed
qed

text \<open>Index \<open>i\<close> is the last event of its conflict key.\<close>

definition lastOfKey :: "(RuleCandidateDraft \<Rightarrow> ReflectedCandidate) \<Rightarrow> ReflectorEvent list \<Rightarrow> nat \<Rightarrow> bool" where
  "lastOfKey nrm events i = (i < length events \<and> (\<forall>j. i < j \<and> j < length events \<longrightarrow>
     conflictKey (nrm (draftOf (events ! j))) \<noteq> conflictKey (nrm (draftOf (events ! i)))))"

definition newestPerKey ::
  "collator \<Rightarrow> (RuleCandidateDraft \<Rightarrow> ReflectedCandidate) \<Rightarrow> ReflectorEvent list \<Rightarrow> (ReflectorEvent \<times> nat) list" where
  "newestPerKey lc nrm events =
     firstPerKey (keyOfEvent nrm) (arraySort (reflectorOrder lc) (zip events [0..<length events]))"

lemma reflectorOrder_snd: "compare (reflectorOrder lc) x y \<noteq> Greater \<Longrightarrow> snd y \<le> snd x"
  by (rule ccontr) (simp add: reflectorOrder_def compare_default_if)

lemma set_indexed: "set (zip events [0..<length events]) = {(events ! i, i) | i. i < length events}"
  by (auto simp: set_zip)

lemma newestPerKey_spec:
  "set (newestPerKey lc nrm events) = {(events ! i, i) | i. lastOfKey nrm events i}"
  "arraySorted (reflectorOrder lc) (newestPerKey lc nrm events)"
  "distinct (newestPerKey lc nrm events)"
proof -
  let ?L = "arraySort (reflectorOrder lc) (zip events [0..<length events])"
  let ?F = "newestPerKey lc nrm events"
  have keys: "distinct (map (keyOfEvent nrm) ?F)" and sub: "set ?F \<subseteq> {(events ! i, i) | i. i < length events}"
    using set_firstPerKey [of "keyOfEvent nrm" ?L] by (simp_all add: newestPerKey_def set_indexed)
  then show "distinct ?F" by (simp add: distinct_map)
  show "arraySorted (reflectorOrder lc) ?F" by (simp add: newestPerKey_def sorted_firstPerKey)
  have best: "\<exists>y\<in>set ?F. keyOfEvent nrm y = keyOfEvent nrm (events ! i, i) \<and> i \<le> snd y" if "i < length events" for i
  proof -
    have "(events ! i, i) \<in> set ?L" using that by (auto simp: set_indexed)
    from firstPerKey_least [OF sorted_sort this, of "keyOfEvent nrm"] show ?thesis
      unfolding newestPerKey_def using reflectorOrder_snd by fastforce
  qed
  show "set ?F = {(events ! i, i) | i. lastOfKey nrm events i}"
  proof (intro set_eqI iffI)
    fix x assume x: "x \<in> set ?F"
    then obtain i where i: "x = (events ! i, i)" "i < length events" using sub by auto
    have "conflictKey (nrm (draftOf (events ! j))) \<noteq> conflictKey (nrm (draftOf (events ! i)))"
      if ij: "i < j" and j: "j < length events" for j
    proof
      assume same: "conflictKey (nrm (draftOf (events ! j))) = conflictKey (nrm (draftOf (events ! i)))"
      obtain y where y: "y \<in> set ?F" "keyOfEvent nrm y = keyOfEvent nrm (events ! j, j)" "j \<le> snd y"
        using best [OF j] by blast
      have "y = x"
        using keys x y(1,2) same i(1) by (auto simp: distinct_map keyOfEvent_def inj_on_def)
      with y(3) ij i(1) show False by simp
    qed
    with i show "x \<in> {(events ! i, i) | i. lastOfKey nrm events i}" by (auto simp: lastOfKey_def)
  next
    fix x assume "x \<in> {(events ! i, i) | i. lastOfKey nrm events i}"
    then obtain i where i: "x = (events ! i, i)" "lastOfKey nrm events i" by blast
    then obtain y where y: "y \<in> set ?F" "keyOfEvent nrm y = keyOfEvent nrm x" "i \<le> snd y"
      using best [of i] by (auto simp: lastOfKey_def)
    obtain j where j: "y = (events ! j, j)" "j < length events" using sub y(1) by auto
    have "j = i"
    proof (rule ccontr)
      assume "j \<noteq> i"
      then have "i < j" using y(3) j(1) by simp
      with i(2) j(2) have "conflictKey (nrm (draftOf (events ! j))) \<noteq> conflictKey (nrm (draftOf (events ! i)))"
        by (simp add: lastOfKey_def)
      then show False using y(2) by (simp add: i(1) j(1) keyOfEvent_def)
    qed
    then show "x \<in> set ?F" using y(1) j(1) i(1) by simp
  qed
qed

lemma reflected_indices:
  fixes lc nrm events m
  defines "cand \<equiv> \<lambda>e. (snd e, nrm (draftOf (fst e)))"
  defines "kept \<equiv> take (nat (boundedMaxOf m)) (newestPerKey lc nrm events)"
  shows "buildReflectedCandidates lc nrm events m = map snd (arraySort (ascending fst) (map cand kept))"
proof -
  have "int (length []) < boundedMaxOf m" by (simp add: boundedMaxOf_def MAX_REFLECTED_CANDIDATES_def)
  from reflectLoop_firstPerKey [OF this, of nrm _ "{}"] show ?thesis
    by (simp add: buildReflectedCandidates_def Let_def newestPerKey_def cand_def kept_def take_map)
qed

lemma sorted_by_index:
  fixes ps :: "(nat \<times> 'b) list"
  assumes "distinct (map fst ps)"
  shows "sorted_wrt (<) (map fst (arraySort (ascending fst) ps))"
proof -
  have "sorted_wrt (\<le>) (map fst (arraySort (ascending fst) ps))"
    unfolding sorted_wrt_map by (rule arraySorted_ascending [THEN iffD1, OF sorted_sort])
  moreover have "distinct (map fst (arraySort (ascending fst) ps))"
    using assms mset_eq_imp_distinct_iff [of "map fst (arraySort (ascending fst) ps)" "map fst ps"] by simp
  ultimately show ?thesis by (simp only: strict_sorted_iff)
qed

text \<open>The reflector keeps the newest conflict keys. The result lists, in event order, one
  candidate for each of some events that are the last of their conflict key; there are as many
  as the bound (1 to 32) and the number of keys allow; and every last event that was left out
  is older than every one that was kept.\<close>

theorem reflector_keeps_newest:
  "\<exists>idx. buildReflectedCandidates lc nrm events m = map (\<lambda>i. nrm (draftOf (events ! i))) idx
     \<and> sorted_wrt (<) idx
     \<and> (\<forall>i\<in>set idx. lastOfKey nrm events i)
     \<and> length idx = min (nat (boundedMaxOf m)) (card {i. lastOfKey nrm events i})
     \<and> 1 \<le> boundedMaxOf m \<and> boundedMaxOf m \<le> 32
     \<and> (\<forall>i\<in>set idx. \<forall>j. lastOfKey nrm events j \<and> j \<notin> set idx \<longrightarrow> j < i)"
proof -
  let ?F = "newestPerKey lc nrm events" and ?n = "nat (boundedMaxOf m)"
  let ?cand = "\<lambda>e. (snd e, nrm (draftOf (fst e)))"
  let ?S = "arraySort (ascending fst) (map ?cand (take ?n ?F))"
  let ?idx = "map fst ?S"
  note spec = newestPerKey_spec [of lc nrm events]
  have F: "e \<in> set ?F \<Longrightarrow> fst e = events ! snd e \<and> lastOfKey nrm events (snd e)" for e
    using spec(1) by auto
  have setidx: "set ?idx = snd ` set (take ?n ?F)" by (auto simp: image_comp)
  have inj: "inj_on snd (set ?F)" unfolding spec(1) by (auto simp: inj_on_def)
  have pairs: "snd p = nrm (draftOf (events ! fst p))" if "p \<in> set ?S" for p
    using that F [OF in_set_takeD] by auto
  have result: "buildReflectedCandidates lc nrm events m = map (\<lambda>i. nrm (draftOf (events ! i))) ?idx"
    unfolding reflected_indices map_map using pairs by (intro map_cong refl) simp
  have "distinct (map fst (map ?cand (take ?n ?F)))"
    using spec(3) inj by (simp add: distinct_map comp_def) (meson in_set_takeD inj_on_def)
  note strict = sorted_by_index [OF this]
  have card: "length ?F = card {i. lastOfKey nrm events i}"
  proof -
    have "snd ` set ?F = {i. lastOfKey nrm events i}" unfolding spec(1) by force
    then show ?thesis using inj spec(3) by (metis card_image distinct_card)
  qed
  have newer: "j < i" if i: "i \<in> set ?idx" and j: "lastOfKey nrm events j" "j \<notin> set ?idx" for i j
  proof -
    from i setidx have "i \<in> snd ` set (take ?n ?F)" by (simp only:)
    then obtain x where x: "x \<in> set (take ?n ?F)" "snd x = i" by blast
    have y: "(events ! j, j) \<in> set ?F" "(events ! j, j) \<notin> set (take ?n ?F)"
      using j spec(1) setidx by force+
    from take_least [OF spec(2) x(1) y] have "j \<le> i" using x(2) reflectorOrder_snd by fastforce
    moreover have "j \<noteq> i" using i j by blast
    ultimately show ?thesis by simp
  qed
  have len: "length ?idx = min ?n (card {i. lastOfKey nrm events i})"
    using card by (simp add: min.commute)
  have lasts: "\<forall>i\<in>set ?idx. lastOfKey nrm events i"
    unfolding setidx using F in_set_takeD by fast
  have bounds: "1 \<le> boundedMaxOf m" "boundedMaxOf m \<le> 32"
    by (simp_all add: boundedMaxOf_def MAX_REFLECTED_CANDIDATES_def)
  show ?thesis
    using result strict lasts len bounds newer by (intro exI [of _ ?idx] conjI) blast+
qed

section \<open>The validator\<close>

lemma length_map_filter:
  "distinct xs \<Longrightarrow> length (List.map_filter f xs) = card {x \<in> set xs. f x \<noteq> None}"
proof (induction xs)
  case Nil
  then show ?case by (simp add: map_filter_simps)
next
  case (Cons x xs)
  have "{y \<in> set (x # xs). f y \<noteq> None} =
      (if f x = None then {y \<in> set xs. f y \<noteq> None} else insert x {y \<in> set xs. f y \<noteq> None})" by auto
  with Cons show ?case by (auto simp: map_filter_simps split: option.splits)
qed

definition knownIds :: "ValidatorEvent list \<Rightarrow> string set \<Rightarrow> string set" where
  "knownIds events ids = {i \<in> ids. i \<noteq> [] \<and> i \<in> ve_eventId ` set events}"

lemma known_events:
  "int (length (List.map_filter (eventByIdOf events) (sortEventIds lc (filter (\<lambda>i. 0 < length i) (setOrder ids)))))
   = int (card (knownIds events (set ids)))"
proof -
  have "eventByIdOf events i \<noteq> None \<longleftrightarrow> i \<in> ve_eventId ` set events" for i
    by (auto simp: eventByIdOf_def find_None_iff)
  then have "{i \<in> set (sortEventIds lc (filter (\<lambda>i. 0 < length i) (setOrder ids))). eventByIdOf events i \<noteq> None}
      = knownIds events (set ids)"
    by (auto simp: sortEventIds_def knownIds_def)
  then show ?thesis
    by (subst length_map_filter) (simp_all add: sortEventIds_def)
qed

lemma reasons_accepted:
  "validationReasons s d k f w m = [''accepted''] \<longleftrightarrow>
     s \<noteq> [] \<and> m \<le> d \<and> k \<le> 0 \<and> (\<forall>x. f = Some x \<longrightarrow> \<not> jlt w x)"
  by (auto simp: validationReasons_def Let_def split: option.splits)

text \<open>What a validation says. The validator answers every candidate in order; the evidence
  depth and the contradiction count are the numbers of distinct known events the candidate
  names; and a candidate is valid exactly when its statement is not empty, its evidence is deep
  enough, no known event contradicts it and its evidence is not stale.\<close>

theorem validation_verdict:
  "length (buildCandidateValidations lc dp cs events now warn depth) = length cs
   \<and> (\<forall>i<length cs. let c = cs ! i; v = buildCandidateValidations lc dp cs events now warn depth ! i;
         evidence = knownIds events ({vc_sourceEventId c} \<union> set (vc_sourceEventIds c) \<union> set (vc_evidenceEventIds c));
         against = knownIds events (set (vc_contradictionEventIds c))
       in cv_candidateId v = vc_candidateId c \<and> cv_evidenceDepth v = int (card evidence)
          \<and> cv_contradictionCount v = int (card against)
          \<and> (cv_valid v \<longleftrightarrow> vc_statement c \<noteq> [] \<and> depth \<le> int (card evidence) \<and> against = {}
               \<and> (\<forall>d. cv_freshnessDays v = Some d \<longrightarrow> \<not> jlt warn d)))"
proof -
  have fin: "finite (knownIds events (set ids))" for ids by (simp add: knownIds_def)
  have one: "let v = validateCandidate lc dp events now warn depth c;
         evidence = knownIds events ({vc_sourceEventId c} \<union> set (vc_sourceEventIds c) \<union> set (vc_evidenceEventIds c));
         against = knownIds events (set (vc_contradictionEventIds c))
       in cv_candidateId v = vc_candidateId c \<and> cv_evidenceDepth v = int (card evidence)
          \<and> cv_contradictionCount v = int (card against)
          \<and> (cv_valid v \<longleftrightarrow> vc_statement c \<noteq> [] \<and> depth \<le> int (card evidence) \<and> against = {}
               \<and> (\<forall>d. cv_freshnessDays v = Some d \<longrightarrow> \<not> jlt warn d))" for c
  proof -
    have ids: "set (vc_sourceEventId c # vc_sourceEventIds c @ vc_evidenceEventIds c)
        = {vc_sourceEventId c} \<union> set (vc_sourceEventIds c) \<union> set (vc_evidenceEventIds c)" by auto
    show ?thesis
      unfolding validateCandidate_def Let_def CandidateValidation.simps known_events reasons_accepted ids
      using fin [of "vc_contradictionEventIds c"] by (simp add: card_eq_0_iff)
  qed
  show ?thesis
    using one by (simp add: buildCandidateValidations_def Let_def)
qed

section \<open>The curation\<close>

definition rankedGroup ::
  "collator \<Rightarrow> CandidateValidationSummary list \<Rightarrow> ExistingCuratedRule list \<Rightarrow> 'a CuratableCandidate_scheme list \<Rightarrow> string
    \<Rightarrow> 'a CuratableCandidate_scheme list" where
  "rankedGroup lc vs rules cs k = arraySort (curationOrder lc vs (incumbentByConflictKey rules k))
     (filter (\<lambda>c. conflictKeyForCandidate c = k) cs)"

definition rejectionOf :: "'a CuratableCandidate_scheme \<Rightarrow> 'a CuratableCandidate_scheme \<Rightarrow> CurationRejection" where
  "rejectionOf w l = \<lparr>cj_candidateId = cc_candidateId l, cj_ruleId = cc_ruleId l,
     cj_winnerCandidateId = cc_candidateId w\<rparr>"

lemma rankedGroup_ne: "rankedGroup lc vs rules cs k = [] \<longleftrightarrow> k \<notin> conflictKeyForCandidate ` set cs"
proof -
  have "rankedGroup lc vs rules cs k = [] \<longleftrightarrow> set (rankedGroup lc vs rules cs k) = {}" by simp
  also have "\<dots> \<longleftrightarrow> k \<notin> conflictKeyForCandidate ` set cs" by (auto simp: rankedGroup_def)
  finally show ?thesis .
qed

lemma curate_fold:
  "set ks \<subseteq> conflictKeyForCandidate ` set cs \<Longrightarrow>
     fold (curateGroup lc vs rules cs) ks acc =
      (fst acc @ map (\<lambda>k. hd (rankedGroup lc vs rules cs k)) ks,
       snd acc @ concat (map (\<lambda>k. map (rejectionOf (hd (rankedGroup lc vs rules cs k)))
         (tl (rankedGroup lc vs rules cs k))) ks))"
proof (induction ks arbitrary: acc)
  case Nil
  then show ?case by simp
next
  case (Cons k ks)
  then have "rankedGroup lc vs rules cs k \<noteq> []" using rankedGroup_ne [of lc vs rules cs k] by auto
  then obtain w ls where r: "rankedGroup lc vs rules cs k = w # ls" by (cases "rankedGroup lc vs rules cs k") auto
  have "curateGroup lc vs rules cs k acc = (fst acc @ [w], snd acc @ map (rejectionOf w) ls)"
    using r by (simp add: curateGroup_def rankedGroup_def rejectionOf_def)
  with Cons r show ?case by simp
qed

lemma mset_grouped:
  "\<lbrakk>distinct ks; f ` set xs \<subseteq> set ks\<rbrakk> \<Longrightarrow> mset (concat (map (\<lambda>k. filter (\<lambda>x. f x = k) xs) ks)) = mset xs"
proof (induction ks arbitrary: xs)
  case Nil
  then show ?case by simp
next
  case (Cons k ks)
  let ?ys = "filter (\<lambda>x. f x \<noteq> k) xs"
  have eq: "map (\<lambda>j. filter (\<lambda>x. f x = j) xs) ks = map (\<lambda>j. filter (\<lambda>x. f x = j) ?ys) ks"
    using Cons.prems(1) by (auto intro!: map_cong filter_cong simp: filter_filter)
  have "mset (concat (map (\<lambda>j. filter (\<lambda>x. f x = j) ?ys) ks)) = mset ?ys"
    by (rule Cons.IH) (use Cons.prems in auto)
  then have "mset (concat (map (\<lambda>k. filter (\<lambda>x. f x = k) xs) (k # ks))) = mset (filter (\<lambda>x. f x = k) xs) + mset ?ys"
    by (simp only: list.map concat.simps mset_append eq)
  then show ?case by (simp only: mset_filter multiset_partition [symmetric])
qed

lemma rejectionOf_simps [simp]:
  "cj_candidateId (rejectionOf w l) = cc_candidateId l" "cj_winnerCandidateId (rejectionOf w l) = cc_candidateId w"
  by (simp_all add: rejectionOf_def)

lemma winners_and_losers:
  "\<forall>k\<in>set ks. g k \<noteq> [] \<Longrightarrow>
     mset (map cc_candidateId (map (\<lambda>k. hd (g k)) ks))
     + mset (map cj_candidateId (concat (map (\<lambda>k. map (rejectionOf (hd (g k))) (tl (g k))) ks)))
     = mset (map cc_candidateId (concat (map g ks)))"
proof (induction ks)
  case Nil
  then show ?case by simp
next
  case (Cons k ks)
  then obtain w ls where "g k = w # ls" by (cases "g k") auto
  with Cons show ?case by (simp add: comp_def)
qed

text \<open>The result of the curation, by ranked groups.\<close>

lemma curation_result:
  fixes lc vs rules cs
  defines "ks \<equiv> arraySort lc (setOrder (map conflictKeyForCandidate cs))"
    and "g \<equiv> rankedGroup lc vs rules cs"
  shows "fst (selectCurationCandidates lc cs vs rules) = map (\<lambda>k. hd (g k)) ks"
    and "snd (selectCurationCandidates lc cs vs rules) =
      concat (map (\<lambda>k. map (rejectionOf (hd (g k))) (tl (g k))) ks)"
    and "set ks = conflictKeyForCandidate ` set cs"
    and "k \<in> set ks \<Longrightarrow> g k = hd (g k) # tl (g k)"
proof -
  show keys: "set ks = conflictKeyForCandidate ` set cs" by (simp add: ks_def)
  show "fst (selectCurationCandidates lc cs vs rules) = map (\<lambda>k. hd (g k)) ks"
    and "snd (selectCurationCandidates lc cs vs rules) =
      concat (map (\<lambda>k. map (rejectionOf (hd (g k))) (tl (g k))) ks)"
    using curate_fold [of ks cs lc vs rules "([], [])"] keys
    by (simp_all add: ks_def g_def selectCurationCandidates_def)
  show "g k = hd (g k) # tl (g k)" if "k \<in> set ks"
    using that rankedGroup_ne [of lc vs rules cs k] keys by (simp add: g_def)
qed

lemma winner_of_group:
  assumes "w \<in> set (fst (selectCurationCandidates lc cs vs rules))"
  shows "w \<in> set cs" and "w = hd (rankedGroup lc vs rules cs (conflictKeyForCandidate w))"
    and "conflictKeyForCandidate w \<in> conflictKeyForCandidate ` set cs"
proof -
  let ?g = "rankedGroup lc vs rules cs"
  obtain k where k: "k \<in> set (arraySort lc (setOrder (map conflictKeyForCandidate cs)))" "w = hd (?g k)"
    using assms unfolding curation_result(1) by auto
  then have "w \<in> set (?g k)" using curation_result(4) [OF k(1)] by (metis list.set_intros(1))
  then have "w \<in> set cs" "conflictKeyForCandidate w = k" by (auto simp: rankedGroup_def)
  with k show "w \<in> set cs" "w = hd (?g (conflictKeyForCandidate w))"
    "conflictKeyForCandidate w \<in> conflictKeyForCandidate ` set cs" by auto
qed

lemmas curation_members = winner_of_group(1)

lemma curation_least:
  assumes "w \<in> set (fst (selectCurationCandidates lc cs vs rules))"
    and "c \<in> set cs" "conflictKeyForCandidate c = conflictKeyForCandidate w"
  shows "compare (curationOrder lc vs (incumbentByConflictKey rules (conflictKeyForCandidate w))) w c \<noteq> Greater"
proof -
  let ?k = "conflictKeyForCandidate w"
  have "?k \<in> set (arraySort lc (setOrder (map conflictKeyForCandidate cs)))"
    using winner_of_group(3) [OF assms(1)] by simp
  from curation_result(4) [OF this] winner_of_group(2) [OF assms(1)]
  have "arraySort (curationOrder lc vs (incumbentByConflictKey rules ?k))
      (filter (\<lambda>c. conflictKeyForCandidate c = ?k) cs) = w # tl (rankedGroup lc vs rules cs ?k)"
    unfolding rankedGroup_def [symmetric] by metis
  then show ?thesis by (rule hd_sort_least) (use assms in simp)
qed

text \<open>Curation elects one winner per conflict key. The winners are candidates, one for each
  conflict key in collation order, and none is beaten by a rival of its key; winners and
  rejections together are the candidates, each once; and a rejection names the winner of the
  candidate's own key.\<close>

theorem curation_partition:
  fixes lc vs rules cs
  defines "W \<equiv> fst (selectCurationCandidates lc cs vs rules)"
    and "R \<equiv> snd (selectCurationCandidates lc cs vs rules)"
  shows "map conflictKeyForCandidate W = arraySort lc (setOrder (map conflictKeyForCandidate cs))
    \<and> set W \<subseteq> set cs
    \<and> (\<forall>w\<in>set W. \<forall>c\<in>set cs. conflictKeyForCandidate c = conflictKeyForCandidate w \<longrightarrow>
         compare (curationOrder lc vs (incumbentByConflictKey rules (conflictKeyForCandidate w))) w c \<noteq> Greater)
    \<and> mset (map cc_candidateId W) + mset (map cj_candidateId R) = mset (map cc_candidateId cs)
    \<and> (\<forall>j\<in>set R. \<exists>w\<in>set W. \<exists>c\<in>set cs. j = rejectionOf w c \<and> conflictKeyForCandidate c = conflictKeyForCandidate w)"
proof -
  let ?ks = "arraySort lc (setOrder (map conflictKeyForCandidate cs))" and ?g = "rankedGroup lc vs rules cs"
  note W = W_def [unfolded curation_result(1)] and R = R_def [unfolded curation_result(2)]
  note keys = curation_result(3) [of lc cs] and split = curation_result(4) [of _ lc cs vs rules]
  have winner: "hd (?g k) \<in> set cs \<and> conflictKeyForCandidate (hd (?g k)) = k" if "k \<in> set ?ks" for k
  proof -
    have "hd (?g k) \<in> set (?g k)" using split [OF that] by (metis list.set_intros(1))
    then show ?thesis by (auto simp: rankedGroup_def)
  qed
  have ordered: "map conflictKeyForCandidate W = ?ks"
    unfolding W map_map by (rule map_idI) (use winner in simp)
  have "mset (concat (map ?g ?ks)) = mset (concat (map (\<lambda>k. filter (\<lambda>c. conflictKeyForCandidate c = k) cs) ?ks))"
    by (simp add: mset_concat comp_def rankedGroup_def)
  also have "\<dots> = mset cs"
    by (rule mset_grouped) (use keys in simp_all)
  finally have all: "mset (concat (map ?g ?ks)) = mset cs" .
  have "\<forall>k\<in>set ?ks. ?g k \<noteq> []" using rankedGroup_ne [of lc vs rules cs] keys by simp
  from winners_and_losers [OF this]
  have ids: "mset (map cc_candidateId W) + mset (map cj_candidateId R) = mset (map cc_candidateId cs)"
    unfolding W R using all by (metis mset_map)
  have named: "\<exists>w\<in>set W. \<exists>c\<in>set cs. j = rejectionOf w c \<and> conflictKeyForCandidate c = conflictKeyForCandidate w"
    if j: "j \<in> set R" for j
  proof -
    obtain k c where k: "k \<in> set ?ks" "j = rejectionOf (hd (?g k)) c" "c \<in> set (tl (?g k))"
      using j unfolding R by auto
    then have "c \<in> set (?g k)" by (metis list.sel(2) list.set_sel(2))
    then have c: "c \<in> set cs" "conflictKeyForCandidate c = k" by (simp_all add: rankedGroup_def)
    moreover have "hd (?g k) \<in> set W" unfolding W set_map using k(1) by (rule imageI)
    ultimately show ?thesis using k(2) winner [OF k(1)] by metis
  qed
  show ?thesis
    using ordered curation_members curation_least ids named unfolding W_def by blast
qed

text \<open>What the comparator looks at before the incumbent.\<close>

definition sameStanding :: "CandidateValidationSummary list \<Rightarrow> 'a CuratableCandidate_scheme \<Rightarrow> 'a CuratableCandidate_scheme \<Rightarrow> bool" where
  "sameStanding vs a b = (let v = (\<lambda>c. validationByCandidateId vs (cc_candidateId c)) in
     isValid (v a) = isValid (v b) \<and> evidenceDepthOf (v a) = evidenceDepthOf (v b)
     \<and> orInfinity (Option.bind (v a) cs_contradictionCount) = orInfinity (Option.bind (v b) cs_contradictionCount)
     \<and> orInfinity (Option.bind (v a) cs_freshnessDays) = orInfinity (Option.bind (v b) cs_freshnessDays)
     \<and> cc_confidence a = cc_confidence b)"

lemma curationOrder_cases:
  "\<not> sameStanding vs a b \<Longrightarrow> compare (curationOrder lc vs inc) a b = compare (curationOrder lc vs inc') a b"
  "sameStanding vs a b \<Longrightarrow> compare (curationOrder lc vs inc) a b =
     compare (thenBy (descending (\<lambda>c. of_bool (inc \<noteq> None \<and> inc \<noteq> Some [] \<and> inc = Some (cc_candidateId c)) :: int))
       (key cc_candidateId lc)) a b"
  unfolding curationOrder_def Let_def sameStanding_def
  by (auto simp: compare_default_if prod_eq_iff)

text \<open>C30: Curation is stable under re-election. If the winner of a key is recorded as the selected
  candidate of the rule for that key, curating the same candidates and validations again elects
  the same candidate, whatever the other rules say.\<close>

theorem curation_stable:
  assumes "w \<in> set (fst (selectCurationCandidates lc cs vs rules))" "cc_candidateId w \<noteq> []"
    and "incumbentByConflictKey rules' (conflictKeyForCandidate w) = Some (cc_candidateId w)"
    and "w' \<in> set (fst (selectCurationCandidates lc cs vs rules'))"
    and "conflictKeyForCandidate w' = conflictKeyForCandidate w"
  shows "cc_candidateId w' = cc_candidateId w"
proof -
  let ?inc = "incumbentByConflictKey rules (conflictKeyForCandidate w)"
  let ?inc' = "Some (cc_candidateId w)"
  have mem: "w \<in> set cs" "w' \<in> set cs"
    using curation_members assms(1,4) by blast+
  have old: "compare (curationOrder lc vs ?inc) w w' \<noteq> Greater"
    using curation_least [OF assms(1) mem(2)] assms(5) by simp
  have new: "compare (curationOrder lc vs ?inc') w' w \<noteq> Greater"
    using curation_least [OF assms(4) mem(1)] assms(3,5) by simp
  show ?thesis
  proof (cases "sameStanding vs w w'")
    case True
    then have same: "sameStanding vs w' w" by (simp add: sameStanding_def Let_def)
    show ?thesis
      using new assms(2) unfolding curationOrder_cases(2) [OF same]
      by (cases "cc_candidateId w' = cc_candidateId w") (simp_all add: compare_default_if)
  next
    case False
    then have "compare (curationOrder lc vs ?inc') w w' \<noteq> Greater"
      using old curationOrder_cases(1) [OF False] by metis
    with new have eqv: "compare (curationOrder lc vs ?inc') w w' = Equiv"
      by (metis comp.exhaust compare.greater_iff_sym_less)
    then have "sameStanding vs w w'"
      by (auto simp: curationOrder_def sameStanding_def Let_def compare_default_if prod_eq_iff split: comp.splits if_splits)
    with False show ?thesis by simp
  qed
qed

section \<open>The context pack\<close>

definition scoredNotes :: "string \<Rightarrow> MisconceptionChronologyRecord list \<Rightarrow> (MisconceptionChronologyRecord \<times> int) list" where
  "scoredNotes query history = map (\<lambda>n. (n, scoreChronologyEntry n (toLowerCase query))) history"

text \<open>The context pack is a bounded selection. For limits that are not negative it returns the
  first matching events up to the limit, and a sorted selection of the scored notes that has as
  many as the limit allows, leaves out no note that precedes a kept one in priority, is reported
  as truncated exactly when something was left out, and is rendered line by line; a note's
  relevance is at most 105.\<close>

theorem context_pack_selection:
  fixes lc mk query limit climit events history
  defines "r \<equiv> buildContextPack lc mk query limit climit events history"
  assumes "0 \<le> limit" "0 \<le> climit"
  shows "cp_matches r = map (toContextMatch mk) (take (nat limit) (filter (eventMatches (toLowerCase query)) events))
    \<and> length (cp_notes r) = min (nat climit) (length history)
    \<and> length (cp_formatting r) = length (cp_notes r)
    \<and> arraySorted (thenBy (key (mc_timestamp \<circ> fst) lc) (key (mc_noteId \<circ> fst) lc)) (cp_notes r)
    \<and> (\<exists>omitted. mset (cp_notes r) + mset omitted = mset (scoredNotes query history)
         \<and> (cp_truncated r \<longleftrightarrow> omitted \<noteq> []) \<and> cp_bounded r = (omitted = [])
         \<and> (\<forall>n\<in>set (cp_notes r). \<forall>x\<in>set omitted. compare (priorityOrder lc) n x \<noteq> Greater))
    \<and> (\<forall>n\<in>set (cp_notes r). 0 \<le> snd n \<and> snd n \<le> 105)"
proof -
  let ?S = "arraySort (priorityOrder lc) (scoredNotes query history)"
  let ?kept = "take (nat climit) ?S" and ?omitted = "drop (nat climit) ?S"
  have ordered: "cp_notes r = sortByTimestampAndId lc ?kept"
    and r: "cp_matches r = map (toContextMatch mk) (take (nat limit) (filter (eventMatches (toLowerCase query)) events))"
    "length (cp_formatting r) = length (cp_notes r)"
    "cp_truncated r \<longleftrightarrow> climit < int (length history)" "cp_bounded r \<longleftrightarrow> int (length history) \<le> climit"
    using assms(2,3) by (simp_all add: r_def buildContextPack_def Let_def sliceTo_def scoredNotes_def)
  have len: "length ?S = length history" by (simp add: scoredNotes_def)
  have sorted: "arraySorted (priorityOrder lc) (?kept @ ?omitted)" by simp
  have kept: "set (cp_notes r) = set ?kept" "mset (cp_notes r) = mset ?kept"
    by (simp_all add: ordered sortByTimestampAndId_def)
  have "mset ?kept + mset ?omitted = mset ?S" by (metis append_take_drop_id mset_append)
  then have all: "mset (cp_notes r) + mset ?omitted = mset (scoredNotes query history)"
    by (simp add: kept(2))
  have cut: "(?omitted \<noteq> []) = (climit < int (length history))" using assms(3) by (simp add: scoredNotes_def) arith
  have best: "\<forall>n\<in>set (cp_notes r). \<forall>x\<in>set ?omitted. compare (priorityOrder lc) n x \<noteq> Greater"
    using sorted unfolding kept(1) sorted_append_iff by blast
  have score: "0 \<le> scoreChronologyEntry n q \<and> scoreChronologyEntry n q \<le> 105" for n q
    by (simp add: scoreChronologyEntry_def Let_def)
  have scores: "\<forall>n\<in>set (cp_notes r). 0 \<le> snd n \<and> snd n \<le> 105"
    unfolding kept(1) using score by (auto simp: scoredNotes_def dest!: in_set_takeD)
  have "length (cp_notes r) = min (nat climit) (length history)"
    by (simp add: ordered sortByTimestampAndId_def scoredNotes_def min.commute)
  moreover have "arraySorted (thenBy (key (mc_timestamp \<circ> fst) lc) (key (mc_noteId \<circ> fst) lc)) (cp_notes r)"
    by (simp add: ordered sortByTimestampAndId_def)
  ultimately show ?thesis
    using r all cut best scores by (intro conjI exI [of _ ?omitted]) (simp_all add: scoredNotes_def not_less not_le, linarith?)
qed

section \<open>Concrete runs\<close>

theorem context_pack_selection_witness:
  "length (cp_notes (buildContextPack (localeCompare sampleHost) (\<lambda>e. ''u'') ''a'' 3 2 [] [])) = 0
   \<and> \<not> cp_truncated (buildContextPack (localeCompare sampleHost) (\<lambda>e. ''u'') ''a'' 3 2 [] [])"
  using context_pack_selection [of 3 2 "localeCompare sampleHost" "\<lambda>e. ''u''" "''a''" "[]" "[]"]
  by (auto simp: scoredNotes_def)

definition sampleCandidate :: "string \<Rightarrow> CuratableCandidate" where
  "sampleCandidate i = \<lparr>cc_candidateId = i, cc_ruleId = ''r'', cc_statement = ''s'', cc_scope = None, cc_confidence = 1\<rparr>"

definition sampleRule :: "string \<Rightarrow> ExistingCuratedRule" where
  "sampleRule i = \<lparr>er_ruleId = ''r'', er_statement = Some ''s'', er_scope = None, er_selectedCandidateId = Some i\<rparr>"

theorem curation_stable_witness:
  "\<exists>w. w \<in> set (fst (selectCurationCandidates (localeCompare sampleHost) [sampleCandidate ''a'', sampleCandidate ''b''] []
         [sampleRule ''b'']))
     \<and> cc_candidateId w = ''b''"
proof -
  let ?sel = "\<lambda>rules. selectCurationCandidates (localeCompare sampleHost)
     [sampleCandidate ''a'', sampleCandidate ''b''] [] rules"
  have key: "conflictKeyForCandidate (sampleCandidate i) = ''global::s''" for i
    by (simp add: conflictKeyForCandidate_def sampleCandidate_def)
  have inc: "incumbentByConflictKey [sampleRule ''b''] ''global::s'' = Some ''b''"
    by (simp add: incumbentByConflictKey_def conflictKeyForRule_def sampleRule_def)
  have fields: "cc_candidateId (sampleCandidate i) = i" "cc_confidence (sampleCandidate i) = 1" for i
    by (simp_all add: sampleCandidate_def)
  have run: "fst (?sel [sampleRule ''b'']) = [sampleCandidate ''b'']"
    by (simp add: selectCurationCandidates_def curateGroup_def key inc curationOrder_def Let_def
        validationByCandidateId_def compare_default_if isValid_def evidenceDepthOf_def orInfinity_def fields)
  have "cc_candidateId (sampleCandidate ''b'') = cc_candidateId (sampleCandidate ''b'')"
    by (rule curation_stable [where rules = "[sampleRule ''b'']" and rules' = "[sampleRule ''b'']" and vs = "[]"
        and cs = "[sampleCandidate ''a'', sampleCandidate ''b'']" and lc = "localeCompare sampleHost"])
      (simp_all only: run key inc fields, simp_all)
  with run show ?thesis by (auto simp: fields)
qed

theorem curation_partition_witness:
  "\<exists>W R. selectCurationCandidates (localeCompare sampleHost) [sampleCandidate ''a'', sampleCandidate ''b''] []
       [sampleRule ''b''] = (W, R)
     \<and> mset (map cc_candidateId W) + mset (map cj_candidateId R) = {#''a'', ''b''#}"
proof -
  let ?S = "selectCurationCandidates (localeCompare sampleHost) [sampleCandidate ''a'', sampleCandidate ''b''] []
       [sampleRule ''b'']"
  have "mset (map cc_candidateId (fst ?S)) + mset (map cj_candidateId (snd ?S))
      = mset (map cc_candidateId [sampleCandidate ''a'', sampleCandidate ''b''])"
    using curation_partition [of "localeCompare sampleHost" "[sampleCandidate ''a'', sampleCandidate ''b'']" "[]"
        "[sampleRule ''b'']"] by blast
  then show ?thesis
    by (intro exI [of _ "fst ?S"] exI [of _ "snd ?S"]) (simp add: sampleCandidate_def)
qed

definition sampleEvent :: "string \<Rightarrow> ReflectorEvent" where
  "sampleEvent i = \<lparr>rv_eventId = i, rv_type = ''t'', rv_source = ''s'', rv_content = [], rv_timestamp = None\<rparr>"

definition sampleNormalize :: "RuleCandidateDraft \<Rightarrow> ReflectedCandidate" where
  "sampleNormalize d = \<lparr>rc_candidateId = dr_sourceEventId d, rc_ruleId = ''r'', rc_statement = dr_statement d,
     rc_sourceEventId = dr_sourceEventId d, rc_sourceEventIds = [], rc_evidenceEventIds = [],
     rc_contradictionEventIds = [], rc_scope = dr_scope d, rc_confidence = 0\<rparr>"

text \<open>Two events of one conflict key: the newer one is reflected.\<close>

theorem reflector_keeps_newest_witness:
  "map rc_candidateId (buildReflectedCandidates (localeCompare sampleHost) sampleNormalize
     [sampleEvent ''a'', sampleEvent ''b''] 5) = [''b'']"
proof -
  let ?es = "[sampleEvent ''a'', sampleEvent ''b'']"
  have key: "conflictKey (sampleNormalize (draftOf (sampleEvent i))) = conflictKey (sampleNormalize (draftOf (sampleEvent j)))" for i j
    by (simp add: conflictKey_def sampleNormalize_def draftOf_def sampleEvent_def)
  have last: "lastOfKey sampleNormalize ?es i \<longleftrightarrow> i = 1" for i
  proof
    assume l: "lastOfKey sampleNormalize ?es i"
    have "i \<noteq> 0"
    proof
      assume "i = 0"
      with l have "conflictKey (sampleNormalize (draftOf (?es ! 1))) \<noteq> conflictKey (sampleNormalize (draftOf (?es ! 0)))"
        unfolding lastOfKey_def by (metis One_nat_def length_Cons lessI zero_less_Suc list.size(3))
      then show False using key [of "''b''" "''a''"] by simp
    qed
    with l show "i = 1" by (simp add: lastOfKey_def less_Suc_eq)
  qed (simp add: lastOfKey_def)
  obtain idx where idx: "buildReflectedCandidates (localeCompare sampleHost) sampleNormalize ?es 5
        = map (\<lambda>i. sampleNormalize (draftOf (?es ! i))) idx"
      "\<forall>i\<in>set idx. lastOfKey sampleNormalize ?es i"
      "length idx = min (nat (boundedMaxOf 5)) (card {i. lastOfKey sampleNormalize ?es i})"
    using reflector_keeps_newest [of "localeCompare sampleHost" sampleNormalize ?es 5] by blast
  have "length idx = 1" using idx(3) by (simp add: last boundedMaxOf_def MAX_REFLECTED_CANDIDATES_def)
  then have "idx = [1]" using idx(2) by (auto simp: last length_Suc_conv)
  with idx(1) show ?thesis by (simp add: sampleNormalize_def draftOf_def sampleEvent_def)
qed

definition sampleProposal :: ValidatorCandidate where
  "sampleProposal = \<lparr>vc_candidateId = ''c'', vc_statement = ''s'', vc_sourceEventId = ''a'', vc_sourceEventIds = [''a''],
     vc_evidenceEventIds = [''b''], vc_contradictionEventIds = [''x'']\<rparr>"

theorem validation_verdict_witness:
  "cv_valid (buildCandidateValidations (localeCompare sampleHost) (\<lambda>t. None) [sampleProposal]
     [\<lparr>ve_eventId = ''a'', ve_timestamp = Some ''t''\<rparr>] ''t'' (jint 30) 1 ! 0)"
proof -
  let ?es = "[\<lparr>ve_eventId = ''a'', ve_timestamp = Some ''t''\<rparr>]"
  let ?v = "buildCandidateValidations (localeCompare sampleHost) (\<lambda>t. None) [sampleProposal] ?es ''t'' (jint 30) 1 ! 0"
  have known: "knownIds ?es ({''a''} \<union> set [''a''] \<union> set [''b'']) = {''a''}" "knownIds ?es (set [''x'']) = {}"
    by (auto simp: knownIds_def)
  have fresh: "cv_freshnessDays ?v = None"
    by (simp add: buildCandidateValidations_def validateCandidate_def differenceInDays_def Let_def split: option.splits)
  have "cv_valid ?v \<longleftrightarrow> vc_statement sampleProposal \<noteq> []
      \<and> 1 \<le> int (card (knownIds ?es ({vc_sourceEventId sampleProposal} \<union> set (vc_sourceEventIds sampleProposal)
            \<union> set (vc_evidenceEventIds sampleProposal))))
      \<and> knownIds ?es (set (vc_contradictionEventIds sampleProposal)) = {}
      \<and> (\<forall>d. cv_freshnessDays ?v = Some d \<longrightarrow> \<not> jlt (jint 30) d)"
    using validation_verdict [of "localeCompare sampleHost" "\<lambda>t. None" "[sampleProposal]" ?es "''t''" "jint 30" 1]
    by (simp add: Let_def)
  then show ?thesis using known fresh by (simp add: sampleProposal_def)
qed

end
