(* ===== verification/Js_Value.thy ===== *)
theory Js_Value
  imports Json_Text "HOL-Library.AList" "HOL-Library.List_Lexorder" "HOL-Library.Char_ord"
begin

text \<open>
  Untyped JavaScript data, for code that takes \<open>unknown\<close>: values parsed from JSON, and objects
  built from them, whose members may also be \<open>undefined\<close>. The operators and library calls such
  code applies to them are here: property access, truthiness, \<open>||\<close>, \<open>??\<close>, \<open>String(x)\<close>,
  \<open>Number.parseInt\<close>, spreading, the default \<open>sort()\<close>, and Maps as association lists in
  insertion order (\<open>AList.update\<close> is \<open>Map.set\<close>).

  An object is the list of its own members, one per key. A member named toString would make
  \<open>String(x)\<close> throw; objects here have no such member.
\<close>

section \<open>Values\<close>

datatype js_value =
    Undefined
  | Null
  | Bool bool
  | Num jsnum
  | Str string
  | Arr "js_value list"
  | Obj "(string \<times> js_value) list"

fun getProp :: "string \<Rightarrow> js_value \<Rightarrow> js_value" where
  "getProp k (Obj kvs) = (case map_of kvs k of Some v \<Rightarrow> v | None \<Rightarrow> Undefined)"
| "getProp k _ = Undefined"

fun truthy :: "js_value \<Rightarrow> bool" where
  "truthy Undefined = False"
| "truthy Null = False"
| "truthy (Bool b) = b"
| "truthy (Num x) = (x \<noteq> JNaN \<and> x \<noteq> JFin 0)"
| "truthy (Str s) = (s \<noteq> [])"
| "truthy (Arr vs) = True"
| "truthy (Obj kvs) = True"

definition nullish :: "js_value \<Rightarrow> bool" where
  "nullish v = (v = Undefined \<or> v = Null)"

text \<open>\<open>a || b || ...\<close> and \<open>a ?? b ?? ...\<close>: the value of the last operand when none decides.\<close>

fun firstTruthy :: "js_value list \<Rightarrow> js_value" where
  "firstTruthy [] = Undefined"
| "firstTruthy [v] = v"
| "firstTruthy (v # w # vs) = (if truthy v then v else firstTruthy (w # vs))"

fun firstDefined :: "js_value list \<Rightarrow> js_value" where
  "firstDefined [] = Undefined"
| "firstDefined [v] = v"
| "firstDefined (v # w # vs) = (if nullish v then firstDefined (w # vs) else v)"

text \<open>\<open>s || t\<close> on strings.\<close>

definition orString :: "string \<Rightarrow> string \<Rightarrow> string" where
  "orString s t = (if s = [] then t else s)"

definition isArr :: "js_value \<Rightarrow> bool" where
  "isArr v = (case v of Arr _ \<Rightarrow> True | _ \<Rightarrow> False)"

definition isObj :: "js_value \<Rightarrow> bool" where
  "isObj v = (case v of Obj _ \<Rightarrow> True | _ \<Rightarrow> False)"

definition isStr :: "js_value \<Rightarrow> bool" where
  "isStr v = (case v of Str _ \<Rightarrow> True | _ \<Rightarrow> False)"

text \<open>\<open>typeof v === "string" ? v : ""\<close>, and \<open>Array.isArray(v) ? v : []\<close>.\<close>

definition strOrEmpty :: "js_value \<Rightarrow> string" where
  "strOrEmpty v = (case v of Str s \<Rightarrow> s | _ \<Rightarrow> [])"

definition arrOrEmpty :: "js_value \<Rightarrow> js_value list" where
  "arrOrEmpty v = (case v of Arr vs \<Rightarrow> vs | _ \<Rightarrow> [])"

text \<open>\<open>s || undefined\<close>.\<close>

definition strOrUndefined :: "string \<Rightarrow> js_value" where
  "strOrUndefined s = (if s = [] then Undefined else Str s)"

lemma getProp_member:
  "getProp k (Obj kvs) = v \<Longrightarrow> v = Undefined \<or> (k, v) \<in> set kvs"
  by (auto dest: map_of_SomeD split: option.splits)

text \<open>What is read out of an array member is smaller than the object: the recursions on values
  end.\<close>

lemma size_member: "(k, v) \<in> set kvs \<Longrightarrow> size v < size (Obj kvs)"
  by (induction kvs) auto

lemma size_element: "v \<in> set vs \<Longrightarrow> size v < size (Arr vs)"
  by (induction vs) auto

lemma size_getProp_Arr:
  "\<lbrakk>getProp k v = Arr vs; w \<in> set vs\<rbrakk> \<Longrightarrow> size w < size v"
  using getProp_member [of k _ "Arr vs"] size_member [of k "Arr vs"] size_element [of w vs]
  by (cases v) force+

section \<open>Conversions\<close>

text \<open>\<open>String(v)\<close>; an array joins its elements, with null and undefined as the empty string.\<close>

fun toStr :: "js_value \<Rightarrow> string" where
  "toStr Undefined = ''undefined''"
| "toStr Null = ''null''"
| "toStr (Bool b) = (if b then ''true'' else ''false'')"
| "toStr (Num x) = number_to_string x"
| "toStr (Str s) = s"
| "toStr (Arr vs) = join '','' (map (\<lambda>v. case v of Undefined \<Rightarrow> [] | Null \<Rightarrow> [] | _ \<Rightarrow> toStr v) vs)"
| "toStr (Obj kvs) = ''[object Object]''"

definition isDigit :: "char \<Rightarrow> bool" where
  "isDigit c = (let n = (of_char c :: nat) in 48 \<le> n \<and> n \<le> 57)"

definition digitsValue :: "string \<Rightarrow> int" where
  "digitsValue ds = foldl (\<lambda>n c. 10 * n + (of_char c - 48)) 0 ds"

text \<open>\<open>Number.parseInt(s, 10)\<close>, with \<open>None\<close> for NaN: leading white space, a sign, digits. The
  exact integer stands for its rounding; the callers clamp it to small bounds, where rounding is
  the identity, and rounding is monotone.\<close>

definition parseInt10 :: "string \<Rightarrow> int option" where
  "parseInt10 s =
     (let t = dropWhile isWhiteSpace s;
          negative = (t \<noteq> [] \<and> hd t = CHR ''-'');
          u = (if t \<noteq> [] \<and> (hd t = CHR ''-'' \<or> hd t = CHR ''+'') then tl t else t);
          ds = takeWhile isDigit u
      in if ds = [] then None
         else Some (if negative then - digitsValue ds else digitsValue ds))"

section \<open>Objects, arrays of strings and Maps\<close>

text \<open>\<open>o.k = v\<close>, and the override of a spread: in place, or appended.\<close>

abbreviation setProp :: "string \<Rightarrow> js_value \<Rightarrow> (string \<times> js_value) list \<Rightarrow> (string \<times> js_value) list" where
  "setProp \<equiv> AList.update"

text \<open>The default order of \<open>sort()\<close>: by code units.\<close>

abbreviation codeUnitOrder :: "string comparator" where
  "codeUnitOrder \<equiv> default"

text \<open>The number of bytes of the UTF-8 encoding of code units below 256.\<close>

definition utf8Length :: "string \<Rightarrow> nat" where
  "utf8Length s = sum_list (map (\<lambda>c. if (of_char c :: nat) < 128 then 1 else 2) s)"

lemma getProp_setProp [simp]:
  "getProp k (Obj (setProp k v kvs)) = v"
  "j \<noteq> k \<Longrightarrow> getProp j (Obj (setProp k v kvs)) = getProp j (Obj kvs)"
  by (simp_all add: update_conv')

end
