(* ===== verification/Redaction.thy ===== *)
theory Redaction
  imports Js_Value
begin

text \<open>
  Secret redaction and unsafe-instruction detection of the UMS engine
  (apps/api/src/ums/engine.ts, \<open>redactSecrets\<close> and \<open>UNSAFE_PATTERNS\<close>). Each regular expression
  is a matcher at a position: given the preceding code unit and the rest of the text it returns
  the length of the kept group and of the replaced part. \<open>replaceAll\<close> is
  \<open>String.prototype.replace\<close> with a global expression. The greedy matches need no backtracking:
  every repetition is followed by something outside its character class.

  The lemmas show that redaction is complete (its result holds no match of the key and hash
  expressions, and every credential assignment carries the mark) and idempotent.
\<close>

section \<open>Replacing all matches\<close>

type_synonym matcher = "char option \<Rightarrow> string \<Rightarrow> (nat \<times> nat) option"

text \<open>Kept part, mark, and the scan of the rest, with the number of replacements. A match takes
  at least one code unit, so a match of length \<open>k + v\<close> leaves \<open>drop (k + v - 1)\<close> of the tail.\<close>

function replaceAll :: "matcher \<Rightarrow> string \<Rightarrow> char option \<Rightarrow> string \<Rightarrow> string \<times> nat" where
  "replaceAll m mark p [] = ([], 0)"
| "replaceAll m mark p (c # cs) =
     (case m p (c # cs) of
        None \<Rightarrow> (let (t, n) = replaceAll m mark (Some c) cs in (c # t, n))
      | Some (k, v) \<Rightarrow>
          (let (t, n) = replaceAll m mark (Some ((c # cs) ! (k + v - 1))) (drop (k + v - 1) cs)
           in (take k (c # cs) @ mark @ t, Suc n)))"
  by pat_completeness auto
termination replaceAll
  by (relation "measure (\<lambda>(m, mark, p, s). length s)") auto

declare replaceAll.simps(2) [simp del]

abbreviation replaced :: "matcher \<Rightarrow> string \<Rightarrow> char option \<Rightarrow> string \<Rightarrow> string" where
  "replaced m mark p s \<equiv> fst (replaceAll m mark p s)"

lemma replaced_skip:
  "m p (c # cs) = None \<Longrightarrow> replaced m mark p (c # cs) = c # replaced m mark (Some c) cs"
  by (simp add: replaceAll.simps(2) case_prod_unfold Let_def)

lemma replaced_match:
  "m p (c # cs) = Some (k, v) \<Longrightarrow>
    replaced m mark p (c # cs)
      = take k (c # cs) @ mark @ replaced m mark (Some ((c # cs) ! (k + v - 1))) (drop (k + v - 1) cs)"
  by (simp add: replaceAll.simps(2) case_prod_unfold Let_def)

section \<open>The three expressions\<close>

definition isAlnum :: "char \<Rightarrow> bool" where
  "isAlnum c = (let n = (of_char c :: nat) in
     (48 \<le> n \<and> n \<le> 57) \<or> (65 \<le> n \<and> n \<le> 90) \<or> (97 \<le> n \<and> n \<le> 122))"

definition isHexDigit :: "char \<Rightarrow> bool" where
  "isHexDigit c = (let n = (of_char c :: nat) in
     (48 \<le> n \<and> n \<le> 57) \<or> (65 \<le> n \<and> n \<le> 70) \<or> (97 \<le> n \<and> n \<le> 102))"

definition isWordChar :: "char \<Rightarrow> bool" where
  "isWordChar c = (isAlnum c \<or> c = CHR ''_'')"

text \<open>A code unit that is not a word character, or the edge of the text: with a word character
  on the other side this is a word boundary.\<close>

definition edge :: "char option \<Rightarrow> bool" where
  "edge p = (case p of None \<Rightarrow> True | Some c \<Rightarrow> \<not> isWordChar c)"

definition firstChar :: "string \<Rightarrow> char option" where
  "firstChar s = (case s of [] \<Rightarrow> None | c # _ \<Rightarrow> Some c)"

text \<open>\<open>/sk-[A-Za-z0-9]{8,}/g\<close>\<close>

definition apiKeyMatch :: matcher where
  "apiKeyMatch p s =
     (let n = length (takeWhile isAlnum (drop 3 s))
      in if startsWith s ''sk-'' \<and> 8 \<le> n then Some (0, 3 + n) else None)"

text \<open>\<open>/(\b(?:api[_-]?key|token|password)\s*[:=]\s*)([^\s,;]+)/gi\<close>: the length of the keyword, then
  the whole.\<close>

definition credentialKeyword :: "string \<Rightarrow> nat option" where
  "credentialKeyword s =
     (let t = toLowerCase s in
      if startsWith t ''apikey'' then Some 6
      else if startsWith t ''api_key'' \<or> startsWith t ''api-key'' then Some 7
      else if startsWith t ''token'' then Some 5
      else if startsWith t ''password'' then Some 8
      else None)"

definition isValueChar :: "char \<Rightarrow> bool" where
  "isValueChar c = (\<not> isWhiteSpace c \<and> c \<noteq> CHR '','' \<and> c \<noteq> CHR '';'')"

definition credentialMatch :: matcher where
  "credentialMatch p s =
     (case (if edge p then credentialKeyword s else None) of
        None \<Rightarrow> None
      | Some n \<Rightarrow>
          (let gap = length (takeWhile isWhiteSpace (drop n s)) in
           case drop (n + gap) s of
             [] \<Rightarrow> None
           | c # t \<Rightarrow>
               if c = CHR '':'' \<or> c = CHR ''='' then
                 (let lead = length (takeWhile isWhiteSpace t);
                      v = length (takeWhile isValueChar (drop lead t))
                  in if v = 0 then None else Some (n + gap + 1 + lead, v))
               else None))"

text \<open>\<open>/\b[A-Fa-f0-9]{32,}\b/g\<close>\<close>

definition hashMatch :: matcher where
  "hashMatch p s =
     (let n = length (takeWhile isHexDigit s)
      in if edge p \<and> 32 \<le> n \<and> edge (firstChar (drop n s)) then Some (0, n) else None)"

definition secretMark :: string where
  "secretMark = ''[REDACTED_SECRET]''"

definition credentialMark :: string where
  "credentialMark = ''[REDACTED]''"

text \<open>The three replacements one after another; the callbacks count.\<close>

definition redactSecrets :: "string \<Rightarrow> string \<times> nat" where
  "redactSecrets content =
     (let (keys, a) = replaceAll apiKeyMatch secretMark None content;
          (credentials, b) = replaceAll credentialMatch credentialMark None keys;
          (hashes, c) = replaceAll hashMatch secretMark None credentials
      in (hashes, a + b + c))"

section \<open>Unsafe instructions\<close>

text \<open>The words of an expression with \<open>\s+\<close> between them, at the start of a lower-cased text.\<close>

fun startsWithWords :: "string list \<Rightarrow> string \<Rightarrow> bool" where
  "startsWithWords [] s = True"
| "startsWithWords [w] s = startsWith s w"
| "startsWithWords (w # x # ws) s =
     (startsWith s w \<and>
      (let r = drop (length w) s in
       r \<noteq> [] \<and> isWhiteSpace (hd r) \<and> startsWithWords (x # ws) (dropWhile isWhiteSpace r)))"

fun somewhere :: "(char option \<Rightarrow> string \<Rightarrow> bool) \<Rightarrow> char option \<Rightarrow> string \<Rightarrow> bool" where
  "somewhere P p [] = P p []"
| "somewhere P p (c # cs) = (P p (c # cs) \<or> somewhere P (Some c) cs)"

definition UNSAFE_PATTERNS :: "(string \<Rightarrow> bool) list" where
  "UNSAFE_PATTERNS =
     [\<lambda>s. somewhere (\<lambda>p. startsWithWords [''ignore'', ''previous'', ''instructions'']) None (toLowerCase s),
      \<lambda>s. somewhere (\<lambda>p. startsWithWords [''reveal'', ''system'', ''prompt'']) None (toLowerCase s),
      \<lambda>s. somewhere (\<lambda>p t. edge p \<and> startsWith t ''exfiltrate'' \<and> edge (firstChar (drop 10 t))) None
            (toLowerCase s)]"

section \<open>What a scan keeps\<close>

text \<open>A scan without a match changes nothing.\<close>

fun clean :: "matcher \<Rightarrow> char option \<Rightarrow> string \<Rightarrow> bool" where
  "clean m p [] = True"
| "clean m p (c # cs) = (m p (c # cs) = None \<and> clean m (Some c) cs)"

lemma replaceAll_clean: "clean m p s \<Longrightarrow> replaceAll m mark p s = (s, 0)"
  by (induction m p s rule: clean.induct) (simp_all add: replaceAll.simps(2))

text \<open>A text that a scan passes over without a match.\<close>

fun passes :: "matcher \<Rightarrow> char option \<Rightarrow> string \<Rightarrow> string \<Rightarrow> bool" where
  "passes m p [] r = True"
| "passes m p (c # cs) r = (m p (c # cs @ r) = None \<and> passes m (Some c) cs r)"

definition lastChar :: "char option \<Rightarrow> string \<Rightarrow> char option" where
  "lastChar p w = (if w = [] then p else Some (last w))"

lemma lastChar_simps [simp]:
  "lastChar p [] = p"
  "lastChar p (c # w) = lastChar (Some c) w"
  by (simp_all add: lastChar_def)

lemma replaced_passes:
  "passes m p w r \<Longrightarrow> replaced m mark p (w @ r) = w @ replaced m mark (lastChar p w) r"
  by (induction m p w r rule: passes.induct) (simp_all add: replaced_skip)

lemma clean_passes: "clean m p (w @ r) \<longleftrightarrow> passes m p w r \<and> clean m (lastChar p w) r"
  by (induction m p w r rule: passes.induct) auto

lemma append_eq_append2:
  "a @ b = x @ z \<Longrightarrow> (\<exists>u. a = x @ u \<and> u @ b = z) \<or> (\<exists>u. x = a @ u \<and> u \<noteq> [] \<and> b = u @ z)"
  by (auto simp: append_eq_append_conv2)

lemma append_eq_append3:
  assumes "a @ b @ c = x @ z"
  shows "(\<exists>u. a = x @ u \<and> u @ b @ c = z) \<or>
    (\<exists>u v. x = a @ u \<and> b = u @ v \<and> v \<noteq> [] \<and> v @ c = z) \<or> (\<exists>v. x = a @ b @ v \<and> c = v @ z)"
proof -
  from append_eq_append2 [OF assms] consider u where "a = x @ u" "u @ b @ c = z"
    | u where "x = a @ u" "b @ c = u @ z" by blast
  then show ?thesis
  proof cases
    case 1
    then show ?thesis by blast
  next
    case (2 u)
    then have "(\<exists>v. b = u @ v \<and> v @ c = z) \<or> (\<exists>v. u = b @ v \<and> c = v @ z)"
      by (auto simp: append_eq_append_conv2)
    then show ?thesis
    proof (elim disjE exE conjE)
      fix v assume "b = u @ v" "v @ c = z"
      then show ?thesis using 2 by (cases v) auto
    next
      fix v assume "u = b @ v" "c = v @ z"
      then show ?thesis using 2 by auto
    qed
  qed
qed

text \<open>The interface of a redacting scan: a match takes a nonempty part whose first code unit
  satisfies \<open>Q\<close>, and the mark begins with a bracket.\<close>

locale redacting_scan =
  fixes m :: matcher and Q :: "char \<Rightarrow> bool" and mark :: string
  assumes match_part: "m p s = Some (k, v) \<Longrightarrow> 0 < v \<and> k + v \<le> length s \<and> Q (s ! k)"
    and mark_bracket: "take 1 mark = ''[''"
begin

lemma match_parts:
  assumes "m p s = Some (k, v)"
  obtains a b r where "s = a @ b @ r" "k = length a" "v = length b" "b \<noteq> []" "Q (hd b)"
proof
  let ?a = "take k s" and ?b = "take v (drop k s)" and ?r = "drop (k + v) s"
  have kv: "0 < v" "k + v \<le> length s" "Q (s ! k)" using match_part [OF assms] by auto
  show "s = ?a @ ?b @ ?r"
    by (metis append_take_drop_id drop_drop add.commute)
  show "k = length ?a" "v = length ?b" using kv by auto
  show "?b \<noteq> []" using kv by auto
  show "Q (hd ?b)" using kv by (simp add: hd_take hd_drop_conv_nth)
qed

lemma replaced_parts:
  assumes "m p (a @ b @ r) = Some (length a, length b)" "b \<noteq> []"
  shows "replaced m mark p (a @ b @ r) = a @ mark @ replaced m mark (Some (last b)) r"
proof -
  obtain c cs where c: "a @ b @ r = c # cs" using assms(2) by (cases "a @ b @ r") auto
  have "length a + length b - 1 = length a + (length b - 1)" using assms(2) by (cases b) auto
  then have "(c # cs) ! (length a + length b - 1) = last b"
    using assms(2) by (simp flip: c add: nth_append last_conv_nth)
  moreover have "drop (length a + length b - 1) cs = drop (length a + length b) (c # cs)"
    using assms(2) by (cases "length a + length b") auto
  then have "drop (length a + length b - 1) cs = r" by (simp flip: c)
  moreover have "take (length a) (c # cs) = a" by (simp flip: c)
  ultimately show ?thesis
    using replaced_match [of m p c cs "length a" "length b" mark] assms(1) by (simp only: c)
qed

text \<open>Induction along a scan.\<close>

lemma scan_induct [case_names Nil skip match]:
  assumes "\<And>p. P p []"
    and "\<And>p c cs. \<lbrakk>m p (c # cs) = None; P (Some c) cs\<rbrakk> \<Longrightarrow> P p (c # cs)"
    and "\<And>p a b r. \<lbrakk>m p (a @ b @ r) = Some (length a, length b); b \<noteq> []; Q (hd b); P (Some (last b)) r\<rbrakk>
      \<Longrightarrow> P p (a @ b @ r)"
  shows "P p s"
proof (induction s arbitrary: p rule: length_induct)
  case (1 s)
  show ?case
  proof (cases "m p s")
    case None
    then show ?thesis using 1 assms(1,2) by (cases s) auto
  next
    case (Some kv)
    then obtain k v where "m p s = Some (k, v)" by (cases kv) auto
    then obtain a b r where s: "s = a @ b @ r" "k = length a" "v = length b" "b \<noteq> []" "Q (hd b)"
      by (rule match_parts)
    with \<open>m p s = Some (k, v)\<close> 1 show ?thesis by (auto intro!: assms(3))
  qed
qed

text \<open>The first code units of the result, up to a mark, are those of the text; where a mark
  begins, the text has the first code unit of the replaced part.\<close>

lemma replaced_prefix:
  "\<lbrakk>replaced m mark p s = u @ z; CHR ''['' \<notin> set u\<rbrakk> \<Longrightarrow>
    \<exists>w. s = u @ w \<and> (z = [] \<longrightarrow> w = []) \<and>
        (\<forall>x z'. z = x # z' \<longrightarrow> (\<exists>y w'. w = y # w' \<and> (x = y \<or> Q y)))"
proof (induction p s arbitrary: u z rule: scan_induct)
  case (Nil p)
  then show ?case by simp
next
  case (skip p c cs)
  show ?case
  proof (cases u)
    case Nil
    with skip.prems skip.hyps show ?thesis by (auto simp: replaced_skip)
  next
    case (Cons d u')
    with skip.prems skip.hyps have "d = c" "replaced m mark (Some c) cs = u' @ z" "CHR ''['' \<notin> set u'"
      by (auto simp: replaced_skip)
    with skip.IH Cons show ?thesis by fastforce
  qed
next
  case (match p a b r)
  obtain mk where mk: "mark = CHR ''['' # mk" using mark_bracket by (cases mark) auto
  obtain R where R: "R = replaced m mark (Some (last b)) r" by blast
  have "a @ mark @ R = u @ z" using match by (simp add: replaced_parts R)
  then have "a @ CHR ''['' # mk @ R = u @ z" by (simp add: mk)
  then obtain us where us: "a = u @ us" "us @ CHR ''['' # mk @ R = z"
    using match.prems(2) by (auto simp: append_eq_append_conv2 append_eq_Cons_conv Cons_eq_append_conv)
  show ?case
    using us \<open>b \<noteq> []\<close> \<open>Q (hd b)\<close> by (cases us; cases b) auto
qed

text \<open>A bracket-free word of the result that does not begin inside a mark is a word of the text.\<close>

lemma replaced_infix:
  assumes "w \<noteq> []" "CHR ''['' \<notin> set w" "hd w \<notin> set mark"
  shows "replaced m mark p s = x @ w @ y \<Longrightarrow> \<exists>x' y'. s = x' @ w @ y'"
proof (induction p s arbitrary: x y rule: scan_induct)
  case (Nil p)
  then show ?case using assms(1) by simp
next
  case (skip p c cs)
  show ?case
  proof (cases x)
    case Nil
    with skip.prems have "replaced m mark p (c # cs) = w @ y" by simp
    from replaced_prefix [OF this assms(2)] obtain v where "c # cs = w @ v" by (elim exE conjE) (rule that)
    then show ?thesis by (intro exI [where x = "[]"] exI) auto
  next
    case (Cons d x')
    with skip.prems skip.hyps have "replaced m mark (Some c) cs = x' @ w @ y" by (auto simp: replaced_skip)
    then obtain x' y' where "cs = x' @ w @ y'" using skip.IH by blast
    then show ?thesis by (intro exI [where x = "c # x'"] exI) auto
  qed
next
  case (match p a b r)
  obtain R where R: "R = replaced m mark (Some (last b)) r" by blast
  obtain mk where mk: "mark = CHR ''['' # mk" using mark_bracket by (cases mark) auto
  have "a @ mark @ R = x @ w @ y" using match by (simp add: replaced_parts R)
  then consider us where "a = x @ us" "us @ mark @ R = w @ y"
    | us vs where "x = a @ us" "mark = us @ vs" "vs \<noteq> []" "vs @ R = w @ y"
    | vs where "R = vs @ w @ y"
    using append_eq_append3 [of a mark R x "w @ y"] by blast
  then show ?case
  proof cases
    case (1 us)
    then consider vs where "us = w @ vs" | vs where "w = us @ vs" "vs \<noteq> []" "mark @ R = vs @ y"
      using append_eq_append2 [of us "mark @ R" w y] by blast
    then show ?thesis
    proof cases
      case 1
      with \<open>a = x @ us\<close> show ?thesis by (intro exI [where x = x] exI) auto
    next
      case (2 vs)
      then have "hd vs = CHR ''[''" by (cases vs) (auto simp: mk)
      with 2 assms(2) show ?thesis by (cases vs) auto
    qed
  next
    case (2 us vs)
    then have "hd w \<in> set mark" using assms(1) by (cases vs; cases w) auto
    with assms(3) show ?thesis by simp
  next
    case (3 vs)
    then have "replaced m mark (Some (last b)) r = vs @ w @ y" by (simp add: R)
    from match.IH [OF this] obtain x' y' where "r = x' @ w @ y'" by blast
    then show ?thesis by (intro exI [where x = "a @ b @ x'"] exI) auto
  qed
qed

end

section \<open>Matches of the three expressions\<close>

lemma takeWhile_at_least:
  "n \<le> length (takeWhile P xs) \<longleftrightarrow> n \<le> length xs \<and> (\<forall>c\<in>set (take n xs). P c)"
  by (induction xs arbitrary: n) (auto simp: take_Cons' Suc_le_eq gr0_conv_Suc split: if_splits)

text \<open>The first eleven code units of a key.\<close>

definition keyStart :: "string \<Rightarrow> bool" where
  "keyStart w = (length w = 11 \<and> take 3 w = ''sk-'' \<and> (\<forall>c\<in>set (drop 3 w). isAlnum c))"

lemma apiKeyMatch_iff: "apiKeyMatch p s \<noteq> None \<longleftrightarrow> (\<exists>w r. s = w @ r \<and> keyStart w)"
proof
  assume "apiKeyMatch p s \<noteq> None"
  then have "startsWith s ''sk-''" "8 \<le> length (takeWhile isAlnum (drop 3 s))"
    by (auto simp: apiKeyMatch_def Let_def split: if_splits)
  then obtain t where "s = ''sk-'' @ t" "8 \<le> length t" "\<forall>c\<in>set (take 8 t). isAlnum c"
    by (auto simp: startsWith_iff takeWhile_at_least)
  then show "\<exists>w r. s = w @ r \<and> keyStart w"
    by (intro exI [where x = "''sk-'' @ take 8 t"] exI [where x = "drop 8 t"]) (simp add: keyStart_def)
next
  assume "\<exists>w r. s = w @ r \<and> keyStart w"
  then obtain w r where w: "s = w @ r" "keyStart w" by blast
  then have "s = ''sk-'' @ drop 3 w @ r" by (metis append_assoc append_take_drop_id keyStart_def)
  moreover have "8 \<le> length (takeWhile isAlnum (drop 3 s))"
    using w by (simp add: takeWhile_at_least keyStart_def)
  ultimately have "startsWith s ''sk-''" "8 \<le> length (takeWhile isAlnum (drop 3 s))"
    by (auto simp: startsWith_iff)
  then show "apiKeyMatch p s \<noteq> None" by (simp add: apiKeyMatch_def)
qed

interpretation keys: redacting_scan apiKeyMatch isAlnum secretMark
proof
  fix p s k v
  assume "apiKeyMatch p s = Some (k, v)"
  then have s: "startsWith s ''sk-''" "k = 0" "v = 3 + length (takeWhile isAlnum (drop 3 s))"
    by (auto simp: apiKeyMatch_def Let_def split: if_splits)
  then obtain t where t: "s = ''sk-'' @ t" by (auto simp: startsWith_iff)
  show "0 < v \<and> k + v \<le> length s \<and> isAlnum (s ! k)"
    using s length_takeWhile_le [of isAlnum t] by (simp add: t isAlnum_def)
next
  show "take 1 secretMark = ''[''" by (simp add: secretMark_def)
qed

interpretation hashes: redacting_scan hashMatch isHexDigit secretMark
proof
  fix p s k v
  assume "hashMatch p s = Some (k, v)"
  then have s: "k = 0" "v = length (takeWhile isHexDigit s)" "32 \<le> v"
    by (auto simp: hashMatch_def Let_def split: if_splits)
  from s have "isHexDigit (s ! 0)" by (cases s) (auto split: if_splits)
  moreover have "0 < v" using s(3) by linarith
  moreover have "v \<le> length s" using s(2) length_takeWhile_le [of isHexDigit s] by simp
  ultimately show "0 < v \<and> k + v \<le> length s \<and> isHexDigit (s ! k)" by (simp add: s(1))
next
  show "take 1 secretMark = ''[''" by (simp add: secretMark_def)
qed

text \<open>A credential assignment: the kept part, a nonempty value, and a rest the value cannot be
  extended into.\<close>

definition isKeyword :: "string \<Rightarrow> bool" where
  "isKeyword w = (toLowerCase w \<in> set [''apikey'', ''api_key'', ''api-key'', ''token'', ''password''])"

definition assignment :: "string \<Rightarrow> bool" where
  "assignment a = (\<exists>w x c y. a = w @ x @ c # y \<and> isKeyword w \<and> (\<forall>d\<in>set x. isWhiteSpace d)
     \<and> c \<in> {CHR '':'', CHR ''=''} \<and> (\<forall>d\<in>set y. isWhiteSpace d))"

definition stops :: "string \<Rightarrow> bool" where
  "stops r = (case r of [] \<Rightarrow> True | c # _ \<Rightarrow> \<not> isValueChar c)"

lemma credentialKeyword_intro: "isKeyword w \<Longrightarrow> credentialKeyword (w @ r) = Some (length w)"
proof -
  assume "isKeyword w"
  then have "toLowerCase w \<in> set [''apikey'', ''api_key'', ''api-key'', ''token'', ''password'']"
    by (simp only: isKeyword_def)
  moreover have "length w = length (toLowerCase w)" by (simp add: toLowerCase_def)
  moreover have "toLowerCase (w @ r) = toLowerCase w @ toLowerCase r" by (simp add: toLowerCase_def)
  ultimately show ?thesis by (auto simp: credentialKeyword_def)
qed

lemma credentialKeyword_elim:
  assumes "credentialKeyword s = Some n"
  shows "isKeyword (take n s) \<and> n \<le> length s"
proof -
  have "\<exists>w\<in>set [''apikey'', ''api_key'', ''api-key'', ''token'', ''password'']. startsWith (toLowerCase s) w \<and> n = length w"
    using assms by (auto simp: credentialKeyword_def Let_def split: if_splits)
  then obtain w r where w: "w \<in> set [''apikey'', ''api_key'', ''api-key'', ''token'', ''password'']"
      "toLowerCase s = w @ r" "n = length w"
    by (auto simp only: startsWith_iff)
  have "toLowerCase (take n s) = w" using w(2,3) by (simp add: toLowerCase_def take_map [symmetric])
  moreover have "n \<le> length s" using arg_cong [OF w(2), of length] w(3) by (simp add: toLowerCase_def)
  ultimately show ?thesis using w(1) by (simp only: isKeyword_def)
qed

lemma takeWhile_split:
  "\<lbrakk>\<forall>d\<in>set x. P d; \<not> P c\<rbrakk> \<Longrightarrow> takeWhile P (x @ c # y) = x"
  "\<lbrakk>\<forall>d\<in>set x. P d; r = [] \<or> \<not> P (hd r)\<rbrakk> \<Longrightarrow> takeWhile P (x @ r) = x"
  by (auto simp: takeWhile_append2 takeWhile_eq_Nil_iff)

lemma colon_not_white [simp]:
  "\<not> isWhiteSpace (CHR '':'')" "\<not> isWhiteSpace (CHR ''='')"
  by (simp_all add: isWhiteSpace_def)

lemma credentialMatch_intro:
  assumes "edge p" "assignment a" "b \<noteq> []" "\<forall>d\<in>set b. isValueChar d" "stops r"
  shows "credentialMatch p (a @ b @ r) = Some (length a, length b)"
proof -
  obtain w x c y where a: "a = w @ x @ c # y" "isKeyword w" "\<forall>d\<in>set x. isWhiteSpace d"
      "c \<in> {CHR '':'', CHR ''=''}" "\<forall>d\<in>set y. isWhiteSpace d"
    using assms(2) by (auto simp: assignment_def)
  have c: "\<not> isWhiteSpace c" using a(4) by auto
  have "takeWhile isWhiteSpace (x @ c # y @ b @ r) = x" by (rule takeWhile_split) (use a c in auto)
  moreover have "takeWhile isWhiteSpace (y @ b @ r) = y"
    by (rule takeWhile_split) (use a assms in \<open>auto simp: isValueChar_def hd_append\<close>)
  moreover have "takeWhile isValueChar (b @ r) = b"
    by (rule takeWhile_split) (use assms in \<open>auto simp: stops_def split: list.splits\<close>)
  ultimately show ?thesis
    using assms(1,3) a by (auto simp: credentialMatch_def credentialKeyword_intro)
qed

lemma credentialMatch_elim:
  assumes "credentialMatch p s = Some (k, v)"
  obtains a b r where "edge p" "s = a @ b @ r" "k = length a" "v = length b" "assignment a" "b \<noteq> []"
    "\<forall>d\<in>set b. isValueChar d" "stops r"
proof -
  obtain n where n: "edge p" "credentialKeyword s = Some n"
    using assms by (auto simp: credentialMatch_def split: option.splits if_splits)
  define x where "x = takeWhile isWhiteSpace (drop n s)"
  obtain c t where c: "drop (n + length x) s = c # t"
    using assms n by (auto simp: credentialMatch_def Let_def x_def split: list.splits)
  define y where "y = takeWhile isWhiteSpace t"
  define b where "b = takeWhile isValueChar (drop (length y) t)"
  have m: "c = CHR '':'' \<or> c = CHR ''=''" "b \<noteq> []" "k = n + length x + 1 + length y" "v = length b"
    using assms n c by (auto simp: credentialMatch_def Let_def x_def y_def b_def split: if_splits)
  have "drop n s = x @ c # t"
    using c by (metis append_take_drop_id drop_drop add.commute takeWhile_eq_take x_def)
  moreover have "t = y @ drop (length y) t"
    by (metis append_take_drop_id takeWhile_eq_take y_def)
  moreover have "drop (length y) t = b @ dropWhile isValueChar (drop (length y) t)"
    by (simp add: b_def)
  ultimately have s: "s = (take n s @ x @ c # y) @ b @ dropWhile isValueChar (drop (length y) t)"
    by (metis append_Cons append_assoc append_take_drop_id)
  show ?thesis
  proof (rule that [OF n(1) s _ m(4) _ m(2)])
    have nl: "isKeyword (take n s)" "n \<le> length s" using credentialKeyword_elim [OF n(2)] by auto
    then show "k = length (take n s @ x @ c # y)" using m by simp
    show "assignment (take n s @ x @ c # y)"
      unfolding assignment_def using nl m(1)
      by (intro exI [of _ "take n s"] exI [of _ x] exI [of _ c] exI [of _ y])
        (auto simp: x_def y_def dest: set_takeWhileD)
    show "\<forall>d\<in>set b. isValueChar d" by (auto simp: b_def dest: set_takeWhileD)
    show "stops (dropWhile isValueChar (drop (length y) t))"
      by (auto simp: stops_def split: list.splits dest: hd_dropWhile_not)
  qed
qed

lemma credentialMatch_parts:
  assumes "credentialMatch p (a @ b @ r) = Some (length a, length b)"
  shows "edge p" "assignment a" "b \<noteq> []" "\<forall>d\<in>set b. isValueChar d" "stops r"
proof -
  from assms obtain a' b' r' where 1: "edge p" "a @ b @ r = a' @ b' @ r'" "length a = length a'"
      "length b = length b'" "assignment a'" "b' \<noteq> []" "\<forall>d\<in>set b'. isValueChar d" "stops r'"
    by (rule credentialMatch_elim)
  then have "a = a'" "b = b'" "r = r'" by (auto simp: append_eq_append_conv)
  with 1 show "edge p" "assignment a" "b \<noteq> []" "\<forall>d\<in>set b. isValueChar d" "stops r" by simp_all
qed

interpretation credentials: redacting_scan credentialMatch isValueChar credentialMark
proof
  fix p s k v
  assume "credentialMatch p s = Some (k, v)"
  then obtain a b r where "s = a @ b @ r" "k = length a" "v = length b" "b \<noteq> []" "\<forall>d\<in>set b. isValueChar d"
    by (rule credentialMatch_elim)
  then show "0 < v \<and> k + v \<le> length s \<and> isValueChar (s ! k)"
    by (cases b) (auto simp: nth_append)
next
  show "take 1 credentialMark = ''[''" by (simp add: credentialMark_def)
qed

section \<open>Code units no match begins with\<close>

lemma word_lower: "isWordChar (lowerChar c) \<Longrightarrow> isWordChar c"
proof -
  have eq: "of_char (char_of (of_char c + 32 :: nat)) = (of_char c + 32 :: nat)"
    if "of_char c \<le> (222 :: nat)"
    using that by (simp add: of_char_of)
  have ne: "lowerChar c = CHR ''_'' \<Longrightarrow> c = CHR ''_''"
  proof (rule ccontr)
    assume "lowerChar c = CHR ''_''" "c \<noteq> CHR ''_''"
    then have *: "char_of (of_char c + 32 :: nat) = CHR ''_''" "65 \<le> (of_char c :: nat)" "of_char c \<le> (222 :: nat)"
      by (auto simp: lowerChar_def Let_def split: if_splits)
    from arg_cong [OF *(1), of "of_char :: char \<Rightarrow> nat"] have "of_char c + 32 = (95 :: nat)"
      using eq [OF *(3)] by simp
    with *(2) show False by simp
  qed
  show "isWordChar (lowerChar c) \<Longrightarrow> isWordChar c"
    using eq ne by (auto simp: isWordChar_def isAlnum_def lowerChar_def Let_def split: if_splits)
qed

lemma keyword_facts:
  assumes "isKeyword w"
  shows "w \<noteq> []" "isWordChar (hd w)" "CHR ''['' \<notin> set w" "length w < 32"
proof -
  let ?t = "toLowerCase w"
  have t: "?t \<in> set [''apikey'', ''api_key'', ''api-key'', ''token'', ''password'']"
    using assms by (simp only: isKeyword_def)
  then have "?t \<noteq> [] \<and> isWordChar (hd ?t) \<and> CHR ''['' \<notin> set ?t \<and> length ?t < 32"
    by (auto simp: isWordChar_def isAlnum_def)
  then show "w \<noteq> []" "isWordChar (hd w)" "CHR ''['' \<notin> set w" "length w < 32"
    by (auto simp: toLowerCase_def hd_map lowerChar_def image_iff intro: word_lower)
qed

lemma assignment_facts:
  assumes "assignment a"
  shows "a \<noteq> []" "isWordChar (hd a)" "CHR ''['' \<notin> set a"
proof -
  obtain w x c y where a: "a = w @ x @ c # y" "isKeyword w" "\<forall>d\<in>set x. isWhiteSpace d"
      "c \<in> {CHR '':'', CHR ''=''}" "\<forall>d\<in>set y. isWhiteSpace d"
    using assms by (auto simp: assignment_def)
  have "\<not> isWhiteSpace (CHR ''['')" by (simp add: isWhiteSpace_def)
  with a show "a \<noteq> []" "isWordChar (hd a)" "CHR ''['' \<notin> set a"
    using keyword_facts [OF a(2)] by auto
qed

lemma nonword_chars:
  "isHexDigit c \<Longrightarrow> isWordChar c" "isHexDigit c \<Longrightarrow> isValueChar c" "isWordChar c \<Longrightarrow> isValueChar c"
  "isWhiteSpace c \<Longrightarrow> \<not> isHexDigit c"
  by (auto simp: isHexDigit_def isWordChar_def isAlnum_def isValueChar_def isWhiteSpace_def Let_def)

lemma no_hash_at:
  "\<not> isHexDigit c \<Longrightarrow> hashMatch p (c # r) = None"
  "isWordChar d \<Longrightarrow> hashMatch (Some d) s = None"
  by (simp_all add: hashMatch_def edge_def)

lemma no_credential_at:
  "\<not> isWordChar c \<Longrightarrow> credentialMatch p (c # r) = None"
  "isWordChar d \<Longrightarrow> credentialMatch (Some d) s = None"
proof -
  assume c: "\<not> isWordChar c"
  show "credentialMatch p (c # r) = None"
  proof (rule ccontr)
    assume "credentialMatch p (c # r) \<noteq> None"
    then obtain k v where "credentialMatch p (c # r) = Some (k, v)" by auto
    then obtain a b t where "c # r = a @ b @ t" "assignment a" by (rule credentialMatch_elim)
    then have "isWordChar c" using assignment_facts [of a] by (cases a) auto
    with c show False by simp
  qed
next
  assume "isWordChar d"
  then show "credentialMatch (Some d) s = None" by (simp add: credentialMatch_def edge_def)
qed

lemma stops_edge: "stops r \<Longrightarrow> edge (firstChar r)"
  using nonword_chars(3) by (auto simp: stops_def edge_def firstChar_def split: list.splits)

text \<open>At a word boundary the code unit before does not matter, and the scan copies the first.\<close>

lemma scan_at_edge:
  assumes "edge (firstChar r)"
  shows "replaced credentialMatch mark p r = replaced credentialMatch mark q r"
    and "replaced hashMatch mark p r = replaced hashMatch mark q r"
    and "clean hashMatch p r = clean hashMatch q r"
    and "firstChar (replaced credentialMatch mark p r) = firstChar r"
    and "firstChar (replaced hashMatch mark p r) = firstChar r"
proof -
  have "r = [] \<or> (\<exists>c cs. r = c # cs \<and> \<not> isWordChar c \<and> \<not> isHexDigit c)"
    using assms nonword_chars(1) by (cases r) (auto simp: edge_def firstChar_def)
  then show "replaced credentialMatch mark p r = replaced credentialMatch mark q r"
    and "replaced hashMatch mark p r = replaced hashMatch mark q r"
    and "clean hashMatch p r = clean hashMatch q r"
    and "firstChar (replaced credentialMatch mark p r) = firstChar r"
    and "firstChar (replaced hashMatch mark p r) = firstChar r"
    by (auto simp: replaced_skip no_credential_at no_hash_at firstChar_def)
qed

lemma stops_firstChar: "firstChar r = firstChar s \<Longrightarrow> stops r = stops s"
  by (auto simp: stops_def firstChar_def split: list.splits)

text \<open>A text without a credential before it is scanned has none at its first code unit after.\<close>

context redacting_scan
begin

lemma no_new_credential:
  assumes "\<And>x. Q x \<Longrightarrow> isValueChar x" "credentialMatch p (c # cs) = None"
  shows "credentialMatch p (c # replaced m mark (Some c) cs) = None"
proof (rule ccontr)
  assume "credentialMatch p (c # replaced m mark (Some c) cs) \<noteq> None"
  then obtain k v where "credentialMatch p (c # replaced m mark (Some c) cs) = Some (k, v)" by auto
  then obtain a b r where new: "edge p" "c # replaced m mark (Some c) cs = a @ b @ r" "assignment a"
      "b \<noteq> []" "\<forall>d\<in>set b. isValueChar d" by (rule credentialMatch_elim)
  then obtain a' where a: "a = c # a'" using assignment_facts(1) by (cases a) auto
  obtain x b' where b: "b = x # b'" using new(4) by (cases b) auto
  have "replaced m mark (Some c) cs = a' @ x # b' @ r" using new(2) a b by simp
  moreover have "CHR ''['' \<notin> set a'" using assignment_facts(3) [OF new(3)] a by simp
  ultimately obtain y w where y: "cs = a' @ y # w" "x = y \<or> Q y"
    using replaced_prefix [of "Some c" cs a' "x # b' @ r"] by blast
  then have "isValueChar y" using new(5) b assms(1) by auto
  let ?b = "takeWhile isValueChar (y # w)" and ?r = "dropWhile isValueChar (y # w)"
  have "credentialMatch p (a @ ?b @ ?r) = Some (length a, length ?b)"
  proof (rule credentialMatch_intro [OF new(1,3)])
    show "?b \<noteq> []" using \<open>isValueChar y\<close> by simp
    show "\<forall>d\<in>set ?b. isValueChar d" by (auto dest: set_takeWhileD)
    show "stops ?r" by (auto simp: stops_def split: list.splits dest: hd_dropWhile_not)
  qed
  moreover have "a @ ?b @ ?r = c # cs" by (simp only: takeWhile_dropWhile_id) (simp add: a y)
  ultimately show False using assms(2) by simp
qed

end

lemma mark_value: "credentialMark \<noteq> []" "\<forall>d\<in>set credentialMark. isValueChar d" "last credentialMark = CHR '']''"
  by (simp_all add: credentialMark_def isValueChar_def isWhiteSpace_def)

text \<open>A second pass over the credentials puts back what is there.\<close>

lemma credentials_idem:
  "replaced credentialMatch credentialMark p (replaced credentialMatch credentialMark p s)
     = replaced credentialMatch credentialMark p s"
proof (induction p s rule: credentials.scan_induct)
  case (Nil p)
  then show ?case by simp
next
  case (skip p c cs)
  then show ?case by (simp add: replaced_skip credentials.no_new_credential)
next
  case (match p a b r)
  let ?R = "replaced credentialMatch credentialMark (Some (last b)) r"
  note parts = credentialMatch_parts [OF match.hyps(1)]
  have first: "firstChar ?R = firstChar r" by (rule scan_at_edge) (rule stops_edge [OF parts(5)])
  have "credentialMatch p (a @ credentialMark @ ?R) = Some (length a, length credentialMark)"
    using parts(1,2,5) mark_value(1,2) stops_firstChar [OF first] by (intro credentialMatch_intro) simp_all
  moreover have "replaced credentialMatch credentialMark q ?R = ?R" for q
    using match.IH scan_at_edge(1) [of ?R _ q "Some (last b)"] stops_edge [OF parts(5)] first by simp
  ultimately show ?case
    using match.hyps by (simp add: credentials.replaced_parts mark_value(1))
qed

section \<open>The marks, and hashes\<close>

lemma passes_append: "passes m p (u @ v) r \<longleftrightarrow> passes m p u (v @ r) \<and> passes m (lastChar p u) v r"
  by (induction m p u "v @ r" rule: passes.induct) auto

lemma hash_passes_nonhex: "\<forall>d\<in>set x. \<not> isHexDigit d \<Longrightarrow> passes hashMatch p x r"
  by (induction x arbitrary: p) (simp_all add: no_hash_at)

lemma takeWhile_blocked: "\<not> P c \<Longrightarrow> length (takeWhile P (u @ c # r)) \<le> length u"
  by (induction u) simp_all

lemma hash_passes_short: "\<lbrakk>length u < 32; \<not> isHexDigit c\<rbrakk> \<Longrightarrow> passes hashMatch p u (c # r)"
proof (induction u arbitrary: p)
  case Nil
  then show ?case by simp
next
  case (Cons d u)
  have "length (takeWhile isHexDigit (d # u @ c # r)) \<le> length (d # u)"
    using takeWhile_blocked [of isHexDigit c "d # u" r] Cons.prems(2) by simp
  with Cons show ?case by (simp add: hashMatch_def Let_def)
qed

lemma hash_passes_mark: "passes hashMatch p secretMark r" "passes hashMatch p credentialMark r"
  by (simp_all add: secretMark_def credentialMark_def hashMatch_def isHexDigit_def)

lemma no_keyword: "credentialKeyword s = None \<Longrightarrow> credentialMatch p s = None"
  by (simp add: credentialMatch_def)

lemma lower_mark_chars:
  "lowerChar (CHR ''['') = CHR ''[''" "lowerChar (CHR ''R'') = CHR ''r''" "lowerChar (CHR ''E'') = CHR ''e''"
  "lowerChar (CHR ''D'') = CHR ''d''" "lowerChar (CHR ''A'') = CHR ''a''" "lowerChar (CHR ''C'') = CHR ''c''"
  "lowerChar (CHR ''T'') = CHR ''t''" "lowerChar (CHR ''_'') = CHR ''_''" "lowerChar (CHR ''S'') = CHR ''s''"
  "lowerChar (CHR '']'') = CHR '']''"
  by code_simp+

lemma credential_passes_mark: "passes credentialMatch p secretMark r"
  unfolding secretMark_def passes.simps
  by (intro conjI no_keyword TrueI; simp add: credentialKeyword_def toLowerCase_def lower_mark_chars)

lemma key_passes_mark: "passes apiKeyMatch p secretMark r"
  by (simp add: secretMark_def apiKeyMatch_def)

lemma hash_passes_assignment:
  assumes "assignment a"
  shows "passes hashMatch p (a @ credentialMark) r"
proof -
  obtain w x c y where a: "a = w @ x @ c # y" "isKeyword w" "\<forall>d\<in>set x. isWhiteSpace d"
      "c \<in> {CHR '':'', CHR ''=''}" "\<forall>d\<in>set y. isWhiteSpace d"
    using assms by (auto simp: assignment_def)
  have c: "\<not> isHexDigit c" using a(4) by (auto simp: isHexDigit_def)
  have x: "\<forall>d\<in>set (x @ c # y). \<not> isHexDigit d" using a(3,5) c nonword_chars(4) by auto
  obtain d z where "x @ c # y = d # z" by (cases "x @ c # y") auto
  then have "passes hashMatch p w ((x @ c # y @ credentialMark) @ r)"
    using hash_passes_short [of w d p] keyword_facts(4) [OF a(2)] x
    by (cases x) (auto simp del: append_assoc simp: append_assoc)
  then show ?thesis
    using x hash_passes_mark(2) by (simp add: a(1) passes_append hash_passes_nonhex no_hash_at(1))
qed

text \<open>After a word character the scan copies the run of hexadecimal digits it is in.\<close>

lemma hash_run_kept:
  "takeWhile isHexDigit (replaced hashMatch mark (Some q) s) = takeWhile isHexDigit s \<and>
   firstChar (dropWhile isHexDigit (replaced hashMatch mark (Some q) s)) = firstChar (dropWhile isHexDigit s)"
  if "isWordChar q" for q
  using that
proof (induction s arbitrary: q)
  case Nil
  then show ?case by simp
next
  case (Cons c s)
  have "replaced hashMatch mark (Some q) (c # s) = c # replaced hashMatch mark (Some c) s"
    using Cons.prems by (simp add: replaced_skip no_hash_at(2))
  then show ?case using Cons.IH [of c] nonword_chars(1) by (auto simp: firstChar_def)
qed

lemma hashMatch_run:
  "hashMatch p s =
     (let n = length (takeWhile isHexDigit s)
      in if edge p \<and> 32 \<le> n \<and> edge (firstChar (dropWhile isHexDigit s)) then Some (0, n) else None)"
  by (simp add: hashMatch_def dropWhile_eq_drop)

lemma no_new_hash:
  assumes "hashMatch p (c # cs) = None"
  shows "hashMatch p (c # replaced hashMatch mark (Some c) cs) = None"
proof (cases "isHexDigit c")
  case True
  then show ?thesis
    using assms hash_run_kept [OF nonword_chars(1) [OF True], of mark cs] by (simp add: hashMatch_run)
qed (simp add: no_hash_at(1))

lemma hash_parts:
  assumes "hashMatch p (a @ b @ r) = Some (length a, length b)"
  shows "a = []" "\<forall>d\<in>set b. isHexDigit d" "32 \<le> length b" "edge p" "edge (firstChar r)"
proof -
  from assms have n: "length a = 0" "length b = length (takeWhile isHexDigit (a @ b @ r))" "32 \<le> length b" "edge p"
      "edge (firstChar (dropWhile isHexDigit (a @ b @ r)))"
    by (auto simp: hashMatch_run Let_def split: if_splits)
  then have "takeWhile isHexDigit (b @ r) @ dropWhile isHexDigit (b @ r) = b @ r" by simp
  with n have "takeWhile isHexDigit (b @ r) = b \<and> dropWhile isHexDigit (b @ r) = r"
    by (intro append_eq_append_conv [THEN iffD1] disjI1) simp_all
  with n show "a = []" "\<forall>d\<in>set b. isHexDigit d" "32 \<le> length b" "edge p" "edge (firstChar r)"
    by (auto dest: set_takeWhileD) (metis set_takeWhileD)
qed

lemma hashes_clean: "clean hashMatch p (replaced hashMatch secretMark p s)"
proof (induction p s rule: hashes.scan_induct)
  case (Nil p)
  then show ?case by simp
next
  case (skip p c cs)
  then show ?case by (simp add: replaced_skip no_new_hash)
next
  case (match p a b r)
  let ?R = "replaced hashMatch secretMark (Some (last b)) r"
  note parts = hash_parts [OF match.hyps(1)]
  have "clean hashMatch q ?R" for q
    using match.IH scan_at_edge(3) [of ?R q "Some (last b)"] scan_at_edge(5) [OF parts(5)] parts(5) by simp
  with match.hyps parts(1) show ?case
    by (simp add: hashes.replaced_parts [of p "[]", simplified] clean_passes hash_passes_mark)
qed

text \<open>The scan for hashes does not disturb the credentials.\<close>

lemma value_is_mark:
  assumes "credentialMatch p (a @ b @ r) = Some (length a, length b)"
    and "replaced credentialMatch credentialMark p (a @ b @ r) = a @ b @ r"
  shows "b = credentialMark" "replaced credentialMatch credentialMark (Some (last b)) r = r"
proof -
  note parts = credentialMatch_parts [OF assms(1)]
  let ?R = "replaced credentialMatch credentialMark (Some (last b)) r"
  have eq: "credentialMark @ ?R = b @ r"
    using assms parts(3) by (simp add: credentials.replaced_parts)
  have "stops ?R" using stops_firstChar [OF scan_at_edge(4) [OF stops_edge [OF parts(5)]]] parts(5) by simp
  then have "takeWhile isValueChar (credentialMark @ ?R) = credentialMark"
    by (intro takeWhile_split mark_value) (auto simp: stops_def split: list.splits)
  moreover have "takeWhile isValueChar (b @ r) = b"
    by (intro takeWhile_split parts) (use parts(5) in \<open>auto simp: stops_def split: list.splits\<close>)
  ultimately show "b = credentialMark" using eq by simp
  with eq show "?R = r" by simp
qed

lemma credentials_survive_hashes:
  "replaced credentialMatch credentialMark p t = t \<Longrightarrow>
    replaced credentialMatch credentialMark p (replaced hashMatch secretMark p t) = replaced hashMatch secretMark p t"
proof (induction t arbitrary: p rule: length_induct)
  case (1 t)
  let ?cr = "replaced credentialMatch credentialMark" and ?ha = "replaced hashMatch secretMark"
  show ?case
  proof (cases "credentialMatch p t")
    case (Some kv)
    then obtain k v where "credentialMatch p t = Some (k, v)" by (cases kv) auto
    then obtain a b r where t: "t = a @ b @ r" "credentialMatch p (a @ b @ r) = Some (length a, length b)"
      by (metis credentials.match_parts)
    note parts = credentialMatch_parts [OF t(2)]
    from value_is_mark [OF t(2)] "1.prems" have b: "b = credentialMark" "?cr (Some (last b)) r = r"
      by (simp_all add: t(1))
    have "?ha p t = a @ credentialMark @ ?ha (Some (last b)) r"
      using replaced_passes [OF hash_passes_assignment [OF parts(2)], of secretMark p r] parts(3)
      by (simp add: t(1) b lastChar_def)
    moreover have "?cr (Some (last b)) (?ha (Some (last b)) r) = ?ha (Some (last b)) r"
      using 1 b(2) parts(3) by (simp add: t(1))
    moreover have "stops (?ha (Some (last b)) r)"
      using stops_firstChar [OF scan_at_edge(5) [OF stops_edge [OF parts(5)]]] parts(5) by simp
    then have "credentialMatch p (a @ credentialMark @ ?ha (Some (last b)) r) = Some (length a, length credentialMark)"
      using parts mark_value by (intro credentialMatch_intro) simp_all
    ultimately show ?thesis
      using b(1) by (simp add: credentials.replaced_parts mark_value(1))
  next
    case None
    show ?thesis
    proof (cases "hashMatch p t")
      case hash: None
      show ?thesis
      proof (cases t)
        case (Cons c cs)
        have "?cr (Some c) cs = cs" using "1.prems" None by (simp add: Cons replaced_skip)
        then have "?cr (Some c) (?ha (Some c) cs) = ?ha (Some c) cs" using "1.IH" by (simp add: Cons)
        moreover have "credentialMatch p (c # ?ha (Some c) cs) = None"
          using None nonword_chars(2) by (intro hashes.no_new_credential) (simp_all add: Cons)
        ultimately show ?thesis using hash by (simp add: Cons replaced_skip)
      qed simp
    next
      case (Some kv)
      then obtain k v where "hashMatch p t = Some (k, v)" by (cases kv) auto
      then obtain a b r where t': "t = a @ b @ r" "hashMatch p (a @ b @ r) = Some (length a, length b)" "b \<noteq> []"
        by (metis hashes.match_parts)
      note parts = hash_parts [OF t'(2)]
      have t: "t = b @ r" "hashMatch p ([] @ b @ r) = Some (length ([] :: string), length b)"
        using t' parts(1) by simp_all
      obtain c b' where b: "b = c # b'" using t'(3) by (cases b) auto
      have "passes credentialMatch q u r'" if "\<forall>d\<in>set u. isHexDigit d" "isWordChar q'" "q = Some q'" for q q' u r'
        using that by (induction u arbitrary: q q') (auto simp: no_credential_at(2) nonword_chars(1))
      then have "passes credentialMatch p b r"
        using None parts(2) nonword_chars(1) by (simp add: b t(1))
      then have "?cr (Some (last b)) r = r"
        using "1.prems" t'(3) by (simp add: t(1) replaced_passes lastChar_def)
      then have IH: "?cr (Some (last b)) (?ha (Some (last b)) r) = ?ha (Some (last b)) r"
        using "1.IH" t'(3) by (simp add: t(1))
      have "?ha p t = secretMark @ ?ha (Some (last b)) r"
        using hashes.replaced_parts [OF t(2) t'(3)] by (simp add: t(1))
      moreover have "?cr q (?ha (Some (last b)) r) = ?ha (Some (last b)) r" for q
        using IH scan_at_edge(1) [of "?ha (Some (last b)) r" _ q "Some (last b)"] scan_at_edge(5) [OF parts(5)] parts(5)
        by simp
      ultimately show ?thesis by (simp add: replaced_passes credential_passes_mark)
    qed
  qed
qed

text \<open>No later scan brings a key back.\<close>

lemma key_infix: "clean apiKeyMatch p s \<longleftrightarrow> \<not> (\<exists>x w y. s = x @ w @ y \<and> keyStart w)"
proof (induction s arbitrary: p)
  case Nil
  then show ?case by (auto simp: keyStart_def)
next
  case (Cons c s)
  have "(\<exists>x w y. c # s = x @ w @ y \<and> keyStart w)
      \<longleftrightarrow> (\<exists>w y. c # s = w @ y \<and> keyStart w) \<or> (\<exists>x w y. s = x @ w @ y \<and> keyStart w)"
    by (metis append_Nil append_eq_Cons_conv)
  with Cons.IH show ?case using apiKeyMatch_iff [of p "c # s"] by auto
qed

lemma keyStart_word:
  assumes "keyStart w"
  shows "w \<noteq> []" "CHR ''['' \<notin> set w" "hd w = CHR ''s''"
proof -
  have w: "w = ''sk-'' @ drop 3 w" "\<forall>c\<in>set (drop 3 w). isAlnum c"
    using assms append_take_drop_id [of 3 w] by (simp_all add: keyStart_def)
  obtain u where u: "u = drop 3 w" by blast
  have "\<not> isAlnum (CHR ''['')" by (simp add: isAlnum_def)
  then have "CHR ''['' \<notin> set (''sk-'' @ u)" using w(2) by (auto simp: u)
  moreover have "w = ''sk-'' @ u" using w(1) by (simp only: u)
  ultimately show "w \<noteq> []" "CHR ''['' \<notin> set w" "hd w = CHR ''s''" by simp_all
qed

lemma mark_letters: "CHR ''s'' \<notin> set secretMark" "CHR ''s'' \<notin> set credentialMark"
  by (simp_all add: secretMark_def credentialMark_def)

lemma no_new_key:
  assumes "clean apiKeyMatch p s"
  shows "clean apiKeyMatch q (replaced credentialMatch credentialMark p' s)"
    and "clean apiKeyMatch q (replaced hashMatch secretMark p' s)"
proof -
  have none: "\<not> (\<exists>x w y. s = x @ w @ y \<and> keyStart w)" using assms unfolding key_infix .
  show "clean apiKeyMatch q (replaced credentialMatch credentialMark p' s)" unfolding key_infix
  proof (intro notI, elim exE conjE)
    fix x w y assume w: "replaced credentialMatch credentialMark p' s = x @ w @ y" "keyStart w"
    have "hd w \<notin> set credentialMark" using keyStart_word(3) [OF w(2)] mark_letters by simp
    from credentials.replaced_infix [OF keyStart_word(1,2) [OF w(2)] this w(1)] w(2) none show False by auto
  qed
  show "clean apiKeyMatch q (replaced hashMatch secretMark p' s)" unfolding key_infix
  proof (intro notI, elim exE conjE)
    fix x w y assume w: "replaced hashMatch secretMark p' s = x @ w @ y" "keyStart w"
    have "hd w \<notin> set secretMark" using keyStart_word(3) [OF w(2)] mark_letters by simp
    from hashes.replaced_infix [OF keyStart_word(1,2) [OF w(2)] this w(1)] w(2) none show False by auto
  qed
qed

lemma keys_clean: "clean apiKeyMatch p (replaced apiKeyMatch secretMark p s)"
proof (induction p s rule: keys.scan_induct)
  case (Nil p)
  then show ?case by simp
next
  case (skip p c cs)
  have "apiKeyMatch p (c # replaced apiKeyMatch secretMark (Some c) cs) = None"
  proof (rule ccontr)
    assume "apiKeyMatch p (c # replaced apiKeyMatch secretMark (Some c) cs) \<noteq> None"
    then have "apiKeyMatch p (replaced apiKeyMatch secretMark p (c # cs)) \<noteq> None"
      using skip.hyps by (simp add: replaced_skip)
    then obtain w r where w: "replaced apiKeyMatch secretMark p (c # cs) = w @ r" "keyStart w"
      unfolding apiKeyMatch_iff by blast
    from keys.replaced_prefix [OF w(1) keyStart_word(2) [OF w(2)]] obtain v where "c # cs = w @ v"
      by (elim exE conjE) (rule that)
    with w(2) have "apiKeyMatch p (c # cs) \<noteq> None" unfolding apiKeyMatch_iff by blast
    with skip.hyps show False by simp
  qed
  with skip show ?case by (simp add: replaced_skip)
next
  case (match p a b r)
  have "length a = 0" using match.hyps(1) by (auto simp: apiKeyMatch_def Let_def split: if_splits)
  moreover have "clean apiKeyMatch q (replaced apiKeyMatch secretMark (Some (last b)) r)" for q
    using match.IH by (simp add: key_infix)
  ultimately show ?case
    using match.hyps by (simp add: keys.replaced_parts [of p "[]", simplified] clean_passes key_passes_mark)
qed

section \<open>Redaction is complete\<close>

lemma redacted_scans:
  assumes "t = fst (redactSecrets content)"
  shows "clean apiKeyMatch None t" "clean hashMatch None t"
    "replaced credentialMatch credentialMark None t = t"
proof -
  define a where "a = replaced apiKeyMatch secretMark None content"
  define b where "b = replaced credentialMatch credentialMark None a"
  have t: "t = replaced hashMatch secretMark None b"
    by (simp add: assms redactSecrets_def case_prod_unfold Let_def a_def b_def)
  show "clean apiKeyMatch None t"
    unfolding t b_def a_def by (rule no_new_key(2) [OF no_new_key(1) [OF keys_clean]])
  show "clean hashMatch None t" unfolding t by (rule hashes_clean)
  have "replaced credentialMatch credentialMark None b = b" unfolding b_def by (rule credentials_idem)
  then show "replaced credentialMatch credentialMark None t = t"
    unfolding t by (rule credentials_survive_hashes)
qed

lemma redact_again:
  assumes "t = fst (redactSecrets content)"
  shows "redactSecrets t = replaceAll credentialMatch credentialMark None t"
  using replaceAll_clean [OF redacted_scans(1) [OF assms], of secretMark]
    replaceAll_clean [OF redacted_scans(2) [OF assms], of secretMark] redacted_scans(3) [OF assms]
  by (simp add: redactSecrets_def case_prod_unfold Let_def prod_eq_iff)

lemma redact_idem [simp]: "fst (redactSecrets (fst (redactSecrets content))) = fst (redactSecrets content)"
  by (simp add: redact_again redacted_scans(3))

text \<open>C32: No key and no hash survives redaction, whatever the input, and a second redaction changes
  nothing: it finds no key and no hash, and the only values it replaces are the credential marks
  of the first.\<close>

theorem redaction_complete:
  "let t = fst (redactSecrets content) in
     clean apiKeyMatch None t \<and> clean hashMatch None t \<and>
     redactSecrets t = replaceAll credentialMatch credentialMark None t \<and> fst (redactSecrets t) = t"
  by (simp add: redacted_scans redact_again)

end
