(* ===== verification/Ums_Events.thy ===== *)
theory Ums_Events
  imports Contracts Redaction
begin

text \<open>
  The events of the UMS engine (apps/api/src/ums/engine.ts, lines 1-896): how untyped input
  (plain events, envelopes, conversations, Jira issues, arrays of these) becomes raw events, and
  how a raw event becomes a normalised one. \<open>new Date(s).toISOString()\<close> is a host function.
\<close>

section \<open>Configuration and data\<close>

record engine_host = host +
  toISOString :: "string \<Rightarrow> string option"

record EngineDefaults =
  seed :: string
  defaultStore :: string
  defaultSpace :: string
  defaultMaxItems :: int
  defaultTokenBudget :: int
  maxMaxItems :: int
  maxTokenBudget :: int

definition DEFAULTS :: EngineDefaults where
  "DEFAULTS = \<lparr>seed = ''ums-engine-v1'', defaultStore = ''default'', defaultSpace = ''default'',
     defaultMaxItems = 10, defaultTokenBudget = 256, maxMaxItems = 100, maxTokenBudget = 8192\<rparr>"

record NormalizedEvent =
  ev_id :: string
  ev_timestamp :: string
  ev_storeId :: string
  ev_space :: string
  ev_source :: string
  ev_content :: string
  ev_tags :: "string list"
  ev_metadata :: "(string \<times> js_value) list"

record EngineContext =
  cx_storeId :: string
  cx_space :: string
  cx_source :: string
  cx_platform :: string
  cx_jiraBaseUrl :: string
  cx_conversationId :: "string option"
  cx_conversationOrdinal :: "nat option"

section \<open>Text helpers\<close>

definition estimateTokens :: "string \<Rightarrow> nat" where
  "estimateTokens content = max 1 ((length content + 3) div 4)"

definition epoch :: string where
  "epoch = ''1970-01-01T00:00:00.000Z''"

definition normalizeTimestamp :: "engine_host \<Rightarrow> js_value \<Rightarrow> string" where
  "normalizeTimestamp h value =
     (if \<not> truthy value then epoch
      else (case toISOString h (toStr value) of None \<Rightarrow> epoch | Some t \<Rightarrow> t))"

definition normalizeText :: "js_value \<Rightarrow> string" where
  "normalizeText value = (if nullish value then [] else trim (toStr value))"

text \<open>The engine's own stable text: \<open>JSON.stringify\<close> of undefined is undefined, which a template
  prints and \<open>Array.join\<close> leaves empty.\<close>

fun stableStringify_value :: "js_value \<Rightarrow> string" where
  "stableStringify_value Undefined = ''undefined''"
| "stableStringify_value Null = jsonStringify JNull"
| "stableStringify_value (Bool b) = jsonStringify (JBool b)"
| "stableStringify_value (Num x) = jsonStringify (JNum x)"
| "stableStringify_value (Str s) = jsonStringify (JStr s)"
| "stableStringify_value (Arr vs) =
     ''['' @ join '','' (map (\<lambda>v. if v = Undefined then [] else stableStringify_value v) vs) @ '']''"
| "stableStringify_value (Obj kvs) =
     ''{'' @ join '','' (map (\<lambda>(k, s). quoted k @ '':'' @ s)
        (arraySort (key fst codeUnitOrder) (map (\<lambda>(k, v). (k, stableStringify_value v)) kvs))) @ ''}''"

definition normalizeStoreId :: "js_value \<Rightarrow> string \<Rightarrow> string" where
  "normalizeStoreId value fallback = orString (normalizeText value) fallback"

definition toObject :: "js_value \<Rightarrow> js_value" where
  "toObject value = (case value of Obj kvs \<Rightarrow> Obj kvs | _ \<Rightarrow> Obj [])"

text \<open>\<open>filter(Boolean)\<close> on strings.\<close>

definition nonEmpty :: "string list \<Rightarrow> string list" where
  "nonEmpty = filter (\<lambda>s. s \<noteq> [])"

definition newline :: string where
  "newline = [CHR 0x0A]"

function toBodyText :: "js_value \<Rightarrow> string" where
  "toBodyText (Str s) = s"
| "toBodyText Null = []"
| "toBodyText Undefined = []"
| "toBodyText (Arr vs) = join newline (nonEmpty (map toBodyText vs))"
| "toBodyText (Obj kvs) =
     (case find isStr [getProp ''text'' (Obj kvs), getProp ''value'' (Obj kvs), getProp ''content'' (Obj kvs)] of
        Some s \<Rightarrow> strOrEmpty s
      | None \<Rightarrow> (case getProp ''content'' (Obj kvs) of
          Arr vs \<Rightarrow> join newline (nonEmpty (map toBodyText vs))
        | _ \<Rightarrow> stableStringify_value (Obj kvs)))"
| "toBodyText (Bool b) = stableStringify_value (Bool b)"
| "toBodyText (Num x) = stableStringify_value (Num x)"
  by pat_completeness auto
termination toBodyText
  by (relation "measure size") (auto dest: size_getProp_Arr simp: size_element [simplified] simp del: getProp.simps)

definition joinNonEmpty :: "string list \<Rightarrow> string" where
  "joinNonEmpty lines = join newline (nonEmpty (map trim lines))"

definition createSyntheticId :: "engine_host \<Rightarrow> NormalizedEvent \<Rightarrow> string" where
  "createSyntheticId h event =
     (let fingerprint = stableStringify_value (Obj
        [(''storeId'', Str (ev_storeId event)), (''space'', Str (ev_space event)),
         (''source'', Str (ev_source event)), (''timestamp'', Str (ev_timestamp event)),
         (''content'', Str (ev_content event)), (''tags'', Arr (map Str (ev_tags event))),
         (''metadata'', Obj (ev_metadata event))])
      in ''evt-'' @ take 16 (sha256 h fingerprint))"

section \<open>Shapes and contexts\<close>

definition looksLikeJiraIssue :: "js_value \<Rightarrow> bool" where
  "looksLikeJiraIssue value =
     (let issue = toObject value in isStr (getProp ''key'' issue) \<or> isObj (getProp ''fields'' issue))"

definition looksLikeConversation :: "js_value \<Rightarrow> bool" where
  "looksLikeConversation value =
     (let conversation = toObject value in
      isArr (getProp ''messages'' conversation) \<and>
      (isStr (getProp ''id'' conversation) \<or> isStr (getProp ''conversationId'' conversation)))"

text \<open>A member of the inherited context, a \<open>Partial<EngineContext>\<close>: empty at the top, a context
  inside an envelope.\<close>

definition inheritedProp :: "(EngineContext \<Rightarrow> string) \<Rightarrow> EngineContext option \<Rightarrow> js_value" where
  "inheritedProp f inherited = (case inherited of None \<Rightarrow> Undefined | Some c \<Rightarrow> Str (f c))"

definition makeContext :: "js_value \<Rightarrow> EngineDefaults \<Rightarrow> EngineContext option \<Rightarrow> EngineContext" where
  "makeContext input defaults inherited =
     (let raw = toObject input in
      \<lparr>cx_storeId = normalizeStoreId (firstDefined
          [getProp ''storeId'' raw, getProp ''store'' raw, getProp ''memoryStore'' raw,
           getProp ''namespace'' raw, inheritedProp cx_storeId inherited]) (defaultStore defaults),
       cx_space = orString (normalizeText (firstDefined
          [getProp ''space'' raw, getProp ''project'' raw, getProp ''channel'' raw,
           inheritedProp cx_space inherited])) (defaultSpace defaults),
       cx_source = normalizeText (firstDefined
          [getProp ''source'' raw, getProp ''connector'' raw, getProp ''platform'' raw,
           inheritedProp cx_source inherited]),
       cx_platform = normalizeText (firstDefined
          [getProp ''platform'' raw, inheritedProp cx_platform inherited]),
       cx_jiraBaseUrl = normalizeText (firstDefined
          [getProp ''jiraBaseUrl'' raw, inheritedProp cx_jiraBaseUrl inherited]),
       cx_conversationId = None, cx_conversationOrdinal = None\<rparr>)"

text \<open>A normalised event as the object the code passes on.\<close>

definition eventObject :: "NormalizedEvent \<Rightarrow> js_value" where
  "eventObject event = Obj
     [(''id'', Str (ev_id event)), (''storeId'', Str (ev_storeId event)), (''space'', Str (ev_space event)),
      (''source'', Str (ev_source event)), (''timestamp'', Str (ev_timestamp event)),
      (''content'', Str (ev_content event)), (''tags'', Arr (map Str (ev_tags event))),
      (''metadata'', Obj (ev_metadata event))]"

section \<open>Conversations\<close>

definition indexString :: "nat \<Rightarrow> string" where
  "indexString i = intString (int i)"

definition optionStr :: "string option \<Rightarrow> js_value" where
  "optionStr x = (case x of None \<Rightarrow> Undefined | Some s \<Rightarrow> Str s)"

definition normalizeConversationMessage ::
    "engine_host \<Rightarrow> js_value \<Rightarrow> EngineContext \<Rightarrow> nat \<Rightarrow> NormalizedEvent" where
  "normalizeConversationMessage h rawMessage context index =
     (let message = toObject rawMessage; field = (\<lambda>k. getProp k message);
          role = orString (toLowerCase (normalizeText
            (firstTruthy [field ''role'', field ''authorRole'', field ''speaker'']))) ''unknown'';
          conversationId = orString (normalizeText
            (firstTruthy [field ''conversationId'', optionStr (cx_conversationId context)]))
            (''conversation-'' @ cx_space context);
          messageId = orString (normalizeText (firstTruthy [field ''id'', field ''messageId'']))
            (conversationId @ ''-msg-'' @ indexString index);
          content = joinNonEmpty
            [strOrEmpty (field ''content''), strOrEmpty (field ''text''),
             strOrEmpty (field ''message''), strOrEmpty (field ''body'')];
          normalizedContent = orString content
            (toBodyText (firstDefined [field ''content'', field ''payload'', message]))
      in \<lparr>ev_id = messageId,
          ev_timestamp = normalizeTimestamp h (firstTruthy
            [field ''createdAt'', field ''timestamp'', field ''ts'', field ''time'']),
          ev_storeId = cx_storeId context, ev_space = cx_space context,
          ev_source = orString (cx_source context)
            (''agent-conversation:'' @ orString (cx_platform context) ''unknown''),
          ev_content = normalizedContent,
          ev_tags = nonEmpty [orString (cx_platform context) ''conversation'', role],
          ev_metadata =
            [(''role'', Str role), (''conversationId'', Str conversationId),
             (''platform'', Str (orString (cx_platform context) ''unknown'')),
             (''messageIndex'', Num (jint (int index))),
             (''meta'', if isObj (field ''meta'') then field ''meta'' else Undefined)]\<rparr>)"

text \<open>The sample of an anonymous conversation that names it.\<close>

definition conversationSample :: "js_value \<Rightarrow> js_value" where
  "conversationSample entry =
     (let sampleEntry = toObject entry in Obj
        [(''id'', Str (normalizeText (getProp ''id'' sampleEntry))),
         (''role'', Str (normalizeText (getProp ''role'' sampleEntry))),
         (''text'', Str (normalizeText (firstDefined
            [getProp ''text'' sampleEntry, getProp ''message'' sampleEntry,
             getProp ''content'' sampleEntry, Str []])))])"

definition normalizeFerndeskConversation ::
    "engine_host \<Rightarrow> js_value \<Rightarrow> EngineContext \<Rightarrow> NormalizedEvent list" where
  "normalizeFerndeskConversation h rawConversation context =
     (let conversation = toObject rawConversation; field = (\<lambda>k. getProp k conversation);
          explicitConversationId = normalizeText (firstTruthy [field ''id'', field ''conversationId'']);
          messages = arrOrEmpty (field ''messages'');
          fallbackSeed = stableStringify_value (Obj
            [(''space'', Str (cx_space context)), (''source'', Str (cx_source context)),
             (''ordinal'', Num (jint (case cx_conversationOrdinal context of None \<Rightarrow> 0 | Some n \<Rightarrow> int n))),
             (''sample'', Arr (map conversationSample (take 2 messages)))]);
          conversationId = orString explicitConversationId
            (''conversation-'' @ take 12 (sha256 h fallbackSeed));
          platform = orString (cx_platform context) ''jira-ferndesk'';
          summaryContent = joinNonEmpty [normalizeText (field ''title''), normalizeText (field ''description'')]
      in if messages \<noteq> [] then
           map (\<lambda>(index, message). normalizeConversationMessage h message
              (context\<lparr>cx_conversationId := Some conversationId, cx_platform := platform\<rparr>) index)
             (enumerate 0 messages)
         else if summaryContent = [] then []
         else
           [\<lparr>ev_id = conversationId @ ''-summary'',
             ev_timestamp = normalizeTimestamp h (firstTruthy [field ''lastMessageAt'', field ''updatedAt'']),
             ev_storeId = cx_storeId context, ev_space = cx_space context,
             ev_source = orString (cx_source context) ''jira'', ev_content = summaryContent,
             ev_tags = [''jira'', ''summary''],
             ev_metadata = [(''conversationId'', Str conversationId),
               (''url'', strOrUndefined (normalizeText (field ''url'')))]\<rparr>])"

section \<open>Jira issues\<close>

text \<open>\<open>s.replace(/\/$/, "")\<close>\<close>

definition withoutTrailingSlash :: "string \<Rightarrow> string" where
  "withoutTrailingSlash s = (if s \<noteq> [] \<and> last s = CHR ''/'' then butlast s else s)"

definition jiraComments :: "js_value \<Rightarrow> js_value \<Rightarrow> js_value list" where
  "jiraComments issue jiraFields =
     (let commentsFromField =
        (if isArr (getProp ''comments'' jiraFields) then arrOrEmpty (getProp ''comments'' jiraFields)
         else arrOrEmpty (getProp ''comments'' (toObject (getProp ''comment'' jiraFields))))
      in if isArr (getProp ''comments'' issue) then arrOrEmpty (getProp ''comments'' issue)
         else commentsFromField)"

definition jiraCommentEvent ::
    "engine_host \<Rightarrow> EngineContext \<Rightarrow> string \<Rightarrow> string \<Rightarrow> nat \<Rightarrow> js_value \<Rightarrow> NormalizedEvent" where
  "jiraCommentEvent h context issueKey issueTimestamp commentIndex rawComment =
     (let comment = toObject rawComment; field = (\<lambda>k. getProp k comment);
          author = toObject (field ''author'');
          authorName = orString (normalizeText (firstTruthy
            [getProp ''displayName'' author, getProp ''name'' author, getProp ''accountId'' author])) ''unknown-author'';
          visibility = field ''public'';
          publicFlag = (if nullish visibility then []
            else if truthy visibility then ''public'' else ''private'')
      in \<lparr>ev_id = ''jira-'' @ issueKey @ ''-comment-'' @
            orString (normalizeText (field ''id'')) (indexString commentIndex),
          ev_timestamp = normalizeTimestamp h (firstTruthy
            [field ''created'', field ''createdAt'', Str issueTimestamp]),
          ev_storeId = cx_storeId context, ev_space = cx_space context,
          ev_source = orString (cx_source context) ''jira-comment'',
          ev_content = joinNonEmpty
            [''Comment by '' @ authorName,
             if publicFlag = [] then [] else ''Visibility: '' @ publicFlag,
             toBodyText (firstTruthy [field ''body'', field ''content'', field ''text''])],
          ev_tags = [''jira'', ''comment''],
          ev_metadata =
            [(''issueKey'', Str issueKey), (''commentId'', strOrUndefined (normalizeText (field ''id''))),
             (''author'', Str authorName),
             (''public'', if nullish visibility then Undefined else Bool (truthy visibility))]\<rparr>)"

definition normalizeJiraIssue ::
    "engine_host \<Rightarrow> js_value \<Rightarrow> EngineContext \<Rightarrow> nat \<Rightarrow> NormalizedEvent list" where
  "normalizeJiraIssue h rawIssue context index =
     (let issue = toObject rawIssue; jiraFields = toObject (getProp ''fields'' issue);
          issueKey = normalizeText (firstTruthy
            [getProp ''key'' issue, getProp ''id'' issue, Str (''jira-issue-'' @ indexString index)]);
          description = toBodyText (getProp ''description'' jiraFields);
          summary = normalizeText (firstTruthy
            [getProp ''summary'' jiraFields, getProp ''summary'' issue, Str issueKey]);
          createdAt = normalizeTimestamp h (firstTruthy
            [getProp ''created'' jiraFields, getProp ''createdAt'' issue,
             getProp ''updated'' jiraFields, getProp ''updatedAt'' issue]);
          issueEvent = \<lparr>ev_id = ''jira-'' @ issueKey @ ''-summary'', ev_timestamp = createdAt,
            ev_storeId = cx_storeId context, ev_space = cx_space context,
            ev_source = orString (cx_source context) ''jira'',
            ev_content = joinNonEmpty
              [''['' @ issueKey @ ''] '' @ summary,
               if description = [] then [] else ''Description: '' @ description],
            ev_tags = [''jira'', ''issue''],
            ev_metadata =
              [(''issueKey'', Str issueKey),
               (''issueId'', strOrUndefined (normalizeText (getProp ''id'' issue))),
               (''status'', strOrUndefined (normalizeText
                  (getProp ''name'' (toObject (getProp ''status'' jiraFields))))),
               (''priority'', strOrUndefined (normalizeText
                  (getProp ''name'' (toObject (getProp ''priority'' jiraFields))))),
               (''url'', if cx_jiraBaseUrl context = [] then Undefined
                  else Str (withoutTrailingSlash (cx_jiraBaseUrl context) @ ''/browse/'' @ issueKey))]\<rparr>
      in issueEvent # map (\<lambda>(commentIndex, rawComment).
           jiraCommentEvent h context issueKey createdAt commentIndex rawComment)
           (enumerate 0 (jiraComments issue jiraFields)))"

section \<open>Raw events\<close>

text \<open>\<open>toRawEvents\<close>: arrays and envelopes are flattened; only \<open>events\<close> recurses, so the recursion
  follows the nesting of the input. A plain event is passed on as it is, without the context.\<close>

definition textEvent :: "js_value \<Rightarrow> EngineContext \<Rightarrow> js_value" where
  "textEvent input context = Obj
     [(''storeId'', Str (cx_storeId context)), (''space'', Str (cx_space context)),
      (''source'', Str (orString (cx_source context) ''unknown'')), (''timestamp'', Str epoch),
      (''content'', Str (normalizeText input)), (''metadata'', Obj [])]"

definition withSource :: "EngineContext \<Rightarrow> string \<Rightarrow> EngineContext" where
  "withSource context fallback = context\<lparr>cx_source := orString (cx_source context) fallback\<rparr>"

definition withPlatform :: "EngineContext \<Rightarrow> string \<Rightarrow> EngineContext" where
  "withPlatform context fallback = context\<lparr>cx_platform := orString (cx_platform context) fallback\<rparr>"

definition envelopeEvents :: "engine_host \<Rightarrow> EngineContext \<Rightarrow> js_value \<Rightarrow> js_value list" where
  "envelopeEvents h context envelope =
     (if isArr (getProp ''conversations'' envelope) then
        map eventObject (concat (map (\<lambda>(conversationOrdinal, conversation).
          normalizeFerndeskConversation h conversation
            ((withPlatform (withSource context ''jira'') ''jira-ferndesk'')
               \<lparr>cx_conversationOrdinal := Some conversationOrdinal\<rparr>))
          (enumerate 0 (arrOrEmpty (getProp ''conversations'' envelope)))))
      else if isArr (getProp ''issues'' envelope) then
        map eventObject (concat (map (\<lambda>(index, issue).
          normalizeJiraIssue h issue (withSource context ''jira'') index)
          (enumerate 0 (arrOrEmpty (getProp ''issues'' envelope)))))
      else if looksLikeConversation envelope then
        map eventObject (normalizeFerndeskConversation h envelope
          (withPlatform (withSource context ''agent-conversation'') ''agent-transcript''))
      else if looksLikeJiraIssue envelope then
        map eventObject (normalizeJiraIssue h envelope (withSource context ''jira'') 0)
      else [envelope])"

function toRawEvents ::
    "engine_host \<Rightarrow> EngineDefaults \<Rightarrow> EngineContext option \<Rightarrow> js_value \<Rightarrow> js_value list" where
  "toRawEvents h defaults inherited (Arr vs) = concat (map (toRawEvents h defaults inherited) vs)"
| "toRawEvents h defaults inherited (Obj kvs) =
     (let context = makeContext (Obj kvs) defaults inherited in
      case getProp ''events'' (Obj kvs) of
        Arr events \<Rightarrow> concat (map (\<lambda>event. toRawEvents h defaults
          (Some (withSource context (normalizeText (getProp ''source'' (toObject event))))) event) events)
      | _ \<Rightarrow> envelopeEvents h context (Obj kvs))"
| "toRawEvents h defaults inherited Undefined = [textEvent Undefined (makeContext (Obj []) defaults inherited)]"
| "toRawEvents h defaults inherited Null = [textEvent Null (makeContext (Obj []) defaults inherited)]"
| "toRawEvents h defaults inherited (Bool b) = [textEvent (Bool b) (makeContext (Obj []) defaults inherited)]"
| "toRawEvents h defaults inherited (Num x) = [textEvent (Num x) (makeContext (Obj []) defaults inherited)]"
| "toRawEvents h defaults inherited (Str s) = [textEvent (Str s) (makeContext (Obj []) defaults inherited)]"
  by pat_completeness auto
termination toRawEvents
  by (relation "measure (\<lambda>(h, d, i, v). size v)")
    (auto dest: size_getProp_Arr simp: size_element [simplified] simp del: getProp.simps)

section \<open>Normalised events\<close>

definition normalizeTags :: "js_value \<Rightarrow> string list" where
  "normalizeTags tags =
     (if isArr tags then arraySort codeUnitOrder (setOrder (nonEmpty (map normalizeText (arrOrEmpty tags))))
      else [])"

text \<open>\<open>if (wanted && !metadata.k) metadata.k = v\<close>\<close>

definition defaultMember :: "string \<Rightarrow> bool \<Rightarrow> string \<Rightarrow> (string \<times> js_value) list \<Rightarrow> (string \<times> js_value) list" where
  "defaultMember k wanted v metadata =
     (if wanted \<and> \<not> truthy (getProp k (Obj metadata)) then setProp k (Str v) metadata else metadata)"

text \<open>The fields of an event, before its id is completed.\<close>

definition normalizedFields :: "engine_host \<Rightarrow> EngineDefaults \<Rightarrow> js_value \<Rightarrow> NormalizedEvent" where
  "normalizedFields h defaults rawEvent =
     (let event = (\<lambda>k. getProp k rawEvent);
          role = toLowerCase (normalizeText (firstTruthy [event ''role'', event ''authorRole'']));
          given = (case event ''metadata'' of Obj kvs \<Rightarrow> kvs | _ \<Rightarrow> [])
      in \<lparr>ev_id = normalizeText (event ''id''),
          ev_timestamp = normalizeTimestamp h (firstTruthy
            [event ''timestamp'', event ''createdAt'', event ''occurredAt'', event ''updatedAt'']),
          ev_storeId = normalizeStoreId (firstDefined
            [event ''storeId'', event ''store'', event ''memoryStore'']) (defaultStore defaults),
          ev_space = orString (normalizeText (firstTruthy
            [event ''space'', event ''project'', event ''profile'', Str (defaultSpace defaults)]))
            (defaultSpace defaults),
          ev_source = orString (normalizeText (firstTruthy
            [event ''source'', event ''connector'', event ''platform'', event ''origin''])) ''unknown'',
          ev_content = toBodyText (firstDefined
            [event ''content'', event ''text'', event ''message'', event ''body'',
             event ''payload'', event ''summary'', Str []]),
          ev_tags = normalizeTags (event ''tags''),
          ev_metadata =
            defaultMember ''issueKey'' (truthy (event ''issueKey'')) (normalizeText (event ''issueKey''))
              (defaultMember ''conversationId'' (truthy (event ''conversationId''))
                 (normalizeText (event ''conversationId''))
                (defaultMember ''role'' (role \<noteq> []) role given))\<rparr>)"

text \<open>An event that is no object or has no space is rejected.\<close>

definition normalizeEvent :: "engine_host \<Rightarrow> EngineDefaults \<Rightarrow> js_value \<Rightarrow> NormalizedEvent option" where
  "normalizeEvent h defaults rawEvent =
     (let normalized = normalizedFields h defaults rawEvent in
      if \<not> isObj rawEvent \<or> ev_space normalized = [] then None
      else Some (if ev_id normalized = [] then normalized\<lparr>ev_id := createSyntheticId h normalized\<rparr>
                 else normalized))"

end
