(* ===== verification/Ums_Engine.thy ===== *)
theory Ums_Engine
  imports Ums_Events
begin

text \<open>
  The UMS engine (apps/api/src/ums/engine.ts, lines 898-1314): memories are kept in stores, each a
  Map of spaces, each a Map of events by id. The operations are ingestion with deduplication,
  redaction and flagging, budgeted recall, counting, export, import of a snapshot and the digest.
  Each takes the Maps and returns its result with the next Maps. A custom list of unsafe patterns
  is a list of predicates (expressions without the g and y flags keep no state).
\<close>

section \<open>State\<close>

record StoredEvent = NormalizedEvent +
  ev_hasSecret :: bool
  ev_unsafeInstruction :: bool
  ev_tokenEstimate :: nat

type_synonym bucket = "(string \<times> StoredEvent) list"
type_synonym store_state = "(string \<times> bucket) list"
type_synonym stores = "(string \<times> store_state) list"

text \<open>\<open>getStoreState\<close> and \<open>getSpaceBucket\<close> create what is missing; \<open>entryOf\<close> reads what is there then.\<close>

definition ensureEntry :: "string \<Rightarrow> (string \<times> 'a list) list \<Rightarrow> (string \<times> 'a list) list" where
  "ensureEntry k m = (if map_of m k = None then AList.update k [] m else m)"

definition entryOf :: "(string \<times> 'a list) list \<Rightarrow> string \<Rightarrow> 'a list" where
  "entryOf m k = (case map_of m k of None \<Rightarrow> [] | Some xs \<Rightarrow> xs)"

definition getStoreState :: "stores \<Rightarrow> string \<Rightarrow> stores" where
  "getStoreState stores storeId = ensureEntry storeId stores"

definition getSpaceBucket :: "stores \<Rightarrow> string \<Rightarrow> string \<Rightarrow> stores" where
  "getSpaceBucket stores storeId space =
     AList.update storeId (ensureEntry space (entryOf stores storeId)) stores"

definition bucketOf :: "stores \<Rightarrow> string \<Rightarrow> string \<Rightarrow> bucket" where
  "bucketOf stores storeId space = entryOf (entryOf stores storeId) space"

text \<open>\<open>bucket.set(id, event)\<close> on the bucket inside the Maps.\<close>

definition bucketSet :: "string \<Rightarrow> string \<Rightarrow> StoredEvent \<Rightarrow> stores \<Rightarrow> stores" where
  "bucketSet storeId space event stores =
     (let spaces = entryOf stores storeId in
      AList.update storeId
        (AList.update space (AList.update (ev_id event) event (entryOf spaces space)) spaces) stores)"

definition storedEvent :: "(string \<Rightarrow> bool) list \<Rightarrow> NormalizedEvent \<Rightarrow> StoredEvent" where
  "storedEvent patterns normalized =
     (let (text, count) = redactSecrets (ev_content normalized) in
      NormalizedEvent.extend (normalized\<lparr>ev_content := text\<rparr>)
        (StoredEvent.fields (0 < count) (\<exists>pattern\<in>set patterns. pattern text) (estimateTokens text)))"

section \<open>Counting\<close>

definition totalEventsForStore :: "store_state \<Rightarrow> nat" where
  "totalEventsForStore storeState = sum_list (map (\<lambda>(space, bucket). length bucket) storeState)"

definition totalEvents :: "stores \<Rightarrow> nat" where
  "totalEvents stores = sum_list (map (\<lambda>(storeId, storeState). totalEventsForStore storeState) stores)"

definition totalSpaces :: "stores \<Rightarrow> nat" where
  "totalSpaces stores = sum_list (map (\<lambda>(storeId, storeState). length storeState) stores)"

text \<open>\<open>getEventCount(space, storeId)\<close>; an absent \<open>storeId\<close> is the default store.\<close>

definition getEventCount :: "EngineDefaults \<Rightarrow> stores \<Rightarrow> string option \<Rightarrow> js_value \<Rightarrow> nat" where
  "getEventCount config stores space storeId =
     (let given = (if storeId = Undefined then Str (defaultStore config) else storeId);
          storeState = entryOf stores (normalizeStoreId given (defaultStore config))
      in case space of
           Some p \<Rightarrow> if p \<noteq> [] then length (entryOf storeState p) else totalEventsForStore storeState
         | None \<Rightarrow> totalEventsForStore storeState)"

section \<open>Ingestion\<close>

record IngestCounts =
  ic_accepted :: nat
  ic_duplicates :: nat
  ic_rejected :: nat
  ic_redactedSecrets :: nat
  ic_unsafeInstructions :: nat

record IngestResult = IngestCounts +
  ir_storeCount :: nat
  ir_spaceCount :: nat
  ir_totalEvents :: nat

text \<open>One turn of the ingestion loop.\<close>

definition ingestEvent ::
    "engine_host \<Rightarrow> EngineDefaults \<Rightarrow> (string \<Rightarrow> bool) list \<Rightarrow> js_value \<Rightarrow>
     IngestCounts \<times> stores \<Rightarrow> IngestCounts \<times> stores" where
  "ingestEvent h config patterns rawEvent = (\<lambda>(counts, stores).
     case normalizeEvent h config rawEvent of
       None \<Rightarrow> (counts\<lparr>ic_rejected := ic_rejected counts + 1\<rparr>, stores)
     | Some normalized \<Rightarrow>
         (let opened = getSpaceBucket (getStoreState stores (ev_storeId normalized))
                (ev_storeId normalized) (ev_space normalized);
              bucket = bucketOf opened (ev_storeId normalized) (ev_space normalized)
          in if map_of bucket (ev_id normalized) \<noteq> None
             then (counts\<lparr>ic_duplicates := ic_duplicates counts + 1\<rparr>, opened)
             else
               (let event = storedEvent patterns normalized in
                (counts\<lparr>ic_accepted := ic_accepted counts + 1,
                   ic_redactedSecrets := ic_redactedSecrets counts + snd (redactSecrets (ev_content normalized)),
                   ic_unsafeInstructions := ic_unsafeInstructions counts + (if ev_unsafeInstruction event then 1 else 0)\<rparr>,
                 bucketSet (ev_storeId normalized) (ev_space normalized) event opened))))"

definition noCounts :: IngestCounts where
  "noCounts = \<lparr>ic_accepted = 0, ic_duplicates = 0, ic_rejected = 0, ic_redactedSecrets = 0,
     ic_unsafeInstructions = 0\<rparr>"

definition ingest ::
    "engine_host \<Rightarrow> EngineDefaults \<Rightarrow> (string \<Rightarrow> bool) list \<Rightarrow> js_value \<Rightarrow> stores \<Rightarrow> IngestResult \<times> stores" where
  "ingest h config patterns input stores =
     (let (counts, after) = fold (ingestEvent h config patterns) (toRawEvents h config None input) (noCounts, stores)
      in (IngestCounts.extend counts
            (IngestResult.fields (length after) (totalSpaces after) (totalEvents after)), after))"

section \<open>Recall\<close>

text \<open>The pieces between runs of code units that are no letters or digits; empty pieces and
  pieces of one code unit fall to the filter, so the pieces are read off with one scan.\<close>

fun splitNonAlnum :: "string \<Rightarrow> string \<Rightarrow> string list" where
  "splitNonAlnum piece [] = [rev piece]"
| "splitNonAlnum piece (c # cs) =
     (if isAlnum c then splitNonAlnum (c # piece) cs else rev piece # splitNonAlnum [] cs)"

definition tokenize :: "string \<Rightarrow> string list" where
  "tokenize text = setOrder (filter (\<lambda>token. 1 < length token) (splitNonAlnum [] (toLowerCase (trim text))))"

definition HASH_UNIT_DENOMINATOR :: int where
  "HASH_UNIT_DENOMINATOR = 281474976710655"

text \<open>\<open>Number.parseInt(hex, 16)\<close> of a digest's digits, which are hexadecimal.\<close>

definition hexDigitValue :: "char \<Rightarrow> int" where
  "hexDigitValue c = (let n = of_char c in if n < 58 then n - 48 else if n < 71 then n - 55 else n - 87)"

definition hashToUnit :: "engine_host \<Rightarrow> string \<Rightarrow> jsnum" where
  "hashToUnit h input =
     jdiv (jint (foldl (\<lambda>n c. 16 * n + hexDigitValue c) 0 (take 12 (sha256 h input)))) (jint HASH_UNIT_DENOMINATOR)"

definition eventScore :: "engine_host \<Rightarrow> string \<Rightarrow> StoredEvent \<Rightarrow> string \<Rightarrow> jsnum" where
  "eventScore h query event engineSeed =
     (let contentTokens = tokenize (ev_content event);
          overlap = length (filter (\<lambda>token. token \<in> set contentTokens) (tokenize query));
          tieBreaker = jmul (hashToUnit h
            (engineSeed @ ''|'' @ query @ ''|'' @ ev_id event @ ''|'' @ ev_timestamp event)) (round64 (1 / 100))
      in jadd (jint (int overlap)) tieBreaker)"

text \<open>Newest first, then by id. Scores are finite: the overlap is a small integer and the tie-breaker is
  below one. Timestamps are results of \<open>toISOString\<close>, which collation tells
  apart when they differ.\<close>

definition compareEvents :: "engine_host \<Rightarrow> StoredEvent comparator" where
  "compareEvents h = thenBy (key ev_timestamp (reversed (localeCompare h))) (key ev_id (localeCompare h))"

definition compareRanked :: "engine_host \<Rightarrow> (StoredEvent \<times> jsnum) comparator" where
  "compareRanked h = thenBy (descending (\<lambda>(event, score). finiteValue score)) (key fst (compareEvents h))"

definition clampInteger :: "js_value \<Rightarrow> int \<Rightarrow> int \<Rightarrow> int \<Rightarrow> int" where
  "clampInteger value lo hi fallback =
     (case parseInt10 (toStr value) of None \<Rightarrow> fallback | Some n \<Rightarrow> max lo (min hi n))"

record RecallResultItem =
  ri_id :: string
  ri_storeId :: string
  ri_space :: string
  ri_source :: string
  ri_timestamp :: string
  ri_content :: string
  ri_score :: jsnum
  ri_hasSecret :: bool
  ri_unsafeInstruction :: bool

text \<open>\<open>evidence\<close> repeats the id and the source.\<close>

definition recallItem :: "StoredEvent \<times> jsnum \<Rightarrow> RecallResultItem" where
  "recallItem = (\<lambda>(event, score).
     \<lparr>ri_id = ev_id event, ri_storeId = ev_storeId event, ri_space = ev_space event,
      ri_source = ev_source event, ri_timestamp = ev_timestamp event, ri_content = ev_content event,
      ri_score = round6_fixed (finiteValue score), ri_hasSecret = ev_hasSecret event,
      ri_unsafeInstruction = ev_unsafeInstruction event\<rparr>)"

definition itemJson :: "RecallResultItem \<Rightarrow> json" where
  "itemJson item = JObj
     [(''id'', JStr (ri_id item)), (''storeId'', JStr (ri_storeId item)), (''space'', JStr (ri_space item)),
      (''source'', JStr (ri_source item)), (''timestamp'', JStr (ri_timestamp item)),
      (''content'', JStr (ri_content item)), (''score'', JNum (ri_score item)),
      (''flags'', JObj [(''hasSecret'', JBool (ri_hasSecret item)),
         (''unsafeInstruction'', JBool (ri_unsafeInstruction item))]),
      (''evidence'', JObj [(''episodeId'', JStr (ri_id item)), (''source'', JStr (ri_source item))])]"

record RecallResult =
  rr_query :: string
  rr_storeId :: string
  rr_space :: string
  rr_maxItems :: int
  rr_tokenBudget :: int
  rr_estimatedTokens :: nat
  rr_payloadBytes :: nat
  rr_truncated :: bool
  rr_items :: "RecallResultItem list"
  rr_filteredUnsafe :: nat
  rr_redactedSecrets :: nat

text \<open>The packing loop: stop at the item limit, skip what does not fit the budget.\<close>

fun packItems ::
    "int \<Rightarrow> int \<Rightarrow> (StoredEvent \<times> jsnum) list \<Rightarrow> nat \<times> (StoredEvent \<times> jsnum) list \<Rightarrow>
     nat \<times> (StoredEvent \<times> jsnum) list" where
  "packItems maxItems tokenBudget [] (tokens, items) = (tokens, items)"
| "packItems maxItems tokenBudget (rankedEvent # rest) (tokens, items) =
     (if maxItems \<le> int (length items) then (tokens, items)
      else if tokenBudget < int (tokens + ev_tokenEstimate (fst rankedEvent))
      then packItems maxItems tokenBudget rest (tokens, items)
      else packItems maxItems tokenBudget rest
        (tokens + ev_tokenEstimate (fst rankedEvent), items @ [rankedEvent]))"

text \<open>The request of a recall: its fields after defaulting and clamping.\<close>

record RecallQuery =
  rq_storeId :: string
  rq_space :: string
  rq_query :: string
  rq_includeUnsafe :: bool
  rq_maxItems :: int
  rq_tokenBudget :: int

definition recallQuery :: "EngineDefaults \<Rightarrow> js_value \<Rightarrow> RecallQuery" where
  "recallQuery config request =
     (let payload = (case request of Str s \<Rightarrow> Obj [(''query'', Str s)] | _ \<Rightarrow> toObject request);
          field = (\<lambda>k. getProp k payload)
      in \<lparr>rq_storeId = normalizeStoreId (firstDefined [field ''storeId'', field ''store'', field ''memoryStore''])
            (defaultStore config),
          rq_space = orString (normalizeText (firstTruthy [field ''space'', Str (defaultSpace config)]))
            (defaultSpace config),
          rq_query = normalizeText (firstTruthy [field ''query'', field ''text'']),
          rq_includeUnsafe = truthy (field ''includeUnsafe''),
          rq_maxItems = clampInteger (field ''maxItems'') 1 (maxMaxItems config) (defaultMaxItems config),
          rq_tokenBudget = clampInteger (field ''tokenBudget'') 1 (maxTokenBudget config)
            (defaultTokenBudget config)\<rparr>)"

definition recallEvents :: "engine_host \<Rightarrow> string \<Rightarrow> RecallQuery \<Rightarrow> StoredEvent list \<Rightarrow> RecallResult" where
  "recallEvents h engineSeed q events =
     (let dropped = (\<lambda>event. ev_unsafeInstruction event \<and> \<not> rq_includeUnsafe q);
          ranked = arraySort (compareRanked h)
            (map (\<lambda>event. (event, eventScore h (rq_query q) event engineSeed)) (filter (\<lambda>e. \<not> dropped e) events));
          (estimatedTokens, packed) = packItems (rq_maxItems q) (rq_tokenBudget q) ranked (0, []);
          items = map recallItem packed
      in \<lparr>rr_query = rq_query q, rr_storeId = rq_storeId q, rr_space = rq_space q, rr_maxItems = rq_maxItems q,
          rr_tokenBudget = rq_tokenBudget q, rr_estimatedTokens = estimatedTokens,
          rr_payloadBytes = utf8Length (jsonStringify (JArr (map itemJson items))),
          rr_truncated = (length items < length ranked), rr_items = items,
          rr_filteredUnsafe = length (filter dropped events),
          rr_redactedSecrets = length (filter ri_hasSecret items)\<rparr>)"

definition recall :: "engine_host \<Rightarrow> EngineDefaults \<Rightarrow> js_value \<Rightarrow> stores \<Rightarrow> RecallResult" where
  "recall h config request stores =
     (let q = recallQuery config request
      in recallEvents h (seed config) q (map snd (bucketOf stores (rq_storeId q) (rq_space q))))"

section \<open>Export, digest and import\<close>

definition exportEvent :: "StoredEvent \<Rightarrow> js_value" where
  "exportEvent event = Obj
     [(''id'', Str (ev_id event)), (''storeId'', Str (ev_storeId event)), (''space'', Str (ev_space event)),
      (''source'', Str (ev_source event)), (''timestamp'', Str (ev_timestamp event)),
      (''content'', Str (ev_content event)), (''tags'', Arr (map Str (ev_tags event))),
      (''metadata'', Obj (ev_metadata event)),
      (''flags'', Obj [(''hasSecret'', Bool (ev_hasSecret event)),
         (''unsafeInstruction'', Bool (ev_unsafeInstruction event))])]"

definition exportSpace :: "engine_host \<Rightarrow> string \<times> bucket \<Rightarrow> js_value" where
  "exportSpace h = (\<lambda>(space, bucket). Obj
     [(''space'', Str space),
      (''events'', Arr (map exportEvent (arraySort (compareEvents h) (map snd bucket))))])"

definition countValue :: "nat \<Rightarrow> js_value" where
  "countValue n = Num (jint (int n))"

definition exportStore :: "engine_host \<Rightarrow> string \<times> store_state \<Rightarrow> js_value" where
  "exportStore h = (\<lambda>(storeId, storeState). Obj
     [(''storeId'', Str storeId),
      (''spaces'', Arr (map (exportSpace h) (arraySort (key fst (localeCompare h)) storeState))),
      (''totals'', Obj [(''spaceCount'', countValue (length storeState)),
         (''eventCount'', countValue (totalEventsForStore storeState))])])"

definition exportState :: "engine_host \<Rightarrow> stores \<Rightarrow> js_value" where
  "exportState h stores = Obj
     [(''stores'', Arr (map (exportStore h) (arraySort (key fst (localeCompare h)) stores))),
      (''totals'', Obj [(''storeCount'', countValue (length stores)), (''spaceCount'', countValue (totalSpaces stores)),
         (''eventCount'', countValue (totalEvents stores))])]"

definition stateDigest :: "engine_host \<Rightarrow> stores \<Rightarrow> string" where
  "stateDigest h stores = sha256 h (stableStringify_value (exportState h stores))"

text \<open>One event of a snapshot: the entry's store and space override the event's, and the unsafe
  patterns are the built-in ones.\<close>

definition importEvent ::
    "engine_host \<Rightarrow> EngineDefaults \<Rightarrow> string \<Rightarrow> string \<Rightarrow> js_value \<Rightarrow> stores \<Rightarrow> stores" where
  "importEvent h defaults storeId entrySpace rawEvent stores =
     (let spread = (case toObject rawEvent of Obj kvs \<Rightarrow> kvs | _ \<Rightarrow> []) in
      case normalizeEvent h defaults
          (Obj (setProp ''space'' (Str entrySpace) (setProp ''storeId'' (Str storeId) spread))) of
        None \<Rightarrow> stores
      | Some normalized \<Rightarrow>
          bucketSet storeId (ev_space normalized) (storedEvent UNSAFE_PATTERNS normalized)
            (getSpaceBucket stores storeId (ev_space normalized)))"

definition importSpace :: "engine_host \<Rightarrow> EngineDefaults \<Rightarrow> string \<Rightarrow> js_value \<Rightarrow> stores \<Rightarrow> stores" where
  "importSpace h defaults storeId spaceEntry stores =
     (let parsedSpaceEntry = toObject spaceEntry;
          entrySpace = orString (normalizeText (firstTruthy
            [getProp ''space'' parsedSpaceEntry, Str (defaultSpace defaults)])) (defaultSpace defaults)
      in fold (importEvent h defaults storeId entrySpace) (arrOrEmpty (getProp ''events'' parsedSpaceEntry)) stores)"

definition importStoreEntry ::
    "engine_host \<Rightarrow> EngineDefaults \<Rightarrow> js_value \<Rightarrow> js_value \<Rightarrow> stores \<Rightarrow> stores" where
  "importStoreEntry h defaults rawStoreId rawSpaces stores =
     (let storeId = normalizeStoreId rawStoreId (defaultStore defaults)
      in fold (importSpace h defaults storeId) (arrOrEmpty rawSpaces) (getStoreState stores storeId))"

definition importSnapshot :: "engine_host \<Rightarrow> EngineDefaults \<Rightarrow> js_value \<Rightarrow> stores \<Rightarrow> stores" where
  "importSnapshot h defaults snapshot stores =
     (let parsedSnapshot = toObject snapshot in
      case getProp ''stores'' parsedSnapshot of
        Arr entries \<Rightarrow> fold (\<lambda>storeEntry. importStoreEntry h defaults
          (getProp ''storeId'' (toObject storeEntry)) (getProp ''spaces'' (toObject storeEntry))) entries stores
      | Obj storesById \<Rightarrow> fold (\<lambda>storeId. importStoreEntry h defaults (Str storeId)
          (getProp ''spaces'' (toObject (getProp storeId (Obj storesById)))))
          (arraySort codeUnitOrder (map fst storesById)) stores
      | _ \<Rightarrow> (if isArr (getProp ''spaces'' parsedSnapshot)
          then importStoreEntry h defaults (Str (defaultStore defaults)) (getProp ''spaces'' parsedSnapshot) stores
          else stores))"

text \<open>The state of a new engine.\<close>

definition createUmsEngine :: "engine_host \<Rightarrow> EngineDefaults \<Rightarrow> js_value \<Rightarrow> stores" where
  "createUmsEngine h config initialState = importSnapshot h config initialState []"

end
