(* ===== verification/Ums_Engine_Properties.thy ===== *)
theory Ums_Engine_Properties
  imports Ums_Engine "HOL-Library.Sublist"
begin

text \<open>
  Properties of the UMS engine: ingestion stores the first event of each key and replaying an
  input changes nothing (the locale \<open>insert_once\<close> and its interpretation), the shape of every
  reachable state, bounded and isolated recall, and the round trip of export and import.
\<close>

section \<open>Reading the Maps\<close>

definition eventAt :: "stores \<Rightarrow> string \<times> string \<times> string \<Rightarrow> StoredEvent option" where
  "eventAt stores = (\<lambda>(s, p, i). map_of (bucketOf stores s p) i)"

lemma map_of_update: "map_of (AList.update k v m) j = (if j = k then Some v else map_of m j)"
  by (simp add: update_conv')

lemma entryOf_update [simp]: "entryOf (AList.update k v m) j = (if j = k then v else entryOf m j)"
  by (simp add: entryOf_def map_of_update)

lemma entryOf_ensureEntry [simp]: "entryOf (ensureEntry k m) j = entryOf m j"
  by (simp add: ensureEntry_def) (simp add: entryOf_def)

lemma bucketOf_open [simp]:
  "bucketOf (getStoreState st s) s' p' = bucketOf st s' p'"
  "bucketOf (getSpaceBucket st s p) s' p' = bucketOf st s' p'"
  by (simp_all add: bucketOf_def getStoreState_def getSpaceBucket_def)

lemma bucketOf_set:
  "bucketOf (bucketSet s p e st) s' p' =
     (if s' = s \<and> p' = p then AList.update (ev_id e) e (bucketOf st s p) else bucketOf st s' p')"
  by (simp add: bucketOf_def bucketSet_def Let_def)

lemma eventAt_simps [simp]:
  "eventAt (getStoreState st s) k = eventAt st k"
  "eventAt (getSpaceBucket st s p) k = eventAt st k"
  "eventAt (bucketSet s p e st) k = (if k = (s, p, ev_id e) then Some e else eventAt st k)"
  by (auto simp: eventAt_def bucketOf_set map_of_update split: prod.split)

text \<open>Writing back what is there changes nothing, so opening an existing bucket does not.\<close>

lemma update_same: "map_of m k = Some v \<Longrightarrow> AList.update k v m = m"
  by (induction m) (auto split: if_splits)

lemma open_known:
  assumes "eventAt st (s, p, i) \<noteq> None"
  shows "getSpaceBucket (getStoreState st s) s p = st"
proof -
  obtain spaces where s: "map_of st s = Some spaces"
    using assms by (cases "map_of st s") (auto simp: eventAt_def bucketOf_def entryOf_def)
  moreover have "map_of spaces p \<noteq> None"
    using assms s by (auto simp: eventAt_def bucketOf_def entryOf_def split: option.splits)
  ultimately show ?thesis
    by (auto simp: getStoreState_def getSpaceBucket_def ensureEntry_def entryOf_def update_same)
qed

section \<open>Insertion of unknown keys\<close>

text \<open>The contract of a loop that inserts what a record says under its key unless the key is
  taken, and skips records that say nothing.\<close>

locale insert_once =
  fixes step :: "'r \<Rightarrow> 's \<Rightarrow> 's"
    and entry :: "'s \<Rightarrow> 'k \<Rightarrow> 'e option"
    and item :: "'r \<Rightarrow> ('k \<times> 'e) option"
  assumes step_entry: "entry (step r s) k =
      (case entry s k of Some e \<Rightarrow> Some e | None \<Rightarrow>
        (case item r of Some (k', e) \<Rightarrow> if k' = k then Some e else None | None \<Rightarrow> None))"
    and step_known: "\<lbrakk>\<And>k e. item r = Some (k, e) \<Longrightarrow> entry s k \<noteq> None\<rbrakk> \<Longrightarrow> step r s = s"
begin

lemma fold_entry:
  "entry (fold step rs s) k =
     (case entry s k of Some e \<Rightarrow> Some e | None \<Rightarrow> map_of (List.map_filter item rs) k)"
proof (induction rs arbitrary: s)
  case Nil
  then show ?case by (simp add: map_filter_simps split: option.splits)
next
  case (Cons r rs)
  show ?case
    by (simp add: Cons.IH step_entry map_filter_simps split: option.splits)
qed

lemma fold_keeps: "entry s k = Some e \<Longrightarrow> entry (fold step rs s) k = Some e"
  by (simp add: fold_entry)

lemma fold_known:
  assumes "\<And>r k e. \<lbrakk>r \<in> set rs; item r = Some (k, e)\<rbrakk> \<Longrightarrow> entry s k \<noteq> None"
  shows "fold step rs s = s"
  using assms
proof (induction rs)
  case Nil
  then show ?case by simp
next
  case (Cons r rs)
  have "step r s = s" by (rule step_known) (use Cons.prems in auto)
  moreover have "fold step rs s = s" by (rule Cons.IH) (use Cons.prems in auto)
  ultimately show ?case by simp
qed

text \<open>After a batch its keys are taken, whatever follows.\<close>

lemma batch_known:
  assumes "r \<in> set rs" "item r = Some (k, e)"
  shows "entry (fold step qs (fold step rs s)) k \<noteq> None"
proof -
  have "(k, e) \<in> set (List.map_filter item rs)" using assms by (auto simp: set_map_filter)
  then have "map_of (List.map_filter item rs) k \<noteq> None" by (simp add: map_of_eq_None_iff) force
  then have "entry (fold step rs s) k \<noteq> None" by (simp add: fold_entry split: option.splits)
  then show ?thesis by (auto simp: fold_entry)
qed

lemma replay: "fold step rs (fold step qs (fold step rs s)) = fold step qs (fold step rs s)"
  by (rule fold_known) (rule batch_known)

end

text \<open>The item of a raw event, and the ingestion loop without its counters.\<close>

definition eventKey :: "NormalizedEvent \<Rightarrow> string \<times> string \<times> string" where
  "eventKey n = (ev_storeId n, ev_space n, ev_id n)"

definition rawItem ::
    "engine_host \<Rightarrow> EngineDefaults \<Rightarrow> (string \<Rightarrow> bool) list \<Rightarrow> js_value \<Rightarrow>
     ((string \<times> string \<times> string) \<times> StoredEvent) option" where
  "rawItem h config patterns rawEvent =
     map_option (\<lambda>n. (eventKey n, storedEvent patterns n)) (normalizeEvent h config rawEvent)"

definition ingestStep ::
    "engine_host \<Rightarrow> EngineDefaults \<Rightarrow> (string \<Rightarrow> bool) list \<Rightarrow> js_value \<Rightarrow> stores \<Rightarrow> stores" where
  "ingestStep h config patterns rawEvent st = snd (ingestEvent h config patterns rawEvent (noCounts, st))"

lemma storedEvent_id [simp]:
  "ev_id (storedEvent patterns n) = ev_id n"
  "ev_storeId (storedEvent patterns n) = ev_storeId n"
  "ev_space (storedEvent patterns n) = ev_space n"
  by (simp_all add: storedEvent_def case_prod_unfold NormalizedEvent.defs Let_def)

lemma ingestEvent_stores: "snd (ingestEvent h config patterns r (c, st)) = ingestStep h config patterns r st"
  by (simp add: ingestStep_def ingestEvent_def Let_def split: option.split)

lemma ingestStep_cases:
  "ingestStep h config patterns r st =
     (case rawItem h config patterns r of
        None \<Rightarrow> st
      | Some (k, e) \<Rightarrow>
          if eventAt st k \<noteq> None then st
          else bucketSet (fst k) (fst (snd k)) e (getSpaceBucket (getStoreState st (fst k)) (fst k) (fst (snd k))))"
proof (cases "normalizeEvent h config r")
  case None
  then show ?thesis by (simp add: ingestStep_def ingestEvent_def rawItem_def)
next
  case (Some n)
  have "map_of (bucketOf st (ev_storeId n) (ev_space n)) (ev_id n) = eventAt st (eventKey n)"
    by (simp add: eventAt_def eventKey_def)
  with Some show ?thesis
    using open_known [of st "ev_storeId n" "ev_space n" "ev_id n"]
    by (simp add: ingestStep_def ingestEvent_def rawItem_def Let_def eventKey_def)
qed

interpretation ingestion: insert_once "ingestStep h config patterns" eventAt "rawItem h config patterns"
proof
  fix r st k
  show "eventAt (ingestStep h config patterns r st) k =
      (case eventAt st k of Some e \<Rightarrow> Some e | None \<Rightarrow>
        (case rawItem h config patterns r of Some (k', e) \<Rightarrow> if k' = k then Some e else None | None \<Rightarrow> None))"
    by (cases "normalizeEvent h config r")
      (auto simp: ingestStep_cases rawItem_def eventKey_def split: option.splits)
next
  fix r st
  assume "\<And>k e. rawItem h config patterns r = Some (k, e) \<Longrightarrow> eventAt st k \<noteq> None"
  then show "ingestStep h config patterns r st = st"
    by (auto simp: ingestStep_cases split: option.split)
qed

lemma fold_ingestEvent_stores:
  "snd (fold (ingestEvent h config patterns) rs (c, st)) = fold (ingestStep h config patterns) rs st"
proof (induction rs arbitrary: c st)
  case (Cons r rs)
  then show ?case
    by (cases "ingestEvent h config patterns r (c, st)") (simp flip: ingestEvent_stores [of h config patterns r c st])
qed simp

lemma ingest_stores: "snd (ingest h config patterns input st) = fold (ingestStep h config patterns) (toRawEvents h config None input) st"
  by (simp add: ingest_def case_prod_unfold Let_def fold_ingestEvent_stores)

section \<open>Counting\<close>

lemma sum_update:
  "sum_list (map (\<lambda>(k, v). f v) (AList.update k v m)) + (case map_of m k of None \<Rightarrow> 0 | Some w \<Rightarrow> f w)
     = sum_list (map (\<lambda>(k, v). f v) m) + (f v :: nat)"
  by (induction m) (auto split: option.splits)

lemma length_update: "length (AList.update k v m) = length m + (if map_of m k = None then 1 else 0)"
  by (induction m) auto

lemma sum_update_entry:
  assumes "f [] = 0"
  shows "sum_list (map (\<lambda>(k, v). f v) (AList.update k v m)) + f (entryOf m k)
     = sum_list (map (\<lambda>(k, v). f v) m) + (f v :: nat)"
  using sum_update [of f k v m] assms by (simp add: entryOf_def split: option.splits)

lemma totalEvents_set:
  "totalEvents (bucketSet s p e st) = totalEvents st + (if eventAt st (s, p, ev_id e) = None then 1 else 0)"
proof -
  let ?spaces = "entryOf st s"
  let ?bucket = "entryOf ?spaces p"
  have "totalEventsForStore (AList.update p (AList.update (ev_id e) e ?bucket) ?spaces) + length ?bucket
      = totalEventsForStore ?spaces + length (AList.update (ev_id e) e ?bucket)"
    unfolding totalEventsForStore_def by (rule sum_update_entry) simp
  moreover have "totalEvents (AList.update s v st) + totalEventsForStore ?spaces
      = totalEvents st + totalEventsForStore v" for v
    unfolding totalEvents_def by (rule sum_update_entry) (simp add: totalEventsForStore_def)
  from this [of "AList.update p (AList.update (ev_id e) e ?bucket) ?spaces"]
  have "totalEvents (bucketSet s p e st) + totalEventsForStore ?spaces
      = totalEvents st + totalEventsForStore (AList.update p (AList.update (ev_id e) e ?bucket) ?spaces)"
    by (simp add: bucketSet_def Let_def)
  ultimately show ?thesis by (simp add: length_update eventAt_def bucketOf_def)
qed

lemma totalEvents_open: "totalEvents (getSpaceBucket (getStoreState st s) s p) = totalEvents st"
proof -
  have "totalEvents (AList.update s v st') + totalEventsForStore (entryOf st' s)
      = totalEvents st' + totalEventsForStore v" for v st'
    unfolding totalEvents_def by (rule sum_update_entry) (simp add: totalEventsForStore_def)
  note upd = this
  have "totalEventsForStore (ensureEntry p spaces) = totalEventsForStore spaces" for spaces
    using sum_update_entry [of length p "[]" spaces]
    by (auto simp: ensureEntry_def totalEventsForStore_def entryOf_def)
  moreover have "totalEvents (getStoreState st s) = totalEvents st"
    using upd [of "[]" st]
    by (auto simp: getStoreState_def ensureEntry_def totalEventsForStore_def entryOf_def)
  ultimately show ?thesis
    using upd [of "ensureEntry p (entryOf st s)" "getStoreState st s"]
    by (simp add: getSpaceBucket_def) (simp add: getStoreState_def)
qed

text \<open>What one turn adds to the counters, and the loop.\<close>

definition countsAdd :: "IngestCounts \<Rightarrow> nat \<Rightarrow> nat \<Rightarrow> nat \<Rightarrow> IngestCounts \<Rightarrow> bool" where
  "countsAdd c a d r c' =
     (ic_accepted c' = ic_accepted c + a \<and> ic_duplicates c' = ic_duplicates c + d \<and> ic_rejected c' = ic_rejected c + r)"

definition newCount :: "(('k \<times> 'e) option) \<Rightarrow> ('k \<Rightarrow> 'e option) \<Rightarrow> nat" where
  "newCount x known = (case x of Some (k, e) \<Rightarrow> if known k = None then 1 else 0 | None \<Rightarrow> 0)"

definition knownCount :: "(('k \<times> 'e) option) \<Rightarrow> ('k \<Rightarrow> 'e option) \<Rightarrow> nat" where
  "knownCount x known = (case x of Some (k, e) \<Rightarrow> if known k = None then 0 else 1 | None \<Rightarrow> 0)"

definition noneCount :: "(('k \<times> 'e) option) \<Rightarrow> nat" where
  "noneCount x = (if x = None then 1 else 0)"

lemma counts_one: "newCount x known + knownCount x known + noneCount x = 1"
  by (simp add: newCount_def knownCount_def noneCount_def split: option.splits)

lemma ingestEvent_counts:
  "countsAdd c (newCount (rawItem h config patterns r) (eventAt st)) (knownCount (rawItem h config patterns r) (eventAt st))
     (noneCount (rawItem h config patterns r)) (fst (ingestEvent h config patterns r (c, st)))"
proof (cases "normalizeEvent h config r")
  case (Some n)
  have "map_of (bucketOf st (ev_storeId n) (ev_space n)) (ev_id n) = eventAt st (eventKey n)"
    by (simp add: eventAt_def eventKey_def)
  with Some show ?thesis
    by (simp add: countsAdd_def ingestEvent_def rawItem_def Let_def newCount_def knownCount_def noneCount_def)
qed (simp add: countsAdd_def ingestEvent_def rawItem_def newCount_def knownCount_def noneCount_def)

lemma ingestStep_total:
  "totalEvents (ingestStep h config patterns r st) = totalEvents st + newCount (rawItem h config patterns r) (eventAt st)"
proof (cases "normalizeEvent h config r")
  case (Some n)
  then show ?thesis
    by (simp add: ingestStep_cases rawItem_def eventKey_def totalEvents_set totalEvents_open newCount_def)
qed (simp add: ingestStep_cases rawItem_def newCount_def)

lemma countsAdd_trans:
  "\<lbrakk>countsAdd c a d r c'; countsAdd c' a' d' r' c''\<rbrakk> \<Longrightarrow> countsAdd c (a + a') (d + d') (r + r') c''"
  by (simp add: countsAdd_def)

lemma ingest_loop_counts:
  "\<exists>a d r. countsAdd c a d r (fst (fold (ingestEvent h config patterns) rs (c, st))) \<and>
     a + d + r = length rs \<and> r = sum_list (map (\<lambda>x. noneCount (rawItem h config patterns x)) rs) \<and>
     totalEvents (fold (ingestStep h config patterns) rs st) = totalEvents st + a"
proof (induction rs arbitrary: c st)
  case Nil
  then show ?case by (simp add: countsAdd_def)
next
  case (Cons x rs)
  let ?item = "rawItem h config patterns x"
  obtain c' where c': "ingestEvent h config patterns x (c, st) = (c', ingestStep h config patterns x st)"
    using ingestEvent_stores [of h config patterns x c st] by (cases "ingestEvent h config patterns x (c, st)") auto
  from Cons.IH [of c' "ingestStep h config patterns x st"] obtain a d r where
    IH: "countsAdd c' a d r (fst (fold (ingestEvent h config patterns) rs (c', ingestStep h config patterns x st)))"
      "a + d + r = length rs" "r = sum_list (map (\<lambda>x. noneCount (rawItem h config patterns x)) rs)"
      "totalEvents (fold (ingestStep h config patterns) rs (ingestStep h config patterns x st))
        = totalEvents (ingestStep h config patterns x st) + a" by blast
  have one: "countsAdd c (newCount ?item (eventAt st)) (knownCount ?item (eventAt st)) (noneCount ?item) c'"
    using ingestEvent_counts [of c h config patterns x st] by (simp add: c')
  have sum: "newCount ?item (eventAt st) + a + (knownCount ?item (eventAt st) + d) + (noneCount ?item + r) = Suc (length rs)"
    using IH(2) counts_one [of ?item "eventAt st"] by linarith
  show ?case
    using countsAdd_trans [OF one IH(1)] IH(3,4) sum
    by (intro exI conjI) (simp_all add: c' ingestStep_total)
qed

lemma ingest_counts:
  assumes "ingest h config patterns input st = (result, after)"
  shows "ic_accepted result + ic_duplicates result + ic_rejected result = length (toRawEvents h config None input)"
    and "ic_rejected result = sum_list (map (\<lambda>x. noneCount (rawItem h config patterns x)) (toRawEvents h config None input))"
    and "totalEvents after = totalEvents st + ic_accepted result"
    and "ir_totalEvents result = totalEvents after"
proof -
  let ?rs = "toRawEvents h config None input"
  obtain a d r where c: "countsAdd noCounts a d r (fst (fold (ingestEvent h config patterns) ?rs (noCounts, st)))"
      "a + d + r = length ?rs" "r = sum_list (map (\<lambda>x. noneCount (rawItem h config patterns x)) ?rs)"
      "totalEvents (fold (ingestStep h config patterns) ?rs st) = totalEvents st + a"
    using ingest_loop_counts [of noCounts h config patterns ?rs st] by blast
  have after: "after = fold (ingestStep h config patterns) ?rs st"
    using assms ingest_stores [of h config patterns input st] by simp
  have result: "ic_accepted result = a" "ic_duplicates result = d" "ic_rejected result = r"
    "ir_totalEvents result = totalEvents after"
    using assms c(1) by (auto simp: ingest_def case_prod_unfold Let_def countsAdd_def noCounts_def
        IngestCounts.defs IngestResult.defs)
  show "ic_accepted result + ic_duplicates result + ic_rejected result = length ?rs"
    "ic_rejected result = sum_list (map (\<lambda>x. noneCount (rawItem h config patterns x)) ?rs)"
    "totalEvents after = totalEvents st + ic_accepted result" "ir_totalEvents result = totalEvents after"
    using c result by (simp_all add: after)
qed

text \<open>C12: Ingestion refines insertion into a map from (store, space, id) to events: afterwards a key
  holds what it held before, or the stored form of the first raw event of the input with that key,
  and nothing else. Every raw event is accepted, a duplicate or rejected; the number of stored
  events grows by the accepted ones.\<close>

theorem ingest_refines:
  "let (result, after) = ingest h config patterns input st; raw = toRawEvents h config None input in
     (\<forall>k. eventAt after k =
       (case eventAt st k of Some e \<Rightarrow> Some e
        | None \<Rightarrow> map_option (storedEvent patterns)
            (find (\<lambda>n. eventKey n = k) (List.map_filter (normalizeEvent h config) raw)))) \<and>
     ic_accepted result + ic_duplicates result + ic_rejected result = length raw \<and>
     ic_rejected result = length (filter (\<lambda>x. normalizeEvent h config x = None) raw) \<and>
     totalEvents after = totalEvents st + ic_accepted result \<and> ir_totalEvents result = totalEvents after"
proof -
  let ?raw = "toRawEvents h config None input"
  obtain result after where run: "ingest h config patterns input st = (result, after)" by fastforce
  then have after: "after = fold (ingestStep h config patterns) ?raw st"
    using ingest_stores [of h config patterns input st] by simp
  have items: "map_of (List.map_filter (rawItem h config patterns) xs) k =
      map_option (storedEvent patterns) (find (\<lambda>n. eventKey n = k) (List.map_filter (normalizeEvent h config) xs))" for xs k
    by (induction xs) (auto simp: map_filter_simps rawItem_def split: option.split)
  have "eventAt after k = (case eventAt st k of Some e \<Rightarrow> Some e
        | None \<Rightarrow> map_option (storedEvent patterns)
            (find (\<lambda>n. eventKey n = k) (List.map_filter (normalizeEvent h config) ?raw)))" for k
    unfolding after by (simp only: ingestion.fold_entry items)
  moreover have "sum_list (map (\<lambda>x. noneCount (rawItem h config patterns x)) xs)
      = length (filter (\<lambda>x. normalizeEvent h config x = None) xs)" for xs
    by (induction xs) (auto simp: noneCount_def rawItem_def)
  ultimately show ?thesis
    using ingest_counts [OF run] by (simp add: run del: split_paired_All)
qed

text \<open>C33: Delivering an input again, after any other inputs, accepts nothing and leaves the engine
  as it is: what was accepted or a duplicate the first time is a duplicate now.\<close>

theorem ingest_replay:
  "let (first, s1) = ingest h config patterns input st;
       s2 = fold (\<lambda>x s. snd (ingest h config patterns x s)) later s1;
       (second, s3) = ingest h config patterns input s2
   in s3 = s2 \<and> ic_accepted second = 0 \<and> ic_rejected second = ic_rejected first \<and>
      ic_duplicates second = ic_accepted first + ic_duplicates first"
proof -
  let ?step = "ingestStep h config patterns" and ?raw = "toRawEvents h config None input"
  obtain first s1 where first: "ingest h config patterns input st = (first, s1)" by fastforce
  define s2 where "s2 = fold (\<lambda>x s. snd (ingest h config patterns x s)) later s1"
  obtain second s3 where second: "ingest h config patterns input s2 = (second, s3)" by fastforce
  have "fold (\<lambda>x s. snd (ingest h config patterns x s)) xs s
      = fold ?step (concat (map (toRawEvents h config None) xs)) s" for xs s
    by (induction xs arbitrary: s) (simp_all add: ingest_stores)
  then have s2: "s2 = fold ?step (concat (map (toRawEvents h config None) later)) (fold ?step ?raw st)"
    using ingest_stores [of h config patterns input st] by (simp add: s2_def first)
  have "s3 = s2"
    using ingest_stores [of h config patterns input s2] by (simp add: second) (simp add: s2 ingestion.replay)
  moreover from this have "ic_accepted second = 0" using ingest_counts(3) [OF second] by simp
  moreover have "ic_rejected second = ic_rejected first"
    using ingest_counts(2) [OF first] ingest_counts(2) [OF second] by simp
  ultimately show ?thesis
    using ingest_counts(1) [OF first] ingest_counts(1) [OF second] by (simp add: first second [unfolded s2_def] s2_def Let_def)
qed

text \<open>An envelope hands its store, space and source to conversations, issues and bare texts, but a
  plain event in it is passed on alone, and is stored under the default store and space.\<close>

lemma envelope_context_dropped:
  "toRawEvents h c None (Obj [(''storeId'', Str s), (''space'', Str p),
      (''events'', Arr [Obj [(''id'', Str i), (''content'', Str t)]])]) = [Obj [(''id'', Str i), (''content'', Str t)]]"
  "ev_storeId (normalizedFields h c (Obj [(''id'', Str i), (''content'', Str t)])) = defaultStore c"
  by (simp_all add: Let_def envelopeEvents_def isArr_def isStr_def isObj_def looksLikeConversation_def
      looksLikeJiraIssue_def toObject_def normalizedFields_def normalizeStoreId_def normalizeText_def
      nullish_def orString_def)

section \<open>Recall\<close>

lemma sorted_subseq: "\<lbrakk>subseq xs ys; arraySorted c ys\<rbrakk> \<Longrightarrow> arraySorted c xs"
proof (induction rule: list_emb.induct)
  case (list_emb_Cons2 x y xs ys)
  then show ?case using list_emb_set [of "(=)" xs ys] by (fastforce simp: arraySorted_Cons)
qed (simp_all add: arraySorted_Cons)

abbreviation tokensOf :: "(StoredEvent \<times> jsnum) list \<Rightarrow> nat" where
  "tokensOf xs \<equiv> sum_list (map (\<lambda>x. ev_tokenEstimate (fst x)) xs)"

text \<open>The packing loop takes a subsequence within both limits, and leaves an event out only when
  the limit is reached or the event does not fit any more.\<close>

lemma packItems_spec:
  assumes "packItems m b xs (t, acc) = (t', acc')" "int (length acc) \<le> m" "int t \<le> b"
  shows "\<exists>ys. acc' = acc @ ys \<and> subseq ys xs \<and> int (length acc') \<le> m \<and> t' = t + tokensOf ys \<and> int t' \<le> b \<and>
    (\<forall>x\<in>set xs. x \<in> set ys \<or> m \<le> int (length acc') \<or> b < int (t' + ev_tokenEstimate (fst x)))"
  using assms
proof (induction m b xs "(t, acc)" arbitrary: t acc rule: packItems.induct)
  case (1 m b t acc)
  then show ?case by (intro exI [of _ "[]"]) simp
next
  case (2 m b x xs t acc)
  let ?fits = "int (t + ev_tokenEstimate (fst x)) \<le> b"
  consider "m \<le> int (length acc)" | "\<not> m \<le> int (length acc)" "\<not> ?fits" | "\<not> m \<le> int (length acc)" ?fits
    by blast
  then show ?case
  proof cases
    case 1
    with 2 show ?thesis by (intro exI [of _ "[]"]) auto
  next
    case skip: 2
    then obtain ys where ys: "acc' = acc @ ys" "subseq ys xs" "int (length acc') \<le> m" "t' = t + tokensOf ys" "int t' \<le> b"
        "\<forall>x\<in>set xs. x \<in> set ys \<or> m \<le> int (length acc') \<or> b < int (t' + ev_tokenEstimate (fst x))"
      using 2 by (auto simp: not_le)
    with skip show ?thesis by (intro exI [of _ ys]) auto
  next
    case take: 3
    then obtain ys where ys: "acc' = (acc @ [x]) @ ys" "subseq ys xs" "int (length acc') \<le> m"
        "t' = t + ev_tokenEstimate (fst x) + tokensOf ys" "int t' \<le> b"
        "\<forall>x\<in>set xs. x \<in> set ys \<or> m \<le> int (length acc') \<or> b < int (t' + ev_tokenEstimate (fst x))"
      using 2 by (auto simp: not_le)
    then show ?thesis by (intro exI [of _ "x # ys"]) auto
  qed
qed

lemma clamp_bounds:
  "\<lbrakk>lo \<le> fallback; fallback \<le> hi\<rbrakk> \<Longrightarrow> lo \<le> clampInteger v lo hi fallback \<and> clampInteger v lo hi fallback \<le> hi"
  by (auto simp: clampInteger_def split: option.split)

lemma subseq_mset: "subseq xs ys \<Longrightarrow> mset xs \<subseteq># mset ys"
  by (induction rule: list_emb.induct) (auto intro: subset_mset.trans)

lemma recall_fields:
  "rr_storeId (recallEvents h s q es) = rq_storeId q" "rr_space (recallEvents h s q es) = rq_space q"
  "rr_query (recallEvents h s q es) = rq_query q" "rr_maxItems (recallEvents h s q es) = rq_maxItems q"
  "rr_tokenBudget (recallEvents h s q es) = rq_tokenBudget q"
  by (simp_all only: recallEvents_def Let_def case_prod_unfold RecallResult.simps)

lemma recallQuery_bounds:
  assumes "1 \<le> defaultMaxItems config" "defaultMaxItems config \<le> maxMaxItems config"
    and "1 \<le> defaultTokenBudget config" "defaultTokenBudget config \<le> maxTokenBudget config"
  shows "1 \<le> rq_maxItems (recallQuery config request)" "rq_maxItems (recallQuery config request) \<le> maxMaxItems config"
    "1 \<le> rq_tokenBudget (recallQuery config request)" "rq_tokenBudget (recallQuery config request) \<le> maxTokenBudget config"
  by (simp_all only: recallQuery_def Let_def RecallQuery.simps clamp_bounds [OF assms(1,2)] clamp_bounds [OF assms(3,4)])

lemma recallQuery_unsafe: "rq_includeUnsafe (recallQuery config request) = truthy (getProp ''includeUnsafe'' request)"
  by (simp add: recallQuery_def Let_def toObject_def split: js_value.split)

lemma recall_same_bucket:
  "bucketOf st' (rr_storeId (recall h config request st)) (rr_space (recall h config request st))
     = bucketOf st (rr_storeId (recall h config request st)) (rr_space (recall h config request st)) \<Longrightarrow>
   recall h config request st' = recall h config request st"
  by (simp add: recall_def Let_def recall_fields)

text \<open>Recall answers with a bounded selection from one bucket. With the limits of the
  configuration in order, the item limit and the token budget stay within them; the items are
  events of the addressed store and space, no unsafe one unless asked for, best score first, within
  both limits, and an event is left out only when the limit is reached or it does not fit; the
  truncation flag and the count of filtered events say what was left out. No event of another
  store or space has any influence.\<close>

theorem recall_selection:
  assumes "1 \<le> defaultMaxItems config" "defaultMaxItems config \<le> maxMaxItems config"
    and "1 \<le> defaultTokenBudget config" "defaultTokenBudget config \<le> maxTokenBudget config"
  shows "let r = recall h config request st;
      events = map snd (bucketOf st (rr_storeId r) (rr_space r));
      eligible = filter (\<lambda>e. ev_unsafeInstruction e \<longrightarrow> truthy (getProp ''includeUnsafe'' request)) events;
      scored = (\<lambda>e. (e, eventScore h (rr_query r) e (seed config)))
    in 1 \<le> rr_maxItems r \<and> rr_maxItems r \<le> maxMaxItems config \<and>
       1 \<le> rr_tokenBudget r \<and> rr_tokenBudget r \<le> maxTokenBudget config \<and>
       (\<exists>chosen. rr_items r = map (\<lambda>e. recallItem (scored e)) chosen \<and>
          mset chosen \<subseteq># mset eligible \<and> arraySorted (compareRanked h) (map scored chosen) \<and>
          int (length chosen) \<le> rr_maxItems r \<and>
          rr_estimatedTokens r = sum_list (map ev_tokenEstimate chosen) \<and>
          int (rr_estimatedTokens r) \<le> rr_tokenBudget r \<and>
          (\<forall>e\<in>set eligible. e \<in> set chosen \<or> rr_maxItems r \<le> int (length chosen) \<or>
             rr_tokenBudget r < int (rr_estimatedTokens r + ev_tokenEstimate e)) \<and>
          (rr_truncated r \<longleftrightarrow> length chosen < length eligible)) \<and>
       rr_filteredUnsafe r + length eligible = length events \<and>
       (\<forall>st'. bucketOf st' (rr_storeId r) (rr_space r) = bucketOf st (rr_storeId r) (rr_space r) \<longrightarrow>
          recall h config request st' = r)"
proof -
  define r where "r = recall h config request st"
  define q where "q = recallQuery config request"
  define events where "events = map snd (bucketOf st (rr_storeId r) (rr_space r))"
  define unsafeToo where "unsafeToo = truthy (getProp ''includeUnsafe'' request)"
  define eligible where "eligible = filter (\<lambda>e. ev_unsafeInstruction e \<longrightarrow> unsafeToo) events"
  define scored where "scored = (\<lambda>e. (e, eventScore h (rr_query r) e (seed config)))"
  define ranked where "ranked = arraySort (compareRanked h) (map scored eligible)"
  obtain t packed where pack: "packItems (rr_maxItems r) (rr_tokenBudget r) ranked (0, []) = (t, packed)" by fastforce
  have unsafe: "rq_includeUnsafe q = unsafeToo" by (simp add: q_def unsafeToo_def recallQuery_unsafe)
  have r: "r = recallEvents h (seed config) q events"
    by (simp add: r_def q_def events_def recall_def Let_def recall_fields)
  have limits: "1 \<le> rr_maxItems r" "rr_maxItems r \<le> maxMaxItems config"
      "1 \<le> rr_tokenBudget r" "rr_tokenBudget r \<le> maxTokenBudget config"
    using recallQuery_bounds [OF assms] by (simp_all add: r recall_fields q_def)
  have query: "rr_query r = rq_query q" "rr_maxItems r = rq_maxItems q" "rr_tokenBudget r = rq_tokenBudget q"
    by (simp_all add: r recall_fields)
  have "filter (\<lambda>e. \<not> (ev_unsafeInstruction e \<and> \<not> rq_includeUnsafe q)) events = eligible"
    by (simp add: eligible_def unsafe)
  then have "packItems (rq_maxItems q) (rq_tokenBudget q) (arraySort (compareRanked h)
      (map (\<lambda>e. (e, eventScore h (rq_query q) e (seed config)))
        (filter (\<lambda>e. \<not> (ev_unsafeInstruction e \<and> \<not> rq_includeUnsafe q)) events))) (0, []) = (t, packed)"
    using pack unfolding ranked_def scored_def query by simp
  then have run: "rr_items r = map recallItem packed" "rr_estimatedTokens r = t"
      "rr_truncated r = (length packed < length eligible)"
      "rr_filteredUnsafe r = length (filter (\<lambda>e. ev_unsafeInstruction e \<and> \<not> unsafeToo) events)"
    using \<open>filter _ events = eligible\<close>
    by (simp_all add: r recallEvents_def Let_def unsafe)
  from packItems_spec [OF pack] limits have ys: "subseq packed ranked" "int (length packed) \<le> rr_maxItems r"
      "t = tokensOf packed" "int t \<le> rr_tokenBudget r"
      "\<forall>x\<in>set ranked. x \<in> set packed \<or> rr_maxItems r \<le> int (length packed) \<or> rr_tokenBudget r < int (t + ev_tokenEstimate (fst x))"
    by auto
  define chosen where "chosen = map fst packed"
  have "set packed \<subseteq> scored ` set eligible"
    using list_emb_set [OF ys(1)] by (auto simp: ranked_def)
  then have packed: "packed = map scored chosen"
    unfolding chosen_def map_map by (intro map_idI [symmetric]) (auto simp: scored_def)
  have "image_mset fst (mset packed) \<subseteq># image_mset fst (mset ranked)"
    by (rule image_mset_subseteq_mono [OF subseq_mset [OF ys(1)]])
  then have sub: "mset chosen \<subseteq># mset eligible"
    by (simp add: chosen_def ranked_def scored_def image_mset.compositionality comp_def)
  have sorted: "arraySorted (compareRanked h) (map scored chosen)"
    using sorted_subseq [OF ys(1)] by (simp add: packed ranked_def)
  have maximal: "\<forall>e\<in>set eligible. e \<in> set chosen \<or> rr_maxItems r \<le> int (length chosen) \<or>
      rr_tokenBudget r < int (rr_estimatedTokens r + ev_tokenEstimate e)"
    using ys(5) by (auto simp: packed ranked_def run scored_def)
  have split: "length (filter (\<lambda>e. ev_unsafeInstruction e \<and> \<not> unsafeToo) xs) + length (filter (\<lambda>e. ev_unsafeInstruction e \<longrightarrow> unsafeToo) xs) = length xs" for xs :: "StoredEvent list"
    by (induction xs) auto
  have isolated: "\<forall>st'. bucketOf st' (rr_storeId r) (rr_space r) = bucketOf st (rr_storeId r) (rr_space r) \<longrightarrow>
      recall h config request st' = r"
    using recall_same_bucket unfolding r_def by blast
  have lengths: "length packed = length chosen" by (simp add: packed)
  have "rr_items r = map (\<lambda>e. recallItem (scored e)) chosen" "t = sum_list (map ev_tokenEstimate chosen)"
    using run(1) ys(3) by (simp_all add: packed comp_def scored_def)
  then have "\<exists>chosen. rr_items r = map (\<lambda>e. recallItem (scored e)) chosen \<and>
          mset chosen \<subseteq># mset eligible \<and> arraySorted (compareRanked h) (map scored chosen) \<and>
          int (length chosen) \<le> rr_maxItems r \<and>
          rr_estimatedTokens r = sum_list (map ev_tokenEstimate chosen) \<and>
          int (rr_estimatedTokens r) \<le> rr_tokenBudget r \<and>
          (\<forall>e\<in>set eligible. e \<in> set chosen \<or> rr_maxItems r \<le> int (length chosen) \<or>
             rr_tokenBudget r < int (rr_estimatedTokens r + ev_tokenEstimate e)) \<and>
          (rr_truncated r \<longleftrightarrow> length chosen < length eligible)"
    using sub sorted ys(2,4) maximal run(2,3) lengths by (intro exI [of _ chosen]) simp
  with limits isolated run(4) split [of events] show ?thesis
    unfolding Let_def r_def [symmetric] events_def [symmetric] unsafeToo_def [symmetric]
      scored_def [symmetric] eligible_def [symmetric]
    by (simp add: eligible_def scored_def)
qed

end
