(* ===== verification/Ums_Snapshot.thy ===== *)
theory Ums_Snapshot
  imports Ums_Engine_Properties
begin

text \<open>
  The shape of every reachable state of the UMS engine, and the round trip of its snapshots: an
  engine created from an exported state exports the same state again, except that the secret flag
  of every event is computed anew from the redacted content.
\<close>

section \<open>Host, configuration and stored events\<close>

text \<open>What the code relies on: ISO strings of a Date are read back as themselves, and a digest is
  printed in hexadecimal.\<close>

definition hostOk :: "engine_host \<Rightarrow> bool" where
  "hostOk h = ((\<forall>s t. toISOString h s = Some t \<longrightarrow> t \<noteq> [] \<and> toISOString h t = Some t) \<and>
     toISOString h epoch = Some epoch \<and> (\<forall>s. \<forall>c\<in>set (sha256 h s). isHexDigit c))"

definition configOk :: "EngineDefaults \<Rightarrow> bool" where
  "configOk c = (trim (defaultStore c) = defaultStore c \<and> trim (defaultSpace c) = defaultSpace c \<and> defaultSpace c \<noteq> [])"

definition canonicalEvent :: "engine_host \<Rightarrow> (string \<Rightarrow> bool) list \<Rightarrow> StoredEvent \<Rightarrow> bool" where
  "canonicalEvent h patterns e =
     (trim (ev_id e) = ev_id e \<and> ev_id e \<noteq> [] \<and> trim (ev_source e) = ev_source e \<and> ev_source e \<noteq> [] \<and>
      normalizeTags (Arr (map Str (ev_tags e))) = ev_tags e \<and>
      normalizeTimestamp h (Str (ev_timestamp e)) = ev_timestamp e \<and>
      fst (redactSecrets (ev_content e)) = ev_content e \<and>
      ev_tokenEstimate e = estimateTokens (ev_content e) \<and>
      (\<exists>ps\<in>{patterns, UNSAFE_PATTERNS}. ev_unsafeInstruction e = (\<exists>pattern\<in>set ps. pattern (ev_content e))))"

definition wfBucket :: "engine_host \<Rightarrow> (string \<Rightarrow> bool) list \<Rightarrow> string \<Rightarrow> string \<Rightarrow> bucket \<Rightarrow> bool" where
  "wfBucket h patterns s p b = (distinct (map fst b) \<and>
     (\<forall>(i, e)\<in>set b. i = ev_id e \<and> ev_storeId e = s \<and> ev_space e = p \<and> canonicalEvent h patterns e))"

definition wfSpaces :: "engine_host \<Rightarrow> (string \<Rightarrow> bool) list \<Rightarrow> string \<Rightarrow> store_state \<Rightarrow> bool" where
  "wfSpaces h patterns s sp = (distinct (map fst sp) \<and>
     (\<forall>(p, b)\<in>set sp. trim p = p \<and> p \<noteq> [] \<and> b \<noteq> [] \<and> wfBucket h patterns s p b))"

definition wfStores :: "engine_host \<Rightarrow> EngineDefaults \<Rightarrow> (string \<Rightarrow> bool) list \<Rightarrow> stores \<Rightarrow> bool" where
  "wfStores h c patterns st = (distinct (map fst st) \<and>
     (\<forall>(s, sp)\<in>set st. normalizeStoreId (Str s) (defaultStore c) = s \<and> wfSpaces h patterns s sp))"

section \<open>Normalisation is canonical\<close>

lemma trim_orString: "trim d = d \<Longrightarrow> trim (orString (normalizeText v) d) = orString (normalizeText v) d"
  by (auto simp: orString_def normalizeText_def)

lemma orString_ne: "d \<noteq> [] \<Longrightarrow> orString s d \<noteq> []"
  by (simp add: orString_def)

lemma normalizeText_Str [simp]: "normalizeText (Str s) = trim s"
  by (simp add: normalizeText_def nullish_def)

lemma trim_normalizeText [simp]: "trim (normalizeText v) = normalizeText v"
  by (simp add: normalizeText_def)

lemma normalizeStoreId_fixed: "trim d = d \<Longrightarrow> normalizeStoreId (Str (normalizeStoreId v d)) d = normalizeStoreId v d"
  using trim_orString [of d v] by (auto simp: normalizeStoreId_def) (auto simp: orString_def)

lemma sorted_codeUnits_tags:
  "normalizeTags (Arr (map Str (normalizeTags v))) = normalizeTags v"
proof -
  have fixed: "normalizeTags (Arr (map Str ts)) = ts"
    if "\<forall>t\<in>set ts. trim t = t \<and> t \<noteq> []" "distinct ts" "arraySorted codeUnitOrder ts" for ts
  proof -
    have "nonEmpty (map normalizeText (map Str ts)) = ts"
      using that(1) by (induction ts) (auto simp: nonEmpty_def)
    then show ?thesis
      using that(2,3) by (simp add: normalizeTags_def isArr_def arrOrEmpty_def setOrder_distinct sort_of_sorted)
  qed
  show ?thesis
    by (rule fixed) (auto simp: normalizeTags_def nonEmpty_def)
qed

lemma timestamp_fixed: "hostOk h \<Longrightarrow> normalizeTimestamp h (Str (normalizeTimestamp h v)) = normalizeTimestamp h v"
  by (auto simp: hostOk_def normalizeTimestamp_def epoch_def split: option.splits)

lemma hex_not_white: "isHexDigit c \<Longrightarrow> \<not> isWhiteSpace c"
  using nonword_chars(4) by blast

lemma trim_solid: "\<forall>c\<in>set s. \<not> isWhiteSpace c \<Longrightarrow> trim s = s"
proof -
  have none: "dropWhile isWhiteSpace t = t" if "\<forall>c\<in>set t. \<not> isWhiteSpace c" for t
    using that by (cases t) auto
  assume "\<forall>c\<in>set s. \<not> isWhiteSpace c"
  then show ?thesis by (simp add: trim_def none)
qed

lemma syntheticId_solid: "hostOk h \<Longrightarrow> trim (createSyntheticId h n) = createSyntheticId h n \<and> createSyntheticId h n \<noteq> []"
proof -
  assume "hostOk h"
  then have "\<forall>c\<in>set (take 16 (sha256 h x)). \<not> isWhiteSpace c" for x
    using hex_not_white by (auto simp: hostOk_def dest: in_set_takeD)
  moreover have "\<forall>c\<in>set ''evt-''. \<not> isWhiteSpace c" by (simp add: isWhiteSpace_def)
  ultimately show ?thesis
    unfolding createSyntheticId_def Let_def by (intro conjI trim_solid) auto
qed

lemma normalizeEvent_fields:
  assumes "normalizeEvent h c v = Some n"
  obtains i where "n = normalizedFields h c v\<lparr>ev_id := i\<rparr>" "ev_space (normalizedFields h c v) \<noteq> []"
    "i \<noteq> [] \<and> i = ev_id (normalizedFields h c v) \<or> i = createSyntheticId h (normalizedFields h c v)"
proof -
  let ?f = "normalizedFields h c v"
  have "n = ?f\<lparr>ev_id := ev_id n\<rparr>" "ev_space ?f \<noteq> []"
    "ev_id n \<noteq> [] \<and> ev_id n = ev_id ?f \<or> ev_id n = createSyntheticId h ?f"
    using assms by (auto simp: normalizeEvent_def Let_def split: if_splits)
  then show ?thesis by (rule that)
qed

lemma trim_unknown: "trim ''unknown'' = ''unknown''"
  by (simp add: trim_def isWhiteSpace_def)

lemma normalizedFields_parts:
  "trim (ev_id (normalizedFields h c v)) = ev_id (normalizedFields h c v)"
  "trim (ev_source (normalizedFields h c v)) = ev_source (normalizedFields h c v)"
  "ev_source (normalizedFields h c v) \<noteq> []"
  "normalizeTags (Arr (map Str (ev_tags (normalizedFields h c v)))) = ev_tags (normalizedFields h c v)"
  "hostOk h \<Longrightarrow> normalizeTimestamp h (Str (ev_timestamp (normalizedFields h c v))) = ev_timestamp (normalizedFields h c v)"
  "configOk c \<Longrightarrow> trim (ev_space (normalizedFields h c v)) = ev_space (normalizedFields h c v)"
  "configOk c \<Longrightarrow> normalizeStoreId (Str (ev_storeId (normalizedFields h c v))) (defaultStore c) = ev_storeId (normalizedFields h c v)"
  unfolding normalizedFields_def Let_def NormalizedEvent.simps configOk_def
  by (simp only: trim_normalizeText, rule trim_orString [OF trim_unknown], simp add: orString_def,
      rule sorted_codeUnits_tags, erule timestamp_fixed, blast intro: trim_orString,
      blast intro: normalizeStoreId_fixed)

lemma normalizeEvent_parts:
  assumes "normalizeEvent h c v = Some n" "hostOk h"
  shows "trim (ev_id n) = ev_id n \<and> ev_id n \<noteq> []" "trim (ev_source n) = ev_source n \<and> ev_source n \<noteq> []"
    "normalizeTags (Arr (map Str (ev_tags n))) = ev_tags n"
    "normalizeTimestamp h (Str (ev_timestamp n)) = ev_timestamp n"
    "ev_space n \<noteq> []" "configOk c \<Longrightarrow> trim (ev_space n) = ev_space n"
    "configOk c \<Longrightarrow> normalizeStoreId (Str (ev_storeId n)) (defaultStore c) = ev_storeId n"
proof -
  from assms(1) obtain i where n: "n = normalizedFields h c v\<lparr>ev_id := i\<rparr>" "ev_space (normalizedFields h c v) \<noteq> []"
    "i \<noteq> [] \<and> i = ev_id (normalizedFields h c v) \<or> i = createSyntheticId h (normalizedFields h c v)"
    by (rule normalizeEvent_fields)
  show "trim (ev_id n) = ev_id n \<and> ev_id n \<noteq> []"
    using n syntheticId_solid [OF assms(2)] normalizedFields_parts(1) by auto
  show "trim (ev_source n) = ev_source n \<and> ev_source n \<noteq> []"
    "normalizeTags (Arr (map Str (ev_tags n))) = ev_tags n"
    "normalizeTimestamp h (Str (ev_timestamp n)) = ev_timestamp n" "ev_space n \<noteq> []"
    "configOk c \<Longrightarrow> trim (ev_space n) = ev_space n"
    "configOk c \<Longrightarrow> normalizeStoreId (Str (ev_storeId n)) (defaultStore c) = ev_storeId n"
    using n(2) assms(2) by (simp_all add: n(1) normalizedFields_parts)
qed

lemma storedEvent_fields [simp]:
  "ev_source (storedEvent ps n) = ev_source n" "ev_tags (storedEvent ps n) = ev_tags n"
  "ev_timestamp (storedEvent ps n) = ev_timestamp n" "ev_metadata (storedEvent ps n) = ev_metadata n"
  "ev_content (storedEvent ps n) = fst (redactSecrets (ev_content n))"
  "ev_tokenEstimate (storedEvent ps n) = estimateTokens (fst (redactSecrets (ev_content n)))"
  "ev_hasSecret (storedEvent ps n) = (0 < snd (redactSecrets (ev_content n)))"
  "ev_unsafeInstruction (storedEvent ps n) = (\<exists>pattern\<in>set ps. pattern (fst (redactSecrets (ev_content n))))"
  by (simp_all add: storedEvent_def case_prod_unfold NormalizedEvent.defs StoredEvent.defs Let_def)

lemma stored_canonical:
  assumes "normalizeEvent h c v = Some n" "hostOk h" "ps \<in> {patterns, UNSAFE_PATTERNS}"
  shows "canonicalEvent h patterns (storedEvent ps n)"
  using normalizeEvent_parts(1-4) [OF assms(1,2)] assms(3) by (auto simp: canonicalEvent_def)

section \<open>Every operation keeps the shape\<close>

lemma update_update [simp]: "AList.update k v (AList.update k w m) = AList.update k v m"
  by (induction m) auto

lemma update_ensureEntry [simp]: "AList.update k v (ensureEntry k m) = AList.update k v m"
  by (simp add: ensureEntry_def)

lemma bucketSet_open [simp]:
  "bucketSet s p e (getStoreState st s) = bucketSet s p e st"
  "bucketSet s p e (getSpaceBucket st s p) = bucketSet s p e st"
  by (simp_all add: bucketSet_def getSpaceBucket_def getStoreState_def Let_def)

lemma set_update: "set (AList.update k v m) \<subseteq> insert (k, v) (set m)"
  by (induction m) auto

lemma entry_wf:
  "wfStores h c ps st \<Longrightarrow> wfSpaces h ps s (entryOf st s)"
  "wfSpaces h ps s sp \<Longrightarrow> wfBucket h ps s p (entryOf sp p)"
  by (force simp: wfStores_def wfSpaces_def wfBucket_def entryOf_def split: option.split dest: map_of_SomeD)+

lemma update_wf:
  assumes "distinct (map fst m) \<and> (\<forall>(k, v)\<in>set m. P k v)" "P k v"
  shows "distinct (map fst (AList.update k v m)) \<and> (\<forall>(k, v)\<in>set (AList.update k v m). P k v)"
  using assms set_update [of k v m] by (auto simp: distinct_update)

lemma update_not_Nil: "AList.update k v m \<noteq> []"
  by (cases m) auto

lemma bucketSet_wf:
  assumes "wfStores h c ps st" "canonicalEvent h ps e" "ev_storeId e = s" "ev_space e = p"
    and "normalizeStoreId (Str s) (defaultStore c) = s" "trim p = p" "p \<noteq> []"
  shows "wfStores h c ps (bucketSet s p e st)"
proof -
  note sp = entry_wf(1) [OF assms(1), of s]
  note b = entry_wf(2) [OF sp, of p]
  have "wfBucket h ps s p (AList.update (ev_id e) e (entryOf (entryOf st s) p))"
    unfolding wfBucket_def
    by (rule update_wf) (use b assms(2-4) in \<open>simp_all add: wfBucket_def\<close>)
  then have "wfSpaces h ps s (AList.update p (AList.update (ev_id e) e (entryOf (entryOf st s) p)) (entryOf st s))"
    unfolding wfSpaces_def
    by (intro update_wf) (use sp assms(6,7) in \<open>simp_all add: wfSpaces_def update_not_Nil\<close>)
  then show ?thesis
    unfolding wfStores_def bucketSet_def Let_def
    by (intro update_wf) (use assms(1,5) in \<open>simp_all add: wfStores_def\<close>)
qed

lemma getStoreState_wf:
  assumes "wfStores h c ps st" "normalizeStoreId (Str s) (defaultStore c) = s"
  shows "wfStores h c ps (getStoreState st s)"
proof (cases "map_of st s")
  case None
  have "wfSpaces h ps s []" by (simp add: wfSpaces_def)
  then have "distinct (map fst (AList.update s [] st)) \<and>
      (\<forall>(s, sp)\<in>set (AList.update s [] st). normalizeStoreId (Str s) (defaultStore c) = s \<and> wfSpaces h ps s sp)"
    by (intro update_wf) (use assms in \<open>simp_all add: wfStores_def\<close>)
  with None show ?thesis by (simp add: getStoreState_def ensureEntry_def wfStores_def)
next
  case (Some sp)
  with assms(1) show ?thesis by (simp add: getStoreState_def ensureEntry_def)
qed

lemma ingestStep_wf:
  assumes "hostOk h" "configOk c" "wfStores h c ps st"
  shows "wfStores h c ps (ingestStep h c ps r st)"
proof (cases "normalizeEvent h c r")
  case (Some n)
  note parts = normalizeEvent_parts [OF Some assms(1)]
  have "wfStores h c ps (bucketSet (ev_storeId n) (ev_space n) (storedEvent ps n) st)"
    using parts assms stored_canonical [OF Some assms(1), of ps ps] by (intro bucketSet_wf) simp_all
  with Some assms(3) show ?thesis
    by (simp add: ingestStep_cases rawItem_def eventKey_def)
qed (use assms in \<open>simp add: ingestStep_cases rawItem_def\<close>)

lemma override_fields:
  assumes "normalizeEvent h c (Obj (setProp ''space'' (Str p) (setProp ''storeId'' (Str s) kvs))) = Some n"
    and "normalizeStoreId (Str s) (defaultStore c) = s" "trim p = p" "p \<noteq> []"
  shows "ev_storeId n = s" "ev_space n = p"
proof -
  let ?v = "Obj (setProp ''space'' (Str p) (setProp ''storeId'' (Str s) kvs))"
  have "getProp ''storeId'' ?v = Str s" "getProp ''space'' ?v = Str p" by (simp_all del: getProp.simps)
  then have "ev_storeId (normalizedFields h c ?v) = s" "ev_space (normalizedFields h c ?v) = p"
    using assms(2-4) unfolding normalizedFields_def Let_def NormalizedEvent.simps
    by (simp_all only: firstDefined.simps firstTruthy.simps) (simp_all add: nullish_def orString_def)
  with assms(1) show "ev_storeId n = s" "ev_space n = p" by (auto elim!: normalizeEvent_fields)
qed

lemma importEvent_wf:
  assumes "hostOk h" "configOk c" "wfStores h c ps st"
    and "normalizeStoreId (Str s) (defaultStore c) = s" "trim p = p" "p \<noteq> []"
  shows "wfStores h c ps (importEvent h c s p raw st)"
proof -
  define kvs where "kvs = (case toObject raw of Obj kvs \<Rightarrow> kvs | _ \<Rightarrow> [])"
  show ?thesis
  proof (cases "normalizeEvent h c (Obj (setProp ''space'' (Str p) (setProp ''storeId'' (Str s) kvs)))")
    case None
    with assms(3) show ?thesis by (simp add: importEvent_def kvs_def Let_def)
  next
    case (Some n)
    note same = override_fields [OF Some assms(4-6)]
    have "wfStores h c ps (bucketSet s p (storedEvent UNSAFE_PATTERNS n) st)"
      using same assms stored_canonical [OF Some assms(1), of UNSAFE_PATTERNS ps] by (intro bucketSet_wf) simp_all
    with Some show ?thesis by (simp add: importEvent_def kvs_def Let_def same)
  qed
qed

lemma fold_wf: "\<lbrakk>\<And>x st. P st \<Longrightarrow> P (f x st); P st\<rbrakk> \<Longrightarrow> P (fold f xs st)"
  by (induction xs arbitrary: st) simp_all

lemma importStoreEntry_wf:
  assumes "hostOk h" "configOk c" "wfStores h c ps st"
  shows "wfStores h c ps (importStoreEntry h c rawStoreId rawSpaces st)"
proof -
  let ?s = "normalizeStoreId rawStoreId (defaultStore c)"
  have s: "normalizeStoreId (Str ?s) (defaultStore c) = ?s"
    using assms(2) by (simp add: configOk_def normalizeStoreId_fixed)
  have "wfStores h c ps (importSpace h c ?s x st)" if "wfStores h c ps st" for x st
  proof -
    let ?p = "orString (normalizeText (firstTruthy [getProp ''space'' (toObject x), Str (defaultSpace c)])) (defaultSpace c)"
    have p: "trim ?p = ?p" "?p \<noteq> []"
      using assms(2) by (simp_all only: configOk_def trim_orString orString_ne simp_thms)
    show ?thesis
      unfolding importSpace_def Let_def
      by (rule fold_wf [where P = "wfStores h c ps", OF _ that]) (rule importEvent_wf [OF assms(1,2) _ s p])
  qed
  note step = this
  show ?thesis
    unfolding importStoreEntry_def Let_def
    by (rule fold_wf [where P = "wfStores h c ps"], erule step, rule getStoreState_wf [OF assms(3) s])
qed

lemma importSnapshot_wf:
  assumes "hostOk h" "configOk c" "wfStores h c ps st"
  shows "wfStores h c ps (importSnapshot h c snapshot st)"
proof -
  have fold: "wfStores h c ps (fold (\<lambda>x. importStoreEntry h c (f x) (g x)) xs st)" for f g and xs :: "'a list"
    by (rule fold_wf [where P = "wfStores h c ps"]) (erule importStoreEntry_wf [OF assms(1,2)], rule assms(3))
  have fold': "wfStores h c ps (fold (\<lambda>x. importStoreEntry h c (f x) (g x)) xs st)" for f g and xs :: "string list"
    by (rule fold_wf [where P = "wfStores h c ps"]) (erule importStoreEntry_wf [OF assms(1,2)], rule assms(3))
  show ?thesis
    unfolding importSnapshot_def Let_def
    by (simp add: fold fold' assms importStoreEntry_wf split: js_value.split)
qed

text \<open>The states of an engine: created from any snapshot, then fed any inputs.\<close>

inductive reachable :: "engine_host \<Rightarrow> EngineDefaults \<Rightarrow> (string \<Rightarrow> bool) list \<Rightarrow> stores \<Rightarrow> bool"
  for h config patterns where
  created: "reachable h config patterns (createUmsEngine h config initialState)"
| ingested: "reachable h config patterns st \<Longrightarrow> reachable h config patterns (snd (ingest h config patterns input st))"

lemma reachable_wf:
  assumes "hostOk h" "configOk c" "reachable h c ps st"
  shows "wfStores h c ps st"
  using assms(3)
proof (induction rule: reachable.induct)
  case (created i)
  then show ?case
    unfolding createUmsEngine_def by (intro importSnapshot_wf assms(1,2)) (simp add: wfStores_def)
next
  case (ingested st input)
  then show ?case
    unfolding ingest_stores
    by (intro fold_wf [where P = "wfStores h c ps"]) (rule ingestStep_wf [OF assms(1,2)])
qed

text \<open>C34: In every reachable state, whatever was imported and ingested, an event found under a store,
  a space and an id belongs to them; its id, space and source are trimmed and not empty, its tags
  sorted and distinct, its timestamp canonical; its content is redacted, its token estimate and its
  unsafe flag are those of that content. Keys of all Maps are distinct and no bucket is empty.\<close>

theorem reachable_wellformed:
  assumes "hostOk h" "configOk config" "reachable h config patterns st"
  shows "distinct (map fst st) \<and>
    (\<forall>s sp. (s, sp) \<in> set st \<longrightarrow> distinct (map fst sp) \<and>
      (\<forall>p b. (p, b) \<in> set sp \<longrightarrow> trim p = p \<and> p \<noteq> [] \<and> b \<noteq> [] \<and> distinct (map fst b) \<and>
        (\<forall>i e. (i, e) \<in> set b \<longrightarrow>
           ev_id e = i \<and> ev_space e = p \<and> ev_storeId e = s \<and> canonicalEvent h patterns e)))"
  using reachable_wf [OF assms] unfolding wfStores_def wfSpaces_def wfBucket_def by fast

section \<open>Importing what was exported\<close>

definition reread :: "StoredEvent \<Rightarrow> StoredEvent" where
  "reread e = e\<lparr>ev_hasSecret := 0 < snd (redactSecrets (ev_content e))\<rparr>"

definition plainEvent :: "StoredEvent \<Rightarrow> NormalizedEvent" where
  "plainEvent e = \<lparr>ev_id = ev_id e, ev_timestamp = ev_timestamp e, ev_storeId = ev_storeId e,
     ev_space = ev_space e, ev_source = ev_source e, ev_content = ev_content e, ev_tags = ev_tags e,
     ev_metadata = ev_metadata e\<rparr>"

lemma reread_fields [simp]:
  "ev_id (reread e) = ev_id e" "ev_timestamp (reread e) = ev_timestamp e"
  by (simp_all add: reread_def)

lemma reread_stored:
  assumes "canonicalEvent h UNSAFE_PATTERNS e"
  shows "storedEvent UNSAFE_PATTERNS (plainEvent e) = reread e"
  using assms
  by (cases e) (simp add: canonicalEvent_def reread_def storedEvent_def plainEvent_def case_prod_unfold Let_def
      NormalizedEvent.defs StoredEvent.defs)

lemma exported_fields:
  "getProp ''id'' (exportEvent e) = Str (ev_id e)" "getProp ''storeId'' (exportEvent e) = Str (ev_storeId e)"
  "getProp ''space'' (exportEvent e) = Str (ev_space e)" "getProp ''source'' (exportEvent e) = Str (ev_source e)"
  "getProp ''timestamp'' (exportEvent e) = Str (ev_timestamp e)"
  "getProp ''content'' (exportEvent e) = Str (ev_content e)"
  "getProp ''tags'' (exportEvent e) = Arr (map Str (ev_tags e))"
  "getProp ''metadata'' (exportEvent e) = Obj (ev_metadata e)"
  "getProp ''role'' (exportEvent e) = Undefined" "getProp ''authorRole'' (exportEvent e) = Undefined"
  "getProp ''conversationId'' (exportEvent e) = Undefined" "getProp ''issueKey'' (exportEvent e) = Undefined"
  "isObj (exportEvent e)"
  by (simp_all add: exportEvent_def isObj_def)

lemma normalizedFields_exported:
  assumes "canonicalEvent h ps e" "normalizeStoreId (Str (ev_storeId e)) (defaultStore c) = ev_storeId e"
    and "trim (ev_space e) = ev_space e" "ev_space e \<noteq> []" "hostOk h"
  shows "normalizedFields h c (exportEvent e) = plainEvent e"
proof -
  have ts: "normalizeTimestamp h (firstTruthy [Str (ev_timestamp e), a, b, d]) = ev_timestamp e" for a b d
  proof -
    have "ev_timestamp e \<noteq> []"
      using assms(1,5) by (auto simp: canonicalEvent_def normalizeTimestamp_def hostOk_def epoch_def split: option.splits if_splits)
    then show ?thesis using assms(1) by (simp add: canonicalEvent_def)
  qed
  show ?thesis
    unfolding normalizedFields_def Let_def exported_fields plainEvent_def ts
    using assms(1-4)
    by (simp add: canonicalEvent_def nullish_def orString_def defaultMember_def normalizeText_def toLowerCase_def
        del: getProp.simps)
qed

lemma normalizeEvent_exported:
  assumes "canonicalEvent h ps e" "normalizeStoreId (Str (ev_storeId e)) (defaultStore c) = ev_storeId e"
    and "trim (ev_space e) = ev_space e" "ev_space e \<noteq> []" "hostOk h"
  shows "normalizeEvent h c (exportEvent e) = Some (plainEvent e)"
  using assms by (simp add: normalizeEvent_def Let_def exported_fields normalizedFields_exported)
    (simp add: plainEvent_def canonicalEvent_def)

lemma importEvent_exported:
  assumes "canonicalEvent h UNSAFE_PATTERNS e" "normalizeStoreId (Str s) (defaultStore c) = s"
    and "trim p = p" "p \<noteq> []" "hostOk h" "ev_storeId e = s" "ev_space e = p"
  shows "importEvent h c s p (exportEvent e) st = bucketSet s p (reread e) st"
proof -
  have "Obj (setProp ''space'' (Str p) (setProp ''storeId'' (Str s)
      (case toObject (exportEvent e) of Obj kvs \<Rightarrow> kvs | _ \<Rightarrow> []))) = exportEvent e"
    by (simp add: exportEvent_def toObject_def assms(6,7))
  moreover have "normalizeEvent h c (exportEvent e) = Some (plainEvent e)"
    by (rule normalizeEvent_exported) (use assms in simp_all)
  moreover have "ev_space (plainEvent e) = p" by (simp add: plainEvent_def assms(7))
  ultimately show ?thesis
    unfolding importEvent_def Let_def by (simp add: reread_stored [OF assms(1)])
qed

section \<open>Appending to the Maps\<close>

lemma update_append: "k \<notin> fst ` set xs \<Longrightarrow> AList.update k v (xs @ ys) = xs @ AList.update k v ys"
  by (induction xs) auto

lemma entryOf_append: "k \<notin> fst ` set xs \<Longrightarrow> entryOf (xs @ ys) k = entryOf ys k"
  by (simp add: entryOf_def map_add_def map_of_eq_None_iff [THEN iffD2])

lemma entryOf_new: "entryOf [] k = []" "entryOf ((k, v) # ys) k = v"
  by (simp_all add: entryOf_def)

lemma entryOf_last: "k \<notin> fst ` set xs \<Longrightarrow> entryOf xs k = []"
  using entryOf_append [of k xs "[]"] by (simp add: entryOf_new)

lemma update_last: "k \<notin> fst ` set xs \<Longrightarrow> AList.update k v xs = xs @ [(k, v)]"
  using update_append [of k xs v "[]"] by simp

lemma fold_bucketSet:
  assumes "s \<notin> fst ` set acc" "p \<notin> fst ` set sp"
  shows "distinct (map fst b @ map ev_id es) \<Longrightarrow>
    fold (bucketSet s p) es (acc @ [(s, sp @ [(p, b)])]) = acc @ [(s, sp @ [(p, b @ map (\<lambda>e. (ev_id e, e)) es)])]"
proof (induction es arbitrary: b)
  case (Cons e es)
  have new: "ev_id e \<notin> fst ` set b" using Cons.prems by auto
  have "bucketSet s p e (acc @ [(s, sp @ [(p, b)])]) = acc @ [(s, sp @ [(p, b @ [(ev_id e, e)])])]"
    using assms by (simp add: bucketSet_def Let_def entryOf_append entryOf_new update_append update_last [OF new])
  moreover have "distinct (map fst (b @ [(ev_id e, e)]) @ map ev_id es)" using Cons.prems by auto
  ultimately show ?case using Cons.IH by simp
qed simp

lemma fold_bucketSet_new:
  assumes "s \<notin> fst ` set acc" "p \<notin> fst ` set sp" "es \<noteq> []" "distinct (map ev_id es)"
  shows "fold (bucketSet s p) es (acc @ [(s, sp)]) = acc @ [(s, sp @ [(p, map (\<lambda>e. (ev_id e, e)) es)])]"
proof -
  obtain e es' where es: "es = e # es'" using assms(3) by (cases es) auto
  have "bucketSet s p e (acc @ [(s, sp)]) = acc @ [(s, sp @ [(p, [(ev_id e, e)])])]"
    using assms(1,2) by (simp add: bucketSet_def Let_def entryOf_append entryOf_new entryOf_last update_append update_last)
  then show ?thesis
    using fold_bucketSet [OF assms(1,2), of "[(ev_id e, e)]" es'] assms(4) by (simp add: es)
qed

section \<open>The imported state\<close>

definition importedBucket :: "engine_host \<Rightarrow> bucket \<Rightarrow> bucket" where
  "importedBucket h b = map (\<lambda>e. (ev_id e, reread e)) (arraySort (compareEvents h) (map snd b))"

definition importedSpaces :: "engine_host \<Rightarrow> store_state \<Rightarrow> store_state" where
  "importedSpaces h sp = map (\<lambda>(p, b). (p, importedBucket h b)) sp"

lemma wfBucket_ids: "wfBucket h ps s p b \<Longrightarrow> map ev_id (map snd b) = map fst b"
  by (auto simp: wfBucket_def)

lemma importSpace_exported:
  assumes "wfBucket h UNSAFE_PATTERNS s p b" "b \<noteq> []" "trim p = p" "p \<noteq> []" "hostOk h"
    and "normalizeStoreId (Str s) (defaultStore c) = s" "s \<notin> fst ` set acc" "p \<notin> fst ` set sp"
  shows "importSpace h c s (exportSpace h (p, b)) (acc @ [(s, sp)]) = acc @ [(s, sp @ [(p, importedBucket h b)])]"
proof -
  let ?es = "arraySort (compareEvents h) (map snd b)"
  have each: "importEvent h c s p (exportEvent e) st = bucketSet s p (reread e) st" if "e \<in> set ?es" for e st
    using that assms(1,3-6) by (intro importEvent_exported) (auto simp: wfBucket_def)
  have "fold (importEvent h c s p) (map exportEvent ?es) st = fold (bucketSet s p) (map reread ?es) st" for st
    unfolding fold_map comp_def by (intro fold_cong refl ext each)
  moreover have "distinct (map ev_id (map reread ?es))"
  proof -
    have "mset (map ev_id ?es) = mset (map ev_id (map snd b))" by (simp del: map_map)
    then have "distinct (map ev_id ?es) = distinct (map ev_id (map snd b))" by (rule mset_eq_imp_distinct_iff)
    moreover have "distinct (map ev_id (map snd b))"
      unfolding wfBucket_ids [OF assms(1)] using assms(1) by (simp add: wfBucket_def)
    ultimately show ?thesis by (simp add: comp_def)
  qed
  then have "fold (bucketSet s p) (map reread ?es) (acc @ [(s, sp)])
      = acc @ [(s, sp @ [(p, map (\<lambda>e. (ev_id e, e)) (map reread ?es))])]"
    using assms(2) by (intro fold_bucketSet_new [OF assms(7,8)]) (auto simp: arg_cong [OF length_sort, of "(=) 0"] dest: arg_cong [of _ _ set])
  moreover have "getProp ''space'' (toObject (exportSpace h (p, b))) = Str p"
    "getProp ''events'' (toObject (exportSpace h (p, b))) = Arr (map exportEvent ?es)"
    by (simp_all add: exportSpace_def toObject_def)
  ultimately show ?thesis
    using assms(3,4)
    by (simp add: importSpace_def Let_def arrOrEmpty_def orString_def importedBucket_def comp_def)
qed

lemma importSpaces_exported:
  assumes "\<forall>(p, b)\<in>set ps. trim p = p \<and> p \<noteq> [] \<and> b \<noteq> [] \<and> wfBucket h UNSAFE_PATTERNS s p b"
    and "hostOk h" "normalizeStoreId (Str s) (defaultStore c) = s" "s \<notin> fst ` set acc"
  shows "distinct (map fst (sp @ ps)) \<Longrightarrow>
    fold (importSpace h c s) (map (exportSpace h) ps) (acc @ [(s, sp)]) = acc @ [(s, sp @ importedSpaces h ps)]"
  using assms(1)
proof (induction ps arbitrary: sp)
  case Nil
  then show ?case by (simp add: importedSpaces_def)
next
  case (Cons x ps)
  obtain p b where x: "x = (p, b)" by fastforce
  have "importSpace h c s (exportSpace h (p, b)) (acc @ [(s, sp)]) = acc @ [(s, sp @ [(p, importedBucket h b)])]"
    by (rule importSpace_exported [OF _ _ _ _ assms(2-4)]) (use Cons.prems x in auto)
  moreover have "fold (importSpace h c s) (map (exportSpace h) ps) (acc @ [(s, sp @ [(p, importedBucket h b)])])
      = acc @ [(s, (sp @ [(p, importedBucket h b)]) @ importedSpaces h ps)]"
    by (rule Cons.IH) (use Cons.prems x in auto)
  ultimately show ?case by (simp add: x importedSpaces_def)
qed

definition sortedSpaces :: "engine_host \<Rightarrow> store_state \<Rightarrow> store_state" where
  "sortedSpaces h sp = arraySort (key fst (localeCompare h)) sp"

lemma importStores_exported:
  assumes "\<forall>(s, sp)\<in>set sts. normalizeStoreId (Str s) (defaultStore c) = s \<and> wfSpaces h UNSAFE_PATTERNS s sp"
    and "hostOk h"
  shows "distinct (map fst (acc @ sts)) \<Longrightarrow>
    fold (\<lambda>storeEntry. importStoreEntry h c (getProp ''storeId'' (toObject storeEntry))
        (getProp ''spaces'' (toObject storeEntry))) (map (exportStore h) sts) acc
      = acc @ map (\<lambda>(s, sp). (s, importedSpaces h (sortedSpaces h sp))) sts"
  using assms(1)
proof (induction sts arbitrary: acc)
  case Nil
  then show ?case by simp
next
  case (Cons x sts)
  obtain s sp where x: "x = (s, sp)" by fastforce
  have s: "normalizeStoreId (Str s) (defaultStore c) = s" "wfSpaces h UNSAFE_PATTERNS s sp" "s \<notin> fst ` set acc"
    using Cons.prems x by auto
  have fields: "getProp ''storeId'' (toObject (exportStore h (s, sp))) = Str s"
    "getProp ''spaces'' (toObject (exportStore h (s, sp))) = Arr (map (exportSpace h) (sortedSpaces h sp))"
    by (simp_all add: exportStore_def toObject_def sortedSpaces_def)
  have "mset (map fst (sortedSpaces h sp)) = mset (map fst sp)" by (simp add: sortedSpaces_def)
  then have "distinct (map fst (sortedSpaces h sp)) = distinct (map fst sp)" by (rule mset_eq_imp_distinct_iff)
  then have "fold (importSpace h c s) (map (exportSpace h) (sortedSpaces h sp)) (acc @ [(s, [])])
      = acc @ [(s, [] @ importedSpaces h (sortedSpaces h sp))]"
    using s by (intro importSpaces_exported assms(2)) (auto simp: wfSpaces_def sortedSpaces_def)
  moreover have "getStoreState acc s = acc @ [(s, [])]"
    using s(3) by (simp add: getStoreState_def ensureEntry_def update_last map_of_eq_None_iff)
  ultimately have "importStoreEntry h c (Str s) (Arr (map (exportSpace h) (sortedSpaces h sp))) acc
      = acc @ [(s, importedSpaces h (sortedSpaces h sp))]"
    by (simp add: importStoreEntry_def Let_def s(1) arrOrEmpty_def)
  moreover have "fold (\<lambda>storeEntry. importStoreEntry h c (getProp ''storeId'' (toObject storeEntry))
        (getProp ''spaces'' (toObject storeEntry))) (map (exportStore h) sts) (acc @ [(s, importedSpaces h (sortedSpaces h sp))])
      = (acc @ [(s, importedSpaces h (sortedSpaces h sp))]) @ map (\<lambda>(s, sp). (s, importedSpaces h (sortedSpaces h sp))) sts"
    by (rule Cons.IH) (use Cons.prems x in auto)
  ultimately show ?case by (simp add: x fields)
qed

lemma imported_state:
  assumes "wfStores h c UNSAFE_PATTERNS st" "hostOk h"
  shows "createUmsEngine h c (exportState h st) =
    map (\<lambda>(s, sp). (s, importedSpaces h (sortedSpaces h sp))) (arraySort (key fst (localeCompare h)) st)"
proof -
  let ?st = "arraySort (key fst (localeCompare h)) st"
  have "mset (map fst ?st) = mset (map fst st)" by simp
  then have "distinct (map fst ?st) = distinct (map fst st)" by (rule mset_eq_imp_distinct_iff)
  then have "fold (\<lambda>storeEntry. importStoreEntry h c (getProp ''storeId'' (toObject storeEntry))
        (getProp ''spaces'' (toObject storeEntry))) (map (exportStore h) ?st) []
      = [] @ map (\<lambda>(s, sp). (s, importedSpaces h (sortedSpaces h sp))) ?st"
    using assms(1) by (intro importStores_exported assms(2)) (auto simp: wfStores_def)
  then show ?thesis
    by (simp add: createUmsEngine_def importSnapshot_def exportState_def toObject_def)
qed

section \<open>Exporting the imported state\<close>

lemma comparator_ext: "(\<And>x y. compare c x y = compare d x y) \<Longrightarrow> c = d"
  by (simp add: compare_inject [symmetric] fun_eq_iff)

lemma key_key: "(\<And>x. g (f x) = g' x) \<Longrightarrow> key f (key g c) = key g' c"
  by (rule comparator_ext) simp

lemma insort_map: "insort c (f x) (map f xs) = map f (insort (key f c) x xs)"
  by (induction xs) (simp_all split: comp.split)

lemma sort_map: "arraySort c (map f xs) = map f (arraySort (key f c) xs)"
  by (induction xs) (simp_all add: insort_map)

definition rereadBucket :: "bucket \<Rightarrow> bucket" where
  "rereadBucket b = map (\<lambda>(i, e). (i, reread e)) b"

definition rereadSpaces :: "store_state \<Rightarrow> store_state" where
  "rereadSpaces sp = map (\<lambda>(p, b). (p, rereadBucket b)) sp"

text \<open>The state with every secret flag computed anew.\<close>

definition rereadState :: "stores \<Rightarrow> stores" where
  "rereadState st = map (\<lambda>(s, sp). (s, rereadSpaces sp)) st"

lemma compare_reread: "key reread (compareEvents h) = compareEvents h"
  by (rule comparator_ext) (simp add: compareEvents_def split: comp.split)

lemma sort_reread: "arraySort (compareEvents h) (map reread es) = map reread (arraySort (compareEvents h) es)"
  by (simp only: sort_map compare_reread)

lemma exportSpace_imported: "exportSpace h (p, importedBucket h b) = exportSpace h (p, rereadBucket b)"
proof -
  obtain es where es: "es = map snd b" by blast
  have "map snd (importedBucket h b) = map reread (arraySort (compareEvents h) es)"
    by (simp add: importedBucket_def comp_def es)
  moreover have "map snd (rereadBucket b) = map reread es"
    by (simp add: rereadBucket_def comp_def case_prod_unfold es)
  ultimately show ?thesis by (simp only: exportSpace_def prod.case sort_reread sort_idem)
qed

lemma exportStore_imported:
  "exportStore h (s, importedSpaces h (sortedSpaces h sp)) = exportStore h (s, rereadSpaces sp)"
proof -
  let ?K = "key fst (localeCompare h)" and ?S = "sortedSpaces h sp"
  have one: "key (\<lambda>(p, b). (p, importedBucket h b)) ?K = (?K :: (string \<times> bucket) comparator)"
    and two: "key (\<lambda>(p, b). (p, rereadBucket b)) ?K = (?K :: (string \<times> bucket) comparator)"
    by (rule key_key, auto)+
  have "arraySort ?K (importedSpaces h ?S) = importedSpaces h ?S"
    by (simp only: importedSpaces_def sort_map one) (simp add: sortedSpaces_def)
  moreover have "arraySort ?K (rereadSpaces sp) = rereadSpaces ?S"
    by (simp only: rereadSpaces_def sort_map two) (simp add: sortedSpaces_def)
  moreover have "map (exportSpace h) (importedSpaces h ?S) = map (exportSpace h) (rereadSpaces ?S)"
    by (simp add: importedSpaces_def rereadSpaces_def case_prod_unfold exportSpace_imported)
  moreover have "length (importedSpaces h ?S) = length (rereadSpaces sp)"
    by (simp add: importedSpaces_def rereadSpaces_def sortedSpaces_def)
  moreover have "totalEventsForStore (importedSpaces h ?S) = totalEventsForStore (rereadSpaces sp)"
    by (simp add: totalEventsForStore_def importedSpaces_def rereadSpaces_def sortedSpaces_def comp_def
        case_prod_unfold importedBucket_def rereadBucket_def sum_list_sort)
  ultimately show ?thesis by (simp only: exportStore_def prod.case)
qed

lemma exportState_imported:
  "exportState h (map (\<lambda>(s, sp). (s, importedSpaces h (sortedSpaces h sp))) (arraySort (key fst (localeCompare h)) st))
     = exportState h (rereadState st)"
proof -
  let ?K = "key fst (localeCompare h)" and ?f = "\<lambda>(s, sp). (s, importedSpaces h (sortedSpaces h sp))"
    and ?g = "\<lambda>(s, sp). (s, rereadSpaces sp)"
  have one: "key ?f ?K = (?K :: (string \<times> store_state) comparator)"
    and two: "key ?g ?K = (?K :: (string \<times> store_state) comparator)"
    by (rule key_key, auto)+
  have "arraySort ?K (map ?f (arraySort ?K st)) = map ?f (arraySort ?K st)"
    by (simp only: sort_map one sort_idem)
  moreover have "arraySort ?K (rereadState st) = map ?g (arraySort ?K st)"
    by (simp only: rereadState_def sort_map two)
  moreover have "map (exportStore h) (map ?f xs) = map (exportStore h) (map ?g xs)" for xs
    by (simp add: case_prod_unfold exportStore_imported)
  moreover have "length (importedSpaces h (sortedSpaces h sp)) = length (rereadSpaces sp)"
    "totalEventsForStore (importedSpaces h (sortedSpaces h sp)) = totalEventsForStore (rereadSpaces sp)" for sp
    by (simp_all add: totalEventsForStore_def importedSpaces_def rereadSpaces_def sortedSpaces_def comp_def
        case_prod_unfold importedBucket_def rereadBucket_def sum_list_sort)
  then have "totalSpaces (map ?f (arraySort ?K st)) = totalSpaces (rereadState st)"
    "totalEvents (map ?f (arraySort ?K st)) = totalEvents (rereadState st)"
    by (simp_all add: totalSpaces_def totalEvents_def rereadState_def comp_def case_prod_unfold sum_list_sort)
  moreover have "length (map ?f (arraySort ?K st)) = length (rereadState st)" by (simp add: rereadState_def)
  ultimately show ?thesis by (simp only: exportState_def)
qed

text \<open>C35: An engine restored from the exported state of a reachable engine, with the built-in unsafe
  patterns, exports the same state except for the secret flags: it recomputes each from the redacted
  content, where only credential assignments are still recognised. A state whose flags are not
  changed by that is restored with the same digest.\<close>

theorem export_import_roundtrip:
  assumes "hostOk h" "configOk config" "reachable h config UNSAFE_PATTERNS st"
  shows "exportState h (createUmsEngine h config (exportState h st)) = exportState h (rereadState st) \<and>
    (rereadState st = st \<longrightarrow> stateDigest h (createUmsEngine h config (exportState h st)) = stateDigest h st)"
  using imported_state [OF reachable_wf [OF assms] assms(1)] exportState_imported [of h st]
  by (simp add: stateDigest_def)

section \<open>Examples\<close>

definition sampleEngineHost :: engine_host where
  "sampleEngineHost = \<lparr>localeCompare = default, sha256 = (\<lambda>s. ''0123456789abcdef''), formatIssue = (\<lambda>c j. c),
     toISOString = (\<lambda>s. if length s = 24 then Some s else None)\<rparr>"

definition sampleInput :: js_value where
  "sampleInput = Obj [(''id'', Str ''e1''), (''content'', Str ''sk-abcdefgh'')]"

definition sampleStores :: stores where
  "sampleStores = snd (ingest sampleEngineHost DEFAULTS UNSAFE_PATTERNS sampleInput [])"

lemma sampleHost_ok: "hostOk sampleEngineHost" "configOk DEFAULTS"
proof -
  have "\<forall>c\<in>set ''0123456789abcdef''. isHexDigit c" by (simp add: isHexDigit_def)
  then show "hostOk sampleEngineHost" by (auto simp: hostOk_def sampleEngineHost_def epoch_def split: if_splits)
  show "configOk DEFAULTS" by code_simp
qed

lemma sample_reachable: "reachable sampleEngineHost DEFAULTS patterns (snd (ingest sampleEngineHost DEFAULTS patterns input []))"
proof -
  have "createUmsEngine sampleEngineHost DEFAULTS Undefined = []"
    by (simp add: createUmsEngine_def importSnapshot_def toObject_def isArr_def)
  then have "reachable sampleEngineHost DEFAULTS patterns []"
    using reachable.created [of sampleEngineHost DEFAULTS patterns Undefined] by simp
  then show ?thesis by (rule reachable.ingested)
qed

lemma map_of_map_snd: "map_of (map (\<lambda>(k, v). (k, f v)) m) k = map_option f (map_of m k)"
  by (induction m) auto

lemma eventAt_reread: "eventAt (rereadState st) k = map_option reread (eventAt st k)"
  by (auto simp: eventAt_def bucketOf_def entryOf_def rereadState_def rereadSpaces_def rereadBucket_def
      map_of_map_snd split: prod.split option.split)

lemma sample_event:
  "map_option (\<lambda>e. (ev_hasSecret e, ev_content e)) (eventAt sampleStores (''default'', ''default'', ''e1''))
     = Some (True, secretMark)"
  by code_simp

lemma sample_mark: "snd (redactSecrets secretMark) = 0"
  by code_simp

lemma sample_changes: "rereadState sampleStores \<noteq> sampleStores" "sampleStores \<noteq> []"
proof -
  obtain e where e: "eventAt sampleStores (''default'', ''default'', ''e1'') = Some e" "ev_hasSecret e" "ev_content e = secretMark"
    using sample_event by auto
  then have "eventAt (rereadState sampleStores) (''default'', ''default'', ''e1'') \<noteq> Some e"
    by (auto simp: eventAt_reread reread_def sample_mark) (metis StoredEvent.select_convs(1) StoredEvent.surjective StoredEvent.update_convs(1))
  with e show "rereadState sampleStores \<noteq> sampleStores" by auto
  from e show "sampleStores \<noteq> []" by (auto simp: eventAt_def bucketOf_def entryOf_def)
qed

theorem reachable_wellformed_witness: "distinct (map fst sampleStores) \<and> sampleStores \<noteq> []"
  using reachable_wellformed [OF sampleHost_ok sample_reachable, of UNSAFE_PATTERNS sampleInput] sample_changes(2)
  by (simp flip: sampleStores_def)

text \<open>The key in the first event is redacted, so its secret flag is lost by the round trip.\<close>

theorem export_import_roundtrip_witness:
  "exportState sampleEngineHost (createUmsEngine sampleEngineHost DEFAULTS (exportState sampleEngineHost sampleStores))
     = exportState sampleEngineHost (rereadState sampleStores) \<and> rereadState sampleStores \<noteq> sampleStores"
  using export_import_roundtrip [OF sampleHost_ok sample_reachable, of sampleInput] sample_changes(1)
  by (simp flip: sampleStores_def)

theorem recall_selection_witness:
  "1 \<le> rr_maxItems (recall sampleEngineHost DEFAULTS (Str ''sk'') sampleStores) \<and>
   rr_maxItems (recall sampleEngineHost DEFAULTS (Str ''sk'') sampleStores) \<le> 100"
proof -
  have limits: "1 \<le> defaultMaxItems DEFAULTS" "defaultMaxItems DEFAULTS \<le> maxMaxItems DEFAULTS"
    "1 \<le> defaultTokenBudget DEFAULTS" "defaultTokenBudget DEFAULTS \<le> maxTokenBudget DEFAULTS"
    and hundred: "maxMaxItems DEFAULTS = 100"
    by (simp_all add: DEFAULTS_def)
  note w = recall_selection [OF limits, of sampleEngineHost "Str ''sk''" sampleStores, unfolded Let_def hundred]
  show ?thesis by (rule conjI [OF w [THEN conjunct1] w [THEN conjunct2, THEN conjunct1]])
qed

end
