(* ===== verification/Json_Parse.thy ===== *)
theory Json_Parse
  imports Js_Value
begin

text \<open>
  \<open>JSON.parse\<close>, for the code that reads payloads, snapshots and cursors, and the round trip
  with \<open>JSON.stringify\<close>: a text printed from safe integers, strings, arrays and objects reads back
  as the same value. An escaped code unit above 255 is read as code unit 255, which stands for all
  units outside the model's alphabet. The text of the SyntaxError is the host's, so failing is
  \<open>None\<close>; the parser runs on fuel, and \<open>parse_fuel\<close> shows that what \<open>jsonParse\<close> gives it suffices.
\<close>

section \<open>Safe integers are printed in decimal\<close>

lemma natDigits_step: "10 \<le> n \<Longrightarrow> natDigits n = natDigits (n div 10) @ [digitChar (n mod 10)]"
  by (subst natDigits.simps) simp

lemma natDigits_single: "n < 10 \<Longrightarrow> natDigits n = [digitChar n]"
  by (subst natDigits.simps) simp

lemma digitChar_zero [simp]: "digitChar 0 = CHR ''0''"
  by code_simp

lemma natDigits_times10: "0 < n \<Longrightarrow> natDigits (n * 10) = natDigits n @ ''0''"
  by (simp add: natDigits_step)

lemma natDigits_shift: "0 < n \<Longrightarrow> natDigits (n * 10 ^ z) = natDigits n @ replicate z (CHR ''0'')"
proof (induction z)
  case 0
  then show ?case by simp
next
  case (Suc z)
  have "natDigits (n * 10 ^ Suc z) = natDigits ((n * 10 ^ z) * 10)" by (simp add: ac_simps)
  also have "\<dots> = natDigits (n * 10 ^ z) @ ''0''" using Suc.prems by (intro natDigits_times10) simp
  finally show ?case using Suc by (simp add: replicate_append_same)
qed

lemma length_natDigits: "\<lbrakk>10 ^ k \<le> n; n < 10 ^ Suc k\<rbrakk> \<Longrightarrow> length (natDigits n) = Suc k"
proof (induction k arbitrary: n)
  case 0
  then show ?case by (simp add: natDigits_single)
next
  case (Suc k)
  have "10 ^ k \<le> n div 10" "n div 10 < 10 ^ Suc k" using Suc.prems by simp_all
  moreover have "10 \<le> n" using Suc.prems(1) by (auto intro: order_trans [rotated] simp: self_le_power)
  ultimately show ?case using Suc.IH by (simp add: natDigits_step)
qed

lemma pow10_of_nat: "pow10 (int n) = 10 ^ n"
  by (simp add: pow10_def)

lemma exponent10_up:
  assumes "10 ^ e \<le> x" "x < 10 ^ Suc e" "c \<le> Suc e" "Suc e - c < f" "0 < x"
  shows "exponent10 f (int c) x = int (Suc e)"
  using assms(3,4)
proof (induction f arbitrary: c)
  case 0
  then show ?case by simp
next
  case (Suc f)
  show ?case
  proof (cases "c = Suc e")
    case True
    have "pow10 (int (Suc e) - 1) = 10 ^ e" using pow10_of_nat [of e] by simp
    with True assms show ?thesis by (simp add: pow10_of_nat not_le not_less del: of_nat_Suc)
  next
    case False
    with Suc.prems have "c \<le> e" by simp
    then have "(10 :: rat) ^ c \<le> 10 ^ e" by (intro power_increasing) simp_all
    then have "pow10 (int c) \<le> x" using assms(1) by (simp only: pow10_of_nat)
    then have "exponent10 (Suc f) (int c) x = exponent10 f (int (Suc c)) x" by (simp add: add.commute)
    also have "\<dots> = int (Suc e)" using Suc.prems \<open>c \<le> e\<close> by (intro Suc.IH) simp_all
    finally show ?thesis .
  qed
qed

text \<open>An integer between two powers of ten is printed with as many digits as its part without
  trailing zeros needs.\<close>

lemma digitsFor_none:
  assumes "0 < n" "n < 2 ^ 53" "k < e" "\<not> 10 ^ (e - k) dvd n"
  shows "digitsFor (int e) k (of_int n) = None"
proof -
  have pow: "pow10 (int e - int k) = of_int (10 ^ (e - k))"
    using assms(3) pow10_of_nat [of "e - k"] by (simp add: of_nat_diff)
  have no: "fl (of_int c * of_int (10 ^ (e - k))) \<noteq> of_int n" for c
  proof (cases "\<bar>c * 10 ^ (e - k)\<bar> \<le> 2 ^ 53")
    case True
    then have "fl (of_int (c * 10 ^ (e - k))) = of_int (c * 10 ^ (e - k))" by (rule fl_of_int)
    moreover have "c * 10 ^ (e - k) \<noteq> n" using assms(4) by auto
    ultimately show ?thesis by (simp only: of_int_mult [symmetric] of_int_eq_iff) simp
  next
    case False
    then consider "2 ^ 53 \<le> c * 10 ^ (e - k)" | "c * 10 ^ (e - k) \<le> 0" by linarith
    then show ?thesis
    proof cases
      case 1
      then have "(of_int (2 ^ 53) :: rat) \<le> of_int (c * 10 ^ (e - k))" by (simp only: of_int_le_iff)
      then have "fl (of_int (2 ^ 53)) \<le> fl (of_int (c * 10 ^ (e - k)))" by (rule fl_mono)
      then have "(of_int (2 ^ 53) :: rat) \<le> fl (of_int (c * 10 ^ (e - k)))" by (subst (asm) fl_of_int) simp_all
      moreover have "(of_int n :: rat) < of_int (2 ^ 53)" using assms(2) by (simp only: of_int_less_iff)
      ultimately show ?thesis by (simp only: of_int_mult)
    next
      case 2
      then have "(of_int (c * 10 ^ (e - k)) :: rat) \<le> 0" by (simp only: of_int_le_0_iff)
      then have "fl (of_int (c * 10 ^ (e - k))) \<le> 0" using fl_mono [of _ 0] by simp
      moreover have "(0 :: rat) < of_int n" using assms(1) by simp
      ultimately show ?thesis by (simp only: of_int_mult)
    qed
  qed
  show ?thesis unfolding digitsFor_def by (simp add: pow no Let_def del: of_int_power of_int_mult)
qed

lemma digitsFor_exact:
  assumes "0 < s" "s * 10 ^ z < 2 ^ 53" "e = k + z"
  shows "digitsFor (int e) k (of_int (s * 10 ^ z)) = Some s"
proof -
  have pow: "pow10 (int e - int k) = of_int (10 ^ z)" using assms(3) pow10_of_nat [of z] by simp
  have q: "of_int (s * 10 ^ z) / of_int (10 ^ z) = (of_int s :: rat)" by simp
  have "\<bar>s * 10 ^ z\<bar> \<le> 2 ^ 53" using assms by simp
  then have "fl (of_int s * of_int (10 ^ z)) = of_int (s * 10 ^ z)" using fl_of_int [of "s * 10 ^ z"] by (simp only: of_int_mult)
  then show ?thesis unfolding digitsFor_def Let_def pow q by simp
qed

lemma shortestDigits_exact:
  assumes s: "0 < s" "\<not> 10 dvd s" and n: "s * 10 ^ z < 2 ^ 53"
  shows "\<lbrakk>k \<le> k0; k0 < k + f\<rbrakk> \<Longrightarrow>
    shortestDigits f k (int (k0 + z)) (of_int (s * 10 ^ z)) = (s, k0)"
proof (induction f arbitrary: k)
  case 0
  then show ?case by simp
next
  case (Suc f)
  show ?case
  proof (cases "k = k0")
    case True
    then show ?thesis using digitsFor_exact [OF s(1) n, of "k0 + z" k0] by simp
  next
    case False
    have "\<not> 10 ^ (k0 + z - k) dvd s * 10 ^ z"
    proof
      assume "10 ^ (k0 + z - k) dvd s * 10 ^ z"
      moreover have "(10 :: int) ^ Suc z dvd 10 ^ (k0 + z - k)" using False Suc.prems by (intro le_imp_power_dvd) simp
      ultimately have "10 * 10 ^ z dvd s * 10 ^ z" using dvd_trans by fastforce
      then show False using s(2) by simp
    qed
    then have "digitsFor (int (k0 + z)) k (of_int (s * 10 ^ z)) = None"
      using False Suc.prems s n by (intro digitsFor_none) simp_all
    then show ?thesis using Suc.IH [of "Suc k"] False Suc.prems by (simp del: of_int_mult)
  qed
qed

lemma strip_zeros: "0 < (n :: int) \<Longrightarrow> \<exists>s z. n = s * 10 ^ z \<and> 0 < s \<and> \<not> 10 dvd s"
proof (induction "nat n" arbitrary: n rule: less_induct)
  case less
  show ?case
  proof (cases "10 dvd n")
    case True
    then obtain m where m: "n = 10 * m" by auto
    have "nat m < nat n" "0 < m" using less.prems m by simp_all
    then obtain s z where "m = s * 10 ^ z" "0 < s" "\<not> 10 dvd s" using less.hyps by blast
    then show ?thesis using m by (intro exI [of _ s] exI [of _ "Suc z"]) simp
  next
    case False
    with less show ?thesis by (intro exI [of _ n] exI [of _ 0]) simp
  qed
qed

lemma between_powers: "0 < (s :: int) \<Longrightarrow> \<exists>k. 10 ^ k \<le> s \<and> s < 10 ^ Suc k"
proof (induction "nat s" arbitrary: s rule: less_induct)
  case less
  show ?case
  proof (cases "s < 10")
    case True
    with less show ?thesis by (intro exI [of _ 0]) simp
  next
    case False
    then have "nat (s div 10) < nat s" "0 < s div 10" by auto
    with less(1) obtain k where "10 ^ k \<le> s div 10" "s div 10 < 10 ^ Suc k" by blast
    moreover have "10 * (s div 10) \<le> s" "s < 10 * (s div 10) + 10" by linarith+
    ultimately have "10 * 10 ^ k \<le> s \<and> s < 10 * (10 * 10 ^ k)" by simp
    then show ?thesis by (intro exI [of _ "Suc k"]) simp
  qed
qed

lemma positiveString_int:
  assumes "0 < n" "n < 2 ^ 53"
  shows "positiveString (of_int n) = natDigits n"
proof -
  obtain s z where sz: "n = s * 10 ^ z" "0 < s" "\<not> 10 dvd s" using strip_zeros [OF assms(1)] by blast
  obtain k where k: "10 ^ k \<le> s" "s < 10 ^ Suc k" using between_powers [OF sz(2)] by blast
  have lo: "10 ^ (k + z) \<le> n" and hi: "n < 10 ^ Suc (k + z)" using k sz(1) by (simp_all add: power_add)
  have "k + z < 16"
  proof (rule ccontr)
    assume "\<not> k + z < 16"
    then have "(10 :: int) ^ 16 \<le> 10 ^ (k + z)" by (intro power_increasing) simp_all
    with lo assms(2) show False by simp
  qed
  have "(of_int (10 ^ (k + z)) :: rat) \<le> of_int n" "(of_int n :: rat) < of_int (10 ^ Suc (k + z))"
    using lo hi by (simp_all only: of_int_le_iff of_int_less_iff)
  then have "exponent10 700 (int 0) (of_int n) = int (Suc (k + z))"
    using assms \<open>k + z < 16\<close> by (intro exponent10_up) simp_all
  moreover have "shortestDigits 17 1 (int (Suc k + z)) (of_int (s * 10 ^ z)) = (s, Suc k)"
    using \<open>k + z < 16\<close> sz assms by (intro shortestDigits_exact) simp_all
  ultimately show ?thesis
    using length_natDigits [OF k] natDigits_shift [OF sz(2), of z] \<open>k + z < 16\<close> sz(1)
    by (simp add: positiveString_def layoutDigits_def)
qed

lemma number_to_string_int: "\<bar>n\<bar> < 2 ^ 53 \<Longrightarrow> number_to_string (jint n) = intString n"
  using positiveString_int [of n] positiveString_int [of "- n"]
  by (auto simp: jint_def intString_def natDigits_single simp flip: of_int_minus)

section \<open>The parser\<close>

definition isJsonSpace :: "char \<Rightarrow> bool" where
  "isJsonSpace c = (let n = (of_char c :: nat) in n = 9 \<or> n = 10 \<or> n = 13 \<or> n = 32)"

abbreviation skipSpace :: "string \<Rightarrow> string" where
  "skipSpace \<equiv> dropWhile isJsonSpace"

definition isHexDigit :: "char \<Rightarrow> bool" where
  "isHexDigit c = (let n = (of_char c :: nat) in (48 \<le> n \<and> n \<le> 57) \<or> (65 \<le> n \<and> n \<le> 70) \<or> (97 \<le> n \<and> n \<le> 102))"

definition hexDigitNat :: "char \<Rightarrow> nat" where
  "hexDigitNat c = (let n = of_char c in if n < 58 then n - 48 else if n < 71 then n - 55 else n - 87)"

text \<open>The code unit an escape names; units the alphabet lacks are read as unit 255.\<close>

definition codeUnit :: "nat \<Rightarrow> char" where
  "codeUnit n = (if n < 256 then char_of n else CHR 0xFF)"

definition simpleEscape :: "char \<Rightarrow> char option" where
  "simpleEscape d =
     (if d = CHR 0x22 \<or> d = CHR 0x5C \<or> d = CHR ''/'' then Some d
      else if d = CHR ''b'' then Some (CHR 0x08)
      else if d = CHR ''t'' then Some (CHR 0x09)
      else if d = CHR ''n'' then Some (CHR 0x0A)
      else if d = CHR ''f'' then Some (CHR 0x0C)
      else if d = CHR ''r'' then Some (CHR 0x0D)
      else None)"

text \<open>One code unit of a string literal, after the opening quote.\<close>

fun readUnit :: "string \<Rightarrow> (char \<times> string) option" where
  "readUnit [] = None"
| "readUnit (c # cs) =
     (if c = CHR 0x22 \<or> (of_char c :: nat) < 32 then None
      else if c \<noteq> CHR 0x5C then Some (c, cs)
      else case cs of
          [] \<Rightarrow> None
        | d # ds \<Rightarrow>
            if d = CHR ''u'' then
              (case ds of
                 h1 # h2 # h3 # h4 # rest \<Rightarrow>
                   if list_all isHexDigit [h1, h2, h3, h4]
                   then Some (codeUnit (foldl (\<lambda>n h. 16 * n + hexDigitNat h) 0 [h1, h2, h3, h4]), rest)
                   else None
               | _ \<Rightarrow> None)
            else map_option (\<lambda>e. (e, ds)) (simpleEscape d))"

lemma readUnit_shorter: "readUnit s = Some (c, r) \<Longrightarrow> length r < length s"
  by (cases s) (auto split: if_splits list.splits)

declare readUnit.simps [simp del]

function readString :: "string \<Rightarrow> (string \<times> string) option" where
  "readString s =
     (case s of
        [] \<Rightarrow> None
      | c # cs \<Rightarrow>
          if c = CHR 0x22 then Some ([], cs)
          else (case readUnit s of
                  None \<Rightarrow> None
                | Some (u, rest) \<Rightarrow> map_option (apfst ((#) u)) (readString rest)))"
  by pat_completeness auto
termination readString
  by (relation "measure length") (auto dest: readUnit_shorter)

declare readString.simps [simp del]

text \<open>A number literal; the value is the double nearest to it.\<close>

definition readDigits :: "string \<Rightarrow> (string \<times> string) option" where
  "readDigits s = (if takeWhile isDigit s = [] then None else Some (takeWhile isDigit s, dropWhile isDigit s))"

definition readFraction :: "string \<Rightarrow> (string \<times> string) option" where
  "readFraction s = (case s of c # cs \<Rightarrow> if c = CHR ''.'' then readDigits cs else Some ([], s) | [] \<Rightarrow> Some ([], s))"

definition readExponent :: "string \<Rightarrow> (int \<times> string) option" where
  "readExponent s =
     (case s of
        [] \<Rightarrow> Some (0, s)
      | c # cs \<Rightarrow>
          if c \<noteq> CHR ''e'' \<and> c \<noteq> CHR ''E'' then Some (0, s)
          else
            (let signed = (cs \<noteq> [] \<and> (hd cs = CHR ''+'' \<or> hd cs = CHR ''-''));
                 negative = (cs \<noteq> [] \<and> hd cs = CHR ''-'')
             in map_option (\<lambda>(ds, rest). (if negative then - digitsValue ds else digitsValue ds, rest))
                  (readDigits (if signed then tl cs else cs))))"

definition readNumber :: "string \<Rightarrow> (jsnum \<times> string) option" where
  "readNumber s =
     (let negative = (s \<noteq> [] \<and> hd s = CHR ''-'') in
      case readDigits (if negative then tl s else s) of
        None \<Rightarrow> None
      | Some (whole, afterWhole) \<Rightarrow>
          if 1 < length whole \<and> hd whole = CHR ''0'' then None
          else (case readFraction afterWhole of
              None \<Rightarrow> None
            | Some (fraction, afterFraction) \<Rightarrow>
                (case readExponent afterFraction of
                   None \<Rightarrow> None
                 | Some (e, rest) \<Rightarrow>
                     (let x = of_int (digitsValue (whole @ fraction)) * pow10 (e - int (length fraction))
                      in Some (round64 (if negative then - x else x), rest)))))"

definition readWord :: "string \<Rightarrow> js_value \<Rightarrow> string \<Rightarrow> (js_value \<times> string) option" where
  "readWord w v s = (if startsWith s w then Some (v, drop (length w) s) else None)"

text \<open>Objects: a repeated key keeps its place and takes the later value.\<close>

definition objectOf :: "(string \<times> js_value) list \<Rightarrow> js_value" where
  "objectOf kvs = Obj (fold (\<lambda>(k, v). setProp k v) kvs [])"

fun parseValue :: "nat \<Rightarrow> string \<Rightarrow> (js_value \<times> string) option"
  and parseElements :: "nat \<Rightarrow> string \<Rightarrow> (js_value list \<times> string) option"
  and parseMembers :: "nat \<Rightarrow> string \<Rightarrow> ((string \<times> js_value) list \<times> string) option" where
  "parseValue 0 s = None"
| "parseValue (Suc fuel) s =
     (case skipSpace s of
        [] \<Rightarrow> None
      | c # cs \<Rightarrow>
          if c = CHR 0x22 then map_option (apfst Str) (readString cs)
          else if c = CHR ''['' then
            (if startsWith (skipSpace cs) '']'' then Some (Arr [], tl (skipSpace cs))
             else map_option (apfst Arr) (parseElements fuel cs))
          else if c = CHR ''{'' then
            (if startsWith (skipSpace cs) ''}'' then Some (Obj [], tl (skipSpace cs))
             else map_option (apfst objectOf) (parseMembers fuel cs))
          else if c = CHR ''t'' then readWord ''true'' (Bool True) (c # cs)
          else if c = CHR ''f'' then readWord ''false'' (Bool False) (c # cs)
          else if c = CHR ''n'' then readWord ''null'' Null (c # cs)
          else map_option (apfst Num) (readNumber (c # cs)))"
| "parseElements 0 s = None"
| "parseElements (Suc fuel) s =
     (case parseValue fuel s of
        None \<Rightarrow> None
      | Some (v, afterValue) \<Rightarrow>
          (case skipSpace afterValue of
             [] \<Rightarrow> None
           | c # cs \<Rightarrow>
               if c = CHR '','' then map_option (apfst ((#) v)) (parseElements fuel cs)
               else if c = CHR '']'' then Some ([v], cs)
               else None))"
| "parseMembers 0 s = None"
| "parseMembers (Suc fuel) s =
     (case skipSpace s of
        [] \<Rightarrow> None
      | q # qs \<Rightarrow>
          if q \<noteq> CHR 0x22 then None
          else (case readString qs of
              None \<Rightarrow> None
            | Some (k, afterKey) \<Rightarrow>
                (case skipSpace afterKey of
                   [] \<Rightarrow> None
                 | d # ds \<Rightarrow>
                     if d \<noteq> CHR '':'' then None
                     else (case parseValue fuel ds of
                         None \<Rightarrow> None
                       | Some (v, afterValue) \<Rightarrow>
                           (case skipSpace afterValue of
                              [] \<Rightarrow> None
                            | c # cs \<Rightarrow>
                                if c = CHR '','' then map_option (apfst ((#) (k, v))) (parseMembers fuel cs)
                                else if c = CHR ''}'' then Some ([(k, v)], cs)
                                else None)))))"

definition jsonParse :: "string \<Rightarrow> js_value option" where
  "jsonParse s =
     (case parseValue (2 * length s + 1) s of
        None \<Rightarrow> None
      | Some (v, rest) \<Rightarrow> if skipSpace rest = [] then Some v else None)"

section \<open>The fuel suffices\<close>

text \<open>Every part of the parser consumes text, so fuel above twice the length changes nothing.\<close>

lemma length_skipSpace: "skipSpace s = c # cs \<Longrightarrow> length cs < length s"
  using length_dropWhile_le [of isJsonSpace s] by simp

lemma readString_cases:
  assumes "readString s = Some (t, r)"
  obtains "t = []" "s = CHR 0x22 # r"
  | u q t' where "t = u # t'" "readUnit s = Some (u, q)" "readString q = Some (t', r)"
  using assms by (subst (asm) readString.simps) (auto split: list.splits if_splits option.splits)

lemma readString_shorter: "readString s = Some (t, r) \<Longrightarrow> length r < length s"
proof (induction t arbitrary: s)
  case Nil
  then show ?case by (auto elim: readString_cases)
next
  case (Cons u t)
  from Cons.prems obtain q where "readUnit s = Some (u, q)" "readString q = Some (t, r)"
    by (auto elim: readString_cases)
  with Cons.IH readUnit_shorter show ?case by fastforce
qed

lemma readDigits_shorter: "readDigits s = Some (t, r) \<Longrightarrow> length r < length s"
  using length_dropWhile_le [of isDigit "tl s"] by (cases s) (auto simp: readDigits_def split: if_splits)

lemma readFraction_shorter: "readFraction s = Some (t, r) \<Longrightarrow> length r \<le> length s"
  by (cases s) (auto simp: readFraction_def dest: readDigits_shorter split: if_splits)

lemma readExponent_shorter: "readExponent s = Some (t, r) \<Longrightarrow> length r \<le> length s"
  by (cases s; cases "tl s") (auto simp: readExponent_def Let_def dest: readDigits_shorter split: if_splits)

lemma readNumber_shorter: "readNumber s = Some (x, r) \<Longrightarrow> length r < length s"
  by (cases s)
    (auto simp: readNumber_def Let_def split: if_splits option.splits
      dest!: readDigits_shorter readFraction_shorter readExponent_shorter)

lemma readWord_shorter: "readWord w v s = Some (x, r) \<Longrightarrow> w \<noteq> [] \<Longrightarrow> length r < length s"
  by (auto simp: readWord_def startsWith_iff split: if_splits)

lemma length_skipSpace_le: "length (skipSpace s) \<le> length s"
  by (rule length_dropWhile_le)

lemmas consumes = readString_shorter readNumber_shorter length_skipSpace

lemma parse_shorter:
  "parseValue f s = Some (v, r) \<Longrightarrow> length r < length s"
  "parseElements f s = Some (vs, r) \<Longrightarrow> length r < length s"
  "parseMembers f s = Some (kvs, r) \<Longrightarrow> length r < length s"
proof (induction f s and f s and f s arbitrary: v r and vs r and kvs r
    rule: parseValue_parseElements_parseMembers.induct)
  case (2 fuel s)
  show ?case
  proof (cases "skipSpace s")
    case Nil
    with 2 show ?thesis by simp
  next
    case (Cons c cs)
    have "length (tl (skipSpace cs)) \<le> length cs" using length_skipSpace_le [of cs] by simp
    moreover have "length cs < length s" using Cons by (rule length_skipSpace)
    moreover have "length (c # cs) \<le> length s" using Cons length_skipSpace_le [of s] by simp
    ultimately show ?thesis
      using 2 Cons
      by (auto split: if_splits simp: readWord_def dest!: consumes) fastforce+
  qed
next
  case (4 fuel s)
  then show ?case
    by (auto split: option.splits list.splits if_splits dest!: length_skipSpace) fastforce+
next
  case (6 fuel s)
  then show ?case
    by (auto split: option.splits list.splits if_splits dest!: length_skipSpace readString_shorter) fastforce+
qed simp_all

text \<open>The part of \<open>parseMembers\<close> after a member's value, for the proof.\<close>

definition membersAfter ::
    "(string \<Rightarrow> ((string \<times> js_value) list \<times> string) option) \<Rightarrow> string \<Rightarrow> js_value \<Rightarrow> string \<Rightarrow>
     ((string \<times> js_value) list \<times> string) option" where
  "membersAfter more k v s =
     (case s of
        [] \<Rightarrow> None
      | c # cs \<Rightarrow>
          if c = CHR '','' then map_option (apfst ((#) (k, v))) (more cs)
          else if c = CHR ''}'' then Some ([(k, v)], cs)
          else None)"

lemma parse_fuel:
  "\<And>s. 2 * length s < f \<Longrightarrow> parseValue (Suc f) s = parseValue f s"
  "\<And>s. 2 * length s + 1 < f \<Longrightarrow> parseElements (Suc f) s = parseElements f s"
  "\<And>s. 2 * length s + 1 < f \<Longrightarrow> parseMembers (Suc f) s = parseMembers f s"
proof (induction f)
  case 0
  {
    case 1
    then show ?case by simp
  next
    case 2
    then show ?case by simp
  next
    case 3
    then show ?case by simp
  }
next
  case (Suc f)
  {
    case (1 s)
    show ?case
    proof (cases "skipSpace s")
      case (Cons c cs)
      then have "length cs < length s" by (rule length_skipSpace)
      with 1 have "2 * length cs + 1 < f" by simp
      then have "parseElements (Suc f) cs = parseElements f cs" "parseMembers (Suc f) cs = parseMembers f cs"
        by (rule Suc.IH)+
      then show ?thesis using Cons by (simp del: parseElements.simps parseMembers.simps)
    next
      case Nil
      then show ?thesis by (simp only: parseValue.simps list.case)
    qed
  next
    case (2 s)
    then have v: "parseValue (Suc f) s = parseValue f s" by (intro Suc.IH) simp
    show ?case
    proof (cases "parseValue f s")
      case (Some xr)
      obtain x r where xr: "xr = (x, r)" by force
      show ?thesis
      proof (cases "skipSpace r")
        case (Cons c cs)
        then have "parseElements (Suc f) cs = parseElements f cs"
          using 2 parse_shorter(1) [of f s x r] Some xr length_skipSpace [OF Cons] by (intro Suc.IH) simp
        then show ?thesis
          unfolding parseElements.simps(2) [of "Suc f"] parseElements.simps(2) [of f] v
          by (simp only: Some xr Cons option.case prod.case list.case)
      qed (simp only: parseElements.simps v Some xr option.case prod.case list.case)
    qed (simp only: parseElements.simps v option.case)
  next
    case (3 s)
    have v: "parseValue (Suc f) ds = parseValue f ds" if "length ds < length s" for ds
      using that 3 by (intro Suc.IH) simp
    have ms: "parseMembers (Suc f) ds = parseMembers f ds" if "length ds < length s" for ds
      using that 3 by (intro Suc.IH) simp
    show ?case
    proof (cases "skipSpace s")
      case (Cons q qs)
      show ?thesis
      proof (cases "readString qs")
        case (Some kr)
        obtain k r where kr: "kr = (k, r)" by force
        show ?thesis
        proof (cases "skipSpace r")
          case (Cons d ds)
          have ds: "length ds < length s"
            using length_skipSpace [OF \<open>skipSpace s = q # qs\<close>] readString_shorter [of qs k r] Some kr length_skipSpace [OF Cons]
            by simp
          have "parseMembers (Suc f) cs = parseMembers f cs"
            if "parseValue f ds = Some (x, r')" "skipSpace r' = c # cs" for x r' c cs
            using ds parse_shorter(1) [OF that(1)] length_skipSpace [OF that(2)] by (intro ms) simp
          then have "(case parseValue (Suc f) ds of None \<Rightarrow> None | Some (x, r') \<Rightarrow> membersAfter (parseMembers (Suc f)) k x (skipSpace r'))
              = (case parseValue f ds of None \<Rightarrow> None | Some (x, r') \<Rightarrow> membersAfter (parseMembers f) k x (skipSpace r'))"
            unfolding v [OF ds]
            by (auto simp: membersAfter_def split: option.split list.split
                simp del: parseMembers.simps parseValue.simps dropWhile_eq_Nil_conv)
          then show ?thesis
            unfolding parseMembers.simps(2) [of "Suc f"] parseMembers.simps(2) [of f]
            by (simp only: Some kr Cons \<open>skipSpace s = q # qs\<close> membersAfter_def option.case prod.case list.case)
        qed (simp only: parseMembers.simps Some kr \<open>skipSpace s = q # qs\<close> option.case prod.case list.case)
      qed (simp only: parseMembers.simps Cons option.case list.case)
    qed (simp only: parseMembers.simps list.case)
  }
qed

lemma parseValue_fuel:
  assumes "2 * length s < f" "f \<le> g"
  shows "parseValue g s = parseValue f s"
  using assms(2)
proof (induction rule: dec_induct)
  case (step n)
  have "parseValue (Suc n) s = parseValue n s" using step.hyps assms(1) by (intro parse_fuel(1)) linarith
  then show ?case using step.IH by (rule trans)
qed (rule refl)

section \<open>Reading back what was printed\<close>

text \<open>The value a JSON tree denotes, and the trees whose text determines them: safe integers, no
  repeated key.\<close>

fun valueOf :: "json \<Rightarrow> js_value" where
  "valueOf JNull = Null"
| "valueOf (JBool b) = Bool b"
| "valueOf (JNum x) = Num x"
| "valueOf (JStr s) = Str s"
| "valueOf (JArr vs) = Arr (map valueOf vs)"
| "valueOf (JObj kvs) = Obj (map (\<lambda>(k, v). (k, valueOf v)) kvs)"

definition isSafe :: "jsnum \<Rightarrow> bool" where
  "isSafe x = (case x of JFin r \<Rightarrow> r = of_int \<lfloor>r\<rfloor> \<and> \<bar>\<lfloor>r\<rfloor>\<bar> < 2 ^ 53 | _ \<Rightarrow> False)"

fun exactJson :: "json \<Rightarrow> bool" where
  "exactJson (JNum x) = isSafe x"
| "exactJson (JArr vs) = list_all exactJson vs"
| "exactJson (JObj kvs) = (distinct (map fst kvs) \<and> list_all (\<lambda>(k, v). exactJson v) kvs)"
| "exactJson _ = True"

lemma isSafe_jint: "isSafe x \<Longrightarrow> \<exists>n. x = jint n \<and> \<bar>n\<bar> < 2 ^ 53"
  by (cases x) (auto simp: isSafe_def jint_def)

lemma isSafe_jint_iff [simp]: "isSafe (jint n) \<longleftrightarrow> \<bar>n\<bar> < 2 ^ 53"
  by (simp add: isSafe_def jint_def)

lemma hexDigit_read: "n < 16 \<Longrightarrow> isHexDigit (hexDigit n) \<and> hexDigitNat (hexDigit n) = n"
  by (simp add: isHexDigit_def hexDigitNat_def hexDigit_def)

lemma readUnit_quote: "readUnit (CHR 0x22 # r) = None"
  by (simp add: readUnit.simps)

lemma readUnit_plain: "\<lbrakk>c \<noteq> CHR 0x22; c \<noteq> CHR 0x5C; \<not> (of_char c :: nat) < 32\<rbrakk> \<Longrightarrow> readUnit (c # r) = Some (c, r)"
  by (simp add: readUnit.simps)

lemma readUnit_named: "c \<in> set namedEscapes \<Longrightarrow> readUnit (escapeChar c @ r) = Some (c, r)"
proof -
  have "\<forall>c\<in>set namedEscapes. readUnit (escapeChar c @ r) = Some (c, r)"
    unfolding namedEscapes_def by (simp add: escapeChar_def readUnit.simps simpleEscape_def)
  then show "c \<in> set namedEscapes \<Longrightarrow> readUnit (escapeChar c @ r) = Some (c, r)" by (rule bspec)
qed

lemma readUnit_escapeChar: "readUnit (escapeChar c @ r) = Some (c, r)"
proof (cases "c \<in> set namedEscapes")
  case False
  then have ne: "c \<noteq> CHR 0x22" "c \<noteq> CHR 0x5C" by (auto simp: namedEscapes_def)
  show ?thesis
  proof (cases "(of_char c :: nat) < 32")
    case True
    then have e: "escapeChar c = [CHR 0x5C, CHR ''u'', CHR ''0'', CHR ''0'', hexDigit (of_char c div 16), hexDigit (of_char c mod 16)]"
      using False by (simp add: escapeChar_def namedEscapes_def)
    have "isHexDigit (CHR ''0'')" "hexDigitNat (CHR ''0'') = 0" by (simp_all add: isHexDigit_def hexDigitNat_def)
    then show ?thesis
      using True hexDigit_read [of "of_char c div 16"] hexDigit_read [of "of_char c mod 16"]
      by (simp add: e readUnit.simps codeUnit_def)
  next
    case False
    then have "escapeChar c = [c]" using \<open>c \<notin> set namedEscapes\<close> by (simp add: escapeChar_def namedEscapes_def)
    then show ?thesis using readUnit_plain [OF ne False, of r] by simp
  qed
qed (rule readUnit_named)

lemma readString_quoted: "readString (concat (map escapeChar s) @ CHR 0x22 # r) = Some (s, r)"
proof (induction s)
  case Nil
  show ?case by (subst readString.simps) simp
next
  case (Cons c s)
  let ?t = "escapeChar c @ concat (map escapeChar s) @ CHR 0x22 # r"
  have u: "readUnit ?t = Some (c, concat (map escapeChar s) @ CHR 0x22 # r)" by (rule readUnit_escapeChar)
  then obtain d ds where t: "?t = d # ds" by (cases ?t) (simp_all add: readUnit.simps(1))
  then have "d \<noteq> CHR 0x22" using u readUnit_quote [of ds] by auto
  have "readString (d # ds) = Some (c # s, r)"
    using u \<open>d \<noteq> CHR 0x22\<close> Cons.IH by (subst readString.simps) (simp add: t)
  then show ?case by (simp add: t)
qed

text \<open>Integers.\<close>

lemma isDigit_digitChar: "\<lbrakk>0 \<le> d; d < 10\<rbrakk> \<Longrightarrow> isDigit (digitChar d) \<and> of_char (digitChar d) = 48 + d"
proof -
  assume d: "0 \<le> d" "d < 10"
  then have i: "of_char (digitChar d) = 48 + d" by (simp add: digitChar_def)
  have "int (of_char (digitChar d)) = of_char (digitChar d)" by (rule of_nat_of_char)
  with i d have "48 \<le> (of_char (digitChar d) :: nat)" "(of_char (digitChar d) :: nat) \<le> 57" by linarith+
  with i show ?thesis by (simp add: isDigit_def)
qed

lemma natDigits_isDigit: "0 \<le> n \<Longrightarrow> list_all isDigit (natDigits n)"
proof (induction n rule: natDigits.induct)
  case (1 n)
  then show ?case by (cases "n < 10") (simp_all add: natDigits_single natDigits_step isDigit_digitChar)
qed

lemma natDigits_not_Nil [simp]: "natDigits n \<noteq> []"
  by (subst natDigits.simps) simp

lemma digitsValue_snoc: "digitsValue (ds @ [d]) = 10 * digitsValue ds + (of_char d - 48)"
  by (simp add: digitsValue_def)

lemma digitsValue_natDigits: "0 \<le> n \<Longrightarrow> digitsValue (natDigits n) = n"
proof (induction n rule: natDigits.induct)
  case (1 n)
  show ?case
  proof (cases "n < 10")
    case True
    with 1 show ?thesis using digitsValue_snoc [of "[]"] by (simp add: natDigits_single isDigit_digitChar digitsValue_def)
  next
    case False
    with 1 show ?thesis by (simp add: natDigits_step digitsValue_snoc isDigit_digitChar)
  qed
qed

lemma hd_natDigits: "0 < n \<Longrightarrow> hd (natDigits n) \<noteq> CHR ''0''"
proof (induction n rule: natDigits.induct)
  case (1 n)
  show ?case
  proof (cases "n < 10")
    case True
    then have "(of_char (digitChar n) :: int) = 48 + n" using 1(2) by (simp add: isDigit_digitChar)
    moreover have "(of_char (CHR ''0'') :: int) = 48" by simp
    ultimately have "digitChar n \<noteq> CHR ''0''" using 1(2) by auto
    with True show ?thesis by (simp add: natDigits_single)
  next
    case False
    with 1 show ?thesis by (simp add: natDigits_step)
  qed
qed

text \<open>What may follow a number.\<close>

definition endsNumber :: "string \<Rightarrow> bool" where
  "endsNumber r = (case r of [] \<Rightarrow> True | c # _ \<Rightarrow> \<not> isDigit c \<and> c \<notin> {CHR ''.'', CHR ''e'', CHR ''E''})"

lemma readDigits_natDigits:
  assumes "0 \<le> n" "endsNumber r"
  shows "readDigits (natDigits n @ r) = Some (natDigits n, r)"
proof -
  have all: "\<And>c. c \<in> set (natDigits n) \<Longrightarrow> isDigit c" using natDigits_isDigit [OF assms(1)] by (simp add: list_all_iff)
  have r: "takeWhile isDigit r = []" "dropWhile isDigit r = r"
    using assms(2) by (cases r; simp add: endsNumber_def)+
  have "takeWhile isDigit (natDigits n @ r) = natDigits n" using all r by simp
  moreover have "dropWhile isDigit (natDigits n @ r) = r" using all r by simp
  ultimately show ?thesis by (simp add: readDigits_def)
qed

lemma readNumber_int:
  assumes "\<bar>n\<bar> < 2 ^ 53" "endsNumber r"
  shows "readNumber (intString n @ r) = Some (jint n, r)"
proof -
  have "natDigits \<bar>n\<bar> = [CHR ''0''] \<or> hd (natDigits \<bar>n\<bar>) \<noteq> CHR ''0''"
    using hd_natDigits [of "\<bar>n\<bar>"] by (cases "n = 0") (simp_all add: natDigits_single)
  then have lead: "\<not> (1 < length (natDigits \<bar>n\<bar>) \<and> hd (natDigits \<bar>n\<bar>) = CHR ''0'')" by auto
  have rest: "readFraction r = Some ([], r)" "readExponent r = Some (0, r)"
    using assms(2) by (cases r; simp add: readFraction_def readExponent_def endsNumber_def)+
  have val: "round64 (of_int m) = jint m" if "\<bar>m\<bar> < 2 ^ 53" for m using that by (intro round64_of_int) simp
  obtain d ds where d: "natDigits \<bar>n\<bar> = d # ds" by (cases "natDigits \<bar>n\<bar>") simp_all
  then have "isDigit d" using natDigits_isDigit [of "\<bar>n\<bar>"] by simp
  moreover have "\<not> isDigit (CHR ''-'')" by (simp add: isDigit_def)
  ultimately have d': "d \<noteq> CHR ''-''" by auto
  show ?thesis
  proof (cases "n < 0")
    case True
    then have n: "\<bar>n\<bar> = - n" by simp
    show ?thesis
      using True lead rest val [of n] assms readDigits_natDigits [of "- n" r] digitsValue_natDigits [of "- n"]
      by (simp add: readNumber_def intString_def n pow10_def)
  next
    case False
    then have n: "\<bar>n\<bar> = n" by simp
    show ?thesis
      using False lead rest val [of n] assms d d' readDigits_natDigits [of n r] digitsValue_natDigits [of n]
      by (auto simp: readNumber_def intString_def n pow10_def)
  qed
qed

text \<open>Whole values.\<close>

lemma text_head:
  assumes "exactJson j"
  obtains c cs where "jsonStringify j = c # cs" "\<not> isJsonSpace c" "c \<noteq> CHR '']''" "c \<noteq> CHR ''}''"
proof (cases j)
  case (JNum x)
  then obtain n where n: "x = jint n" "\<bar>n\<bar> < 2 ^ 53" using assms isSafe_jint by auto
  obtain d ds where d: "natDigits \<bar>n\<bar> = d # ds" by (cases "natDigits \<bar>n\<bar>") simp_all
  then have "isDigit d" using natDigits_isDigit [of "\<bar>n\<bar>"] by simp
  then have "\<not> isJsonSpace d" "d \<noteq> CHR '']''" "d \<noteq> CHR ''}''"
    by (auto simp: isDigit_def isJsonSpace_def Let_def)
  moreover have "jsonStringify j = intString n"
    using JNum n by (simp add: number_to_string_int) (simp add: jint_def isFinite_def)
  moreover have "\<bar>n\<bar> = (if n < 0 then - n else n)" by simp
  ultimately show ?thesis
    using that d by (cases "n < 0") (simp_all add: intString_def isJsonSpace_def)
next
  case (JBool b)
  then show ?thesis using that by (cases b) (simp_all add: isJsonSpace_def)
qed (use that in \<open>simp_all add: isJsonSpace_def quoted_def\<close>)

definition readsBack :: "json \<Rightarrow> bool" where
  "readsBack j \<longleftrightarrow> (\<forall>f r. 2 * length (jsonStringify j) \<le> f \<longrightarrow> endsNumber r \<longrightarrow>
     parseValue f (jsonStringify j @ r) = Some (valueOf j, r))"

lemma readsBackD:
  "\<lbrakk>readsBack j; 2 * length (jsonStringify j) \<le> f; endsNumber r\<rbrakk> \<Longrightarrow> parseValue f (jsonStringify j @ r) = Some (valueOf j, r)"
  by (simp add: readsBack_def)

lemma endsNumber_punctuation [simp]:
  "endsNumber (CHR '','' # r)" "endsNumber (CHR '']'' # r)" "endsNumber (CHR ''}'' # r)"
  by (simp_all add: endsNumber_def isDigit_def)

lemma isJsonSpace_punctuation [simp]:
  "\<not> isJsonSpace (CHR '','')" "\<not> isJsonSpace (CHR '']'')" "\<not> isJsonSpace (CHR ''}'')" "\<not> isJsonSpace (CHR '':'')"
  "\<not> isJsonSpace (CHR 0x22)" "\<not> isJsonSpace (CHR ''['')" "\<not> isJsonSpace (CHR ''{'')"
  by (simp_all add: isJsonSpace_def)

lemma elements_read_back:
  assumes "vs \<noteq> []" "list_all readsBack vs" "2 * length (join '','' (map jsonStringify vs)) < f"
  shows "parseElements f (join '','' (map jsonStringify vs) @ CHR '']'' # r) = Some (map valueOf vs, r)"
  using assms
proof (induction vs arbitrary: f)
  case Nil
  then show ?case by simp
next
  case (Cons v vs)
  obtain g where f: "f = Suc g" using Cons.prems(3) by (cases f) simp_all
  show ?case
  proof (cases vs)
    case Nil
    with Cons.prems f readsBackD [of v g "CHR '']'' # r"] show ?thesis by simp
  next
    case (Cons w ws)
    with Cons.prems f readsBackD [of v g "CHR '','' # join '','' (map jsonStringify vs) @ CHR '']'' # r"]
      Cons.IH [of g] show ?thesis by simp
  qed
qed

definition memberText :: "string \<times> json \<Rightarrow> string" where
  "memberText kv = quoted (fst kv) @ '':'' @ jsonStringify (snd kv)"

lemma members_read_back:
  assumes "kvs \<noteq> []" "list_all (\<lambda>(k, v). readsBack v) kvs" "2 * length (join '','' (map memberText kvs)) < f"
  shows "parseMembers f (join '','' (map memberText kvs) @ CHR ''}'' # r) = Some (map (\<lambda>(k, v). (k, valueOf v)) kvs, r)"
  using assms
proof (induction kvs arbitrary: f)
  case Nil
  then show ?case by simp
next
  case (Cons kv kvs)
  obtain k v where kv: "kv = (k, v)" by force
  obtain g where f: "f = Suc g" using Cons.prems(3) by (cases f) simp_all
  have key: "readString (concat (map escapeChar k) @ CHR 0x22 # t) = Some (k, t)" for t by (rule readString_quoted)
  have member: "memberText (k, v) = CHR 0x22 # concat (map escapeChar k) @ CHR 0x22 # CHR '':'' # jsonStringify v"
    by (simp add: memberText_def quoted_def)
  show ?case
  proof (cases kvs)
    case Nil
    with Cons.prems f kv readsBackD [of v g "CHR ''}'' # r"] show ?thesis
      by (simp add: member key)
  next
    case (Cons w ws)
    with Cons.prems f kv readsBackD [of v g "CHR '','' # join '','' (map memberText kvs) @ CHR ''}'' # r"]
      Cons.IH [of g] show ?thesis by (simp add: member key)
  qed
qed

lemma fold_setProp_distinct:
  "distinct (map fst (acc @ kvs)) \<Longrightarrow> fold (\<lambda>(k, v). setProp k v) kvs acc = acc @ kvs"
proof (induction kvs arbitrary: acc)
  case (Cons kv kvs)
  obtain k v where kv: "kv = (k, v)" by force
  have "setProp k v acc = acc @ [(k, v)]" if "k \<notin> fst ` set acc" for acc :: "(string \<times> js_value) list"
    using that by (induction acc) auto
  with Cons kv show ?case by simp
qed simp

lemma objectOf_distinct: "distinct (map fst kvs) \<Longrightarrow> objectOf kvs = Obj kvs"
  using fold_setProp_distinct [of "[]" kvs] by (simp add: objectOf_def)

lemma readsBack_all: "exactJson j \<Longrightarrow> readsBack j"
proof (induction j)
  case JNull
  show ?case unfolding readsBack_def
  proof (intro allI impI)
    fix f r
    assume "2 * length (jsonStringify JNull) \<le> f"
    then show "parseValue f (jsonStringify JNull @ r) = Some (valueOf JNull, r)"
      by (cases f) (simp_all add: isJsonSpace_def readWord_def)
  qed
next
  case (JBool b)
  show ?case unfolding readsBack_def
  proof (intro allI impI)
    fix f r
    assume "2 * length (jsonStringify (JBool b)) \<le> f"
    then show "parseValue f (jsonStringify (JBool b) @ r) = Some (valueOf (JBool b), r)"
      by (cases f; cases b) (simp_all add: isJsonSpace_def readWord_def)
  qed
next
  case (JNum x)
  then obtain n where n: "x = jint n" "\<bar>n\<bar> < 2 ^ 53" using isSafe_jint by auto
  have printed: "jsonStringify (JNum x) = intString n"
    using n by (simp add: number_to_string_int) (simp add: jint_def isFinite_def)
  obtain d ds where d: "natDigits \<bar>n\<bar> = d # ds" by (cases "natDigits \<bar>n\<bar>") simp_all
  then have "isDigit d" using natDigits_isDigit [of "\<bar>n\<bar>"] by simp
  then have head: "\<not> isJsonSpace d" "d \<noteq> CHR 0x22" "d \<noteq> CHR ''[''" "d \<noteq> CHR ''{''" "d \<noteq> CHR ''t''" "d \<noteq> CHR ''f''" "d \<noteq> CHR ''n''"
    by (auto simp: isDigit_def isJsonSpace_def Let_def)
  have first: "\<exists>c cs. intString n = c # cs \<and> \<not> isJsonSpace c \<and> c \<notin> {CHR 0x22, CHR ''['', CHR ''{'', CHR ''t'', CHR ''f'', CHR ''n''}"
  proof (cases "n < 0")
    case True
    then show ?thesis by (simp add: intString_def isJsonSpace_def)
  next
    case False
    then have "natDigits n = d # ds" using d by simp
    with False head show ?thesis by (simp add: intString_def)
  qed
  show ?case unfolding readsBack_def printed
  proof (intro allI impI)
    fix f r
    assume f: "2 * length (intString n) \<le> f" and r: "endsNumber r"
    from first obtain c cs where c: "intString n = c # cs" "\<not> isJsonSpace c"
      "c \<notin> {CHR 0x22, CHR ''['', CHR ''{'', CHR ''t'', CHR ''f'', CHR ''n''}" by blast
    then obtain g where "f = Suc g" using f by (cases f) simp_all
    with c show "parseValue f (intString n @ r) = Some (valueOf (JNum x), r)"
      using readNumber_int [OF n(2) r] n(1) by simp
  qed
next
  case (JStr s)
  show ?case unfolding readsBack_def
  proof (intro allI impI)
    fix f r
    assume "2 * length (jsonStringify (JStr s)) \<le> f"
    then show "parseValue f (jsonStringify (JStr s) @ r) = Some (valueOf (JStr s), r)"
      by (cases f) (simp_all add: quoted_def readString_quoted)
  qed
next
  case (JArr vs)
  then have all: "list_all readsBack vs" by (simp add: list_all_iff)
  show ?case unfolding readsBack_def
  proof (intro allI impI)
    fix f r
    assume f: "2 * length (jsonStringify (JArr vs)) \<le> f"
    then obtain g where g: "f = Suc g" by (cases f) simp_all
    show "parseValue f (jsonStringify (JArr vs) @ r) = Some (valueOf (JArr vs), r)"
    proof (cases vs)
      case Nil
      with g show ?thesis by simp
    next
      case (Cons v ws)
      have "exactJson v" using JArr.prems Cons by simp
      then obtain c cs where c: "jsonStringify v = c # cs" "\<not> isJsonSpace c" "c \<noteq> CHR '']''" "c \<noteq> CHR ''}''"
        by (rule text_head)
      have "join '','' (map jsonStringify vs) = c # cs @ (case ws of [] \<Rightarrow> [] | _ \<Rightarrow> '','' @ join '','' (map jsonStringify ws))"
        using Cons c by (cases ws) simp_all
      moreover have "parseElements g (join '','' (map jsonStringify vs) @ CHR '']'' # r) = Some (map valueOf vs, r)"
        using Cons f g all by (intro elements_read_back) simp_all
      ultimately show ?thesis using c g by simp
    qed
  qed
next
  case (JObj kvs)
  then have all: "list_all (\<lambda>(k, v). readsBack v) kvs"
    by (fastforce simp: list_all_iff)
  have printed: "jsonStringify (JObj kvs) = ''{'' @ join '','' (map memberText kvs) @ ''}''"
    by (simp add: memberText_def [abs_def] case_prod_unfold)
  have keys: "map fst (map (\<lambda>(k, v). (k, valueOf v)) kvs) = map fst kvs" by (simp add: case_prod_unfold comp_def)
  show ?case unfolding readsBack_def printed
  proof (intro allI impI)
    fix f r
    assume f: "2 * length (''{'' @ join '','' (map memberText kvs) @ ''}'') \<le> f"
    then obtain g where g: "f = Suc g" by (cases f) simp_all
    show "parseValue f ((''{'' @ join '','' (map memberText kvs) @ ''}'') @ r) = Some (valueOf (JObj kvs), r)"
    proof (cases kvs)
      case Nil
      with g show ?thesis by simp
    next
      case (Cons kv ws)
      obtain cs where c: "join '','' (map memberText kvs) = CHR 0x22 # cs"
        using Cons by (cases ws) (simp_all add: memberText_def quoted_def)
      moreover have "parseMembers g (join '','' (map memberText kvs) @ CHR ''}'' # r) = Some (map (\<lambda>(k, v). (k, valueOf v)) kvs, r)"
        using Cons f g all by (intro members_read_back) simp_all
      moreover have "objectOf (map (\<lambda>(k, v). (k, valueOf v)) kvs) = valueOf (JObj kvs)"
        using JObj.prems by (simp add: objectOf_distinct keys del: map_map)
      ultimately show ?thesis using g by simp
    qed
  qed
qed

text \<open>A printed tree is read back as the value it denotes.\<close>

theorem jsonParse_stringify: "exactJson j \<Longrightarrow> jsonParse (jsonStringify j) = Some (valueOf j)"
  using readsBackD [OF readsBack_all, of j "2 * length (jsonStringify j) + 1" "[]"]
  by (simp add: jsonParse_def endsNumber_def)

end
