(* ===== verification/Snapshot_Codec.thy ===== *)
theory Snapshot_Codec
  imports Json_Parse Contracts
begin

text \<open>
  The snapshot codec (libs/shared/src/effect/storage/sqlite/snapshot-codec.ts): exporting the
  tables of the SQLite database, the canonical JSON text of a snapshot, its strict parser, the order
  in which rows are imported, the statements of an import, and the signature. The database
  (node:sqlite) and HMAC-SHA-256 (node:crypto) are parameters. An object read from JSON or from the
  database is a plain record.
\<close>

section \<open>Data\<close>

definition sqliteStorageSnapshotFormat :: string where
  "sqliteStorageSnapshotFormat = ''ums-memory/sqlite-storage-snapshot/v1''"

definition sqliteStorageSnapshotTableNames :: "string list" where
  "sqliteStorageSnapshotTableNames =
     [''tenants'', ''users'', ''projects'', ''roles'', ''project_memberships'', ''user_role_assignments'',
      ''identity_issuer_bindings'', ''user_external_subjects'', ''identity_sync_checkpoints'', ''scopes'',
      ''memory_items'', ''evidence'', ''provenance_envelopes'', ''memory_evidence_links'',
      ''memory_provenance_links'', ''evidence_provenance_links'', ''feedback'', ''audit_events'',
      ''audit_event_provenance_links'', ''storage_idempotency_ledger'']"

text \<open>Cells: strings, null, and numbers, which every reader of a cell requires to be safe integers.\<close>

datatype cell = CNull | CStr string | CInt int

type_synonym snapshot_row = "cell list"

record snapshot_table =
  tb_name :: string
  tb_columns :: "string list"
  tb_rows :: "snapshot_row list"

record snapshot_data =
  sn_format :: string
  sn_userVersion :: int
  sn_tables :: "snapshot_table list"

datatype js_error = TypeError string | RangeError string | Error string

type_synonym 'a codec = "(js_error, 'a) result"

text \<open>What \<open>typeof\<close> tells of an unknown value: the scalars of JSON and of the database driver.\<close>

datatype scalar = ScNull | ScString string | ScNumber jsnum | ScBigint int | ScOther

definition scalarOf :: "js_value \<Rightarrow> scalar" where
  "scalarOf v = (case v of Null \<Rightarrow> ScNull | Str s \<Rightarrow> ScString s | Num x \<Rightarrow> ScNumber x | _ \<Rightarrow> ScOther)"

text \<open>\<open>label[i]\<close>\<close>

definition indexed :: "string \<Rightarrow> nat \<Rightarrow> string" where
  "indexed label i = label @ ''['' @ natDigits (int i) @ '']''"

section \<open>Readers\<close>

definition quoteIdentifier :: "string \<Rightarrow> string" where
  "quoteIdentifier identifier =
     CHR 0x22 # concat (map (\<lambda>c. if c = CHR 0x22 then [c, c] else [c]) identifier) @ [CHR 0x22]"

text \<open>\<open>Number.isSafeInteger\<close>, with the integer.\<close>

definition safeIntegerOf :: "jsnum \<Rightarrow> int option" where
  "safeIntegerOf x =
     (case x of JFin r \<Rightarrow> if r = of_int \<lfloor>r\<rfloor> \<and> isSafeInteger \<lfloor>r\<rfloor> then Some \<lfloor>r\<rfloor> else None | _ \<Rightarrow> None)"

definition toNonNegativeSafeInteger :: "scalar \<Rightarrow> string \<Rightarrow> int codec" where
  "toNonNegativeSafeInteger value label =
     (case value of
        ScNumber x \<Rightarrow>
          (case safeIntegerOf x of
             Some n \<Rightarrow> if n < 0
               then Inl (RangeError (label @ '' must be a non-negative safe integer. Received: '' @ number_to_string x @ ''.''))
               else Inr n
           | None \<Rightarrow>
               Inl (RangeError (label @ '' must be a non-negative safe integer. Received: '' @ number_to_string x @ ''.'')))
      | ScBigint n \<Rightarrow>
          if n < 0 \<or> maxSafeInteger < n
          then Inl (RangeError (label @ '' must be a non-negative safe integer. Received: '' @ intString n @ ''.''))
          else Inr n
      | _ \<Rightarrow> Inl (TypeError (label @ '' must be a non-negative SQLite integer value.'')))"

definition toSafeInteger :: "scalar \<Rightarrow> string \<Rightarrow> int codec" where
  "toSafeInteger value label =
     (case value of
        ScNumber x \<Rightarrow>
          (case safeIntegerOf x of
             Some n \<Rightarrow> Inr n
           | None \<Rightarrow> Inl (RangeError (label @ '' must be a safe integer. Received: '' @ number_to_string x @ ''.'')))
      | ScBigint n \<Rightarrow>
          if n < - maxSafeInteger \<or> maxSafeInteger < n
          then Inl (RangeError (label @ '' must be a safe integer. Received: '' @ intString n @ ''.''))
          else Inr n
      | _ \<Rightarrow> Inl (TypeError (label @ '' must be a SQLite integer value.'')))"

definition readRecord :: "js_value \<Rightarrow> string \<Rightarrow> js_value codec" where
  "readRecord value label =
     (if isObj value then Inr value else Inl (TypeError (label @ '' must be a plain object record.'')))"

definition readNonEmptyString :: "scalar \<Rightarrow> string \<Rightarrow> string codec" where
  "readNonEmptyString value label =
     (case value of
        ScString s \<Rightarrow>
          if trim s = [] then Inl (TypeError (label @ '' must be a non-empty string value.'')) else Inr (trim s)
      | _ \<Rightarrow> Inl (TypeError (label @ '' must be a string value.'')))"

definition readSnapshotCellValueFromSqlite :: "scalar \<Rightarrow> string \<Rightarrow> cell codec" where
  "readSnapshotCellValueFromSqlite value label =
     (case value of
        ScNull \<Rightarrow> Inr CNull
      | ScString s \<Rightarrow> Inr (CStr s)
      | ScOther \<Rightarrow> Inl (TypeError (label @ '' must be null, string, or integer.''))
      | _ \<Rightarrow> chain (toSafeInteger value label) (\<lambda>n. Inr (CInt n)))"

definition readSnapshotCellValueFromJson :: "js_value \<Rightarrow> string \<Rightarrow> cell codec" where
  "readSnapshotCellValueFromJson value label =
     (case value of
        Null \<Rightarrow> Inr CNull
      | Str s \<Rightarrow> Inr (CStr s)
      | Num x \<Rightarrow>
          (case safeIntegerOf x of
             Some n \<Rightarrow> Inr (CInt n)
           | None \<Rightarrow> Inl (TypeError (label @ '' must be a finite safe integer number.'')))
      | _ \<Rightarrow> Inl (TypeError (label @ '' must be null, string, or integer.'')))"

section \<open>Canonical text\<close>

lemma size_enumerate: "(i, v) \<in> set (enumerate n vs) \<Longrightarrow> size v < size (Arr vs)"
  by (rule size_element) (auto simp: enumerate_eq_zip dest: set_zip_rightD)

text \<open>Keys are sorted by code units; an undefined member is an error.\<close>

function (sequential) normalizeCanonicalJsonValue :: "js_value \<Rightarrow> string \<Rightarrow> json codec" where
  "normalizeCanonicalJsonValue Null path = Inr JNull"
| "normalizeCanonicalJsonValue (Str s) path = Inr (JStr s)"
| "normalizeCanonicalJsonValue (Bool b) path = Inr (JBool b)"
| "normalizeCanonicalJsonValue (Num x) path =
     (if safeIntegerOf x = None then Inl (TypeError (path @ '' must be a finite safe integer.'')) else Inr (JNum x))"
| "normalizeCanonicalJsonValue (Arr vs) path =
     chain (traverse (\<lambda>(i, v). normalizeCanonicalJsonValue v (indexed path i)) (enumerate 0 vs)) (\<lambda>js. Inr (JArr js))"
| "normalizeCanonicalJsonValue Undefined path =
     Inl (TypeError (path @ '' must contain only plain JSON object values.''))"
| "normalizeCanonicalJsonValue (Obj kvs) path =
     chain (traverse (\<lambda>(k, v).
         if v = Undefined then Inl (TypeError (path @ ''.'' @ k @ '' must be defined.''))
         else chain (normalizeCanonicalJsonValue v (path @ ''.'' @ k)) (\<lambda>j. Inr (k, j)))
       (arraySort (key fst codeUnitOrder) kvs)) (\<lambda>js. Inr (JObj js))"
  by pat_completeness auto
termination normalizeCanonicalJsonValue
  by (relation "measure (\<lambda>(v, path). size v)")
    (auto simp del: js_value.size dest: size_enumerate size_member)

definition toCanonicalJsonString :: "js_value \<Rightarrow> string codec" where
  "toCanonicalJsonString value = chain (normalizeCanonicalJsonValue value ''snapshot'') (\<lambda>j. Inr (jsonStringify j))"

text \<open>A snapshot as the object it is.\<close>

definition cellValue :: "cell \<Rightarrow> js_value" where
  "cellValue c = (case c of CNull \<Rightarrow> Null | CStr s \<Rightarrow> Str s | CInt n \<Rightarrow> Num (jint n))"

definition tableValue :: "snapshot_table \<Rightarrow> js_value" where
  "tableValue t = Obj [(''name'', Str (tb_name t)), (''columns'', Arr (map Str (tb_columns t))),
     (''rows'', Arr (map (\<lambda>row. Arr (map cellValue row)) (tb_rows t)))]"

definition snapshotValue :: "snapshot_data \<Rightarrow> js_value" where
  "snapshotValue d = Obj [(''format'', Str (sn_format d)), (''userVersion'', Num (jint (sn_userVersion d))),
     (''tables'', Arr (map tableValue (sn_tables d)))]"

definition serializeSqliteStorageSnapshotData :: "snapshot_data \<Rightarrow> string codec" where
  "serializeSqliteStorageSnapshotData d = toCanonicalJsonString (snapshotValue d)"

definition countSqliteStorageSnapshotRows :: "snapshot_data \<Rightarrow> nat" where
  "countSqliteStorageSnapshotRows d = sum_list (map (\<lambda>t. length (tb_rows t)) (sn_tables d))"

section \<open>Parsing\<close>

definition parseColumns :: "nat \<Rightarrow> js_value \<Rightarrow> string list codec" where
  "parseColumns tableIndex value =
     (let label = indexed ''snapshot.tables'' tableIndex @ ''.columns'' in
      if arrOrEmpty value = [] then Inl (TypeError (label @ '' must be a non-empty array.''))
      else chain
        (traverse (\<lambda>(i, v). readNonEmptyString (scalarOf v) (indexed label i)) (enumerate 0 (arrOrEmpty value)))
        (\<lambda>columns. if distinct columns then Inr columns
           else Inl (TypeError (label @ '' must not contain duplicates.''))))"

definition parseRow :: "nat \<Rightarrow> nat \<Rightarrow> nat \<times> js_value \<Rightarrow> snapshot_row codec" where
  "parseRow tableIndex width = (\<lambda>(rowIndex, value).
     let label = indexed (indexed ''snapshot.tables'' tableIndex @ ''.rows'') rowIndex in
     if \<not> isArr value then Inl (TypeError (label @ '' must be an array.''))
     else if length (arrOrEmpty value) \<noteq> width
     then Inl (RangeError (label @ '' must contain '' @ natDigits (int width) @ '' values.''))
     else traverse (\<lambda>(i, v). readSnapshotCellValueFromJson v (indexed label i)) (enumerate 0 (arrOrEmpty value)))"

definition parseSqliteStorageSnapshotTable :: "nat \<Rightarrow> js_value \<Rightarrow> snapshot_table codec" where
  "parseSqliteStorageSnapshotTable tableIndex value =
     (let label = indexed ''snapshot.tables'' tableIndex in
      chain (readRecord value label) (\<lambda>tableRecord.
      chain (readNonEmptyString (scalarOf (getProp ''name'' tableRecord)) (label @ ''.name'')) (\<lambda>tableName.
      if tableName \<notin> set sqliteStorageSnapshotTableNames
      then Inl (RangeError (label @ ''.name contains unknown table '' @ tableName @ ''.''))
      else chain (parseColumns tableIndex (getProp ''columns'' tableRecord)) (\<lambda>columns.
        if \<not> isArr (getProp ''rows'' tableRecord)
        then Inl (TypeError (label @ ''.rows must be an array.''))
        else chain
          (traverse (parseRow tableIndex (length columns)) (enumerate 0 (arrOrEmpty (getProp ''rows'' tableRecord))))
          (\<lambda>rows. Inr \<lparr>tb_name = tableName, tb_columns = columns, tb_rows = rows\<rparr>)))))"

definition parseTableAt :: "nat \<times> js_value \<Rightarrow> snapshot_table codec" where
  "parseTableAt = (\<lambda>(tableIndex, tableValue).
     chain (parseSqliteStorageSnapshotTable tableIndex tableValue) (\<lambda>parsedTable.
       let expectedTableName = sqliteStorageSnapshotTableNames ! tableIndex in
       if tb_name parsedTable \<noteq> expectedTableName
       then Inl (RangeError (indexed ''snapshot.tables'' tableIndex @ ''.name must be '' @ expectedTableName
              @ ''; received '' @ tb_name parsedTable @ ''.''))
       else Inr parsedTable))"

text \<open>\<open>syntaxMessage\<close> is the host's text for a payload that is no JSON.\<close>

definition parseSqliteStorageSnapshotPayload :: "(string \<Rightarrow> string) \<Rightarrow> string \<Rightarrow> snapshot_data codec" where
  "parseSqliteStorageSnapshotPayload syntaxMessage payload =
     (case jsonParse payload of
        None \<Rightarrow> Inl (TypeError (''Snapshot payload must be valid JSON: '' @ syntaxMessage payload))
      | Some parsedPayload \<Rightarrow>
          chain (readRecord parsedPayload ''snapshot'') (\<lambda>snapshotRecord.
          chain (readNonEmptyString (scalarOf (getProp ''format'' snapshotRecord)) ''snapshot.format'') (\<lambda>format.
          if format \<noteq> sqliteStorageSnapshotFormat
          then Inl (RangeError (''snapshot.format must equal '' @ sqliteStorageSnapshotFormat @ ''; received '' @ format @ ''.''))
          else chain (toNonNegativeSafeInteger (scalarOf (getProp ''userVersion'' snapshotRecord)) ''snapshot.userVersion'') (\<lambda>userVersion.
            let tablesValue = getProp ''tables'' snapshotRecord in
            if \<not> isArr tablesValue then Inl (TypeError ''snapshot.tables must be an array.'')
            else if length (arrOrEmpty tablesValue) \<noteq> length sqliteStorageSnapshotTableNames
            then Inl (RangeError (''snapshot.tables must contain '' @ natDigits (int (length sqliteStorageSnapshotTableNames))
                   @ '' tables in deterministic order.''))
            else chain (traverse parseTableAt (enumerate 0 (arrOrEmpty tablesValue)))
              (\<lambda>tables. Inr \<lparr>sn_format = sqliteStorageSnapshotFormat, sn_userVersion = userVersion, sn_tables = tables\<rparr>)))))"

section \<open>The order of an import\<close>

record self_reference =
  so_tableName :: string
  so_partitionColumnName :: string
  so_keyColumnName :: string
  so_parentColumnName :: string

text \<open>\<open>columns.indexOf(name)\<close>, throwing on -1.\<close>

definition findColumnIndex :: "string \<Rightarrow> string list \<Rightarrow> string \<Rightarrow> nat codec" where
  "findColumnIndex tableName columns columnName =
     (case findIndex (\<lambda>c. c = columnName) columns of
        None \<Rightarrow> Inl (Error (tableName @ '' snapshot is missing required column '' @ columnName @ ''.''))
      | Some i \<Rightarrow> Inr i)"

text \<open>\<open>row[i]\<close>; \<open>None\<close> is undefined.\<close>

definition cellAt :: "snapshot_row \<Rightarrow> nat \<Rightarrow> cell option" where
  "cellAt row i = (if i < length row then Some (row ! i) else None)"

record node =
  no_row :: snapshot_row
  no_parent :: "string option"

type_synonym partitions = "(string \<times> (string \<times> node) list) list"

definition nonEmptyCell :: "cell option \<Rightarrow> string option" where
  "nonEmptyCell c = (case c of Some (CStr s) \<Rightarrow> if s = [] then None else Some s | _ \<Rightarrow> None)"

definition entriesOf :: "(string \<times> 'a list) list \<Rightarrow> string \<Rightarrow> 'a list" where
  "entriesOf m k = (case map_of m k of None \<Rightarrow> [] | Some xs \<Rightarrow> xs)"

text \<open>One turn of the loop that files the rows under partition and key.\<close>

definition fileRow :: "self_reference \<Rightarrow> nat \<Rightarrow> nat \<Rightarrow> nat \<Rightarrow> snapshot_row \<Rightarrow> partitions \<Rightarrow> partitions codec" where
  "fileRow options partitionIndex keyIndex parentIndex row nodesByPartition =
     (case nonEmptyCell (cellAt row partitionIndex) of
        None \<Rightarrow> Inl (TypeError (so_tableName options @ ''.'' @ so_partitionColumnName options @ '' must be a non-empty string.''))
      | Some partitionKey \<Rightarrow>
          (case nonEmptyCell (cellAt row keyIndex) of
             None \<Rightarrow> Inl (TypeError (so_tableName options @ ''.'' @ so_keyColumnName options @ '' must be a non-empty string.''))
           | Some keyValue \<Rightarrow>
               if cellAt row parentIndex \<noteq> Some CNull \<and> nonEmptyCell (cellAt row parentIndex) = None
               then Inl (TypeError (so_tableName options @ ''.'' @ so_parentColumnName options @ '' must be a string or null.''))
               else
                 (let partitionNodes = entriesOf nodesByPartition partitionKey in
                  if map_of partitionNodes keyValue \<noteq> None
                  then Inl (Error (so_tableName options @ '' contains duplicate key '' @ keyValue @ '' in partition '' @ partitionKey @ ''.''))
                  else Inr (AList.update partitionKey
                    (partitionNodes @ [(keyValue, \<lparr>no_row = row, no_parent = nonEmptyCell (cellAt row parentIndex)\<rparr>)])
                    nodesByPartition))))"

fun fileRows :: "self_reference \<Rightarrow> nat \<Rightarrow> nat \<Rightarrow> nat \<Rightarrow> snapshot_row list \<Rightarrow> partitions \<Rightarrow> partitions codec" where
  "fileRows options p k q [] nodes = Inr nodes"
| "fileRows options p k q (row # rows) nodes =
     chain (fileRow options p k q row nodes) (fileRows options p k q rows)"

text \<open>The depth-first visit: \<open>visitState\<close> maps a key to 1 while its ancestors are visited and to 2
  when its row has been emitted.\<close>

record visit_state =
  vs_state :: "(string \<times> nat) list"
  vs_rows :: "snapshot_row list"

definition unvisited :: "(string \<times> node) list \<Rightarrow> visit_state \<Rightarrow> string list" where
  "unvisited nodes st = filter (\<lambda>k. map_of (vs_state st) k = None) (map fst nodes)"

lemma unvisited_entered:
  assumes "map_of (vs_state st) k = None" "map_of nodes k = Some node"
  shows "length (unvisited nodes (st\<lparr>vs_state := AList.update k 1 (vs_state st)\<rparr>)) < length (unvisited nodes st)"
proof -
  have "k \<in> set (unvisited nodes st)" using assms by (force simp: unvisited_def dest: map_of_SomeD)
  moreover have "unvisited nodes (st\<lparr>vs_state := AList.update k 1 (vs_state st)\<rparr>) = filter (\<lambda>j. j \<noteq> k) (unvisited nodes st)"
    by (auto simp: unvisited_def update_conv' intro: filter_cong)
  ultimately show ?thesis by (simp add: length_filter_less)
qed

function visit ::
    "string \<Rightarrow> string \<Rightarrow> (string \<times> node) list \<Rightarrow> string \<Rightarrow> visit_state \<Rightarrow> visit_state codec" where
  "visit tableName partitionKey nodes k st =
     (case map_of (vs_state st) k of
        Some state \<Rightarrow>
          if state = 2 then Inr st
          else Inl (Error (tableName @ '' contains a cycle for partition '' @ partitionKey @ '' at key '' @ k @ ''.''))
      | None \<Rightarrow>
          (case map_of nodes k of
             None \<Rightarrow> Inl (Error (tableName @ '' references missing key '' @ k @ '' in partition '' @ partitionKey @ ''.''))
           | Some node \<Rightarrow>
               (let entered = st\<lparr>vs_state := AList.update k 1 (vs_state st)\<rparr> in
                chain
                  (case no_parent node of
                     None \<Rightarrow> Inr entered
                   | Some parent \<Rightarrow>
                       if map_of nodes parent = None
                       then Inl (Error (tableName @ '' key '' @ k @ '' references missing parent '' @ parent @ '' in partition '' @ partitionKey @ ''.''))
                       else visit tableName partitionKey nodes parent entered)
                  (\<lambda>after. Inr \<lparr>vs_state = AList.update k 2 (vs_state after), vs_rows = vs_rows after @ [no_row node]\<rparr>))))"
  by pat_completeness auto
termination visit
  by (relation "measure (\<lambda>(t, p, nodes, k, st). length (unvisited nodes st))") (simp_all add: unvisited_entered [unfolded One_nat_def])

declare visit.simps [simp del]

fun visitAll ::
    "string \<Rightarrow> string \<Rightarrow> (string \<times> node) list \<Rightarrow> string list \<Rightarrow> visit_state \<Rightarrow> visit_state codec" where
  "visitAll tableName partitionKey nodes [] st = Inr st"
| "visitAll tableName partitionKey nodes (k # ks) st =
     chain (visit tableName partitionKey nodes k st) (visitAll tableName partitionKey nodes ks)"

definition orderPartition :: "string \<Rightarrow> string \<times> (string \<times> node) list \<Rightarrow> snapshot_row list codec" where
  "orderPartition tableName = (\<lambda>(partitionKey, nodes).
     chain (visitAll tableName partitionKey nodes (arraySort codeUnitOrder (map fst nodes)) \<lparr>vs_state = [], vs_rows = []\<rparr>)
       (\<lambda>st. Inr (vs_rows st)))"

definition sortRowsBySelfReference ::
    "snapshot_row list \<Rightarrow> string list \<Rightarrow> self_reference \<Rightarrow> snapshot_row list codec" where
  "sortRowsBySelfReference rows columns options =
     (if rows = [] then Inr rows
      else
        chain (findColumnIndex (so_tableName options) columns (so_partitionColumnName options)) (\<lambda>partitionIndex.
        chain (findColumnIndex (so_tableName options) columns (so_keyColumnName options)) (\<lambda>keyIndex.
        chain (findColumnIndex (so_tableName options) columns (so_parentColumnName options)) (\<lambda>parentIndex.
        chain (fileRows options partitionIndex keyIndex parentIndex rows []) (\<lambda>nodesByPartition.
        chain (traverse (orderPartition (so_tableName options)) (arraySort (key fst codeUnitOrder) nodesByPartition))
          (\<lambda>ordered. Inr (concat ordered)))))))"

definition scopesReference :: self_reference where
  "scopesReference = \<lparr>so_tableName = ''scopes'', so_partitionColumnName = ''tenant_id'',
     so_keyColumnName = ''scope_id'', so_parentColumnName = ''parent_scope_id''\<rparr>"

definition memoryItemsReference :: self_reference where
  "memoryItemsReference = \<lparr>so_tableName = ''memory_items'', so_partitionColumnName = ''tenant_id'',
     so_keyColumnName = ''memory_id'', so_parentColumnName = ''supersedes_memory_id''\<rparr>"

definition orderRowsForImport :: "snapshot_table \<Rightarrow> snapshot_row list codec" where
  "orderRowsForImport t =
     (if tb_name t = ''scopes'' then sortRowsBySelfReference (tb_rows t) (tb_columns t) scopesReference
      else if tb_name t = ''memory_items'' then sortRowsBySelfReference (tb_rows t) (tb_columns t) memoryItemsReference
      else Inr (tb_rows t))"

section \<open>The database\<close>

text \<open>What a prepared statement answers: \<open>get\<close> one value, \<open>all\<close> an array of rows. A row is a record of
  scalars when it is a plain object.\<close>

datatype db_value = DbRecord "(string \<times> scalar) list" | DbOther

record database =
  db_get :: "string \<Rightarrow> db_value"
  db_all :: "string \<Rightarrow> db_value list"

definition readDbRecord :: "db_value \<Rightarrow> string \<Rightarrow> (string \<times> scalar) list codec" where
  "readDbRecord value label =
     (case value of DbRecord r \<Rightarrow> Inr r | DbOther \<Rightarrow> Inl (TypeError (label @ '' must be a plain object record.'')))"

text \<open>\<open>record[k]\<close>; a missing member is undefined.\<close>

definition dbMember :: "(string \<times> scalar) list \<Rightarrow> string \<Rightarrow> scalar" where
  "dbMember r k = (case map_of r k of Some v \<Rightarrow> v | None \<Rightarrow> ScOther)"

definition readPragmaUserVersion :: "database \<Rightarrow> int codec" where
  "readPragmaUserVersion db =
     chain (readDbRecord (db_get db ''PRAGMA user_version;'') ''PRAGMA user_version row'') (\<lambda>pragmaRow.
       if map_of pragmaRow ''user_version'' = None
       then Inl (TypeError ''PRAGMA user_version row did not include user_version.'')
       else toNonNegativeSafeInteger (dbMember pragmaRow ''user_version'') ''PRAGMA user_version'')"

record column_metadata =
  cm_name :: string
  cm_cid :: int
  cm_pkOrder :: int

definition readColumnMetadata :: "string \<Rightarrow> nat \<times> db_value \<Rightarrow> column_metadata codec" where
  "readColumnMetadata tableName = (\<lambda>(i, row).
     let label = indexed (tableName @ ''.table_info'') i in
     chain (readDbRecord row label) (\<lambda>rowRecord.
     chain (readNonEmptyString (dbMember rowRecord ''name'') (label @ ''.name'')) (\<lambda>columnName.
     chain (toNonNegativeSafeInteger (dbMember rowRecord ''cid'') (label @ ''.cid'')) (\<lambda>cid.
     chain (toNonNegativeSafeInteger (dbMember rowRecord ''pk'') (label @ ''.pk'')) (\<lambda>pkOrder.
       Inr \<lparr>cm_name = columnName, cm_cid = cid, cm_pkOrder = pkOrder\<rparr>)))))"

definition readTableColumnMetadata :: "database \<Rightarrow> string \<Rightarrow> column_metadata list codec" where
  "readTableColumnMetadata db tableName =
     (let pragmaRows = db_all db (''PRAGMA table_info('' @ quoteIdentifier tableName @ '');'') in
      if pragmaRows = [] then Inl (Error (''PRAGMA table_info returned no columns for table '' @ tableName @ ''.''))
      else chain (traverse (readColumnMetadata tableName) (enumerate 0 pragmaRows))
        (\<lambda>metadata. Inr (arraySort (ascending cm_cid) metadata)))"

definition readTableColumns :: "database \<Rightarrow> string \<Rightarrow> string list codec" where
  "readTableColumns db tableName = chain (readTableColumnMetadata db tableName) (\<lambda>m. Inr (map cm_name m))"

definition readTablePrimaryKeyColumns :: "database \<Rightarrow> string \<Rightarrow> string list codec" where
  "readTablePrimaryKeyColumns db tableName =
     chain (readTableColumnMetadata db tableName)
       (\<lambda>m. Inr (map cm_name (arraySort (ascending cm_pkOrder) (filter (\<lambda>c. 0 < cm_pkOrder c) m))))"

definition readColumnValue :: "(string \<times> scalar) list \<Rightarrow> string \<Rightarrow> string \<Rightarrow> scalar codec" where
  "readColumnValue row columnName label =
     (if map_of row columnName = None
      then Inl (Error (label @ '' is missing required column '' @ columnName @ ''.''))
      else Inr (dbMember row columnName))"

definition newLine :: string where
  "newLine = [CHR 0x0A]"

definition selectSql :: "string \<Rightarrow> string list \<Rightarrow> string list \<Rightarrow> string" where
  "selectSql tableName columns orderByColumns =
     join newLine
       [''SELECT '' @ join '', '' (map quoteIdentifier columns),
        ''FROM '' @ quoteIdentifier tableName,
        ''ORDER BY '' @ join '', '' (map (\<lambda>c. quoteIdentifier c @ '' ASC'') orderByColumns) @ '';'']"

definition exportRow :: "string \<Rightarrow> string list \<Rightarrow> nat \<times> db_value \<Rightarrow> snapshot_row codec" where
  "exportRow tableName columns = (\<lambda>(rowIndex, rowRecord).
     let label = indexed (tableName @ ''.rows'') rowIndex in
     chain (readDbRecord rowRecord label) (\<lambda>r.
       traverse (\<lambda>(columnIndex, columnName).
         chain (readColumnValue r columnName label) (\<lambda>v.
           readSnapshotCellValueFromSqlite v (indexed label columnIndex))) (enumerate 0 columns)))"

definition exportTable :: "database \<Rightarrow> string \<Rightarrow> snapshot_table codec" where
  "exportTable db tableName =
     chain (readTableColumns db tableName) (\<lambda>columns.
     chain (readTablePrimaryKeyColumns db tableName) (\<lambda>primaryKeyColumns.
       let orderByColumns = (if primaryKeyColumns \<noteq> [] then primaryKeyColumns else columns) in
       if orderByColumns = []
       then Inl (Error (''Cannot export table '' @ tableName @ '' because it has no columns.''))
       else chain (traverse (exportRow tableName columns) (enumerate 0 (db_all db (selectSql tableName columns orderByColumns))))
         (\<lambda>rows. Inr \<lparr>tb_name = tableName, tb_columns = columns, tb_rows = rows\<rparr>)))"

definition exportSqliteStorageSnapshotData :: "database \<Rightarrow> snapshot_data codec" where
  "exportSqliteStorageSnapshotData db =
     chain (traverse (exportTable db) sqliteStorageSnapshotTableNames) (\<lambda>tables.
     chain (readPragmaUserVersion db) (\<lambda>userVersion.
       Inr \<lparr>sn_format = sqliteStorageSnapshotFormat, sn_userVersion = userVersion, sn_tables = tables\<rparr>))"

text \<open>The tables of the database must be those of the snapshot.\<close>

definition checkColumns :: "string \<Rightarrow> string list \<Rightarrow> string list \<Rightarrow> unit codec" where
  "checkColumns tableName expectedColumns columns =
     (if length columns \<noteq> length expectedColumns
      then Inl (RangeError (''snapshot table '' @ tableName @ '' column length mismatch: expected ''
             @ natDigits (int (length expectedColumns)) @ '', received '' @ natDigits (int (length columns)) @ ''.''))
      else chain (traverse (\<lambda>(columnIndex, expectedColumn, receivedColumn).
          if receivedColumn \<noteq> expectedColumn
          then Inl (RangeError (''snapshot table '' @ tableName @ '' column '' @ natDigits (int columnIndex)
                 @ '' mismatch: expected '' @ expectedColumn @ '', received '' @ receivedColumn @ ''.''))
          else Inr ()) (enumerate 0 (zip expectedColumns columns))) (\<lambda>_. Inr ()))"

definition checkTable :: "database \<Rightarrow> nat \<times> snapshot_table \<Rightarrow> unit codec" where
  "checkTable db = (\<lambda>(tableIndex, t).
     let expectedTableName = (if tableIndex < length sqliteStorageSnapshotTableNames
           then sqliteStorageSnapshotTableNames ! tableIndex else ''undefined'') in
     if length sqliteStorageSnapshotTableNames \<le> tableIndex \<or> tb_name t \<noteq> expectedTableName
     then Inl (RangeError (indexed ''snapshot.tables'' tableIndex @ ''.name must be '' @ expectedTableName
            @ ''; received '' @ tb_name t @ ''.''))
     else chain (readTableColumns db expectedTableName)
       (\<lambda>expectedColumns. checkColumns (tb_name t) expectedColumns (tb_columns t)))"

definition assertSqliteStorageSnapshotSchemaCompatibility :: "database \<Rightarrow> snapshot_data \<Rightarrow> unit codec" where
  "assertSqliteStorageSnapshotSchemaCompatibility db d =
     (if sn_format d \<noteq> sqliteStorageSnapshotFormat
      then Inl (RangeError (''snapshot.format must equal '' @ sqliteStorageSnapshotFormat @ ''; received '' @ sn_format d @ ''.''))
      else chain (readPragmaUserVersion db) (\<lambda>currentUserVersion.
        if sn_userVersion d \<noteq> currentUserVersion
        then Inl (RangeError (''snapshot.userVersion '' @ intString (sn_userVersion d)
               @ '' does not match database user_version '' @ intString currentUserVersion @ ''.''))
        else chain (traverse (checkTable db) (enumerate 0 (sn_tables d))) (\<lambda>_. Inr ())))"

text \<open>The statements an import executes before it ends or throws: deletions in reverse table order,
  then the insertions.\<close>

datatype statement = Exec string | Run string "cell list"

definition insertSql :: "snapshot_table \<Rightarrow> string" where
  "insertSql t =
     join newLine
       [''INSERT INTO '' @ quoteIdentifier (tb_name t) @ '' ('' @ join '', '' (map quoteIdentifier (tb_columns t)) @ '')'',
        ''VALUES ('' @ join '', '' (map (\<lambda>_. ''?'') (tb_columns t)) @ '');'']"

fun insertTables :: "snapshot_table list \<Rightarrow> statement list \<times> js_error option" where
  "insertTables [] = ([], None)"
| "insertTables (t # ts) =
     (if tb_rows t = [] then insertTables ts
      else case orderRowsForImport t of
          Inl e \<Rightarrow> ([], Some e)
        | Inr orderedRows \<Rightarrow> apfst ((@) (map (Run (insertSql t)) orderedRows)) (insertTables ts))"

definition applySqliteStorageSnapshotData :: "database \<Rightarrow> snapshot_data \<Rightarrow> statement list \<times> js_error option" where
  "applySqliteStorageSnapshotData db d =
     (case assertSqliteStorageSnapshotSchemaCompatibility db d of
        Inl e \<Rightarrow> ([], Some e)
      | Inr _ \<Rightarrow> apfst
          ((@) (map (\<lambda>tableName. Exec (''DELETE FROM '' @ quoteIdentifier tableName @ '';'')) (rev sqliteStorageSnapshotTableNames)))
          (insertTables (sn_tables d)))"

section \<open>Signatures\<close>

text \<open>\<open>hmac secret payload\<close> is the hexadecimal digest of node:crypto.\<close>

definition createSqliteStorageSnapshotSignature :: "(string \<Rightarrow> string \<Rightarrow> string) \<Rightarrow> string \<Rightarrow> string \<Rightarrow> string" where
  "createSqliteStorageSnapshotSignature hmac payload secret = hmac secret payload"

definition isLowerHex :: "char \<Rightarrow> bool" where
  "isLowerHex c = (let n = (of_char c :: nat) in (48 \<le> n \<and> n \<le> 57) \<or> (97 \<le> n \<and> n \<le> 102))"

text \<open>\<open>Buffer.from(s, "hex")\<close>: the bytes of the leading pairs of hexadecimal digits.\<close>

fun hexBytes :: "string \<Rightarrow> nat list" where
  "hexBytes (a # b # cs) =
     (if isHexDigit a \<and> isHexDigit b then (16 * hexDigitNat a + hexDigitNat b) # hexBytes cs else [])"
| "hexBytes _ = []"

definition verifySqliteStorageSnapshotSignature ::
    "(string \<Rightarrow> string \<Rightarrow> string) \<Rightarrow> string \<Rightarrow> string \<Rightarrow> string \<Rightarrow> bool" where
  "verifySqliteStorageSnapshotSignature hmac payload signatureHex secret =
     (let normalizedSignature = toLowerCase signatureHex in
      if \<not> (length normalizedSignature = 64 \<and> list_all isLowerHex normalizedSignature) then False
      else
        (let expectedBuffer = hexBytes (createSqliteStorageSnapshotSignature hmac payload secret);
             receivedBuffer = hexBytes normalizedSignature
         in if length expectedBuffer \<noteq> length receivedBuffer then False
            else expectedBuffer = receivedBuffer))"

end
