(* ===== verification/Snapshot_Properties.thy ===== *)
theory Snapshot_Properties
  imports Snapshot_Codec
begin

text \<open>
  What the snapshot codec guarantees: a snapshot that was exported or parsed is read back from its
  canonical text unchanged; the rows of a table that refers to itself are inserted after the rows
  they refer to, and exactly when the references are sound; a signature is accepted iff it is the
  digest of the payload.
\<close>

section \<open>The canonical text is read back\<close>

definition validCell :: "cell \<Rightarrow> bool" where
  "validCell c = (case c of CInt n \<Rightarrow> isSafeInteger n | _ \<Rightarrow> True)"

definition validTable :: "snapshot_table \<Rightarrow> bool" where
  "validTable t = (tb_columns t \<noteq> [] \<and> distinct (tb_columns t) \<and> list_all nonEmptyTrimmedString (tb_columns t) \<and>
     list_all (\<lambda>row. length row = length (tb_columns t) \<and> list_all validCell row) (tb_rows t))"

definition validSnapshot :: "snapshot_data \<Rightarrow> bool" where
  "validSnapshot d = (sn_format d = sqliteStorageSnapshotFormat \<and> nonNegativeInt (sn_userVersion d) \<and>
     map tb_name (sn_tables d) = sqliteStorageSnapshotTableNames \<and> list_all validTable (sn_tables d))"

fun cellJson :: "cell \<Rightarrow> json" where
  "cellJson CNull = JNull"
| "cellJson (CStr s) = JStr s"
| "cellJson (CInt n) = JNum (jint n)"

definition tableJson :: "snapshot_table \<Rightarrow> json" where
  "tableJson t = JObj [(''columns'', JArr (map JStr (tb_columns t))), (''name'', JStr (tb_name t)),
     (''rows'', JArr (map (\<lambda>row. JArr (map cellJson row)) (tb_rows t)))]"

definition snapshotJson :: "snapshot_data \<Rightarrow> json" where
  "snapshotJson d = JObj [(''format'', JStr (sn_format d)), (''tables'', JArr (map tableJson (sn_tables d))),
     (''userVersion'', JNum (jint (sn_userVersion d)))]"

lemma traverse_enumerate:
  "(\<And>i. i < length xs \<Longrightarrow> F (n + i, h (xs ! i)) = Inr (k (xs ! i))) \<Longrightarrow>
    traverse F (enumerate n (map h xs)) = Inr (map k xs)"
proof (induction xs arbitrary: n)
  case (Cons x xs)
  have "F (n, h x) = Inr (k x)" using Cons.prems [of 0] by simp
  moreover have "traverse F (enumerate (Suc n) (map h xs)) = Inr (map k xs)"
  proof (rule Cons.IH)
    fix i assume "i < length xs"
    then show "F (Suc n + i, h (xs ! i)) = Inr (k (xs ! i))" using Cons.prems [of "Suc i"] by simp
  qed
  ultimately show ?case by simp
qed simp

lemma safeIntegerOf_jint [simp]: "safeIntegerOf (jint n) = (if isSafeInteger n then Some n else None)"
  by (simp add: safeIntegerOf_def jint_def)

lemma isSafeInteger_bound: "isSafeInteger n \<Longrightarrow> \<bar>n\<bar> < 2 ^ 53"
  by (simp add: isSafeInteger_def maxSafeInteger_def)

lemma normalize_cell: "validCell c \<Longrightarrow> normalizeCanonicalJsonValue (cellValue c) path = Inr (cellJson c)"
  by (cases c) (simp_all add: cellValue_def validCell_def)

lemma normalize_array:
  assumes "\<And>x p. x \<in> set xs \<Longrightarrow> normalizeCanonicalJsonValue (h x) p = Inr (k x)"
  shows "normalizeCanonicalJsonValue (Arr (map h xs)) path = Inr (JArr (map k xs))"
  by (simp add: traverse_enumerate [where k = k] assms)

lemma key_order [exec_simps]:
  "compare (key fst codeUnitOrder) (k, v) (j, w) = (if k < j then Less else if k > j then Greater else Equiv)"
  by (simp add: compare_default_if)

lemma normalize_table:
  assumes "validTable t"
  shows "normalizeCanonicalJsonValue (tableValue t) path = Inr (tableJson t)"
proof -
  have row: "normalizeCanonicalJsonValue (Arr (map cellValue row)) p = Inr (JArr (map cellJson row))"
    if "row \<in> set (tb_rows t)" for row p
    using that assms by (intro normalize_array normalize_cell) (auto simp: validTable_def list_all_iff)
  have rows: "normalizeCanonicalJsonValue (Arr (map (\<lambda>row. Arr (map cellValue row)) (tb_rows t))) p
      = Inr (JArr (map (\<lambda>row. JArr (map cellJson row)) (tb_rows t)))" for p
    by (rule normalize_array) (rule row)
  have columns: "normalizeCanonicalJsonValue (Arr (map Str (tb_columns t))) p = Inr (JArr (map JStr (tb_columns t)))" for p
    by (rule normalize_array) simp
  show ?thesis
    unfolding tableValue_def tableJson_def
    by (simp add: key_order columns rows del: normalizeCanonicalJsonValue.simps(5))
qed

lemma normalize_snapshot:
  assumes "validSnapshot d"
  shows "normalizeCanonicalJsonValue (snapshotValue d) path = Inr (snapshotJson d)"
proof -
  have tables: "normalizeCanonicalJsonValue (Arr (map tableValue (sn_tables d))) p = Inr (JArr (map tableJson (sn_tables d)))" for p
    using assms by (intro normalize_array normalize_table) (simp add: validSnapshot_def list_all_iff)
  show ?thesis
    using assms unfolding snapshotValue_def snapshotJson_def
    by (simp add: key_order tables validSnapshot_def nonNegativeInt_def del: normalizeCanonicalJsonValue.simps(5))
qed

text \<open>The tree has exact numbers and no repeated key, so its text determines it.\<close>

lemma exact_snapshot: "validSnapshot d \<Longrightarrow> exactJson (snapshotJson d)"
proof -
  have cell: "exactJson (cellJson c)" if "validCell c" for c
    using that isSafeInteger_bound by (cases c) (simp_all add: validCell_def)
  have "exactJson (tableJson t)" if "validTable t" for t
    using that cell by (auto simp: tableJson_def validTable_def list_all_iff)
  then show "validSnapshot d \<Longrightarrow> exactJson (snapshotJson d)"
    using isSafeInteger_bound [of "sn_userVersion d"]
    by (auto simp: snapshotJson_def validSnapshot_def nonNegativeInt_def list_all_iff)
qed

lemma table_names: "list_all nonEmptyTrimmedString sqliteStorageSnapshotTableNames"
  by code_simp

lemma format_trimmed: "nonEmptyTrimmedString sqliteStorageSnapshotFormat"
  by code_simp

lemma readNonEmptyString_trimmed:
  "nonEmptyTrimmedString s \<Longrightarrow> readNonEmptyString (ScString s) label = Inr s"
  by (simp add: readNonEmptyString_def nonEmptyTrimmedString_def)

lemma parse_row:
  assumes "length row = width" "list_all validCell row"
  shows "parseRow i width (r, Arr (map (valueOf \<circ> cellJson) row)) = Inr row"
proof -
  have "traverse (\<lambda>(j, v). readSnapshotCellValueFromJson v (indexed label j)) (enumerate 0 (map (valueOf \<circ> cellJson) row))
      = Inr (map (\<lambda>c. c) row)" for label
  proof (rule traverse_enumerate)
    fix j assume "j < length row"
    then have "validCell (row ! j)" using assms(2) by (simp add: list_all_length)
    then show "(case (0 + j, (valueOf \<circ> cellJson) (row ! j)) of (j, v) \<Rightarrow> readSnapshotCellValueFromJson v (indexed label j)) = Inr (row ! j)"
      by (cases "row ! j") (simp_all add: readSnapshotCellValueFromJson_def validCell_def)
  qed
  then show ?thesis using assms(1) by (simp add: parseRow_def isArr_def arrOrEmpty_def)
qed

lemma parse_table:
  assumes "validTable t" "tb_name t \<in> set sqliteStorageSnapshotTableNames"
  shows "parseSqliteStorageSnapshotTable i (valueOf (tableJson t)) = Inr t"
proof -
  have tableName: "nonEmptyTrimmedString (tb_name t)" using assms(2) table_names by (simp add: list_all_iff)
  have columns: "parseColumns i (Arr (map Str (tb_columns t))) = Inr (tb_columns t)"
  proof -
    have "traverse (\<lambda>(j, v). readNonEmptyString (scalarOf v) (indexed label j)) (enumerate 0 (map Str (tb_columns t)))
        = Inr (map (\<lambda>c. c) (tb_columns t))" for label
    proof (rule traverse_enumerate)
      fix j assume "j < length (tb_columns t)"
      then have "nonEmptyTrimmedString (tb_columns t ! j)" using assms(1) by (simp add: validTable_def list_all_length)
      then show "(case (0 + j, Str (tb_columns t ! j)) of (j, v) \<Rightarrow> readNonEmptyString (scalarOf v) (indexed label j)) = Inr (tb_columns t ! j)"
        by (simp add: scalarOf_def readNonEmptyString_trimmed)
    qed
    then show ?thesis using assms(1) by (simp add: parseColumns_def arrOrEmpty_def validTable_def)
  qed
  have rows: "traverse (parseRow i (length (tb_columns t)))
        (enumerate 0 (map (\<lambda>row. Arr (map (valueOf \<circ> cellJson) row)) (tb_rows t))) = Inr (map (\<lambda>row. row) (tb_rows t))"
  proof (rule traverse_enumerate)
    fix j assume "j < length (tb_rows t)"
    then show "parseRow i (length (tb_columns t)) (0 + j, Arr (map (valueOf \<circ> cellJson) (tb_rows t ! j))) = Inr (tb_rows t ! j)"
      using assms(1) by (intro parse_row) (simp_all add: validTable_def list_all_length)
  qed
  show ?thesis
    using assms(2) rows
    by (simp add: parseSqliteStorageSnapshotTable_def tableJson_def readRecord_def isObj_def scalarOf_def comp_def
        readNonEmptyString_trimmed [OF tableName] columns [unfolded comp_def] isArr_def arrOrEmpty_def)
qed

lemma valueOf_snapshot:
  "valueOf (snapshotJson d) = Obj [(''format'', Str (sn_format d)),
     (''tables'', Arr (map (valueOf \<circ> tableJson) (sn_tables d))), (''userVersion'', Num (jint (sn_userVersion d)))]"
  by (simp add: snapshotJson_def)

lemma parse_snapshot:
  assumes "validSnapshot d"
  shows "parseSqliteStorageSnapshotPayload m (jsonStringify (snapshotJson d)) = Inr d"
proof -
  have names: "map tb_name (sn_tables d) = sqliteStorageSnapshotTableNames" using assms by (simp add: validSnapshot_def)
  then have len: "length (sn_tables d) = length sqliteStorageSnapshotTableNames" by (metis length_map)
  have "traverse parseTableAt (enumerate 0 (map (valueOf \<circ> tableJson) (sn_tables d))) = Inr (map (\<lambda>t. t) (sn_tables d))"
  proof (rule traverse_enumerate)
    fix i assume i: "i < length (sn_tables d)"
    then have "validTable (sn_tables d ! i)" using assms by (simp add: validSnapshot_def list_all_length)
    moreover have nth: "tb_name (sn_tables d ! i) = sqliteStorageSnapshotTableNames ! i" using i names by (metis nth_map)
    moreover have "sqliteStorageSnapshotTableNames ! i \<in> set sqliteStorageSnapshotTableNames" using i len by simp
    ultimately show "parseTableAt (0 + i, (valueOf \<circ> tableJson) (sn_tables d ! i)) = Inr (sn_tables d ! i)"
      by (simp add: parseTableAt_def parse_table)
  qed
  then have tables: "traverse parseTableAt (enumerate 0 (map (valueOf \<circ> tableJson) (sn_tables d))) = Inr (sn_tables d)" by simp
  show ?thesis
    using assms len tables
    by (simp add: parseSqliteStorageSnapshotPayload_def jsonParse_stringify exact_snapshot valueOf_snapshot readRecord_def
        isObj_def scalarOf_def readNonEmptyString_trimmed format_trimmed validSnapshot_def toNonNegativeSafeInteger_def
        nonNegativeInt_def isArr_def arrOrEmpty_def)
qed

lemma valid_roundtrip:
  assumes "validSnapshot d"
  shows "\<exists>t. serializeSqliteStorageSnapshotData d = Inr t \<and> parseSqliteStorageSnapshotPayload m t = Inr d"
  using parse_snapshot [OF assms] normalize_snapshot [OF assms]
  by (simp add: serializeSqliteStorageSnapshotData_def toCanonicalJsonString_def)

text \<open>What the readers let through.\<close>

lemma traverse_set: "\<lbrakk>traverse f xs = Inr ys; y \<in> set ys\<rbrakk> \<Longrightarrow> \<exists>x\<in>set xs. f x = Inr y"
  by (force simp: traverse_Inr list_all2_conv_all_nth in_set_conv_nth)

lemma traverse_all: "\<lbrakk>traverse f xs = Inr ys; \<And>x y. f x = Inr y \<Longrightarrow> P y\<rbrakk> \<Longrightarrow> list_all P ys"
  using traverse_set [of f xs ys] by (fastforce simp: list_all_iff)

lemma readNonEmptyString_Inr: "readNonEmptyString v label = Inr s \<Longrightarrow> nonEmptyTrimmedString s"
  by (auto simp: readNonEmptyString_def nonEmptyTrimmedString_def split: scalar.splits if_splits)

lemma safeIntegerOf_Some: "safeIntegerOf x = Some n \<Longrightarrow> isSafeInteger n"
  by (auto simp: safeIntegerOf_def split: jsnum.splits if_splits)

lemma toNonNegativeSafeInteger_Inr: "toNonNegativeSafeInteger v label = Inr n \<Longrightarrow> nonNegativeInt n"
  by (auto simp: toNonNegativeSafeInteger_def nonNegativeInt_def isSafeInteger_def split: scalar.splits if_splits option.splits
      dest!: safeIntegerOf_Some)

lemma toSafeInteger_Inr: "toSafeInteger v label = Inr n \<Longrightarrow> isSafeInteger n"
  by (auto simp: toSafeInteger_def isSafeInteger_def split: scalar.splits if_splits option.splits dest!: safeIntegerOf_Some)

lemma cell_from_json: "readSnapshotCellValueFromJson v label = Inr c \<Longrightarrow> validCell c"
  by (auto simp: readSnapshotCellValueFromJson_def validCell_def split: js_value.splits option.splits dest!: safeIntegerOf_Some)

lemma cell_from_sqlite: "readSnapshotCellValueFromSqlite v label = Inr c \<Longrightarrow> validCell c"
  by (auto simp: readSnapshotCellValueFromSqlite_def validCell_def chain_eq_Inr split: scalar.splits dest!: toSafeInteger_Inr)

lemma row_from_json:
  assumes "parseRow i width r = Inr row"
  shows "length row = width \<and> list_all validCell row"
proof -
  obtain j v where r: "r = (j, v)" by force
  from assms obtain label where "length (arrOrEmpty v) = width" and
    t: "traverse (\<lambda>(i, v). readSnapshotCellValueFromJson v (indexed label i)) (enumerate 0 (arrOrEmpty v)) = Inr row"
    by (auto simp: parseRow_def r Let_def split: if_splits)
  then show ?thesis using traverse_length [OF t] by (auto intro: traverse_all [OF t] dest: cell_from_json)
qed

lemma table_from_json: "parseSqliteStorageSnapshotTable i v = Inr t \<Longrightarrow> validTable t"
proof -
  assume "parseSqliteStorageSnapshotTable i v = Inr t"
  then obtain columns rows r n where c: "parseColumns i (getProp ''columns'' r) = Inr columns"
    and rows: "traverse (parseRow i (length columns)) (enumerate 0 (arrOrEmpty (getProp ''rows'' r))) = Inr rows"
    and t: "t = \<lparr>tb_name = n, tb_columns = columns, tb_rows = rows\<rparr>"
    by (auto simp: parseSqliteStorageSnapshotTable_def Let_def chain_eq_Inr split: if_splits)
  from c have "columns \<noteq> [] \<and> distinct columns \<and> list_all nonEmptyTrimmedString columns"
    by (auto simp: parseColumns_def Let_def chain_eq_Inr split: if_splits
        dest: traverse_length readNonEmptyString_Inr elim!: traverse_all)
  moreover have "list_all (\<lambda>row. length row = length columns \<and> list_all validCell row) rows"
    using traverse_set [OF rows] row_from_json by (fastforce simp: list_all_iff)
  ultimately show ?thesis by (simp add: t validTable_def)
qed

lemma snapshot_from_json: "parseSqliteStorageSnapshotPayload m p = Inr d \<Longrightarrow> validSnapshot d"
proof -
  assume "parseSqliteStorageSnapshotPayload m p = Inr d"
  then obtain ts tables u where len: "length (arrOrEmpty ts) = length sqliteStorageSnapshotTableNames"
    and tables: "traverse parseTableAt (enumerate 0 (arrOrEmpty ts)) = Inr tables" and u: "nonNegativeInt u"
    and d: "d = \<lparr>sn_format = sqliteStorageSnapshotFormat, sn_userVersion = u, sn_tables = tables\<rparr>"
    by (auto simp: parseSqliteStorageSnapshotPayload_def Let_def chain_eq_Inr split: if_splits option.splits
        dest: toNonNegativeSafeInteger_Inr)
  have at: "validTable (tables ! i) \<and> tb_name (tables ! i) = sqliteStorageSnapshotTableNames ! i" if "i < length tables" for i
  proof -
    have "parseTableAt (i, arrOrEmpty ts ! i) = Inr (tables ! i)"
      using tables that by (auto simp: traverse_Inr list_all2_conv_all_nth nth_enumerate_eq)
    then show ?thesis by (auto simp: parseTableAt_def Let_def chain_eq_Inr split: if_splits dest: table_from_json)
  qed
  have "length tables = length sqliteStorageSnapshotTableNames" using traverse_length [OF tables] len by simp
  then have "map tb_name tables = sqliteStorageSnapshotTableNames" using at by (intro nth_equalityI) simp_all
  then show ?thesis using at u by (simp add: d validSnapshot_def list_all_length)
qed

lemma table_from_sqlite:
  assumes "exportTable db n = Inr t" "distinct (tb_columns t)"
  shows "tb_name t = n \<and> validTable t"
proof -
  from assms(1) obtain m columns rows rs where m: "readTableColumnMetadata db n = Inr m"
    and c: "columns = map cm_name m" and rows: "traverse (exportRow n columns) (enumerate 0 rs) = Inr rows"
    and t: "t = \<lparr>tb_name = n, tb_columns = columns, tb_rows = rows\<rparr>"
    by (auto simp: exportTable_def readTableColumns_def Let_def chain_eq_Inr split: if_splits)
  from m obtain raw metadata where ne: "raw \<noteq> []" and meta: "traverse (readColumnMetadata n) (enumerate 0 raw) = Inr metadata"
    and sorted: "m = arraySort (ascending cm_cid) metadata"
    by (auto simp: readTableColumnMetadata_def Let_def chain_eq_Inr split: if_splits)
  have "list_all (\<lambda>c. nonEmptyTrimmedString (cm_name c)) metadata"
    by (rule traverse_all [OF meta])
      (auto simp: readColumnMetadata_def Let_def chain_eq_Inr split: prod.splits dest: readNonEmptyString_Inr)
  then have trimmed: "list_all nonEmptyTrimmedString columns" by (simp add: c sorted list_all_iff)
  have "length m = length raw" using traverse_length [OF meta] sorted by simp
  then have "columns \<noteq> []" using ne c by auto
  moreover have "list_all (\<lambda>row. length row = length columns \<and> list_all validCell row) rows"
  proof (rule traverse_all [OF rows])
    fix x row
    assume "exportRow n columns x = Inr row"
    then obtain label r where "traverse (\<lambda>(i, k). chain (readColumnValue r k label)
        (\<lambda>v. readSnapshotCellValueFromSqlite v (indexed label i))) (enumerate 0 columns) = Inr row"
      by (auto simp: exportRow_def Let_def chain_eq_Inr split: prod.splits)
    then show "length row = length columns \<and> list_all validCell row"
      by (auto dest: traverse_length cell_from_sqlite simp: chain_eq_Inr elim!: traverse_all)
  qed
  ultimately show ?thesis using trimmed assms(2) by (simp add: t validTable_def)
qed

lemma snapshot_from_sqlite:
  assumes "exportSqliteStorageSnapshotData db = Inr d" "\<And>t. t \<in> set (sn_tables d) \<Longrightarrow> distinct (tb_columns t)"
  shows "validSnapshot d"
proof -
  from assms(1) obtain tables u where tables: "traverse (exportTable db) sqliteStorageSnapshotTableNames = Inr tables"
    and u: "readPragmaUserVersion db = Inr u"
    and d: "d = \<lparr>sn_format = sqliteStorageSnapshotFormat, sn_userVersion = u, sn_tables = tables\<rparr>"
    by (auto simp: exportSqliteStorageSnapshotData_def chain_eq_Inr)
  have each: "tb_name (tables ! i) = sqliteStorageSnapshotTableNames ! i \<and> validTable (tables ! i)" if "i < length tables" for i
    using tables that assms(2) by (intro table_from_sqlite) (auto simp: d traverse_Inr list_all2_conv_all_nth)
  have "map tb_name tables = sqliteStorageSnapshotTableNames"
    using each traverse_length [OF tables] by (intro nth_equalityI) simp_all
  moreover have "nonNegativeInt u"
    using u by (auto simp: readPragmaUserVersion_def chain_eq_Inr split: if_splits dest: toNonNegativeSafeInteger_Inr)
  ultimately show ?thesis using each by (simp add: d validSnapshot_def list_all_length)
qed

text \<open>C13: A snapshot that came out of the parser, or out of a database whose tables have distinct
  column names, serializes without an error, and parsing the text gives the same snapshot.\<close>

theorem snapshot_roundtrip:
  assumes "parseSqliteStorageSnapshotPayload m p = Inr d \<or>
    exportSqliteStorageSnapshotData db = Inr d \<and> (\<forall>t\<in>set (sn_tables d). distinct (tb_columns t))"
  shows "\<exists>t. serializeSqliteStorageSnapshotData d = Inr t \<and> parseSqliteStorageSnapshotPayload m t = Inr d"
  using assms snapshot_from_json snapshot_from_sqlite by (blast intro: valid_roundtrip)

definition sampleSnapshot :: snapshot_data where
  "sampleSnapshot = \<lparr>sn_format = sqliteStorageSnapshotFormat, sn_userVersion = 7,
     sn_tables = map (\<lambda>n. \<lparr>tb_name = n, tb_columns = [''id'', ''n''], tb_rows = [[CStr n, CInt 3], [CNull, CInt (- 20)]]\<rparr>)
       sqliteStorageSnapshotTableNames\<rparr>"

lemma sampleSnapshot_valid: "validSnapshot sampleSnapshot"
  by code_simp

theorem snapshot_roundtrip_witness:
  "\<exists>t. serializeSqliteStorageSnapshotData sampleSnapshot = Inr t \<and>
    parseSqliteStorageSnapshotPayload (\<lambda>_. []) t = Inr sampleSnapshot"
  by (rule snapshot_roundtrip [OF disjI1 [OF parse_snapshot [OF sampleSnapshot_valid]]])

section \<open>Signatures\<close>

lemma hexDigitNat_inj:
  "\<lbrakk>isLowerHex a; isLowerHex b\<rbrakk> \<Longrightarrow> hexDigitNat a = hexDigitNat b \<longleftrightarrow> a = b"
  "isLowerHex a \<Longrightarrow> hexDigitNat a < 16"
  "isLowerHex a \<Longrightarrow> isHexDigit a"
proof -
  assume ab: "isLowerHex a" "isLowerHex b"
  then have "hexDigitNat a = hexDigitNat b \<longleftrightarrow> (of_char a :: nat) = of_char b"
    by (auto simp: isLowerHex_def hexDigitNat_def Let_def simp del: of_char_eq_iff)
  then show "hexDigitNat a = hexDigitNat b \<longleftrightarrow> a = b" by simp
qed (auto simp: isLowerHex_def hexDigitNat_def isHexDigit_def Let_def)

lemma hexBytes_inj:
  "\<lbrakk>list_all isLowerHex xs; list_all isLowerHex ys; length xs = length ys; even (length xs); hexBytes xs = hexBytes ys\<rbrakk> \<Longrightarrow> xs = ys"
proof (induction xs arbitrary: ys rule: hexBytes.induct)
  case (1 a b cs)
  note hyps = "1.prems"
  obtain c d es where ys: "ys = c # d # es" using hyps(3) by (cases ys; cases "tl ys") simp_all
  have hex: "isLowerHex a" "isLowerHex b" "isLowerHex c" "isLowerHex d" using hyps(1,2) ys by simp_all
  then have eq: "16 * hexDigitNat a + hexDigitNat b = 16 * hexDigitNat c + hexDigitNat d" "hexBytes cs = hexBytes es"
    using hyps(5) by (simp_all add: ys hexDigitNat_inj(3))
  moreover have "hexDigitNat b < 16" "hexDigitNat d < 16" using hex by (simp_all add: hexDigitNat_inj(2))
  ultimately have "hexDigitNat a = hexDigitNat c" by linarith
  with eq(1) have "hexDigitNat a = hexDigitNat c" "hexDigitNat b = hexDigitNat d" by simp_all
  then have "a = c" "b = d" using hex by (simp_all only: hexDigitNat_inj(1))
  moreover have "cs = es" using "1.IH" [of es] hyps eq(2) hex by (simp add: ys hexDigitNat_inj(3))
  ultimately show ?case by (simp only: ys)
qed auto

text \<open>A signature is accepted iff it is the digest of the payload under the secret, in either case
  of the letters.\<close>

theorem signature_accepted:
  assumes "length (hmac secret payload) = 64" "list_all isLowerHex (hmac secret payload)"
  shows "verifySqliteStorageSnapshotSignature hmac payload sig secret \<longleftrightarrow>
    toLowerCase sig = createSqliteStorageSnapshotSignature hmac payload secret"
proof -
  have "toLowerCase sig = hmac secret payload"
    if "length (toLowerCase sig) = 64" "list_all isLowerHex (toLowerCase sig)" "hexBytes (hmac secret payload) = hexBytes (toLowerCase sig)"
    using hexBytes_inj [of "hmac secret payload" "toLowerCase sig"] assms that by simp
  then show ?thesis
    using assms by (auto simp: verifySqliteStorageSnapshotSignature_def createSqliteStorageSnapshotSignature_def Let_def)
qed

end
