(* ===== verification/Snapshot_Order.thy ===== *)
theory Snapshot_Order
  imports Snapshot_Codec
begin

text \<open>
  The order in which the snapshot codec inserts the rows of a table that refers to itself
  (\<open>sortRowsBySelfReference\<close> of snapshot-codec.ts): the depth-first visit ends for every input, it
  succeeds exactly when the references are sound, and then each row follows the row it refers to.
\<close>

section \<open>The visit of one partition\<close>

text \<open>\<open>parentOf nodes k\<close> is the key a node refers to. A list of emitted keys is closed when each key
  comes after its parent.\<close>

definition parentOf :: "(string \<times> node) list \<Rightarrow> string \<Rightarrow> string option" where
  "parentOf nodes k = Option.bind (map_of nodes k) no_parent"

definition rowOf :: "(string \<times> node) list \<Rightarrow> string \<Rightarrow> snapshot_row" where
  "rowOf nodes k = (case map_of nodes k of Some n \<Rightarrow> no_row n | None \<Rightarrow> [])"

definition closedList :: "(string \<Rightarrow> string option) \<Rightarrow> string list \<Rightarrow> bool" where
  "closedList par ks \<longleftrightarrow> (\<forall>i<length ks. \<forall>a. par (ks ! i) = Some a \<longrightarrow> a \<in> set (take i ks))"

lemma closedList_snoc:
  "closedList par (ks @ [k]) \<longleftrightarrow> closedList par ks \<and> (\<forall>a. par k = Some a \<longrightarrow> a \<in> set ks)"
  by (auto simp: closedList_def nth_append less_Suc_eq)

definition emitted :: "(string \<times> node) list \<Rightarrow> visit_state \<Rightarrow> string list \<Rightarrow> bool" where
  "emitted nodes st ks \<longleftrightarrow> distinct ks \<and> set ks = {k. map_of (vs_state st) k = Some 2} \<and>
     set ks \<subseteq> fst ` set nodes \<and> vs_rows st = map (rowOf nodes) ks \<and> closedList (parentOf nodes) ks"

definition pending :: "visit_state \<Rightarrow> string set" where
  "pending st = {k. \<exists>v. map_of (vs_state st) k = Some v \<and> v \<noteq> 2}"

lemma visit_emits:
  assumes "visit t p nodes k st = Inr st'" "emitted nodes st ks"
  shows "\<exists>new. emitted nodes st' (ks @ new) \<and> k \<in> set (ks @ new) \<and> pending st' = pending st"
  using assms
proof (induction t p nodes k st arbitrary: ks st' rule: visit.induct)
  case (1 t p nodes k st)
  show ?case
  proof (cases "map_of (vs_state st) k")
    case (Some v)
    with "1.prems" have "st' = st" "k \<in> set ks"
      by (auto simp: visit.simps [of t p nodes k] emitted_def split: if_splits)
    with "1.prems" show ?thesis by (intro exI [of _ "[]"]) simp
  next
    case None
    obtain n where n: "map_of nodes k = Some n"
      using "1.prems"(1) None by (auto simp: visit.simps [of t p nodes k] split: option.splits)
    define st1 where "st1 = st\<lparr>vs_state := AList.update k 1 (vs_state st)\<rparr>"
    have st1: "emitted nodes st1 ks" and pending1: "pending st1 = insert k (pending st)"
      using "1.prems"(2) None by (auto simp: st1_def emitted_def pending_def update_conv')
    have "\<exists>st2 new. st' = \<lparr>vs_state = AList.update k 2 (vs_state st2), vs_rows = vs_rows st2 @ [no_row n]\<rparr> \<and>
        emitted nodes st2 (ks @ new) \<and> pending st2 = pending st1 \<and> (\<forall>a. no_parent n = Some a \<longrightarrow> a \<in> set (ks @ new))"
    proof (cases "no_parent n")
      case None': None
      then have "st' = \<lparr>vs_state = AList.update k 2 (vs_state st1), vs_rows = vs_rows st1 @ [no_row n]\<rparr>"
        using "1.prems"(1) None n by (simp add: visit.simps [of t p nodes k] st1_def)
      then show ?thesis using st1 None' by (intro exI [of _ st1] exI [of _ "[]"]) simp
    next
      case (Some a)
      then obtain st2 where v: "visit t p nodes a st1 = Inr st2" "map_of nodes a \<noteq> None"
        and st': "st' = \<lparr>vs_state = AList.update k 2 (vs_state st2), vs_rows = vs_rows st2 @ [no_row n]\<rparr>"
        using "1.prems"(1) None n by (auto simp: visit.simps [of t p nodes k] st1_def chain_eq_Inr split: if_splits)
      from "1.IH" [OF None n st1_def Some v(2) v(1) st1]
      obtain new where "emitted nodes st2 (ks @ new)" "a \<in> set (ks @ new)" "pending st2 = pending st1" by blast
      with st' Some show ?thesis by (intro exI [of _ st2] exI [of _ new]) simp
    qed
    then obtain st2 new where st': "st' = \<lparr>vs_state = AList.update k 2 (vs_state st2), vs_rows = vs_rows st2 @ [no_row n]\<rparr>"
      and e: "emitted nodes st2 (ks @ new)" and p2: "pending st2 = pending st1"
      and a: "\<And>a. no_parent n = Some a \<Longrightarrow> a \<in> set (ks @ new)" by blast
    have "k \<in> pending st2" using p2 pending1 by simp
    then have "k \<notin> set (ks @ new)" using e by (auto simp: emitted_def pending_def)
    then have "emitted nodes st' ((ks @ new) @ [k])"
      using e a n by (auto simp: emitted_def closedList_snoc st' update_conv' rowOf_def parentOf_def simp del: append_assoc dest: map_of_SomeD)
        (auto dest!: map_of_SomeD intro: rev_image_eqI)
    moreover have "pending st' = pending st"
      using p2 pending1 None by (auto simp: st' pending_def update_conv' split: if_splits)
    ultimately show ?thesis by (intro exI [of _ "new @ [k]"]) simp
  qed
qed

lemma visitAll_emits:
  assumes "visitAll t p nodes js st = Inr st'" "emitted nodes st ks"
  shows "\<exists>new. emitted nodes st' (ks @ new) \<and> set js \<subseteq> set (ks @ new)"
  using assms
proof (induction js arbitrary: st ks)
  case Nil
  then show ?case by (intro exI [of _ "[]"]) simp
next
  case (Cons j js)
  then obtain st1 where v: "visit t p nodes j st = Inr st1" and r: "visitAll t p nodes js st1 = Inr st'"
    by (auto simp: chain_eq_Inr)
  from visit_emits [OF v Cons.prems(2)] obtain new where e: "emitted nodes st1 (ks @ new)" "j \<in> set (ks @ new)" by blast
  from Cons.IH [OF r e(1)] obtain more where m: "emitted nodes st' ((ks @ new) @ more)" "set js \<subseteq> set ((ks @ new) @ more)" by blast
  then show ?case using e(2) by (intro exI [of _ "new @ more"]) auto
qed

text \<open>The visit succeeds from a state in which no ancestor of the key is pending, when every parent
  exists and no key is its own ancestor.\<close>

definition ancestry :: "(string \<times> node) list \<Rightarrow> (string \<times> string) set" where
  "ancestry nodes = {(a, k). parentOf nodes k = Some a}"

definition parentsExist :: "(string \<times> node) list \<Rightarrow> bool" where
  "parentsExist nodes \<longleftrightarrow> (\<forall>k a. parentOf nodes k = Some a \<longrightarrow> map_of nodes a \<noteq> None)"

lemma visit_succeeds:
  assumes "parentsExist nodes" "acyclic (ancestry nodes)" "map_of nodes k \<noteq> None"
    "\<And>j. j \<in> pending st \<Longrightarrow> (j, k) \<notin> (ancestry nodes)\<^sup>*"
  shows "\<exists>st'. visit t p nodes k st = Inr st'"
  using assms
proof (induction t p nodes k st rule: visit.induct)
  case (1 t p nodes k st)
  show ?case
  proof (cases "map_of (vs_state st) k")
    case (Some v)
    then have "v = 2" using "1.prems"(4) [of k] by (auto simp: pending_def)
    with Some show ?thesis by (simp add: visit.simps [of t p nodes k])
  next
    case None
    obtain n where n: "map_of nodes k = Some n" using "1.prems"(3) by blast
    define st1 where "st1 = st\<lparr>vs_state := AList.update k 1 (vs_state st)\<rparr>"
    have pending1: "pending st1 = insert k (pending st)" using None by (auto simp: st1_def pending_def update_conv')
    show ?thesis
    proof (cases "no_parent n")
      case None': None
      with None n show ?thesis by (simp add: visit.simps [of t p nodes k])
    next
      case (Some a)
      then have step: "(a, k) \<in> ancestry nodes" using n by (simp add: ancestry_def parentOf_def)
      have a: "map_of nodes a \<noteq> None" using "1.prems"(1) step unfolding parentsExist_def ancestry_def by blast
      have "(j, a) \<notin> (ancestry nodes)\<^sup>*" if "j \<in> pending st1" for j
      proof
        assume "(j, a) \<in> (ancestry nodes)\<^sup>*"
        then have jk: "(j, k) \<in> (ancestry nodes)\<^sup>+" using step by (rule rtrancl_into_trancl1)
        show False
        proof (cases "j = k")
          case True
          with jk "1.prems"(2) show False by (simp add: acyclic_def)
        next
          case False
          with that pending1 have "j \<in> pending st" by simp
          from "1.prems"(4) [OF this] show False using trancl_into_rtrancl [OF jk] by contradiction
        qed
      qed
      then obtain st2 where "visit t p nodes a st1 = Inr st2"
        using "1.IH" [OF None n st1_def Some a "1.prems"(1,2) a] by blast
      then show ?thesis using None n Some a by (simp add: visit.simps [of t p nodes k] st1_def)
    qed
  qed
qed

lemma visitAll_succeeds:
  assumes "parentsExist nodes" "acyclic (ancestry nodes)" "set js \<subseteq> fst ` set nodes" "pending st = {}" "emitted nodes st ks"
  shows "\<exists>st'. visitAll t p nodes js st = Inr st'"
  using assms(3-)
proof (induction js arbitrary: st ks)
  case (Cons j js)
  have "map_of nodes j \<noteq> None" using Cons.prems(1) by (auto simp: map_of_eq_None_iff)
  then have "\<exists>st1. visit t p nodes j st = Inr st1"
    by (rule visit_succeeds [OF assms(1,2)]) (simp add: Cons.prems(2))
  then obtain st1 where v: "visit t p nodes j st = Inr st1" by (rule exE)
  from visit_emits [OF v Cons.prems(3)] obtain new where e: "emitted nodes st1 (ks @ new)" "pending st1 = {}"
    using Cons.prems(2) by auto
  have "set js \<subseteq> fst ` set nodes" using Cons.prems(1) by simp
  from Cons.IH [OF this e(2,1)] show ?case using v by simp
qed simp

lemma closedList_acyclic:
  assumes "closedList par ks" "\<And>k a. par k = Some a \<Longrightarrow> k \<in> set ks"
  shows "acyclic {(a, k). par k = Some a}"
proof -
  define index where "index k = (LEAST i. i < length ks \<and> ks ! i = k)" for k
  have idx: "index k < length ks \<and> ks ! index k = k" if "k \<in> set ks" for k
    using that LeastI_ex [of "\<lambda>i. i < length ks \<and> ks ! i = k"] by (simp add: index_def in_set_conv_nth)
  have "index a < index k" if "par k = Some a" for k a
  proof -
    have k: "index k < length ks" "ks ! index k = k" using idx assms(2) that by auto
    then have "a \<in> set (take (index k) ks)" using assms(1) that by (auto simp: closedList_def)
    then obtain i where "i < index k" "i < length ks" "ks ! i = a" by (auto simp: in_set_conv_nth)
    moreover have "index a \<le> i" unfolding index_def using calculation by (intro Least_le) simp
    ultimately show ?thesis by simp
  qed
  then have "{(a, k). par k = Some a} \<subseteq> measure index" by auto
  then show ?thesis using acyclic_subset wf_acyclic wf_measure by blast
qed

text \<open>The rows of one partition: they are ordered iff the references are sound.\<close>

lemma orderPartition_rows:
  assumes "orderPartition t (p, nodes) = Inr rows" "distinct (map fst nodes)"
  shows "parentsExist nodes \<and> acyclic (ancestry nodes) \<and>
    (\<exists>ks. mset ks = mset (map fst nodes) \<and> closedList (parentOf nodes) ks \<and> rows = map (rowOf nodes) ks)"
proof -
  let ?js = "arraySort codeUnitOrder (map fst nodes)"
  let ?st0 = "\<lparr>vs_state = [], vs_rows = []\<rparr>"
  from assms(1) obtain st where v: "visitAll t p nodes ?js ?st0 = Inr st" and rows: "rows = vs_rows st"
    by (auto simp: orderPartition_def chain_eq_Inr)
  have "emitted nodes ?st0 []" by (simp add: emitted_def closedList_def)
  from visitAll_emits [OF v this] obtain ks where e: "emitted nodes st ks" "set ?js \<subseteq> set ks" by auto
  have ks: "set ks = fst ` set nodes" using e by (auto simp: emitted_def)
  have "mset ks = mset (map fst nodes)"
    using e(1) ks assms(2) by (subst set_eq_iff_mset_eq_distinct [symmetric]) (auto simp: emitted_def)
  moreover have dom: "k \<in> set ks" if "parentOf nodes k = Some a" for k a
    using that ks by (cases "map_of nodes k") (auto simp: parentOf_def dest: map_of_SomeD intro: rev_image_eqI)
  moreover have "acyclic (ancestry nodes)"
    unfolding ancestry_def using e(1) dom by (intro closedList_acyclic [of _ ks]) (auto simp: emitted_def)
  moreover have "parentsExist nodes"
    unfolding parentsExist_def
  proof (intro allI impI)
    fix k a assume pa: "parentOf nodes k = Some a"
    then obtain i where "i < length ks" "ks ! i = k" using dom by (auto simp: in_set_conv_nth)
    then have "a \<in> set (take i ks)" using e(1) pa by (auto simp: emitted_def closedList_def)
    then have "a \<in> fst ` set nodes" using ks by (auto dest: in_set_takeD)
    then show "map_of nodes a \<noteq> None" by (simp add: map_of_eq_None_iff)
  qed
  ultimately show ?thesis using e(1) rows by (auto simp: emitted_def)
qed

lemma orderPartition_succeeds:
  assumes "parentsExist nodes" "acyclic (ancestry nodes)"
  shows "\<exists>rows. orderPartition t (p, nodes) = Inr rows"
proof -
  have "\<exists>st. visitAll t p nodes (arraySort codeUnitOrder (map fst nodes)) \<lparr>vs_state = [], vs_rows = []\<rparr> = Inr st"
    by (rule visitAll_succeeds [OF assms, of _ _ "[]"]) (auto simp: pending_def emitted_def closedList_def)
  then show ?thesis by (auto simp: orderPartition_def)
qed

section \<open>Filing the rows\<close>

text \<open>A row's partition, key and parent, by column index.\<close>

abbreviation cellText :: "nat \<Rightarrow> snapshot_row \<Rightarrow> string option" where
  "cellText i row \<equiv> nonEmptyCell (cellAt row i)"

definition wellTyped :: "nat \<Rightarrow> nat \<Rightarrow> nat \<Rightarrow> snapshot_row \<Rightarrow> bool" where
  "wellTyped p k q row \<longleftrightarrow> cellText p row \<noteq> None \<and> cellText k row \<noteq> None \<and>
     (cellAt row q = Some CNull \<or> cellText q row \<noteq> None)"

lemma wellTyped_cells: "wellTyped p k q row \<Longrightarrow> \<exists>part j. cellText p row = Some part \<and> cellText k row = Some j"
  by (auto simp: wellTyped_def)

definition nodesOf :: "nat \<Rightarrow> nat \<Rightarrow> nat \<Rightarrow> string \<Rightarrow> snapshot_row list \<Rightarrow> (string \<times> node) list" where
  "nodesOf p k q part rows =
     map (\<lambda>row. (the (cellText k row), \<lparr>no_row = row, no_parent = cellText q row\<rparr>)) (filter (\<lambda>row. cellText p row = Some part) rows)"

definition filed :: "nat \<Rightarrow> nat \<Rightarrow> nat \<Rightarrow> snapshot_row list \<Rightarrow> partitions \<Rightarrow> bool" where
  "filed p k q rows N \<longleftrightarrow> distinct (map fst N) \<and> Some ` fst ` set N = cellText p ` set rows \<and>
     (\<forall>part. entriesOf N part = nodesOf p k q part rows)"

lemma entriesOf_update [simp]: "entriesOf (AList.update k v m) j = (if j = k then v else entriesOf m j)"
  by (simp add: entriesOf_def update_conv')

lemma nodesOf_snoc:
  "nodesOf p k q part (rows @ [row]) = nodesOf p k q part rows @
     (if cellText p row = Some part then [(the (cellText k row), \<lparr>no_row = row, no_parent = cellText q row\<rparr>)] else [])"
  by (simp add: nodesOf_def)

lemma nodesOf_keys:
  "fst ` set (nodesOf p k q part rows) = (\<lambda>r. the (cellText k r)) ` {r \<in> set rows. cellText p r = Some part}"
  by (simp add: nodesOf_def image_image)

lemma fileRow_filed:
  assumes "filed p k q done N" "\<forall>r\<in>set done. wellTyped p k q r"
  shows "(\<exists>N'. fileRow options p k q row N = Inr N') \<longleftrightarrow>
      wellTyped p k q row \<and> (cellText p row, cellText k row) \<notin> (\<lambda>r. (cellText p r, cellText k r)) ` set done"
    and "fileRow options p k q row N = Inr N' \<Longrightarrow> filed p k q (done @ [row]) N'"
proof -
  have key: "map_of (entriesOf N part) key = None \<longleftrightarrow> (Some part, Some key) \<notin> (\<lambda>r. (cellText p r, cellText k r)) ` set done" for part key
  proof -
    have "map_of (entriesOf N part) key = None \<longleftrightarrow> key \<notin> (\<lambda>r. the (cellText k r)) ` {r \<in> set done. cellText p r = Some part}"
      using assms(1) by (simp add: map_of_eq_None_iff filed_def nodesOf_keys)
    also have "\<dots> \<longleftrightarrow> (Some part, Some key) \<notin> (\<lambda>r. (cellText p r, cellText k r)) ` set done"
    proof -
      have "key = the (cellText k r) \<longleftrightarrow> cellText k r = Some key" if "r \<in> set done" for r
        using assms(2) that by (auto simp: wellTyped_def)
      then show ?thesis by (auto simp: image_iff)
    qed
    finally show ?thesis .
  qed
  show "(\<exists>N'. fileRow options p k q row N = Inr N') \<longleftrightarrow>
      wellTyped p k q row \<and> (cellText p row, cellText k row) \<notin> (\<lambda>r. (cellText p r, cellText k r)) ` set done"
    unfolding fileRow_def Let_def wellTyped_def
    by (auto split: option.split simp: key image_iff)
  assume "fileRow options p k q row N = Inr N'"
  then obtain part key where pk: "cellText p row = Some part" "cellText k row = Some key"
    and N': "N' = AList.update part (entriesOf N part @ [(key, \<lparr>no_row = row, no_parent = cellText q row\<rparr>)]) N"
    by (auto simp: fileRow_def Let_def split: option.splits if_splits)
  show "filed p k q (done @ [row]) N'"
    using assms(1) pk by (auto simp: filed_def N' nodesOf_snoc distinct_update dom_update image_iff)
qed

lemma fileRows_filed:
  assumes "filed p k q done N" "\<forall>r\<in>set done. wellTyped p k q r" "distinct (map (\<lambda>r. (cellText p r, cellText k r)) done)"
  shows "(\<exists>N'. fileRows options p k q rows N = Inr N') \<longleftrightarrow>
      (\<forall>r\<in>set rows. wellTyped p k q r) \<and> distinct (map (\<lambda>r. (cellText p r, cellText k r)) (done @ rows))"
    and "fileRows options p k q rows N = Inr N' \<Longrightarrow> filed p k q (done @ rows) N'"
proof -
  show "(\<exists>N'. fileRows options p k q rows N = Inr N') \<longleftrightarrow>
      (\<forall>r\<in>set rows. wellTyped p k q r) \<and> distinct (map (\<lambda>r. (cellText p r, cellText k r)) (done @ rows))"
    using assms
  proof (induction rows arbitrary: "done" N)
    case (Cons row rows)
    show ?case
    proof (cases "fileRow options p k q row N")
      case (Inl e)
      then have "\<not> (wellTyped p k q row \<and> (cellText p row, cellText k row) \<notin> (\<lambda>r. (cellText p r, cellText k r)) ` set done)"
        using fileRow_filed(1) [OF Cons.prems(1,2), of options row] by auto
      with Inl show ?thesis by auto
    next
      case (Inr N1)
      then have ok: "wellTyped p k q row" "(cellText p row, cellText k row) \<notin> (\<lambda>r. (cellText p r, cellText k r)) ` set done"
        using fileRow_filed(1) [OF Cons.prems(1,2), of options row] by auto
      have "filed p k q (done @ [row]) N1" by (rule fileRow_filed(2) [OF Cons.prems(1,2) Inr])
      then have "(\<exists>N'. fileRows options p k q rows N1 = Inr N') \<longleftrightarrow>
          (\<forall>r\<in>set rows. wellTyped p k q r) \<and> distinct (map (\<lambda>r. (cellText p r, cellText k r)) ((done @ [row]) @ rows))"
        using ok Cons.prems by (intro Cons.IH) auto
      with Inr ok show ?thesis by simp
    qed
  qed simp
  show "fileRows options p k q rows N = Inr N' \<Longrightarrow> filed p k q (done @ rows) N'"
    using assms
  proof (induction rows arbitrary: "done" N)
    case (Cons row rows)
    then obtain N1 where n1: "fileRow options p k q row N = Inr N1" "fileRows options p k q rows N1 = Inr N'"
      by (auto simp: chain_eq_Inr)
    have ok: "wellTyped p k q row" "(cellText p row, cellText k row) \<notin> (\<lambda>r. (cellText p r, cellText k r)) ` set done"
      using fileRow_filed(1) [OF Cons.prems(2,3), of options row] n1(1) by auto
    have "filed p k q (done @ [row]) N1" by (rule fileRow_filed(2) [OF Cons.prems(2,3) n1(1)])
    then have "filed p k q ((done @ [row]) @ rows) N'"
      using n1(2) ok Cons.prems by (intro Cons.IH) auto
    then show ?case by simp
  qed simp
qed

section \<open>Sound references\<close>

definition refersTo :: "nat \<Rightarrow> nat \<Rightarrow> nat \<Rightarrow> snapshot_row \<Rightarrow> snapshot_row \<Rightarrow> bool" where
  "refersTo p k q row target \<longleftrightarrow>
     cellText q row \<noteq> None \<and> cellText k target = cellText q row \<and> cellText p target = cellText p row"

definition referenceRel :: "nat \<Rightarrow> nat \<Rightarrow> nat \<Rightarrow> snapshot_row list \<Rightarrow> (snapshot_row \<times> snapshot_row) set" where
  "referenceRel p k q rows = {(target, row). row \<in> set rows \<and> target \<in> set rows \<and> refersTo p k q row target}"

text \<open>Cells of the right kind, no key twice in a partition, every reference met, no cycle.\<close>

definition soundReferences :: "nat \<Rightarrow> nat \<Rightarrow> nat \<Rightarrow> snapshot_row list \<Rightarrow> bool" where
  "soundReferences p k q rows \<longleftrightarrow>
     (\<forall>r\<in>set rows. wellTyped p k q r) \<and> distinct (map (\<lambda>r. (cellText p r, cellText k r)) rows) \<and>
     (\<forall>r\<in>set rows. cellText q r \<noteq> None \<longrightarrow> (\<exists>target\<in>set rows. refersTo p k q r target)) \<and>
     acyclic (referenceRel p k q rows)"

lemma same_row:
  assumes "distinct (map (\<lambda>r. (cellText p r, cellText k r)) rows)" "r \<in> set rows" "r' \<in> set rows"
    "cellText p r = cellText p r'" "cellText k r = cellText k r'"
  shows "r = r'"
  using assms by (simp add: distinct_map inj_on_def)

lemma nodesOf_distinct:
  assumes "\<forall>r\<in>set rows. wellTyped p k q r" "distinct (map (\<lambda>r. (cellText p r, cellText k r)) rows)"
  shows "distinct (map fst (nodesOf p k q part rows))"
proof -
  have "inj_on (\<lambda>r. the (cellText k r)) {r \<in> set rows. cellText p r = Some part}"
  proof (rule inj_onI)
    fix x y
    assume xy: "x \<in> {r \<in> set rows. cellText p r = Some part}" "y \<in> {r \<in> set rows. cellText p r = Some part}"
      "the (cellText k x) = the (cellText k y)"
    then have "cellText k x \<noteq> None" "cellText k y \<noteq> None" using assms(1) by (auto simp: wellTyped_def)
    then have "cellText k x = cellText k y" using xy(3) by (auto simp: option.expand)
    then show "x = y" using xy by (intro same_row [OF assms(2)]) auto
  qed
  moreover have "distinct rows" using assms(2) by (simp add: distinct_map)
  ultimately show ?thesis by (simp add: nodesOf_def distinct_map comp_def)
qed

lemma map_of_nodesOf:
  assumes "\<forall>r\<in>set rows. wellTyped p k q r" "distinct (map (\<lambda>r. (cellText p r, cellText k r)) rows)"
  shows "map_of (nodesOf p k q part rows) j = Some n \<longleftrightarrow>
    no_row n \<in> set rows \<and> cellText p (no_row n) = Some part \<and> cellText k (no_row n) = Some j \<and> no_parent n = cellText q (no_row n)"
proof -
  have "map_of (nodesOf p k q part rows) j = Some n \<longleftrightarrow> (j, n) \<in> set (nodesOf p k q part rows)"
    using nodesOf_distinct [OF assms] by (simp add: map_of_eq_Some_iff)
  also have "\<dots> \<longleftrightarrow> (\<exists>r\<in>set rows. cellText p r = Some part \<and> cellText k r = Some j \<and> n = \<lparr>no_row = r, no_parent = cellText q r\<rparr>)"
    using assms(1) unfolding nodesOf_def wellTyped_def by force
  also have "\<dots> \<longleftrightarrow> no_row n \<in> set rows \<and> cellText p (no_row n) = Some part \<and> cellText k (no_row n) = Some j \<and> no_parent n = cellText q (no_row n)"
    by (cases n) auto
  finally show ?thesis .
qed

lemma parentOf_nodesOf:
  assumes "\<forall>r\<in>set rows. wellTyped p k q r" "distinct (map (\<lambda>r. (cellText p r, cellText k r)) rows)"
  shows "parentOf (nodesOf p k q part rows) j = Some a \<longleftrightarrow>
    (\<exists>r\<in>set rows. cellText p r = Some part \<and> cellText k r = Some j \<and> cellText q r = Some a)"
proof
  assume "parentOf (nodesOf p k q part rows) j = Some a"
  then obtain n where "map_of (nodesOf p k q part rows) j = Some n" "no_parent n = Some a"
    by (auto simp: parentOf_def bind_eq_Some_conv)
  then show "\<exists>r\<in>set rows. cellText p r = Some part \<and> cellText k r = Some j \<and> cellText q r = Some a"
    unfolding map_of_nodesOf [OF assms] by auto
next
  assume "\<exists>r\<in>set rows. cellText p r = Some part \<and> cellText k r = Some j \<and> cellText q r = Some a"
  then obtain r where r: "r \<in> set rows" "cellText p r = Some part" "cellText k r = Some j" "cellText q r = Some a" by blast
  then have "map_of (nodesOf p k q part rows) j = Some \<lparr>no_row = r, no_parent = Some a\<rparr>"
    unfolding map_of_nodesOf [OF assms] by simp
  then show "parentOf (nodesOf p k q part rows) j = Some a" by (simp add: parentOf_def)
qed

text \<open>Every partition is sound iff the table is.\<close>

lemma partitions_exist:
  assumes "\<forall>r\<in>set rows. wellTyped p k q r" "distinct (map (\<lambda>r. (cellText p r, cellText k r)) rows)"
  shows "(\<forall>r\<in>set rows. cellText q r \<noteq> None \<longrightarrow> (\<exists>target\<in>set rows. refersTo p k q r target)) \<longleftrightarrow>
    (\<forall>part\<in>{part. Some part \<in> cellText p ` set rows}. parentsExist (nodesOf p k q part rows))"
proof -
  have node: "map_of (nodesOf p k q part rows) a \<noteq> None \<longleftrightarrow> (\<exists>t\<in>set rows. cellText p t = Some part \<and> cellText k t = Some a)" for part a
  proof
    assume "map_of (nodesOf p k q part rows) a \<noteq> None"
    then obtain n where "map_of (nodesOf p k q part rows) a = Some n" by blast
    then show "\<exists>t\<in>set rows. cellText p t = Some part \<and> cellText k t = Some a" unfolding map_of_nodesOf [OF assms] by blast
  next
    assume "\<exists>t\<in>set rows. cellText p t = Some part \<and> cellText k t = Some a"
    then obtain t where "t \<in> set rows" "cellText p t = Some part" "cellText k t = Some a" by blast
    then have "map_of (nodesOf p k q part rows) a = Some \<lparr>no_row = t, no_parent = cellText q t\<rparr>"
      unfolding map_of_nodesOf [OF assms] by simp
    then show "map_of (nodesOf p k q part rows) a \<noteq> None" by simp
  qed
  show ?thesis
    unfolding parentsExist_def node parentOf_nodesOf [OF assms]
  proof (intro iffI ballI allI impI)
    fix part j a
    assume met: "\<forall>r\<in>set rows. cellText q r \<noteq> None \<longrightarrow> (\<exists>target\<in>set rows. refersTo p k q r target)"
      and "\<exists>r\<in>set rows. cellText p r = Some part \<and> cellText k r = Some j \<and> cellText q r = Some a"
    then obtain r where r: "r \<in> set rows" "cellText p r = Some part" "cellText q r = Some a" by blast
    with met obtain t where "t \<in> set rows" "refersTo p k q r t" by (metis option.distinct(1))
    with r show "\<exists>t\<in>set rows. cellText p t = Some part \<and> cellText k t = Some a"
      by (intro bexI [of _ t]) (simp_all add: refersTo_def)
  next
    fix r
    assume met: "\<forall>part\<in>{part. Some part \<in> cellText p ` set rows}. \<forall>j a.
        (\<exists>r\<in>set rows. cellText p r = Some part \<and> cellText k r = Some j \<and> cellText q r = Some a) \<longrightarrow>
        (\<exists>t\<in>set rows. cellText p t = Some part \<and> cellText k t = Some a)"
      and r: "r \<in> set rows" and "cellText q r \<noteq> None"
    then obtain part j a where c: "cellText p r = Some part" "cellText k r = Some j" "cellText q r = Some a"
      using assms(1) unfolding wellTyped_def by blast
    then have "Some part \<in> cellText p ` set rows" using r by (metis image_eqI)
    then obtain t where "t \<in> set rows" "cellText p t = Some part" "cellText k t = Some a" using met r c by blast
    with c show "\<exists>target\<in>set rows. refersTo p k q r target" by (intro bexI [of _ t]) (simp_all add: refersTo_def)
  qed
qed

lemma reference_ancestry:
  assumes "\<forall>r\<in>set rows. wellTyped p k q r" "distinct (map (\<lambda>r. (cellText p r, cellText k r)) rows)"
    "(t, r) \<in> referenceRel p k q rows"
  shows "cellText p t = cellText p r \<and>
    (the (cellText k t), the (cellText k r)) \<in> ancestry (nodesOf p k q (the (cellText p r)) rows)"
  using assms(1,3) unfolding ancestry_def parentOf_nodesOf [OF assms(1,2)] referenceRel_def
  by (auto simp: refersTo_def wellTyped_def mem_Collect_eq parentOf_nodesOf [OF assms(1,2)])

lemma reference_ancestry_trancl:
  assumes "\<forall>r\<in>set rows. wellTyped p k q r" "distinct (map (\<lambda>r. (cellText p r, cellText k r)) rows)"
    "(t, r) \<in> (referenceRel p k q rows)\<^sup>+"
  shows "cellText p t = cellText p r \<and>
    (the (cellText k t), the (cellText k r)) \<in> (ancestry (nodesOf p k q (the (cellText p r)) rows))\<^sup>+"
  using assms(3)
proof (induction rule: trancl_induct)
  case (base y)
  then show ?case using reference_ancestry [OF assms(1,2)] by blast
next
  case (step y z)
  then show ?case using reference_ancestry [OF assms(1,2) step.hyps(2)] by (auto intro: trancl_into_trancl)
qed

lemma ancestry_reference_trancl:
  assumes "\<forall>r\<in>set rows. wellTyped p k q r" "distinct (map (\<lambda>r. (cellText p r, cellText k r)) rows)"
    "parentsExist (nodesOf p k q part rows)" "(a, b) \<in> (ancestry (nodesOf p k q part rows))\<^sup>+"
  shows "\<exists>t r. t \<in> set rows \<and> r \<in> set rows \<and> cellText p t = Some part \<and> cellText p r = Some part \<and>
    cellText k t = Some a \<and> cellText k r = Some b \<and> (t, r) \<in> (referenceRel p k q rows)\<^sup>+"
proof -
  have edge: "\<exists>t r. t \<in> set rows \<and> r \<in> set rows \<and> cellText p t = Some part \<and> cellText p r = Some part \<and>
      cellText k t = Some a \<and> cellText k r = Some b \<and> (t, r) \<in> referenceRel p k q rows"
    if "(a, b) \<in> ancestry (nodesOf p k q part rows)" for a b
  proof -
    from that obtain r where r: "r \<in> set rows" "cellText p r = Some part" "cellText k r = Some b" "cellText q r = Some a"
      unfolding ancestry_def by (auto simp: parentOf_nodesOf [OF assms(1,2)])
    from that assms(3) have "map_of (nodesOf p k q part rows) a \<noteq> None" unfolding ancestry_def parentsExist_def by blast
    then obtain n where "map_of (nodesOf p k q part rows) a = Some n" by blast
    then obtain t where "t \<in> set rows" "cellText p t = Some part" "cellText k t = Some a"
      unfolding map_of_nodesOf [OF assms(1,2)] by blast
    with r show ?thesis by (intro exI [of _ t] exI [of _ r]) (simp add: referenceRel_def refersTo_def)
  qed
  show ?thesis using assms(4)
  proof (induction rule: trancl_induct)
    case (base y)
    then show ?case using edge by blast
  next
    case (step y z)
    from step.IH obtain t r where tr: "t \<in> set rows" "r \<in> set rows" "cellText p t = Some part" "cellText p r = Some part"
      "cellText k t = Some a" "cellText k r = Some y" "(t, r) \<in> (referenceRel p k q rows)\<^sup>+" by blast
    from edge [OF step.hyps(2)] obtain r' s where s: "r' \<in> set rows" "s \<in> set rows" "cellText p r' = Some part" "cellText p s = Some part"
      "cellText k r' = Some y" "cellText k s = Some z" "(r', s) \<in> referenceRel p k q rows" by blast
    have "r = r'" using tr s by (intro same_row [OF assms(2)]) simp_all
    with tr s show ?case by (blast intro: trancl_into_trancl)
  qed
qed

section \<open>The order\<close>

definition parentsFirst :: "(snapshot_row \<Rightarrow> snapshot_row \<Rightarrow> bool) \<Rightarrow> snapshot_row list \<Rightarrow> bool" where
  "parentsFirst refers ordered \<longleftrightarrow>
     (\<forall>xs r ys. ordered = xs @ r # ys \<longrightarrow> (\<forall>target\<in>set ordered. refers r target \<longrightarrow> target \<in> set xs))"

lemma traverse_succeeds: "(\<exists>ys. traverse f xs = Inr ys) \<longleftrightarrow> (\<forall>x\<in>set xs. \<exists>y. f x = Inr y)"
proof (induction xs)
  case (Cons x xs)
  then show ?case by (auto simp: chain_eq_Inr)
qed simp

lemma mset_concat_all2: "list_all2 (\<lambda>e b. mset b = mset (g e)) es bs \<Longrightarrow> mset (concat bs) = mset (concat (map g es))"
  by (induction rule: list_all2_induct) simp_all

lemma mset_by_key:
  "\<lbrakk>distinct ps; \<forall>x\<in>set xs. f x \<in> set ps\<rbrakk> \<Longrightarrow> mset (concat (map (\<lambda>p. filter (\<lambda>x. f x = p) xs) ps)) = mset xs"
proof (induction ps arbitrary: xs)
  case (Cons p ps)
  let ?rest = "filter (\<lambda>x. f x \<noteq> p) xs"
  have "filter (\<lambda>x. f x = j) ?rest = filter (\<lambda>x. f x = j) xs" if "j \<in> set ps" for j
    using that Cons.prems(1) by (auto intro: filter_cong)
  then have "concat (map (\<lambda>p. filter (\<lambda>x. f x = p) ?rest) ps) = concat (map (\<lambda>p. filter (\<lambda>x. f x = p) xs) ps)"
    by (intro arg_cong [where f = concat] map_cong) simp_all
  moreover have "mset (concat (map (\<lambda>p. filter (\<lambda>x. f x = p) ?rest) ps)) = mset ?rest"
    using Cons.prems by (intro Cons.IH) auto
  ultimately show ?case by (simp add: mset_filter [symmetric] del: mset_filter) (metis mset_filter multiset_partition)
qed simp

lemma concat_split:
  "concat bs = xs @ r # ys \<Longrightarrow> \<exists>b xs' ys'. b \<in> set bs \<and> b = xs' @ r # ys' \<and> set xs' \<subseteq> set xs"
proof (induction bs arbitrary: xs)
  case (Cons b bs)
  then have "b @ concat bs = xs @ r # ys" by simp
  then consider us where "b = xs @ us" "us @ concat bs = r # ys" | us where "b @ us = xs" "concat bs = us @ r # ys"
    by (auto simp: append_eq_append_conv2)
  then show ?case
  proof cases
    case 1
    show ?thesis
    proof (cases us)
      case Nil
      with 1 have "concat bs = [] @ r # ys" by simp
      from Cons.IH [OF this] show ?thesis by fastforce
    next
      case (Cons u us')
      with 1 show ?thesis by auto
    qed
  next
    case 2
    from Cons.IH [OF 2(2)] 2(1) show ?thesis by fastforce
  qed
qed simp

text \<open>Within one partition the rows come after the rows they refer to.\<close>

lemma partition_ordered:
  assumes "\<forall>r\<in>set rows. wellTyped p k q r" "distinct (map (\<lambda>r. (cellText p r, cellText k r)) rows)"
    "orderPartition t (part, nodesOf p k q part rows) = Inr b"
  shows "mset b = mset (filter (\<lambda>r. cellText p r = Some part) rows)"
    and "\<lbrakk>b = xs @ r # ys; target \<in> set rows; refersTo p k q r target\<rbrakk> \<Longrightarrow> target \<in> set xs"
proof -
  let ?nodes = "nodesOf p k q part rows"
  let ?rows = "filter (\<lambda>r. cellText p r = Some part) rows"
  obtain ks where ks: "mset ks = mset (map fst ?nodes)" "closedList (parentOf ?nodes) ks" "b = map (rowOf ?nodes) ks"
    using orderPartition_rows [OF assms(3) nodesOf_distinct [OF assms(1,2)]] by blast
  have row: "rowOf ?nodes (the (cellText k r)) = r" if rr: "r \<in> set rows" "cellText p r = Some part" for r
  proof -
    obtain j where "cellText k r = Some j" using assms(1) rr(1) wellTyped_cells by blast
    then have "map_of ?nodes j = Some \<lparr>no_row = r, no_parent = cellText q r\<rparr>"
      using rr by (subst map_of_nodesOf [OF assms(1,2)]) simp
    then show ?thesis using \<open>cellText k r = Some j\<close> by (simp add: rowOf_def)
  qed
  have "mset b = image_mset (rowOf ?nodes) (mset (map fst ?nodes))" by (simp only: ks mset_map)
  also have "\<dots> = mset (map (\<lambda>r. rowOf ?nodes (the (cellText k r))) ?rows)" by (simp add: nodesOf_def comp_def multiset.map_comp)
  also have "map (\<lambda>r. rowOf ?nodes (the (cellText k r))) ?rows = ?rows" by (rule map_idI) (simp add: row)
  finally show "mset b = mset ?rows" .
  then have b: "set b = set ?rows" by (rule mset_eq_setD)
  assume "b = xs @ r # ys" "target \<in> set rows" "refersTo p k q r target"
  note * = this
  then obtain j where j: "length xs < length ks" "ks ! length xs = j" "rowOf ?nodes j = r"
    using ks(3) by (metis length_append length_map length_Cons add_Suc_right le_add1 less_Suc_eq_le nth_append_length nth_map)
  have r: "r \<in> set rows" "cellText p r = Some part" using b * by auto
  have "j \<in> set ks" using j by auto
  then have "j \<in> fst ` set ?nodes" using mset_eq_setD [OF ks(1)] by simp
  then obtain n where n: "map_of ?nodes j = Some n" by (metis map_of_eq_None_iff option.exhaust)
  then have nr: "no_row n = r" "no_parent n = cellText q r" "cellText k r = Some j"
    using j(3) map_of_nodesOf [OF assms(1,2), of part j n] by (auto simp: rowOf_def)
  obtain a where a: "cellText q r = Some a" "cellText k target = Some a" "cellText p target = Some part"
    using *(3) r by (auto simp: refersTo_def)
  have "parentOf ?nodes j = Some a" using n nr a by (simp add: parentOf_def)
  then have "a \<in> set (take (length xs) ks)" using ks(2) j(1,2) by (auto simp: closedList_def)
  then have "rowOf ?nodes a \<in> set (take (length xs) b)" by (simp add: ks(3) take_map)
  moreover have "rowOf ?nodes a = target" using row [OF *(2) a(3)] a(2) by simp
  ultimately show "target \<in> set xs" using *(1) by simp
qed

lemma filed_entry: "\<lbrakk>filed p k q rows N; (part, nodes) \<in> set N\<rbrakk> \<Longrightarrow> nodes = nodesOf p k q part rows"
  by (auto simp: filed_def entriesOf_def map_of_eq_Some_iff dest!: spec [of _ part] split: option.splits)

lemma partitions_sound:
  assumes "\<forall>r\<in>set rows. wellTyped p k q r" "distinct (map (\<lambda>r. (cellText p r, cellText k r)) rows)" "filed p k q rows N"
  shows "(\<forall>e\<in>set N. \<exists>b. orderPartition t e = Inr b) \<longleftrightarrow> soundReferences p k q rows"
proof
  assume ok: "\<forall>e\<in>set N. \<exists>b. orderPartition t e = Inr b"
  have each: "parentsExist (nodesOf p k q part rows) \<and> acyclic (ancestry (nodesOf p k q part rows))"
    if "Some part \<in> cellText p ` set rows" for part
  proof -
    have "Some part \<in> Some ` fst ` set N" using that assms(3) by (simp only: filed_def)
    then obtain nodes where e: "(part, nodes) \<in> set N" by auto
    with ok obtain b where "orderPartition t (part, nodes) = Inr b" by blast
    then show ?thesis
      using orderPartition_rows [of t part nodes b] filed_entry [OF assms(3) e] nodesOf_distinct [OF assms(1,2)] by simp
  qed
  then have met: "\<forall>r\<in>set rows. cellText q r \<noteq> None \<longrightarrow> (\<exists>target\<in>set rows. refersTo p k q r target)"
    by (subst partitions_exist [OF assms(1,2)]) simp
  have "acyclic (referenceRel p k q rows)"
    unfolding acyclic_def
  proof (intro allI notI)
    fix r assume cycle: "(r, r) \<in> (referenceRel p k q rows)\<^sup>+"
    then have "r \<in> set rows" by (auto simp: referenceRel_def dest: tranclD)
    then obtain part where part: "cellText p r = Some part" using assms(1) wellTyped_cells by blast
    with reference_ancestry_trancl [OF assms(1,2) cycle]
    have "(the (cellText k r), the (cellText k r)) \<in> (ancestry (nodesOf p k q part rows))\<^sup>+" by simp
    moreover have "acyclic (ancestry (nodesOf p k q part rows))"
      using each [of part] part \<open>r \<in> set rows\<close> by (metis image_eqI)
    ultimately show False by (simp add: acyclic_def)
  qed
  with met assms(1,2) show "soundReferences p k q rows" unfolding soundReferences_def by blast
next
  assume sound: "soundReferences p k q rows"
  then have exist: "\<forall>part\<in>{part. Some part \<in> cellText p ` set rows}. parentsExist (nodesOf p k q part rows)"
    by (subst partitions_exist [OF assms(1,2), symmetric]) (simp add: soundReferences_def)
  show "\<forall>e\<in>set N. \<exists>b. orderPartition t e = Inr b"
  proof
    fix e assume e: "e \<in> set N"
    obtain part nodes where en: "e = (part, nodes)" by force
    then have nodes: "nodes = nodesOf p k q part rows" using filed_entry assms(3) e by blast
    have "Some part \<in> Some ` fst ` set N" using e en by force
    then have "Some part \<in> cellText p ` set rows" using assms(3) by (simp only: filed_def)
    then have pe: "parentsExist (nodesOf p k q part rows)" using exist by blast
    have "acyclic (ancestry (nodesOf p k q part rows))"
      unfolding acyclic_def
    proof (intro allI notI)
      fix a assume "(a, a) \<in> (ancestry (nodesOf p k q part rows))\<^sup>+"
      from ancestry_reference_trancl [OF assms(1,2) pe this]
      obtain t r where tr: "t \<in> set rows" "r \<in> set rows" "cellText p t = Some part" "cellText p r = Some part"
        "cellText k t = Some a" "cellText k r = Some a" "(t, r) \<in> (referenceRel p k q rows)\<^sup>+" by blast
      have "t = r" using tr by (intro same_row [OF assms(2)]) simp_all
      with tr sound show False by (simp add: soundReferences_def acyclic_def)
    qed
    with pe show "\<exists>b. orderPartition t e = Inr b" unfolding en nodes by (rule orderPartition_succeeds)
  qed
qed

text \<open>C40: Rows of a self-referencing table: ordering them for an import always ends; it succeeds
  exactly when the cells are well typed, no key is repeated in a partition, every reference is met
  and there is no cycle; and then the result holds the same rows, each after the row it refers to.\<close>

theorem rows_ordered_for_import:
  assumes "findColumnIndex (so_tableName options) columns (so_partitionColumnName options) = Inr p"
    "findColumnIndex (so_tableName options) columns (so_keyColumnName options) = Inr k"
    "findColumnIndex (so_tableName options) columns (so_parentColumnName options) = Inr q"
  shows "case sortRowsBySelfReference rows columns options of
      Inl e \<Rightarrow> \<not> soundReferences p k q rows
    | Inr ordered \<Rightarrow> soundReferences p k q rows \<and> mset ordered = mset rows \<and> parentsFirst (refersTo p k q) ordered"
proof (cases "rows = []")
  case True
  then show ?thesis by (simp add: sortRowsBySelfReference_def soundReferences_def referenceRel_def parentsFirst_def acyclic_def)
next
  case False
  let ?t = "so_tableName options"
  have run: "sortRowsBySelfReference rows columns options =
      chain (fileRows options p k q rows []) (\<lambda>N. chain (traverse (orderPartition ?t) (arraySort (key fst codeUnitOrder) N)) (\<lambda>bs. Inr (concat bs)))"
    using False assms by (simp add: sortRowsBySelfReference_def)
  have "filed p k q [] []" by (simp add: filed_def entriesOf_def nodesOf_def)
  note files = fileRows_filed [OF this, of options rows, simplified]
  show ?thesis
  proof (cases "fileRows options p k q rows []")
    case (Inl e)
    then show ?thesis using files(1) by (auto simp: run soundReferences_def)
  next
    case (Inr N)
    then have typed: "\<forall>r\<in>set rows. wellTyped p k q r" and uniq: "distinct (map (\<lambda>r. (cellText p r, cellText k r)) rows)"
      using files(1) by auto
    have filed: "filed p k q rows N" using files(2) Inr by blast
    let ?N = "arraySort (key fst codeUnitOrder) N"
    have sound: "(\<exists>bs. traverse (orderPartition ?t) ?N = Inr bs) \<longleftrightarrow> soundReferences p k q rows"
      using partitions_sound [OF typed uniq filed, of ?t] by (simp add: traverse_succeeds)
    show ?thesis
    proof (cases "traverse (orderPartition ?t) ?N")
      case (Inl e)
      then show ?thesis using sound by (simp add: run Inr)
    next
      case bs: (Inr bs)
      have each: "orderPartition ?t (fst e, nodesOf p k q (fst e) rows) = Inr b" if "(e, b) \<in> set (zip ?N bs)" for e b
      proof -
        have "orderPartition ?t e = Inr b" using bs that by (auto simp: traverse_Inr list_all2_iff)
        moreover have "e \<in> set N" using that by (auto dest: set_zip_leftD)
        ultimately show ?thesis using filed_entry [OF filed, of "fst e" "snd e"] by (cases e) simp
      qed
      have len: "length ?N = length bs" using traverse_length bs by (metis length_sort)
      have "list_all2 (\<lambda>e b. mset b = mset (filter (\<lambda>r. cellText p r = Some (fst e)) rows)) ?N bs"
        using len partition_ordered(1) [OF typed uniq each] by (auto simp: list_all2_iff)
      then have "mset (concat bs) = mset (concat (map (\<lambda>e. filter (\<lambda>r. cellText p r = Some (fst e)) rows) ?N))"
        by (rule mset_concat_all2)
      also have "\<dots> = mset (concat (map (\<lambda>j. filter (\<lambda>r. cellText p r = j) rows) (map (Some \<circ> fst) ?N)))"
        by (simp add: comp_def)
      also have "\<dots> = mset rows"
      proof (rule mset_by_key)
        have "distinct (map fst ?N)" using filed mset_eq_imp_distinct_iff [of "map fst ?N" "map fst N"] by (simp add: filed_def)
        then show "distinct (map (Some \<circ> fst) ?N)" by (simp add: distinct_map comp_inj_on)
        show "\<forall>r\<in>set rows. cellText p r \<in> set (map (Some \<circ> fst) ?N)"
        proof
          fix r assume "r \<in> set rows"
          then have "cellText p r \<in> Some ` fst ` set ?N" using filed by (simp add: filed_def)
          then show "cellText p r \<in> set (map (Some \<circ> fst) ?N)" by (simp add: image_comp)
        qed
      qed
      finally have perm: "mset (concat bs) = mset rows" .
      have "parentsFirst (refersTo p k q) (concat bs)"
        unfolding parentsFirst_def
      proof (intro allI impI ballI)
        fix xs r ys target
        assume split: "concat bs = xs @ r # ys" and target: "target \<in> set (concat bs)" "refersTo p k q r target"
        from concat_split [OF split] obtain b xs' ys' where b: "b \<in> set bs" "b = xs' @ r # ys'" "set xs' \<subseteq> set xs" by blast
        from b(1) obtain i where i: "i < length bs" "bs ! i = b" by (auto simp: in_set_conv_nth)
        then have e: "(?N ! i, b) \<in> set (zip ?N bs)" using len by (auto simp: set_zip)
        have "target \<in> set rows" using target(1) unfolding mset_eq_setD [OF perm] .
        from partition_ordered(2) [OF typed uniq each [OF e] b(2) this target(2)] b(3) show "target \<in> set xs" by blast
      qed
      with perm sound bs show ?thesis by (simp add: run Inr)
    qed
  qed
qed

theorem rows_ordered_for_import_witness:
  "case sortRowsBySelfReference
      [[CStr ''t'', CStr ''a'', CStr ''b''], [CStr ''u'', CStr ''a'', CNull], [CStr ''t'', CStr ''b'', CNull]]
      [''tenant_id'', ''scope_id'', ''parent_scope_id''] scopesReference of
      Inl e \<Rightarrow> \<not> soundReferences 0 1 2
        [[CStr ''t'', CStr ''a'', CStr ''b''], [CStr ''u'', CStr ''a'', CNull], [CStr ''t'', CStr ''b'', CNull]]
    | Inr ordered \<Rightarrow> soundReferences 0 1 2
        [[CStr ''t'', CStr ''a'', CStr ''b''], [CStr ''u'', CStr ''a'', CNull], [CStr ''t'', CStr ''b'', CNull]] \<and>
        mset ordered = mset [[CStr ''t'', CStr ''a'', CStr ''b''], [CStr ''u'', CStr ''a'', CNull], [CStr ''t'', CStr ''b'', CNull]] \<and>
        parentsFirst (refersTo 0 1 2) ordered"
  by (rule rows_ordered_for_import) (simp_all add: findColumnIndex_def scopesReference_def)

end
