(* ===== verification/Worklist.thy ===== *)
theory Worklist
  imports Ums_Prelude "HOL-Library.AList"
begin

text \<open>
  The worklist loop that the retrieval planner runs three times (over parents of scopes, over
  children of scopes, over conflicting memories): \<open>while (queue.length > 0)\<close>, pop the last entry,
  and push every neighbour that has not been seen. A graph is a Map from nodes to arrays of
  neighbours; the queue is kept with its last entry first. The loop ends, and what it adds to the
  seen nodes is what can be reached from the queue through unseen nodes.
\<close>

type_synonym 'k graph = "('k \<times> 'k list) list"

definition nexts :: "'k graph \<Rightarrow> 'k \<Rightarrow> 'k list" where
  "nexts g x = (case map_of g x of None \<Rightarrow> [] | Some ys \<Rightarrow> ys)"

text \<open>The inner loop over the neighbours of a node.\<close>

fun pushUnseen :: "'k list \<Rightarrow> 'k list \<Rightarrow> 'k list \<Rightarrow> 'k list \<times> 'k list" where
  "pushUnseen [] seen queue = (seen, queue)"
| "pushUnseen (y # ys) seen queue =
     (if y \<in> set seen then pushUnseen ys seen queue else pushUnseen ys (seen @ [y]) (y # queue))"

lemma pushUnseen_new:
  "\<exists>new. pushUnseen ys seen queue = (seen @ new, rev new @ queue) \<and> distinct new \<and> set new = set ys - set seen"
proof (induction ys arbitrary: seen queue)
  case (Cons y ys)
  show ?case
  proof (cases "y \<in> set seen")
    case True
    with Cons.IH [of seen queue] show ?thesis by (auto simp: insert_Diff_if)
  next
    case False
    from Cons.IH [of "seen @ [y]" "y # queue"] obtain new where
      "pushUnseen ys (seen @ [y]) (y # queue) = (seen @ y # new, rev (y # new) @ queue)"
      "distinct new" "set new = set ys - insert y (set seen)" by auto
    with False show ?thesis by (intro exI [of _ "y # new"]) auto
  qed
qed simp

definition universe :: "'k graph \<Rightarrow> 'k set" where
  "universe g = \<Union> (set ` snd ` set g)"

lemma nexts_universe: "set (nexts g x) \<subseteq> universe g"
proof (cases "map_of g x")
  case (Some ys)
  then have "(x, ys) \<in> set g" by (rule map_of_SomeD)
  then show ?thesis using Some by (auto simp: nexts_def universe_def intro!: bexI [of _ "(x, ys)"])
qed (simp add: nexts_def)

lemma finite_universe [simp]: "finite (universe g)"
  by (auto simp: universe_def)

lemma pushUnseen_measure:
  assumes "pushUnseen (nexts g x) seen queue = (seen', queue')"
  shows "card (universe g - set seen') + length queue' < card (universe g - set seen) + Suc (length queue)"
proof -
  obtain new where new: "seen' = seen @ new" "queue' = rev new @ queue" "distinct new" "set new = set (nexts g x) - set seen"
    using pushUnseen_new [of "nexts g x" seen queue] assms by auto
  have sub: "set new \<subseteq> universe g - set seen" using new(4) nexts_universe by fastforce
  have "card (set new) = length new" using new(3) by (rule distinct_card)
  moreover have "universe g - set seen' = (universe g - set seen) - set new" using new(1) by auto
  moreover have "card (set new) \<le> card (universe g - set seen)" using sub by (intro card_mono) simp_all
  ultimately have "card (universe g - set seen') + length new = card (universe g - set seen)"
    using sub by (simp add: card_Diff_subset)
  then show ?thesis using new(2) by simp
qed

function explore :: "'k graph \<Rightarrow> 'k list \<Rightarrow> 'k list \<Rightarrow> 'k list \<Rightarrow> 'k list \<times> 'k list" where
  "explore g [] seen popped = (seen, popped)"
| "explore g (x # queue) seen popped =
     (case pushUnseen (nexts g x) seen queue of (seen', queue') \<Rightarrow> explore g queue' seen' (popped @ [x]))"
  by pat_completeness auto
termination explore
  by (relation "measure (\<lambda>(g, queue, seen, popped). card (universe g - set seen) + length queue)")
    (auto dest!: pushUnseen_measure [OF sym])

declare explore.simps(2) [simp del]

text \<open>The nodes reached from \<open>start\<close> by steps that avoid \<open>block\<close>.\<close>

inductive_set reached :: "'k graph \<Rightarrow> 'k set \<Rightarrow> 'k set \<Rightarrow> 'k set" for g start block where
  first: "\<lbrakk>x \<in> start; y \<in> set (nexts g x); y \<notin> block\<rbrakk> \<Longrightarrow> y \<in> reached g start block"
| onward: "\<lbrakk>x \<in> reached g start block; y \<in> set (nexts g x); y \<notin> block\<rbrakk> \<Longrightarrow> y \<in> reached g start block"

lemma reached_step:
  defines "new x g S \<equiv> set (nexts g x) - S"
  shows "reached g (insert x Q) S = new x g S \<union> reached g (new x g S \<union> Q) (S \<union> new x g S)"
proof (intro subset_antisym subsetI)
  fix y assume "y \<in> reached g (insert x Q) S"
  then show "y \<in> new x g S \<union> reached g (new x g S \<union> Q) (S \<union> new x g S)"
  proof induction
    case (first z y)
    then show ?case by (auto simp: new_def intro: reached.first)
  next
    case (onward z y)
    then show ?case by (auto simp: new_def intro: reached.first reached.onward)
  qed
next
  fix y assume "y \<in> new x g S \<union> reached g (new x g S \<union> Q) (S \<union> new x g S)"
  moreover have "y \<in> reached g (insert x Q) S" if "y \<in> reached g (new x g S \<union> Q) (S \<union> new x g S)"
    using that
  proof induction
    case (first z y)
    then show ?case by (auto simp: new_def intro: reached.first reached.onward)
  next
    case (onward z y)
    then show ?case by (auto intro: reached.onward)
  qed
  ultimately show "y \<in> reached g (insert x Q) S" by (auto simp: new_def intro: reached.first)
qed

theorem explore_reaches:
  assumes "explore g queue seen popped = (seen', popped')"
  shows "set seen' = set seen \<union> reached g (set queue) (set seen)"
    and "set popped' = set popped \<union> set queue \<union> reached g (set queue) (set seen)"
    and "distinct seen \<Longrightarrow> distinct seen'"
proof -
  have "set seen' = set seen \<union> reached g (set queue) (set seen) \<and>
      set popped' = set popped \<union> set queue \<union> reached g (set queue) (set seen) \<and> (distinct seen \<longrightarrow> distinct seen')"
    using assms
  proof (induction g queue seen popped rule: explore.induct)
    case (1 g seen popped)
    have "y \<notin> reached g {} (set seen)" for y
      by (rule notI, induction rule: reached.induct) simp_all
    with 1 show ?case by auto
  next
    case (2 g x queue seen popped)
    obtain new where new: "pushUnseen (nexts g x) seen queue = (seen @ new, rev new @ queue)" "distinct new"
      "set new = set (nexts g x) - set seen" using pushUnseen_new [of "nexts g x" seen queue] by (elim exE conjE)
    from 2(2) new(1) have "explore g (rev new @ queue) (seen @ new) (popped @ [x]) = (seen', popped')"
      by (simp add: explore.simps)
    from 2(1) [OF new(1) [symmetric] this]
    have seen': "set seen' = set seen \<union> set new \<union> reached g (set new \<union> set queue) (set seen \<union> set new)"
      and popped': "set popped' = set popped \<union> {x} \<union> (set new \<union> set queue) \<union> reached g (set new \<union> set queue) (set seen \<union> set new)"
      and dist: "distinct seen \<longrightarrow> distinct seen'" using new(2,3) by auto
    have step: "reached g (insert x (set queue)) (set seen) = set new \<union> reached g (set new \<union> set queue) (set seen \<union> set new)"
      using reached_step [of g x "set queue" "set seen"] new(3) by simp
    define R where "R = reached g (set new \<union> set queue) (set seen \<union> set new)"
    have all: "set (x # queue) = insert x (set queue)" by simp
    have "set seen' = set seen \<union> (set new \<union> R)" unfolding seen' R_def by (simp only: Un_assoc)
    moreover have "set popped' = set popped \<union> insert x (set queue) \<union> (set new \<union> R)" unfolding popped' R_def by auto
    ultimately show ?case using dist unfolding all step R_def by simp
  qed
  then show "set seen' = set seen \<union> reached g (set queue) (set seen)"
    and "set popped' = set popped \<union> set queue \<union> reached g (set queue) (set seen)"
    and "distinct seen \<Longrightarrow> distinct seen'" by blast+
qed

text \<open>No node is popped twice.\<close>

lemma explore_distinct:
  assumes "explore g queue seen popped = (seen', popped')" and "distinct (popped @ queue)"
    and "set popped \<subseteq> set seen" and "set queue \<subseteq> set seen"
  shows "distinct popped'"
  using assms
proof (induction g queue seen popped rule: explore.induct)
  case (2 g x queue seen popped)
  obtain new where new: "pushUnseen (nexts g x) seen queue = (seen @ new, rev new @ queue)" "distinct new"
    "set new = set (nexts g x) - set seen" using pushUnseen_new [of "nexts g x" seen queue] by (elim exE conjE)
  from 2(2) new(1) have "explore g (rev new @ queue) (seen @ new) (popped @ [x]) = (seen', popped')"
    by (simp add: explore.simps)
  from 2(1) [OF new(1) [symmetric] this] 2(3-5) new(2,3) show ?case by auto
qed simp

section \<open>Maps built from rows\<close>

text \<open>\<open>new Map(rows.map((row) => [f(row), row]))\<close> when no key repeats.\<close>

lemma update_new: "k \<notin> fst ` set acc \<Longrightarrow> AList.update k v acc = acc @ [(k, v)]"
  by (induction acc) auto

lemma map_by_key:
  assumes "distinct (map f (rows :: 'a list))"
  shows "fold (\<lambda>row. AList.update (f row) row) rows [] = map (\<lambda>row. (f row, row)) rows"
proof -
  have "fold (\<lambda>row. AList.update (f row) row) rows acc = acc @ map (\<lambda>row. (f row, row)) rows"
    if "distinct (map fst (acc :: ('b \<times> 'a) list) @ map f (rows :: 'a list))" for rows acc
    using that
  proof (induction rows arbitrary: acc)
    case (Cons row rows)
    then have "AList.update (f row) row acc = acc @ [(f row, row)]" by (intro update_new) auto
    with Cons show ?case by simp
  qed simp
  from this [of "[]" rows] assms show ?thesis by simp
qed

lemma map_of_by_key: "map_of (map (\<lambda>row. (f row, g row)) rows) s = map_option g (find (\<lambda>row. f row = s) rows)"
  by (induction rows) auto

lemma find_by_key:
  assumes "distinct (map f (rows :: 'a list))"
  shows "find (\<lambda>row. f row = s) rows = Some row \<longleftrightarrow> row \<in> set rows \<and> f row = s"
  using assms by (induction rows) (auto simp: image_iff)

end
