(* ===== verification/Base64_Url.thy ===== *)
theory Base64_Url
  imports Json_Parse
begin

text \<open>
  \<open>Buffer.from(s, "utf8").toString("base64url")\<close> and its inverse on texts of code units below 256,
  as cursors use them. Bytes are numbers below 256. Decoding skips characters outside the alphabet
  and replaces malformed UTF-8 (one replacement per maximal subpart); units the alphabet of texts
  lacks are unit 255, as in \<open>Json_Parse\<close>. Decoding undoes encoding.
\<close>

section \<open>UTF-8\<close>

definition utf8Bytes :: "char \<Rightarrow> nat list" where
  "utf8Bytes c = (let n = of_char c in if n < 128 then [n] else [192 + n div 64, 128 + n mod 64])"

definition utf8Encode :: "string \<Rightarrow> nat list" where
  "utf8Encode s = concat (map utf8Bytes s)"

text \<open>The continuation bytes that a leading byte asks for, and the range of the first of them.\<close>

definition utf8Lead :: "nat \<Rightarrow> (nat \<times> nat \<times> nat) option" where
  "utf8Lead b =
     (if 194 \<le> b \<and> b \<le> 223 then Some (1, 128, 191)
      else if b = 224 then Some (2, 160, 191)
      else if b = 237 then Some (2, 128, 159)
      else if 225 \<le> b \<and> b \<le> 239 then Some (2, 128, 191)
      else if b = 240 then Some (3, 144, 191)
      else if b = 244 then Some (3, 128, 143)
      else if 241 \<le> b \<and> b \<le> 243 then Some (3, 128, 191)
      else None)"

definition continuation :: "nat \<Rightarrow> nat \<Rightarrow> nat \<Rightarrow> nat list \<Rightarrow> nat list" where
  "continuation k lo hi bs =
     (case bs of
        [] \<Rightarrow> []
      | c # cs \<Rightarrow> if lo \<le> c \<and> c \<le> hi then c # takeWhile (\<lambda>d. 128 \<le> d \<and> d \<le> 191) (take (k - 1) cs) else [])"

definition decodedUnits :: "nat \<Rightarrow> nat list \<Rightarrow> string" where
  "decodedUnits b cont =
     (case cont of
        [c] \<Rightarrow> [codeUnit ((b - 192) * 64 + (c - 128))]
      | [c, d] \<Rightarrow> [CHR 0xFF]
      | _ \<Rightarrow> [CHR 0xFF, CHR 0xFF])"

function utf8Decode :: "nat list \<Rightarrow> string" where
  "utf8Decode [] = []"
| "utf8Decode (b # bs) =
     (if b < 128 then char_of b # utf8Decode bs
      else case utf8Lead b of
        None \<Rightarrow> CHR 0xFF # utf8Decode bs
      | Some (k, lo, hi) \<Rightarrow>
          (let cont = continuation k lo hi bs in
           if length cont = k then decodedUnits b cont @ utf8Decode (drop k bs)
           else CHR 0xFF # utf8Decode (drop (length cont) bs)))"
  by pat_completeness auto
termination utf8Decode
  by (relation "measure length") auto

lemma utf8_roundtrip: "utf8Decode (utf8Encode s) = s"
proof (induction s)
  case (Cons c s)
  have lt: "(of_char c :: nat) < 256" by (rule of_char_less_256)
  show ?case
  proof (cases "(of_char c :: nat) < 128")
    case True
    with Cons show ?thesis by (simp add: utf8Encode_def utf8Bytes_def Let_def)
  next
    case False
    define n where "n = (of_char c :: nat)"
    have n: "128 \<le> n" "n < 256" "char_of n = c" using False lt by (simp_all add: n_def)
    then have "2 \<le> n div 64" "n div 64 < 4" by (simp_all add: div_less_iff_less_mult less_eq_div_iff_mult_less_eq)
    then have lead: "utf8Lead (192 + n div 64) = Some (1, 128, 191)" by (simp add: utf8Lead_def)
    have "n mod 64 < 64" by simp
    then have cont: "continuation 1 128 191 ((128 + n mod 64) # bs) = [128 + n mod 64]" for bs
      by (simp add: continuation_def)
    have "utf8Decode (utf8Bytes c @ utf8Encode s) = codeUnit (n div 64 * 64 + n mod 64) # utf8Decode (utf8Encode s)"
      using False lead cont by (simp add: utf8Bytes_def decodedUnits_def Let_def flip: n_def)
    then show ?thesis using Cons n by (simp add: utf8Encode_def codeUnit_def)
  qed
qed (simp add: utf8Encode_def)

lemma utf8Encode_bytes: "b \<in> set (utf8Encode s) \<Longrightarrow> b < 256"
proof -
  assume "b \<in> set (utf8Encode s)"
  then obtain c where c: "b \<in> set (utf8Bytes c)" by (auto simp: utf8Encode_def)
  have "(of_char c :: nat) < 256" by (rule of_char_less_256)
  then have "(of_char c :: nat) div 64 < 4" "(of_char c :: nat) mod 64 < 64" by (simp_all add: div_less_iff_less_mult)
  with c show "b < 256" by (auto simp: utf8Bytes_def Let_def split: if_splits)
qed

section \<open>Base 64\<close>

definition base64Alphabet :: string where
  "base64Alphabet = ''ABCDEFGHIJKLMNOPQRSTUVWXYZabcdefghijklmnopqrstuvwxyz0123456789-_''"

definition base64Char :: "nat \<Rightarrow> char" where
  "base64Char d = base64Alphabet ! d"

text \<open>Three bytes to four digits, without padding.\<close>

fun base64Digits :: "nat list \<Rightarrow> nat list" where
  "base64Digits (a # b # c # bs) =
     [a div 4, a mod 4 * 16 + b div 16, b mod 16 * 4 + c div 64, c mod 64] @ base64Digits bs"
| "base64Digits [a, b] = [a div 4, a mod 4 * 16 + b div 16, b mod 16 * 4]"
| "base64Digits [a] = [a div 4, a mod 4 * 16]"
| "base64Digits [] = []"

definition base64urlEncode :: "nat list \<Rightarrow> string" where
  "base64urlEncode bs = map base64Char (base64Digits bs)"

text \<open>The digits of a text: both alphabets are read, everything else is skipped.\<close>

definition base64Value :: "char \<Rightarrow> nat option" where
  "base64Value c =
     (if c = CHR ''+'' then Some 62 else if c = CHR ''/'' then Some 63
      else findIndex (\<lambda>d. d = c) base64Alphabet)"

fun base64Bytes :: "nat list \<Rightarrow> nat list" where
  "base64Bytes (p # q # r # s # ds) =
     [p * 4 + q div 16, q mod 16 * 16 + r div 4, r mod 4 * 64 + s] @ base64Bytes ds"
| "base64Bytes [p, q, r] = [p * 4 + q div 16, q mod 16 * 16 + r div 4]"
| "base64Bytes [p, q] = [p * 4 + q div 16]"
| "base64Bytes [p] = []"
| "base64Bytes [] = []"

definition base64urlDecode :: "string \<Rightarrow> nat list" where
  "base64urlDecode s = base64Bytes (List.map_filter base64Value s)"

lemma base64Value_Char: "d < 64 \<Longrightarrow> base64Value (base64Char d) = Some d"
proof -
  have "list_all (\<lambda>d. base64Value (base64Char d) = Some d) [0..<64]" by code_simp
  then show "d < 64 \<Longrightarrow> base64Value (base64Char d) = Some d" by (simp add: list_all_iff)
qed

lemma base64Digits_small: "\<forall>b\<in>set bs. b < 256 \<Longrightarrow> \<forall>d\<in>set (base64Digits bs). d < 64"
proof (induction bs rule: base64Digits.induct)
  case (1 a b c bs)
  moreover have "a mod 4 < 4" "b mod 16 < 16" "c mod 64 < 64" by simp_all
  ultimately show ?case by auto
next
  case (2 a b)
  moreover have "a mod 4 < 4" "b mod 16 < 16" by simp_all
  ultimately show ?case by auto
next
  case (3 a)
  moreover have "a mod 4 < 4" by simp
  ultimately show ?case by auto
qed simp

lemma base64_digits_bytes: "\<forall>b\<in>set bs. b < 256 \<Longrightarrow> base64Bytes (base64Digits bs) = bs"
proof (induction bs rule: base64Digits.induct)
  case (1 a b c bs)
  have "c div 64 < 4" "b div 16 < 16" using 1(2) by (simp_all add: div_less_iff_less_mult)
  with 1 show ?case by simp
next
  case (2 a b)
  have "b div 16 < 16" using 2 by (simp add: div_less_iff_less_mult)
  with 2 show ?case by simp
qed simp_all

theorem base64url_roundtrip: "utf8Decode (base64urlDecode (base64urlEncode (utf8Encode s))) = s"
proof -
  have bytes: "\<forall>b\<in>set (utf8Encode s). b < 256" by (simp add: utf8Encode_bytes)
  have "List.map_filter base64Value (map base64Char ds) = ds" if "\<forall>d\<in>set ds. d < 64" for ds
    using that by (induction ds) (simp_all add: base64Value_Char)
  then have "base64urlDecode (base64urlEncode (utf8Encode s)) = utf8Encode s"
    using base64Digits_small [OF bytes] base64_digits_bytes [OF bytes]
    by (simp add: base64urlDecode_def base64urlEncode_def)
  then show ?thesis by (simp add: utf8_roundtrip)
qed

end
