(* ===== verification/Retrieval_Model.thy ===== *)
theory Retrieval_Model
  imports Snapshot_Codec
begin

text \<open>
  The data of the retrieval service (libs/shared/src/effect/services/retrieval-service.ts, lines
  1-1055 and the request schemas of contracts/services.ts): requests, the rows it projects out of a
  storage snapshot, and what it reads out of the JSON payload of a memory: provenance, the evidence
  chain, contradiction and supersession links, the excerpt. Absent and null payloads are \<open>Null\<close>;
  a Set is the list of its elements in insertion order. Recursion on payloads is unbounded, as in
  the source up to the host's stack.
\<close>

section \<open>Requests\<close>

record ScopeSelectorsInput =
  si_projectId :: "string option"
  si_roleId :: "string option"
  si_jobRoleId :: "string option"
  si_userId :: "string option"

record ScopeAuthorizationInput =
  sa_tenantId :: "string option"
  sa_tenant_id :: "string option"
  sa_projectIds :: "string list option"
  sa_project_ids :: "string list option"
  sa_roleIds :: "string list option"
  sa_role_ids :: "string list option"
  sa_jobRoleIds :: "string list option"
  sa_job_role_ids :: "string list option"
  sa_userIds :: "string list option"
  sa_user_ids :: "string list option"

type_synonym policy_context = "(string \<times> js_value) list"

record RetrievalPolicyInput =
  pi_actorId :: "string option"
  pi_action :: "string option"
  pi_evidenceIds :: "string list option"
  pi_context :: "policy_context option"

record RetrievalRankingWeights =
  rw_relevance :: "jsnum option"
  rw_evidenceStrength :: "jsnum option"
  rw_evidence_strength :: "jsnum option"
  rw_decay :: "jsnum option"
  rw_humanWeight :: "jsnum option"
  rw_human_weight :: "jsnum option"
  rw_utility :: "jsnum option"
  rw_utilityScore :: "jsnum option"
  rw_utility_score :: "jsnum option"

record RetrievalRequest =
  rt_spaceId :: string
  rt_query :: string
  rt_limit :: int
  rt_cursor :: "string option"
  rt_scopeAuthorization :: "ScopeAuthorizationInput option"
  rt_scope_authorization :: "ScopeAuthorizationInput option"
  rt_scope :: "ScopeSelectorsInput option"
  rt_projectId :: "string option"
  rt_roleId :: "string option"
  rt_jobRoleId :: "string option"
  rt_userId :: "string option"
  rt_policy :: "RetrievalPolicyInput option"
  rt_actorId :: "string option"
  rt_action :: "string option"
  rt_evidenceIds :: "string list option"
  rt_policyContext :: "policy_context option"
  rt_rankingWeights :: "RetrievalRankingWeights option"
  rt_ranking_weights :: "RetrievalRankingWeights option"

text \<open>\<open>Schema.optional\<close>, and the schemas of the request.\<close>

definition optionalOk :: "('a \<Rightarrow> bool) \<Rightarrow> 'a option \<Rightarrow> bool" where
  "optionalOk P x = (case x of None \<Rightarrow> True | Some y \<Rightarrow> P y)"

definition idOk :: "string option \<Rightarrow> bool" where
  "idOk = optionalOk nonEmptyTrimmedString"

definition idsOk :: "string list option \<Rightarrow> bool" where
  "idsOk = optionalOk (list_all nonEmptyTrimmedString)"

definition weightOk :: "jsnum option \<Rightarrow> bool" where
  "weightOk = optionalOk (isBetween 0 1)"

text \<open>A domain value: JSON-like, nothing undefined in it.\<close>

fun domainValue :: "js_value \<Rightarrow> bool" where
  "domainValue Undefined = False"
| "domainValue (Arr vs) = list_all domainValue vs"
| "domainValue (Obj kvs) = list_all (\<lambda>(k, v). domainValue v) kvs"
| "domainValue _ = True"

definition contextOk :: "policy_context option \<Rightarrow> bool" where
  "contextOk = optionalOk (list_all (\<lambda>(k, v). domainValue v))"

definition scopeSelectorsSchema :: "ScopeSelectorsInput \<Rightarrow> bool" where
  "scopeSelectorsSchema s = list_all idOk [si_projectId s, si_roleId s, si_jobRoleId s, si_userId s]"

definition scopeAuthorizationInputSchema :: "ScopeAuthorizationInput \<Rightarrow> bool" where
  "scopeAuthorizationInputSchema a =
     (list_all idOk [sa_tenantId a, sa_tenant_id a] \<and>
      list_all idsOk [sa_projectIds a, sa_project_ids a, sa_roleIds a, sa_role_ids a, sa_jobRoleIds a,
        sa_job_role_ids a, sa_userIds a, sa_user_ids a])"

definition retrievalPolicyInputSchema :: "RetrievalPolicyInput \<Rightarrow> bool" where
  "retrievalPolicyInputSchema p = (idOk (pi_actorId p) \<and> idsOk (pi_evidenceIds p) \<and> contextOk (pi_context p))"

definition retrievalRankingWeightsSchema :: "RetrievalRankingWeights \<Rightarrow> bool" where
  "retrievalRankingWeightsSchema w =
     list_all weightOk [rw_relevance w, rw_evidenceStrength w, rw_evidence_strength w, rw_decay w,
       rw_humanWeight w, rw_human_weight w, rw_utility w, rw_utilityScore w, rw_utility_score w]"

definition retrievalRequestSchema :: "RetrievalRequest \<Rightarrow> bool" where
  "retrievalRequestSchema r =
     (nonEmptyTrimmedString (rt_spaceId r) \<and> nonNegativeInt (rt_limit r) \<and>
      optionalOk scopeAuthorizationInputSchema (rt_scopeAuthorization r) \<and>
      optionalOk scopeAuthorizationInputSchema (rt_scope_authorization r) \<and>
      optionalOk scopeSelectorsSchema (rt_scope r) \<and>
      list_all idOk [rt_projectId r, rt_roleId r, rt_jobRoleId r, rt_userId r, rt_actorId r] \<and>
      optionalOk retrievalPolicyInputSchema (rt_policy r) \<and> idsOk (rt_evidenceIds r) \<and> contextOk (rt_policyContext r) \<and>
      optionalOk retrievalRankingWeightsSchema (rt_rankingWeights r) \<and>
      optionalOk retrievalRankingWeightsSchema (rt_ranking_weights r))"

section \<open>Rows of a snapshot\<close>

text \<open>Code that throws an \<open>Error\<close>; only its message is read.\<close>

type_synonym 'a thrown = "(string, 'a) result"

datatype ScopeLevel = CommonLevel | ProjectLevel | JobRoleLevel | UserLevel

datatype MemoryLayer = Episodic | Working | Procedural

record ParsedScopeRow =
  sc_scopeId :: string
  sc_scopeLevel :: ScopeLevel
  sc_projectId :: "string option"
  sc_roleId :: "string option"
  sc_userId :: "string option"
  sc_parentScopeId :: "string option"

record ParsedMemoryRow =
  mr_memoryId :: string
  mr_scopeId :: string
  mr_layer :: MemoryLayer
  mr_status :: string
  mr_title :: string
  mr_payloadJson :: string
  mr_updatedAtMillis :: int
  mr_expiresAtMillis :: "int option"
  mr_tombstonedAtMillis :: "int option"

definition readSnapshotTable :: "snapshot_data \<Rightarrow> string \<Rightarrow> snapshot_table thrown" where
  "readSnapshotTable snapshot tableName =
     (case find (\<lambda>t. tb_name t = tableName) (sn_tables snapshot) of
        None \<Rightarrow> Inl (''Snapshot table '' @ tableName @ '' is missing.'')
      | Some t \<Rightarrow> Inr t)"

definition readColumnIndex :: "string \<Rightarrow> string list \<Rightarrow> string \<Rightarrow> nat thrown" where
  "readColumnIndex tableName columns columnName =
     (case findIndex (\<lambda>c. c = columnName) columns of
        None \<Rightarrow> Inl (''Snapshot table '' @ tableName @ '' is missing required column '' @ columnName @ ''.'')
      | Some i \<Rightarrow> Inr i)"

definition readRowCell :: "snapshot_row \<Rightarrow> nat \<Rightarrow> string \<Rightarrow> cell thrown" where
  "readRowCell row i label =
     (case cellAt row i of None \<Rightarrow> Inl (label @ '' is undefined.'') | Some c \<Rightarrow> Inr c)"

definition nonEmptyText :: "snapshot_row \<Rightarrow> nat \<Rightarrow> string \<Rightarrow> string thrown" where
  "nonEmptyText row i label =
     chain (readRowCell row i label) (\<lambda>c.
       case c of
         CStr s \<Rightarrow> if trim s = [] then Inl (label @ '' must be a non-empty string.'') else Inr s
       | _ \<Rightarrow> Inl (label @ '' must be a non-empty string.''))"

definition readNullableString :: "snapshot_row \<Rightarrow> nat \<Rightarrow> string \<Rightarrow> string option thrown" where
  "readNullableString row i label =
     chain (readRowCell row i label) (\<lambda>c.
       case c of
         CNull \<Rightarrow> Inr None
       | CStr s \<Rightarrow> if trim s = [] then Inl (label @ '' must be a non-empty string or null.'') else Inr (Some s)
       | CInt n \<Rightarrow> Inl (label @ '' must be a non-empty string or null.''))"

definition readNonNegativeInteger :: "snapshot_row \<Rightarrow> nat \<Rightarrow> string \<Rightarrow> int thrown" where
  "readNonNegativeInteger row i label =
     chain (readRowCell row i label) (\<lambda>c.
       case c of
         CInt n \<Rightarrow> if nonNegativeInt n then Inr n else Inl (label @ '' must be a non-negative safe integer.'')
       | _ \<Rightarrow> Inl (label @ '' must be a non-negative safe integer.''))"

definition readNullableNonNegativeInteger :: "snapshot_row \<Rightarrow> nat \<Rightarrow> string \<Rightarrow> int option thrown" where
  "readNullableNonNegativeInteger row i label =
     chain (readRowCell row i label) (\<lambda>c.
       case c of
         CNull \<Rightarrow> Inr None
       | CInt n \<Rightarrow> if nonNegativeInt n then Inr (Some n)
           else Inl (label @ '' must be a non-negative safe integer or null.'')
       | CStr s \<Rightarrow> Inl (label @ '' must be a non-negative safe integer or null.''))"

definition toScopeLevel :: "string \<Rightarrow> string \<Rightarrow> ScopeLevel thrown" where
  "toScopeLevel value label =
     (if value = ''common'' then Inr CommonLevel
      else if value = ''project'' then Inr ProjectLevel
      else if value = ''job_role'' then Inr JobRoleLevel
      else if value = ''user'' then Inr UserLevel
      else Inl (label @ '' must be one of common, project, job_role, user.''))"

definition toMemoryLayer :: "string \<Rightarrow> string \<Rightarrow> MemoryLayer thrown" where
  "toMemoryLayer value label =
     (if value = ''episodic'' then Inr Episodic
      else if value = ''working'' then Inr Working
      else if value = ''procedural'' then Inr Procedural
      else Inl (label @ '' must be one of episodic, working, procedural.''))"

text \<open>\<open>table.rows[i].column\<close>\<close>

definition cellLabel :: "string \<Rightarrow> nat \<Rightarrow> string \<Rightarrow> string" where
  "cellLabel tableName rowIndex columnName = indexed (tableName @ ''.rows'') rowIndex @ ''.'' @ columnName"

record ScopeColumns =
  cs_scopeId :: nat
  cs_tenantId :: nat
  cs_scopeLevel :: nat
  cs_projectId :: nat
  cs_roleId :: nat
  cs_userId :: nat
  cs_parentScopeId :: nat

definition scopeColumns :: "string list \<Rightarrow> ScopeColumns thrown" where
  "scopeColumns columns =
     (let column = readColumnIndex ''scopes'' columns in
      chain (column ''scope_id'') (\<lambda>scopeId.
      chain (column ''tenant_id'') (\<lambda>tenantId.
      chain (column ''scope_level'') (\<lambda>scopeLevel.
      chain (column ''project_id'') (\<lambda>projectId.
      chain (column ''role_id'') (\<lambda>roleId.
      chain (column ''user_id'') (\<lambda>userId.
      chain (column ''parent_scope_id'') (\<lambda>parentScopeId.
        Inr \<lparr>cs_scopeId = scopeId, cs_tenantId = tenantId, cs_scopeLevel = scopeLevel, cs_projectId = projectId,
          cs_roleId = roleId, cs_userId = userId, cs_parentScopeId = parentScopeId\<rparr>))))))))"

definition parseScopeRow :: "ScopeColumns \<Rightarrow> nat \<Rightarrow> snapshot_row \<Rightarrow> ParsedScopeRow thrown" where
  "parseScopeRow c rowIndex row =
     (let label = cellLabel ''scopes'' rowIndex in
      chain (nonEmptyText row (cs_scopeId c) (label ''scope_id'')) (\<lambda>scopeId.
      chain (chain (nonEmptyText row (cs_scopeLevel c) (label ''scope_level''))
          (\<lambda>level. toScopeLevel level (label ''scope_level''))) (\<lambda>scopeLevel.
      chain (readNullableString row (cs_projectId c) (label ''project_id'')) (\<lambda>projectId.
      chain (readNullableString row (cs_roleId c) (label ''role_id'')) (\<lambda>roleId.
      chain (readNullableString row (cs_userId c) (label ''user_id'')) (\<lambda>userId.
      chain (readNullableString row (cs_parentScopeId c) (label ''parent_scope_id'')) (\<lambda>parentScopeId.
        Inr \<lparr>sc_scopeId = scopeId, sc_scopeLevel = scopeLevel, sc_projectId = projectId, sc_roleId = roleId,
          sc_userId = userId, sc_parentScopeId = parentScopeId\<rparr>)))))))"

text \<open>The loop over the rows of a table: the tenant is read for every row, the rest for the rows of
  the space.\<close>

fun parseTenantRows ::
    "(nat \<Rightarrow> string) \<Rightarrow> nat \<Rightarrow> (nat \<Rightarrow> snapshot_row \<Rightarrow> 'a thrown) \<Rightarrow> string \<Rightarrow> (nat \<times> snapshot_row) list \<Rightarrow>
     'a list thrown" where
  "parseTenantRows tenantLabel tenantIndex parse spaceId [] = Inr []"
| "parseTenantRows tenantLabel tenantIndex parse spaceId ((rowIndex, row) # rows) =
     chain (nonEmptyText row tenantIndex (tenantLabel rowIndex)) (\<lambda>tenantId.
       if tenantId \<noteq> spaceId then parseTenantRows tenantLabel tenantIndex parse spaceId rows
       else chain (parse rowIndex row) (\<lambda>parsed.
         chain (parseTenantRows tenantLabel tenantIndex parse spaceId rows) (\<lambda>rest. Inr (parsed # rest))))"

definition parseScopeRows :: "snapshot_data \<Rightarrow> string \<Rightarrow> ParsedScopeRow list thrown" where
  "parseScopeRows snapshot spaceId =
     chain (readSnapshotTable snapshot ''scopes'') (\<lambda>t.
     chain (scopeColumns (tb_columns t)) (\<lambda>c.
       parseTenantRows (\<lambda>i. cellLabel ''scopes'' i ''tenant_id'') (cs_tenantId c) (parseScopeRow c) spaceId
         (enumerate 0 (tb_rows t))))"

record MemoryColumns =
  cm_memoryId :: nat
  cm_tenantId :: nat
  cm_scopeId :: nat
  cm_layer :: nat
  cm_status :: nat
  cm_title :: nat
  cm_payloadJson :: nat
  cm_updatedAt :: nat
  cm_expiresAt :: nat
  cm_tombstonedAt :: nat

definition memoryColumns :: "string list \<Rightarrow> MemoryColumns thrown" where
  "memoryColumns columns =
     (let column = readColumnIndex ''memory_items'' columns in
      chain (column ''memory_id'') (\<lambda>memoryId.
      chain (column ''tenant_id'') (\<lambda>tenantId.
      chain (column ''scope_id'') (\<lambda>scopeId.
      chain (column ''memory_layer'') (\<lambda>layer.
      chain (column ''status'') (\<lambda>status.
      chain (column ''title'') (\<lambda>title.
      chain (column ''payload_json'') (\<lambda>payloadJson.
      chain (column ''updated_at_ms'') (\<lambda>updatedAt.
      chain (column ''expires_at_ms'') (\<lambda>expiresAt.
      chain (column ''tombstoned_at_ms'') (\<lambda>tombstonedAt.
        Inr \<lparr>cm_memoryId = memoryId, cm_tenantId = tenantId, cm_scopeId = scopeId, cm_layer = layer,
          cm_status = status, cm_title = title, cm_payloadJson = payloadJson, cm_updatedAt = updatedAt,
          cm_expiresAt = expiresAt, cm_tombstonedAt = tombstonedAt\<rparr>)))))))))))"

definition parseMemoryRow :: "MemoryColumns \<Rightarrow> nat \<Rightarrow> snapshot_row \<Rightarrow> ParsedMemoryRow thrown" where
  "parseMemoryRow c rowIndex row =
     (let label = cellLabel ''memory_items'' rowIndex in
      chain (nonEmptyText row (cm_memoryId c) (label ''memory_id'')) (\<lambda>memoryId.
      chain (nonEmptyText row (cm_scopeId c) (label ''scope_id'')) (\<lambda>scopeId.
      chain (chain (nonEmptyText row (cm_layer c) (label ''memory_layer''))
          (\<lambda>layer. toMemoryLayer layer (label ''memory_layer''))) (\<lambda>layer.
      chain (nonEmptyText row (cm_status c) (label ''status'')) (\<lambda>status.
      chain (nonEmptyText row (cm_title c) (label ''title'')) (\<lambda>title.
      chain (nonEmptyText row (cm_payloadJson c) (label ''payload_json'')) (\<lambda>payloadJson.
      chain (readNonNegativeInteger row (cm_updatedAt c) (label ''updated_at_ms'')) (\<lambda>updatedAt.
      chain (readNullableNonNegativeInteger row (cm_expiresAt c) (label ''expires_at_ms'')) (\<lambda>expiresAt.
      chain (readNullableNonNegativeInteger row (cm_tombstonedAt c) (label ''tombstoned_at_ms'')) (\<lambda>tombstonedAt.
        Inr \<lparr>mr_memoryId = memoryId, mr_scopeId = scopeId, mr_layer = layer, mr_status = status, mr_title = title,
          mr_payloadJson = payloadJson, mr_updatedAtMillis = updatedAt, mr_expiresAtMillis = expiresAt,
          mr_tombstonedAtMillis = tombstonedAt\<rparr>))))))))))"

definition parseMemoryRows :: "snapshot_data \<Rightarrow> string \<Rightarrow> ParsedMemoryRow list thrown" where
  "parseMemoryRows snapshot spaceId =
     chain (readSnapshotTable snapshot ''memory_items'') (\<lambda>t.
     chain (memoryColumns (tb_columns t)) (\<lambda>c.
       parseTenantRows (\<lambda>i. cellLabel ''memory_items'' i ''tenant_id'') (cm_tenantId c) (parseMemoryRow c) spaceId
         (enumerate 0 (tb_rows t))))"

end
