(* ===== verification/Retrieval_Payload.thy ===== *)
theory Retrieval_Payload
  imports Retrieval_Model
begin

text \<open>
  What the retrieval service reads out of the JSON payload of a memory (retrieval-service.ts, lines
  583-1053): provenance and its evidence chain, the links by which memories contradict or supersede
  others, and the excerpt. A payload record or a missing one is \<open>Obj kvs\<close> or \<open>Null\<close>; a Set is the
  list of its elements in insertion order.
\<close>

section \<open>Records\<close>

definition toOptionalRecord :: "js_value \<Rightarrow> js_value" where
  "toOptionalRecord v = (if isObj v then v else Null)"

definition hasOwn :: "js_value \<Rightarrow> string \<Rightarrow> bool" where
  "hasOwn v k = (case v of Obj kvs \<Rightarrow> map_of kvs k \<noteq> None | _ \<Rightarrow> False)"

fun readRecordValue :: "js_value \<Rightarrow> string list \<Rightarrow> js_value" where
  "readRecordValue r [] = Undefined"
| "readRecordValue r (k # ks) = (if hasOwn r k then getProp k r else readRecordValue r ks)"

definition parsePayloadRecord :: "string \<Rightarrow> js_value" where
  "parsePayloadRecord payloadJson =
     (case jsonParse payloadJson of Some v \<Rightarrow> toOptionalRecord v | None \<Rightarrow> Null)"

definition toOptionalTrimmedString :: "js_value \<Rightarrow> string option" where
  "toOptionalTrimmedString v = (case v of Str s \<Rightarrow> if trim s = [] then None else Some (trim s) | _ \<Rightarrow> None)"

definition readNullableTrimmedString :: "js_value \<Rightarrow> string list \<Rightarrow> string option" where
  "readNullableTrimmedString r ks = toOptionalTrimmedString (readRecordValue r ks)"

definition toSortedUniqueStrings :: "host \<Rightarrow> string list \<Rightarrow> string list" where
  "toSortedUniqueStrings h values = arraySort (localeCompare h) (setOrder values)"

text \<open>\<open>toOptionalRecord(readRecordValue(r, keys))\<close>\<close>

abbreviation subRecord :: "js_value \<Rightarrow> string list \<Rightarrow> js_value" where
  "subRecord r ks \<equiv> toOptionalRecord (readRecordValue r ks)"

section \<open>Provenance\<close>

definition evidencePointerCollectionKeys :: "string list" where
  "evidencePointerCollectionKeys = [''evidencePointers'', ''evidence_pointers'']"

definition evidencePointerIdKeys :: "string list" where
  "evidencePointerIdKeys = [''pointerId'', ''pointer_id'', ''evidenceId'', ''evidence_id'', ''id'']"

definition evidencePointerSourceRefKeys :: "string list" where
  "evidencePointerSourceRefKeys = [''sourceRef'', ''source_ref'', ''reference'', ''ref'']"

definition addOptional :: "string option \<Rightarrow> string list \<Rightarrow> string list" where
  "addOptional x xs = (case x of None \<Rightarrow> xs | Some s \<Rightarrow> setAdd s xs)"

definition collectPointer :: "js_value \<Rightarrow> string list \<times> string list \<Rightarrow> string list \<times> string list" where
  "collectPointer pointer = (\<lambda>(ids, refs).
     if \<not> isObj pointer then (ids, refs)
     else (addOptional (readNullableTrimmedString pointer evidencePointerIdKeys) ids,
           addOptional (readNullableTrimmedString pointer evidencePointerSourceRefKeys) refs))"

definition collectExplainabilityEvidenceChain :: "host \<Rightarrow> js_value \<Rightarrow> string list \<times> string list" where
  "collectExplainabilityEvidenceChain h payloadRecord =
     (let containers = [payloadRecord, subRecord payloadRecord [''metadata'']];
          (ids, refs) = fold (\<lambda>container acc.
            fold (\<lambda>k acc. fold collectPointer (arrOrEmpty (readRecordValue container [k])) acc)
              evidencePointerCollectionKeys acc) containers ([], [])
      in (toSortedUniqueStrings h ids, toSortedUniqueStrings h refs))"

record ExplainabilityProvenance =
  ep_tenantId :: string
  ep_projectId :: "string option"
  ep_roleId :: "string option"
  ep_userId :: "string option"
  ep_agentId :: "string option"
  ep_conversationId :: "string option"
  ep_messageId :: "string option"
  ep_sourceId :: "string option"
  ep_batchId :: "string option"
  ep_evidencePointerIds :: "string list"
  ep_evidenceSourceRefs :: "string list"

definition provenanceKeys :: "string list" where
  "provenanceKeys = [''provenance'', ''provenanceMetadata'', ''provenance_metadata'']"

text \<open>Provenance is only reported when it names the tenant of the request.\<close>

definition toExplainabilityProvenance :: "host \<Rightarrow> js_value \<Rightarrow> string \<Rightarrow> ExplainabilityProvenance option" where
  "toExplainabilityProvenance h payloadRecord tenantId =
     (let metadataRecord = subRecord payloadRecord [''metadata''];
          provenanceRecord = subRecord payloadRecord provenanceKeys;
          envelope = (if provenanceRecord \<noteq> Null then provenanceRecord else subRecord metadataRecord provenanceKeys);
          field = readNullableTrimmedString envelope
      in if envelope = Null then None
         else if field [''tenantId'', ''tenant_id''] \<noteq> Some tenantId then None
         else
           (let (pointerIds, sourceRefs) = collectExplainabilityEvidenceChain h payloadRecord in
            Some \<lparr>ep_tenantId = tenantId,
              ep_projectId = field [''projectId'', ''project_id''],
              ep_roleId = field [''roleId'', ''role_id''],
              ep_userId = field [''userId'', ''user_id''],
              ep_agentId = field [''agentId'', ''agent_id''],
              ep_conversationId = field [''conversationId'', ''conversation_id''],
              ep_messageId = field [''messageId'', ''message_id''],
              ep_sourceId = field [''sourceId'', ''source_id''],
              ep_batchId = field [''batchId'', ''batch_id''],
              ep_evidencePointerIds = pointerIds, ep_evidenceSourceRefs = sourceRefs\<rparr>))"

section \<open>Chronology\<close>

definition contradictionLinkKeys :: "string list" where
  "contradictionLinkKeys =
     [''contradicts'', ''contradictsMemoryId'', ''contradicts_memory_id'', ''contradictsMemoryIds'',
      ''contradicts_memory_ids'', ''contradictionMemoryId'', ''contradiction_memory_id'',
      ''contradictionMemoryIds'', ''contradiction_memory_ids'']"

definition supersedesLinkKeys :: "string list" where
  "supersedesLinkKeys =
     [''supersedes'', ''supersedesMemoryId'', ''supersedes_memory_id'', ''supersedesMemoryIds'',
      ''supersedes_memory_ids'']"

definition relationCollectionKeys :: "string list" where
  "relationCollectionKeys =
     [''relations'', ''relationLinks'', ''relation_links'', ''memoryRelations'', ''memory_relations'',
      ''memoryLinks'', ''memory_links'', ''links'']"

definition relationKindKeys :: "string list" where
  "relationKindKeys = [''relationKind'', ''relation_kind'', ''kind'', ''type'', ''linkType'', ''link_type'']"

definition relationTargetKeys :: "string list" where
  "relationTargetKeys =
     [''memoryId'', ''memory_id'', ''targetMemoryId'', ''target_memory_id'', ''targetId'', ''target_id'',
      ''memoryIds'', ''memory_ids'', ''targetMemoryIds'', ''target_memory_ids'', ''memory'', ''target'', ''targets'']"

record HitChronology =
  hc_contradictsMemoryIds :: "string list"
  hc_supersedesMemoryIds :: "string list"

definition emptyHitChronology :: HitChronology where
  "emptyHitChronology = \<lparr>hc_contradictsMemoryIds = [], hc_supersedesMemoryIds = []\<rparr>"

definition toSortedMemoryIds :: "host \<Rightarrow> string list \<Rightarrow> string list" where
  "toSortedMemoryIds h memoryIds = arraySort (localeCompare h) (setOrder memoryIds)"

lemma size_getProp: "hasOwn (Obj kvs) k \<Longrightarrow> size (getProp k (Obj kvs)) < size (Obj kvs)"
  by (cases "map_of kvs k") (auto simp: hasOwn_def simp del: js_value.size intro: size_member map_of_SomeD)

text \<open>Every identifier reachable through arrays and through the target members of objects.\<close>

function (sequential) collectMemoryIdsFromLinkedValue :: "js_value \<Rightarrow> string list \<Rightarrow> string list" where
  "collectMemoryIdsFromLinkedValue (Str s) acc =
     (case toOptionalTrimmedString (Str s) of Some memoryId \<Rightarrow> setAdd memoryId acc | None \<Rightarrow> acc)"
| "collectMemoryIdsFromLinkedValue (Arr vs) acc = fold (\<lambda>v acc. collectMemoryIdsFromLinkedValue v acc) vs acc"
| "collectMemoryIdsFromLinkedValue (Obj kvs) acc =
     fold (\<lambda>k acc. if hasOwn (Obj kvs) k then collectMemoryIdsFromLinkedValue (getProp k (Obj kvs)) acc else acc)
       relationTargetKeys acc"
| "collectMemoryIdsFromLinkedValue _ acc = acc"
  by pat_completeness auto
termination collectMemoryIdsFromLinkedValue
  by (relation "measure (\<lambda>(v, acc). size v)")
    (auto simp del: js_value.size getProp.simps simp: size_getProp dest: size_element)

definition collectExplicitLinkedMemoryIds :: "js_value \<Rightarrow> string list \<Rightarrow> string list \<Rightarrow> string list" where
  "collectExplicitLinkedMemoryIds container ks acc =
     fold (\<lambda>k acc. if hasOwn container k then collectMemoryIdsFromLinkedValue (getProp k container) acc else acc) ks acc"

datatype RelationKind = Contradicts | Supersedes

definition toRelationKind :: "js_value \<Rightarrow> RelationKind option" where
  "toRelationKind v =
     (case toOptionalTrimmedString v of
        None \<Rightarrow> None
      | Some s \<Rightarrow>
          if strIncludes (toLowerCase s) ''contradict'' then Some Contradicts
          else if strIncludes (toLowerCase s) ''supersede'' then Some Supersedes
          else None)"

definition toRelationRecords :: "js_value \<Rightarrow> js_value list" where
  "toRelationRecords v = (case v of Arr vs \<Rightarrow> filter isObj vs | Obj kvs \<Rightarrow> [v] | _ \<Rightarrow> [])"

definition appendRelationTargets :: "js_value \<Rightarrow> string list \<times> string list \<Rightarrow> string list \<times> string list" where
  "appendRelationTargets relationRecord = (\<lambda>(contradicts, supersedes).
     let contradicts' = collectExplicitLinkedMemoryIds relationRecord contradictionLinkKeys contradicts;
         supersedes' = collectExplicitLinkedMemoryIds relationRecord supersedesLinkKeys supersedes;
         targetIds = collectExplicitLinkedMemoryIds relationRecord relationTargetKeys []
     in case toRelationKind (readRecordValue relationRecord relationKindKeys) of
          None \<Rightarrow> (contradicts', supersedes')
        | Some Contradicts \<Rightarrow> (fold setAdd targetIds contradicts', supersedes')
        | Some Supersedes \<Rightarrow> (contradicts', fold setAdd targetIds supersedes'))"

definition chronologyOfContainer :: "js_value \<Rightarrow> string list \<times> string list \<Rightarrow> string list \<times> string list" where
  "chronologyOfContainer container = (\<lambda>(contradicts, supersedes).
     fold (\<lambda>relationKey acc.
         if hasOwn container relationKey
         then fold appendRelationTargets (toRelationRecords (getProp relationKey container)) acc else acc)
       relationCollectionKeys
       (collectExplicitLinkedMemoryIds container contradictionLinkKeys contradicts,
        collectExplicitLinkedMemoryIds container supersedesLinkKeys supersedes))"

definition chronologyContainers :: "js_value \<Rightarrow> js_value list" where
  "chronologyContainers payloadRecord =
     (let metadataRecord = subRecord payloadRecord [''metadata''] in
      [payloadRecord, metadataRecord, subRecord payloadRecord [''chronology''], subRecord payloadRecord [''lineage''],
       subRecord metadataRecord [''chronology''], subRecord metadataRecord [''lineage'']])"

definition toHitChronology :: "host \<Rightarrow> js_value \<Rightarrow> string \<Rightarrow> HitChronology" where
  "toHitChronology h payloadRecord memoryId =
     (if payloadRecord = Null then emptyHitChronology
      else
        (let (contradicts, supersedes) = fold chronologyOfContainer (chronologyContainers payloadRecord) ([], []);
             contradicts' = filter (\<lambda>x. x \<noteq> memoryId) contradicts;
             supersedes' = filter (\<lambda>x. x \<noteq> memoryId) supersedes
         in if contradicts' = [] \<and> supersedes' = [] then emptyHitChronology
            else \<lparr>hc_contradictsMemoryIds = toSortedMemoryIds h contradicts',
                  hc_supersedesMemoryIds = toSortedMemoryIds h supersedes'\<rparr>))"

section \<open>Excerpt\<close>

definition preferredKeys :: "string list" where
  "preferredKeys = [''summary'', ''content'', ''text'', ''description'', ''note'', ''details'']"

definition toExcerpt :: "string \<Rightarrow> js_value \<Rightarrow> string" where
  "toExcerpt title payloadRecord =
     (let texts = List.map_filter (\<lambda>k. toOptionalTrimmedString (getProp k payloadRecord)) preferredKeys;
          excerpt = (case texts of [] \<Rightarrow> title | t # _ \<Rightarrow> t)
      in if 220 < length excerpt then take 217 excerpt @ ''...'' else excerpt)"

end
