(* ===== verification/Retrieval_Scopes.thy ===== *)
theory Retrieval_Scopes
  imports Retrieval_Model Worklist
begin

text \<open>
  Which scopes a retrieval may see (retrieval-service.ts, lines 1533-1652 and 1705-1825): selectors
  and the authorization matrix of a request, and \<open>resolveAllowedScopeIds\<close>, whose two worklists run
  on the loop of \<open>Worklist\<close>. The theorem gives the allowed scopes as a closure of the scope tree.
\<close>

section \<open>Selectors and authorization\<close>

text \<open>\<open>a ?? b ?? ...\<close> on optional values.\<close>

fun coalesce :: "'a option list \<Rightarrow> 'a option" where
  "coalesce [] = None"
| "coalesce (x # xs) = (case x of None \<Rightarrow> coalesce xs | Some y \<Rightarrow> Some y)"

record NormalizedScopeSelectors =
  ns_projectId :: "string option"
  ns_roleId :: "string option"
  ns_userId :: "string option"

record NormalizedScopeAuthorization =
  na_tenantId :: "string option"
  na_allowedProjectIds :: "string list"
  na_allowedRoleIds :: "string list"
  na_allowedUserIds :: "string list"

definition resolveScopeSelectors :: "RetrievalRequest \<Rightarrow> NormalizedScopeSelectors" where
  "resolveScopeSelectors request =
     (let scope = (\<lambda>f. Option.bind (rt_scope request) f) in
      \<lparr>ns_projectId = coalesce [scope si_projectId, rt_projectId request],
       ns_roleId = coalesce [scope si_roleId, scope si_jobRoleId, rt_roleId request, rt_jobRoleId request],
       ns_userId = coalesce [scope si_userId, rt_userId request]\<rparr>)"

definition listed :: "string list option \<Rightarrow> string list" where
  "listed xs = (case xs of None \<Rightarrow> [] | Some ys \<Rightarrow> ys)"

definition resolveScopeAuthorization :: "RetrievalRequest \<Rightarrow> NormalizedScopeAuthorization option" where
  "resolveScopeAuthorization request =
     (case coalesce [rt_scopeAuthorization request, rt_scope_authorization request] of
        None \<Rightarrow> None
      | Some a \<Rightarrow> Some
          \<lparr>na_tenantId = coalesce [sa_tenantId a, sa_tenant_id a],
           na_allowedProjectIds = setOrder (listed (sa_projectIds a) @ listed (sa_project_ids a)),
           na_allowedRoleIds = setOrder (listed (sa_roleIds a) @ listed (sa_role_ids a) @ listed (sa_jobRoleIds a)
             @ listed (sa_job_role_ids a)),
           na_allowedUserIds = setOrder (listed (sa_userIds a) @ listed (sa_user_ids a))\<rparr>)"

definition outside :: "string option \<Rightarrow> string list \<Rightarrow> bool" where
  "outside x allowed = (case x of None \<Rightarrow> False | Some s \<Rightarrow> s \<notin> set allowed)"

definition resolveScopeAuthorizationSelectorDenyMessage ::
    "RetrievalRequest \<Rightarrow> NormalizedScopeSelectors \<Rightarrow> NormalizedScopeAuthorization option \<Rightarrow> string option" where
  "resolveScopeAuthorizationSelectorDenyMessage request selectors scopeAuthorization =
     (case scopeAuthorization of
        None \<Rightarrow> None
      | Some a \<Rightarrow>
          let denied = (\<lambda>field value. Some (''Scope authorization denied retrieval '' @ field @ '' '' @ [CHR 0x22] @ value @ [CHR 0x22] @ ''.'')) in
          if na_tenantId a \<noteq> None \<and> na_tenantId a \<noteq> Some (rt_spaceId request)
          then denied ''tenant'' (rt_spaceId request)
          else if outside (ns_projectId selectors) (na_allowedProjectIds a)
          then denied ''selector projectId'' (the (ns_projectId selectors))
          else if outside (ns_roleId selectors) (na_allowedRoleIds a)
          then denied ''selector roleId'' (the (ns_roleId selectors))
          else if outside (ns_userId selectors) (na_allowedUserIds a)
          then denied ''selector userId'' (the (ns_userId selectors))
          else None)"

definition inside :: "string option \<Rightarrow> string list \<Rightarrow> bool" where
  "inside x allowed = (case x of None \<Rightarrow> False | Some s \<Rightarrow> s \<in> set allowed)"

definition isScopeRowAuthorizedByMatrix :: "ParsedScopeRow \<Rightarrow> NormalizedScopeAuthorization \<Rightarrow> bool" where
  "isScopeRowAuthorizedByMatrix scopeRow a =
     (case sc_scopeLevel scopeRow of
        CommonLevel \<Rightarrow> True
      | ProjectLevel \<Rightarrow> inside (sc_projectId scopeRow) (na_allowedProjectIds a)
      | JobRoleLevel \<Rightarrow> inside (sc_roleId scopeRow) (na_allowedRoleIds a)
      | UserLevel \<Rightarrow> inside (sc_userId scopeRow) (na_allowedUserIds a))"

section \<open>Allowed scopes\<close>

definition hasExplicitScopeSelectors :: "NormalizedScopeSelectors \<Rightarrow> bool" where
  "hasExplicitScopeSelectors selectors =
     (ns_projectId selectors \<noteq> None \<or> ns_roleId selectors \<noteq> None \<or> ns_userId selectors \<noteq> None)"

definition scopeMap :: "ParsedScopeRow list \<Rightarrow> (string \<times> ParsedScopeRow) list" where
  "scopeMap scopeRows = fold (\<lambda>row. AList.update (sc_scopeId row) row) scopeRows []"

definition parentGraph :: "ParsedScopeRow list \<Rightarrow> string graph" where
  "parentGraph scopeRows =
     map (\<lambda>(scopeId, row). (scopeId, case sc_parentScopeId row of None \<Rightarrow> [] | Some p \<Rightarrow> [p])) (scopeMap scopeRows)"

text \<open>\<open>childScopeIdsByParent\<close>\<close>

definition childGraph :: "ParsedScopeRow list \<Rightarrow> string graph" where
  "childGraph scopeRows =
     fold (\<lambda>row g. case sc_parentScopeId row of
         None \<Rightarrow> g
       | Some p \<Rightarrow> AList.update p (nexts g p @ [sc_scopeId row]) g) scopeRows []"

definition isSeed :: "NormalizedScopeSelectors \<Rightarrow> ParsedScopeRow \<Rightarrow> bool" where
  "isSeed selectors row =
     (case sc_scopeLevel row of
        CommonLevel \<Rightarrow> False
      | ProjectLevel \<Rightarrow> ns_projectId selectors \<noteq> None \<and> sc_projectId row = ns_projectId selectors
      | JobRoleLevel \<Rightarrow> ns_roleId selectors \<noteq> None \<and> sc_roleId row = ns_roleId selectors
      | UserLevel \<Rightarrow> ns_userId selectors \<noteq> None \<and> sc_userId row = ns_userId selectors)"

definition selectedScopeIds :: "ParsedScopeRow list \<Rightarrow> NormalizedScopeSelectors \<Rightarrow> string list" where
  "selectedScopeIds scopeRows selectors =
     (let base = setOrder (map sc_scopeId (filter (\<lambda>row. sc_scopeLevel row = CommonLevel \<or> isSeed selectors row) scopeRows));
          seeds = setOrder (map sc_scopeId (filter (isSeed selectors) scopeRows));
          (withAncestors, _) = explore (parentGraph scopeRows) (rev base) base [];
          (withDescendants, _) = explore (childGraph scopeRows) (rev seeds) withAncestors []
      in withDescendants)"

definition resolveAllowedScopeIds ::
    "ParsedScopeRow list \<Rightarrow> NormalizedScopeSelectors \<Rightarrow> NormalizedScopeAuthorization option \<Rightarrow> string list" where
  "resolveAllowedScopeIds scopeRows selectors scopeAuthorization =
     (let allowedScopeIds =
            (if \<not> hasExplicitScopeSelectors selectors then setOrder (map sc_scopeId scopeRows)
             else selectedScopeIds scopeRows selectors)
      in case scopeAuthorization of
           None \<Rightarrow> allowedScopeIds
         | Some a \<Rightarrow>
             let matrixAllowedScopeIds = setOrder (map sc_scopeId (filter (\<lambda>row. isScopeRowAuthorizedByMatrix row a) scopeRows))
             in filter (\<lambda>scopeId. scopeId \<in> set matrixAllowedScopeIds) allowedScopeIds)"

section \<open>The closure they form\<close>

text \<open>Declaratively: without selectors every scope; otherwise the common and selected scopes, their
  ancestors, and what descends from a selected scope through scopes that are not among those.\<close>

definition parentRel :: "ParsedScopeRow list \<Rightarrow> (string \<times> string) set" where
  "parentRel scopeRows = {(s, p). \<exists>row\<in>set scopeRows. sc_scopeId row = s \<and> sc_parentScopeId row = Some p}"

definition baseScopes :: "ParsedScopeRow list \<Rightarrow> NormalizedScopeSelectors \<Rightarrow> string set" where
  "baseScopes scopeRows selectors =
     {sc_scopeId row | row. row \<in> set scopeRows \<and> (sc_scopeLevel row = CommonLevel \<or> isSeed selectors row)}"

definition seedScopes :: "ParsedScopeRow list \<Rightarrow> NormalizedScopeSelectors \<Rightarrow> string set" where
  "seedScopes scopeRows selectors = {sc_scopeId row | row. row \<in> set scopeRows \<and> isSeed selectors row}"

inductive descends :: "(string \<times> string) set \<Rightarrow> string set \<Rightarrow> string set \<Rightarrow> string \<Rightarrow> bool" for rel seeds block where
  child: "\<lbrakk>s \<in> seeds; (c, s) \<in> rel; c \<notin> block\<rbrakk> \<Longrightarrow> descends rel seeds block c"
| deeper: "\<lbrakk>descends rel seeds block s; (c, s) \<in> rel; c \<notin> block\<rbrakk> \<Longrightarrow> descends rel seeds block c"

definition visibleScopes :: "ParsedScopeRow list \<Rightarrow> NormalizedScopeSelectors \<Rightarrow> string set" where
  "visibleScopes scopeRows selectors =
     (if \<not> hasExplicitScopeSelectors selectors then sc_scopeId ` set scopeRows
      else
        (let upward = (parentRel scopeRows)\<^sup>* `` baseScopes scopeRows selectors
         in upward \<union> {s. descends (parentRel scopeRows) (seedScopes scopeRows selectors) upward s}))"

lemma scopeMap_distinct:
  "distinct (map sc_scopeId scopeRows) \<Longrightarrow> scopeMap scopeRows = map (\<lambda>row. (sc_scopeId row, row)) scopeRows"
  by (simp add: scopeMap_def map_by_key)

lemma parentGraph_edges:
  assumes "distinct (map sc_scopeId scopeRows)"
  shows "p \<in> set (nexts (parentGraph scopeRows) s) \<longleftrightarrow> (s, p) \<in> parentRel scopeRows"
proof -
  have "map_of (parentGraph scopeRows) s = map_option (\<lambda>row. case sc_parentScopeId row of None \<Rightarrow> [] | Some p \<Rightarrow> [p])
      (find (\<lambda>row. sc_scopeId row = s) scopeRows)"
    by (simp add: parentGraph_def scopeMap_distinct [OF assms] comp_def map_of_by_key)
  moreover have "row = row'" if "row \<in> set scopeRows" "row' \<in> set scopeRows" "sc_scopeId row = sc_scopeId row'" for row row'
    using assms that by (auto simp: distinct_map dest: inj_onD)
  ultimately show ?thesis
    by (cases "find (\<lambda>row. sc_scopeId row = s) scopeRows")
      (fastforce simp: nexts_def parentRel_def find_by_key [OF assms] find_None_iff split: option.splits)+
qed

lemma childGraph_edges: "c \<in> set (nexts (childGraph scopeRows) p) \<longleftrightarrow> (c, p) \<in> parentRel scopeRows"
proof -
  let ?step = "\<lambda>row g. case sc_parentScopeId row of None \<Rightarrow> g | Some p \<Rightarrow> AList.update p (nexts g p @ [sc_scopeId row]) g"
  have "c \<in> set (nexts (fold ?step rows g) p) \<longleftrightarrow> c \<in> set (nexts g p) \<or> (c, p) \<in> parentRel rows" for rows g
  proof (induction rows arbitrary: g)
    case (Cons row rows)
    have "c \<in> set (nexts (?step row g) p) \<longleftrightarrow> c \<in> set (nexts g p) \<or> sc_scopeId row = c \<and> sc_parentScopeId row = Some p"
      by (auto simp: nexts_def update_conv' split: option.splits)
    with Cons.IH [of "?step row g"] show ?case by (auto simp: parentRel_def)
  qed (simp add: parentRel_def)
  then show ?thesis by (simp add: childGraph_def nexts_def)
qed

text \<open>What a loop over a graph adds to its start, when the graph is the parent relation.\<close>

lemma closure_is_image:
  assumes "\<And>p s. p \<in> set (nexts g s) \<longleftrightarrow> (s, p) \<in> rel"
  shows "S \<union> reached g S S = rel\<^sup>* `` S"
proof (intro subset_antisym subsetI)
  fix y assume "y \<in> S \<union> reached g S S"
  moreover have "y \<in> rel\<^sup>* `` S" if "y \<in> reached g S S"
    using that by induction (auto simp: assms intro: rtrancl_into_rtrancl)
  ultimately show "y \<in> rel\<^sup>* `` S" by auto
next
  fix y assume "y \<in> rel\<^sup>* `` S"
  then obtain x where "(x, y) \<in> rel\<^sup>*" "x \<in> S" by auto
  then show "y \<in> S \<union> reached g S S"
  proof induction
    case (step z w)
    then show ?case by (auto simp: assms intro: reached.first reached.onward)
  qed simp
qed

lemma reached_descends:
  assumes "\<And>p c. c \<in> set (nexts g p) \<longleftrightarrow> (c, p) \<in> rel"
  shows "reached g seeds block = {s. descends rel seeds block s}"
proof (intro subset_antisym subsetI; simp)
  fix y assume "y \<in> reached g seeds block"
  then show "descends rel seeds block y" by induction (auto simp: assms intro: descends.intros)
next
  fix y assume "descends rel seeds block y"
  then show "y \<in> reached g seeds block" by induction (auto simp: assms intro: reached.intros)
qed

lemma selectedScopeIds_set:
  assumes "distinct (map sc_scopeId scopeRows)" and "hasExplicitScopeSelectors selectors"
  shows "set (selectedScopeIds scopeRows selectors) = visibleScopes scopeRows selectors"
proof -
  define base where "base = setOrder (map sc_scopeId (filter (\<lambda>row. sc_scopeLevel row = CommonLevel \<or> isSeed selectors row) scopeRows))"
  define seeds where "seeds = setOrder (map sc_scopeId (filter (isSeed selectors) scopeRows))"
  have base: "set base = baseScopes scopeRows selectors" by (auto simp: base_def baseScopes_def set_setOrder)
  have seeds: "set seeds = seedScopes scopeRows selectors" by (auto simp: seeds_def seedScopes_def set_setOrder)
  obtain up popped where up: "explore (parentGraph scopeRows) (rev base) base [] = (up, popped)" by fastforce
  obtain down popped' where down: "explore (childGraph scopeRows) (rev seeds) up [] = (down, popped')" by fastforce
  have "set up = (parentRel scopeRows)\<^sup>* `` baseScopes scopeRows selectors"
    using explore_reaches(1) [OF up] closure_is_image [OF parentGraph_edges [OF assms(1)]] by (simp add: base)
  moreover have "set down = set up \<union> {s. descends (parentRel scopeRows) (seedScopes scopeRows selectors) (set up) s}"
    using explore_reaches(1) [OF down] by (simp add: seeds reached_descends [OF childGraph_edges])
  moreover have "selectedScopeIds scopeRows selectors = down"
    using up down by (simp add: selectedScopeIds_def base_def seeds_def Let_def)
  ultimately show ?thesis using assms(2) by (simp add: visibleScopes_def Let_def)
qed

text \<open>C14: The scopes a retrieval may read are exactly those the scope tree and the authorization
  matrix allow. Without selectors: every scope. With selectors: the common and the selected scopes,
  everything above them, and what hangs below a selected scope. With an authorization, only those of
  them with a row that the matrix admits.\<close>

theorem allowed_scopes:
  assumes "distinct (map sc_scopeId scopeRows)"
  shows "set (resolveAllowedScopeIds scopeRows selectors scopeAuthorization) =
    {s \<in> visibleScopes scopeRows selectors. case scopeAuthorization of
        None \<Rightarrow> True
      | Some a \<Rightarrow> \<exists>row. row \<in> set scopeRows \<and> sc_scopeId row = s \<and> isScopeRowAuthorizedByMatrix row a}"
proof (cases "hasExplicitScopeSelectors selectors")
  case True
  then show ?thesis
    using selectedScopeIds_set [OF assms True]
    by (auto simp: resolveAllowedScopeIds_def Let_def set_setOrder split: option.splits)
next
  case False
  then show ?thesis
    by (auto simp: resolveAllowedScopeIds_def visibleScopes_def Let_def set_setOrder image_iff split: option.splits)
qed

text \<open>Witness: a project with two job roles, selected by project under an authorization that lists
  the project and one of the roles.\<close>

definition sampleScopes :: "ParsedScopeRow list" where
  "sampleScopes =
     [\<lparr>sc_scopeId = ''c'', sc_scopeLevel = CommonLevel, sc_projectId = None, sc_roleId = None, sc_userId = None, sc_parentScopeId = None\<rparr>,
      \<lparr>sc_scopeId = ''p'', sc_scopeLevel = ProjectLevel, sc_projectId = Some ''x'', sc_roleId = None, sc_userId = None, sc_parentScopeId = Some ''c''\<rparr>,
      \<lparr>sc_scopeId = ''r'', sc_scopeLevel = JobRoleLevel, sc_projectId = Some ''x'', sc_roleId = Some ''dev'', sc_userId = None, sc_parentScopeId = Some ''p''\<rparr>,
      \<lparr>sc_scopeId = ''q'', sc_scopeLevel = JobRoleLevel, sc_projectId = Some ''x'', sc_roleId = Some ''ops'', sc_userId = None, sc_parentScopeId = Some ''p''\<rparr>]"

definition sampleAuthorization :: NormalizedScopeAuthorization where
  "sampleAuthorization = \<lparr>na_tenantId = None, na_allowedProjectIds = [''x''], na_allowedRoleIds = [''dev''], na_allowedUserIds = []\<rparr>"

theorem allowed_scopes_witness:
  defines "selectors \<equiv> \<lparr>ns_projectId = Some ''x'', ns_roleId = None, ns_userId = None\<rparr>"
  shows "resolveAllowedScopeIds sampleScopes selectors (Some sampleAuthorization) = [''c'', ''p'', ''r''] \<and>
    {s \<in> visibleScopes sampleScopes selectors.
      \<exists>row. row \<in> set sampleScopes \<and> sc_scopeId row = s \<and> isScopeRowAuthorizedByMatrix row sampleAuthorization} = {''c'', ''p'', ''r''}"
proof -
  have run: "resolveAllowedScopeIds sampleScopes selectors (Some sampleAuthorization) = [''c'', ''p'', ''r'']"
    by (simp add: selectors_def sampleScopes_def sampleAuthorization_def resolveAllowedScopeIds_def selectedScopeIds_def
        hasExplicitScopeSelectors_def isSeed_def scopeMap_def parentGraph_def childGraph_def nexts_def explore.simps
        isScopeRowAuthorizedByMatrix_def inside_def Let_def)
  have "distinct (map sc_scopeId sampleScopes)" by (simp add: sampleScopes_def)
  from allowed_scopes [OF this, of selectors "Some sampleAuthorization"] run show ?thesis by simp
qed

end
