(* ===== verification/Retrieval_Ranking.thy ===== *)
theory Retrieval_Ranking
  imports Retrieval_Payload Retrieval_Scopes
begin

text \<open>
  Ranking of retrieval candidates (retrieval-service.ts, lines 106-120, 575-582 and 1055-1405):
  the weights of a request, the signals read from a payload, the decay signal relative to all
  candidates, the score and the order of the hits. Numbers are binary64 as in \<open>Js_Number\<close>;
  timestamps are integers, since the row readers only accept safe integers.
\<close>

section \<open>Tokens and scores\<close>

definition isTokenChar :: "char \<Rightarrow> bool" where
  "isTokenChar c = (let n = (of_char c :: nat) in (97 \<le> n \<and> n \<le> 122) \<or> (48 \<le> n \<and> n \<le> 57))"

text \<open>\<open>s.match(/[a-z0-9]+/g) ?? []\<close>\<close>

function tokenRuns :: "string \<Rightarrow> string list" where
  "tokenRuns s =
     (let rest = dropWhile (\<lambda>c. \<not> isTokenChar c) s in
      if rest = [] then [] else takeWhile isTokenChar rest # tokenRuns (dropWhile isTokenChar rest))"
  by pat_completeness auto

lemma token_run_shorter:
  assumes "dropWhile (\<lambda>c. \<not> isTokenChar c) s \<noteq> []"
  shows "length (dropWhile isTokenChar (dropWhile (\<lambda>c. \<not> isTokenChar c) s)) < length s"
proof -
  obtain c cs where c: "dropWhile (\<lambda>c. \<not> isTokenChar c) s = c # cs" using assms by (cases "dropWhile (\<lambda>c. \<not> isTokenChar c) s") auto
  then have "isTokenChar c" using hd_dropWhile [OF assms] by simp
  moreover have "length (c # cs) \<le> length s" unfolding c [symmetric] by (rule length_dropWhile_le)
  ultimately show ?thesis using length_dropWhile_le [of isTokenChar cs] by (simp add: c)
qed

termination tokenRuns
  by (relation "measure length") (auto simp: token_run_shorter)

declare tokenRuns.simps [simp del]

definition tokenize :: "string \<Rightarrow> string list" where
  "tokenize s = setOrder (tokenRuns (toLowerCase s))"

definition clampScore :: "jsnum \<Rightarrow> jsnum" where
  "clampScore x = jmin (jint 1) (jmax (jint 0) (jdiv (math_round (jmul x (jint 1000000))) (jint 1000000)))"

definition toScopeRank :: "ScopeLevel \<Rightarrow> int" where
  "toScopeRank l = (case l of CommonLevel \<Rightarrow> 0 | ProjectLevel \<Rightarrow> 1 | JobRoleLevel \<Rightarrow> 2 | UserLevel \<Rightarrow> 3)"

section \<open>Weights\<close>

record NormalizedRankingWeights =
  nw_relevance :: jsnum
  nw_evidenceStrength :: jsnum
  nw_decay :: jsnum
  nw_humanWeight :: jsnum
  nw_utility :: jsnum

definition defaultRankingWeights :: NormalizedRankingWeights where
  "defaultRankingWeights =
     \<lparr>nw_relevance = round64 (3 / 5), nw_evidenceStrength = round64 (1 / 10), nw_decay = round64 (3 / 20),
      nw_humanWeight = round64 (3 / 40), nw_utility = round64 (3 / 40)\<rparr>"

definition toNormalizedRankingWeights :: "NormalizedRankingWeights \<Rightarrow> NormalizedRankingWeights" where
  "toNormalizedRankingWeights w =
     (let totalWeight = jadd (jadd (jadd (jadd (nw_relevance w) (nw_evidenceStrength w)) (nw_decay w))
            (nw_humanWeight w)) (nw_utility w)
      in if jle totalWeight (jint 0) then defaultRankingWeights
         else \<lparr>nw_relevance = clampScore (jdiv (nw_relevance w) totalWeight),
               nw_evidenceStrength = clampScore (jdiv (nw_evidenceStrength w) totalWeight),
               nw_decay = clampScore (jdiv (nw_decay w) totalWeight),
               nw_humanWeight = clampScore (jdiv (nw_humanWeight w) totalWeight),
               nw_utility = clampScore (jdiv (nw_utility w) totalWeight)\<rparr>)"

text \<open>\<open>x ?? 0\<close>\<close>

definition orZero :: "jsnum option list \<Rightarrow> jsnum" where
  "orZero xs = (case coalesce xs of None \<Rightarrow> jint 0 | Some x \<Rightarrow> x)"

definition resolveRankingWeights :: "RetrievalRequest \<Rightarrow> NormalizedRankingWeights" where
  "resolveRankingWeights request =
     (case coalesce [rt_rankingWeights request, rt_ranking_weights request] of
        None \<Rightarrow> defaultRankingWeights
      | Some w \<Rightarrow> toNormalizedRankingWeights
          \<lparr>nw_relevance = orZero [rw_relevance w],
           nw_evidenceStrength = orZero [rw_evidenceStrength w, rw_evidence_strength w],
           nw_decay = orZero [rw_decay w],
           nw_humanWeight = orZero [rw_humanWeight w, rw_human_weight w],
           nw_utility = orZero [rw_utility w, rw_utilityScore w, rw_utility_score w]\<rparr>)"

section \<open>Signals\<close>

definition neutralSignalScore :: jsnum where
  "neutralSignalScore = JFin (1 / 2)"

definition toOptionalFiniteNumber :: "js_value \<Rightarrow> jsnum option" where
  "toOptionalFiniteNumber v = (case v of Num x \<Rightarrow> if isFinite x then Some x else None | _ \<Rightarrow> None)"

text \<open>The first finite number, key groups outermost.\<close>

definition readNumericSignalFromContainers :: "js_value list \<Rightarrow> string list list \<Rightarrow> jsnum option" where
  "readNumericSignalFromContainers containers keyGroups =
     coalesce (concat (map (\<lambda>ks. map (\<lambda>container. toOptionalFiniteNumber (readRecordValue container ks)) containers)
       keyGroups))"

definition resolveSignalContainers :: "js_value \<Rightarrow> js_value list" where
  "resolveSignalContainers payloadRecord =
     (let metadataRecord = subRecord payloadRecord [''metadata''] in
      [payloadRecord, metadataRecord, subRecord payloadRecord [''ranking'', ''scores''],
       subRecord metadataRecord [''ranking'', ''scores''], subRecord payloadRecord [''evidence''],
       subRecord metadataRecord [''evidence'']])"

definition countKeyGroups :: "string list list" where
  "countKeyGroups =
     [[''evidencePointers'', ''evidence_pointers'', ''pointers''],
      [''evidenceLinks'', ''evidence_links'', ''links''],
      [''evidenceIds'', ''evidence_ids'', ''ids''],
      [''evidenceEventIds'', ''evidence_event_ids'', ''eventIds'', ''event_ids''],
      [''evidenceEpisodeIds'', ''evidence_episode_ids'', ''episodeIds'', ''episode_ids'']]"

definition evidenceCount :: "js_value list \<Rightarrow> nat" where
  "evidenceCount containers =
     fold (\<lambda>ks n. n + fold (\<lambda>container m. case readRecordValue container ks of
         Arr vs \<Rightarrow> max m (length vs) | _ \<Rightarrow> m) containers 0) countKeyGroups 0"

definition toEvidenceStrengthSignal :: "js_value \<Rightarrow> jsnum" where
  "toEvidenceStrengthSignal payloadRecord =
     (let containers = resolveSignalContainers payloadRecord in
      case readNumericSignalFromContainers containers
          [[''evidenceStrength'', ''evidence_strength''], [''evidenceScore'', ''evidence_score'']] of
        Some x \<Rightarrow> clampScore x
      | None \<Rightarrow>
          let n = int (evidenceCount containers) in
          if n \<le> 0 then jint 0 else clampScore (jdiv (jint n) (jadd (jint n) (jint 1))))"

definition orNeutral :: "jsnum option \<Rightarrow> jsnum" where
  "orNeutral x = (case x of None \<Rightarrow> neutralSignalScore | Some y \<Rightarrow> y)"

definition toHumanWeightSignal :: "js_value \<Rightarrow> jsnum" where
  "toHumanWeightSignal payloadRecord =
     clampScore (orNeutral (readNumericSignalFromContainers (resolveSignalContainers payloadRecord)
       [[''humanWeight'', ''human_weight''], [''humanScore'', ''human_score'']]))"

definition toUtilitySignal :: "js_value \<Rightarrow> jsnum" where
  "toUtilitySignal payloadRecord =
     clampScore (orNeutral (readNumericSignalFromContainers (resolveSignalContainers payloadRecord)
       [[''utility'', ''utilityScore'', ''utility_score''], [''learnedUtility'', ''learned_utility'']]))"

definition computeQueryRelevanceSignal :: "string list \<Rightarrow> string \<Rightarrow> string \<Rightarrow> jsnum option" where
  "computeQueryRelevanceSignal queryTokens queryNormalized searchableText =
     (let matchedTokenCount = length (filter (strIncludes searchableText) queryTokens);
          exactQueryBoost = (if queryNormalized \<noteq> [] \<and> strIncludes searchableText queryNormalized
            then round64 (3 / 20) else jint 0)
      in if queryTokens = [] then Some (clampScore (jadd neutralSignalScore exactQueryBoost))
         else if matchedTokenCount = 0 then None
         else Some (clampScore (jadd (jdiv (jint (int matchedTokenCount)) (jint (int (length queryTokens)))) exactQueryBoost)))"

record RankingSignals =
  rs_relevance :: jsnum
  rs_evidenceStrength :: jsnum
  rs_decay :: jsnum
  rs_humanWeight :: jsnum
  rs_utility :: jsnum

text \<open>\<open>Omit<RankingSignals, "decay">\<close>\<close>

record CandidateSignals =
  cs_relevance :: jsnum
  cs_evidenceStrength :: jsnum
  cs_humanWeight :: jsnum
  cs_utility :: jsnum

definition toRankingSignals :: "js_value \<Rightarrow> jsnum \<Rightarrow> CandidateSignals" where
  "toRankingSignals payloadRecord relevanceSignal =
     \<lparr>cs_relevance = relevanceSignal, cs_evidenceStrength = toEvidenceStrengthSignal payloadRecord,
      cs_humanWeight = toHumanWeightSignal payloadRecord, cs_utility = toUtilitySignal payloadRecord\<rparr>"

section \<open>Candidates and hits\<close>

record PlannedHitCandidate =
  pc_memoryId :: string
  pc_layer :: MemoryLayer
  pc_excerpt :: string
  pc_scopeId :: string
  pc_scopeLevel :: ScopeLevel
  pc_scopeRank :: int
  pc_updatedAtMillis :: int
  pc_expiresAtMillis :: "int option"
  pc_rankingSignals :: CandidateSignals
  pc_chronology :: HitChronology
  pc_provenance :: "ExplainabilityProvenance option"

record PlannedHit =
  ph_memoryId :: string
  ph_layer :: MemoryLayer
  ph_score :: jsnum
  ph_excerpt :: string
  ph_scopeId :: string
  ph_scopeLevel :: ScopeLevel
  ph_scopeRank :: int
  ph_updatedAtMillis :: int
  ph_rankingSignals :: RankingSignals
  ph_chronology :: HitChronology
  ph_reconciledMemoryIds :: "string list"
  ph_provenance :: "ExplainabilityProvenance option"

record DecaySignalContext =
  dc_minUpdatedAtMillis :: int
  dc_maxUpdatedAtMillis :: int
  dc_maxRemainingLifespanMillis :: int

definition widenDecayContext :: "PlannedHitCandidate \<Rightarrow> DecaySignalContext \<Rightarrow> DecaySignalContext" where
  "widenDecayContext c ctx =
     \<lparr>dc_minUpdatedAtMillis = min (dc_minUpdatedAtMillis ctx) (pc_updatedAtMillis c),
      dc_maxUpdatedAtMillis = max (dc_maxUpdatedAtMillis ctx) (pc_updatedAtMillis c),
      dc_maxRemainingLifespanMillis =
        (case pc_expiresAtMillis c of
           None \<Rightarrow> dc_maxRemainingLifespanMillis ctx
         | Some e \<Rightarrow> max (dc_maxRemainingLifespanMillis ctx) (max 0 (e - pc_updatedAtMillis c)))\<rparr>"

definition buildDecaySignalContext :: "PlannedHitCandidate list \<Rightarrow> DecaySignalContext" where
  "buildDecaySignalContext candidates =
     (case candidates of
        [] \<Rightarrow> \<lparr>dc_minUpdatedAtMillis = 0, dc_maxUpdatedAtMillis = 0, dc_maxRemainingLifespanMillis = 0\<rparr>
      | c # _ \<Rightarrow> fold widenDecayContext candidates
          \<lparr>dc_minUpdatedAtMillis = pc_updatedAtMillis c, dc_maxUpdatedAtMillis = pc_updatedAtMillis c,
           dc_maxRemainingLifespanMillis = 0\<rparr>)"

definition computeDecaySignal :: "DecaySignalContext \<Rightarrow> int \<Rightarrow> int option \<Rightarrow> jsnum" where
  "computeDecaySignal ctx updatedAtMillis expiresAtMillis =
     (let recencySignal =
            (if dc_maxUpdatedAtMillis ctx = dc_minUpdatedAtMillis ctx then jint 1
             else jdiv (jint (updatedAtMillis - dc_minUpdatedAtMillis ctx))
               (jint (dc_maxUpdatedAtMillis ctx - dc_minUpdatedAtMillis ctx)));
          expirySignal =
            (case expiresAtMillis of
               None \<Rightarrow> jint 1
             | Some e \<Rightarrow>
                 if 0 < dc_maxRemainingLifespanMillis ctx
                 then jdiv (jint (max 0 (e - updatedAtMillis))) (jint (dc_maxRemainingLifespanMillis ctx))
                 else jint 1)
      in clampScore (jadd (jmul recencySignal (round64 (7 / 10))) (jmul expirySignal (round64 (3 / 10)))))"

definition computeRankingScore :: "NormalizedRankingWeights \<Rightarrow> RankingSignals \<Rightarrow> jsnum" where
  "computeRankingScore w s =
     clampScore (jadd (jadd (jadd (jadd
       (jmul (nw_relevance w) (rs_relevance s))
       (jmul (nw_evidenceStrength w) (rs_evidenceStrength s)))
       (jmul (nw_decay w) (rs_decay s)))
       (jmul (nw_humanWeight w) (rs_humanWeight s)))
       (jmul (nw_utility w) (rs_utility s)))"

definition createPlannedHit :: "NormalizedRankingWeights \<Rightarrow> DecaySignalContext \<Rightarrow> PlannedHitCandidate \<Rightarrow> PlannedHit" where
  "createPlannedHit rankingWeights ctx c =
     (let s = pc_rankingSignals c;
          signals = \<lparr>rs_relevance = cs_relevance s, rs_evidenceStrength = cs_evidenceStrength s,
            rs_decay = computeDecaySignal ctx (pc_updatedAtMillis c) (pc_expiresAtMillis c),
            rs_humanWeight = cs_humanWeight s, rs_utility = cs_utility s\<rparr>
      in \<lparr>ph_memoryId = pc_memoryId c, ph_layer = pc_layer c, ph_score = computeRankingScore rankingWeights signals,
          ph_excerpt = pc_excerpt c, ph_scopeId = pc_scopeId c, ph_scopeLevel = pc_scopeLevel c,
          ph_scopeRank = pc_scopeRank c, ph_updatedAtMillis = pc_updatedAtMillis c, ph_rankingSignals = signals,
          ph_chronology = pc_chronology c, ph_reconciledMemoryIds = [], ph_provenance = pc_provenance c\<rparr>)"

text \<open>Scores are finite (\<open>planned_scores_unit\<close>), so their difference orders them.\<close>

definition comparePlannedHits :: "host \<Rightarrow> PlannedHit comparator" where
  "comparePlannedHits h =
     thenBy (descending (\<lambda>p. finiteValue (ph_score p)))
       (thenBy (descending ph_scopeRank)
         (thenBy (descending ph_updatedAtMillis) (key ph_memoryId (localeCompare h))))"

section \<open>Scores lie between 0 and 1\<close>

definition unitScore :: "jsnum \<Rightarrow> bool" where
  "unitScore x = (case x of JFin r \<Rightarrow> 0 \<le> r \<and> r \<le> 1 | _ \<Rightarrow> False)"

lemma unitScore_nonneg: "unitScore x \<Longrightarrow> jnonneg x"
  by (cases x) (simp_all add: unitScore_def jnonneg_def)

lemma jnonneg_jmul_unit: "\<lbrakk>unitScore x; unitScore y\<rbrakk> \<Longrightarrow> jnonneg (jmul x y)"
  by (cases x; cases y) (auto simp: unitScore_def)

lemma jnonneg_jmul_const: "\<lbrakk>jnonneg x; 0 < r\<rbrakk> \<Longrightarrow> jnonneg (jmul x (JFin r))"
  by (cases x) (auto simp: jinf_of_def)

lemma clamped_unit: "x \<noteq> JNaN \<Longrightarrow> unitScore (jmin (jint 1) (jmax (jint 0) x))"
  by (cases x) (auto simp: jmin_def jmax_def unitScore_def jint_def)

lemma clampScore_unit:
  assumes "x \<noteq> JNaN"
  shows "unitScore (clampScore x)"
proof -
  have mul: "jmul x (jint 1000000) \<noteq> JNaN"
    using assms by (cases x) (auto simp: jint_def jinf_of_def)
  have div: "jdiv (math_round y) (jint 1000000) \<noteq> JNaN" if "y \<noteq> JNaN" for y
    using that by (cases y) (auto simp: jint_def math_round_def jinf_of_def)
  show ?thesis unfolding clampScore_def by (intro clamped_unit div mul)
qed

lemma jnonneg_clamp [intro!]: "jnonneg x \<Longrightarrow> unitScore (clampScore x)"
  by (rule clampScore_unit) (auto simp: jnonneg_def)

lemma unitScore_basic [simp, intro]: "unitScore (jint 0)" "unitScore (jint 1)" "unitScore neutralSignalScore"
  by (simp_all add: unitScore_def jint_def neutralSignalScore_def)

lemma unitScore_round64 [intro]: "\<lbrakk>0 \<le> x; x \<le> 1\<rbrakk> \<Longrightarrow> unitScore (round64 x)"
  using fl_unit_interval [of x] by (simp add: unitScore_def round64_small)

definition unitWeights :: "NormalizedRankingWeights \<Rightarrow> bool" where
  "unitWeights w = (unitScore (nw_relevance w) \<and> unitScore (nw_evidenceStrength w) \<and> unitScore (nw_decay w) \<and>
     unitScore (nw_humanWeight w) \<and> unitScore (nw_utility w))"

definition unitSignals :: "RankingSignals \<Rightarrow> bool" where
  "unitSignals s = (unitScore (rs_relevance s) \<and> unitScore (rs_evidenceStrength s) \<and> unitScore (rs_decay s) \<and>
     unitScore (rs_humanWeight s) \<and> unitScore (rs_utility s))"

definition unitCandidate :: "CandidateSignals \<Rightarrow> bool" where
  "unitCandidate s = (unitScore (cs_relevance s) \<and> unitScore (cs_evidenceStrength s) \<and>
     unitScore (cs_humanWeight s) \<and> unitScore (cs_utility s))"

lemma default_weights_unit [simp]: "unitWeights defaultRankingWeights"
  by (auto simp: unitWeights_def defaultRankingWeights_def)

lemma jdiv_positive: "\<lbrakk>jnonneg x; unitScore x; jnonneg y; \<not> jle y (jint 0)\<rbrakk> \<Longrightarrow> jdiv x y \<noteq> JNaN"
  by (cases x; cases y) (auto simp: jnonneg_def unitScore_def jle_def jeq_def jint_def)

lemma normalized_weights_unit:
  assumes "unitWeights w"
  shows "unitWeights (toNormalizedRankingWeights w)"
proof -
  define total where "total = jadd (jadd (jadd (jadd (nw_relevance w) (nw_evidenceStrength w)) (nw_decay w))
            (nw_humanWeight w)) (nw_utility w)"
  have "jnonneg total"
    using assms unfolding total_def unitWeights_def by (intro jnonneg_jadd unitScore_nonneg) simp_all
  then have "unitScore (clampScore (jdiv x total))" if "unitScore x" "\<not> jle total (jint 0)" for x
    using that jdiv_positive [OF unitScore_nonneg] by (intro clampScore_unit) blast
  then show ?thesis
    using assms by (simp add: toNormalizedRankingWeights_def Let_def unitWeights_def flip: total_def)
      (simp add: flip: unitWeights_def)
qed

lemma coalesce_in: "coalesce xs = Some y \<Longrightarrow> Some y \<in> set xs"
  by (induction xs) (auto split: option.splits)

lemma weightOk_unit: "weightOk (Some x) \<Longrightarrow> unitScore x"
  by (auto simp: weightOk_def optionalOk_def unitScore_def dest!: isBetween_finite)

lemma orZero_unit: "list_all weightOk xs \<Longrightarrow> unitScore (orZero xs)"
  using coalesce_in [of xs] by (auto simp: orZero_def list_all_iff split: option.splits dest: weightOk_unit)

lemma resolved_weights_unit:
  assumes "retrievalRequestSchema request"
  shows "unitWeights (resolveRankingWeights request)"
proof (cases "coalesce [rt_rankingWeights request, rt_ranking_weights request]")
  case (Some w)
  then have "retrievalRankingWeightsSchema w"
    using assms by (auto simp: retrievalRequestSchema_def optionalOk_def split: option.splits)
  then show ?thesis
    unfolding resolveRankingWeights_def Some
    by (simp, intro normalized_weights_unit) (simp add: unitWeights_def retrievalRankingWeightsSchema_def orZero_unit)
qed (simp add: resolveRankingWeights_def)

lemma orNeutral_signal: "orNeutral (readNumericSignalFromContainers containers keyGroups) \<noteq> JNaN"
  by (auto simp: orNeutral_def readNumericSignalFromContainers_def neutralSignalScore_def toOptionalFiniteNumber_def
      isFinite_def split: option.splits js_value.splits if_splits dest!: coalesce_in)

lemma jnonneg_jdiv_int [intro!]: "\<lbrakk>0 \<le> a; 0 < b\<rbrakk> \<Longrightarrow> jnonneg (jdiv (jint a) (jint b))"
  by (auto simp: jint_def)

lemma jnonneg_consts [simp, intro]: "jnonneg neutralSignalScore" "jnonneg (round64 (numeral a / numeral b))"
  by (auto simp: unitScore_nonneg)

lemma relevance_unit: "computeQueryRelevanceSignal ts q txt = Some x \<Longrightarrow> unitScore x"
  by (auto simp: computeQueryRelevanceSignal_def Let_def split: if_splits)

lemma evidence_unit: "unitScore (toEvidenceStrengthSignal payloadRecord)"
proof (cases "readNumericSignalFromContainers (resolveSignalContainers payloadRecord)
    [[''evidenceStrength'', ''evidence_strength''], [''evidenceScore'', ''evidence_score'']]")
  case None
  have "jdiv (jint n) (jadd (jint n) (jint 1)) \<noteq> JNaN" if "0 < n" for n
  proof -
    have "1 \<le> fl (of_int n + 1)" using that fl_mono [of 1 "of_int n + 1"] by simp
    then show ?thesis by (auto simp: jint_def round64_def Let_def)
  qed
  then show ?thesis by (auto simp: toEvidenceStrengthSignal_def None Let_def intro!: clampScore_unit)
next
  case (Some x)
  with orNeutral_signal [of "resolveSignalContainers payloadRecord"
      "[[''evidenceStrength'', ''evidence_strength''], [''evidenceScore'', ''evidence_score'']]"]
  have "x \<noteq> JNaN" by (simp add: orNeutral_def)
  then show ?thesis by (simp add: toEvidenceStrengthSignal_def Some Let_def clampScore_unit)
qed

lemma candidate_signals_unit:
  "unitScore relevanceSignal \<Longrightarrow> unitCandidate (toRankingSignals payloadRecord relevanceSignal)"
  by (simp add: unitCandidate_def toRankingSignals_def evidence_unit toHumanWeightSignal_def toUtilitySignal_def
      clampScore_unit orNeutral_signal)

text \<open>The context brackets every candidate it was built from.\<close>

lemma widen_brackets:
  "dc_minUpdatedAtMillis (fold widenDecayContext cs ctx) \<le> dc_minUpdatedAtMillis ctx \<and>
   dc_maxUpdatedAtMillis ctx \<le> dc_maxUpdatedAtMillis (fold widenDecayContext cs ctx) \<and>
   (\<forall>c\<in>set cs. dc_minUpdatedAtMillis (fold widenDecayContext cs ctx) \<le> pc_updatedAtMillis c \<and>
     pc_updatedAtMillis c \<le> dc_maxUpdatedAtMillis (fold widenDecayContext cs ctx))"
proof (induction cs arbitrary: ctx)
  case (Cons c cs)
  from Cons.IH [of "widenDecayContext c ctx"] show ?case by (auto simp: widenDecayContext_def)
qed simp

lemma decay_brackets:
  "c \<in> set candidates \<Longrightarrow> dc_minUpdatedAtMillis (buildDecaySignalContext candidates) \<le> pc_updatedAtMillis c \<and>
     pc_updatedAtMillis c \<le> dc_maxUpdatedAtMillis (buildDecaySignalContext candidates)"
  using widen_brackets [of candidates]
  by (cases candidates) (auto simp: buildDecaySignalContext_def simp del: fold_simps)

lemma round64_positive:
  assumes "1 / 10 \<le> x" and "x \<le> 1"
  shows "\<exists>r. round64 x = JFin r \<and> 0 < r"
proof -
  have "\<bar>fl x - x\<bar> \<le> 1 / 2 ^ 53" using assms by (intro fl_error) simp
  moreover have "1 / 2 ^ 53 < (1 / 10 :: rat)" by simp
  ultimately have "0 < fl x" using assms by linarith
  then show ?thesis using fl_unit_interval [of x] assms by (simp add: round64_small)
qed

lemma jnonneg_jmul_fraction: "\<lbrakk>jnonneg x; 1 / 10 \<le> c; c \<le> 1\<rbrakk> \<Longrightarrow> jnonneg (jmul x (round64 c))"
  using round64_positive [of c] jnonneg_jmul_const [of x] by auto

lemma decay_unit:
  assumes "dc_minUpdatedAtMillis ctx \<le> updatedAt"
    and "dc_minUpdatedAtMillis ctx \<le> dc_maxUpdatedAtMillis ctx"
  shows "unitScore (computeDecaySignal ctx updatedAt expiresAt)"
  using assms
  by (auto simp: computeDecaySignal_def Let_def split: option.splits intro!: jnonneg_jmul_fraction)

lemma score_unit: "\<lbrakk>unitWeights w; unitSignals s\<rbrakk> \<Longrightarrow> unitScore (computeRankingScore w s)"
  by (auto simp: computeRankingScore_def unitWeights_def unitSignals_def intro!: jnonneg_jmul_unit)

text \<open>Every hit planned from a list of candidates.\<close>

lemma planned_hit_unit:
  assumes "unitWeights w" and "c \<in> set candidates" and "unitCandidate (pc_rankingSignals c)"
  shows "unitScore (ph_score (createPlannedHit w (buildDecaySignalContext candidates) c)) \<and>
    unitSignals (ph_rankingSignals (createPlannedHit w (buildDecaySignalContext candidates) c))"
proof -
  have "unitScore (computeDecaySignal (buildDecaySignalContext candidates) (pc_updatedAtMillis c) (pc_expiresAtMillis c))"
    using decay_brackets [OF assms(2)] by (intro decay_unit) auto
  then have "unitSignals (ph_rankingSignals (createPlannedHit w (buildDecaySignalContext candidates) c))"
    using assms(3) by (simp add: createPlannedHit_def unitSignals_def unitCandidate_def Let_def)
  with score_unit [OF assms(1) this] show ?thesis by (simp add: createPlannedHit_def Let_def)
qed

end
