(* ===== verification/Retrieval_Cursor.thy ===== *)
theory Retrieval_Cursor
  imports Retrieval_Ranking Base64_Url
begin

text \<open>
  Normalised requests, cursors and pages (retrieval-service.ts, lines 1406-1532, 1657-1703 and
  2550-2594). A cursor is the base64url text of a JSON object with the offset of the next page and a
  digest of the request. The theorem: following the cursors of a listing delivers every hit exactly
  once, in order, and ends.
\<close>

section \<open>Normalised requests\<close>

record NormalizedPolicyInput =
  np_actorId :: string
  np_action :: string
  np_evidenceIds :: "string list"
  np_context :: policy_context

record NormalizedRetrievalRequest =
  nr_request :: RetrievalRequest
  nr_selectors :: NormalizedScopeSelectors
  nr_policy :: NormalizedPolicyInput
  nr_scopeAuthorization :: "NormalizedScopeAuthorization option"
  nr_selectorDenyMessage :: "string option"
  nr_rankingWeights :: NormalizedRankingWeights
  nr_queryNormalized :: string
  nr_queryTokens :: "string list"

definition orElse :: "'a option list \<Rightarrow> 'a \<Rightarrow> 'a" where
  "orElse xs d = (case coalesce xs of None \<Rightarrow> d | Some x \<Rightarrow> x)"

definition strOrNull :: "string option \<Rightarrow> js_value" where
  "strOrNull x = (case x of None \<Rightarrow> Null | Some s \<Rightarrow> Str s)"

definition resolvePolicyInput :: "RetrievalRequest \<Rightarrow> NormalizedScopeSelectors \<Rightarrow> NormalizedPolicyInput" where
  "resolvePolicyInput request selectors =
     (let policy = rt_policy request;
          baseContext = orElse [Option.bind policy pi_context, rt_policyContext request] []
      in \<lparr>np_actorId = orElse [Option.bind policy pi_actorId, rt_actorId request] ''retrieval-system'',
          np_action = orElse [Option.bind policy pi_action, rt_action request] ''memory.retrieve'',
          np_evidenceIds = orElse [Option.bind policy pi_evidenceIds, rt_evidenceIds request] [],
          np_context = fold (\<lambda>(k, v). setProp k v)
            [(''retrievalQuery'', Str (rt_query request)),
             (''retrievalScopeProjectId'', strOrNull (ns_projectId selectors)),
             (''retrievalScopeRoleId'', strOrNull (ns_roleId selectors)),
             (''retrievalScopeUserId'', strOrNull (ns_userId selectors))] baseContext\<rparr>)"

definition normalizeRetrievalRequest :: "RetrievalRequest \<Rightarrow> NormalizedRetrievalRequest" where
  "normalizeRetrievalRequest request =
     (let queryNormalized = toLowerCase (trim (rt_query request));
          selectors = resolveScopeSelectors request;
          scopeAuthorization = resolveScopeAuthorization request
      in \<lparr>nr_request = request, nr_selectors = selectors, nr_policy = resolvePolicyInput request selectors,
          nr_scopeAuthorization = scopeAuthorization,
          nr_selectorDenyMessage = resolveScopeAuthorizationSelectorDenyMessage request selectors scopeAuthorization,
          nr_rankingWeights = resolveRankingWeights request, nr_queryNormalized = queryNormalized,
          nr_queryTokens = tokenize queryNormalized\<rparr>)"

section \<open>Digests and cursors\<close>

text \<open>A value of the host's JSON parser or of a caller is a record, an array or a primitive.\<close>

fun toStableDomainValue :: "host \<Rightarrow> js_value \<Rightarrow> json" where
  "toStableDomainValue h Null = JNull"
| "toStableDomainValue h (Str s) = JStr s"
| "toStableDomainValue h (Num x) = JNum x"
| "toStableDomainValue h (Bool b) = JBool b"
| "toStableDomainValue h (Arr vs) = JArr (map (toStableDomainValue h) vs)"
| "toStableDomainValue h Undefined = JStr ''undefined''"
| "toStableDomainValue h (Obj kvs) =
     JObj (arraySort (key fst (localeCompare h)) (map (\<lambda>(k, v). (k, toStableDomainValue h v)) kvs))"

definition sortedStrings :: "host \<Rightarrow> string list \<Rightarrow> json" where
  "sortedStrings h xs = JArr (map JStr (arraySort (localeCompare h) xs))"

definition weightsJson :: "NormalizedRankingWeights \<Rightarrow> json" where
  "weightsJson w =
     JObj [(''relevance'', JNum (nw_relevance w)), (''evidenceStrength'', JNum (nw_evidenceStrength w)),
       (''decay'', JNum (nw_decay w)), (''humanWeight'', JNum (nw_humanWeight w)), (''utility'', JNum (nw_utility w))]"

definition toCursorDigest :: "host \<Rightarrow> NormalizedRetrievalRequest \<Rightarrow> string" where
  "toCursorDigest h n = sha256 h (jsonStringify (JObj
     [(''spaceId'', JStr (rt_spaceId (nr_request n))), (''query'', JStr (nr_queryNormalized n)),
      (''projectId'', orNull JStr (ns_projectId (nr_selectors n))),
      (''roleId'', orNull JStr (ns_roleId (nr_selectors n))),
      (''userId'', orNull JStr (ns_userId (nr_selectors n))),
      (''actorId'', JStr (np_actorId (nr_policy n))), (''action'', JStr (np_action (nr_policy n))),
      (''evidenceIds'', sortedStrings h (np_evidenceIds (nr_policy n))),
      (''policyContext'', toStableDomainValue h (Obj (np_context (nr_policy n)))),
      (''scopeAuthorization'', orNull (\<lambda>a. JObj
         [(''tenantId'', orNull JStr (na_tenantId a)), (''projectIds'', sortedStrings h (na_allowedProjectIds a)),
          (''roleIds'', sortedStrings h (na_allowedRoleIds a)), (''userIds'', sortedStrings h (na_allowedUserIds a))])
         (nr_scopeAuthorization n)),
      (''rankingWeights'', weightsJson (nr_rankingWeights n))]))"

definition encodeCursor :: "int \<Rightarrow> string \<Rightarrow> string" where
  "encodeCursor offset digest =
     base64urlEncode (utf8Encode (jsonStringify (JObj [(''v'', JNum (jint 1)), (''o'', JNum (jint offset)), (''d'', JStr digest)])))"

text \<open>\<open>syntaxMessage\<close> is the host's message for a text that is not JSON.\<close>

definition decodeCursorOffset :: "(string \<Rightarrow> string) \<Rightarrow> string option \<Rightarrow> string \<Rightarrow> int thrown" where
  "decodeCursorOffset syntaxMessage cursor digest =
     (case cursor of
        None \<Rightarrow> Inr 0
      | Some c \<Rightarrow>
          if c = [] then Inl ''cursor must be a non-empty base64url string.''
          else
            (let decodedJson = utf8Decode (base64urlDecode c) in
             case jsonParse decodedJson of
               None \<Rightarrow> Inl (''cursor payload must be valid JSON: '' @ syntaxMessage decodedJson)
             | Some parsed \<Rightarrow>
                 if \<not> isObj parsed then Inl ''cursor payload must decode to an object.''
                 else if getProp ''v'' parsed \<noteq> Num (jint 1) then Inl ''cursor payload version must equal 1.''
                 else (case getProp ''o'' parsed of
                   Num x \<Rightarrow>
                     if isSafe x \<and> 0 \<le> finiteValue x
                     then (if getProp ''d'' parsed = Str digest then Inr \<lfloor>finiteValue x\<rfloor>
                       else Inl ''cursor payload digest does not match the current retrieval query.'')
                     else Inl ''cursor payload offset must be a non-negative safe integer.''
                 | _ \<Rightarrow> Inl ''cursor payload offset must be a non-negative safe integer.'')))"

section \<open>Pages\<close>

record PaginatedPlannedHits =
  pg_pageHits :: "PlannedHit list"
  pg_totalHits :: int
  pg_nextCursor :: "string option"
  pg_offset :: int

definition paginateHits ::
    "host \<Rightarrow> (string \<Rightarrow> string) \<Rightarrow> NormalizedRetrievalRequest \<Rightarrow> PlannedHit list \<Rightarrow> PaginatedPlannedHits thrown" where
  "paginateHits h syntaxMessage n hits =
     (let digest = toCursorDigest h n in
      chain (decodeCursorOffset syntaxMessage (rt_cursor (nr_request n)) digest) (\<lambda>offset.
        let totalHits = int (length hits);
            boundedOffset = min offset totalHits;
            limit = rt_limit (nr_request n);
            pageHits = (if limit = 0 then []
              else take (nat (min totalHits (boundedOffset + limit) - boundedOffset)) (drop (nat boundedOffset) hits));
            nextOffset = boundedOffset + int (length pageHits)
        in Inr \<lparr>pg_pageHits = pageHits, pg_totalHits = totalHits,
            pg_nextCursor = (if 0 < limit \<and> nextOffset < totalHits then Some (encodeCursor nextOffset digest) else None),
            pg_offset = boundedOffset\<rparr>))"

section \<open>A cursor reads back\<close>

lemma cursor_roundtrip:
  assumes "0 \<le> offset" and "offset < 2 ^ 53"
  shows "decodeCursorOffset syntaxMessage (Some (encodeCursor offset digest)) digest = Inr offset"
proof -
  let ?json = "JObj [(''v'', JNum (jint 1)), (''o'', JNum (jint offset)), (''d'', JStr digest)]"
  have "exactJson ?json" using assms by simp
  from jsonParse_stringify [OF this]
  have "jsonParse (jsonStringify ?json) = Some (Obj [(''v'', Num (jint 1)), (''o'', Num (jint offset)), (''d'', Str digest)])"
    by simp
  moreover have "encodeCursor offset digest \<noteq> []"
    using calculation base64url_roundtrip [of "jsonStringify ?json"]
    by (auto simp: encodeCursor_def base64urlEncode_def base64urlDecode_def utf8Encode_def)
  ultimately show ?thesis
    using assms by (simp add: decodeCursorOffset_def encodeCursor_def base64url_roundtrip isObj_def Let_def finiteValue_def)
      (simp add: jint_def)
qed

section \<open>Following the cursors\<close>

text \<open>A client that repeats its request with the cursor of the previous page; \<open>None\<close> when a page
  fails or the fuel runs out.\<close>

fun followCursors :: "nat \<Rightarrow> host \<Rightarrow> (string \<Rightarrow> string) \<Rightarrow> RetrievalRequest \<Rightarrow> PlannedHit list \<Rightarrow> PlannedHit list list option" where
  "followCursors 0 h syntaxMessage request hits = None"
| "followCursors (Suc k) h syntaxMessage request hits =
     (case paginateHits h syntaxMessage (normalizeRetrievalRequest request) hits of
        Inl e \<Rightarrow> None
      | Inr page \<Rightarrow>
          (case pg_nextCursor page of
             None \<Rightarrow> Some [pg_pageHits page]
           | Some c \<Rightarrow> map_option (\<lambda>ps. pg_pageHits page # ps)
               (followCursors k h syntaxMessage (request\<lparr>rt_cursor := Some c\<rparr>) hits)))"

definition requestDigest :: "host \<Rightarrow> RetrievalRequest \<Rightarrow> string" where
  "requestDigest h request = toCursorDigest h (normalizeRetrievalRequest request)"

lemma normalize_cursor:
  "normalizeRetrievalRequest (request\<lparr>rt_cursor := c\<rparr>) = (normalizeRetrievalRequest request)\<lparr>nr_request := request\<lparr>rt_cursor := c\<rparr>\<rparr>"
proof -
  let ?r = "request\<lparr>rt_cursor := c\<rparr>"
  have "resolveScopeSelectors ?r = resolveScopeSelectors request" by (simp add: resolveScopeSelectors_def)
  moreover have "resolveScopeAuthorization ?r = resolveScopeAuthorization request" by (simp add: resolveScopeAuthorization_def)
  moreover have "resolvePolicyInput ?r s = resolvePolicyInput request s" for s by (simp add: resolvePolicyInput_def)
  moreover have "resolveRankingWeights ?r = resolveRankingWeights request" by (simp add: resolveRankingWeights_def)
  moreover have "resolveScopeAuthorizationSelectorDenyMessage ?r s a = resolveScopeAuthorizationSelectorDenyMessage request s a"
    for s a by (cases a) (simp_all add: resolveScopeAuthorizationSelectorDenyMessage_def)
  ultimately show ?thesis by (simp add: normalizeRetrievalRequest_def Let_def)
qed

lemma digest_ignores_cursor: "requestDigest h (request\<lparr>rt_cursor := c\<rparr>) = requestDigest h request"
proof -
  have "nr_request (normalizeRetrievalRequest request) = request" by (simp add: normalizeRetrievalRequest_def Let_def)
  then show ?thesis unfolding requestDigest_def normalize_cursor by (simp add: toCursorDigest_def)
qed

lemma page_at:
  assumes "decodeCursorOffset syntaxMessage (rt_cursor request) (requestDigest h request) = Inr (int i)"
    and "i \<le> length hits" and "0 < rt_limit request"
  defines "page \<equiv> take (nat (rt_limit request)) (drop i hits)"
  shows "paginateHits h syntaxMessage (normalizeRetrievalRequest request) hits =
    Inr \<lparr>pg_pageHits = page, pg_totalHits = int (length hits),
      pg_nextCursor = (if i + length page < length hits
        then Some (encodeCursor (int (i + length page)) (requestDigest h request)) else None),
      pg_offset = int i\<rparr>"
proof -
  have "take (nat (min (int (length hits)) (int i + rt_limit request) - int i)) (drop i hits) = page"
  proof (cases "rt_limit request \<le> int (length hits) - int i")
    case False
    then have "length (drop i hits) \<le> nat (rt_limit request)" by simp
    with False show ?thesis by (simp add: page_def min_def nat_diff_distrib)
  qed (simp add: page_def min_def)
  moreover have "nr_request (normalizeRetrievalRequest request) = request" by (simp add: normalizeRetrievalRequest_def Let_def)
  moreover have "int (length page) = min (int (length hits)) (int i + rt_limit request) - int i"
    using assms(2,3) by (auto simp: page_def min_def)
  ultimately show ?thesis
    using assms(1-3) by (simp add: paginateHits_def Let_def min_absorb1 flip: requestDigest_def) linarith
qed

lemma follow_from:
  assumes "decodeCursorOffset syntaxMessage (rt_cursor request) (requestDigest h request) = Inr (int i)"
    and "i \<le> length hits" and "length hits < 2 ^ 53" and "0 < rt_limit request" and "length hits - i < k"
  shows "\<exists>ps. followCursors k h syntaxMessage request hits = Some ps \<and> concat ps = drop i hits \<and>
    (\<forall>p\<in>set ps. int (length p) \<le> rt_limit request)"
  using assms
proof (induction k arbitrary: request i)
  case (Suc k)
  define page where "page = take (nat (rt_limit request)) (drop i hits)"
  define j where "j = i + length page"
  note this_page = page_at [OF Suc.prems(1,2,4), folded page_def j_def]
  have small: "int (length page) \<le> rt_limit request" using Suc.prems(4) by (auto simp: page_def min_def)
  show ?case
  proof (cases "j < length hits")
    case False
    then have "page = drop i hits" using Suc.prems(2) by (auto simp: page_def j_def min_def split: if_splits)
    with False small show ?thesis by (simp add: this_page)
  next
    case True
    let ?next = "request\<lparr>rt_cursor := Some (encodeCursor (int j) (requestDigest h request))\<rparr>"
    have "page \<noteq> []" using True Suc.prems(4) by (auto simp: page_def j_def)
    then have less: "length hits - j < k" using True Suc.prems(5) by (cases page) (auto simp: j_def)
    have "decodeCursorOffset syntaxMessage (rt_cursor ?next) (requestDigest h ?next) = Inr (int j)"
      using True Suc.prems(3) by (simp add: digest_ignores_cursor cursor_roundtrip)
    from Suc.IH [OF this _ Suc.prems(3) _ less] True Suc.prems(4) obtain ps where
      ps: "followCursors k h syntaxMessage ?next hits = Some ps" "concat ps = drop j hits"
        "\<forall>p\<in>set ps. int (length p) \<le> rt_limit request" by auto
    have "length page = nat (rt_limit request)" using True by (auto simp: page_def j_def min_def split: if_splits)
    then have "page @ drop j hits = drop i hits"
      using append_take_drop_id [of "nat (rt_limit request)" "drop i hits"] by (simp add: j_def add.commute flip: page_def)
    with True small ps show ?thesis by (simp add: this_page)
  qed
qed simp

text \<open>C38: Following the cursors of a retrieval ends and delivers every planned hit exactly once, in
  the planned order, in pages no longer than the limit of the request: the walk needs at most one
  page per hit and one more.\<close>

theorem cursors_deliver_all:
  assumes "rt_cursor request = None" and "0 < rt_limit request" and "length hits < 2 ^ 53"
  shows "\<exists>ps. followCursors (Suc (length hits)) h syntaxMessage request hits = Some ps \<and> concat ps = hits \<and>
    (\<forall>p\<in>set ps. int (length p) \<le> rt_limit request)"
  using follow_from [of syntaxMessage request h 0 hits "Suc (length hits)"] assms by (simp add: decodeCursorOffset_def)

text \<open>Witness: three hits of a request with limit two, on a host that has no JSON messages.\<close>

definition sampleRequest :: RetrievalRequest where
  "sampleRequest =
     \<lparr>rt_spaceId = ''t'', rt_query = ''build'', rt_limit = 2, rt_cursor = None, rt_scopeAuthorization = None,
      rt_scope_authorization = None, rt_scope = None, rt_projectId = None, rt_roleId = None, rt_jobRoleId = None,
      rt_userId = None, rt_policy = None, rt_actorId = None, rt_action = None, rt_evidenceIds = None,
      rt_policyContext = None, rt_rankingWeights = None, rt_ranking_weights = None\<rparr>"

definition sampleHit :: "string \<Rightarrow> PlannedHit" where
  "sampleHit memoryId =
     \<lparr>ph_memoryId = memoryId, ph_layer = Working, ph_score = jint 1, ph_excerpt = ''build'', ph_scopeId = ''c'',
      ph_scopeLevel = CommonLevel, ph_scopeRank = 0, ph_updatedAtMillis = 5,
      ph_rankingSignals = \<lparr>rs_relevance = jint 1, rs_evidenceStrength = jint 1, rs_decay = jint 1,
        rs_humanWeight = jint 1, rs_utility = jint 1\<rparr>,
      ph_chronology = emptyHitChronology, ph_reconciledMemoryIds = [], ph_provenance = None\<rparr>"

theorem cursors_deliver_all_witness:
  defines "hits \<equiv> map sampleHit [''a'', ''b'', ''c'']"
  shows "\<exists>ps. followCursors (Suc 3) sampleHost (\<lambda>s. s) sampleRequest hits = Some ps \<and> concat ps = hits \<and>
    (\<forall>p\<in>set ps. int (length p) \<le> 2)"
proof -
  have hits: "length hits = 3" by (simp add: hits_def)
  have req: "rt_cursor sampleRequest = None" "rt_limit sampleRequest = 2" by (simp_all add: sampleRequest_def)
  show ?thesis
    using cursors_deliver_all [of sampleRequest hits sampleHost "\<lambda>s. s", unfolded hits req] by (simp del: followCursors.simps)
qed

end
