(* ===== verification/Retrieval_Pack.thy ===== *)
theory Retrieval_Pack
  imports Retrieval_Cursor
begin

text \<open>
  The actionable pack of a page (retrieval-service.ts, lines 61-104 and 2238-2548): the excerpts of
  the hits are shortened, routed into four categories by patterns, and kept within limits on lines,
  sources, warnings and tokens. The theorem gives the limits that every pack respects.
\<close>

section \<open>Text\<close>

text \<open>\<open>s.replace(/\\s+/g, " ")\<close>; the flag says that the previous character was white space.\<close>

fun collapseSpace :: "bool \<Rightarrow> string \<Rightarrow> string" where
  "collapseSpace inSpace [] = []"
| "collapseSpace inSpace (c # cs) =
     (if isWhiteSpace c then (if inSpace then collapseSpace True cs else CHR '' '' # collapseSpace True cs)
      else c # collapseSpace False cs)"

definition normalizeWhitespace :: "string \<Rightarrow> string" where
  "normalizeWhitespace s = trim (collapseSpace False s)"

text \<open>\<open>s.split(" ")\<close>\<close>

fun splitSpace :: "string \<Rightarrow> string list" where
  "splitSpace [] = [[]]"
| "splitSpace (c # cs) =
     (if c = CHR '' '' then [] # splitSpace cs
      else (case splitSpace cs of w # ws \<Rightarrow> (c # w) # ws | [] \<Rightarrow> [[c]]))"

definition estimateTokenCount :: "string \<Rightarrow> nat" where
  "estimateTokenCount s =
     (let normalized = normalizeWhitespace s in if normalized = [] then 0 else length (splitSpace normalized))"

definition trimEnd :: "string \<Rightarrow> string" where
  "trimEnd s = rev (dropWhile isWhiteSpace (rev s))"

text \<open>\<open>s.replace(/^[-*0-9.)]+\\s+/, "")\<close>\<close>

definition isListPrefixChar :: "char \<Rightarrow> bool" where
  "isListPrefixChar c = (isDigit c \<or> c \<in> set ''-*.)'')"

definition dropListPrefix :: "string \<Rightarrow> string" where
  "dropListPrefix s =
     (let rest = dropWhile isListPrefixChar s in
      if rest \<noteq> s \<and> rest \<noteq> [] \<and> isWhiteSpace (hd rest) then dropWhile isWhiteSpace rest else s)"

record BoundedActionableText =
  bt_value :: "string option"
  bt_tokenCount :: nat
  bt_truncated :: bool

definition toBoundedActionableText :: "nat \<Rightarrow> nat \<Rightarrow> string \<Rightarrow> BoundedActionableText" where
  "toBoundedActionableText tokenLimit characterLimit s =
     (let withoutListPrefix = trim (dropListPrefix (normalizeWhitespace s)) in
      if withoutListPrefix = [] then \<lparr>bt_value = None, bt_tokenCount = 0, bt_truncated = False\<rparr>
      else
        (let tooLong = characterLimit < length withoutListPrefix;
             shortened = (if tooLong then trimEnd (take (characterLimit - 3) withoutListPrefix) @ ''...''
               else withoutListPrefix);
             tokens = splitSpace shortened;
             tooMany = tokenLimit < length tokens;
             boundedText = (if tooMany then join '' '' (take tokenLimit tokens) @ ''...'' else shortened);
             normalized = normalizeWhitespace boundedText
         in if normalized = [] then \<lparr>bt_value = None, bt_tokenCount = 0, bt_truncated = tooLong \<or> tooMany\<rparr>
            else \<lparr>bt_value = Some normalized, bt_tokenCount = estimateTokenCount normalized,
                  bt_truncated = tooLong \<or> tooMany\<rparr>))"

section \<open>Patterns\<close>

definition isWordChar :: "char \<Rightarrow> bool" where
  "isWordChar c = (let n = (of_char c :: nat) in
     (48 \<le> n \<and> n \<le> 57) \<or> (65 \<le> n \<and> n \<le> 90) \<or> n = 95 \<or> (97 \<le> n \<and> n \<le> 122))"

definition startsWord :: "string \<Rightarrow> bool" where
  "startsWord s = (s \<noteq> [] \<and> isWordChar (hd s))"

text \<open>An alternative is its words, separated by \<open>\\s+\<close>; what is left behind a match. The flag \<open>i\<close>
  compares lower case.\<close>

fun matchWords :: "string list \<Rightarrow> string \<Rightarrow> string option" where
  "matchWords [] s = Some s"
| "matchWords [w] s = (if startsWith (toLowerCase s) w then Some (drop (length w) s) else None)"
| "matchWords (w # v # ws) s =
     (if startsWith (toLowerCase s) w
      then (let rest = drop (length w) s in
        if rest \<noteq> [] \<and> isWhiteSpace (hd rest) then matchWords (v # ws) (dropWhile isWhiteSpace rest) else None)
      else None)"

definition matchAlternative :: "string \<Rightarrow> string list \<Rightarrow> bool" where
  "matchAlternative s ws =
     (case matchWords ws s of None \<Rightarrow> False | Some rest \<Rightarrow> isWordChar (last (last ws)) \<noteq> startsWord rest)"

text \<open>\<open>/(?:^|\\b)(?:...)\\b/i\<close> tested from a position; \<open>afterWord\<close> tells whether a word character
  precedes it.\<close>

fun testFrom :: "string list list \<Rightarrow> bool \<Rightarrow> bool \<Rightarrow> string \<Rightarrow> bool" where
  "testFrom alternatives atStart afterWord [] =
     ((atStart \<or> afterWord) \<and> list_ex (matchAlternative []) alternatives)"
| "testFrom alternatives atStart afterWord (c # cs) =
     ((atStart \<or> afterWord \<noteq> isWordChar c) \<and> list_ex (matchAlternative (c # cs)) alternatives \<or>
      testFrom alternatives False (isWordChar c) cs)"

definition testPattern :: "string list list \<Rightarrow> string \<Rightarrow> bool" where
  "testPattern alternatives s = testFrom alternatives True False s"

definition dontCategoryPattern :: "string list list" where
  "dontCategoryPattern = [[''do'', ''not''], [''don'' @ [CHR 0x27] @ ''t''], [''never''], [''avoid''], [''stop''], [''skip'']]"

definition examplesCategoryPattern :: "string list list" where
  "examplesCategoryPattern = [[''example''], [''for'', ''example''], [''e.g.''], [''sample''], [''scenario'']]"

definition risksCategoryPattern :: "string list list" where
  "risksCategoryPattern = [[''risk''], [''warning''], [''caution''], [''hazard''], [''pitfall''], [''failure'']]"

definition doCategoryPattern :: "string list list" where
  "doCategoryPattern =
     [[''do''], [''ensure''], [''prefer''], [''use''], [''always''], [''verify''], [''confirm''], [''check''],
      [''apply''], [''document''], [''test'']]"

datatype ActionablePackCategory = DoLine | DontLine | ExampleLine | RiskLine

definition routeActionableCategory :: "string \<Rightarrow> MemoryLayer \<Rightarrow> ActionablePackCategory" where
  "routeActionableCategory line layer =
     (if testPattern dontCategoryPattern line then DontLine
      else if testPattern examplesCategoryPattern line then ExampleLine
      else if testPattern risksCategoryPattern line then RiskLine
      else if testPattern doCategoryPattern line then DoLine
      else if layer = Episodic then ExampleLine
      else DoLine)"

text \<open>The boundary after the last dot of \<open>e.g.\<close> asks for a word character, so the abbreviation is not
  recognised where it is written in the usual way.\<close>

lemma eg_not_an_example:
  "routeActionableCategory ''for example run it'' Working = ExampleLine"
  "routeActionableCategory ''e.g. run it'' Working = DoLine"
  by code_simp+

definition categoryName :: "ActionablePackCategory \<Rightarrow> string" where
  "categoryName c = (case c of DoLine \<Rightarrow> ''do'' | DontLine \<Rightarrow> ''dont'' | ExampleLine \<Rightarrow> ''examples'' | RiskLine \<Rightarrow> ''risks'')"

section \<open>The pack\<close>

record ActionablePackSource =
  as_memoryId :: string
  as_excerpt :: string
  as_score :: jsnum
  as_layer :: MemoryLayer

record ActionableRetrievalPack =
  ar_do :: "string list"
  ar_dont :: "string list"
  ar_examples :: "string list"
  ar_risks :: "string list"
  ar_sources :: "ActionablePackSource list"
  ar_warnings :: "string list"

record ActionablePackWarningSignal =
  ws_updatedAtMillis :: int
  ws_score :: jsnum

record ActionablePackCompilerStats =
  st_categoryLimitDrops :: "ActionablePackCategory \<Rightarrow> nat"
  st_tokenBudgetDrops :: nat
  st_sourceLimitDrops :: nat
  st_lineTruncations :: nat
  st_sourceExcerptTruncations :: nat

text \<open>The local variables of \<open>compileActionablePack\<close>; the four arrays of lines are one function of
  the category.\<close>

record PackCompiler =
  cp_lines :: "ActionablePackCategory \<Rightarrow> string list"
  cp_sources :: "ActionablePackSource list"
  cp_seenLineKeys :: "string list"
  cp_sourceSignals :: "ActionablePackWarningSignal list"
  cp_stats :: ActionablePackCompilerStats
  cp_contentTokens :: nat

definition emptyCompiler :: PackCompiler where
  "emptyCompiler =
     \<lparr>cp_lines = (\<lambda>_. []), cp_sources = [], cp_seenLineKeys = [], cp_sourceSignals = [],
      cp_stats = \<lparr>st_categoryLimitDrops = (\<lambda>_. 0), st_tokenBudgetDrops = 0, st_sourceLimitDrops = 0,
        st_lineTruncations = 0, st_sourceExcerptTruncations = 0\<rparr>,
      cp_contentTokens = 0\<rparr>"

definition actionablePackTokenBudget :: nat where "actionablePackTokenBudget = 260"
definition actionablePackWarningTokenBudget :: nat where "actionablePackWarningTokenBudget = 40"
definition actionablePackContentTokenBudget :: nat where
  "actionablePackContentTokenBudget = actionablePackTokenBudget - actionablePackWarningTokenBudget"
definition actionablePackPerCategoryLimit :: nat where "actionablePackPerCategoryLimit = 2"
definition actionablePackSourceLimit :: nat where "actionablePackSourceLimit = 6"
definition actionablePackWarningLimit :: nat where "actionablePackWarningLimit = 4"
definition actionablePackLineTokenLimit :: nat where "actionablePackLineTokenLimit = 18"
definition actionablePackSourceExcerptTokenLimit :: nat where "actionablePackSourceExcerptTokenLimit = 14"
definition actionablePackWarningTokenLimit :: nat where "actionablePackWarningTokenLimit = 18"
definition actionablePackTextCharacterLimit :: nat where "actionablePackTextCharacterLimit = 200"
definition actionablePackStaleAgeGapMillis :: int where "actionablePackStaleAgeGapMillis = 7 * 24 * 60 * 60 * 1000"

definition layerName :: "MemoryLayer \<Rightarrow> string" where
  "layerName l = (case l of Episodic \<Rightarrow> ''episodic'' | Working \<Rightarrow> ''working'' | Procedural \<Rightarrow> ''procedural'')"

definition estimateActionableSourceTokens :: "ActionablePackSource \<Rightarrow> nat" where
  "estimateActionableSourceTokens s =
     estimateTokenCount (as_memoryId s) + estimateTokenCount (as_excerpt s) + estimateTokenCount (layerName (as_layer s)) + 1"

text \<open>The first half of the loop body: the line of a hit.\<close>

definition packLine :: "PlannedHit \<Rightarrow> PackCompiler \<Rightarrow> PackCompiler" where
  "packLine hit cp =
     (let boundedLine = toBoundedActionableText actionablePackLineTokenLimit actionablePackTextCharacterLimit (ph_excerpt hit);
          stats = cp_stats cp
      in case bt_value boundedLine of
           None \<Rightarrow> cp
         | Some line \<Rightarrow>
             (let category = routeActionableCategory line (ph_layer hit);
                  lineKey = categoryName category @ '':'' @ toLowerCase line;
                  nextContentTokenCount = cp_contentTokens cp + bt_tokenCount boundedLine
              in if actionablePackPerCategoryLimit \<le> length (cp_lines cp category)
                 then cp\<lparr>cp_stats := stats\<lparr>st_categoryLimitDrops :=
                   (st_categoryLimitDrops stats)(category := st_categoryLimitDrops stats category + 1)\<rparr>\<rparr>
                 else if lineKey \<in> set (cp_seenLineKeys cp) then cp
                 else if nextContentTokenCount \<le> actionablePackContentTokenBudget
                 then cp\<lparr>cp_lines := (cp_lines cp)(category := cp_lines cp category @ [line]),
                    cp_seenLineKeys := cp_seenLineKeys cp @ [lineKey], cp_contentTokens := nextContentTokenCount,
                    cp_stats := stats\<lparr>st_lineTruncations :=
                      st_lineTruncations stats + (if bt_truncated boundedLine then 1 else 0)\<rparr>\<rparr>
                 else cp\<lparr>cp_stats := stats\<lparr>st_tokenBudgetDrops := st_tokenBudgetDrops stats + 1\<rparr>\<rparr>))"

text \<open>The second half: its source.\<close>

definition packSource :: "PlannedHit \<Rightarrow> PackCompiler \<Rightarrow> PackCompiler" where
  "packSource hit cp =
     (let stats = cp_stats cp;
          boundedSourceExcerpt = toBoundedActionableText actionablePackSourceExcerptTokenLimit
            actionablePackTextCharacterLimit (ph_excerpt hit)
      in if actionablePackSourceLimit \<le> length (cp_sources cp)
         then cp\<lparr>cp_stats := stats\<lparr>st_sourceLimitDrops := st_sourceLimitDrops stats + 1\<rparr>\<rparr>
         else case bt_value boundedSourceExcerpt of
           None \<Rightarrow> cp
         | Some excerpt \<Rightarrow>
             (let source = \<lparr>as_memoryId = ph_memoryId hit, as_excerpt = excerpt, as_score = ph_score hit,
                    as_layer = ph_layer hit\<rparr>;
                  nextContentTokenCount = cp_contentTokens cp + estimateActionableSourceTokens source
              in if actionablePackContentTokenBudget < nextContentTokenCount
                 then cp\<lparr>cp_stats := stats\<lparr>st_tokenBudgetDrops := st_tokenBudgetDrops stats + 1\<rparr>\<rparr>
                 else cp\<lparr>cp_sources := cp_sources cp @ [source],
                    cp_sourceSignals := cp_sourceSignals cp @
                      [\<lparr>ws_updatedAtMillis = ph_updatedAtMillis hit, ws_score = ph_score hit\<rparr>],
                    cp_contentTokens := nextContentTokenCount,
                    cp_stats := stats\<lparr>st_sourceExcerptTruncations :=
                      st_sourceExcerptTruncations stats + (if bt_truncated boundedSourceExcerpt then 1 else 0)\<rparr>\<rparr>))"

section \<open>Warnings\<close>

definition toActionablePackWarnings :: "ActionablePackCompilerStats \<Rightarrow> string list" where
  "toActionablePackWarnings stats =
     (let capped = filter (\<lambda>c. 0 < st_categoryLimitDrops stats c) [DoLine, DontLine, ExampleLine, RiskLine] in
      (if 0 < st_tokenBudgetDrops stats
       then [''Actionable pack token budget ('' @ intString (int actionablePackTokenBudget) @ '') reached; additional content was omitted.''] else []) @
      (if capped \<noteq> []
       then [''Actionable pack category limits ('' @ intString (int actionablePackPerCategoryLimit) @ '') reached for '' @ join '', '' (map categoryName capped) @ ''.''] else []) @
      (if 0 < st_sourceLimitDrops stats
       then [''Actionable pack source limit ('' @ intString (int actionablePackSourceLimit) @ '') reached; additional sources were omitted.''] else []) @
      (if 0 < st_lineTruncations stats \<or> 0 < st_sourceExcerptTruncations stats
       then [''Long excerpts were shortened to keep actionable output bounded.''] else []))"

definition toActionablePackAnnotationWarnings :: "ActionablePackWarningSignal list \<Rightarrow> string list" where
  "toActionablePackAnnotationWarnings signals =
     (case signals of
        [] \<Rightarrow> []
      | s # _ \<Rightarrow>
          (let freshest = fold (\<lambda>x m. max m (ws_updatedAtMillis x)) signals (ws_updatedAtMillis s);
               lowConfidence = length (filter (\<lambda>x. jlt (ws_score x) (JFin (1 / 2))) signals);
               stale = length (filter (\<lambda>x. actionablePackStaleAgeGapMillis \<le> freshest - ws_updatedAtMillis x) signals);
               sources = (\<lambda>n. intString (int n) @ '' source'' @ (if n = 1 then [] else ''s''))
           in (if 0 < stale
               then [''Actionable pack includes stale guidance; '' @ sources stale @ '' '' @ (if stale = 1 then ''is'' else ''are'')
                 @ '' older than the freshest source.''] else []) @
              (if 0 < lowConfidence
               then [''Actionable pack includes low-confidence guidance; '' @ sources lowConfidence @ '' scored below 0.50.''] else [])))"

text \<open>The loop over the warning candidates, with its two kinds of exit.\<close>

fun packWarnings :: "nat \<Rightarrow> string list \<Rightarrow> nat \<Rightarrow> string list \<Rightarrow> string list" where
  "packWarnings contentTokens [] warningTokens warnings = warnings"
| "packWarnings contentTokens (w # ws) warningTokens warnings =
     (let bounded = toBoundedActionableText actionablePackWarningTokenLimit actionablePackTextCharacterLimit w;
          nextWarningTokenCount = warningTokens + bt_tokenCount bounded
      in if actionablePackWarningLimit \<le> length warnings then warnings
         else case bt_value bounded of
           None \<Rightarrow> packWarnings contentTokens ws warningTokens warnings
         | Some warning \<Rightarrow>
             if actionablePackWarningTokenBudget < nextWarningTokenCount then warnings
             else if actionablePackTokenBudget < contentTokens + nextWarningTokenCount then warnings
             else packWarnings contentTokens ws nextWarningTokenCount (warnings @ [warning]))"

definition compileActionablePack :: "PlannedHit list \<Rightarrow> ActionableRetrievalPack" where
  "compileActionablePack hits =
     (let cp = fold (\<lambda>hit cp. packSource hit (packLine hit cp)) hits emptyCompiler;
          candidates = toActionablePackAnnotationWarnings (cp_sourceSignals cp) @ toActionablePackWarnings (cp_stats cp)
      in \<lparr>ar_do = cp_lines cp DoLine, ar_dont = cp_lines cp DontLine, ar_examples = cp_lines cp ExampleLine,
          ar_risks = cp_lines cp RiskLine, ar_sources = cp_sources cp,
          ar_warnings = packWarnings (cp_contentTokens cp) candidates 0 []\<rparr>)"

section \<open>Counting tokens\<close>

text \<open>The number of tokens is the number of maximal runs without white space; the flag says that a
  run goes on.\<close>

fun runs :: "bool \<Rightarrow> string \<Rightarrow> nat" where
  "runs inRun [] = 0"
| "runs inRun (c # cs) = (if isWhiteSpace c then runs False cs else (if inRun then 0 else 1) + runs True cs)"

text \<open>Single blanks only, none after the flag; \<open>tidy\<close> also forbids one at the end.\<close>

fun single :: "bool \<Rightarrow> string \<Rightarrow> bool" where
  "single p [] = True"
| "single p (c # cs) = ((isWhiteSpace c \<longrightarrow> \<not> p \<and> c = CHR '' '') \<and> single (isWhiteSpace c) cs)"

fun tidy :: "bool \<Rightarrow> string \<Rightarrow> bool" where
  "tidy p [] = (\<not> p)"
| "tidy p (c # cs) = ((isWhiteSpace c \<longrightarrow> \<not> p \<and> c = CHR '' '') \<and> tidy (isWhiteSpace c) cs)"

lemma blank [simp]: "isWhiteSpace (CHR '' '')" "\<not> isWhiteSpace (CHR ''.'')"
  by code_simp+

lemma runs_collapse: "(f \<longrightarrow> \<not> b) \<Longrightarrow> runs b (collapseSpace f s) = runs b s"
  by (induction f s arbitrary: b rule: collapseSpace.induct) auto

lemma single_collapse: "single f (collapseSpace f s)"
  by (induction f s rule: collapseSpace.induct) auto

lemma runs_front: "runs False (dropWhile isWhiteSpace s) = runs False s"
  by (induction s) auto

lemma runs_blanks: "list_all isWhiteSpace u \<Longrightarrow> runs b u = 0"
  by (induction u arbitrary: b) auto

lemma runs_back: "list_all isWhiteSpace u \<Longrightarrow> runs b (t @ u) = runs b t"
  by (induction t arbitrary: b) (auto simp: runs_blanks)

lemma trim_parts:
  obtains u where "dropWhile isWhiteSpace s = trim s @ u" and "list_all isWhiteSpace u"
    and "trim s \<noteq> [] \<Longrightarrow> \<not> isWhiteSpace (last (trim s))"
proof
  let ?t = "dropWhile isWhiteSpace s"
  show "?t = trim s @ rev (takeWhile isWhiteSpace (rev ?t))"
    by (metis rev_append rev_rev_ident takeWhile_dropWhile_id trim_def)
  show "list_all isWhiteSpace (rev (takeWhile isWhiteSpace (rev ?t)))"
    by (auto simp: list_all_iff dest: set_takeWhileD)
  show "\<not> isWhiteSpace (last (trim s))" if "trim s \<noteq> []"
    using that hd_dropWhile [of isWhiteSpace "rev ?t"] by (simp add: trim_def last_rev)
qed

lemma runs_trim: "runs False (trim s) = runs False s"
proof (rule trim_parts [of s])
  fix u assume "dropWhile isWhiteSpace s = trim s @ u" and "list_all isWhiteSpace u"
  then show ?thesis using runs_back [of u False "trim s"] runs_front [of s] by simp
qed

lemma runs_normalize: "runs False (normalizeWhitespace s) = runs False s"
  by (simp add: normalizeWhitespace_def runs_trim runs_collapse)

lemma single_front: "single False s \<Longrightarrow> single True (dropWhile isWhiteSpace s)"
  by (cases s; cases "tl s") auto

lemma tidy_prefix: "\<lbrakk>single p (t @ u); t \<noteq> []; \<not> isWhiteSpace (last t)\<rbrakk> \<Longrightarrow> tidy p t"
  by (induction t arbitrary: p) (auto split: if_splits)

lemma tidy_normalize: "normalizeWhitespace s \<noteq> [] \<Longrightarrow> tidy True (normalizeWhitespace s)"
  unfolding normalizeWhitespace_def
  by (rule trim_parts [of "collapseSpace False s"])
    (metis single_collapse single_front tidy_prefix)

lemma splitSpace_not_Nil [simp]: "splitSpace s \<noteq> []"
  by (cases s) (auto split: list.splits)

lemma length_splitSpace [simp]: "c \<noteq> CHR '' '' \<Longrightarrow> length (splitSpace (c # cs)) = length (splitSpace cs)"
  by (cases "splitSpace cs") auto

lemma tidy_count: "tidy p t \<Longrightarrow> length (splitSpace t) = (if p then runs False t else Suc (runs True t))"
proof (induction p t rule: tidy.induct)
  case (2 p c cs)
  then show ?case by (cases "c = CHR '' ''") (auto simp del: splitSpace.simps simp: splitSpace.simps(2) [of "CHR '' ''"])
qed simp

lemma estimate_runs: "estimateTokenCount s = runs False s"
  using tidy_count [OF tidy_normalize [of s]] runs_normalize [of s]
  by (auto simp: estimateTokenCount_def Let_def)

definition blanksOnly :: "string \<Rightarrow> bool" where
  "blanksOnly s = list_all (\<lambda>c. isWhiteSpace c \<longrightarrow> c = CHR '' '') s"

lemma runs_split: "blanksOnly s \<Longrightarrow> runs False s \<le> length (splitSpace s) \<and> Suc (runs True s) \<le> length (splitSpace s)"
proof (induction s)
  case (Cons c cs)
  then show ?case
    by (cases "c = CHR '' ''") (auto simp: blanksOnly_def simp del: splitSpace.simps simp: splitSpace.simps(2) [of "CHR '' ''"])
qed (simp add: blanksOnly_def)

lemma split_word: "CHR '' '' \<notin> set w \<Longrightarrow> splitSpace (w @ CHR '' '' # r) = w # splitSpace r" and
  split_last: "CHR '' '' \<notin> set w \<Longrightarrow> splitSpace w = [w]"
  by (induction w) auto

lemma split_join:
  "\<lbrakk>ws \<noteq> []; \<forall>w\<in>set ws. CHR '' '' \<notin> set w; CHR '' '' \<notin> set x\<rbrakk> \<Longrightarrow> length (splitSpace (join '' '' ws @ x)) = length ws"
  by (induction "'' ''" ws rule: join.induct) (simp_all add: split_word split_last)

lemma split_parts: "w \<in> set (splitSpace s) \<Longrightarrow> set w \<subseteq> set s \<and> CHR '' '' \<notin> set w"
proof (induction s arbitrary: w)
  case (Cons c cs)
  then show ?case by (cases "splitSpace cs") (force split: if_splits)+
qed simp

lemma set_join: "set (join '' '' ws) \<subseteq> insert (CHR '' '') (\<Union> (set ` set ws))"
  by (induction "'' ''" ws rule: join.induct) auto

lemma blanks_sub: "\<lbrakk>blanksOnly s; set t \<subseteq> set s\<rbrakk> \<Longrightarrow> blanksOnly t"
  by (auto simp: blanksOnly_def list_all_iff)

lemma blanks_collapse: "blanksOnly (collapseSpace f s)"
  by (induction f s rule: collapseSpace.induct) (auto simp: blanksOnly_def)

lemma set_trim: "set (trim s) \<subseteq> set s"
  by (auto simp: trim_def dest!: set_dropWhileD)

lemma set_dropListPrefix: "set (dropListPrefix s) \<subseteq> set s"
  by (auto simp: dropListPrefix_def Let_def dest!: set_dropWhileD split: if_splits)

lemma set_trimEnd: "set (trimEnd s) \<subseteq> set s"
  by (auto simp: trimEnd_def dest!: set_dropWhileD)

lemma dots: "blanksOnly s \<Longrightarrow> blanksOnly (s @ ''...'')"
  by (simp add: blanksOnly_def)

lemma bounded_limit:
  assumes "bt_value (toBoundedActionableText n m s) = Some v" and "0 < n"
  shows "estimateTokenCount v \<le> n"
proof -
  define plain where "plain = trim (dropListPrefix (normalizeWhitespace s))"
  define short where "short = (if m < length plain then trimEnd (take (m - 3) plain) @ ''...'' else plain)"
  define bounded where "bounded = (if n < length (splitSpace short) then join '' '' (take n (splitSpace short)) @ ''...'' else short)"
  have v: "v = normalizeWhitespace bounded"
    using assms(1) unfolding toBoundedActionableText_def Let_def plain_def [symmetric] short_def [symmetric] bounded_def [symmetric]
    by (auto split: if_splits)
  have "blanksOnly plain"
    using set_trim set_dropListPrefix unfolding plain_def normalizeWhitespace_def
    by (meson blanks_collapse blanks_sub)
  then have short: "blanksOnly short"
    using set_trimEnd [of "take (m - 3) plain"] set_take_subset [of "m - 3" plain]
    by (auto simp: short_def intro!: dots blanks_sub [of plain])
  have "runs False bounded \<le> n"
  proof (cases "n < length (splitSpace short)")
    case True
    let ?ws = "take n (splitSpace short)"
    have parts: "set w \<subseteq> set short \<and> CHR '' '' \<notin> set w" if "w \<in> set ?ws" for w
      using that by (auto dest!: in_set_takeD split_parts)
    have "set (join '' '' ?ws) \<subseteq> insert (CHR '' '') (set short)" using set_join parts by fastforce
    then have "blanksOnly bounded" using True short by (auto simp: bounded_def blanksOnly_def list_all_iff)
    moreover have "length (splitSpace bounded) = n"
      using True split_join [of ?ws "''...''"] assms(2) parts by (auto simp: bounded_def)
    ultimately show ?thesis using runs_split by metis
  next
    case False
    then show ?thesis using runs_split [OF short] by (simp add: bounded_def)
  qed
  then show ?thesis by (simp add: v estimate_runs runs_normalize)
qed

section \<open>Limits\<close>

definition lineTokens :: "string list \<Rightarrow> nat" where
  "lineTokens xs = sum_list (map estimateTokenCount xs)"

definition packTokens :: "ActionableRetrievalPack \<Rightarrow> nat" where
  "packTokens p =
     lineTokens (ar_do p) + lineTokens (ar_dont p) + lineTokens (ar_examples p) + lineTokens (ar_risks p) +
     sum_list (map estimateActionableSourceTokens (ar_sources p)) + lineTokens (ar_warnings p)"

lemmas pack_limits = actionablePackTokenBudget_def actionablePackWarningTokenBudget_def actionablePackContentTokenBudget_def
  actionablePackPerCategoryLimit_def actionablePackSourceLimit_def actionablePackWarningLimit_def

definition shortLine :: "string \<Rightarrow> bool" where
  "shortLine s = (estimateTokenCount s \<le> 18)"

definition shortSource :: "ActionablePackSource \<Rightarrow> bool" where
  "shortSource s = (estimateTokenCount (as_excerpt s) \<le> 14)"

lemma bounded_short:
  "bt_value (toBoundedActionableText actionablePackLineTokenLimit m s) = Some v \<Longrightarrow> shortLine v"
  "bt_value (toBoundedActionableText actionablePackWarningTokenLimit m s) = Some v \<Longrightarrow> shortLine v"
  "bt_value (toBoundedActionableText actionablePackSourceExcerptTokenLimit m s) = Some v \<Longrightarrow> shortSource (src\<lparr>as_excerpt := v\<rparr>)"
  using bounded_limit [of _ m s v] by (auto simp: shortLine_def shortSource_def actionablePackLineTokenLimit_def
      actionablePackWarningTokenLimit_def actionablePackSourceExcerptTokenLimit_def)

lemma bounded_tokens:
  "bt_value (toBoundedActionableText n m s) = Some v \<Longrightarrow> bt_tokenCount (toBoundedActionableText n m s) = estimateTokenCount v"
  by (auto simp: toBoundedActionableText_def Let_def split: if_splits)

lemma lineTokens_simps [simp]: "lineTokens [] = 0" "lineTokens (xs @ [x]) = lineTokens xs + estimateTokenCount x"
  by (simp_all add: lineTokens_def)

definition compilerTokens :: "PackCompiler \<Rightarrow> nat" where
  "compilerTokens cp =
     sum_list (map (\<lambda>c. lineTokens (cp_lines cp c)) [DoLine, DontLine, ExampleLine, RiskLine]) +
     sum_list (map estimateActionableSourceTokens (cp_sources cp))"

definition compilerOk :: "PackCompiler \<Rightarrow> bool" where
  "compilerOk cp =
     (list_all (\<lambda>c. length (cp_lines cp c) \<le> actionablePackPerCategoryLimit \<and> list_all shortLine (cp_lines cp c))
        [DoLine, DontLine, ExampleLine, RiskLine] \<and>
      length (cp_sources cp) \<le> actionablePackSourceLimit \<and> list_all shortSource (cp_sources cp) \<and>
      cp_contentTokens cp = compilerTokens cp \<and> cp_contentTokens cp \<le> actionablePackContentTokenBudget)"

lemma pushed_line:
  "compilerTokens (cp\<lparr>cp_lines := (cp_lines cp)(c := cp_lines cp c @ [line]), cp_seenLineKeys := ks, cp_contentTokens := n,
      cp_stats := st\<rparr>) = compilerTokens cp + estimateTokenCount line"
  by (cases c) (simp_all add: compilerTokens_def)

lemma packLine_ok:
  assumes "compilerOk cp"
  shows "compilerOk (packLine hit cp)"
proof (cases "bt_value (toBoundedActionableText actionablePackLineTokenLimit actionablePackTextCharacterLimit (ph_excerpt hit))")
  case (Some line)
  define c where "c = routeActionableCategory line (ph_layer hit)"
  have "list_all (\<lambda>d. length (((cp_lines cp)(c := cp_lines cp c @ [line])) d) \<le> actionablePackPerCategoryLimit \<and>
      list_all shortLine (((cp_lines cp)(c := cp_lines cp c @ [line])) d))
      [DoLine, DontLine, ExampleLine, RiskLine]" if "length (cp_lines cp c) < actionablePackPerCategoryLimit"
    using assms that bounded_short(1) [OF Some] by (cases c) (simp_all add: compilerOk_def)
  with assms show ?thesis
    by (auto simp: packLine_def compilerOk_def Some bounded_tokens [OF Some] pushed_line Let_def c_def [symmetric]
        compilerTokens_def [of "cp\<lparr>cp_stats := _\<rparr>"] compilerTokens_def [of cp] not_le simp del: list.pred_inject)
qed (use assms in \<open>simp add: packLine_def\<close>)

lemma packSource_ok: "compilerOk cp \<Longrightarrow> compilerOk (packSource hit cp)"
  using bounded_short(3) [of actionablePackTextCharacterLimit "ph_excerpt hit" _
      "\<lparr>as_memoryId = ph_memoryId hit, as_excerpt = [], as_score = ph_score hit, as_layer = ph_layer hit\<rparr>"]
  by (auto simp: packSource_def compilerOk_def compilerTokens_def Let_def not_le split: option.splits)

lemma compiler_ok: "compilerOk (fold (\<lambda>hit cp. packSource hit (packLine hit cp)) hits cp)" if "compilerOk cp"
  using that by (induction hits arbitrary: cp) (simp_all add: packLine_ok packSource_ok)

lemma packWarnings_ok:
  assumes "length ws \<le> actionablePackWarningLimit" and "list_all shortLine ws" and "lineTokens ws = n" and "n \<le> actionablePackWarningTokenBudget"
    and "contentTokens + n \<le> actionablePackTokenBudget"
  shows "length (packWarnings contentTokens candidates n ws) \<le> actionablePackWarningLimit \<and>
    list_all shortLine (packWarnings contentTokens candidates n ws) \<and>
    lineTokens (packWarnings contentTokens candidates n ws) \<le> actionablePackWarningTokenBudget \<and>
    contentTokens + lineTokens (packWarnings contentTokens candidates n ws) \<le> actionablePackTokenBudget"
  using assms
proof (induction candidates arbitrary: n ws)
  case (Cons w candidates)
  show ?case
  proof (cases "bt_value (toBoundedActionableText actionablePackWarningTokenLimit actionablePackTextCharacterLimit w)")
    case (Some v)
    with Cons bounded_short(2) [OF Some] show ?thesis by (auto simp: Let_def bounded_tokens [OF Some])
  qed (use Cons in \<open>auto simp: Let_def\<close>)
qed simp

text \<open>C39: Whatever the hits, an actionable pack stays within its budgets: at most 2 lines per category,
  6 sources and 4 warnings, at most 40 tokens of warnings and at most 260 tokens in all, counting
  every line, source and warning that the pack contains; no line or warning has more than 18 tokens
  and no source excerpt more than 14.\<close>

theorem actionable_pack_bounded:
  "list_all (\<lambda>xs. length xs \<le> 2 \<and> list_all shortLine xs)
     [ar_do (compileActionablePack hits), ar_dont (compileActionablePack hits),
      ar_examples (compileActionablePack hits), ar_risks (compileActionablePack hits)] \<and>
   length (ar_sources (compileActionablePack hits)) \<le> 6 \<and> list_all shortSource (ar_sources (compileActionablePack hits)) \<and>
   length (ar_warnings (compileActionablePack hits)) \<le> 4 \<and> list_all shortLine (ar_warnings (compileActionablePack hits)) \<and>
   lineTokens (ar_warnings (compileActionablePack hits)) \<le> 40 \<and> packTokens (compileActionablePack hits) \<le> 260"
proof -
  define cp where "cp = fold (\<lambda>hit cp. packSource hit (packLine hit cp)) hits emptyCompiler"
  have "compilerOk emptyCompiler" by (simp add: compilerOk_def emptyCompiler_def compilerTokens_def)
  then have ok: "compilerOk cp" unfolding cp_def by (rule compiler_ok)
  have "cp_contentTokens cp \<le> actionablePackTokenBudget" using ok by (simp add: compilerOk_def pack_limits)
  with packWarnings_ok [of "[]" 0 "cp_contentTokens cp"]
  have "length (packWarnings (cp_contentTokens cp) ws 0 []) \<le> 4 \<and> list_all shortLine (packWarnings (cp_contentTokens cp) ws 0 []) \<and>
      lineTokens (packWarnings (cp_contentTokens cp) ws 0 []) \<le> 40 \<and>
      cp_contentTokens cp + lineTokens (packWarnings (cp_contentTokens cp) ws 0 []) \<le> 260" for ws
    by (simp add: pack_limits)
  with ok show ?thesis
    by (simp add: compileActionablePack_def packTokens_def compilerOk_def compilerTokens_def pack_limits Let_def add.assoc flip: cp_def)
qed

end
