(* ===== verification/Retrieval_Service.thy ===== *)
theory Retrieval_Service
  imports Retrieval_Pack
begin

text \<open>
  The retrieval service (retrieval-service.ts, lines 1827-2236 and 2596-2757): candidates, policy
  filter, reconciliation of contradicting memories, responses, explanations, and the program that
  composes them over a storage snapshot. The storage service and the policy service are parameters;
  of their errors only the tag and the message are read.
\<close>

section \<open>Planned hits\<close>

text \<open>\<open>None\<close> for a row that is skipped.\<close>

definition candidateOf ::
    "host \<Rightarrow> NormalizedRetrievalRequest \<Rightarrow> ParsedScopeRow list \<Rightarrow> string list \<Rightarrow> ParsedMemoryRow \<Rightarrow> PlannedHitCandidate option thrown" where
  "candidateOf h n scopeRows allowedScopeIds row =
     (if mr_status row \<noteq> ''active'' then Inr None
      else if mr_tombstonedAtMillis row \<noteq> None then Inr None
      else if (case mr_expiresAtMillis row of None \<Rightarrow> False | Some e \<Rightarrow> e \<le> mr_updatedAtMillis row) then Inr None
      else if mr_scopeId row \<notin> set allowedScopeIds then Inr None
      else case map_of (scopeMap scopeRows) (mr_scopeId row) of
        None \<Rightarrow> Inl (''Memory '' @ mr_memoryId row @ '' references scope '' @ mr_scopeId row @ '' which is missing from the snapshot.'')
      | Some scopeRow \<Rightarrow>
          (let payloadRecord = parsePayloadRecord (mr_payloadJson row);
               excerpt = toExcerpt (mr_title row) payloadRecord;
               searchableText = toLowerCase (mr_title row @ [CHR 0x0A] @ excerpt @ [CHR 0x0A] @ mr_payloadJson row)
           in case computeQueryRelevanceSignal (nr_queryTokens n) (nr_queryNormalized n) searchableText of
                None \<Rightarrow> Inr None
              | Some relevanceSignal \<Rightarrow> Inr (Some
                  \<lparr>pc_memoryId = mr_memoryId row, pc_layer = mr_layer row, pc_excerpt = excerpt,
                   pc_scopeId = mr_scopeId row, pc_scopeLevel = sc_scopeLevel scopeRow,
                   pc_scopeRank = toScopeRank (sc_scopeLevel scopeRow), pc_updatedAtMillis = mr_updatedAtMillis row,
                   pc_expiresAtMillis = mr_expiresAtMillis row,
                   pc_rankingSignals = toRankingSignals payloadRecord relevanceSignal,
                   pc_chronology = toHitChronology h payloadRecord (mr_memoryId row),
                   pc_provenance = toExplainabilityProvenance h payloadRecord (rt_spaceId (nr_request n))\<rparr>)))"

definition candidateHits ::
    "host \<Rightarrow> NormalizedRetrievalRequest \<Rightarrow> ParsedScopeRow list \<Rightarrow> ParsedMemoryRow list \<Rightarrow> PlannedHitCandidate list thrown" where
  "candidateHits h n scopeRows memoryRows =
     chain (traverse (candidateOf h n scopeRows (resolveAllowedScopeIds scopeRows (nr_selectors n) (nr_scopeAuthorization n)))
       memoryRows) (\<lambda>cs. Inr (List.map_filter (\<lambda>c. c) cs))"

definition buildPlannedHits ::
    "host \<Rightarrow> NormalizedRetrievalRequest \<Rightarrow> ParsedScopeRow list \<Rightarrow> ParsedMemoryRow list \<Rightarrow> PlannedHit list thrown" where
  "buildPlannedHits h n scopeRows memoryRows =
     chain (candidateHits h n scopeRows memoryRows) (\<lambda>candidates.
       Inr (arraySort (comparePlannedHits h)
         (map (createPlannedHit (nr_rankingWeights n) (buildDecaySignalContext candidates)) candidates)))"

section \<open>Policy\<close>

datatype PolicyOutcome = AllowHit | ReviewHit | DenyHit

record PolicyRequest =
  pq_spaceId :: string
  pq_actorId :: string
  pq_action :: string
  pq_resourceId :: string
  pq_evidenceIds :: "string list"
  pq_context :: policy_context

record PolicyResponse =
  pr_decision :: PolicyOutcome
  pr_reasonCodes :: "string list"
  pr_evaluatedAtMillis :: int

text \<open>An error of the policy service, by its tag and message.\<close>

datatype PolicyFailure = PolicyDenied string | OtherPolicyFailure string

fun describePolicyFailure :: "PolicyFailure \<Rightarrow> string" where
  "describePolicyFailure (PolicyDenied m) = m"
| "describePolicyFailure (OtherPolicyFailure m) = m"

type_synonym policy_service = "PolicyRequest \<Rightarrow> (PolicyFailure, PolicyResponse) exit"

record RetrievalQueryError =
  rq_spaceId :: string
  rq_query :: string
  rq_message :: string

datatype RetrievalServiceError = ContractFailure ContractValidationError | QueryFailure RetrievalQueryError | Defect string

definition toRetrievalQueryError :: "RetrievalRequest \<Rightarrow> string \<Rightarrow> RetrievalServiceError" where
  "toRetrievalQueryError request m =
     QueryFailure \<lparr>rq_spaceId = rt_spaceId request, rq_query = rt_query request, rq_message = m\<rparr>"

definition levelName :: "ScopeLevel \<Rightarrow> string" where
  "levelName l = (case l of CommonLevel \<Rightarrow> ''common'' | ProjectLevel \<Rightarrow> ''project'' | JobRoleLevel \<Rightarrow> ''job_role'' | UserLevel \<Rightarrow> ''user'')"

definition buildPolicyContextForHit :: "policy_context \<Rightarrow> PlannedHit \<Rightarrow> policy_context" where
  "buildPolicyContextForHit context hit =
     fold (\<lambda>(k, v). setProp k v)
       [(''retrievalHitScopeId'', Str (ph_scopeId hit)), (''retrievalHitScopeLevel'', Str (levelName (ph_scopeLevel hit))),
        (''retrievalHitLayer'', Str (layerName (ph_layer hit)))] context"

definition policyRequestFor :: "NormalizedRetrievalRequest \<Rightarrow> PlannedHit \<Rightarrow> PolicyRequest" where
  "policyRequestFor n hit =
     \<lparr>pq_spaceId = rt_spaceId (nr_request n), pq_actorId = np_actorId (nr_policy n), pq_action = np_action (nr_policy n),
      pq_resourceId = ph_memoryId hit, pq_evidenceIds = np_evidenceIds (nr_policy n),
      pq_context = buildPolicyContextForHit (np_context (nr_policy n)) hit\<rparr>"

text \<open>\<open>Effect.forEach\<close> with concurrency 1: in order, up to the first failure.\<close>

fun effect_forEach :: "('a \<Rightarrow> ('e, 'b) exit) \<Rightarrow> 'a list \<Rightarrow> ('e, 'b list) exit" where
  "effect_forEach f [] = Succeed []"
| "effect_forEach f (x # xs) = effect_flatMap (f x) (\<lambda>y. effect_flatMap (effect_forEach f xs) (\<lambda>ys. Succeed (y # ys)))"

definition policyVerdict ::
    "policy_service \<Rightarrow> NormalizedRetrievalRequest \<Rightarrow> PlannedHit \<Rightarrow> (RetrievalServiceError, PlannedHit option) exit" where
  "policyVerdict evaluate n hit =
     (case evaluate (policyRequestFor n hit) of
        Succeed r \<Rightarrow> Succeed (if pr_decision r = DenyHit then None else Some hit)
      | Fail (PolicyDenied m) \<Rightarrow> Succeed None
      | Fail (OtherPolicyFailure m) \<Rightarrow> Fail (toRetrievalQueryError (nr_request n)
          (''Policy evaluation failed for memory '' @ ph_memoryId hit @ '': '' @ m))
      | Die e \<Rightarrow> Die (Defect (describePolicyFailure e)))"

definition filterDeniedHits ::
    "policy_service \<Rightarrow> NormalizedRetrievalRequest \<Rightarrow> PlannedHit list \<Rightarrow> (RetrievalServiceError, PlannedHit list) exit" where
  "filterDeniedHits evaluate n hits =
     effect_flatMap (effect_forEach (policyVerdict evaluate n) hits) (\<lambda>maybeHits. Succeed (List.map_filter (\<lambda>x. x) maybeHits))"

section \<open>Reconciliation\<close>

definition compareTimelineTruthPriority :: "host \<Rightarrow> PlannedHit comparator" where
  "compareTimelineTruthPriority h = thenBy (descending ph_updatedAtMillis) (comparePlannedHits h)"

definition hitById :: "PlannedHit list \<Rightarrow> (string \<times> PlannedHit) list" where
  "hitById hits = fold (\<lambda>hit. AList.update (ph_memoryId hit) hit) hits []"

definition addNeighbor :: "string \<Rightarrow> string \<Rightarrow> string graph \<Rightarrow> string graph" where
  "addNeighbor x y g = AList.update x (setAdd y (nexts g x)) g"

definition conflictMemoryIds :: "PlannedHit \<Rightarrow> string list" where
  "conflictMemoryIds hit = hc_contradictsMemoryIds (ph_chronology hit) @ hc_supersedesMemoryIds (ph_chronology hit)"

definition conflictGraph :: "PlannedHit list \<Rightarrow> string graph" where
  "conflictGraph hits =
     fold (\<lambda>hit g. fold (\<lambda>c g.
         if c = ph_memoryId hit \<or> c \<notin> ph_memoryId ` set hits then g
         else addNeighbor c (ph_memoryId hit) (addNeighbor (ph_memoryId hit) c g)) (conflictMemoryIds hit) g)
       hits (fold (\<lambda>hit. AList.update (ph_memoryId hit) []) hits [])"

text \<open>One component: its only hit, or the latest with the others listed.\<close>

definition reconcileComponent :: "host \<Rightarrow> PlannedHit list \<Rightarrow> PlannedHit list" where
  "reconcileComponent h componentHits =
     (case componentHits of
        [] \<Rightarrow> []
      | [hit] \<Rightarrow> [hit]
      | _ \<Rightarrow> (case arraySort (compareTimelineTruthPriority h) componentHits of
                [] \<Rightarrow> []
              | winner # losers \<Rightarrow>
                  [winner\<lparr>ph_reconciledMemoryIds :=
                    toSortedMemoryIds h (ph_reconciledMemoryIds winner @ map ph_memoryId losers)\<rparr>]))"

definition reconcileStep ::
    "host \<Rightarrow> PlannedHit list \<Rightarrow> PlannedHit \<Rightarrow> string list \<times> PlannedHit list \<Rightarrow> string list \<times> PlannedHit list" where
  "reconcileStep h hits hit = (\<lambda>(visited, reconciled).
     if ph_memoryId hit \<in> set visited then (visited, reconciled)
     else (let (visited', componentMemoryIds) = explore (conflictGraph hits) [ph_memoryId hit] (visited @ [ph_memoryId hit]) []
           in (visited', reconciled @ reconcileComponent h (List.map_filter (map_of (hitById hits)) componentMemoryIds))))"

definition reconcileContradictoryHits :: "host \<Rightarrow> PlannedHit list \<Rightarrow> PlannedHit list" where
  "reconcileContradictoryHits h hits =
     (if length hits < 2 then hits
      else arraySort (comparePlannedHits h) (snd (fold (reconcileStep h hits) hits ([], []))))"

section \<open>Responses\<close>

record ChronologyMetadata =
  ch_contradictsMemoryIds :: "string list"
  ch_supersedesMemoryIds :: "string list"
  ch_reconciledMemoryIds :: "string list"

record RetrievalHit =
  rh_memoryId :: string
  rh_layer :: MemoryLayer
  rh_score :: jsnum
  rh_excerpt :: string
  rh_chronology :: "ChronologyMetadata option"

definition toRetrievalHit :: "PlannedHit \<Rightarrow> RetrievalHit" where
  "toRetrievalHit hit =
     (let c = hc_contradictsMemoryIds (ph_chronology hit); s = hc_supersedesMemoryIds (ph_chronology hit);
          r = ph_reconciledMemoryIds hit
      in \<lparr>rh_memoryId = ph_memoryId hit, rh_layer = ph_layer hit, rh_score = ph_score hit, rh_excerpt = ph_excerpt hit,
          rh_chronology = (if c = [] \<and> s = [] \<and> r = [] then None
            else Some \<lparr>ch_contradictsMemoryIds = c, ch_supersedesMemoryIds = s, ch_reconciledMemoryIds = r\<rparr>)\<rparr>)"

record RetrievalResponse =
  rr_hits :: "RetrievalHit list"
  rr_totalHits :: int
  rr_nextCursor :: "string option"
  rr_actionablePack :: ActionableRetrievalPack

definition toRetrievalResponse :: "PaginatedPlannedHits \<Rightarrow> RetrievalResponse" where
  "toRetrievalResponse pagination =
     \<lparr>rr_hits = map toRetrievalHit (pg_pageHits pagination), rr_totalHits = pg_totalHits pagination,
      rr_nextCursor = pg_nextCursor pagination, rr_actionablePack = compileActionablePack (pg_pageHits pagination)\<rparr>"

datatype ReasonCode = QueryTokenMatch | QueryEmptyFallback | ScopeFilterMatch | ScopeSelectorApplied
  | ScopeLevelReason ScopeLevel | PolicyAllow | RankingWeightedSignals | ChronologyReconciled

definition toExplainabilityReasonCodes :: "NormalizedRetrievalRequest \<Rightarrow> PlannedHit \<Rightarrow> ReasonCode list" where
  "toExplainabilityReasonCodes n hit =
     [if nr_queryTokens n \<noteq> [] then QueryTokenMatch else QueryEmptyFallback, ScopeFilterMatch] @
     (if hasExplicitScopeSelectors (nr_selectors n) then [ScopeSelectorApplied] else []) @
     [ScopeLevelReason (ph_scopeLevel hit), PolicyAllow, RankingWeightedSignals] @
     (if ph_reconciledMemoryIds hit \<noteq> [] then [ChronologyReconciled] else [])"

record WeightedContribution =
  wc_signal :: string
  wc_signalScore :: jsnum
  wc_weight :: jsnum
  wc_weightedContribution :: jsnum

definition toExplainabilityWeightedContributions ::
    "NormalizedRankingWeights \<Rightarrow> RankingSignals \<Rightarrow> WeightedContribution list" where
  "toExplainabilityWeightedContributions w s =
     map (\<lambda>(signal, score, weight).
         \<lparr>wc_signal = signal, wc_signalScore = score, wc_weight = weight, wc_weightedContribution = clampScore (jmul weight score)\<rparr>)
       [(''relevance'', rs_relevance s, nw_relevance w),
        (''evidenceStrength'', rs_evidenceStrength s, nw_evidenceStrength w),
        (''decay'', rs_decay s, nw_decay w),
        (''humanWeight'', rs_humanWeight s, nw_humanWeight w),
        (''utility'', rs_utility s, nw_utility w)]"

record RetrievalExplainabilityHit =
  eh_memoryId :: string
  eh_layer :: MemoryLayer
  eh_score :: jsnum
  eh_excerpt :: string
  eh_rank :: int
  eh_scopeId :: string
  eh_scopeLevel :: ScopeLevel
  eh_reasonCodes :: "ReasonCode list"
  eh_rankingSignals :: RankingSignals
  eh_weightedContributions :: "WeightedContribution list"
  eh_provenance :: "ExplainabilityProvenance option"

definition toRetrievalExplainabilityHit :: "NormalizedRetrievalRequest \<Rightarrow> PlannedHit \<Rightarrow> int \<Rightarrow> RetrievalExplainabilityHit" where
  "toRetrievalExplainabilityHit n hit rank =
     \<lparr>eh_memoryId = ph_memoryId hit, eh_layer = ph_layer hit, eh_score = ph_score hit, eh_excerpt = ph_excerpt hit,
      eh_rank = rank, eh_scopeId = ph_scopeId hit, eh_scopeLevel = ph_scopeLevel hit,
      eh_reasonCodes = toExplainabilityReasonCodes n hit, eh_rankingSignals = ph_rankingSignals hit,
      eh_weightedContributions = toExplainabilityWeightedContributions (nr_rankingWeights n) (ph_rankingSignals hit),
      eh_provenance = ph_provenance hit\<rparr>"

record RetrievalExplainabilityResponse =
  er_hits :: "RetrievalExplainabilityHit list"
  er_totalHits :: int
  er_nextCursor :: "string option"

definition toRetrievalExplainabilityResponse ::
    "NormalizedRetrievalRequest \<Rightarrow> PaginatedPlannedHits \<Rightarrow> RetrievalExplainabilityResponse" where
  "toRetrievalExplainabilityResponse n pagination =
     \<lparr>er_hits = map (\<lambda>(pageIndex, hit). toRetrievalExplainabilityHit n hit (pg_offset pagination + int pageIndex + 1))
        (enumerate 0 (pg_pageHits pagination)),
      er_totalHits = pg_totalHits pagination, er_nextCursor = pg_nextCursor pagination\<rparr>"

section \<open>The service\<close>

text \<open>\<open>Effect.try\<close> with a catch that prefixes the message.\<close>

definition tryPlanning :: "RetrievalRequest \<Rightarrow> string \<Rightarrow> 'a thrown \<Rightarrow> (RetrievalServiceError, 'a) exit" where
  "tryPlanning request prefix r =
     effect_try (case r of Inl m \<Rightarrow> Inl (toRetrievalQueryError request (prefix @ m)) | Inr x \<Rightarrow> Inr x)"

definition planRetrieval ::
    "host \<Rightarrow> (string \<Rightarrow> string) \<Rightarrow> policy_service \<Rightarrow> NormalizedRetrievalRequest \<Rightarrow> snapshot_data \<Rightarrow>
     (RetrievalServiceError, PaginatedPlannedHits) exit" where
  "planRetrieval h syntaxMessage evaluate n snapshot =
     (let request = nr_request n in
      effect_flatMap (tryPlanning request ''Snapshot projection failed for retrieval planner: ''
        (chain (parseScopeRows snapshot (rt_spaceId request)) (\<lambda>scopeRows.
         chain (parseMemoryRows snapshot (rt_spaceId request)) (\<lambda>memoryRows. Inr (scopeRows, memoryRows)))))
      (\<lambda>(scopeRows, memoryRows).
      effect_flatMap (tryPlanning request ''Retrieval scope planning failed: '' (buildPlannedHits h n scopeRows memoryRows))
      (\<lambda>plannedHits.
      effect_flatMap (filterDeniedHits evaluate n plannedHits)
      (\<lambda>policyFilteredHits.
        tryPlanning request ''Retrieval pagination failed: ''
          (paginateHits h syntaxMessage n (reconcileContradictoryHits h policyFilteredHits))))))"

fun errorMessage :: "js_error \<Rightarrow> string" where
  "errorMessage (TypeError m) = m"
| "errorMessage (RangeError m) = m"
| "errorMessage (Error m) = m"

text \<open>\<open>exportSnapshot\<close> takes the signature secret and answers with the payload or an error message;
  \<open>requestJson\<close> renders a refused request for the issue formatter.\<close>

type_synonym snapshot_export = "string \<Rightarrow> (string, string) exit"

definition executeRetrievalPlan ::
    "host \<Rightarrow> (string \<Rightarrow> string) \<Rightarrow> (RetrievalRequest \<Rightarrow> json) \<Rightarrow> snapshot_export \<Rightarrow> policy_service \<Rightarrow> string \<Rightarrow>
     RetrievalRequest \<Rightarrow> (RetrievalServiceError, NormalizedRetrievalRequest \<times> PaginatedPlannedHits) exit" where
  "executeRetrievalPlan h syntaxMessage requestJson exportSnapshot evaluate secret request =
     (case decodeUnknownEffect h retrievalRequestSchema ''RetrievalRequest'' requestJson request of
        Inl e \<Rightarrow> Fail (ContractFailure e)
      | Inr decodedRequest \<Rightarrow>
          (let n = normalizeRetrievalRequest decodedRequest in
           case nr_selectorDenyMessage n of
             Some m \<Rightarrow> Fail (toRetrievalQueryError decodedRequest m)
           | None \<Rightarrow>
               effect_flatMap
                 (effect_mapError (\<lambda>m. toRetrievalQueryError decodedRequest (''Storage snapshot export failed for retrieval planner: '' @ m))
                   Defect (exportSnapshot secret))
               (\<lambda>payload.
               effect_flatMap (tryPlanning decodedRequest ''Snapshot payload parsing failed for retrieval planner: ''
                   (case parseSqliteStorageSnapshotPayload syntaxMessage payload of
                      Inl e \<Rightarrow> Inl (errorMessage e) | Inr snapshot \<Rightarrow> Inr snapshot))
               (\<lambda>snapshot.
               effect_flatMap (planRetrieval h syntaxMessage evaluate n snapshot) (\<lambda>pagination. Succeed (n, pagination))))))"

definition emptyPaginatedPlannedHits :: PaginatedPlannedHits where
  "emptyPaginatedPlannedHits = \<lparr>pg_pageHits = [], pg_totalHits = 0, pg_nextCursor = None, pg_offset = 0\<rparr>"

definition noopRetrieve :: RetrievalResponse where
  "noopRetrieve = toRetrievalResponse emptyPaginatedPlannedHits"

definition noopRetrieveExplainability :: RetrievalExplainabilityResponse where
  "noopRetrieveExplainability = \<lparr>er_hits = [], er_totalHits = 0, er_nextCursor = None\<rparr>"

definition snapshotSecret :: "string option \<Rightarrow> string" where
  "snapshotSecret s = (case s of None \<Rightarrow> ''@ums/retrieval-service/snapshot'' | Some x \<Rightarrow> x)"

definition retrieve ::
    "host \<Rightarrow> (string \<Rightarrow> string) \<Rightarrow> (RetrievalRequest \<Rightarrow> json) \<Rightarrow> snapshot_export \<Rightarrow> policy_service \<Rightarrow> string option \<Rightarrow>
     RetrievalRequest \<Rightarrow> (RetrievalServiceError, RetrievalResponse) exit" where
  "retrieve h syntaxMessage requestJson exportSnapshot evaluate secret request =
     effect_flatMap (executeRetrievalPlan h syntaxMessage requestJson exportSnapshot evaluate (snapshotSecret secret) request)
       (\<lambda>(n, pagination). Succeed (toRetrievalResponse pagination))"

definition retrieveExplainability ::
    "host \<Rightarrow> (string \<Rightarrow> string) \<Rightarrow> (RetrievalRequest \<Rightarrow> json) \<Rightarrow> snapshot_export \<Rightarrow> policy_service \<Rightarrow> string option \<Rightarrow>
     RetrievalRequest \<Rightarrow> (RetrievalServiceError, RetrievalExplainabilityResponse) exit" where
  "retrieveExplainability h syntaxMessage requestJson exportSnapshot evaluate secret request =
     effect_flatMap (executeRetrievalPlan h syntaxMessage requestJson exportSnapshot evaluate (snapshotSecret secret) request)
       (\<lambda>(n, pagination). Succeed (toRetrievalExplainabilityResponse n pagination))"

end
