(* ===== verification/Retrieval_Reconcile.thy ===== *)
theory Retrieval_Reconcile
  imports Retrieval_Service
begin

text \<open>
  What \<open>reconcileContradictoryHits\<close> computes: the hits fall into groups connected by contradiction and
  supersession links, and each group is served as its latest member, which lists the others.
\<close>

section \<open>The conflict graph\<close>

text \<open>Two different planned memories of which one names the other.\<close>

definition conflicts :: "PlannedHit list \<Rightarrow> (string \<times> string) set" where
  "conflicts hits =
     {(x, y). x \<noteq> y \<and> (\<exists>a\<in>set hits. \<exists>b\<in>set hits. ph_memoryId a = x \<and> ph_memoryId b = y \<and>
       (y \<in> set (conflictMemoryIds a) \<or> x \<in> set (conflictMemoryIds b)))}"

lemma nexts_update: "nexts (AList.update k v g) x = (if x = k then v else nexts g x)"
  by (simp add: nexts_def update_conv')

lemma addNeighbor_edges: "y \<in> set (nexts (addNeighbor a b g) x) \<longleftrightarrow> y \<in> set (nexts g x) \<or> x = a \<and> y = b"
  by (auto simp: addNeighbor_def nexts_update)

lemma isolated_nodes: "\<forall>x. nexts g x = [] \<Longrightarrow> nexts (fold (\<lambda>hit. AList.update (ph_memoryId hit) []) hits g) x = []"
  by (induction hits arbitrary: g) (simp_all add: nexts_update)

lemma hit_edges:
  fixes i :: string and S :: "string set"
  defines "step \<equiv> \<lambda>c g. if c = i \<or> c \<notin> S then g else addNeighbor c i (addNeighbor i c g)"
  shows "y \<in> set (nexts (fold step cs g) x) \<longleftrightarrow> y \<in> set (nexts g x) \<or>
    (\<exists>c\<in>set cs. c \<noteq> i \<and> c \<in> S \<and> (x = i \<and> y = c \<or> x = c \<and> y = i))"
proof (induction cs arbitrary: g)
  case (Cons c cs)
  have "y \<in> set (nexts (step c g) x) \<longleftrightarrow> y \<in> set (nexts g x) \<or> c \<noteq> i \<and> c \<in> S \<and> (x = i \<and> y = c \<or> x = c \<and> y = i)"
    by (auto simp: step_def addNeighbor_edges)
  with Cons.IH [of "step c g"] show ?case by auto
qed simp

lemma conflictGraph_edges: "y \<in> set (nexts (conflictGraph hits) x) \<longleftrightarrow> (x, y) \<in> conflicts hits"
proof -
  let ?S = "ph_memoryId ` set hits"
  let ?step = "\<lambda>hit c g. if c = ph_memoryId hit \<or> c \<notin> ?S then g else addNeighbor c (ph_memoryId hit) (addNeighbor (ph_memoryId hit) c g)"
  have "y \<in> set (nexts (fold (\<lambda>hit g. fold (?step hit) (conflictMemoryIds hit) g) hs g) x) \<longleftrightarrow> y \<in> set (nexts g x) \<or>
      (\<exists>hit\<in>set hs. \<exists>c\<in>set (conflictMemoryIds hit). c \<noteq> ph_memoryId hit \<and> c \<in> ?S \<and>
        (x = ph_memoryId hit \<and> y = c \<or> x = c \<and> y = ph_memoryId hit))" for hs g
    by (induction hs arbitrary: g) (simp_all add: hit_edges)
  moreover have "nexts (fold (\<lambda>hit. AList.update (ph_memoryId hit) []) hits []) x = []"
    by (rule isolated_nodes) (simp add: nexts_def)
  ultimately have edges: "y \<in> set (nexts (conflictGraph hits) x) \<longleftrightarrow>
      (\<exists>hit\<in>set hits. \<exists>c\<in>set (conflictMemoryIds hit). c \<noteq> ph_memoryId hit \<and> c \<in> ?S \<and>
        (x = ph_memoryId hit \<and> y = c \<or> x = c \<and> y = ph_memoryId hit))" by (simp add: conflictGraph_def)
  show ?thesis unfolding edges
  proof (intro iffI)
    assume "\<exists>hit\<in>set hits. \<exists>c\<in>set (conflictMemoryIds hit). c \<noteq> ph_memoryId hit \<and> c \<in> ?S \<and>
        (x = ph_memoryId hit \<and> y = c \<or> x = c \<and> y = ph_memoryId hit)"
    then obtain a b where "a \<in> set hits" "b \<in> set hits" "ph_memoryId b \<in> set (conflictMemoryIds a)"
      "ph_memoryId b \<noteq> ph_memoryId a" "x = ph_memoryId a \<and> y = ph_memoryId b \<or> x = ph_memoryId b \<and> y = ph_memoryId a"
      by fastforce
    then show "(x, y) \<in> conflicts hits" by (auto simp: conflicts_def)
  next
    assume "(x, y) \<in> conflicts hits"
    then obtain a b where "a \<in> set hits" "b \<in> set hits" "x = ph_memoryId a" "y = ph_memoryId b" "x \<noteq> y"
      "y \<in> set (conflictMemoryIds a) \<or> x \<in> set (conflictMemoryIds b)" by (auto simp: conflicts_def)
    then show "\<exists>hit\<in>set hits. \<exists>c\<in>set (conflictMemoryIds hit). c \<noteq> ph_memoryId hit \<and> c \<in> ?S \<and>
        (x = ph_memoryId hit \<and> y = c \<or> x = c \<and> y = ph_memoryId hit)"
      by (metis imageI)
  qed
qed

lemma sym_conflicts: "sym (conflicts hits)"
  by (auto simp: sym_def conflicts_def)

lemma conflicts_ids: "(x, y) \<in> conflicts hits \<Longrightarrow> x \<in> ph_memoryId ` set hits \<and> y \<in> ph_memoryId ` set hits"
  by (auto simp: conflicts_def)

text \<open>The group of a memory.\<close>

definition conflictGroup :: "PlannedHit list \<Rightarrow> string \<Rightarrow> string set" where
  "conflictGroup hits x = (conflicts hits)\<^sup>* `` {x}"

lemma group_ids: "x \<in> ph_memoryId ` set hits \<Longrightarrow> conflictGroup hits x \<subseteq> ph_memoryId ` set hits"
proof
  fix y assume "x \<in> ph_memoryId ` set hits" "y \<in> conflictGroup hits x"
  then have "(x, y) \<in> (conflicts hits)\<^sup>*" by (simp add: conflictGroup_def)
  then show "y \<in> ph_memoryId ` set hits" using \<open>x \<in> _\<close> by induction (auto dest: conflicts_ids)
qed

lemma group_sym: "y \<in> conflictGroup hits x \<Longrightarrow> x \<in> conflictGroup hits y"
  using sym_rtrancl [OF sym_conflicts] by (auto simp: conflictGroup_def dest: symD)

lemma group_trans: "\<lbrakk>y \<in> conflictGroup hits x; z \<in> conflictGroup hits y\<rbrakk> \<Longrightarrow> z \<in> conflictGroup hits x"
  by (auto simp: conflictGroup_def)

lemma group_self [simp]: "x \<in> conflictGroup hits x"
  by (simp add: conflictGroup_def)

section \<open>One component\<close>

definition closedIn :: "PlannedHit list \<Rightarrow> string set \<Rightarrow> bool" where
  "closedIn hits V = (\<forall>x\<in>V. conflictGroup hits x \<subseteq> V)"

lemma component_is_group:
  assumes "closedIn hits V" and "i \<notin> V"
  shows "insert i (reached (conflictGraph hits) {i} (insert i V)) = conflictGroup hits i"
proof (intro subset_antisym subsetI)
  fix y assume "y \<in> insert i (reached (conflictGraph hits) {i} (insert i V))"
  moreover have "y \<in> conflictGroup hits i" if "y \<in> reached (conflictGraph hits) {i} (insert i V)"
    using that by induction (auto simp: conflictGraph_edges conflictGroup_def intro: rtrancl_into_rtrancl)
  ultimately show "y \<in> conflictGroup hits i" by auto
next
  fix y assume "y \<in> conflictGroup hits i"
  then have "(i, y) \<in> (conflicts hits)\<^sup>*" by (simp add: conflictGroup_def)
  then show "y \<in> insert i (reached (conflictGraph hits) {i} (insert i V))"
  proof induction
    case (step y z)
    have "z \<in> conflictGroup hits i" using step(1,2) by (auto simp: conflictGroup_def)
    then have "z \<notin> V" using assms group_sym [of z hits i] by (auto simp: closedIn_def)
    with step show ?case by (auto simp: conflictGraph_edges intro: reached.intros)
  qed simp
qed

text \<open>A served hit: the first of its group in the order of the timeline, with the others listed.\<close>

definition represents :: "host \<Rightarrow> PlannedHit list \<Rightarrow> PlannedHit \<Rightarrow> bool" where
  "represents h hits r =
     (\<exists>w\<in>set hits. r = w\<lparr>ph_reconciledMemoryIds := ph_reconciledMemoryIds r\<rparr> \<and>
       (\<forall>other\<in>set hits. ph_memoryId other \<in> conflictGroup hits (ph_memoryId w) \<longrightarrow>
          compare (compareTimelineTruthPriority h) w other \<noteq> Greater) \<and>
       set (ph_reconciledMemoryIds r) = conflictGroup hits (ph_memoryId w) - {ph_memoryId w})"

lemma component_represented:
  assumes dist: "distinct (map ph_memoryId hits)" and fresh: "list_all (\<lambda>hit. ph_reconciledMemoryIds hit = []) hits"
    and i: "i \<in> ph_memoryId ` set hits" and comp: "distinct ids" "set ids = conflictGroup hits i"
  defines "members \<equiv> List.map_filter (map_of (hitById hits)) ids"
  shows "\<exists>r. reconcileComponent h members = [r] \<and> represents h hits r \<and> ph_memoryId r \<in> conflictGroup hits i"
proof -
  have lookup: "map_of (hitById hits) x = Some hit \<longleftrightarrow> hit \<in> set hits \<and> ph_memoryId hit = x" for x hit
    by (simp add: hitById_def map_by_key [OF dist] map_of_by_key find_by_key [OF dist] option.map_ident)
  have ids: "set ids \<subseteq> ph_memoryId ` set hits" using group_ids [OF i] comp(2) by simp
  have "map ph_memoryId (List.map_filter (map_of (hitById hits)) xs) = xs" if "set xs \<subseteq> ph_memoryId ` set hits" for xs
    using that
  proof (induction xs)
    case (Cons x xs)
    then obtain hit where "map_of (hitById hits) x = Some hit" using lookup by auto
    moreover from this have "ph_memoryId hit = x" by (simp add: lookup)
    ultimately show ?case using Cons by simp
  qed simp
  then have members: "map ph_memoryId members = ids" using ids by (simp add: members_def)
  have set_members: "hit \<in> set members \<longleftrightarrow> hit \<in> set hits \<and> ph_memoryId hit \<in> conflictGroup hits i" for hit
    by (auto simp: members_def set_map_filter lookup comp(2))
  have whole: "conflictGroup hits x = conflictGroup hits i" if "x \<in> conflictGroup hits i" for x
    using that group_sym [OF that] by (auto intro: group_trans)
  have rep: "represents h hits (w\<lparr>ph_reconciledMemoryIds := rs\<rparr>)"
    if w: "w \<in> set members" "\<forall>other\<in>set members. compare (compareTimelineTruthPriority h) w other \<noteq> Greater"
      and rs: "set rs = set ids - {ph_memoryId w}" for w rs
    unfolding represents_def
    using w rs whole [of "ph_memoryId w"] by (intro bexI [of _ w]) (auto simp: set_members comp(2))
  consider "members = []" | hit where "members = [hit]" | a b cs where "members = a # b # cs"
    by (metis list.exhaust)
  then show ?thesis
  proof cases
    case 1
    then have "ids = []" using members by simp
    then show ?thesis using comp(2) group_self [of i hits] by simp
  next
    case (2 hit)
    then have hit: "hit \<in> set hits" "ids = [ph_memoryId hit]" "ph_memoryId hit \<in> conflictGroup hits i"
      using set_members [of hit] members by auto
    then have "hit\<lparr>ph_reconciledMemoryIds := []\<rparr> = hit" using fresh by (auto simp: list_all_iff)
    then have "represents h hits hit" using rep [of hit "[]"] 2 hit(2) by simp
    with 2 hit(3) show ?thesis by (simp add: reconcileComponent_def)
  next
    case (3 a b cs)
    obtain w losers where w: "arraySort (compareTimelineTruthPriority h) members = w # losers"
      using 3 by (metis length_sort list.exhaust list.size(3) length_0_conv list.distinct(1))
    then have perm: "mset members = mset (w # losers)" by (metis mset_sort)
    then have in_members: "w \<in> set members" by (metis mset_eq_setD list.set_intros(1))
    have "mset ids = mset (map ph_memoryId (w # losers))" using perm members by (metis mset_map)
    then have "distinct (map ph_memoryId (w # losers))" "set ids = set (map ph_memoryId (w # losers))"
      using comp(1) mset_eq_imp_distinct_iff mset_eq_setD by blast+
    then have "set (map ph_memoryId losers) = set ids - {ph_memoryId w}" by auto
    moreover have "\<forall>other\<in>set members. compare (compareTimelineTruthPriority h) w other \<noteq> Greater"
      using hd_sort_least [OF w] by blast
    moreover have "ph_reconciledMemoryIds w = []" using in_members fresh by (auto simp: list_all_iff set_members)
    moreover have "reconcileComponent h members = (case arraySort (compareTimelineTruthPriority h) members of
          [] \<Rightarrow> []
        | winner # losers \<Rightarrow> [winner\<lparr>ph_reconciledMemoryIds :=
            toSortedMemoryIds h (ph_reconciledMemoryIds winner @ map ph_memoryId losers)\<rparr>])"
      by (simp only: reconcileComponent_def 3 list.case)
    ultimately show ?thesis
      using in_members rep [of w "toSortedMemoryIds h (map ph_memoryId losers)"] set_members [of w]
      by (simp add: w toSortedMemoryIds_def)
  qed
qed

section \<open>All components\<close>

text \<open>The groups seen so far are whole, and each has exactly one representative.\<close>

definition groupsServed :: "host \<Rightarrow> PlannedHit list \<Rightarrow> string list \<times> PlannedHit list \<Rightarrow> bool" where
  "groupsServed h hits = (\<lambda>(visited, served).
     closedIn hits (set visited) \<and> distinct (map ph_memoryId served) \<and>
     list_all (\<lambda>r. represents h hits r \<and> ph_memoryId r \<in> set visited) served \<and>
     (\<forall>x\<in>set visited. \<exists>!r. r \<in> set served \<and> x \<in> conflictGroup hits (ph_memoryId r)))"

lemma closedIn_union: "closedIn hits V \<Longrightarrow> closedIn hits (V \<union> conflictGroup hits i)"
  by (auto simp: closedIn_def intro: group_trans)

lemma step_served:
  assumes dist: "distinct (map ph_memoryId hits)" and fresh: "list_all (\<lambda>hit. ph_reconciledMemoryIds hit = []) hits"
    and hit: "hit \<in> set hits" and inv: "groupsServed h hits (visited, served)"
    and step: "reconcileStep h hits hit (visited, served) = (visited', served')"
  shows "groupsServed h hits (visited', served') \<and> insert (ph_memoryId hit) (set visited) \<subseteq> set visited'"
proof (cases "ph_memoryId hit \<in> set visited")
  case True
  with inv step show ?thesis by (simp add: reconcileStep_def)
next
  case False
  let ?i = "ph_memoryId hit"
  obtain seen ids where run: "explore (conflictGraph hits) [?i] (visited @ [?i]) [] = (seen, ids)" by fastforce
  have closed: "closedIn hits (set visited)" using inv by (simp add: groupsServed_def)
  have grp: "insert ?i (reached (conflictGraph hits) {?i} (insert ?i (set visited))) = conflictGroup hits ?i"
    by (rule component_is_group [OF closed False])
  have seen: "set seen = set visited \<union> conflictGroup hits ?i" and ids: "set ids = conflictGroup hits ?i"
    using explore_reaches(1,2) [OF run] grp by auto
  have "distinct ids" using explore_distinct [OF run] by simp
  with ids component_represented [OF dist fresh, of ?i ids h] hit obtain r where
    r: "reconcileComponent h (List.map_filter (map_of (hitById hits)) ids) = [r]" "represents h hits r"
      "ph_memoryId r \<in> conflictGroup hits ?i" by auto
  have result: "visited' = seen" "served' = served @ [r]" using False step run r(1) by (simp_all add: reconcileStep_def)
  have apart: "x \<notin> set visited" if "x \<in> conflictGroup hits ?i" for x
    using that False closed group_sym [OF that] by (auto simp: closedIn_def)
  have old: "ph_memoryId s \<in> set visited" if "s \<in> set served" for s
    using inv that by (simp add: groupsServed_def list_all_iff)
  have "\<exists>!s. s \<in> set served' \<and> x \<in> conflictGroup hits (ph_memoryId s)" if x: "x \<in> set visited'" for x
  proof (cases "x \<in> set visited")
    case True
    then have "x \<notin> conflictGroup hits (ph_memoryId r)" using apart group_trans [OF r(3)] by blast
    moreover have "\<exists>!s. s \<in> set served \<and> x \<in> conflictGroup hits (ph_memoryId s)" using inv True by (simp add: groupsServed_def)
    ultimately show ?thesis unfolding result by auto
  next
    case False
    then have "x \<in> conflictGroup hits ?i" using x seen result by auto
    then have "x \<in> conflictGroup hits (ph_memoryId r)" using group_sym [OF r(3)] by (rule group_trans [rotated])
    moreover have "x \<notin> conflictGroup hits (ph_memoryId s)" if "s \<in> set served" for s
      using False old [OF that] closed by (auto simp: closedIn_def)
    ultimately show ?thesis unfolding result by auto
  qed
  moreover have "closedIn hits (set visited')" using closedIn_union [OF closed, of ?i] by (simp add: result seen)
  moreover have "distinct (map ph_memoryId served')"
    using inv apart [OF r(3)] old by (auto simp: result groupsServed_def)
  moreover have "list_all (\<lambda>s. represents h hits s \<and> ph_memoryId s \<in> set visited') served'"
    using inv r(2,3) seen by (auto simp: result groupsServed_def list_all_iff)
  ultimately show ?thesis by (simp add: groupsServed_def) (auto simp: result seen)
qed

lemma all_served:
  assumes "distinct (map ph_memoryId hits)" and "list_all (\<lambda>hit. ph_reconciledMemoryIds hit = []) hits"
    and "set todo \<subseteq> set hits" and "groupsServed h hits state"
    and "fold (reconcileStep h hits) todo state = (visited, served)"
  shows "groupsServed h hits (visited, served) \<and> ph_memoryId ` set todo \<union> set (fst state) \<subseteq> set visited"
  using assms(3-5)
proof (induction todo arbitrary: state)
  case (Cons hit todo)
  obtain v s where state: "state = (v, s)" by fastforce
  obtain v' s' where step: "reconcileStep h hits hit (v, s) = (v', s')" by fastforce
  have "groupsServed h hits (v', s') \<and> insert (ph_memoryId hit) (set v) \<subseteq> set v'"
    using step_served [OF assms(1,2) _ _ step] Cons.prems by (simp add: state)
  with Cons.IH [of "(v', s')"] Cons.prems step show ?case by (auto simp: state)
qed auto

lemma alone_represents:
  assumes "list_all (\<lambda>hit. ph_reconciledMemoryIds hit = []) [hit]"
  shows "represents h [hit] hit"
proof -
  have "conflicts [hit] = {}" by (auto simp: conflicts_def)
  then have "conflictGroup [hit] (ph_memoryId hit) = {ph_memoryId hit}" by (auto simp: conflictGroup_def)
  with assms show ?thesis by (simp add: represents_def)
qed

text \<open>C15: Reconciliation serves every group of memories that contradict or supersede one another,
  directly or through others, exactly once: as its member with the latest time (then the best rank),
  which lists the identifiers of all the others. No memory is lost and none is served twice, and the
  result is in ranking order.\<close>

theorem contradictions_reconciled:
  assumes "distinct (map ph_memoryId hits)" and "list_all (\<lambda>hit. ph_reconciledMemoryIds hit = []) hits"
  shows "arraySorted (comparePlannedHits h) (reconcileContradictoryHits h hits) \<and>
    distinct (map ph_memoryId (reconcileContradictoryHits h hits)) \<and>
    (\<forall>r\<in>set (reconcileContradictoryHits h hits). represents h hits r) \<and>
    (\<forall>hit\<in>set hits. \<exists>!r. r \<in> set (reconcileContradictoryHits h hits) \<and> ph_memoryId hit \<in> conflictGroup hits (ph_memoryId r))"
proof (cases "length hits < 2")
  case True
  then consider "hits = []" | hit where "hits = [hit]" by (cases hits; cases "tl hits") auto
  then show ?thesis
    using assms(2) alone_represents [of _ h] by cases (auto simp: reconcileContradictoryHits_def)
next
  case False
  obtain visited served where run: "fold (reconcileStep h hits) hits ([], []) = (visited, served)" by fastforce
  have "groupsServed h hits ([], [])" by (simp add: groupsServed_def closedIn_def)
  from all_served [OF assms(1,2) subset_refl this run]
  have inv: "groupsServed h hits (visited, served)" "ph_memoryId ` set hits \<subseteq> set visited" by auto
  have result: "reconcileContradictoryHits h hits = arraySort (comparePlannedHits h) served"
    using False run by (simp add: reconcileContradictoryHits_def)
  have "distinct (map ph_memoryId (arraySort (comparePlannedHits h) served))"
    using inv(1) by (metis (no_types, lifting) case_prod_conv groupsServed_def mset_map mset_sort mset_eq_imp_distinct_iff)
  moreover have "\<exists>!r. r \<in> set served \<and> ph_memoryId hit \<in> conflictGroup hits (ph_memoryId r)" if "hit \<in> set hits" for hit
    using inv that by (simp add: groupsServed_def image_subset_iff)
  ultimately show ?thesis using inv(1) unfolding result by (simp add: groupsServed_def list_all_iff)
qed

text \<open>Witness: a memory and a later one that contradicts it.\<close>

definition contradicting :: "PlannedHit list" where
  "contradicting =
     [sampleHit ''a'',
      (sampleHit ''b'')\<lparr>ph_updatedAtMillis := 9,
        ph_chronology := \<lparr>hc_contradictsMemoryIds = [''a''], hc_supersedesMemoryIds = []\<rparr>\<rparr>]"

theorem contradictions_reconciled_witness:
  "map ph_memoryId (reconcileContradictoryHits sampleHost contradicting) = [''b''] \<and>
   represents sampleHost contradicting (hd (reconcileContradictoryHits sampleHost contradicting))"
proof -
  have run: "map ph_memoryId (reconcileContradictoryHits sampleHost contradicting) = [''b'']" by code_simp
  have "distinct (map ph_memoryId contradicting)" "list_all (\<lambda>hit. ph_reconciledMemoryIds hit = []) contradicting"
    by (simp_all add: contradicting_def sampleHit_def)
  from contradictions_reconciled [OF this, of sampleHost] run show ?thesis
    by (cases "reconcileContradictoryHits sampleHost contradicting") auto
qed

end
