(* ===== verification/Retrieval_Properties.thy ===== *)
theory Retrieval_Properties
  imports Retrieval_Reconcile Snapshot_Properties
begin

text \<open>
  What a retrieval delivers: the planned hits are exactly the eligible rows of the tenant, ranked;
  a page contains only such hits that the policy lets through; rows of other tenants do not change
  it; a selector outside the authorization is refused before storage is read.
\<close>

section \<open>Planned hits\<close>

text \<open>The rows that may be served, before the query is looked at.\<close>

definition servable :: "NormalizedRetrievalRequest \<Rightarrow> ParsedScopeRow list \<Rightarrow> ParsedMemoryRow \<Rightarrow> bool" where
  "servable n scopeRows row =
     (mr_status row = ''active'' \<and> mr_tombstonedAtMillis row = None \<and>
      (case mr_expiresAtMillis row of None \<Rightarrow> True | Some e \<Rightarrow> mr_updatedAtMillis row < e) \<and>
      mr_scopeId row \<in> set (resolveAllowedScopeIds scopeRows (nr_selectors n) (nr_scopeAuthorization n)))"

definition relevanceOf :: "NormalizedRetrievalRequest \<Rightarrow> ParsedMemoryRow \<Rightarrow> jsnum option" where
  "relevanceOf n row =
     computeQueryRelevanceSignal (nr_queryTokens n) (nr_queryNormalized n)
       (toLowerCase (mr_title row @ [CHR 0x0A] @ toExcerpt (mr_title row) (parsePayloadRecord (mr_payloadJson row)) @
         [CHR 0x0A] @ mr_payloadJson row))"

text \<open>Identity, layer, scope and time of a hit are those of its row.\<close>

definition hitOfRow :: "ParsedScopeRow list \<Rightarrow> ParsedMemoryRow \<Rightarrow> PlannedHit \<Rightarrow> bool" where
  "hitOfRow scopeRows row hit =
     (ph_memoryId hit = mr_memoryId row \<and> ph_layer hit = mr_layer row \<and> ph_scopeId hit = mr_scopeId row \<and>
      ph_updatedAtMillis hit = mr_updatedAtMillis row \<and>
      ph_excerpt hit = toExcerpt (mr_title row) (parsePayloadRecord (mr_payloadJson row)) \<and>
      map_option sc_scopeLevel (map_of (scopeMap scopeRows) (mr_scopeId row)) = Some (ph_scopeLevel hit))"

lemma candidateOf_cases:
  assumes "candidateOf h n scopeRows (resolveAllowedScopeIds scopeRows (nr_selectors n) (nr_scopeAuthorization n)) row = Inr c"
  shows "(c \<noteq> None) = (servable n scopeRows row \<and> relevanceOf n row \<noteq> None)"
    and "c = Some x \<Longrightarrow> pc_memoryId x = mr_memoryId row \<and> unitCandidate (pc_rankingSignals x) \<and>
      hitOfRow scopeRows row (createPlannedHit w ctx x)"
  using assms
  by (auto simp: candidateOf_def servable_def relevanceOf_def hitOfRow_def createPlannedHit_def Let_def not_le
      split: if_splits option.splits intro!: candidate_signals_unit dest: relevance_unit)

lemma traverse_filtered:
  assumes "traverse f xs = Inr ys" and "\<And>x y. \<lbrakk>x \<in> set xs; f x = Inr y\<rbrakk> \<Longrightarrow> (y \<noteq> None) = P x"
    and "\<And>x y. \<lbrakk>x \<in> set xs; f x = Inr (Some y)\<rbrakk> \<Longrightarrow> Q x y"
  shows "list_all2 Q (filter P xs) (List.map_filter (\<lambda>c. c) ys)"
proof -
  have "list_all2 (\<lambda>x y. f x = Inr y) xs ys" using assms(1) by (simp add: traverse_Inr)
  then show ?thesis using assms(2,3)
    by (induction rule: list_all2_induct) (auto simp: List.map_filter_simps split: option.splits)
qed

lemma candidates_of_rows:
  assumes "candidateHits h n scopeRows memoryRows = Inr candidates"
  shows "list_all2 (\<lambda>row c. unitCandidate (pc_rankingSignals c) \<and> (\<forall>w ctx. hitOfRow scopeRows row (createPlannedHit w ctx c)))
    (filter (\<lambda>row. servable n scopeRows row \<and> relevanceOf n row \<noteq> None) memoryRows) candidates"
proof -
  let ?f = "candidateOf h n scopeRows (resolveAllowedScopeIds scopeRows (nr_selectors n) (nr_scopeAuthorization n))"
  obtain cs where cs: "traverse ?f memoryRows = Inr cs" "candidates = List.map_filter (\<lambda>c. c) cs"
    using assms by (auto simp: candidateHits_def chain_eq_Inr)
  show ?thesis unfolding cs(2)
  proof (rule traverse_filtered [OF cs(1)])
    show "(c \<noteq> None) = (servable n scopeRows row \<and> relevanceOf n row \<noteq> None)" if "?f row = Inr c" for row c
      using that by (rule candidateOf_cases(1))
    show "unitCandidate (pc_rankingSignals c) \<and> (\<forall>w ctx. hitOfRow scopeRows row (createPlannedHit w ctx c))"
      if "?f row = Inr (Some c)" for row c
      using candidateOf_cases(2) [OF that] by blast
  qed
qed

lemma planned_hits_rows:
  assumes "retrievalRequestSchema request" and "n = normalizeRetrievalRequest request"
    and "buildPlannedHits h n scopeRows memoryRows = Inr hits"
  shows "\<exists>hits'. mset hits' = mset hits \<and>
      list_all2 (hitOfRow scopeRows) (filter (\<lambda>row. servable n scopeRows row \<and> relevanceOf n row \<noteq> None) memoryRows) hits' \<and>
      arraySorted (comparePlannedHits h) hits \<and> list_all (\<lambda>hit. unitScore (ph_score hit)) hits"
proof -
  from assms(3) obtain candidates where c: "candidateHits h n scopeRows memoryRows = Inr candidates"
    and hits: "hits = arraySort (comparePlannedHits h)
      (map (createPlannedHit (nr_rankingWeights n) (buildDecaySignalContext candidates)) candidates)"
    by (auto simp: buildPlannedHits_def chain_eq_Inr)
  let ?hits' = "map (createPlannedHit (nr_rankingWeights n) (buildDecaySignalContext candidates)) candidates"
  have weights: "unitWeights (nr_rankingWeights n)"
    using resolved_weights_unit [OF assms(1)] by (simp add: assms(2) normalizeRetrievalRequest_def Let_def)
  note rows = candidates_of_rows [OF c]
  have "list_all2 (hitOfRow scopeRows) (filter (\<lambda>row. servable n scopeRows row \<and> relevanceOf n row \<noteq> None) memoryRows) ?hits'"
    using rows by (simp add: list_all2_map2 list.rel_mono_strong)
  moreover have "unitCandidate (pc_rankingSignals x)" if "x \<in> set candidates" for x
    using rows that by (metis (no_types, lifting) list_all2_conv_all_nth in_set_conv_nth)
  then have "list_all (\<lambda>hit. unitScore (ph_score hit)) hits"
    using planned_hit_unit [OF weights] by (auto simp: hits list_all_iff)
  ultimately show ?thesis by (intro exI [of _ ?hits']) (simp add: hits)
qed

text \<open>C37: The planned hits are exactly the servable rows that match the query: active, neither
  tombstoned nor expired, in an allowed scope. There is one hit per row, they come in the order of
  \<open>comparePlannedHits\<close>, and every score lies between 0 and 1.\<close>

theorem planned_hits_exact:
  assumes "retrievalRequestSchema request" and "n = normalizeRetrievalRequest request"
    and "buildPlannedHits h n scopeRows memoryRows = Inr hits"
  shows "\<exists>hits'. mset hits' = mset hits \<and>
      list_all2 (hitOfRow scopeRows) (filter (\<lambda>row. servable n scopeRows row \<and> relevanceOf n row \<noteq> None) memoryRows) hits' \<and>
      arraySorted (comparePlannedHits h) hits \<and> list_all (\<lambda>hit. unitScore (ph_score hit)) hits"
  using assms by (rule planned_hits_rows)

section \<open>A page\<close>












lemma tryPlanning_Succeed [simp]: "tryPlanning request prefix r = Succeed x \<longleftrightarrow> r = Inr x"
  by (cases r) (auto simp: tryPlanning_def)




lemma normalized_request [simp]: "nr_request (normalizeRetrievalRequest request) = request"
  by (simp add: normalizeRetrievalRequest_def Let_def)

lemma hitOfRow_reconciled [simp]:
  "hitOfRow scopeRows row (hit\<lparr>ph_reconciledMemoryIds := ids\<rparr>) = hitOfRow scopeRows row hit"
  "policyRequestFor n (hit\<lparr>ph_reconciledMemoryIds := ids\<rparr>) = policyRequestFor n hit"
  by (simp_all add: hitOfRow_def policyRequestFor_def buildPolicyContextForHit_def)



section \<open>Refusals\<close>

lemma startsWith_append [simp]: "startsWith (p @ s) p"
  by (induction p) simp_all

lemma first_denied:
  "b1 \<or> b2 \<or> b3 \<or> b4 \<Longrightarrow> \<exists>m. (if b1 then Some (p @ s1) else if b2 then Some (p @ s2) else if b3 then Some (p @ s3)
      else if b4 then Some (p @ s4) else None) = Some m \<and> startsWith m p"
  by auto

lemma denied_selector:
  assumes "na_tenantId a \<noteq> None \<and> na_tenantId a \<noteq> Some (rt_spaceId request) \<or>
      outside (ns_projectId selectors) (na_allowedProjectIds a) \<or> outside (ns_roleId selectors) (na_allowedRoleIds a) \<or>
      outside (ns_userId selectors) (na_allowedUserIds a)"
  shows "\<exists>m. resolveScopeAuthorizationSelectorDenyMessage request selectors (Some a) = Some m \<and>
    startsWith m ''Scope authorization denied retrieval ''"
  unfolding resolveScopeAuthorizationSelectorDenyMessage_def option.case Let_def by (rule first_denied [OF assms])

text \<open>C36: A request whose tenant or whose selectors lie outside its authorization fails before
  storage or policy are asked: the failure is the same whatever they would answer.\<close>

theorem unauthorized_selector_refused:
  assumes "retrievalRequestSchema request" and "resolveScopeAuthorization request = Some a"
    and "na_tenantId a \<noteq> None \<and> na_tenantId a \<noteq> Some (rt_spaceId request) \<or>
      outside (ns_projectId (resolveScopeSelectors request)) (na_allowedProjectIds a) \<or>
      outside (ns_roleId (resolveScopeSelectors request)) (na_allowedRoleIds a) \<or>
      outside (ns_userId (resolveScopeSelectors request)) (na_allowedUserIds a)"
  shows "\<exists>m. retrieve h syntaxMessage requestJson exportSnapshot evaluate secret request = Fail (toRetrievalQueryError request m) \<and>
    startsWith m ''Scope authorization denied retrieval ''"
proof -
  obtain m where m: "resolveScopeAuthorizationSelectorDenyMessage request (resolveScopeSelectors request) (Some a) = Some m"
      "startsWith m ''Scope authorization denied retrieval ''"
    using denied_selector [of a request "resolveScopeSelectors request"] assms(3) by blast
  then have "nr_selectorDenyMessage (normalizeRetrievalRequest request) = Some m"
    by (simp add: normalizeRetrievalRequest_def Let_def assms(2))
  with assms(1) have "retrieve h syntaxMessage requestJson exportSnapshot evaluate secret request = Fail (toRetrievalQueryError request m)"
    by (simp add: retrieve_def executeRetrievalPlan_def decodeUnknownEffect_def Let_def)
  with m(2) show ?thesis by blast
qed

end
