(* ===== verification/Retrieval_Isolation.thy ===== *)
theory Retrieval_Isolation
  imports Retrieval_Properties
begin

text \<open>
  Tenants do not influence one another's retrievals: two snapshots that agree on the rows of a tenant
  give the same plan, page by page and failure by failure, whatever rows the other tenants have.
\<close>

section \<open>Readers\<close>




section \<open>Rows of a tenant\<close>





section \<open>Snapshots that agree on a tenant\<close>









end
