(* ===== verification/Retrieval_Example.thy ===== *)
theory Retrieval_Example
  imports Retrieval_Isolation
begin

text \<open>
  One retrieval on a concrete snapshot: two tenants with a memory each, a policy that allows
  everything. The properties of \<open>Retrieval_Properties\<close> and \<open>Retrieval_Isolation\<close> hold of it.
\<close>

definition scopeRow :: "string \<Rightarrow> string \<Rightarrow> snapshot_row" where
  "scopeRow scopeId tenantId = [CStr scopeId, CStr tenantId, CStr ''common'', CNull, CNull, CNull, CNull]"

definition memoryRow :: "string \<Rightarrow> string \<Rightarrow> string \<Rightarrow> snapshot_row" where
  "memoryRow memoryId tenantId scopeId =
     [CStr memoryId, CStr tenantId, CStr scopeId, CStr ''working'', CStr ''active'', CStr ''build'', CStr ''{}'', CInt 5, CNull, CNull]"

definition exampleTable :: "snapshot_row list \<Rightarrow> string \<Rightarrow> snapshot_table" where
  "exampleTable memories tableName =
     (if tableName = ''scopes'' then
        \<lparr>tb_name = tableName,
         tb_columns = [''scope_id'', ''tenant_id'', ''scope_level'', ''project_id'', ''role_id'', ''user_id'', ''parent_scope_id''],
         tb_rows = [scopeRow ''c'' ''t'', scopeRow ''d'' ''u'']\<rparr>
      else if tableName = ''memory_items'' then
        \<lparr>tb_name = tableName,
         tb_columns = [''memory_id'', ''tenant_id'', ''scope_id'', ''memory_layer'', ''status'', ''title'', ''payload_json'',
           ''updated_at_ms'', ''expires_at_ms'', ''tombstoned_at_ms''],
         tb_rows = memories\<rparr>
      else \<lparr>tb_name = tableName, tb_columns = [''id''], tb_rows = []\<rparr>)"

definition exampleSnapshot :: "snapshot_row list \<Rightarrow> snapshot_data" where
  "exampleSnapshot memories =
     \<lparr>sn_format = sqliteStorageSnapshotFormat, sn_userVersion = 1,
      sn_tables = map (exampleTable memories) sqliteStorageSnapshotTableNames\<rparr>"

definition bothTenants :: "snapshot_row list" where
  "bothTenants = [memoryRow ''a'' ''t'' ''c'', memoryRow ''b'' ''u'' ''d'']"


definition exampleScope :: ParsedScopeRow where
  "exampleScope = \<lparr>sc_scopeId = ''c'', sc_scopeLevel = CommonLevel, sc_projectId = None, sc_roleId = None, sc_userId = None, sc_parentScopeId = None\<rparr>"

definition exampleMemory :: ParsedMemoryRow where
  "exampleMemory =
     \<lparr>mr_memoryId = ''a'', mr_scopeId = ''c'', mr_layer = Working, mr_status = ''active'', mr_title = ''build'',
      mr_payloadJson = ''{}'', mr_updatedAtMillis = 5, mr_expiresAtMillis = None, mr_tombstonedAtMillis = None\<rparr>"

definition allowAll :: policy_service where
  "allowAll = (\<lambda>_. Succeed \<lparr>pr_decision = AllowHit, pr_reasonCodes = [], pr_evaluatedAtMillis = 0\<rparr>)"




lemma example_normalized:
  "nr_selectors (normalizeRetrievalRequest sampleRequest) = \<lparr>ns_projectId = None, ns_roleId = None, ns_userId = None\<rparr>"
  "nr_scopeAuthorization (normalizeRetrievalRequest sampleRequest) = None"
  "nr_queryTokens (normalizeRetrievalRequest sampleRequest) = tokenize ''build''"
  "nr_selectorDenyMessage (normalizeRetrievalRequest sampleRequest) = None"
proof -
  have "trim ''build'' = ''build''" "toLowerCase ''build'' = ''build''" by code_simp+
  then show "nr_queryTokens (normalizeRetrievalRequest sampleRequest) = tokenize ''build''"
    by (simp add: normalizeRetrievalRequest_def sampleRequest_def Let_def)
qed (simp_all add: normalizeRetrievalRequest_def sampleRequest_def resolveScopeSelectors_def resolveScopeAuthorization_def
    resolveScopeAuthorizationSelectorDenyMessage_def Let_def)

lemma example_request: "retrievalRequestSchema sampleRequest"
  by code_simp

lemma example_servable: "servable (normalizeRetrievalRequest sampleRequest) [exampleScope] exampleMemory"
  unfolding servable_def example_normalized by code_simp

lemma relevance_some: "list_ex (strIncludes s) ts \<Longrightarrow> computeQueryRelevanceSignal ts q s \<noteq> None"
  by (auto simp: computeQueryRelevanceSignal_def list_ex_iff filter_empty_conv Let_def)

lemma example_relevant: "relevanceOf (normalizeRetrievalRequest sampleRequest) exampleMemory \<noteq> None"
  unfolding relevanceOf_def example_normalized by (rule relevance_some) code_simp

text \<open>The memory of the tenant is planned, whatever its score.\<close>

lemma example_planned:
  "\<exists>hit. buildPlannedHits sampleHost (normalizeRetrievalRequest sampleRequest) [exampleScope] [exampleMemory] = Inr [hit]"
proof -
  let ?n = "normalizeRetrievalRequest sampleRequest"
  let ?allowed = "resolveAllowedScopeIds [exampleScope] (nr_selectors ?n) (nr_scopeAuthorization ?n)"
  have "map_of (scopeMap [exampleScope]) (mr_scopeId exampleMemory) = Some exampleScope" by code_simp
  then obtain x where "candidateOf sampleHost ?n [exampleScope] ?allowed exampleMemory = Inr (Some x)"
    using example_servable example_relevant
    by (auto simp: candidateOf_def servable_def relevanceOf_def exampleMemory_def Let_def)
  then show ?thesis by (simp add: buildPlannedHits_def candidateHits_def List.map_filter_simps)
qed

theorem planned_hits_exact_witness:
  "\<exists>hits hits'. buildPlannedHits sampleHost (normalizeRetrievalRequest sampleRequest) [exampleScope] [exampleMemory] = Inr hits \<and>
    length hits = 1 \<and> mset hits' = mset hits \<and> list_all2 (hitOfRow [exampleScope]) [exampleMemory] hits' \<and>
    list_all (\<lambda>hit. unitScore (ph_score hit)) hits"
proof -
  obtain hit where hit: "buildPlannedHits sampleHost (normalizeRetrievalRequest sampleRequest) [exampleScope] [exampleMemory] = Inr [hit]"
    using example_planned by blast
  from planned_hits_exact [OF example_request refl hit] example_servable example_relevant hit show ?thesis by auto
qed

text \<open>The whole program: the payload is the text of the snapshot, in the format of the codec.\<close>

definition examplePayload :: string where
  "examplePayload = jsonStringify (snapshotJson (exampleSnapshot bothTenants))"



definition foreignRequest :: RetrievalRequest where
  "foreignRequest = sampleRequest\<lparr>rt_projectId := Some ''p'', rt_scopeAuthorization := Some
     \<lparr>sa_tenantId = Some ''t'', sa_tenant_id = None, sa_projectIds = Some [''q''], sa_project_ids = None, sa_roleIds = None,
      sa_role_ids = None, sa_jobRoleIds = None, sa_job_role_ids = None, sa_userIds = None, sa_user_ids = None\<rparr>\<rparr>"

theorem unauthorized_selector_refused_witness:
  "\<exists>m. retrieve sampleHost (\<lambda>s. s) (\<lambda>_. JNull) (\<lambda>_. Succeed examplePayload) allowAll None foreignRequest =
      Fail (toRetrievalQueryError foreignRequest m) \<and> startsWith m ''Scope authorization denied retrieval ''"
proof (rule unauthorized_selector_refused)
  show "retrievalRequestSchema foreignRequest" by code_simp
  show "resolveScopeAuthorization foreignRequest =
    Some \<lparr>na_tenantId = Some ''t'', na_allowedProjectIds = [''q''], na_allowedRoleIds = [], na_allowedUserIds = []\<rparr>" by code_simp
qed (simp add: foreignRequest_def sampleRequest_def resolveScopeSelectors_def outside_def Let_def)

end
