(* ===== verification/Json_Shape.thy ===== *)
theory Json_Shape
  imports Json_Parse
begin

text \<open>
  Texts that \<open>JSON.stringify\<close> prints are equal only for values of the same shape: the same strings,
  arrays, members and order, and atoms of the same text. So code that compares printed texts compares
  the values, up to numbers of one text and what prints as null.
\<close>

datatype json_shape = SAtom string | SStr string | SArr "json_shape list" | SObj "(string \<times> json_shape) list"

fun shapeOf :: "json \<Rightarrow> json_shape" where
  "shapeOf JNull = SAtom ''null''"
| "shapeOf (JBool b) = SAtom (jsonStringify (JBool b))"
| "shapeOf (JNum x) = SAtom (jsonStringify (JNum x))"
| "shapeOf (JStr s) = SStr s"
| "shapeOf (JArr vs) = SArr (map shapeOf vs)"
| "shapeOf (JObj kvs) = SObj (map (\<lambda>(k, v). (k, shapeOf v)) kvs)"

section \<open>Texts of atoms\<close>

definition atomChar :: "char \<Rightarrow> bool" where
  "atomChar c = (c \<notin> {CHR '','', CHR '']'', CHR ''}'', CHR 0x22, CHR ''['', CHR ''{''})"

definition atomText :: "string \<Rightarrow> bool" where
  "atomText s = (s \<noteq> [] \<and> list_all atomChar s)"

lemma atomChars [simp]:
  "atomChar (CHR ''0'')" "atomChar (CHR ''.'')" "atomChar (CHR ''e'')" "atomChar (CHR ''+'')" "atomChar (CHR ''-'')"
  by (simp_all add: atomChar_def)

lemma digit_atom: "isDigit c \<Longrightarrow> atomChar c"
  by (auto simp: isDigit_def atomChar_def Let_def)

lemma digits_atom: "0 \<le> n \<Longrightarrow> list_all atomChar (natDigits n)"
  using natDigits_isDigit [of n] digit_atom by (auto simp: list_all_iff)

lemma list_all_take_drop: "list_all P xs \<Longrightarrow> list_all P (take n xs)" "list_all P xs \<Longrightarrow> list_all P (drop n xs)"
  by (auto simp: list_all_iff dest: in_set_takeD in_set_dropD)

lemma list_all_replicate: "P c \<Longrightarrow> list_all P (replicate n c)"
  by (induction n) simp_all

lemma layout_atom: "\<lbrakk>list_all atomChar ds; ds \<noteq> []\<rbrakk> \<Longrightarrow> atomText (layoutDigits ds n)"
  using digits_atom [of "\<bar>n - 1\<bar>"] list_all_take_drop [of atomChar ds]
  by (simp add: atomText_def layoutDigits_def Let_def list_all_replicate)

lemma digitsFor_nonneg: "\<lbrakk>0 < x; digitsFor n k x = Some s\<rbrakk> \<Longrightarrow> 0 \<le> s"
proof -
  assume "0 < x" "digitsFor n k x = Some s"
  then have "0 \<le> \<lfloor>x / pow10 (n - int k)\<rfloor>" "s = \<lfloor>x / pow10 (n - int k)\<rfloor> \<or> s = \<lfloor>x / pow10 (n - int k)\<rfloor> + 1"
    by (auto simp: digitsFor_def Let_def pow10_def split: if_splits)
  then show "0 \<le> s" by auto
qed

lemma shortest_nonneg: "0 < x \<Longrightarrow> 0 \<le> fst (shortestDigits f k n x)"
  using digitsFor_nonneg by (induction f arbitrary: k) (auto simp: pow10_def split: option.split)

lemma positive_atom: "0 < x \<Longrightarrow> atomText (positiveString x)"
  using shortest_nonneg [of x 17 1 "exponent10 700 0 x"]
  by (auto simp: positiveString_def Let_def digits_atom list_all_take_drop intro!: layout_atom split: prod.split)

lemma number_atom: "isFinite x \<Longrightarrow> atomText (number_to_string x)"
  using positive_atom by (cases x) (auto simp: isFinite_def atomText_def)

lemma shape_atom: "shapeOf j = SAtom s \<Longrightarrow> jsonStringify j = s \<and> atomText s"
  using number_atom by (cases j) (auto simp: atomText_def atomChar_def split: if_splits)

section \<open>Texts are equal only for equal shapes\<close>

text \<open>A text ends where nothing follows, or a character that closes or separates.\<close>

definition ends :: "string \<Rightarrow> bool" where
  "ends r = (r = [] \<or> hd r \<in> {CHR '','', CHR '']'', CHR ''}''})"

lemma ends_simps [simp]: "ends []" "ends (CHR '','' # r)" "ends (CHR '']'' # r)" "ends (CHR ''}'' # r)"
  by (simp_all add: ends_def)

lemma atom_prefix:
  assumes "s @ r = s' @ r'" "atomText s" "atomText s'" "ends r" "ends r'"
  shows "s = s' \<and> r = r'"
proof -
  have "takeWhile atomChar (t @ q) = t \<and> dropWhile atomChar (t @ q) = q" if "atomText t" "ends q" for t q
  proof -
    have "takeWhile atomChar q = []" "dropWhile atomChar q = q" using that(2) by (cases q; auto simp: ends_def atomChar_def)+
    then show ?thesis using that(1) by (simp add: atomText_def list_all_iff)
  qed
  from this [OF assms(2,4)] this [OF assms(3,5)] assms(1) show ?thesis by metis
qed

lemma atom_or_not:
  obtains (atom) s where "shapeOf j = SAtom s" | (str) s where "j = JStr s" | (arr) vs where "j = JArr vs" | (obj) kvs where "j = JObj kvs"
  by (cases j) auto

lemma other_head: "\<nexists>s. shapeOf j = SAtom s \<Longrightarrow> \<exists>c cs. jsonStringify j = c # cs \<and> \<not> atomChar c"
  by (cases j rule: atom_or_not) (auto simp: quoted_def atomChar_def)

lemma atom_head: "atomText s \<Longrightarrow> \<exists>c cs. s = c # cs \<and> atomChar c"
  by (cases s) (auto simp: atomText_def)

text \<open>The text of a value, with what follows, determines its shape and what follows.\<close>

definition separable :: "('a \<Rightarrow> string) \<Rightarrow> ('a \<Rightarrow> 'b) \<Rightarrow> 'a \<Rightarrow> bool" where
  "separable txt sh x = (\<forall>y q q'. txt x @ q = txt y @ q' \<longrightarrow> ends q \<longrightarrow> ends q' \<longrightarrow> sh x = sh y \<and> q = q')"

lemma separableI:
  "(\<And>y q q'. txt x @ q = txt y @ q' \<Longrightarrow> ends q \<Longrightarrow> ends q' \<Longrightarrow> sh x = sh y \<and> q = q') \<Longrightarrow> separable txt sh x"
  unfolding separable_def by blast

lemma separableD: "\<lbrakk>separable txt sh x; txt x @ q = txt y @ q'; ends q; ends q'\<rbrakk> \<Longrightarrow> sh x = sh y \<and> q = q'"
  unfolding separable_def by blast

abbreviation textInj :: "json \<Rightarrow> bool" where
  "textInj \<equiv> separable jsonStringify shapeOf"

lemma atom_inj: assumes a: "shapeOf a = SAtom s" shows "textInj a"
proof (rule separableI)
  fix b r r'
  assume eq: "jsonStringify a @ r = jsonStringify b @ r'" and r: "ends r" "ends r'"
  note s = shape_atom [OF a]
  show "shapeOf a = shapeOf b \<and> r = r'"
  proof (cases "\<exists>t. shapeOf b = SAtom t")
    case True
    then obtain t where "shapeOf b = SAtom t" by blast
    with shape_atom [OF this] s eq have "s @ r = t @ r'" "atomText s" "atomText t" "shapeOf a = shapeOf b \<longleftrightarrow> s = t"
      using a by simp_all
    with atom_prefix [of s r t r'] r show ?thesis by blast
  next
    case False
    then obtain c cs where "jsonStringify b = c # cs" "\<not> atomChar c" using other_head [of b] by blast
    with eq s atom_head [of s] show ?thesis by auto
  qed
qed

lemma not_atom_head: "\<lbrakk>shapeOf b = SAtom t; jsonStringify b @ r = c # cs\<rbrakk> \<Longrightarrow> atomChar c"
  using shape_atom [of b t] atom_head [of t] by auto

lemma string_inj: "textInj (JStr s)"
proof (rule separableI)
  fix b r r'
  assume eq: "jsonStringify (JStr s) @ r = jsonStringify b @ r'"
  then show "shapeOf (JStr s) = shapeOf b \<and> r = r'"
    using escaped_body_inj [of s r _ r']
  proof (cases b rule: atom_or_not)
    case (atom t)
    from eq have "jsonStringify b @ r' = CHR 0x22 # (concat (map escapeChar s) @ [CHR 0x22]) @ r" by (simp add: quoted_def)
    from not_atom_head [OF atom this] show ?thesis by (simp add: atomChar_def)
  qed (auto simp: quoted_def)
qed

lemma text_not_close: "jsonStringify v @ r \<noteq> CHR '']'' # r'"
proof (cases v rule: atom_or_not)
  case (atom t)
  then show ?thesis using not_atom_head [OF atom] by (auto simp: atomChar_def)
qed (auto simp: quoted_def)

text \<open>Separated lists of texts: the elements of an array, the members of an object.\<close>

definition listTail :: "char \<Rightarrow> string list \<Rightarrow> string \<Rightarrow> string" where
  "listTail close ts r = (if ts = [] then close # r else CHR '','' # join '','' ts @ close # r)"

lemma join_Cons: "join '','' (t # ts) @ close # r = t @ listTail close ts r"
  by (cases ts) (simp_all add: listTail_def)

lemma ends_listTail: "close \<in> {CHR '']'', CHR ''}''} \<Longrightarrow> ends (listTail close ts r)"
  by (auto simp: listTail_def)

lemma listTail_inj:
  "\<lbrakk>listTail close ts r = listTail close us r'; close \<in> {CHR '']'', CHR ''}''}\<rbrakk> \<Longrightarrow>
     (ts = [] \<longleftrightarrow> us = []) \<and> join '','' ts @ close # r = join '','' us @ close # r'"
  by (auto simp: listTail_def split: if_splits)

lemma separated_inj:
  assumes open_text: "\<And>x q q'. txt x @ q \<noteq> close # q'"
    and close: "close \<in> {CHR '']'', CHR ''}''}"
  shows "\<lbrakk>list_all (separable txt sh) vs; join '','' (map txt vs) @ close # r = join '','' (map txt ws) @ close # r'\<rbrakk> \<Longrightarrow>
     map sh vs = map sh ws \<and> r = r'"
proof (induction vs arbitrary: ws)
  case Nil
  show ?case
  proof (cases ws)
    case (Cons w ws')
    with Nil.prems(2) have "txt w @ listTail close (map txt ws') r' = close # r" by (simp add: join_Cons del: join.simps(2,3))
    with open_text show ?thesis by blast
  qed (use Nil.prems in simp)
next
  case (Cons v vs)
  show ?case
  proof (cases ws)
    case Nil
    with Cons.prems(2) have "txt v @ listTail close (map txt vs) r = close # r'" by (simp add: join_Cons del: join.simps(2,3))
    with open_text show ?thesis by blast
  next
    case ws: (Cons w ws')
    with Cons.prems(2) have "txt v @ listTail close (map txt vs) r = txt w @ listTail close (map txt ws') r'"
      by (simp add: join_Cons del: join.simps(2,3))
    moreover have "separable txt sh v" using Cons.prems(1) by simp
    ultimately have same: "sh v = sh w" "listTail close (map txt vs) r = listTail close (map txt ws') r'"
      using separableD ends_listTail [OF close] by (metis, metis)
    from Cons.IH [of ws'] Cons.prems(1) listTail_inj [OF same(2) close] same(1) ws show ?thesis by simp
  qed
qed

lemma array_inj: assumes vs: "list_all textInj vs" shows "textInj (JArr vs)"
proof (rule separableI)
  fix b r r'
  assume eq: "jsonStringify (JArr vs) @ r = jsonStringify b @ r'"
  show "shapeOf (JArr vs) = shapeOf b \<and> r = r'"
  proof (cases b rule: atom_or_not)
    case (atom t)
    from eq have "jsonStringify b @ r' = CHR ''['' # (join '','' (map jsonStringify vs) @ '']'') @ r" by simp
    from not_atom_head [OF atom this] show ?thesis by (simp add: atomChar_def)
  next
    case (arr ws)
    with eq have "join '','' (map jsonStringify vs) @ CHR '']'' # r = join '','' (map jsonStringify ws) @ CHR '']'' # r'" by simp
    from separated_inj [OF text_not_close _ vs this] show ?thesis by (simp add: arr)
  qed (use eq in \<open>simp_all add: quoted_def\<close>)
qed

abbreviation textOfMember :: "string \<times> json \<Rightarrow> string" where
  "textOfMember kv \<equiv> (case kv of (k, v) \<Rightarrow> quoted k @ '':'' @ jsonStringify v)"

lemma member_not_close: "textOfMember x @ q \<noteq> CHR ''}'' # q'"
  by (simp add: quoted_def split: prod.split)

lemma member_separable:
  assumes x: "textInj (snd x)" shows "separable textOfMember (\<lambda>(k, v). (k, shapeOf v)) x"
proof (rule separableI)
  fix y q q'
  assume eq: "textOfMember x @ q = textOfMember y @ q'" and q: "ends q" "ends q'"
  obtain k v l w where xy: "x = (k, v)" "y = (l, w)" by (metis surj_pair)
  with eq have "concat (map escapeChar k) @ CHR 0x22 # CHR '':'' # jsonStringify v @ q
      = concat (map escapeChar l) @ CHR 0x22 # CHR '':'' # jsonStringify w @ q'" by (simp add: quoted_def)
  from escaped_body_inj [OF this] have "k = l" "jsonStringify v @ q = jsonStringify w @ q'" by simp_all
  moreover from x have "textInj v" by (simp add: xy)
  ultimately have "k = l \<and> shapeOf v = shapeOf w \<and> q = q'" using separableD [of jsonStringify shapeOf v q w q'] q by blast
  then show "(case x of (k, v) \<Rightarrow> (k, shapeOf v)) = (case y of (k, v) \<Rightarrow> (k, shapeOf v)) \<and> q = q'" by (simp add: xy)
qed

lemma object_inj: assumes kvs: "list_all (textInj \<circ> snd) kvs" shows "textInj (JObj kvs)"
proof (rule separableI)
  fix b r r'
  assume eq: "jsonStringify (JObj kvs) @ r = jsonStringify b @ r'"
  have members: "list_all (separable textOfMember (\<lambda>(k, v). (k, shapeOf v))) kvs"
    using kvs member_separable by (simp add: list_all_iff)
  show "shapeOf (JObj kvs) = shapeOf b \<and> r = r'"
  proof (cases b rule: atom_or_not)
    case (atom t)
    from eq have "jsonStringify b @ r' = CHR ''{'' # (join '','' (map textOfMember kvs) @ ''}'') @ r" by simp
    from not_atom_head [OF atom this] show ?thesis by (simp add: atomChar_def)
  next
    case (obj ws)
    with eq have texts: "join '','' (map textOfMember kvs) @ CHR ''}'' # r = join '','' (map textOfMember ws) @ CHR ''}'' # r'" by simp
    have "map (\<lambda>(k, v). (k, shapeOf v)) kvs = map (\<lambda>(k, v). (k, shapeOf v)) ws \<and> r = r'"
      by (rule separated_inj [OF member_not_close _ members texts]) simp
    then show ?thesis by (simp add: obj)
  qed (use eq in \<open>simp_all add: quoted_def\<close>)
qed

lemma textInj_all: "textInj j"
proof (induction j)
  case (JStr s)
  then show ?case by (rule string_inj)
next
  case (JArr vs)
  then show ?case by (intro array_inj) (simp add: list_all_iff)
next
  case (JObj kvs)
  then show ?case by (intro object_inj) (auto simp: list_all_iff)
qed (rule atom_inj, simp)+

theorem stringify_shape: "jsonStringify a = jsonStringify b \<Longrightarrow> shapeOf a = shapeOf b"
  using separableD [OF textInj_all, where x = a and q = "[]" and y = b and q' = "[]"] by simp

end
