(* ===== verification/Core_Values.thy ===== *)
theory Core_Values
  imports Json_Parse Ums_Events
begin

text \<open>
  The helpers of the API core (apps/api/src/core.ts, lines 235-661, 3209-3292, 4205-4266 and 4316-4326): stable
  text and digests of untyped values, \<open>Number\<close>, and the normalisers of request members. Requests
  are untyped (\<open>js_value\<close>); a normaliser that throws returns the error.
\<close>

section \<open>Host and errors\<close>

text \<open>\<open>dateParse\<close> is \<open>Date.parse\<close>, with \<open>None\<close> for NaN; \<open>isoOfTime\<close> is \<open>new Date(ms).toISOString()\<close>,
  with \<open>None\<close> for a time out of range, which throws.\<close>

record core_host = engine_host +
  dateParse :: "string \<Rightarrow> int option"
  isoOfTime :: "int \<Rightarrow> string option"

text \<open>A plain \<open>Error\<close>, one with the code PERSONALIZATION_POLICY_DENY (and the id of the audit event,
  where the thrower sets it), one with UNSUPPORTED_OPERATION, one with PROMOTE_FRESH_EVIDENCE_STALE and
  its figures, and the \<open>TypeError\<close> and \<open>RangeError\<close> of the runtime.\<close>

datatype core_error =
    CoreError string
  | PolicyDeny string "string option"
  | UnsupportedOperation string
  | StaleEvidence string js_value
  | RuntimeTypeError string
  | RuntimeRangeError string

type_synonym 'a core = "(core_error, 'a) result"

section \<open>Stable text\<close>

text \<open>\<open>stableSortObject\<close> of core.ts sorts with the default \<open>sort()\<close>.\<close>

fun stableSortObject :: "js_value \<Rightarrow> js_value" where
  "stableSortObject (Arr vs) = Arr (map stableSortObject vs)"
| "stableSortObject (Obj kvs) =
     Obj (arraySort (key fst codeUnitOrder) (map (\<lambda>(k, v). (k, stableSortObject v)) kvs))"
| "stableSortObject v = v"

text \<open>What \<open>JSON.stringify\<close> prints of a value: members that are undefined are left out, elements
  that are undefined are null.\<close>

fun jsonOf :: "js_value \<Rightarrow> json" where
  "jsonOf Undefined = JNull"
| "jsonOf Null = JNull"
| "jsonOf (Bool b) = JBool b"
| "jsonOf (Num x) = JNum x"
| "jsonOf (Str s) = JStr s"
| "jsonOf (Arr vs) = JArr (map jsonOf vs)"
| "jsonOf (Obj kvs) = JObj (map (\<lambda>(k, v). (k, jsonOf v)) (filter (\<lambda>(k, v). v \<noteq> Undefined) kvs))"

definition stableStringify :: "js_value \<Rightarrow> string" where
  "stableStringify value = jsonStringify (jsonOf (stableSortObject value))"

text \<open>\<open>hash(stableStringify(value))\<close>\<close>

definition digestOf :: "core_host \<Rightarrow> js_value \<Rightarrow> string" where
  "digestOf h value = sha256 h (stableStringify value)"

definition makeId :: "string \<Rightarrow> string \<Rightarrow> string" where
  "makeId prefix digest = prefix @ ''_'' @ take 12 digest"

definition strs :: "string list \<Rightarrow> js_value" where
  "strs xs = Arr (map Str xs)"

text \<open>A number that is an integer, an optional string as its value or null.\<close>

definition int_value :: "int \<Rightarrow> js_value" where
  "int_value n = Num (jint n)"

definition strOrNull :: "string option \<Rightarrow> js_value" where
  "strOrNull s = (case s of None \<Rightarrow> Null | Some t \<Rightarrow> Str t)"

text \<open>\<open>{...a, k: v, ...}\<close>\<close>

definition spread :: "js_value \<Rightarrow> (string \<times> js_value) list \<Rightarrow> js_value" where
  "spread base kvs = Obj (fold (\<lambda>(k, v). setProp k v) kvs (case base of Obj own \<Rightarrow> own | _ \<Rightarrow> []))"

definition members :: "js_value \<Rightarrow> (string \<times> js_value) list" where
  "members v = (case v of Obj own \<Rightarrow> own | _ \<Rightarrow> [])"

section \<open>Requests\<close>

definition requireObject :: "js_value \<Rightarrow> unit core" where
  "requireObject value = (if isObj value then Inr () else Inl (CoreError ''Request body must be a JSON object.''))"

definition DEFAULT_STORE_ID :: string where
  "DEFAULT_STORE_ID = ''coding-agent''"

definition INTERNAL_PROFILE_ID :: string where
  "INTERNAL_PROFILE_ID = ''__store_default__''"

definition DEFAULT_VERSION_TIMESTAMP :: string where
  "DEFAULT_VERSION_TIMESTAMP = ''1970-01-01T00:00:00.000Z''"

text \<open>\<open>typeof v === "string" && v.trim() ? v.trim() : d\<close>\<close>

definition trimmedOr :: "string \<Rightarrow> js_value \<Rightarrow> string" where
  "trimmedOr d value = (case value of Str s \<Rightarrow> if trim s = [] then d else trim s | _ \<Rightarrow> d)"

definition defaultStoreId :: "js_value \<Rightarrow> string" where
  "defaultStoreId value = trimmedOr DEFAULT_STORE_ID value"

definition normalizeProfile :: "js_value \<Rightarrow> string" where
  "normalizeProfile value = trimmedOr INTERNAL_PROFILE_ID value"

definition normalizeMetadata :: "js_value \<Rightarrow> js_value" where
  "normalizeMetadata value = (if isObj value then stableSortObject value else Obj [])"

record normalized_request =
  rq_storeId :: string
  rq_profile :: string
  rq_input :: js_value
  rq_operation :: string

definition normalizeRequest :: "string \<Rightarrow> js_value \<Rightarrow> normalized_request core" where
  "normalizeRequest operation request =
     chain (requireObject request) (\<lambda>_.
       let storeId = defaultStoreId (firstDefined [getProp ''storeId'' request, getProp ''store'' request]);
           profile = normalizeProfile (getProp ''profile'' request)
       in Inr \<lparr>rq_storeId = storeId, rq_profile = profile,
            rq_input = stableSortObject (spread request [(''storeId'', Str storeId), (''profile'', Str profile)]),
            rq_operation = operation\<rparr>)"

definition opSeed :: "core_host \<Rightarrow> normalized_request \<Rightarrow> string" where
  "opSeed h r = digestOf h (Obj [(''operation'', Str (rq_operation r)), (''storeId'', Str (rq_storeId r)),
     (''profile'', Str (rq_profile r)), (''input'', rq_input r)])"

definition buildMeta :: "core_host \<Rightarrow> normalized_request \<Rightarrow> js_value" where
  "buildMeta h r = Obj [(''operation'', Str (rq_operation r)), (''storeId'', Str (rq_storeId r)),
     (''profile'', Str (rq_profile r)), (''requestDigest'', Str (opSeed h r)), (''deterministic'', Bool True)]"

section \<open>Numbers\<close>

text \<open>\<open>Number(s)\<close> of a string: blank is 0, Infinity, a hexadecimal, octal or binary literal, or a
  decimal literal with an optional sign.\<close>

definition digitIn :: "nat \<Rightarrow> char \<Rightarrow> bool" where
  "digitIn radix c = (isHexDigit c \<and> hexDigitNat c < radix)"

definition radixValue :: "nat \<Rightarrow> string \<Rightarrow> int" where
  "radixValue radix ds = foldl (\<lambda>n c. int radix * n + int (hexDigitNat c)) 0 ds"

definition radixNumber :: "nat \<Rightarrow> string \<Rightarrow> jsnum" where
  "radixNumber radix ds =
     (if ds \<noteq> [] \<and> list_all (digitIn radix) ds then round64 (of_int (radixValue radix ds)) else JNaN)"

definition decimalNumber :: "bool \<Rightarrow> string \<Rightarrow> jsnum" where
  "decimalNumber negative s =
     (let whole = takeWhile isDigit s; after = dropWhile isDigit s;
          dotted = (after \<noteq> [] \<and> hd after = CHR ''.'');
          fraction = (if dotted then takeWhile isDigit (tl after) else []);
          tail = (if dotted then dropWhile isDigit (tl after) else after)
      in if whole = [] \<and> fraction = [] then JNaN
         else (case readExponent tail of
             Some (e, []) \<Rightarrow>
               (let x = of_int (digitsValue (whole @ fraction)) * pow10 (e - int (length fraction))
                in round64 (if negative then - x else x))
           | _ \<Rightarrow> JNaN))"

definition stringToNumber :: "string \<Rightarrow> jsnum" where
  "stringToNumber s =
     (let t = trim s;
          prefix = map lowerChar (take 2 t);
          negative = (take 1 t = ''-'');
          unsigned = (if negative \<or> take 1 t = ''+'' then drop 1 t else t)
      in if t = [] then jint 0
         else if prefix = ''0x'' then radixNumber 16 (drop 2 t)
         else if prefix = ''0o'' then radixNumber 8 (drop 2 t)
         else if prefix = ''0b'' then radixNumber 2 (drop 2 t)
         else if unsigned = ''Infinity'' then (if negative then JNegInf else JInf)
         else decimalNumber negative unsigned)"

fun toNumber :: "js_value \<Rightarrow> jsnum" where
  "toNumber Undefined = JNaN"
| "toNumber Null = jint 0"
| "toNumber (Bool b) = jint (of_bool b)"
| "toNumber (Num x) = x"
| "toNumber (Str s) = stringToNumber s"
| "toNumber (Arr vs) = stringToNumber (toStr (Arr vs))"
| "toNumber (Obj kvs) = JNaN"

definition clamp01 :: "js_value \<Rightarrow> jsnum \<Rightarrow> jsnum" where
  "clamp01 value fallback =
     (case toNumber value of
        JFin r \<Rightarrow> if r < 0 then jint 0 else if 1 < r then jint 1 else JFin r
      | _ \<Rightarrow> fallback)"

definition toPositiveInteger :: "js_value \<Rightarrow> int \<Rightarrow> int" where
  "toPositiveInteger value fallback =
     (case toNumber value of JFin r \<Rightarrow> if r \<le> 0 then fallback else \<lfloor>r\<rfloor> | _ \<Rightarrow> fallback)"

definition toNonNegativeInteger :: "js_value \<Rightarrow> int \<Rightarrow> int" where
  "toNonNegativeInteger value fallback =
     (case toNumber value of JFin r \<Rightarrow> if r < 0 then fallback else \<lfloor>r\<rfloor> | _ \<Rightarrow> fallback)"

text \<open>\<open>roundNumber(value, 6)\<close>\<close>

definition roundNumber :: "jsnum \<Rightarrow> jsnum" where
  "roundNumber value =
     (if isFinite value then jdiv (math_round (jmul value (jint 1000000))) (jint 1000000) else jint 0)"

definition toFiniteNumber :: "js_value \<Rightarrow> jsnum \<Rightarrow> jsnum" where
  "toFiniteNumber value fallback = (let parsed = toNumber value in if isFinite parsed then parsed else fallback)"

definition stableScore :: "js_value \<Rightarrow> jsnum \<Rightarrow> jsnum" where
  "stableScore value fallback = (let parsed = toNumber value in if isFinite parsed then parsed else fallback)"

section \<open>Strings and arrays of strings\<close>

definition stringsIn :: "js_value \<Rightarrow> string list" where
  "stringsIn values = map strOrEmpty (filter isStr (arrOrEmpty values))"

definition asSortedUniqueStrings :: "core_host \<Rightarrow> js_value \<Rightarrow> string list" where
  "asSortedUniqueStrings h values =
     arraySort (localeCompare h) (setOrder (nonEmpty (map trim (stringsIn values))))"

definition mergeStringLists :: "core_host \<Rightarrow> js_value \<Rightarrow> js_value \<Rightarrow> string list" where
  "mergeStringLists h left right = asSortedUniqueStrings h (Arr (arrOrEmpty left @ arrOrEmpty right))"

definition MAX_LIST_ITEMS :: nat where
  "MAX_LIST_ITEMS = 128"

definition MAX_SIGNAL_ITEM_LENGTH :: nat where
  "MAX_SIGNAL_ITEM_LENGTH = 256"

definition ensureBoundedCount :: "'a list \<Rightarrow> string \<Rightarrow> nat \<Rightarrow> 'a list core" where
  "ensureBoundedCount values fieldName maxItems =
     (if maxItems < length values
      then Inl (CoreError (fieldName @ '' may include at most '' @ natDigits (int maxItems) @ '' entries.''))
      else Inr values)"

definition normalizeBoundedString :: "js_value \<Rightarrow> string \<Rightarrow> nat \<Rightarrow> string option core" where
  "normalizeBoundedString value fieldName maxLength =
     (if trim (strOrEmpty value) = [] then Inr None
      else if maxLength < length (trim (strOrEmpty value))
      then Inl (CoreError (fieldName @ '' must be <= '' @ natDigits (int maxLength) @ '' characters.''))
      else Inr (Some (trim (strOrEmpty value))))"

definition normalizeBoundedStringLenient :: "js_value \<Rightarrow> nat \<Rightarrow> string option" where
  "normalizeBoundedStringLenient value maxLength =
     (let normalized = trim (strOrEmpty value)
      in if normalized = [] then None else Some (take maxLength normalized))"

definition boundedStrings :: "core_host \<Rightarrow> js_value \<Rightarrow> string \<Rightarrow> nat \<Rightarrow> string list core" where
  "boundedStrings h values fieldName maxItemLength =
     chain (ensureBoundedCount (asSortedUniqueStrings h values) fieldName MAX_LIST_ITEMS) (\<lambda>normalized.
       if list_ex (\<lambda>entry. maxItemLength < length entry) normalized
       then Inl (CoreError (fieldName @ '' entries must be <= '' @ natDigits (int maxItemLength) @ '' characters.''))
       else Inr normalized)"

definition normalizeBoundedStringArray :: "core_host \<Rightarrow> js_value \<Rightarrow> string \<Rightarrow> string list core" where
  "normalizeBoundedStringArray h values fieldName = boundedStrings h values fieldName MAX_SIGNAL_ITEM_LENGTH"

definition guardedEntry :: "string \<Rightarrow> js_value \<Rightarrow> string core" where
  "guardedEntry fieldName value =
     (if \<not> isStr value \<or> trim (strOrEmpty value) = []
      then Inl (CoreError (fieldName @ '' entries must be non-empty strings.''))
      else if MAX_SIGNAL_ITEM_LENGTH < length (trim (strOrEmpty value))
      then Inl (CoreError (fieldName @ '' entries must be <= '' @ natDigits (int MAX_SIGNAL_ITEM_LENGTH) @ '' characters.''))
      else Inr (trim (strOrEmpty value)))"

text \<open>\<open>requiredError\<close> is \<open>None\<close> when the array may be empty.\<close>

definition normalizeGuardedStringArray ::
    "core_host \<Rightarrow> js_value \<Rightarrow> string \<Rightarrow> string option \<Rightarrow> string list core" where
  "normalizeGuardedStringArray h values fieldName requiredError =
     (if nullish values then (case requiredError of Some e \<Rightarrow> Inl (CoreError e) | None \<Rightarrow> Inr [])
      else if \<not> isArr values then Inl (CoreError (fieldName @ '' must be an array of non-empty strings.''))
      else chain (traverse (guardedEntry fieldName) (arrOrEmpty values)) (\<lambda>entries.
        chain (ensureBoundedCount (arraySort (localeCompare h) (setOrder entries)) fieldName MAX_LIST_ITEMS) (\<lambda>normalized.
          case requiredError of
            Some e \<Rightarrow> if normalized = [] then Inl (CoreError e) else Inr normalized
          | None \<Rightarrow> Inr normalized)))"

definition normalizeDeterministicEnum ::
    "js_value \<Rightarrow> string \<Rightarrow> string \<Rightarrow> string list \<Rightarrow> string \<Rightarrow> string core" where
  "normalizeDeterministicEnum value fieldName operation allowedValues fallback =
     (let refused = CoreError (operation @ '' '' @ fieldName @ '' must be one of: ''
            @ join '', '' (arraySort codeUnitOrder allowedValues) @ ''.'');
          normalized = toLowerCase (trim (strOrEmpty value))
      in if nullish value then Inr fallback
         else if \<not> isStr value then Inl refused
         else if normalized = [] then Inr fallback
         else if normalized \<notin> set allowedValues then Inl refused
         else Inr normalized)"

definition requireNonEmptyString :: "js_value \<Rightarrow> string \<Rightarrow> string core" where
  "requireNonEmptyString value fieldName =
     (if trim (strOrEmpty value) = [] then Inl (CoreError (fieldName @ '' must be a non-empty string.''))
      else Inr (trim (strOrEmpty value)))"

section \<open>Timestamps\<close>

definition normalizeTimestamp :: "js_value \<Rightarrow> string option" where
  "normalizeTimestamp value = (if trim (strOrEmpty value) = [] then None else Some (trim (strOrEmpty value)))"

definition normalizeIsoOrDefault :: "js_value \<Rightarrow> string \<Rightarrow> string" where
  "normalizeIsoOrDefault value fallback = (case normalizeTimestamp value of None \<Rightarrow> fallback | Some t \<Rightarrow> t)"

text \<open>The fallback is a timestamp or null.\<close>

definition normalizeIsoTimestamp ::
    "core_host \<Rightarrow> js_value \<Rightarrow> string \<Rightarrow> string option \<Rightarrow> string option core" where
  "normalizeIsoTimestamp h value fieldName fallback =
     (case normalizeTimestamp value of
        None \<Rightarrow> Inr fallback
      | Some normalized \<Rightarrow>
          (case toISOString h normalized of
             None \<Rightarrow> Inl (CoreError (fieldName @ '' must be an ISO-8601 timestamp.''))
           | Some t \<Rightarrow> Inr (Some t)))"

text \<open>With a timestamp as its fallback the result is a timestamp.\<close>

definition isoTimestampOr :: "core_host \<Rightarrow> js_value \<Rightarrow> string \<Rightarrow> string \<Rightarrow> string core" where
  "isoTimestampOr h value fieldName fallback =
     chain (normalizeIsoTimestamp h value fieldName (Some fallback))
       (\<lambda>t. Inr (case t of Some s \<Rightarrow> s | None \<Rightarrow> fallback))"

definition isoTimestamp :: "core_host \<Rightarrow> js_value \<Rightarrow> string \<Rightarrow> string core" where
  "isoTimestamp h value fieldName = isoTimestampOr h value fieldName DEFAULT_VERSION_TIMESTAMP"

definition isoOrFallback :: "core_host \<Rightarrow> js_value \<Rightarrow> string \<Rightarrow> string" where
  "isoOrFallback h value fallback =
     (case isoTimestampOr h value ''timestamp'' fallback of Inl _ \<Rightarrow> fallback | Inr t \<Rightarrow> t)"

definition normalizeIsoTimestampOrFallback :: "core_host \<Rightarrow> js_value \<Rightarrow> string" where
  "normalizeIsoTimestampOrFallback h value = isoOrFallback h value DEFAULT_VERSION_TIMESTAMP"

definition MILLIS_PER_DAY :: int where
  "MILLIS_PER_DAY = 24 * 60 * 60 * 1000"

text \<open>\<open>addDaysToIso\<close> and \<open>addHoursToIso\<close> with a whole number of milliseconds.\<close>

definition addMillisToIso :: "core_host \<Rightarrow> string \<Rightarrow> int \<Rightarrow> string core" where
  "addMillisToIso h baseIso ms =
     (case dateParse h baseIso of
        None \<Rightarrow> Inr baseIso
      | Some parsed \<Rightarrow> (case isoOfTime h (parsed + ms) of
            Some t \<Rightarrow> Inr t
          | None \<Rightarrow> Inl (RuntimeRangeError ''Invalid time value'')))"

definition addDaysToIso :: "core_host \<Rightarrow> string \<Rightarrow> int \<Rightarrow> string core" where
  "addDaysToIso h baseIso days = addMillisToIso h baseIso (days * MILLIS_PER_DAY)"

definition isoAgeDays :: "core_host \<Rightarrow> string \<Rightarrow> string \<Rightarrow> int" where
  "isoAgeDays h referenceAt targetAt =
     (case (dateParse h referenceAt, dateParse h targetAt) of
        (Some referenceMs, Some targetMs) \<Rightarrow>
          (case jdiv (jsub (jint referenceMs) (jint targetMs)) (jint MILLIS_PER_DAY) of JFin days \<Rightarrow> max 0 \<lfloor>days\<rfloor> | _ \<Rightarrow> 0)
      | _ \<Rightarrow> 0)"

section \<open>The reported latency\<close>

text \<open>\<open>Number.parseInt(s, 16)\<close>\<close>

definition parseInt16 :: "string \<Rightarrow> int option" where
  "parseInt16 s =
     (let t = dropWhile isWhiteSpace s;
          negative = (take 1 t = ''-'');
          u = (if negative \<or> take 1 t = ''+'' then drop 1 t else t);
          v = (if map lowerChar (take 2 u) = ''0x'' then drop 2 u else u);
          ds = takeWhile isHexDigit v
      in if ds = [] then None else Some (if negative then - radixValue 16 ds else radixValue 16 ds))"

text \<open>The remainder of \<open>%\<close> has the sign of the dividend.\<close>

definition deterministicLatencyMs :: "string \<Rightarrow> int" where
  "deterministicLatencyMs requestDigest =
     (case parseInt16 (take 8 requestDigest) of
        None \<Rightarrow> 4
      | Some n \<Rightarrow> 4 + (if 0 \<le> n then n mod 37 else - ((- n) mod 37)))"

definition latencyBucket :: "int \<Rightarrow> string" where
  "latencyBucket latencyMs =
     (if latencyMs \<le> 10 then ''le_10ms'' else if latencyMs \<le> 20 then ''le_20ms''
      else if latencyMs \<le> 30 then ''le_30ms'' else ''gt_30ms'')"

definition buildSloObservability :: "string \<Rightarrow> string \<Rightarrow> int \<Rightarrow> js_value" where
  "buildSloObservability requestDigest operation targetP95Ms =
     (let observedLatencyMs = deterministicLatencyMs requestDigest;
          budgetDeltaMs = observedLatencyMs - targetP95Ms;
          withinBudget = (budgetDeltaMs \<le> 0)
      in Obj [(''targetP95Ms'', int_value targetP95Ms), (''observedLatencyMs'', int_value observedLatencyMs),
           (''latencyBucket'', Str (latencyBucket observedLatencyMs)),
           (''budgetStatus'', Str (if withinBudget then ''within_budget'' else ''out_of_budget'')),
           (''withinBudget'', Bool withinBudget), (''budgetDeltaMs'', int_value budgetDeltaMs),
           (''operation'', Str operation), (''deterministic'', Bool True), (''replaySafe'', Bool True)])"

end
