(* ===== verification/Core_State.thy ===== *)
theory Core_State
  imports Core_Values
begin

text \<open>
  The process-wide stores of the API core (core.ts, lines 53, 2453-2540, 3486-3510, 4145-4203 and
  4615-4652): a Map from store ids to Maps from profiles to the state of a profile. An operation
  changes the state of one profile; what it changed before it throws stays changed, so its result is
  the answer or the error beside the new stores.
\<close>

section \<open>The state of a profile\<close>

record ProfileState =
  st_events :: "js_value list"
  st_eventDigests :: "string list"
  st_rules :: "js_value list"
  st_feedback :: "js_value list"
  st_outcomes :: "js_value list"
  st_learnerProfiles :: "js_value list"
  st_identityGraphEdges :: "js_value list"
  st_misconceptions :: "js_value list"
  st_misconceptionChronologyHistory :: "js_value list"
  st_curriculumPlanItems :: "js_value list"
  st_curriculumConflictHistory :: "js_value list"
  st_curriculumRecommendationSnapshots :: "js_value list"
  st_reviewScheduleEntries :: "js_value list"
  st_painSignals :: "js_value list"
  st_failureSignals :: "js_value list"
  st_incidentEscalations :: "js_value list"
  st_manualOverrideControls :: "js_value list"
  st_schedulerClocks :: js_value
  st_reviewArchivalTiers :: js_value
  st_recallAllowlistPolicy :: js_value
  st_attributionRankingPolicy :: js_value
  st_degradedTutorSessions :: "js_value list"
  st_policyDecisions :: "js_value list"
  st_policyAuditTrail :: "js_value list"
  st_weightAdjustmentLedger :: "js_value list"
  st_shadowCandidates :: "js_value list"
  st_replayEvaluations :: "js_value list"

definition DEFAULT_SLEEP_THRESHOLD :: int where
  "DEFAULT_SLEEP_THRESHOLD = 8"

definition DEFAULT_ACTIVE_REVIEW_SET_LIMIT :: int where
  "DEFAULT_ACTIVE_REVIEW_SET_LIMIT = 32"

definition allowlistId :: "core_host \<Rightarrow> string \<Rightarrow> string \<Rightarrow> string" where
  "allowlistId h storeId profile =
     makeId ''allow'' (digestOf h (Obj [(''storeId'', Str storeId), (''profile'', Str profile)]))"

definition rankingPolicyId :: "core_host \<Rightarrow> string \<Rightarrow> string \<Rightarrow> string" where
  "rankingPolicyId h storeId profile =
     makeId ''atrp'' (digestOf h (Obj [(''storeId'', Str storeId), (''profile'', Str profile),
       (''policy'', Str ''attribution_ranking'')]))"

definition newProfileState :: "core_host \<Rightarrow> string \<Rightarrow> string \<Rightarrow> ProfileState" where
  "newProfileState h storeId profile =
     \<lparr>st_events = [], st_eventDigests = [], st_rules = [], st_feedback = [], st_outcomes = [],
      st_learnerProfiles = [], st_identityGraphEdges = [], st_misconceptions = [],
      st_misconceptionChronologyHistory = [], st_curriculumPlanItems = [],
      st_curriculumConflictHistory = [], st_curriculumRecommendationSnapshots = [],
      st_reviewScheduleEntries = [], st_painSignals = [], st_failureSignals = [],
      st_incidentEscalations = [], st_manualOverrideControls = [],
      st_schedulerClocks = Obj
        [(''interactionTick'', int_value 0), (''sleepTick'', int_value 0), (''fatigueLoad'', int_value 0),
         (''sleepThreshold'', int_value DEFAULT_SLEEP_THRESHOLD),
         (''fatigueThreshold'', int_value DEFAULT_SLEEP_THRESHOLD), (''noveltyWriteLoad'', int_value 0),
         (''noveltyWriteThreshold'', int_value DEFAULT_SLEEP_THRESHOLD), (''consolidationCount'', int_value 0),
         (''lastConsolidationCause'', Str ''none''), (''lastInteractionAt'', Str DEFAULT_VERSION_TIMESTAMP),
         (''lastSleepAt'', Str DEFAULT_VERSION_TIMESTAMP), (''lastConsolidatedAt'', Str DEFAULT_VERSION_TIMESTAMP),
         (''updatedAt'', Str DEFAULT_VERSION_TIMESTAMP)],
      st_reviewArchivalTiers = Obj
        [(''activeLimit'', int_value DEFAULT_ACTIVE_REVIEW_SET_LIMIT), (''activeReviewIds'', Arr []),
         (''tiers'', Obj [(''warm'', Arr []), (''cold'', Arr []), (''frozen'', Arr [])]),
         (''archivedRecords'', Arr []), (''updatedAt'', Str DEFAULT_VERSION_TIMESTAMP)],
      st_recallAllowlistPolicy = Obj
        [(''policyId'', Str (allowlistId h storeId profile)), (''allowedStoreIds'', strs [storeId]),
         (''updatedAt'', Str DEFAULT_VERSION_TIMESTAMP), (''metadata'', Obj [])],
      st_attributionRankingPolicy = Obj
        [(''policyId'', Str (rankingPolicyId h storeId profile)), (''enabled'', Bool False),
         (''failClosed'', Bool True), (''updatedAt'', Str DEFAULT_VERSION_TIMESTAMP), (''metadata'', Obj [])],
      st_degradedTutorSessions = [], st_policyDecisions = [], st_policyAuditTrail = [],
      st_weightAdjustmentLedger = [], st_shadowCandidates = [], st_replayEvaluations = []\<rparr>"

section \<open>The stores\<close>

type_synonym stores = "(string \<times> (string \<times> ProfileState) list) list"

definition getStoreProfiles :: "string \<Rightarrow> stores \<Rightarrow> (string \<times> ProfileState) list" where
  "getStoreProfiles storeId stores = (case map_of stores storeId of None \<Rightarrow> [] | Some profiles \<Rightarrow> profiles)"

definition findProfile :: "string \<Rightarrow> string \<Rightarrow> stores \<Rightarrow> ProfileState option" where
  "findProfile storeId profile stores = map_of (getStoreProfiles storeId stores) profile"

definition getProfileState :: "core_host \<Rightarrow> string \<Rightarrow> string \<Rightarrow> stores \<Rightarrow> ProfileState" where
  "getProfileState h storeId profile stores =
     (case findProfile storeId profile stores of
        Some existing \<Rightarrow> existing
      | None \<Rightarrow> newProfileState h storeId profile)"

definition setProfileState :: "string \<Rightarrow> string \<Rightarrow> ProfileState \<Rightarrow> stores \<Rightarrow> stores" where
  "setProfileState storeId profile state stores =
     AList.update storeId (AList.update profile state (getStoreProfiles storeId stores)) stores"

type_synonym handler = "normalized_request \<Rightarrow> ProfileState \<Rightarrow> js_value core \<times> ProfileState"

text \<open>The frame every operation has: the request is normalised, then the handler works on the state
  object of one profile, which is created when it is new.\<close>

definition runOperation :: "core_host \<Rightarrow> string \<Rightarrow> handler \<Rightarrow> js_value \<Rightarrow> stores \<Rightarrow> js_value core \<times> stores" where
  "runOperation h operation handle request stores =
     (case normalizeRequest operation request of
        Inl e \<Rightarrow> (Inl e, stores)
      | Inr r \<Rightarrow>
          (case handle r (getProfileState h (rq_storeId r) (rq_profile r) stores) of
             (answer, state) \<Rightarrow> (answer, setProfileState (rq_storeId r) (rq_profile r) state stores)))"

text \<open>Inside a handler: a helper that throws ends it with the state as it is; a helper that changes
  the state hands it on.\<close>

definition attempt :: "'a core \<Rightarrow> ('a \<Rightarrow> ProfileState \<Rightarrow> 'b core \<times> ProfileState) \<Rightarrow> ProfileState \<Rightarrow> 'b core \<times> ProfileState" where
  "attempt r k s = (case r of Inl e \<Rightarrow> (Inl e, s) | Inr x \<Rightarrow> k x s)"

definition andThen ::
    "(ProfileState \<Rightarrow> 'a core \<times> ProfileState) \<Rightarrow> ('a \<Rightarrow> ProfileState \<Rightarrow> 'b core \<times> ProfileState) \<Rightarrow>
     ProfileState \<Rightarrow> 'b core \<times> ProfileState" where
  "andThen m k s = (case m s of (r, s') \<Rightarrow> attempt r k s')"

lemma attempt_simps [simp, exec_simps]:
  "attempt (Inl e) k s = (Inl e, s)"
  "attempt (Inr x) k s = k x s"
  by (simp_all add: attempt_def)

lemma findProfile_set [simp]:
  "findProfile s p (setProfileState t q state stores) =
     (if s = t \<and> p = q then Some state else findProfile s p stores)"
  by (auto simp: findProfile_def setProfileState_def getStoreProfiles_def update_conv')

lemma runOperation_frame:
  assumes "normalizeRequest operation request = Inr r" "(s, p) \<noteq> (rq_storeId r, rq_profile r)"
  shows "findProfile s p (snd (runOperation h operation handle request stores)) = findProfile s p stores"
  using assms by (auto simp: runOperation_def split: prod.splits)

section \<open>Orders\<close>

text \<open>\<open>String(v ?? "")\<close>\<close>

definition textOf :: "js_value \<Rightarrow> string" where
  "textOf v = (if nullish v then [] else toStr v)"

definition compareByIsoTimestampThenId :: "core_host \<Rightarrow> string \<Rightarrow> string \<Rightarrow> js_value comparator" where
  "compareByIsoTimestampThenId h timestampField idField =
     thenBy (key (\<lambda>v. textOf (getProp timestampField v)) (localeCompare h))
            (key (\<lambda>v. textOf (getProp idField v)) (localeCompare h))"

definition sortByTimestampAndId :: "core_host \<Rightarrow> js_value list \<Rightarrow> string \<Rightarrow> string \<Rightarrow> js_value list" where
  "sortByTimestampAndId h values timestampField idField =
     arraySort (compareByIsoTimestampThenId h timestampField idField) values"

section \<open>The audit trail\<close>

definition MAX_POLICY_AUDIT_EVENTS :: nat where
  "MAX_POLICY_AUDIT_EVENTS = 2048"

text \<open>\<open>xs.slice(-n)\<close>\<close>

definition sliceLast :: "nat \<Rightarrow> 'a list \<Rightarrow> 'a list" where
  "sliceLast n xs = drop (length xs - n) xs"

text \<open>\<open>e ?? d\<close>\<close>

definition orElse :: "js_value \<Rightarrow> js_value \<Rightarrow> js_value" where
  "orElse v d = (if nullish v then d else v)"

definition auditMaterial :: "js_value \<Rightarrow> string list \<Rightarrow> string \<Rightarrow> js_value" where
  "auditMaterial event reasonCodes timestamp = stableSortObject (Obj
     [(''operation'', orElse (getProp ''operation'' event) (Str ''unknown'')),
      (''storeId'', orElse (getProp ''storeId'' event) (Str DEFAULT_STORE_ID)),
      (''profile'', orElse (getProp ''profile'' event) (Str INTERNAL_PROFILE_ID)),
      (''entityId'', orElse (getProp ''entityId'' event) Null),
      (''outcome'', orElse (getProp ''outcome'' event) (Str ''recorded'')),
      (''reasonCodes'', strs reasonCodes),
      (''details'', normalizeMetadata (getProp ''details'' event)),
      (''timestamp'', Str timestamp)])"

definition auditEventOf :: "core_host \<Rightarrow> js_value \<Rightarrow> js_value core" where
  "auditEventOf h rawEvent =
     (let event = (if isObj rawEvent then rawEvent else Obj []);
          timestamp = normalizeIsoTimestampOrFallback h (getProp ''timestamp'' event) in
      chain (normalizeBoundedStringArray h (getProp ''reasonCodes'' event) ''policyAuditTrail.reasonCodes'') (\<lambda>reasonCodes.
      chain (normalizeBoundedString (getProp ''auditEventId'' event) ''policyAuditTrail.auditEventId'' 64) (\<lambda>givenId.
        Inr (Obj
          [(''auditEventId'', Str (case givenId of Some i \<Rightarrow> i
              | None \<Rightarrow> makeId ''audit'' (digestOf h (auditMaterial event reasonCodes timestamp)))),
           (''operation'', Str (toStr (orElse (getProp ''operation'' event) (Str ''unknown'')))),
           (''storeId'', Str (toStr (orElse (getProp ''storeId'' event) (Str DEFAULT_STORE_ID)))),
           (''profile'', Str (toStr (orElse (getProp ''profile'' event) (Str INTERNAL_PROFILE_ID)))),
           (''entityId'', orElse (getProp ''entityId'' event) Null),
           (''outcome'', Str (toStr (orElse (getProp ''outcome'' event) (Str ''recorded'')))),
           (''reasonCodes'', strs reasonCodes),
           (''details'', normalizeMetadata (getProp ''details'' event)),
           (''timestamp'', Str timestamp)]))))"

definition appendPolicyAuditTrail ::
    "core_host \<Rightarrow> js_value \<Rightarrow> ProfileState \<Rightarrow> js_value core \<times> ProfileState" where
  "appendPolicyAuditTrail h rawEvent state = attempt (auditEventOf h rawEvent) (\<lambda>nextEvent state.
     let existing = st_policyAuditTrail state;
         known = list_ex (\<lambda>entry. getProp ''auditEventId'' entry = getProp ''auditEventId'' nextEvent) existing;
         trail = sortByTimestampAndId h (if known then existing else existing @ [nextEvent]) ''timestamp'' ''auditEventId''
     in (Inr nextEvent, state\<lparr>st_policyAuditTrail := sliceLast MAX_POLICY_AUDIT_EVENTS trail\<rparr>)) state"

section \<open>Upserts\<close>

record upsert_result =
  up_action :: string
  up_nextRecords :: "js_value list"
  up_record :: js_value

definition upsertDeterministicRecord ::
    "core_host \<Rightarrow> js_value list \<Rightarrow> string \<Rightarrow> js_value \<Rightarrow> string \<Rightarrow> upsert_result" where
  "upsertDeterministicRecord h source idField record timestampField =
     (case findIndex (\<lambda>entry. getProp idField entry = getProp idField record) source of
        Some i \<Rightarrow>
          if stableStringify (source ! i) = stableStringify record
          then \<lparr>up_action = ''noop'', up_nextRecords = sortByTimestampAndId h source timestampField idField,
                up_record = source ! i\<rparr>
          else \<lparr>up_action = ''updated'',
                up_nextRecords = sortByTimestampAndId h (source[i := record]) timestampField idField, up_record = record\<rparr>
      | None \<Rightarrow>
          \<lparr>up_action = ''created'',
           up_nextRecords = sortByTimestampAndId h (source @ [record]) timestampField idField, up_record = record\<rparr>)"

text \<open>A rule replaces the one of its id.\<close>

definition putRule :: "js_value \<Rightarrow> js_value list \<Rightarrow> string \<times> js_value list" where
  "putRule rule rules =
     (case findIndex (\<lambda>r. getProp ''ruleId'' r = getProp ''ruleId'' rule) rules of
        Some i \<Rightarrow> if stableStringify (rules ! i) = stableStringify rule then (''noop'', rules)
          else (''updated'', rules[i := rule])
      | None \<Rightarrow> (''created'', rules @ [rule]))"

definition DEFAULT_FRESHNESS_WARNING_DAYS :: int where
  "DEFAULT_FRESHNESS_WARNING_DAYS = 14"

end
