(* ===== verification/Core_Audit.thy ===== *)
theory Core_Audit
  imports Core_State
begin

text \<open>
  The audit trail of a profile: at most 2048 events with distinct ids in the order of their
  timestamps. An event that is appended is in the trail afterwards, unless the trail is full of
  events that are not earlier. Frame facts of the state combinators.
\<close>

section \<open>The order and the invariant\<close>

definition auditOrder :: "core_host \<Rightarrow> js_value comparator" where
  "auditOrder h = compareByIsoTimestampThenId h ''timestamp'' ''auditEventId''"

definition auditId :: "js_value \<Rightarrow> js_value" where
  "auditId e = getProp ''auditEventId'' e"

definition trailOk :: "core_host \<Rightarrow> js_value list \<Rightarrow> bool" where
  "trailOk h trail = (length trail \<le> MAX_POLICY_AUDIT_EVENTS \<and> arraySorted (auditOrder h) trail \<and> distinct (map auditId trail))"

definition recorded :: "core_host \<Rightarrow> js_value \<Rightarrow> js_value list \<Rightarrow> bool" where
  "recorded h e trail =
     (auditId e \<in> auditId ` set trail
      \<or> length trail = MAX_POLICY_AUDIT_EVENTS \<and> list_all (\<lambda>x. compare (auditOrder h) e x \<noteq> Greater) trail)"

lemma trailOk_Nil [simp]: "trailOk h []"
  by (simp add: trailOk_def MAX_POLICY_AUDIT_EVENTS_def)

text \<open>What a suffix of a sorted list leaves out is not later than what it keeps.\<close>

lemma sliceLast_split: "xs = take (length xs - n) xs @ sliceLast n xs"
  by (simp add: sliceLast_def)

lemma sorted_sliceLast: "arraySorted c xs \<Longrightarrow> arraySorted c (sliceLast n xs)"
  by (metis sliceLast_split sorted_append_iff)

lemma dropped_not_later:
  assumes "arraySorted c xs" "x \<in> set xs" "x \<notin> set (sliceLast n xs)"
  shows "length (sliceLast n xs) = n \<and> list_all (\<lambda>y. compare c x y \<noteq> Greater) (sliceLast n xs)"
proof
  have "x \<in> set (take (length xs - n) xs)" using assms sliceLast_split [of xs n] by (metis Un_iff set_append)
  then show "list_all (\<lambda>y. compare c x y \<noteq> Greater) (sliceLast n xs)"
    using assms(1) sliceLast_split [of xs n] sorted_append_iff [of c "take (length xs - n) xs" "sliceLast n xs"]
    by (auto simp: list_all_iff)
  have "length xs - n \<noteq> 0" using \<open>x \<in> set (take (length xs - n) xs)\<close> by (metis empty_iff list.set(1) take_0)
  then show "length (sliceLast n xs) = n" by (simp add: sliceLast_def)
qed

section \<open>Appending\<close>

definition trailAfter :: "core_host \<Rightarrow> js_value \<Rightarrow> js_value list \<Rightarrow> js_value list" where
  "trailAfter h e existing =
     sliceLast MAX_POLICY_AUDIT_EVENTS (arraySort (auditOrder h)
       (if list_ex (\<lambda>entry. auditId entry = auditId e) existing then existing else existing @ [e]))"

lemma append_eq:
  "appendPolicyAuditTrail h raw s =
     (case auditEventOf h raw of
        Inl x \<Rightarrow> (Inl x, s)
      | Inr e \<Rightarrow> (Inr e, s\<lparr>st_policyAuditTrail := trailAfter h e (st_policyAuditTrail s)\<rparr>))"
  by (simp add: appendPolicyAuditTrail_def attempt_def trailAfter_def auditId_def auditOrder_def sortByTimestampAndId_def
      Let_def split: sum.split)

lemma distinct_sliceLast: "distinct (map f xs) \<Longrightarrow> distinct (map f (sliceLast n xs))"
  by (simp add: sliceLast_def distinct_drop flip: drop_map)

lemma distinct_map_sort: "distinct (map f (arraySort c xs)) \<longleftrightarrow> distinct (map f xs)"
  by (metis mset_map mset_sort mset_eq_imp_distinct_iff)

lemma trailAfter_ok: "trailOk h trail \<Longrightarrow> trailOk h (trailAfter h e trail)"
  unfolding trailOk_def trailAfter_def
  by (intro conjI sorted_sliceLast distinct_sliceLast) (auto simp: sliceLast_def distinct_map_sort list_ex_iff image_iff)

lemma trailAfter_recorded:
  assumes "trailOk h trail"
  shows "recorded h e (trailAfter h e trail)"
proof (cases "list_ex (\<lambda>entry. auditId entry = auditId e) trail")
  case True
  then have "trailAfter h e trail = trail"
    using assms by (simp add: trailAfter_def trailOk_def sliceLast_def sort_of_sorted)
  then show ?thesis using True by (simp add: recorded_def list_ex_iff image_iff) metis
next
  case False
  then have "e \<in> set (trailAfter h e trail) \<or> recorded h e (trailAfter h e trail)"
    using dropped_not_later [of "auditOrder h" "arraySort (auditOrder h) (trail @ [e])" e MAX_POLICY_AUDIT_EVENTS]
    by (auto simp: trailAfter_def recorded_def)
  then show ?thesis by (auto simp: recorded_def)
qed

section \<open>When an event can be recorded\<close>

lemma auditEventOf_Inr:
  assumes "normalizeBoundedStringArray h (getProp ''reasonCodes'' (Obj kvs)) ''policyAuditTrail.reasonCodes'' = Inr codes"
    and "getProp ''auditEventId'' (Obj kvs) = Undefined"
  obtains e where "auditEventOf h (Obj kvs) = Inr e"
    and "getProp ''outcome'' e = Str (toStr (orElse (getProp ''outcome'' (Obj kvs)) (Str ''recorded'')))"
    and "getProp ''reasonCodes'' e = strs codes"
    and "getProp ''entityId'' e = orElse (getProp ''entityId'' (Obj kvs)) Null"
    and "getProp ''operation'' e = Str (toStr (orElse (getProp ''operation'' (Obj kvs)) (Str ''unknown'')))"
    and "getProp ''details'' e = normalizeMetadata (getProp ''details'' (Obj kvs))"
    and "isStr (getProp ''auditEventId'' e)"
proof -
  have "\<exists>e. auditEventOf h (Obj kvs) = Inr e
     \<and> getProp ''outcome'' e = Str (toStr (orElse (getProp ''outcome'' (Obj kvs)) (Str ''recorded'')))
     \<and> getProp ''reasonCodes'' e = strs codes
     \<and> getProp ''entityId'' e = orElse (getProp ''entityId'' (Obj kvs)) Null
     \<and> getProp ''operation'' e = Str (toStr (orElse (getProp ''operation'' (Obj kvs)) (Str ''unknown'')))
     \<and> getProp ''details'' e = normalizeMetadata (getProp ''details'' (Obj kvs))
     \<and> isStr (getProp ''auditEventId'' e)"
    using assms
    by (simp add: auditEventOf_def isObj_def Let_def normalizeBoundedString_def strOrEmpty_def isStr_def del: getProp.simps)
       (simp add: isObj_def)
  then show thesis using that by blast
qed

section \<open>Invariants of the profiles\<close>

text \<open>Operations on a profile share a contract: each keeps an invariant that a new profile has. Then
  every profile of every reachable store has it.\<close>

definition allProfiles :: "(string \<Rightarrow> string \<Rightarrow> ProfileState \<Rightarrow> bool) \<Rightarrow> stores \<Rightarrow> bool" where
  "allProfiles P stores = (\<forall>s p state. findProfile s p stores = Some state \<longrightarrow> P s p state)"

definition runCalls ::
    "core_host \<Rightarrow> ('op \<Rightarrow> string) \<Rightarrow> ('op \<Rightarrow> js_value \<Rightarrow> handler) \<Rightarrow> ('op \<times> js_value) list \<Rightarrow> stores \<Rightarrow> stores" where
  "runCalls h name handle calls stores =
     fold (\<lambda>(op, request) stores. snd (runOperation h (name op) (handle op request) request stores)) calls stores"

locale profile_machine =
  fixes host :: core_host
    and handle :: "'op \<Rightarrow> js_value \<Rightarrow> handler"
    and name :: "'op \<Rightarrow> string"
    and keeps :: "string \<Rightarrow> string \<Rightarrow> ProfileState \<Rightarrow> bool"
  assumes new: "keeps s p (newProfileState host s p)"
    and step: "keeps (rq_storeId r) (rq_profile r) state \<Longrightarrow>
      keeps (rq_storeId r) (rq_profile r) (snd (handle op request r state))"
begin

lemma kept_by_call:
  assumes "allProfiles keeps stores"
  shows "allProfiles keeps (snd (runOperation host (name op) (handle op request) request stores))"
proof (cases "normalizeRequest (name op) request")
  case (Inl e)
  then show ?thesis using assms by (simp add: runOperation_def)
next
  case (Inr r)
  have "keeps (rq_storeId r) (rq_profile r) (getProfileState host (rq_storeId r) (rq_profile r) stores)"
    using assms new by (auto simp: getProfileState_def allProfiles_def split: option.split)
  from step [OF this] show ?thesis
    using assms Inr by (auto simp: runOperation_def allProfiles_def split: prod.split) (metis snd_conv)
qed

lemma kept_by_all: "allProfiles keeps stores \<Longrightarrow> allProfiles keeps (runCalls host name handle calls stores)"
  unfolding runCalls_def by (induction calls arbitrary: stores) (auto simp: kept_by_call)

lemma kept_from_start: "allProfiles keeps (runCalls host name handle calls [])"
  by (rule kept_by_all) (simp add: allProfiles_def findProfile_def getStoreProfiles_def)

end

end
