(* ===== verification/Core_Recall.thy ===== *)
theory Core_Recall
  imports Core_State
begin

text \<open>
  Which store may recall from which (core.ts, lines 3649-3675, 3762-3823, 5194-5228 and 9163-9276):
  every profile keeps an allowlist of requester stores, \<open>recall_authorization\<close> changes and checks it,
  and operations that serve another store consult it and record the verdict in the audit trail.
\<close>

section \<open>The allowlist\<close>

record AllowlistPolicy =
  al_policyId :: string
  al_allowedStoreIds :: "string list"
  al_updatedAt :: string
  al_metadata :: js_value

definition allowlistValue :: "AllowlistPolicy \<Rightarrow> js_value" where
  "allowlistValue p = Obj [(''policyId'', Str (al_policyId p)), (''allowedStoreIds'', strs (al_allowedStoreIds p)),
     (''updatedAt'', Str (al_updatedAt p)), (''metadata'', al_metadata p)]"

definition readAllowlistPolicy :: "core_host \<Rightarrow> js_value \<Rightarrow> string \<Rightarrow> string \<Rightarrow> AllowlistPolicy core" where
  "readAllowlistPolicy h value storeId profile =
     (let current = (if isObj value then value else Obj []) in
      chain (normalizeBoundedString (getProp ''policyId'' current) ''recallAllowlistPolicy.policyId'' 64) (\<lambda>policyId.
        Inr \<lparr>al_policyId = (case policyId of Some i \<Rightarrow> i | None \<Rightarrow> allowlistId h storeId profile),
          al_allowedStoreIds = mergeStringLists h (getProp ''allowedStoreIds'' current) (strs [storeId]),
          al_updatedAt = normalizeIsoTimestampOrFallback h (getProp ''updatedAt'' current),
          al_metadata = normalizeMetadata (getProp ''metadata'' current)\<rparr>))"

definition getOrCreateRecallAllowlistPolicy ::
    "core_host \<Rightarrow> string \<Rightarrow> string \<Rightarrow> ProfileState \<Rightarrow> AllowlistPolicy core \<times> ProfileState" where
  "getOrCreateRecallAllowlistPolicy h storeId profile state =
     attempt (readAllowlistPolicy h (st_recallAllowlistPolicy state) storeId profile)
       (\<lambda>policy state. (Inr policy, state\<lparr>st_recallAllowlistPolicy := allowlistValue policy\<rparr>)) state"

section \<open>Serving another store\<close>

definition CROSS_SPACE_ALLOWLIST_DENY_ERROR :: string where
  "CROSS_SPACE_ALLOWLIST_DENY_ERROR =
     ''PERSONALIZATION_POLICY_DENY: cross-space recall request is not authorized by allowlist policy.''"

definition denyMessage :: "string \<Rightarrow> string \<Rightarrow> string" where
  "denyMessage requester storeId =
     CROSS_SPACE_ALLOWLIST_DENY_ERROR @ '' requesterStoreId='' @ requester @ '' targetStoreId='' @ storeId"

definition allowlistReasons :: "bool \<Rightarrow> js_value" where
  "allowlistReasons authorized = strs [if authorized then ''allowlist_authorized'' else ''allowlist_denied'']"

record recall_verdict =
  rv_authorized :: bool
  rv_crossSpace :: bool
  rv_policy :: AllowlistPolicy
  rv_auditEventId :: js_value

definition recallAuditEvent ::
    "core_host \<Rightarrow> string \<Rightarrow> string \<Rightarrow> string \<Rightarrow> string \<Rightarrow> string \<Rightarrow> AllowlistPolicy \<Rightarrow> bool \<Rightarrow> js_value" where
  "recallAuditEvent h operation storeId profile requester timestamp policy authorized = Obj
     [(''operation'', Str operation), (''storeId'', Str storeId), (''profile'', Str profile),
      (''entityId'', Str (makeId ''auth'' (digestOf h (Obj
         [(''operation'', Str operation), (''requesterStoreId'', Str requester), (''storeId'', Str storeId),
          (''profile'', Str profile), (''timestamp'', Str timestamp)])))),
      (''outcome'', Str (if authorized then ''allow'' else ''deny'')),
      (''reasonCodes'', allowlistReasons authorized),
      (''details'', Obj [(''requesterStoreId'', Str requester), (''targetStoreId'', Str storeId),
         (''crossSpace'', Bool (requester \<noteq> storeId)), (''allowStoreIds'', strs (al_allowedStoreIds policy))]),
      (''timestamp'', Str timestamp)]"

definition ensureRecallAuthorizationForOperation ::
    "core_host \<Rightarrow> string \<Rightarrow> string \<Rightarrow> js_value \<Rightarrow> string \<Rightarrow> string \<Rightarrow> ProfileState \<Rightarrow> recall_verdict core \<times> ProfileState" where
  "ensureRecallAuthorizationForOperation h storeId profile requesterStoreId operation timestamp state =
     attempt (normalizeBoundedString requesterStoreId ''requesterStoreId'' 128) (\<lambda>given.
       let requester = (case given of Some r \<Rightarrow> r | None \<Rightarrow> storeId);
           crossSpace = (requester \<noteq> storeId) in
       andThen (getOrCreateRecallAllowlistPolicy h storeId profile) (\<lambda>policy.
         let authorized = (\<not> crossSpace \<or> requester \<in> set (al_allowedStoreIds policy)) in
         andThen (appendPolicyAuditTrail h
             (recallAuditEvent h operation storeId profile requester timestamp policy authorized)) (\<lambda>auditEvent state.
           if \<not> authorized
           then (Inl (PolicyDeny (denyMessage requester storeId)
                   (Some (strOrEmpty (getProp ''auditEventId'' auditEvent)))), state)
           else (Inr \<lparr>rv_authorized = authorized, rv_crossSpace = crossSpace, rv_policy = policy,
                   rv_auditEventId = getProp ''auditEventId'' auditEvent\<rparr>, state)))) state"

section \<open>The operation recall_authorization\<close>

definition RECALL_AUTH_MODES :: "string list" where
  "RECALL_AUTH_MODES = [''check'', ''grant'', ''revoke'', ''replace'']"

definition RECALL_AUTHORIZATION_REQUESTER_ERROR :: string where
  "RECALL_AUTHORIZATION_REQUESTER_ERROR =
     ''VALIDATION_CONTRACT_VIOLATION: recall_authorization requires requesterStoreId for cross-space checks.''"

record recall_request =
  ra_mode :: string
  ra_requesterStoreId :: string
  ra_allowStoreIds :: "string list"
  ra_failClosed :: bool
  ra_reason :: "string option"
  ra_timestamp :: string

definition normalizeRecallAuthorizationRequest :: "core_host \<Rightarrow> js_value \<Rightarrow> string \<Rightarrow> recall_request core" where
  "normalizeRecallAuthorizationRequest h request storeId =
     chain (normalizeDeterministicEnum (getProp ''mode'' request) ''mode'' ''recall_authorization'' RECALL_AUTH_MODES ''check'') (\<lambda>mode.
     chain (normalizeBoundedString (firstDefined [getProp ''requesterStoreId'' request, getProp ''sourceStoreId'' request,
              getProp ''fromStoreId'' request]) ''requesterStoreId'' 128) (\<lambda>requester.
     chain (normalizeBoundedStringArray h (firstDefined [getProp ''allowStoreIds'' request, getProp ''allowSpaceIds'' request])
              ''allowStoreIds'') (\<lambda>allowStoreIds.
     chain (normalizeBoundedString (getProp ''reason'' request) ''reason'' 512) (\<lambda>reason.
     if mode = ''check'' \<and> requester = None then Inl (CoreError RECALL_AUTHORIZATION_REQUESTER_ERROR)
     else chain (isoTimestamp h (firstDefined [getProp ''timestamp'' request, getProp ''updatedAt'' request,
                   getProp ''createdAt'' request]) ''recall_authorization.timestamp'') (\<lambda>timestamp.
       Inr \<lparr>ra_mode = mode, ra_requesterStoreId = (case requester of Some r \<Rightarrow> r | None \<Rightarrow> storeId),
         ra_allowStoreIds = allowStoreIds, ra_failClosed = (getProp ''failClosed'' request \<noteq> Bool False),
         ra_reason = reason, ra_timestamp = timestamp\<rparr>)))))"

definition nextAllowlist :: "core_host \<Rightarrow> string \<Rightarrow> recall_request \<Rightarrow> string list \<Rightarrow> string list" where
  "nextAllowlist h storeId n allowed =
     (if ra_mode n = ''grant'' then mergeStringLists h (strs allowed) (strs (ra_allowStoreIds n))
      else if ra_mode n = ''replace'' then mergeStringLists h (strs [storeId]) (strs (ra_allowStoreIds n))
      else if ra_mode n = ''revoke'' then filter (\<lambda>s. s = storeId \<or> s \<notin> set (ra_allowStoreIds n)) allowed
      else allowed)"

definition recallDecisionId :: "core_host \<Rightarrow> string \<Rightarrow> recall_request \<Rightarrow> AllowlistPolicy \<Rightarrow> bool \<Rightarrow> string" where
  "recallDecisionId h storeId n policy authorized = makeId ''auth'' (digestOf h (Obj
     [(''policyId'', Str (al_policyId policy)), (''requesterStoreId'', Str (ra_requesterStoreId n)),
      (''targetStoreId'', Str storeId), (''mode'', Str (ra_mode n)), (''authorized'', Bool authorized),
      (''timestamp'', Str (ra_timestamp n))]))"

text \<open>The policy after the change; its ids are compared as stable text.\<close>

definition allowlistChanged :: "core_host \<Rightarrow> string \<Rightarrow> recall_request \<Rightarrow> AllowlistPolicy \<Rightarrow> bool" where
  "allowlistChanged h storeId n policy =
     (stableStringify (strs (nextAllowlist h storeId n (al_allowedStoreIds policy))) \<noteq> stableStringify (strs (al_allowedStoreIds policy)))"

definition nextPolicy :: "core_host \<Rightarrow> string \<Rightarrow> recall_request \<Rightarrow> AllowlistPolicy \<Rightarrow> AllowlistPolicy" where
  "nextPolicy h storeId n policy =
     (if allowlistChanged h storeId n policy
      then policy\<lparr>al_allowedStoreIds := nextAllowlist h storeId n (al_allowedStoreIds policy), al_updatedAt := ra_timestamp n\<rparr>
      else policy)"

definition recallAuthorized :: "string \<Rightarrow> recall_request \<Rightarrow> AllowlistPolicy \<Rightarrow> bool" where
  "recallAuthorized storeId n policy =
     (ra_requesterStoreId n = storeId \<or> ra_requesterStoreId n \<in> set (al_allowedStoreIds policy))"

definition recallDecisionEvent :: "core_host \<Rightarrow> normalized_request \<Rightarrow> recall_request \<Rightarrow> AllowlistPolicy \<Rightarrow> js_value" where
  "recallDecisionEvent h r n policy =
     (let authorized = recallAuthorized (rq_storeId r) n policy in Obj
      [(''operation'', Str ''recall_authorization''), (''storeId'', Str (rq_storeId r)), (''profile'', Str (rq_profile r)),
       (''entityId'', Str (recallDecisionId h (rq_storeId r) n policy authorized)),
       (''outcome'', Str (if authorized then ''allow'' else ''deny'')), (''reasonCodes'', allowlistReasons authorized),
       (''details'', Obj [(''mode'', Str (ra_mode n)), (''requesterStoreId'', Str (ra_requesterStoreId n)),
          (''targetStoreId'', Str (rq_storeId r)), (''crossSpace'', Bool (ra_requesterStoreId n \<noteq> rq_storeId r)),
          (''allowStoreIds'', strs (al_allowedStoreIds policy)), (''reason'', strOrNull (ra_reason n))]),
       (''timestamp'', Str (ra_timestamp n))])"

definition recallResponse ::
    "core_host \<Rightarrow> normalized_request \<Rightarrow> recall_request \<Rightarrow> bool \<Rightarrow> string \<Rightarrow> AllowlistPolicy \<Rightarrow> js_value \<Rightarrow> js_value" where
  "recallResponse h r n changed previousDigest policy audited =
     (let storeId = rq_storeId r;
          authorized = recallAuthorized storeId n policy;
          crossSpace = (ra_requesterStoreId n \<noteq> storeId);
          decisionId = recallDecisionId h storeId n policy authorized
      in spread (buildMeta h r)
        [(''action'', Str (if ra_mode n = ''check'' then ''checked'' else if changed then ''updated'' else ''noop'')),
         (''decisionId'', Str decisionId),
         (''decisionDigest'', Str (digestOf h (Obj [(''decisionId'', Str decisionId), (''authorized'', Bool authorized),
            (''requesterStoreId'', Str (ra_requesterStoreId n)), (''targetStoreId'', Str storeId),
            (''allowStoreIds'', strs (al_allowedStoreIds policy))]))),
         (''authorized'', Bool authorized), (''crossSpace'', Bool crossSpace),
         (''policy'', spread (allowlistValue policy) [(''changed'', Bool changed),
            (''previousDigest'', Str previousDigest), (''digest'', Str (digestOf h (allowlistValue policy)))]),
         (''policyAuditEventId'', getProp ''auditEventId'' audited),
         (''observability'', Obj [(''failClosed'', Bool (ra_failClosed n)),
            (''allowlistSize'', int_value (int (length (al_allowedStoreIds policy)))),
            (''crossSpace'', Bool crossSpace), (''authorized'', Bool authorized),
            (''slo'', buildSloObservability (opSeed h r) ''recall_authorization'' 30)])])"

definition recallAuthorizationHandler :: "core_host \<Rightarrow> js_value \<Rightarrow> handler" where
  "recallAuthorizationHandler h request r =
     (let storeId = rq_storeId r in
      attempt (normalizeRecallAuthorizationRequest h request storeId) (\<lambda>n.
      andThen (getOrCreateRecallAllowlistPolicy h storeId (rq_profile r)) (\<lambda>policy.
        let previousDigest = digestOf h (allowlistValue policy);
            changed = allowlistChanged h storeId n policy;
            policy' = nextPolicy h storeId n policy in
        andThen (\<lambda>state. appendPolicyAuditTrail h (recallDecisionEvent h r n policy')
             (state\<lparr>st_recallAllowlistPolicy := allowlistValue policy'\<rparr>)) (\<lambda>audited state.
          if \<not> recallAuthorized storeId n policy' \<and> ra_failClosed n
          then (Inl (PolicyDeny (denyMessage (ra_requesterStoreId n) storeId) None), state)
          else (Inr (recallResponse h r n changed previousDigest policy' audited), state)))))"

definition runRecallAuthorization :: "core_host \<Rightarrow> js_value \<Rightarrow> stores \<Rightarrow> js_value core \<times> stores" where
  "runRecallAuthorization h request =
     runOperation h ''recall_authorization'' (recallAuthorizationHandler h request) request"

end
