(* ===== verification/Core_Attribution.thy ===== *)
theory Core_Attribution
  imports Core_State
begin

text \<open>
  Attribution of outcomes to rules (core.ts, lines 3677-3760, 3825-4143 and 10498-10696): the advice
  computed from the outcomes that used a rule, the policy that lets it reorder the rules of a
  context, and the operations \<open>attribution_ranking_policy\<close>, \<open>shadow_attribution\<close> and
  \<open>attribution_report\<close>.
\<close>

section \<open>Constants\<close>

definition DEFAULT_ATTRIBUTION_MIN_SUPPORT :: int where
  "DEFAULT_ATTRIBUTION_MIN_SUPPORT = 3"

definition DEFAULT_ATTRIBUTION_DIRECTION_THRESHOLD :: jsnum where
  "DEFAULT_ATTRIBUTION_DIRECTION_THRESHOLD = round64 (34 / 100)"

definition DEFAULT_ATTRIBUTION_REPORT_LIMIT :: int where
  "DEFAULT_ATTRIBUTION_REPORT_LIMIT = 10"

definition MAX_ATTRIBUTION_REPORT_LIMIT :: int where
  "MAX_ATTRIBUTION_REPORT_LIMIT = 32"

definition MAX_ATTRIBUTION_LINEAGE_IDS :: nat where
  "MAX_ATTRIBUTION_LINEAGE_IDS = 16"

definition DEFAULT_ATTRIBUTION_RANKING_MIN_CONFIDENCE :: jsnum where
  "DEFAULT_ATTRIBUTION_RANKING_MIN_CONFIDENCE = round64 (6 / 10)"

definition DEFAULT_ATTRIBUTION_RANKING_MIN_EFFECT_SIZE :: jsnum where
  "DEFAULT_ATTRIBUTION_RANKING_MIN_EFFECT_SIZE = round64 (34 / 100)"

section \<open>The evidence about a rule\<close>

definition limitUniqueStrings :: "core_host \<Rightarrow> js_value list \<Rightarrow> nat \<Rightarrow> string list" where
  "limitUniqueStrings h values maxItems = take maxItems (asSortedUniqueStrings h (Arr values))"

definition candidateOfRule :: "js_value \<Rightarrow> js_value" where
  "candidateOfRule rule = strOrNull (normalizeBoundedStringLenient (getProp ''promotedFromCandidateId'' rule) 64)"

definition replaysOf :: "ProfileState \<Rightarrow> js_value \<Rightarrow> js_value list" where
  "replaysOf state rule = filter (\<lambda>entry. getProp ''candidateId'' entry = candidateOfRule rule) (st_replayEvaluations state)"

definition safetyRegression :: "js_value \<Rightarrow> bool" where
  "safetyRegression entry =
     (0 < toNonNegativeInteger (getProp ''safetyRegressionCount'' entry) 0 \<or> getProp ''pass'' entry = Bool False)"

definition usesRule :: "core_host \<Rightarrow> string \<Rightarrow> js_value \<Rightarrow> bool" where
  "usesRule h ruleId entry = (ruleId \<in> set (asSortedUniqueStrings h (getProp ''usedRuleIds'' entry)))"

definition hasTraceLineage :: "core_host \<Rightarrow> js_value \<Rightarrow> bool" where
  "hasTraceLineage h entry =
     (normalizeBoundedStringLenient (getProp ''packId'' entry) 64 \<noteq> None \<or>
      asSortedUniqueStrings h (getProp ''usedUsageIds'' entry) \<noteq> [])"

definition relevantOutcomes :: "core_host \<Rightarrow> ProfileState \<Rightarrow> string \<Rightarrow> js_value list" where
  "relevantOutcomes h state ruleId =
     filter (\<lambda>entry. usesRule h ruleId entry \<and> hasTraceLineage h entry) (st_outcomes state)"

definition provisional :: "js_value \<Rightarrow> bool" where
  "provisional entry = (getProp ''status'' entry = Str ''provisional'')"

definition failed :: "js_value \<Rightarrow> bool" where
  "failed entry = (getProp ''outcome'' entry = Str ''failure'')"

record attribution_counts =
  ac_helpful :: int
  ac_harmful :: int
  ac_pending :: int
  ac_untraced :: int

definition countOutcomes :: "core_host \<Rightarrow> ProfileState \<Rightarrow> string \<Rightarrow> attribution_counts" where
  "countOutcomes h state ruleId =
     (let relevant = relevantOutcomes h state ruleId;
          settled = filter (\<lambda>entry. \<not> provisional entry) relevant
      in \<lparr>ac_helpful = int (length (filter (\<lambda>entry. \<not> failed entry) settled)),
          ac_harmful = int (length (filter failed settled)),
          ac_pending = int (length (filter provisional relevant)),
          ac_untraced = int (length (filter (\<lambda>entry. usesRule h ruleId entry \<and> \<not> hasTraceLineage h entry) (st_outcomes state)))\<rparr>)"

definition supportCountOf :: "attribution_counts \<Rightarrow> int" where
  "supportCountOf c = ac_helpful c + ac_harmful c"

definition effectSizeOf :: "attribution_counts \<Rightarrow> jsnum" where
  "effectSizeOf c =
     (if 0 < supportCountOf c
      then roundNumber (jdiv (jint (ac_helpful c - ac_harmful c)) (jint (supportCountOf c))) else jint 0)"

definition attributionConfidenceOf :: "attribution_counts \<Rightarrow> int \<Rightarrow> jsnum" where
  "attributionConfidenceOf c minSupport =
     (let supportConfidence = jmin (jdiv (jint (supportCountOf c)) (jint (max minSupport 1))) (jint 1);
          signalConfidence = jadd (JFin (1 / 2)) (jdiv (jabs (effectSizeOf c)) (jint 2));
          balancePenalty = (if 0 < ac_helpful c \<and> 0 < ac_harmful c then JFin (1 / 2) else jint 1);
          sampleSize = supportCountOf c + ac_pending c;
          pendingPenalty = (if 0 < ac_pending c
            then jmax (JFin (1 / 2)) (jsub (jint 1) (jdiv (jint (ac_pending c)) (jint (max sampleSize 1)))) else jint 1)
      in roundNumber (clamp01 (Num (jmul (jmul (jmul supportConfidence signalConfidence) balancePenalty) pendingPenalty)) (jint 0)))"

definition attributionDirection :: "attribution_counts \<Rightarrow> int \<Rightarrow> jsnum \<Rightarrow> string" where
  "attributionDirection c minSupport directionThreshold =
     (if supportCountOf c < minSupport then ''neutral''
      else if jle directionThreshold (effectSizeOf c) then ''helpful''
      else if jle (effectSizeOf c) (jneg directionThreshold) then ''harmful'' else ''neutral'')"

definition rankingNudgeEligible :: "attribution_counts \<Rightarrow> int \<Rightarrow> bool \<Rightarrow> bool" where
  "rankingNudgeEligible c minSupport regression =
     (minSupport \<le> supportCountOf c
      \<and> jle DEFAULT_ATTRIBUTION_RANKING_MIN_CONFIDENCE (attributionConfidenceOf c minSupport)
      \<and> \<not> regression
      \<and> jle DEFAULT_ATTRIBUTION_RANKING_MIN_EFFECT_SIZE (jabs (effectSizeOf c)))"

definition rankingNudgeBand :: "string \<Rightarrow> bool \<Rightarrow> bool \<Rightarrow> string" where
  "rankingNudgeBand direction eligible regression =
     (if regression then ''suppress''
      else if \<not> eligible \<or> direction = ''neutral'' then ''none''
      else if direction = ''helpful'' then ''boost'' else ''suppress'')"

definition rankingNudgeValue :: "attribution_counts \<Rightarrow> int \<Rightarrow> bool \<Rightarrow> jsnum" where
  "rankingNudgeValue c minSupport regression =
     (let eligible = rankingNudgeEligible c minSupport regression in
      if regression then JFin (- 1 / 4)
      else if eligible
      then roundNumber (jmax (JFin (- 1 / 4)) (jmin (JFin (1 / 4)) (jmul (effectSizeOf c) (attributionConfidenceOf c minSupport))))
      else jint 0)"

definition attributionReasonCodes :: "attribution_counts \<Rightarrow> int \<Rightarrow> bool \<Rightarrow> bool \<Rightarrow> string list" where
  "attributionReasonCodes c minSupport replayed regression =
     [''advisory_only'', if minSupport \<le> supportCountOf c then ''support_threshold_met'' else ''insufficient_support'']
     @ (if replayed then [''replay_supported''] else [])
     @ (if 0 < ac_pending c then [''pending_outcomes_present''] else [])
     @ (if 0 < ac_untraced c then [''untraced_outcomes_ignored''] else [])
     @ (if regression then [''safety_regression_history''] else [])
     @ [if 0 < ac_helpful c \<and> 0 < ac_harmful c then ''mixed_outcomes''
        else if 0 < ac_helpful c then ''stable_positive_lift''
        else if 0 < ac_harmful c then ''stable_negative_lift'' else ''no_traced_outcomes'']
     @ (if rankingNudgeEligible c minSupport regression then [''ranking_nudge_candidate''] else [])"

definition attributionLineage :: "core_host \<Rightarrow> js_value list \<Rightarrow> js_value list \<Rightarrow> js_value" where
  "attributionLineage h relevant replays =
     (let one = (\<lambda>k entries. strs (limitUniqueStrings h (map (getProp k) entries) MAX_ATTRIBUTION_LINEAGE_IDS));
          many = (\<lambda>k. strs (limitUniqueStrings h (concat (map (\<lambda>entry. arrOrEmpty (getProp k entry)) relevant))
            MAX_ATTRIBUTION_LINEAGE_IDS))
      in stableSortObject (Obj [(''outcomeIds'', one ''outcomeId'' relevant), (''packIds'', one ''packId'' relevant),
           (''usedUsageIds'', many ''usedUsageIds''), (''toolRefs'', many ''toolRefs''), (''testRefs'', many ''testRefs''),
           (''artifactRefs'', many ''artifactRefs''), (''replayEvalIds'', one ''replayEvalId'' replays)]))"

section \<open>The entry of a rule\<close>

record ShadowAttribution =
  sa_ruleId :: string
  sa_rule :: js_value
  sa_counts :: attribution_counts
  sa_effectSize :: jsnum
  sa_attributionConfidence :: jsnum
  sa_direction :: string
  sa_minSupport :: int
  sa_replayed :: bool
  sa_regression :: bool
  sa_lineage :: js_value

definition ruleIdOf :: "core_host \<Rightarrow> js_value \<Rightarrow> string" where
  "ruleIdOf h rule = (case normalizeBoundedStringLenient (getProp ''ruleId'' rule) 64 of
     Some i \<Rightarrow> i | None \<Rightarrow> makeId ''rule'' (digestOf h rule))"

definition buildShadowAttributionEntry :: "core_host \<Rightarrow> ProfileState \<Rightarrow> js_value \<Rightarrow> int \<Rightarrow> jsnum \<Rightarrow> ShadowAttribution" where
  "buildShadowAttributionEntry h state rule minSupport directionThreshold =
     (let ruleId = ruleIdOf h rule;
          replays = replaysOf state rule;
          c = countOutcomes h state ruleId
      in \<lparr>sa_ruleId = ruleId, sa_rule = rule, sa_counts = c, sa_effectSize = effectSizeOf c,
          sa_attributionConfidence = attributionConfidenceOf c minSupport,
          sa_direction = attributionDirection c minSupport directionThreshold, sa_minSupport = minSupport,
          sa_replayed = (replays \<noteq> []), sa_regression = list_ex safetyRegression replays,
          sa_lineage = attributionLineage h (relevantOutcomes h state ruleId) replays\<rparr>)"

definition evidenceTier :: "ShadowAttribution \<Rightarrow> string" where
  "evidenceTier e = (if sa_replayed e then ''deterministic_replay'' else ''observational'')"

definition nudgeBandOf :: "ShadowAttribution \<Rightarrow> string" where
  "nudgeBandOf e = rankingNudgeBand (sa_direction e)
     (rankingNudgeEligible (sa_counts e) (sa_minSupport e) (sa_regression e)) (sa_regression e)"

definition nudgeValueOf :: "ShadowAttribution \<Rightarrow> jsnum" where
  "nudgeValueOf e = rankingNudgeValue (sa_counts e) (sa_minSupport e) (sa_regression e)"

definition recommendationOf :: "ShadowAttribution \<Rightarrow> string" where
  "recommendationOf e = (if sa_direction e = ''neutral'' then ''observe'' else sa_direction e)"

definition attributionValue :: "core_host \<Rightarrow> ShadowAttribution \<Rightarrow> js_value" where
  "attributionValue h e =
     (let c = sa_counts e; support = int_value (supportCountOf c) in stableSortObject (Obj
       [(''attributionId'', Str (makeId ''attr'' (digestOf h (Obj [(''ruleId'', Str (sa_ruleId e)),
           (''supportCount'', support), (''pendingCount'', int_value (ac_pending c)), (''effectSize'', Num (sa_effectSize e)),
           (''attributionConfidence'', Num (sa_attributionConfidence e)), (''direction'', Str (sa_direction e)),
           (''lineage'', sa_lineage e)])))),
        (''ruleId'', Str (sa_ruleId e)),
        (''statement'', Str (case normalizeBoundedStringLenient (getProp ''statement'' (sa_rule e)) 256 of
            Some s \<Rightarrow> s | None \<Rightarrow> textOf (getProp ''statement'' (sa_rule e)))),
        (''ruleConfidence'', Num (clamp01 (getProp ''confidence'' (sa_rule e)) (JFin (1 / 2)))),
        (''recommendation'', Str (recommendationOf e)), (''direction'', Str (sa_direction e)),
        (''effectSize'', Num (sa_effectSize e)), (''attributionConfidence'', Num (sa_attributionConfidence e)),
        (''supportCount'', support), (''sampleSize'', int_value (supportCountOf c + ac_pending c)),
        (''helpfulCount'', int_value (ac_helpful c)), (''harmfulCount'', int_value (ac_harmful c)),
        (''pendingCount'', int_value (ac_pending c)), (''ignoredUntracedCount'', int_value (ac_untraced c)),
        (''supportThresholdMet'', Bool (sa_minSupport e \<le> supportCountOf c)),
        (''evidenceTier'', Str (evidenceTier e)), (''advisoryOnly'', Bool True),
        (''automaticMutationAllowed'', Bool False),
        (''reasonCodes'', strs (limitUniqueStrings h
           (map Str (attributionReasonCodes c (sa_minSupport e) (sa_replayed e) (sa_regression e))) MAX_LIST_ITEMS)),
        (''rankingNudge'', stableSortObject (Obj
           [(''eligible'', Bool (rankingNudgeEligible c (sa_minSupport e) (sa_regression e))),
            (''band'', Str (nudgeBandOf e)), (''value'', Num (nudgeValueOf e)),
            (''minConfidence'', Num DEFAULT_ATTRIBUTION_RANKING_MIN_CONFIDENCE),
            (''minEffectSize'', Num DEFAULT_ATTRIBUTION_RANKING_MIN_EFFECT_SIZE)])),
        (''lineage'', sa_lineage e)]))"

definition buildShadowAttributionEntries ::
    "core_host \<Rightarrow> ProfileState \<Rightarrow> js_value \<Rightarrow> int \<Rightarrow> int \<Rightarrow> bool \<Rightarrow> ShadowAttribution list" where
  "buildShadowAttributionEntries h state targetRuleIds limit minSupport includeZeroSupport =
     (let normalizedTargetRuleIds = asSortedUniqueStrings h targetRuleIds;
          selectedRules = (if normalizedTargetRuleIds \<noteq> []
            then filter (\<lambda>rule. getProp ''ruleId'' rule \<in> Str ` set normalizedTargetRuleIds) (st_rules state) else st_rules state);
          entries = map (\<lambda>rule. buildShadowAttributionEntry h state rule minSupport DEFAULT_ATTRIBUTION_DIRECTION_THRESHOLD) selectedRules
      in take (nat limit) (filter (\<lambda>e. includeZeroSupport \<or> 0 < supportCountOf (sa_counts e) \<or> 0 < ac_pending (sa_counts e)) entries))"

section \<open>Reports\<close>

definition compareHelpfulAttributionEntries :: "core_host \<Rightarrow> ShadowAttribution comparator" where
  "compareHelpfulAttributionEntries h =
     thenBy (descending (\<lambda>e. finiteValue (sa_effectSize e)))
       (thenBy (descending (\<lambda>e. finiteValue (sa_attributionConfidence e)))
         (thenBy (descending (\<lambda>e. supportCountOf (sa_counts e))) (key sa_ruleId (localeCompare h))))"

definition compareHarmfulAttributionEntries :: "core_host \<Rightarrow> ShadowAttribution comparator" where
  "compareHarmfulAttributionEntries h =
     thenBy (ascending (\<lambda>e. finiteValue (sa_effectSize e)))
       (thenBy (descending (\<lambda>e. finiteValue (sa_attributionConfidence e)))
         (thenBy (descending (\<lambda>e. supportCountOf (sa_counts e))) (key sa_ruleId (localeCompare h))))"

definition attributionMagnitude :: "ShadowAttribution \<Rightarrow> rat" where
  "attributionMagnitude e = finiteValue (roundNumber (jmul (jabs (toFiniteNumber (Num (sa_effectSize e)) (jint 0)))
     (toFiniteNumber (Num (sa_attributionConfidence e)) (jint 0))))"

definition compareByAbsoluteAttributionSignal :: "core_host \<Rightarrow> ShadowAttribution comparator" where
  "compareByAbsoluteAttributionSignal h =
     thenBy (descending attributionMagnitude)
       (thenBy (descending (\<lambda>e. finiteValue (sa_attributionConfidence e))) (key sa_ruleId (localeCompare h)))"

definition clampInt :: "int \<Rightarrow> int \<Rightarrow> int \<Rightarrow> int" where
  "clampInt lo hi n = min (max n lo) hi"

definition countOf :: "('a \<Rightarrow> bool) \<Rightarrow> 'a list \<Rightarrow> js_value" where
  "countOf P xs = int_value (int (length (filter P xs)))"

definition shadowAttributionHandler :: "core_host \<Rightarrow> js_value \<Rightarrow> handler" where
  "shadowAttributionHandler h request r =
     attempt (normalizeBoundedStringArray h (firstDefined [getProp ''targetRuleIds'' request, getProp ''ruleIds'' request,
         getProp ''usedRuleIds'' request]) ''shadow_attribution.targetRuleIds'') (\<lambda>targetRuleIds state.
       let limit = clampInt 1 MAX_ATTRIBUTION_REPORT_LIMIT
             (toPositiveInteger (getProp ''limit'' request) (max (int (length targetRuleIds)) 1));
           minSupport = max (toPositiveInteger (getProp ''minSupport'' request) DEFAULT_ATTRIBUTION_MIN_SUPPORT) 1;
           entries = buildShadowAttributionEntries h state (strs targetRuleIds) limit minSupport
             (getProp ''includeZeroSupport'' request \<noteq> Bool False)
       in (Inr (spread (buildMeta h r)
            [(''advisoryOnly'', Bool True), (''automaticMutationAllowed'', Bool False),
             (''thresholds'', Obj [(''minSupport'', int_value minSupport),
                (''directionThreshold'', Num DEFAULT_ATTRIBUTION_DIRECTION_THRESHOLD),
                (''rankingMinConfidence'', Num DEFAULT_ATTRIBUTION_RANKING_MIN_CONFIDENCE),
                (''rankingMinEffectSize'', Num DEFAULT_ATTRIBUTION_RANKING_MIN_EFFECT_SIZE)]),
             (''entries'', Arr (map (attributionValue h) entries)),
             (''summary'', stableSortObject (Obj [(''totalRules'', int_value (int (length (st_rules state)))),
                (''surfacedRules'', int_value (int (length entries))),
                (''helpfulRules'', countOf (\<lambda>e. sa_direction e = ''helpful'') entries),
                (''harmfulRules'', countOf (\<lambda>e. sa_direction e = ''harmful'') entries),
                (''observeRules'', countOf (\<lambda>e. recommendationOf e = ''observe'') entries),
                (''pendingRules'', countOf (\<lambda>e. 0 < ac_pending (sa_counts e)) entries)]))]), state))"

definition attributionReportHandler :: "core_host \<Rightarrow> js_value \<Rightarrow> handler" where
  "attributionReportHandler h request r state =
     (let limit = clampInt 1 MAX_ATTRIBUTION_REPORT_LIMIT
            (toPositiveInteger (getProp ''limit'' request) DEFAULT_ATTRIBUTION_REPORT_LIMIT);
          minSupport = max (toPositiveInteger (getProp ''minSupport'' request) DEFAULT_ATTRIBUTION_MIN_SUPPORT) 1;
          entries = buildShadowAttributionEntries h state (Arr []) (max limit DEFAULT_ATTRIBUTION_REPORT_LIMIT) minSupport
            (getProp ''includeZeroSupport'' request \<noteq> Bool False);
          topHelpful = take (nat limit) (arraySort (compareHelpfulAttributionEntries h)
            (filter (\<lambda>e. sa_direction e = ''helpful'') entries));
          topHarmful = take (nat limit) (arraySort (compareHarmfulAttributionEntries h)
            (filter (\<lambda>e. sa_direction e = ''harmful'') entries));
          pendingReview = take (nat limit) (arraySort (compareByAbsoluteAttributionSignal h)
            (filter (\<lambda>e. recommendationOf e = ''observe'' \<or> 0 < ac_pending (sa_counts e)) entries));
          values = (\<lambda>es. Arr (map (attributionValue h) es))
      in (Inr (spread (buildMeta h r)
           [(''advisoryOnly'', Bool True), (''readOnly'', Bool True),
            (''summary'', stableSortObject (Obj [(''totalRules'', int_value (int (length entries))),
               (''helpfulRules'', int_value (int (length topHelpful))), (''harmfulRules'', int_value (int (length topHarmful))),
               (''pendingReviewRules'', int_value (int (length pendingReview)))])),
            (''topHelpful'', values topHelpful), (''topHarmful'', values topHarmful), (''pendingReview'', values pendingReview),
            (''entries'', values (take (nat limit) (arraySort (compareByAbsoluteAttributionSignal h) entries)))]), state))"

section \<open>The ranking policy\<close>

record RankingPolicy =
  rp_policyId :: string
  rp_enabled :: bool
  rp_failClosed :: bool
  rp_updatedAt :: string
  rp_metadata :: js_value

definition rankingPolicyValue :: "RankingPolicy \<Rightarrow> js_value" where
  "rankingPolicyValue p = Obj [(''policyId'', Str (rp_policyId p)), (''enabled'', Bool (rp_enabled p)),
     (''failClosed'', Bool (rp_failClosed p)), (''updatedAt'', Str (rp_updatedAt p)), (''metadata'', rp_metadata p)]"

definition normalizeAttributionRankingPolicyState :: "core_host \<Rightarrow> js_value \<Rightarrow> string \<Rightarrow> string \<Rightarrow> RankingPolicy core" where
  "normalizeAttributionRankingPolicyState h value storeId profile =
     (let current = (if isObj value then value else Obj []) in
      chain (normalizeBoundedString (getProp ''policyId'' current) ''attributionRankingPolicy.policyId'' 64) (\<lambda>policyId.
        Inr \<lparr>rp_policyId = (case policyId of Some i \<Rightarrow> i | None \<Rightarrow> rankingPolicyId h storeId profile),
          rp_enabled = (getProp ''enabled'' current = Bool True),
          rp_failClosed = (getProp ''failClosed'' current \<noteq> Bool False),
          rp_updatedAt = normalizeIsoTimestampOrFallback h (getProp ''updatedAt'' current),
          rp_metadata = normalizeMetadata (getProp ''metadata'' current)\<rparr>))"

definition getAttributionRankingPolicy :: "core_host \<Rightarrow> string \<Rightarrow> string \<Rightarrow> ProfileState \<Rightarrow> RankingPolicy core" where
  "getAttributionRankingPolicy h storeId profile state =
     normalizeAttributionRankingPolicyState h (st_attributionRankingPolicy state) storeId profile"

definition getOrCreateAttributionRankingPolicy ::
    "core_host \<Rightarrow> string \<Rightarrow> string \<Rightarrow> ProfileState \<Rightarrow> RankingPolicy core \<times> ProfileState" where
  "getOrCreateAttributionRankingPolicy h storeId profile state =
     attempt (getAttributionRankingPolicy h storeId profile state)
       (\<lambda>normalized state. (Inr normalized, state\<lparr>st_attributionRankingPolicy := rankingPolicyValue normalized\<rparr>)) state"

record ranking_policy_request =
  rr_mode :: string
  rr_timestamp :: string
  rr_actor :: string
  rr_reason :: string
  rr_failClosed :: bool
  rr_metadata :: js_value

definition normalizeAttributionRankingPolicyRequest :: "core_host \<Rightarrow> js_value \<Rightarrow> ranking_policy_request core" where
  "normalizeAttributionRankingPolicyRequest h request =
     (let requestedMode = orElse (getProp ''mode'' request)
            (Str (if getProp ''enabled'' request = Bool True then ''enable''
                  else if getProp ''enabled'' request = Bool False then ''disable'' else ''check'')) in
      chain (normalizeDeterministicEnum requestedMode ''mode'' ''attribution_ranking_policy''
          [''check'', ''enable'', ''disable''] ''check'') (\<lambda>mode.
      chain (isoTimestamp h (orElse (getProp ''timestamp'' request) (getProp ''updatedAt'' request))
          ''attribution_ranking_policy.timestamp'') (\<lambda>timestamp.
      chain (normalizeBoundedString (orElse (getProp ''actor'' request) (getProp ''updatedBy'' request))
          ''attribution_ranking_policy.actor'' 128) (\<lambda>actor.
      chain (normalizeBoundedString (getProp ''reason'' request) ''attribution_ranking_policy.reason'' 512) (\<lambda>reason.
        Inr \<lparr>rr_mode = mode, rr_timestamp = timestamp,
          rr_actor = (case actor of Some a \<Rightarrow> a | None \<Rightarrow> ''system_unspecified''),
          rr_reason = (case reason of Some s \<Rightarrow> s | None \<Rightarrow> []),
          rr_failClosed = (getProp ''failClosed'' request \<noteq> Bool False),
          rr_metadata = normalizeMetadata (getProp ''metadata'' request)\<rparr>)))))"

definition attributionRankingPolicyHandler :: "core_host \<Rightarrow> js_value \<Rightarrow> handler" where
  "attributionRankingPolicyHandler h request r =
     (let storeId = rq_storeId r; profile = rq_profile r in
      attempt (normalizeAttributionRankingPolicyRequest h request) (\<lambda>n.
      andThen (getOrCreateAttributionRankingPolicy h storeId profile) (\<lambda>currentPolicy state.
        let previousDigest = digestOf h (rankingPolicyValue currentPolicy);
            nextPolicy = (if rr_mode n = ''check'' then currentPolicy
              else currentPolicy\<lparr>rp_enabled := (rr_mode n = ''enable''), rp_failClosed := rr_failClosed n,
                rp_updatedAt := rr_timestamp n, rp_metadata := rr_metadata n\<rparr>);
            changed = (stableStringify (rankingPolicyValue currentPolicy) \<noteq> stableStringify (rankingPolicyValue nextPolicy));
            state = (if changed then state\<lparr>st_attributionRankingPolicy := rankingPolicyValue nextPolicy\<rparr> else state) in
        attempt (getAttributionRankingPolicy h storeId profile state) (\<lambda>persistedPolicy.
        andThen (appendPolicyAuditTrail h (Obj
          [(''operation'', Str ''attribution_ranking_policy''), (''storeId'', Str storeId), (''profile'', Str profile),
           (''entityId'', Str (makeId ''atrp'' (digestOf h (Obj
              [(''policyId'', Str (rp_policyId persistedPolicy)), (''mode'', Str (rr_mode n)),
               (''enabled'', Bool (rp_enabled persistedPolicy)), (''failClosed'', Bool (rp_failClosed persistedPolicy)),
               (''timestamp'', Str (rr_timestamp n))])))),
           (''outcome'', Str (if rp_enabled persistedPolicy then ''allow'' else ''deny'')),
           (''reasonCodes'', strs [if rp_enabled persistedPolicy then ''attribution_ranking_enabled'' else ''attribution_ranking_disabled'']),
           (''details'', Obj [(''mode'', Str (rr_mode n)), (''actor'', Str (rr_actor n)), (''reason'', Str (rr_reason n)),
              (''failClosed'', Bool (rp_failClosed persistedPolicy))]),
           (''timestamp'', Str (rr_timestamp n))])) (\<lambda>auditEvent state.
          (Inr (spread (buildMeta h r)
            [(''action'', Str (if rr_mode n = ''check'' then ''checked'' else if changed then ''updated'' else ''noop'')),
             (''policy'', spread (rankingPolicyValue persistedPolicy) [(''changed'', Bool changed),
                (''previousDigest'', Str previousDigest), (''digest'', Str (digestOf h (rankingPolicyValue persistedPolicy)))]),
             (''policyAuditEventId'', getProp ''auditEventId'' auditEvent),
             (''observability'', Obj [(''advisoryOnly'', Bool True), (''enabled'', Bool (rp_enabled persistedPolicy)),
                (''failClosed'', Bool (rp_failClosed persistedPolicy)),
                (''slo'', buildSloObservability (opSeed h r) ''attribution_ranking_policy'' 30)])]), state))) state)))"

definition runAttributionRankingPolicy :: "core_host \<Rightarrow> js_value \<Rightarrow> stores \<Rightarrow> js_value core \<times> stores" where
  "runAttributionRankingPolicy h request =
     runOperation h ''attribution_ranking_policy'' (attributionRankingPolicyHandler h request) request"

definition runShadowAttribution :: "core_host \<Rightarrow> js_value \<Rightarrow> stores \<Rightarrow> js_value core \<times> stores" where
  "runShadowAttribution h request = runOperation h ''shadow_attribution'' (shadowAttributionHandler h request) request"

definition runAttributionReport :: "core_host \<Rightarrow> js_value \<Rightarrow> stores \<Rightarrow> js_value core \<times> stores" where
  "runAttributionReport h request = runOperation h ''attribution_report'' (attributionReportHandler h request) request"

end
