(* ===== verification/Core_Context.thy ===== *)
theory Core_Context
  imports Core_Recall Core_Attribution Ace_Pipeline
begin

text \<open>
  Recall: the operation \<open>context\<close> (core.ts, lines 5319-5576). It authorizes the store that asks, lets
  the attribution policy reorder the rules, and serves matching events, the first rules and the
  chronology of misconceptions through the context pack of \<open>Ace_Pipeline\<close>.
\<close>

section \<open>What the request asks for\<close>

definition requesterOf :: "js_value \<Rightarrow> js_value" where
  "requesterOf request = orElse (getProp ''requesterStoreId'' request) (getProp ''sourceStoreId'' request)"

definition asksForAnother :: "js_value \<Rightarrow> bool" where
  "asksForAnother request =
     (truthy (getProp ''requesterStoreId'' request) \<or> truthy (getProp ''sourceStoreId'' request))"

definition contextLimit :: "js_value \<Rightarrow> int" where
  "contextLimit request =
     (case getProp ''limit'' request of
        Num (JFin x) \<Rightarrow> if x = of_int \<lfloor>x\<rfloor> \<and> 0 < x then \<lfloor>x\<rfloor> else 5
      | _ \<Rightarrow> 5)"

definition chronologyLimitOf :: "js_value \<Rightarrow> int" where
  "chronologyLimitOf request = clampInt 1 (int MAX_LIST_ITEMS)
     (toPositiveInteger (orElse (getProp ''misconceptionChronologyLimit'' request) (getProp ''chronologyLimit'' request))
       (contextLimit request))"

definition attributionRankingRequested :: "js_value \<Rightarrow> bool" where
  "attributionRankingRequested request =
     (getProp ''enableAttributionRanking'' request = Bool True \<or> getProp ''attributionRanking'' request = Bool True
      \<or> isObj (getProp ''attributionRanking'' request))"

section \<open>Ranking the rules\<close>

definition MAX_ATTRIBUTION_RANKING_TOP_K :: int where
  "MAX_ATTRIBUTION_RANKING_TOP_K = 32"

definition ATTRIBUTION_RANKING_POLICY_DENY_ERROR :: string where
  "ATTRIBUTION_RANKING_POLICY_DENY_ERROR =
     ''PERSONALIZATION_POLICY_DENY: attribution ranking is not enabled for this store/profile.''"

record ranked_rule =
  rk_rule :: js_value
  rk_baselineIndex :: nat
  rk_entry :: ShadowAttribution

definition entryFor :: "ShadowAttribution list \<Rightarrow> js_value \<Rightarrow> ShadowAttribution option" where
  "entryFor entries rule = find (\<lambda>e. Str (sa_ruleId e) = getProp ''ruleId'' rule) (rev entries)"

definition bandPriority :: "ShadowAttribution \<Rightarrow> int" where
  "bandPriority e = (if nudgeBandOf e = ''boost'' then 2 else if nudgeBandOf e = ''none'' then 1 else 0)"

definition rankHead ::
    "core_host \<Rightarrow> ProfileState \<Rightarrow> int \<Rightarrow> ShadowAttribution list \<Rightarrow> js_value list \<Rightarrow> ranked_rule list" where
  "rankHead h state minSupport entries baselineHead =
     arraySort (thenBy (descending (\<lambda>k. bandPriority (rk_entry k)))
         (thenBy (descending (\<lambda>k. finiteValue (nudgeValueOf (rk_entry k)))) (ascending rk_baselineIndex)))
       (map (\<lambda>(i, rule). \<lparr>rk_rule = rule, rk_baselineIndex = i,
           rk_entry = (case entryFor entries rule of Some e \<Rightarrow> e
             | None \<Rightarrow> buildShadowAttributionEntry h state rule minSupport DEFAULT_ATTRIBUTION_DIRECTION_THRESHOLD)\<rparr>)
         (enumerate 0 baselineHead))"

definition ruleIdsOf :: "js_value list \<Rightarrow> js_value" where
  "ruleIdsOf rules = Arr (map (getProp ''ruleId'') (take 5 rules))"

record context_ranking =
  cr_rules :: "js_value list"
  cr_entries :: "ShadowAttribution list"
  cr_observability :: js_value

definition baselineRanking :: "core_host \<Rightarrow> ProfileState \<Rightarrow> js_value \<Rightarrow> RankingPolicy \<Rightarrow> bool \<Rightarrow> context_ranking" where
  "baselineRanking h state request policy failClosed =
     \<lparr>cr_rules = st_rules state, cr_entries = [],
      cr_observability = stableSortObject (Obj
        [(''requested'', Bool (attributionRankingRequested request)), (''applied'', Bool False),
         (''advisoryOnly'', Bool True), (''policyEnabled'', Bool (rp_enabled policy)), (''failClosed'', Bool failClosed),
         (''policyId'', Str (rp_policyId policy)), (''policyDigest'', Str (digestOf h (rankingPolicyValue policy))),
         (''topK'', int_value 0), (''baselineRuleIds'', ruleIdsOf (st_rules state)),
         (''rankedRuleIds'', ruleIdsOf (st_rules state)), (''changedRuleIds'', Arr []), (''scoredRules'', Arr [])])\<rparr>"

definition scoredRule :: "ranked_rule \<Rightarrow> js_value" where
  "scoredRule k = stableSortObject (Obj
     [(''ruleId'', getProp ''ruleId'' (rk_rule k)), (''band'', Str (nudgeBandOf (rk_entry k))),
      (''nudgeValue'', Num (nudgeValueOf (rk_entry k))), (''direction'', Str (sa_direction (rk_entry k))),
      (''attributionConfidence'', Num (sa_attributionConfidence (rk_entry k))),
      (''supportCount'', int_value (supportCountOf (sa_counts (rk_entry k)))),
      (''evidenceTier'', Str (evidenceTier (rk_entry k)))])"

definition rankingMinSupport :: "js_value \<Rightarrow> int" where
  "rankingMinSupport request = max (toPositiveInteger (orElse (getProp ''attributionMinSupport'' request)
     (getProp ''minSupport'' (getProp ''attributionRanking'' request))) DEFAULT_ATTRIBUTION_MIN_SUPPORT) 1"

definition rankingTopK :: "js_value \<Rightarrow> nat \<Rightarrow> int" where
  "rankingTopK request ruleCount =
     min (max (toPositiveInteger (orElse (getProp ''attributionRankingTopK'' request)
           (getProp ''topK'' (getProp ''attributionRanking'' request))) 10) 1)
       (min MAX_ATTRIBUTION_RANKING_TOP_K (max (int ruleCount) 1))"

definition appliedRanking :: "core_host \<Rightarrow> ProfileState \<Rightarrow> js_value \<Rightarrow> context_ranking \<Rightarrow> context_ranking" where
  "appliedRanking h state request base =
     (let rules = st_rules state;
          topK = rankingTopK request (length rules);
          baselineHead = take (nat topK) rules;
          minSupport = rankingMinSupport request;
          entries = buildShadowAttributionEntries h state (Arr (map (getProp ''ruleId'') baselineHead)) topK minSupport True;
          rankedHead = rankHead h state minSupport entries baselineHead;
          rankedRules = map rk_rule rankedHead @ drop (nat topK) rules;
          changedRuleIds = map snd (filter (\<lambda>(before_id, after_id). before_id \<noteq> after_id)
            (zip (map (getProp ''ruleId'') baselineHead) (map (\<lambda>k. getProp ''ruleId'' (rk_rule k)) rankedHead)))
      in \<lparr>cr_rules = rankedRules, cr_entries = entries,
          cr_observability = stableSortObject (spread (cr_observability base)
            [(''applied'', Bool (changedRuleIds \<noteq> [])), (''topK'', int_value topK),
             (''baselineRuleIds'', ruleIdsOf baselineHead), (''rankedRuleIds'', ruleIdsOf rankedRules),
             (''changedRuleIds'', strs (asSortedUniqueStrings h (Arr changedRuleIds))),
             (''scoredRules'', Arr (map scoredRule (take 5 rankedHead)))])\<rparr>)"

definition rankRules :: "core_host \<Rightarrow> normalized_request \<Rightarrow> js_value \<Rightarrow> RankingPolicy \<Rightarrow> ProfileState \<Rightarrow> context_ranking core" where
  "rankRules h r request policy state =
     (let failClosed = (getProp ''attributionRankingFailClosed'' request \<noteq> Bool False \<and> rp_failClosed policy);
          base = baselineRanking h state request policy failClosed in
      if \<not> attributionRankingRequested request then Inr base
      else if \<not> rp_enabled policy \<and> failClosed
      then Inl (PolicyDeny (ATTRIBUTION_RANKING_POLICY_DENY_ERROR @ '' storeId='' @ rq_storeId r @ '' profile='' @ rq_profile r) None)
      else if rp_enabled policy then Inr (appliedRanking h state request base)
      else Inr base)"

section \<open>What is served\<close>

text \<open>A stored event as the pack reads it: a template prints the members that are no strings.\<close>

definition contextEvent :: "js_value \<Rightarrow> ContextEventRecord" where
  "contextEvent event =
     \<lparr>ce_eventId = strOrEmpty (getProp ''eventId'' event), ce_type = toStr (getProp ''type'' event),
      ce_source = toStr (getProp ''source'' event), ce_content = toStr (getProp ''content'' event),
      ce_digest = strOrEmpty (getProp ''digest'' event)\<rparr>"

definition optString :: "js_value \<Rightarrow> string option" where
  "optString v = (case v of Str s \<Rightarrow> Some s | _ \<Rightarrow> None)"

definition optNumber :: "js_value \<Rightarrow> rat option" where
  "optNumber v = (case v of Num (JFin x) \<Rightarrow> Some x | _ \<Rightarrow> None)"

text \<open>A chronology note as its writer makes it.\<close>

definition chronologyNote :: "js_value \<Rightarrow> MisconceptionChronologyRecord" where
  "chronologyNote note =
     \<lparr>mc_noteId = strOrEmpty (getProp ''noteId'' note), mc_misconceptionId = optString (getProp ''misconceptionId'' note),
      mc_misconceptionKey = strOrEmpty (getProp ''misconceptionKey'' note), mc_profileId = optString (getProp ''profileId'' note),
      mc_timestamp = strOrEmpty (getProp ''timestamp'' note), mc_changedFields = stringsIn (getProp ''changedFields'' note),
      mc_previousDigest = optString (getProp ''previousDigest'' note), mc_nextDigest = optString (getProp ''nextDigest'' note),
      mc_confidence = optNumber (getProp ''confidence'' note), mc_harmfulSignalCount = optNumber (getProp ''harmfulSignalCount'' note),
      mc_evidenceEventIds = stringsIn (getProp ''evidenceEventIds'' note)\<rparr>"

text \<open>\<open>event.content.slice(0, 180)\<close>: content that is neither text nor an array has no \<open>slice\<close>.\<close>

definition excerptOf :: "js_value \<Rightarrow> js_value core" where
  "excerptOf content =
     (case content of
        Str s \<Rightarrow> Inr (Str (take 180 s))
      | Arr vs \<Rightarrow> Inr (Arr (take 180 vs))
      | _ \<Rightarrow> Inl (RuntimeTypeError ''event.content.slice is not a function''))"

definition matchValue :: "js_value \<times> ContextMatchRecord \<Rightarrow> js_value core" where
  "matchValue = (\<lambda>(event, packed).
     chain (excerptOf (getProp ''content'' event)) (\<lambda>excerpt.
       Inr (Obj [(''eventId'', Str (cm_eventId packed)), (''usageId'', Str (cm_usageId packed)),
         (''type'', getProp ''type'' event), (''source'', getProp ''source'' event), (''excerpt'', excerpt),
         (''digest'', Str (cm_digest packed))])))"

definition optValue :: "('a \<Rightarrow> js_value) \<Rightarrow> 'a option \<Rightarrow> js_value" where
  "optValue f x = (case x of None \<Rightarrow> Null | Some y \<Rightarrow> f y)"

definition noteValue :: "MisconceptionChronologyRecord \<times> int \<Rightarrow> js_value" where
  "noteValue = (\<lambda>(note, relevance). Obj
     [(''noteId'', Str (mc_noteId note)), (''misconceptionId'', optValue Str (mc_misconceptionId note)),
      (''misconceptionKey'', Str (mc_misconceptionKey note)), (''profileId'', optValue Str (mc_profileId note)),
      (''timestamp'', Str (mc_timestamp note)), (''changedFields'', strs (mc_changedFields note)),
      (''previousDigest'', optValue Str (mc_previousDigest note)), (''nextDigest'', optValue Str (mc_nextDigest note)),
      (''confidence'', optValue (\<lambda>x. Num (JFin x)) (mc_confidence note)),
      (''harmfulSignalCount'', optValue (\<lambda>x. Num (JFin x)) (mc_harmfulSignalCount note)),
      (''evidenceEventIds'', strs (mc_evidenceEventIds note)), (''relevance'', int_value relevance)])"

definition chronologyValue :: "ContextPackOutput \<Rightarrow> js_value" where
  "chronologyValue p = Obj
     [(''bounded'', Bool (cp_bounded p)), (''truncated'', Bool (cp_truncated p)), (''deterministicFormatting'', Bool True),
      (''prioritization'', Str (case cp_prioritization p of
          QueryRelevance \<Rightarrow> ''query_relevance_then_recency_then_noteId'' | Severity \<Rightarrow> ''severity_then_recency_then_noteId'')),
      (''limit'', int_value (cp_limit p)), (''totalAvailable'', int_value (cp_totalAvailable p)),
      (''notes'', Arr (map noteValue (cp_notes p))), (''formatting'', strs (cp_formatting p))]"

definition servedRule :: "ShadowAttribution list \<Rightarrow> js_value \<Rightarrow> js_value" where
  "servedRule entries rule =
     (let baseRule = [(''ruleId'', getProp ''ruleId'' rule), (''statement'', getProp ''statement'' rule),
            (''confidence'', getProp ''confidence'' rule)] in
      case entryFor entries rule of
        None \<Rightarrow> Obj baseRule
      | Some e \<Rightarrow> Obj (baseRule @ [(''attribution'', Obj
          [(''direction'', Str (sa_direction e)), (''effectSize'', Num (sa_effectSize e)),
           (''attributionConfidence'', Num (sa_attributionConfidence e)),
           (''supportCount'', int_value (supportCountOf (sa_counts e))), (''evidenceTier'', Str (evidenceTier e)),
           (''advisoryOnly'', Bool True)])]))"

definition packFor :: "core_host \<Rightarrow> ProfileState \<Rightarrow> js_value \<Rightarrow> string \<Rightarrow> string \<Rightarrow> ContextPackOutput" where
  "packFor h state request query packId =
     buildContextPack (localeCompare h)
       (\<lambda>event. makeId ''usage'' (digestOf h (Obj [(''packId'', Str packId), (''eventId'', Str (ce_eventId event)),
          (''digest'', Str (ce_digest event))])))
       query (contextLimit request) (chronologyLimitOf request) (map contextEvent (st_events state))
       (map chronologyNote (Core_State.sortByTimestampAndId h (st_misconceptionChronologyHistory state) ''timestamp'' ''noteId''))"

text \<open>The stored events behind the matches of the pack.\<close>

definition matchingEvents :: "ProfileState \<Rightarrow> js_value \<Rightarrow> string \<Rightarrow> js_value list" where
  "matchingEvents state request query =
     sliceTo (contextLimit request) (filter (\<lambda>e. eventMatches (toLowerCase query) (contextEvent e)) (st_events state))"

definition serveContext ::
    "core_host \<Rightarrow> normalized_request \<Rightarrow> js_value \<Rightarrow> recall_verdict option \<Rightarrow> ProfileState \<Rightarrow> js_value core" where
  "serveContext h r request authorization state =
     (let packId = makeId ''pack'' (opSeed h r);
          query = toLowerCase (strOrEmpty (getProp ''query'' request)) in
      chain (getAttributionRankingPolicy h (rq_storeId r) (rq_profile r) state) (\<lambda>policy.
      chain (rankRules h r request policy state) (\<lambda>ranking.
      let pack = packFor h state request query packId in
      chain (traverse matchValue (zip (matchingEvents state request query) (cp_matches pack))) (\<lambda>matches.
        Inr (spread (buildMeta h r)
          [(''packId'', Str packId), (''query'', Str query), (''totalEvents'', int_value (int (length (st_events state)))),
           (''authorization'', optValue (\<lambda>v. Obj [(''authorized'', Bool (rv_authorized v)),
              (''crossSpace'', Bool (rv_crossSpace v)), (''policyAuditEventId'', rv_auditEventId v)]) authorization),
           (''matches'', Arr matches), (''rules'', Arr (map (servedRule (cr_entries ranking)) (take 5 (cr_rules ranking)))),
           (''misconceptionChronology'', chronologyValue pack),
           (''observability'', Obj [(''attributionRanking'', cr_observability ranking)])])))))"

definition contextHandler :: "core_host \<Rightarrow> js_value \<Rightarrow> handler" where
  "contextHandler h request r =
     attempt (isoTimestamp h (orElse (getProp ''timestamp'' request) (getProp ''requestedAt'' request)) ''context.timestamp'') (\<lambda>timestamp.
       if asksForAnother request
       then andThen (ensureRecallAuthorizationForOperation h (rq_storeId r) (rq_profile r) (requesterOf request) ''context'' timestamp)
         (\<lambda>verdict state. (serveContext h r request (Some verdict) state, state))
       else (\<lambda>state. (serveContext h r request None state, state)))"

definition runContext :: "core_host \<Rightarrow> js_value \<Rightarrow> stores \<Rightarrow> js_value core \<times> stores" where
  "runContext h request = runOperation h ''context'' (contextHandler h request) request"

end
