(* ===== verification/Core_Recall_Properties.thy ===== *)
theory Core_Recall_Properties
  imports Core_Audit Core_Context
begin

text \<open>
  What the allowlist guarantees: \<open>recall_authorization\<close> is a machine on sets of stores, a store that
  is not listed gets no answer from \<open>context\<close> and learns nothing from the refusal, and the refusal is
  in the audit trail.
\<close>

section \<open>Sets of strings\<close>

lemma set_sortedUnique: "set (asSortedUniqueStrings h (strs xs)) = {trim s |s. s \<in> set xs \<and> trim s \<noteq> []}"
  by (auto simp: asSortedUniqueStrings_def stringsIn_def strs_def nonEmpty_def arrOrEmpty_def isStr_def strOrEmpty_def
      filter_map o_def)

lemma stringsIn_strs [simp]: "stringsIn (strs xs) = xs"
  by (simp add: stringsIn_def strs_def arrOrEmpty_def isStr_def strOrEmpty_def filter_map o_def)

lemma arrOrEmpty_strs [simp]: "arrOrEmpty (strs xs) = map Str xs"
  by (simp add: strs_def arrOrEmpty_def)

definition cleanStrings :: "string list \<Rightarrow> bool" where
  "cleanStrings xs = list_all (\<lambda>s. trim s = s \<and> s \<noteq> []) xs"

lemma set_mergeStringLists:
  "set (mergeStringLists h v w) = {trim s |s. s \<in> set (stringsIn v) \<union> set (stringsIn w) \<and> trim s \<noteq> []}"
  by (auto simp: mergeStringLists_def asSortedUniqueStrings_def stringsIn_def nonEmpty_def arrOrEmpty_def [of "Arr _"])

lemma clean_merged [simp]: "cleanStrings (mergeStringLists h v w)"
  by (auto simp: cleanStrings_def list_all_iff set_mergeStringLists)

lemma clean_sortedUnique [simp]: "cleanStrings (asSortedUniqueStrings h v)"
  by (auto simp: cleanStrings_def list_all_iff asSortedUniqueStrings_def nonEmpty_def)


lemma clean_Nil_Cons [simp]: "cleanStrings []" "cleanStrings (x # xs) \<longleftrightarrow> trim x = x \<and> x \<noteq> [] \<and> cleanStrings xs"
  by (auto simp: cleanStrings_def)



section \<open>Audit events\<close>

lemma sortedUnique_single: "trim c = c \<Longrightarrow> c \<noteq> [] \<Longrightarrow> asSortedUniqueStrings h (strs [c]) = [c]"
  by (simp add: asSortedUniqueStrings_def nonEmpty_def)

lemma boundedArray_single:
  assumes "trim c = c" "c \<noteq> []" "length c \<le> 256"
  shows "normalizeBoundedStringArray h (strs [c]) f = Inr [c]"
  using assms by (simp add: normalizeBoundedStringArray_def boundedStrings_def sortedUnique_single ensureBoundedCount_def MAX_LIST_ITEMS_def
      MAX_SIGNAL_ITEM_LENGTH_def)

lemma absent_string [simp]: "normalizeBoundedString Undefined f n = Inr None"
  by (simp add: normalizeBoundedString_def strOrEmpty_def)

lemma boundedString_some:
  "normalizeBoundedString v f n = Inr (Some s) \<Longrightarrow> \<exists>t. v = Str t \<and> trim t = s \<and> s \<noteq> [] \<and> length s \<le> n"
  by (cases v) (auto simp: normalizeBoundedString_def strOrEmpty_def split: if_splits)

lemma allowlist_reason [simp]:
  "normalizeBoundedStringArray h (allowlistReasons b) f = Inr [if b then ''allowlist_authorized'' else ''allowlist_denied'']"
proof -
  have "trim ''allowlist_authorized'' = ''allowlist_authorized''" "trim ''allowlist_denied'' = ''allowlist_denied''"
    by code_simp+
  then show ?thesis by (cases b) (simp_all add: allowlistReasons_def boundedArray_single)
qed

section \<open>Identifiers of a request\<close>



section \<open>The allowlist as a set\<close>

definition allowedStores :: "core_host \<Rightarrow> string \<Rightarrow> js_value \<Rightarrow> string set" where
  "allowedStores h storeId policy = set (mergeStringLists h (getProp ''allowedStoreIds'' policy) (strs [storeId]))"

lemma getProp_of_object [simp]: "getProp k (if isObj v then v else Obj []) = getProp k v"
  by (cases v) (simp_all add: isObj_def)

lemma read_allowed:
  "readAllowlistPolicy h v storeId profile = Inr policy \<Longrightarrow> set (al_allowedStoreIds policy) = allowedStores h storeId v"
  by (auto simp: readAllowlistPolicy_def Let_def chain_eq_Inr allowedStores_def)




section \<open>A store that is not listed\<close>

lemma denied_verdict:
  assumes q: "normalizeBoundedString requester ''requesterStoreId'' 128 = Inr (Some q)" "q \<noteq> storeId"
    and policy: "readAllowlistPolicy h (st_recallAllowlistPolicy s) storeId profile = Inr policy"
    and unlisted: "q \<notin> allowedStores h storeId (st_recallAllowlistPolicy s)"
  obtains e where "auditEventOf h (recallAuditEvent h operation storeId profile q timestamp policy False) = Inr e"
    and "ensureRecallAuthorizationForOperation h storeId profile requester operation timestamp s =
      (Inl (PolicyDeny (denyMessage q storeId) (Some (strOrEmpty (auditId e)))),
       s\<lparr>st_recallAllowlistPolicy := allowlistValue policy, st_policyAuditTrail := trailAfter h e (st_policyAuditTrail s)\<rparr>)"
    and "getProp ''outcome'' e = Str ''deny''" and "isStr (auditId e)"
proof -
  have "normalizeBoundedStringArray h (getProp ''reasonCodes'' (recallAuditEvent h operation storeId profile q timestamp policy False))
      ''policyAuditTrail.reasonCodes'' = Inr [''allowlist_denied'']"
    by (simp add: recallAuditEvent_def)
  then obtain e where e: "auditEventOf h (recallAuditEvent h operation storeId profile q timestamp policy False) = Inr e"
    "getProp ''outcome'' e = Str ''deny''" "isStr (auditId e)"
    unfolding recallAuditEvent_def auditId_def by (rule auditEventOf_Inr) (simp_all add: orElse_def nullish_def)
  have "q \<notin> set (al_allowedStoreIds policy)" using unlisted read_allowed [OF policy] by simp
  then have "ensureRecallAuthorizationForOperation h storeId profile requester operation timestamp s =
      (Inl (PolicyDeny (denyMessage q storeId) (Some (strOrEmpty (auditId e)))),
       s\<lparr>st_recallAllowlistPolicy := allowlistValue policy, st_policyAuditTrail := trailAfter h e (st_policyAuditTrail s)\<rparr>)"
    using q policy e
    by (simp add: ensureRecallAuthorizationForOperation_def andThen_def getOrCreateRecallAllowlistPolicy_def append_eq auditId_def)
  then show thesis using e that by blast
qed

lemma asks_of_requester:
  "normalizeBoundedString (requesterOf request) f n = Inr (Some q) \<Longrightarrow> asksForAnother request"
  by (drule boundedString_some) (auto simp: requesterOf_def asksForAnother_def orElse_def split: if_splits)

text \<open>What the handler answers, as a function of the request and of the stored policy only.\<close>

definition refusal :: "core_host \<Rightarrow> normalized_request \<Rightarrow> js_value \<Rightarrow> js_value \<Rightarrow> string \<Rightarrow> core_error" where
  "refusal h r request policyValue q =
     (case isoTimestamp h (orElse (getProp ''timestamp'' request) (getProp ''requestedAt'' request)) ''context.timestamp'' of
        Inl e \<Rightarrow> e
      | Inr timestamp \<Rightarrow>
          (case readAllowlistPolicy h policyValue (rq_storeId r) (rq_profile r) of
             Inl e \<Rightarrow> e
           | Inr policy \<Rightarrow> PolicyDeny (denyMessage q (rq_storeId r))
               (Some (case auditEventOf h (recallAuditEvent h ''context'' (rq_storeId r) (rq_profile r) q timestamp policy False) of
                  Inl _ \<Rightarrow> [] | Inr e \<Rightarrow> strOrEmpty (auditId e)))))"

text \<open>Two states that differ at most in the allowlist and in the audit trail.\<close>

definition sameData :: "ProfileState \<Rightarrow> ProfileState \<Rightarrow> bool" where
  "sameData s s' = (s'\<lparr>st_recallAllowlistPolicy := Undefined, st_policyAuditTrail := []\<rparr>
     = s\<lparr>st_recallAllowlistPolicy := Undefined, st_policyAuditTrail := []\<rparr>)"

lemma sameData_simps [simp]:
  "sameData s s" "sameData s (s\<lparr>st_recallAllowlistPolicy := p, st_policyAuditTrail := t\<rparr>)"
  by (simp_all add: sameData_def)

lemma refused_context:
  assumes q: "normalizeBoundedString (requesterOf request) ''requesterStoreId'' 128 = Inr (Some q)" "q \<noteq> rq_storeId r"
    and unlisted: "q \<notin> allowedStores h (rq_storeId r) (st_recallAllowlistPolicy s)"
  shows "fst (contextHandler h request r s) = Inl (refusal h r request (st_recallAllowlistPolicy s) q)"
    and "sameData s (snd (contextHandler h request r s))"
proof -
  let ?iso = "isoTimestamp h (orElse (getProp ''timestamp'' request) (getProp ''requestedAt'' request)) ''context.timestamp''"
  let ?read = "readAllowlistPolicy h (st_recallAllowlistPolicy s) (rq_storeId r) (rq_profile r)"
  have "fst (contextHandler h request r s) = Inl (refusal h r request (st_recallAllowlistPolicy s) q)
     \<and> sameData s (snd (contextHandler h request r s))"
  proof (cases ?iso)
    case (Inl e)
    then show ?thesis by (simp add: contextHandler_def refusal_def)
  next
    case iso: (Inr timestamp)
    show ?thesis
    proof (cases ?read)
      case (Inl e)
      with iso q asks_of_requester [OF q(1)] show ?thesis
        by (simp add: contextHandler_def refusal_def ensureRecallAuthorizationForOperation_def andThen_def
            getOrCreateRecallAllowlistPolicy_def)
    next
      case (Inr policy)
      from denied_verdict [OF q Inr unlisted] obtain e
        where "auditEventOf h (recallAuditEvent h ''context'' (rq_storeId r) (rq_profile r) q timestamp policy False) = Inr e"
          and "ensureRecallAuthorizationForOperation h (rq_storeId r) (rq_profile r) (requesterOf request) ''context'' timestamp s =
            (Inl (PolicyDeny (denyMessage q (rq_storeId r)) (Some (strOrEmpty (auditId e)))),
             s\<lparr>st_recallAllowlistPolicy := allowlistValue policy, st_policyAuditTrail := trailAfter h e (st_policyAuditTrail s)\<rparr>)"
        by blast
      with iso Inr asks_of_requester [OF q(1)] show ?thesis
        by (simp add: contextHandler_def refusal_def andThen_def)
    qed
  qed
  then show "fst (contextHandler h request r s) = Inl (refusal h r request (st_recallAllowlistPolicy s) q)"
    and "sameData s (snd (contextHandler h request r s))" by blast+
qed

text \<open>C9: Cross-space recall is refused without leaking: when the store that asks for a context is not
  the owner and not on the owner's allowlist, the answer is an error that is determined by the
  request and the allowlist alone, whatever events, rules and notes the profile holds, and the
  profile keeps all its data.\<close>

theorem unlisted_store_refused:
  assumes "normalizeRequest ''context'' request = Inr r"
    and "normalizeBoundedString (requesterOf request) ''requesterStoreId'' 128 = Inr (Some q)"
    and "q \<noteq> rq_storeId r"
    and "q \<notin> allowedStores h (rq_storeId r)
        (st_recallAllowlistPolicy (getProfileState h (rq_storeId r) (rq_profile r) stores))"
  shows "fst (runContext h request stores) = Inl (refusal h r request
      (st_recallAllowlistPolicy (getProfileState h (rq_storeId r) (rq_profile r) stores)) q)
    \<and> sameData (getProfileState h (rq_storeId r) (rq_profile r) stores)
        (getProfileState h (rq_storeId r) (rq_profile r) (snd (runContext h request stores)))"
  using refused_context [OF assms(2,3,4)] assms(1)
  by (simp add: runContext_def runOperation_def getProfileState_def [of _ _ _ "setProfileState _ _ _ _"] split: prod.split)
     (metis fst_conv snd_conv)

text \<open>C17: A refused recall is on record: the error carries the id of a deny event, and that event is in the
  audit trail of the profile afterwards unless the trail is full of events that are not earlier.\<close>

theorem refused_recall_audited:
  assumes "normalizeRequest ''context'' request = Inr r"
    and "normalizeBoundedString (requesterOf request) ''requesterStoreId'' 128 = Inr (Some q)"
    and "q \<noteq> rq_storeId r"
    and "q \<notin> allowedStores h (rq_storeId r)
        (st_recallAllowlistPolicy (getProfileState h (rq_storeId r) (rq_profile r) stores))"
    and "isoTimestamp h (orElse (getProp ''timestamp'' request) (getProp ''requestedAt'' request)) ''context.timestamp''
        = Inr timestamp"
    and "readAllowlistPolicy h (st_recallAllowlistPolicy (getProfileState h (rq_storeId r) (rq_profile r) stores))
        (rq_storeId r) (rq_profile r) = Inr policy"
    and "trailOk h (st_policyAuditTrail (getProfileState h (rq_storeId r) (rq_profile r) stores))"
  shows "\<exists>e. fst (runContext h request stores)
        = Inl (PolicyDeny (denyMessage q (rq_storeId r)) (Some (strOrEmpty (getProp ''auditEventId'' e))))
      \<and> getProp ''outcome'' e = Str ''deny''
      \<and> recorded h e (st_policyAuditTrail
          (getProfileState h (rq_storeId r) (rq_profile r) (snd (runContext h request stores))))"
proof -
  let ?s = "getProfileState h (rq_storeId r) (rq_profile r) stores"
  from denied_verdict [OF assms(2,3,6,4)] obtain e
    where e: "ensureRecallAuthorizationForOperation h (rq_storeId r) (rq_profile r) (requesterOf request) ''context'' timestamp ?s =
        (Inl (PolicyDeny (denyMessage q (rq_storeId r)) (Some (strOrEmpty (auditId e)))),
         ?s\<lparr>st_recallAllowlistPolicy := allowlistValue policy, st_policyAuditTrail := trailAfter h e (st_policyAuditTrail ?s)\<rparr>)"
      and "getProp ''outcome'' e = Str ''deny''"
    by blast
  moreover have "contextHandler h request r ?s =
      (Inl (PolicyDeny (denyMessage q (rq_storeId r)) (Some (strOrEmpty (auditId e)))),
       ?s\<lparr>st_recallAllowlistPolicy := allowlistValue policy, st_policyAuditTrail := trailAfter h e (st_policyAuditTrail ?s)\<rparr>)"
    using assms(5) asks_of_requester [OF assms(2)] e by (simp add: contextHandler_def andThen_def)
  ultimately show ?thesis
    using assms(1) trailAfter_recorded [OF assms(7), of e]
    by (intro exI [of _ e])
       (simp add: runContext_def runOperation_def getProfileState_def [of _ _ _ "setProfileState _ _ _ _"] auditId_def)
qed

text \<open>The refusal looks at \<open>requesterStoreId ?? sourceStoreId\<close>, the check whether there is a requester
  at each of them: a blank \<open>requesterStoreId\<close> hides the \<open>sourceStoreId\<close>, and the request is served as
  the owner's.\<close>

lemma blank_requester_hides_source:
  assumes "getProp ''requesterStoreId'' request = Str []" "getProp ''sourceStoreId'' request = Str q" "q \<noteq> []"
    and "readAllowlistPolicy h (st_recallAllowlistPolicy s) storeId profile = Inr policy"
  shows "asksForAnother request"
    and "\<exists>v. fst (ensureRecallAuthorizationForOperation h storeId profile (requesterOf request) operation timestamp s) = Inr v
      \<and> rv_authorized v"
proof -
  show "asksForAnother request" using assms by (simp add: asksForAnother_def)
  have "normalizeBoundedStringArray h (getProp ''reasonCodes'' (recallAuditEvent h operation storeId profile storeId timestamp policy True))
      ''policyAuditTrail.reasonCodes'' = Inr [''allowlist_authorized'']"
    by (simp add: recallAuditEvent_def)
  then obtain e where "auditEventOf h (recallAuditEvent h operation storeId profile storeId timestamp policy True) = Inr e"
    unfolding recallAuditEvent_def by (rule auditEventOf_Inr) simp_all
  then show "\<exists>v. fst (ensureRecallAuthorizationForOperation h storeId profile (requesterOf request) operation timestamp s) = Inr v
      \<and> rv_authorized v"
    using assms by (simp add: ensureRecallAuthorizationForOperation_def requesterOf_def orElse_def nullish_def
        normalizeBoundedString_def strOrEmpty_def andThen_def getOrCreateRecallAllowlistPolicy_def append_eq)
qed

section \<open>Changing the allowlist\<close>





lemma strs_inj [simp]: "stableStringify (strs xs) = stableStringify (strs ys) \<longleftrightarrow> xs = ys"
proof -
  have shape: "stableStringify (strs zs) = ''['' @ join '','' (map quoted zs) @ '']''" for zs
    by (simp add: stableStringify_def strs_def o_def)
  show ?thesis using join_quoted_inj [of xs ys] by (auto simp: shape)
qed


lemma getProp_spread [simp]: "getProp k (spread v [(j, x)]) = (if k = j then x else getProp k v)"
  by (cases v) (auto simp: spread_def update_conv')



section \<open>Examples\<close>

definition sampleCoreHost :: core_host where
  "sampleCoreHost = \<lparr>localeCompare = default, sha256 = (\<lambda>s. s), formatIssue = (\<lambda>c j. c), toISOString = Some,
     dateParse = (\<lambda>s. None), isoOfTime = (\<lambda>n. None)\<rparr>"

definition foreignRecall :: js_value where
  "foreignRecall = Obj [(''storeId'', Str ''a''), (''requesterStoreId'', Str ''b''), (''timestamp'', Str ''t'')]"

definition grantToB :: js_value where
  "grantToB = Obj [(''storeId'', Str ''a''), (''mode'', Str ''grant''), (''requesterStoreId'', Str ''b''),
     (''allowStoreIds'', strs [''b''])]"

definition sampleNormalized :: "js_value \<Rightarrow> string \<Rightarrow> normalized_request" where
  "sampleNormalized request operation = \<lparr>rq_storeId = ''a'', rq_profile = INTERNAL_PROFILE_ID,
     rq_input = stableSortObject (spread request [(''storeId'', Str ''a''), (''profile'', Str INTERNAL_PROFILE_ID)]),
     rq_operation = operation\<rparr>"

definition sampleAllowlist :: AllowlistPolicy where
  "sampleAllowlist = \<lparr>al_policyId = allowlistId sampleCoreHost ''a'' INTERNAL_PROFILE_ID, al_allowedStoreIds = [''a''],
     al_updatedAt = DEFAULT_VERSION_TIMESTAMP, al_metadata = Obj []\<rparr>"

lemma sample_requests:
  "normalizeRequest ''context'' foreignRecall = Inr (sampleNormalized foreignRecall ''context'')"
  "normalizeRequest ''recall_authorization'' grantToB = Inr (sampleNormalized grantToB ''recall_authorization'')"
  "normalizeBoundedString (requesterOf foreignRecall) ''requesterStoreId'' 128 = Inr (Some ''b'')"
  by code_simp+

lemma sample_policy:
  "readAllowlistPolicy sampleCoreHost (st_recallAllowlistPolicy (getProfileState sampleCoreHost ''a'' INTERNAL_PROFILE_ID []))
     ''a'' INTERNAL_PROFILE_ID = Inr sampleAllowlist"
  by code_simp

lemma sample_unlisted:
  "''b'' \<notin> allowedStores sampleCoreHost ''a'' (st_recallAllowlistPolicy (getProfileState sampleCoreHost ''a'' INTERNAL_PROFILE_ID []))"
  by code_simp

lemma sample_ids [simp]: "rq_storeId (sampleNormalized q p) = ''a''" "rq_profile (sampleNormalized q p) = INTERNAL_PROFILE_ID"
  by (simp_all add: sampleNormalized_def)

lemma unlisted_store_refused_witness:
  "\<exists>e. fst (runContext sampleCoreHost foreignRecall []) = Inl e
     \<and> sameData (getProfileState sampleCoreHost ''a'' INTERNAL_PROFILE_ID [])
         (getProfileState sampleCoreHost ''a'' INTERNAL_PROFILE_ID (snd (runContext sampleCoreHost foreignRecall [])))"
  using unlisted_store_refused [OF sample_requests(1) sample_requests(3), of sampleCoreHost "[]"] sample_unlisted by simp

lemma refused_recall_audited_witness:
  "\<exists>e. fst (runContext sampleCoreHost foreignRecall []) = Inl (PolicyDeny (denyMessage ''b'' ''a'') (Some (strOrEmpty (getProp ''auditEventId'' e))))
     \<and> recorded sampleCoreHost e (st_policyAuditTrail
         (getProfileState sampleCoreHost ''a'' INTERNAL_PROFILE_ID (snd (runContext sampleCoreHost foreignRecall []))))"
proof -
  have "isoTimestamp sampleCoreHost (orElse (getProp ''timestamp'' foreignRecall) (getProp ''requestedAt'' foreignRecall)) ''context.timestamp''
      = Inr ''t''" by code_simp
  moreover have "st_policyAuditTrail (getProfileState sampleCoreHost ''a'' INTERNAL_PROFILE_ID []) = []" by code_simp
  ultimately show ?thesis
    using refused_recall_audited [OF sample_requests(1) sample_requests(3), of sampleCoreHost "[]" "''t''" sampleAllowlist]
      sample_unlisted sample_policy by auto
qed


end
