(* ===== verification/Core_Decisions.thy ===== *)
theory Core_Decisions
  imports Core_State
begin

text \<open>
  Policy decisions of the API core (core.ts, lines 368-394, 1138-1146, 2155-2451 and 7071-7149):
  \<open>policy_decision_update\<close> normalises a decision, asks the policy-pack plugin, merges the decision
  into the stored one and records it in the audit trail. The plugin is third-party code: its name
  and what it answers are a parameter.
\<close>

section \<open>The plugin\<close>

text \<open>What a call of the plugin does: it throws an Error, a string or something else, or it returns a
  value, a promise, or an effect, of which \<open>Effect.runSync\<close> gives a value or throws.\<close>

datatype plugin_failure = ThrownError js_value | ThrownString string | ThrownOther

datatype plugin_answer =
    PluginThrows plugin_failure
  | PluginReturns js_value
  | PluginPromise
  | PluginEffect "(plugin_failure, js_value) result"

record policy_plugin =
  pp_name :: js_value
  pp_evaluate :: "js_value \<Rightarrow> plugin_answer"

definition POLICY_PACK_PLUGIN_CONTRACT_VERSION :: string where
  "POLICY_PACK_PLUGIN_CONTRACT_VERSION = ''v1''"

definition createNoopPolicyPackPlugin :: policy_plugin where
  "createNoopPolicyPackPlugin =
     \<lparr>pp_name = Str ''noop-policy-pack-plugin'',
      pp_evaluate = (\<lambda>_. PluginReturns (Obj
        [(''contractVersion'', Str POLICY_PACK_PLUGIN_CONTRACT_VERSION), (''outcome'', Str ''pass''),
         (''reasonCodes'', Arr []), (''metadata'', Obj [])]))\<rparr>"

definition normalizePolicyPackPluginName :: "js_value \<Rightarrow> string" where
  "normalizePolicyPackPluginName value = trimmedOr ''anonymous-policy-pack-plugin'' value"

record plugin_response =
  pr_contractVersion :: string
  pr_outcome :: string
  pr_reasonCodes :: "string list"
  pr_metadata :: js_value

definition normalizePolicyPackPluginResponse :: "core_host \<Rightarrow> js_value \<Rightarrow> plugin_response core" where
  "normalizePolicyPackPluginResponse h response =
     (let contractVersion = normalizeBoundedStringLenient (getProp ''contractVersion'' response) 16;
          outcome = normalizeBoundedStringLenient (getProp ''outcome'' response) 16
      in if \<not> isObj response then Inl (CoreError ''policy pack plugin response must be an object.'')
         else if contractVersion \<noteq> Some POLICY_PACK_PLUGIN_CONTRACT_VERSION
         then Inl (CoreError (''policy pack plugin response contractVersion must be '' @ [CHR 0x27]
                @ POLICY_PACK_PLUGIN_CONTRACT_VERSION @ [CHR 0x27] @ ''.''))
         else if outcome \<noteq> Some ''pass'' \<and> outcome \<noteq> Some ''deny''
         then Inl (CoreError (''policy pack plugin response outcome must be either '' @ [CHR 0x27] @ ''pass'' @ [CHR 0x27]
                @ '' or '' @ [CHR 0x27] @ ''deny'' @ [CHR 0x27] @ ''.''))
         else chain (normalizeBoundedStringArray h (getProp ''reasonCodes'' response) ''policyPackPlugin.reasonCodes'') (\<lambda>reasonCodes.
           if outcome = Some ''deny'' \<and> reasonCodes = []
           then Inl (CoreError ''policy pack plugin deny outcome requires reasonCodes.'')
           else Inr \<lparr>pr_contractVersion = POLICY_PACK_PLUGIN_CONTRACT_VERSION, pr_outcome = the outcome,
                  pr_reasonCodes = (if outcome = Some ''deny'' then reasonCodes else []),
                  pr_metadata = normalizeMetadata (getProp ''metadata'' response)\<rparr>))"

text \<open>The message of an error of this program, for \<open>error.message\<close>.\<close>

definition errorText :: "core_error \<Rightarrow> string" where
  "errorText e = (case e of CoreError m \<Rightarrow> m | PolicyDeny m _ \<Rightarrow> m | UnsupportedOperation m \<Rightarrow> m | StaleEvidence m _ \<Rightarrow> m
     | RuntimeTypeError m \<Rightarrow> m | RuntimeRangeError m \<Rightarrow> m)"

definition toPolicyPackPluginFailureMessage :: "plugin_failure \<Rightarrow> string \<Rightarrow> string" where
  "toPolicyPackPluginFailureMessage failure fallback =
     (case failure of
        ThrownError given \<Rightarrow> (case normalizeBoundedStringLenient given 256 of Some m \<Rightarrow> m | None \<Rightarrow> fallback)
      | ThrownString s \<Rightarrow> (case normalizeBoundedStringLenient (Str s) 256 of Some m \<Rightarrow> m | None \<Rightarrow> fallback)
      | ThrownOther \<Rightarrow> fallback)"

record plugin_invocation =
  pi_pluginName :: string
  pi_contractVersion :: string
  pi_status :: string
  pi_outcome :: string
  pi_reasonCodes :: "string list"
  pi_failureCode :: "string option"
  pi_failureMessage :: "string option"
  pi_metadata :: js_value

definition toFailClosedPolicyPackInvocation :: "string \<Rightarrow> string \<Rightarrow> string \<Rightarrow> plugin_invocation" where
  "toFailClosedPolicyPackInvocation pluginName reasonCode failureMessage =
     \<lparr>pi_pluginName = pluginName, pi_contractVersion = POLICY_PACK_PLUGIN_CONTRACT_VERSION,
      pi_status = ''fail_closed'', pi_outcome = ''deny'', pi_reasonCodes = [reasonCode],
      pi_failureCode = Some reasonCode, pi_failureMessage = Some failureMessage, pi_metadata = Obj []\<rparr>"

definition resolvePolicyPackPluginRawResponse :: "plugin_answer \<Rightarrow> (plugin_failure, js_value) result" where
  "resolvePolicyPackPluginRawResponse answer =
     (case answer of
        PluginThrows failure \<Rightarrow> Inl failure
      | PluginReturns value \<Rightarrow> Inr value
      | PluginPromise \<Rightarrow> Inl (ThrownError (Str
          ''policy pack plugin promises are not supported; return a synchronous response or Effect.sync.''))
      | PluginEffect exit \<Rightarrow> exit)"

definition pluginRequest :: "string \<Rightarrow> js_value \<Rightarrow> js_value" where
  "pluginRequest storeId incoming = Obj
     [(''contractVersion'', Str POLICY_PACK_PLUGIN_CONTRACT_VERSION), (''operation'', Str ''policy_decision_update''),
      (''storeId'', Str storeId), (''profileId'', getProp ''profileId'' incoming),
      (''decisionId'', getProp ''decisionId'' incoming), (''policyKey'', getProp ''policyKey'' incoming),
      (''action'', getProp ''action'' incoming), (''surface'', getProp ''surface'' incoming),
      (''outcome'', getProp ''outcome'' incoming), (''reasonCodes'', getProp ''reasonCodes'' incoming),
      (''provenanceEventIds'', getProp ''provenanceEventIds'' incoming),
      (''evidenceEventIds'', getProp ''evidenceEventIds'' incoming),
      (''metadata'', normalizeMetadata (getProp ''metadata'' incoming)),
      (''createdAt'', getProp ''createdAt'' incoming), (''updatedAt'', getProp ''updatedAt'' incoming)]"

definition invokePolicyPackPluginForDecisionUpdate ::
    "core_host \<Rightarrow> policy_plugin \<Rightarrow> string \<Rightarrow> js_value \<Rightarrow> plugin_invocation" where
  "invokePolicyPackPluginForDecisionUpdate h plugin storeId incoming =
     (let pluginName = normalizePolicyPackPluginName (pp_name plugin) in
      case resolvePolicyPackPluginRawResponse (pp_evaluate plugin (pluginRequest storeId incoming)) of
        Inl failure \<Rightarrow> toFailClosedPolicyPackInvocation pluginName ''policy_pack_plugin_failure''
          (toPolicyPackPluginFailureMessage failure ''policy pack plugin threw.'')
      | Inr rawResponse \<Rightarrow>
          (case normalizePolicyPackPluginResponse h rawResponse of
             Inl e \<Rightarrow> toFailClosedPolicyPackInvocation pluginName ''policy_pack_plugin_contract_error''
               (toPolicyPackPluginFailureMessage (ThrownError (Str (errorText e)))
                 ''policy pack plugin contract validation failed.'')
           | Inr response \<Rightarrow>
               \<lparr>pi_pluginName = pluginName, pi_contractVersion = pr_contractVersion response, pi_status = ''executed'',
                pi_outcome = pr_outcome response, pi_reasonCodes = pr_reasonCodes response, pi_failureCode = None,
                pi_failureMessage = None, pi_metadata = pr_metadata response\<rparr>))"

section \<open>The decision of a request\<close>

definition POLICY_OUTCOMES :: "string list" where
  "POLICY_OUTCOMES = [''allow'', ''review'', ''deny'']"

definition POLICY_REASON_CODES_CONTRACT_ERROR :: string where
  "POLICY_REASON_CODES_CONTRACT_ERROR =
     ''VALIDATION_CONTRACT_VIOLATION: policy_decision_update deny outcome requires reasonCodes.''"

definition POLICY_PROVENANCE_EVENT_CONTRACT_ERROR :: string where
  "POLICY_PROVENANCE_EVENT_CONTRACT_ERROR =
     ''EVIDENCE_POINTER_CONTRACT_VIOLATION: policy_decision_update requires provenanceEventIds.''"

definition deriveProfileId :: "core_host \<Rightarrow> js_value \<Rightarrow> string \<Rightarrow> string \<Rightarrow> string" where
  "deriveProfileId h request storeId profile =
     (let learnerId = trimmedOr profile (getProp ''learnerId'' request) in
      trimmedOr (makeId ''lp'' (digestOf h (Obj
        [(''storeId'', Str storeId), (''profile'', Str profile), (''learnerId'', Str learnerId)])))
        (getProp ''profileId'' request))"

definition normalizePolicyDecisionUpdateRequest :: "core_host \<Rightarrow> js_value \<Rightarrow> string \<Rightarrow> string \<Rightarrow> js_value core" where
  "normalizePolicyDecisionUpdateRequest h request storeId profile =
     (let profileId = deriveProfileId h request storeId profile;
          action = trimmedOr ''evaluate'' (getProp ''action'' request);
          surface = trimmedOr ''general'' (getProp ''surface'' request);
          createdAt = normalizeIsoOrDefault (firstDefined [getProp ''createdAt'' request, getProp ''timestamp'' request])
            DEFAULT_VERSION_TIMESTAMP in
      chain (requireNonEmptyString (getProp ''policyKey'' request) ''policyKey'') (\<lambda>policyKey.
      chain (normalizeDeterministicEnum (getProp ''outcome'' request) ''outcome'' ''policy_decision_update''
               POLICY_OUTCOMES ''review'') (\<lambda>outcome.
      chain (normalizeGuardedStringArray h (getProp ''reasonCodes'' request) ''reasonCodes'' None) (\<lambda>reasonCodes.
      if outcome = ''deny'' \<and> reasonCodes = [] then Inl (CoreError POLICY_REASON_CODES_CONTRACT_ERROR)
      else chain (normalizeGuardedStringArray h (getProp ''provenanceEventIds'' request) ''provenanceEventIds''
               (Some POLICY_PROVENANCE_EVENT_CONTRACT_ERROR)) (\<lambda>provenanceEventIds.
        Inr (Obj
          [(''decisionId'', Str (trimmedOr (makeId ''pol'' (digestOf h (Obj
              [(''storeId'', Str storeId), (''profileId'', Str profileId), (''policyKey'', Str policyKey),
               (''surface'', Str surface), (''action'', Str action)]))) (getProp ''decisionId'' request))),
           (''profileId'', Str profileId), (''policyKey'', Str policyKey), (''action'', Str action),
           (''surface'', Str surface), (''outcome'', Str outcome), (''reasonCodes'', strs reasonCodes),
           (''provenanceEventIds'', strs provenanceEventIds),
           (''evidenceEventIds'', strs (asSortedUniqueStrings h
              (firstDefined [getProp ''evidenceEventIds'' request, getProp ''evidenceEpisodeIds'' request]))),
           (''metadata'', normalizeMetadata (getProp ''metadata'' request)), (''createdAt'', Str createdAt),
           (''updatedAt'', Str (normalizeIsoOrDefault
              (firstDefined [getProp ''updatedAt'' request, getProp ''timestamp'' request]) createdAt))]))))))"

definition pluginAudit :: "plugin_invocation \<Rightarrow> (string \<times> js_value) list" where
  "pluginAudit i =
     [(''pluginName'', Str (pi_pluginName i)), (''contractVersion'', Str (pi_contractVersion i)),
      (''status'', Str (pi_status i)), (''outcome'', Str (pi_outcome i)), (''reasonCodes'', strs (pi_reasonCodes i)),
      (''failureCode'', strOrNull (pi_failureCode i)), (''failureMessage'', strOrNull (pi_failureMessage i))]"

definition toPolicyPackPluginAuditMetadata :: "plugin_invocation \<Rightarrow> js_value" where
  "toPolicyPackPluginAuditMetadata i = stableSortObject (Obj (pluginAudit i))"

definition enforcedOutcome :: "js_value \<Rightarrow> plugin_invocation \<Rightarrow> js_value" where
  "enforcedOutcome incoming i =
     (if pi_status i = ''fail_closed'' \<or> pi_outcome i = ''deny'' then Str ''deny'' else getProp ''outcome'' incoming)"

definition applyPolicyPackInvocationToDecision :: "core_host \<Rightarrow> js_value \<Rightarrow> plugin_invocation \<Rightarrow> js_value" where
  "applyPolicyPackInvocationToDecision h incoming i = spread incoming
     [(''outcome'', enforcedOutcome incoming i),
      (''reasonCodes'', if enforcedOutcome incoming i = Str ''deny''
         then strs (mergeStringLists h (getProp ''reasonCodes'' incoming) (strs (pi_reasonCodes i)))
         else getProp ''reasonCodes'' incoming),
      (''metadata'', stableSortObject (spread (getProp ''metadata'' incoming)
         [(''policyPackPlugin'', Obj (pluginAudit i @ [(''metadata'', pi_metadata i)]))]))]"

section \<open>Merging\<close>

text \<open>\<open>o in severity\<close> also holds for the two lower-case names every object inherits; their "severity"
  is a function or an object, which no comparison with a number holds of.\<close>

definition decisionOutcome :: "js_value \<Rightarrow> string" where
  "decisionOutcome decision =
     (let outcome = (case normalizeBoundedStringLenient (getProp ''outcome'' decision) 16 of
             Some s \<Rightarrow> toLowerCase s | None \<Rightarrow> ''review'')
      in if outcome \<in> {''allow'', ''review'', ''deny'', ''constructor'', ''__proto__''} then outcome else ''review'')"

definition severity :: "string \<Rightarrow> nat option" where
  "severity outcome = map_of [(''allow'', 1), (''review'', 2), (''deny'', 3)] outcome"

definition mergedOutcome :: "js_value \<Rightarrow> js_value \<Rightarrow> string" where
  "mergedOutcome existing incoming =
     (case (severity (decisionOutcome existing), severity (decisionOutcome incoming)) of
        (Some a, Some b) \<Rightarrow> if b \<le> a then decisionOutcome existing else decisionOutcome incoming
      | _ \<Rightarrow> decisionOutcome incoming)"

definition mergePolicyDecision :: "core_host \<Rightarrow> js_value \<Rightarrow> js_value \<Rightarrow> js_value" where
  "mergePolicyDecision h existing incoming = spread existing
     [(''profileId'', getProp ''profileId'' incoming), (''policyKey'', getProp ''policyKey'' incoming),
      (''action'', getProp ''action'' incoming), (''surface'', getProp ''surface'' incoming),
      (''outcome'', Str (mergedOutcome existing incoming)),
      (''reasonCodes'', strs (mergeStringLists h (getProp ''reasonCodes'' existing) (getProp ''reasonCodes'' incoming))),
      (''provenanceEventIds'', strs (mergeStringLists h (getProp ''provenanceEventIds'' existing) (getProp ''provenanceEventIds'' incoming))),
      (''evidenceEventIds'', strs (mergeStringLists h (getProp ''evidenceEventIds'' existing) (getProp ''evidenceEventIds'' incoming))),
      (''metadata'', stableSortObject (spread (getProp ''metadata'' existing) (members (getProp ''metadata'' incoming)))),
      (''createdAt'', orElse (getProp ''createdAt'' existing) (getProp ''createdAt'' incoming)),
      (''updatedAt'', orElse (getProp ''updatedAt'' incoming) (getProp ''updatedAt'' existing))]"

section \<open>The operation\<close>

record stored_decision =
  sd_action :: string
  sd_next :: js_value
  sd_decisions :: "js_value list"

definition storeDecision :: "core_host \<Rightarrow> js_value \<Rightarrow> js_value list \<Rightarrow> stored_decision" where
  "storeDecision h incoming decisions =
     (case findIndex (\<lambda>decision. getProp ''decisionId'' decision = getProp ''decisionId'' incoming) decisions of
        Some i \<Rightarrow>
          (let existing = decisions ! i; merged = mergePolicyDecision h existing incoming in
           if stableStringify existing = stableStringify merged
           then \<lparr>sd_action = ''noop'', sd_next = existing, sd_decisions = decisions\<rparr>
           else \<lparr>sd_action = ''updated'', sd_next = merged, sd_decisions = decisions[i := merged]\<rparr>)
      | None \<Rightarrow> \<lparr>sd_action = ''created'', sd_next = incoming, sd_decisions = decisions @ [incoming]\<rparr>)"

definition decisionAuditEvent :: "normalized_request \<Rightarrow> stored_decision \<Rightarrow> plugin_invocation \<Rightarrow> js_value" where
  "decisionAuditEvent r stored i = (let decision = sd_next stored in Obj
     [(''operation'', Str ''policy_decision_update''), (''storeId'', Str (rq_storeId r)), (''profile'', Str (rq_profile r)),
      (''entityId'', getProp ''decisionId'' decision), (''outcome'', getProp ''outcome'' decision),
      (''reasonCodes'', getProp ''reasonCodes'' decision),
      (''details'', Obj [(''policyKey'', getProp ''policyKey'' decision), (''action'', Str (sd_action stored)),
         (''provenanceEventIds'', getProp ''provenanceEventIds'' decision),
         (''evidenceEventIds'', getProp ''evidenceEventIds'' decision),
         (''pluginInvocation'', toPolicyPackPluginAuditMetadata i)]),
      (''timestamp'', firstDefined [getProp ''updatedAt'' decision, getProp ''createdAt'' decision, Str DEFAULT_VERSION_TIMESTAMP])])"

definition policyDecisionUpdateHandler :: "core_host \<Rightarrow> policy_plugin \<Rightarrow> js_value \<Rightarrow> handler" where
  "policyDecisionUpdateHandler h plugin request r =
     attempt (normalizePolicyDecisionUpdateRequest h request (rq_storeId r) (rq_profile r)) (\<lambda>incoming state.
       let invocation = invokePolicyPackPluginForDecisionUpdate h plugin (rq_storeId r) incoming;
           stored = storeDecision h (applyPolicyPackInvocationToDecision h incoming invocation) (st_policyDecisions state);
           decision = sd_next stored in
       andThen (appendPolicyAuditTrail h (decisionAuditEvent r stored invocation)) (\<lambda>auditEvent state.
         (Inr (spread (buildMeta h r)
           [(''action'', Str (sd_action stored)), (''decisionId'', getProp ''decisionId'' decision),
            (''decisionDigest'', Str (digestOf h decision)),
            (''policyAuditEventId'', getProp ''auditEventId'' auditEvent),
            (''totalPolicyDecisions'', int_value (int (length (st_policyDecisions state)))),
            (''decision'', decision),
            (''observability'', Obj
               [(''denied'', Bool (getProp ''outcome'' decision = Str ''deny'')),
                (''reasonCodeCount'', int_value (int (length (arrOrEmpty (getProp ''reasonCodes'' decision))))),
                (''provenanceCount'', int_value (int (length (arrOrEmpty (getProp ''provenanceEventIds'' decision))))),
                (''pluginFailClosed'', Bool (pi_status invocation = ''fail_closed'')),
                (''slo'', buildSloObservability (opSeed h r) ''policy_decision_update'' 45)])]), state))
         (state\<lparr>st_policyDecisions := sd_decisions stored\<rparr>))"

definition runPolicyDecisionUpdate :: "core_host \<Rightarrow> policy_plugin \<Rightarrow> js_value \<Rightarrow> stores \<Rightarrow> js_value core \<times> stores" where
  "runPolicyDecisionUpdate h plugin request =
     runOperation h ''policy_decision_update'' (policyDecisionUpdateHandler h plugin request) request"

end
