(* ===== verification/Core_Ingest.thy ===== *)
theory Core_Ingest
  imports Core_State Ace_Pipeline
begin

text \<open>
  The event ledger of the API core and what is proposed from it (core.ts, lines 2542-2612, 5266-5317
  and 5578-5634): \<open>ingest\<close> stores the events of a request and skips those it knows, \<open>reflect\<close>
  proposes rule candidates from the ledger, \<open>validate\<close> grades candidates against it. The reflector
  and the validator are those of \<open>Ace_Pipeline\<close>; here untyped events and candidates meet them.
\<close>

section \<open>Events\<close>

record core_event =
  ev_value :: js_value
  ev_eventId :: string
  ev_digest :: string
  ev_dedupeDigest :: string

text \<open>A request member that is no object, or an array, has none of the members read here.\<close>

definition explicitEventId :: "js_value \<Rightarrow> string option" where
  "explicitEventId event =
     (let i = trim (strOrEmpty (getProp ''id'' event)) in if i = [] then None else Some i)"

definition eventPart :: "string \<Rightarrow> string \<Rightarrow> js_value \<Rightarrow> js_value" where
  "eventPart k d event = orElse (getProp k event) (Str d)"

definition dedupeDigestOf :: "core_host \<Rightarrow> js_value \<Rightarrow> string" where
  "dedupeDigestOf h event = digestOf h (Obj
     [(''source'', eventPart ''source'' ''unknown'' event), (''type'', eventPart ''type'' ''note'' event),
      (''content'', eventPart ''content'' [] event), (''eventId'', strOrNull (explicitEventId event))])"

definition eventDigestOf :: "core_host \<Rightarrow> js_value \<Rightarrow> nat \<Rightarrow> string" where
  "eventDigestOf h event index = digestOf h (Obj
     [(''source'', eventPart ''source'' ''unknown'' event), (''type'', eventPart ''type'' ''note'' event),
      (''content'', eventPart ''content'' [] event), (''ordinal'', int_value (int index))])"

definition normalizeEvent :: "core_host \<Rightarrow> js_value \<Rightarrow> nat \<Rightarrow> core_event core" where
  "normalizeEvent h event index =
     (let digest = eventDigestOf h event index;
          dedupeDigest = dedupeDigestOf h event;
          eventId = (case explicitEventId event of Some i \<Rightarrow> i | None \<Rightarrow> makeId ''evt'' digest) in
      chain (isoTimestamp h (orElse (getProp ''timestamp'' event) (getProp ''occurredAt'' event)) ''ingest.events[].timestamp'')
        (\<lambda>timestamp. Inr
          \<lparr>ev_value = Obj [(''eventId'', Str eventId), (''type'', eventPart ''type'' ''note'' event),
             (''source'', eventPart ''source'' ''unknown'' event), (''content'', eventPart ''content'' [] event),
             (''timestamp'', Str timestamp), (''dedupeDigest'', Str dedupeDigest), (''digest'', Str digest)],
           ev_eventId = eventId, ev_digest = digest, ev_dedupeDigest = dedupeDigest\<rparr>))"

section \<open>The operation ingest\<close>

record ingest_run =
  ir_refs :: "js_value list"
  ir_requestDigests :: "string list"
  ir_accepted :: int
  ir_duplicates :: int

definition eventRef :: "core_event \<Rightarrow> string \<Rightarrow> js_value" where
  "eventRef event status = Obj
     [(''eventId'', Str (ev_eventId event)), (''digest'', Str (ev_digest event)), (''status'', Str status)]"

definition ingestEvent :: "core_event \<Rightarrow> ingest_run \<Rightarrow> ProfileState \<Rightarrow> ingest_run \<times> ProfileState" where
  "ingestEvent event run state =
     (if ev_dedupeDigest event \<in> set (ir_requestDigests run) \<or> ev_digest event \<in> set (st_eventDigests state)
      then (run\<lparr>ir_duplicates := ir_duplicates run + 1, ir_refs := ir_refs run @ [eventRef event ''duplicate'']\<rparr>, state)
      else (run\<lparr>ir_requestDigests := ir_requestDigests run @ [ev_dedupeDigest event],
                ir_accepted := ir_accepted run + 1, ir_refs := ir_refs run @ [eventRef event ''accepted'']\<rparr>,
            state\<lparr>st_eventDigests := st_eventDigests state @ [ev_digest event],
                  st_events := st_events state @ [ev_value event]\<rparr>))"

text \<open>An event that does not normalise ends the loop; the events before it stay stored.\<close>

fun ingestLoop ::
    "core_host \<Rightarrow> js_value list \<Rightarrow> nat \<Rightarrow> ingest_run \<Rightarrow> ProfileState \<Rightarrow> ingest_run core \<times> ProfileState" where
  "ingestLoop h [] index run state = (Inr run, state)"
| "ingestLoop h (event # rest) index run state =
     (case normalizeEvent h event index of
        Inl e \<Rightarrow> (Inl e, state)
      | Inr normalized \<Rightarrow>
          (case ingestEvent normalized run state of (run', state') \<Rightarrow> ingestLoop h rest (Suc index) run' state'))"

definition emptyRun :: ingest_run where
  "emptyRun = \<lparr>ir_refs = [], ir_requestDigests = [], ir_accepted = 0, ir_duplicates = 0\<rparr>"

definition ingestHandler :: "core_host \<Rightarrow> js_value \<Rightarrow> handler" where
  "ingestHandler h request r =
     andThen (ingestLoop h (arrOrEmpty (getProp ''events'' request)) 0 emptyRun) (\<lambda>run state.
       (Inr (spread (buildMeta h r)
         [(''accepted'', int_value (ir_accepted run)), (''duplicates'', int_value (ir_duplicates run)),
          (''eventRefs'', Arr (ir_refs run)),
          (''ledgerDigest'', Str (digestOf h (Arr (map (getProp ''digest'') (st_events state)))))]), state))"

definition runIngest :: "core_host \<Rightarrow> js_value \<Rightarrow> stores \<Rightarrow> js_value core \<times> stores" where
  "runIngest h request = runOperation h ''ingest'' (ingestHandler h request) request"

section \<open>Rule candidates\<close>

record rule_candidate = CuratableCandidate +
  rc_source :: string
  rc_sources :: "string list"
  rc_evidence :: "string list"
  rc_contradictions :: "string list"

definition normalizeRuleCandidate :: "core_host \<Rightarrow> js_value \<Rightarrow> rule_candidate" where
  "normalizeRuleCandidate h candidate =
     (let statement = trim (strOrEmpty (getProp ''statement'' candidate));
          source = (case getProp ''sourceEventId'' candidate of Str s \<Rightarrow> s | _ \<Rightarrow> ''unknown'');
          sourceEventIds = mergeStringLists h (getProp ''sourceEventIds'' candidate) (strs [source]);
          scope = (case normalizeBoundedStringLenient (getProp ''scope'' candidate) 64 of Some s \<Rightarrow> s | None \<Rightarrow> ''global'')
      in \<lparr>cc_candidateId = makeId ''cand'' (digestOf h (Obj [(''statement'', Str statement), (''source'', Str source)])),
          cc_ruleId = (case normalizeBoundedStringLenient (getProp ''ruleId'' candidate) 64 of Some i \<Rightarrow> i
            | None \<Rightarrow> makeId ''rule'' (digestOf h (Obj
                [(''statement'', Str statement), (''scope'', Str scope), (''source'', Str source)]))),
          cc_statement = statement, cc_scope = Some scope,
          cc_confidence = (case getProp ''confidence'' candidate of Num (JFin x) \<Rightarrow> x | _ \<Rightarrow> 1 / 2),
          rc_source = source, rc_sources = sourceEventIds,
          rc_evidence = mergeStringLists h (getProp ''evidenceEventIds'' candidate) (strs sourceEventIds),
          rc_contradictions = mergeStringLists h (getProp ''contradictionEventIds'' candidate) (Arr [])\<rparr>)"

definition scopeOf :: "rule_candidate \<Rightarrow> string" where
  "scopeOf c = (case cc_scope c of Some s \<Rightarrow> s | None \<Rightarrow> ''global'')"

definition candidateValue :: "rule_candidate \<Rightarrow> js_value" where
  "candidateValue c = Obj
     [(''candidateId'', Str (cc_candidateId c)), (''ruleId'', Str (cc_ruleId c)), (''statement'', Str (cc_statement c)),
      (''sourceEventId'', Str (rc_source c)), (''sourceEventIds'', strs (rc_sources c)),
      (''evidenceEventIds'', strs (rc_evidence c)), (''contradictionEventIds'', strs (rc_contradictions c)),
      (''scope'', Str (scopeOf c)), (''confidence'', Num (JFin (cc_confidence c)))]"

section \<open>The operation reflect\<close>

text \<open>An event of the ledger as the reflector reads it. An id that is no string is read as
  \<open>unknown\<close>: the normaliser puts that for it and drops it from the lists of ids.\<close>

definition reflectorEvent :: "js_value \<Rightarrow> ReflectorEvent" where
  "reflectorEvent event =
     \<lparr>rv_eventId = (case getProp ''eventId'' event of Str s \<Rightarrow> s | _ \<Rightarrow> ''unknown''), rv_type = toStr (getProp ''type'' event),
      rv_source = toStr (getProp ''source'' event), rv_content = toStr (getProp ''content'' event),
      rv_timestamp = (if nullish (getProp ''timestamp'' event) then None else Some (toStr (getProp ''timestamp'' event)))\<rparr>"

definition draftValue :: "RuleCandidateDraft \<Rightarrow> js_value" where
  "draftValue d = Obj
     [(''statement'', Str (dr_statement d)), (''sourceEventId'', Str (dr_sourceEventId d)),
      (''sourceEventIds'', strs (dr_sourceEventIds d)), (''evidenceEventIds'', strs (dr_evidenceEventIds d)),
      (''contradictionEventIds'', strs (dr_contradictionEventIds d)), (''scope'', Str (dr_scope d)),
      (''confidence'', Num (dr_confidence d))]"

definition toReflected :: "rule_candidate \<Rightarrow> ReflectedCandidate" where
  "toReflected c =
     \<lparr>rc_candidateId = cc_candidateId c, rc_ruleId = cc_ruleId c, rc_statement = cc_statement c,
      rc_sourceEventId = rc_source c, rc_sourceEventIds = rc_sources c, rc_evidenceEventIds = rc_evidence c,
      rc_contradictionEventIds = rc_contradictions c, rc_scope = scopeOf c, rc_confidence = cc_confidence c\<rparr>"

definition reflectedValue :: "ReflectedCandidate \<Rightarrow> js_value" where
  "reflectedValue c = Obj
     [(''candidateId'', Str (rc_candidateId c)), (''ruleId'', Str (rc_ruleId c)), (''statement'', Str (rc_statement c)),
      (''sourceEventId'', Str (rc_sourceEventId c)), (''sourceEventIds'', strs (rc_sourceEventIds c)),
      (''evidenceEventIds'', strs (rc_evidenceEventIds c)), (''contradictionEventIds'', strs (rc_contradictionEventIds c)),
      (''scope'', Str (rc_scope c)), (''confidence'', Num (JFin (rc_confidence c)))]"

definition reflectMax :: "js_value \<Rightarrow> int" where
  "reflectMax request = (case getProp ''maxCandidates'' request of
       Num (JFin x) \<Rightarrow> if x = of_int \<lfloor>x\<rfloor> \<and> 0 < x then \<lfloor>x\<rfloor> else 3
     | _ \<Rightarrow> 3)"

definition reflectHandler :: "core_host \<Rightarrow> js_value \<Rightarrow> handler" where
  "reflectHandler h request r state =
     (let candidates = buildReflectedCandidates (localeCompare h)
            (\<lambda>draft. toReflected (normalizeRuleCandidate h (draftValue draft)))
            (map reflectorEvent (st_events state)) (reflectMax request)
      in (Inr (spread (buildMeta h r)
           [(''candidateCount'', int_value (int (length candidates))), (''candidates'', Arr (map reflectedValue candidates))]),
          state))"

definition runReflect :: "core_host \<Rightarrow> js_value \<Rightarrow> stores \<Rightarrow> js_value core \<times> stores" where
  "runReflect h request = runOperation h ''reflect'' (reflectHandler h request) request"

section \<open>The operation validate\<close>

text \<open>The validator looks events up by ids that are strings.\<close>

definition validatorEvents :: "js_value list \<Rightarrow> ValidatorEvent list" where
  "validatorEvents events =
     map (\<lambda>event. \<lparr>ve_eventId = strOrEmpty (getProp ''eventId'' event),
            ve_timestamp = (case getProp ''timestamp'' event of Str s \<Rightarrow> Some s | _ \<Rightarrow> None)\<rparr>)
       (filter (\<lambda>event. isStr (getProp ''eventId'' event)) events)"

definition validatorCandidate :: "rule_candidate \<Rightarrow> ValidatorCandidate" where
  "validatorCandidate c =
     \<lparr>vc_candidateId = cc_candidateId c, vc_statement = cc_statement c, vc_sourceEventId = rc_source c,
      vc_sourceEventIds = rc_sources c, vc_evidenceEventIds = rc_evidence c, vc_contradictionEventIds = rc_contradictions c\<rparr>"

definition validationValue :: "CandidateValidation \<Rightarrow> js_value" where
  "validationValue v = Obj
     [(''candidateId'', Str (cv_candidateId v)), (''valid'', Bool (cv_valid v)),
      (''evidenceEventId'', strOrNull (cv_evidenceEventId v)), (''evidenceEventIds'', strs (cv_evidenceEventIds v)),
      (''evidenceDepth'', int_value (cv_evidenceDepth v)), (''contradictionCount'', int_value (cv_contradictionCount v)),
      (''freshnessDays'', (case cv_freshnessDays v of Some d \<Rightarrow> Num d | None \<Rightarrow> Null)),
      (''reasonCodes'', strs (cv_reasonCodes v))]"

definition validateHandler :: "core_host \<Rightarrow> js_value \<Rightarrow> handler" where
  "validateHandler h request r =
     attempt (isoTimestamp h (firstDefined [getProp ''timestamp'' request, getProp ''evaluatedAt'' request,
                getProp ''requestedAt'' request]) ''validate.timestamp'') (\<lambda>evaluatedAt state.
       let candidates = map (normalizeRuleCandidate h) (arrOrEmpty (getProp ''candidates'' request));
           freshnessWarningDays = max (toPositiveInteger (getProp ''freshnessWarningDays'' request) DEFAULT_FRESHNESS_WARNING_DAYS) 1;
           minEvidenceDepth = max (toPositiveInteger (getProp ''minEvidenceDepth'' request) 1) 1;
           validations = buildCandidateValidations (localeCompare h) (dateParse h) (map validatorCandidate candidates)
             (validatorEvents (st_events state)) evaluatedAt (jint freshnessWarningDays) minEvidenceDepth
       in (Inr (spread (buildMeta h r)
            [(''checked'', int_value (int (length validations))), (''validations'', Arr (map validationValue validations))]),
           state))"

definition runValidate :: "core_host \<Rightarrow> js_value \<Rightarrow> stores \<Rightarrow> js_value core \<times> stores" where
  "runValidate h request = runOperation h ''validate'' (validateHandler h request) request"

end
