(* ===== verification/Core_Curation.thy ===== *)
theory Core_Curation
  imports Core_Ingest Core_Recall
begin

text \<open>
  Curation in the API core (core.ts, lines 123-126, 1604-1628, 4227-4239, 5636-5716 and 8977-9161):
  candidates become rules only through \<open>curate_guarded\<close>, which puts statements that look like prompt
  injections into quarantine and rejects candidates without a valid validation.
\<close>

section \<open>Prompt injection\<close>

text \<open>The patterns are sequences of alternatives of plain texts and of \<open>.*\<close>, which stays on a line;
  they ignore case. An optional group has the empty alternative.\<close>

datatype piece = OneOf "string list" | AnyRun

function matchPieces :: "piece list \<Rightarrow> string \<Rightarrow> bool" where
  "matchPieces [] s = True"
| "matchPieces (OneOf ws # ps) s = list_ex (\<lambda>w. take (length w) s = w \<and> matchPieces ps (drop (length w) s)) ws"
| "matchPieces (AnyRun # ps) s =
     (matchPieces ps s
      \<or> (case s of [] \<Rightarrow> False
         | c # cs \<Rightarrow> c \<noteq> CHR 0x0A \<and> c \<noteq> CHR 0x0D \<and> matchPieces (AnyRun # ps) cs))"
  by pat_completeness auto
termination matchPieces
  by (relation "measures [\<lambda>(ps, s). length ps, \<lambda>(ps, s). length s]") auto

text \<open>\<open>pattern.test(s)\<close>\<close>

definition testPieces :: "piece list \<Rightarrow> string \<Rightarrow> bool" where
  "testPieces ps s = list_ex (\<lambda>i. matchPieces ps (map lowerChar (drop i s))) [0..<Suc (length s)]"

definition INJECTION_PATTERNS :: "(string \<times> piece list) list" where
  "INJECTION_PATTERNS =
     [(''prompt_override_ignore_previous'',
       [OneOf [''ignore ''], OneOf [''all '', ''any '', ''the '', []], OneOf [''previous'', ''prior'', ''above''], OneOf ['' ''],
        OneOf [''instructions'', ''prompts'', ''rules'']]),
      (''prompt_override_system_prompt'',
       [OneOf [''reveal'', ''show'', ''dump''], AnyRun, OneOf [''system'', ''developer''], AnyRun, OneOf [''prompt'', ''instruction'']]),
      (''prompt_override_privilege_escalation'',
       [OneOf [''bypass'', ''override'', ''disable''], AnyRun, OneOf [''safety'', ''guardrail'', ''policy'', ''restriction'']]),
      (''prompt_override_exfiltration'',
       [OneOf [''exfiltrate'', ''leak'', ''expose''], AnyRun, OneOf [''secret'', ''token'', ''credential'', ''password'']]),
      (''prompt_override_instruction_hijack'', [OneOf [''you are now'', ''act as'', ''pretend to be'']]),
      (''prompt_override_execution'', [OneOf [''<script'', ''javascript:'', ''eval('']])]"

definition detectPromptInjection :: "core_host \<Rightarrow> string \<Rightarrow> string list" where
  "detectPromptInjection h statement =
     (let normalized = trim statement in
      if normalized = [] then []
      else arraySort (localeCompare h) (map fst (filter (\<lambda>(code, ps). testPieces ps normalized) INJECTION_PATTERNS)))"

section \<open>Writing rules\<close>

record curate_result =
  cr_applied :: "js_value list"
  cr_actions :: "string list"
  cr_ruleIds :: "string list"
  cr_skipped :: "js_value list"

definition ruleValue :: "core_host \<Rightarrow> string \<Rightarrow> rule_candidate \<Rightarrow> js_value" where
  "ruleValue h timestamp c = Obj
     [(''ruleId'', Str (cc_ruleId c)), (''statement'', Str (cc_statement c)),
      (''confidence'', Num (roundNumber (clamp01 (Num (JFin (cc_confidence c))) (JFin (1 / 2))))),
      (''scope'', Str (scopeOf c)), (''sourceEventIds'', strs (mergeStringLists h (Arr []) (strs (rc_sources c)))),
      (''evidenceEventIds'', strs (mergeStringLists h (Arr []) (strs (rc_evidence c)))),
      (''selectedCandidateId'', Str (cc_candidateId c)), (''updatedAt'', Str timestamp)]"

definition curateOne ::
    "core_host \<Rightarrow> string \<Rightarrow> js_value \<Rightarrow> curate_result \<times> js_value list \<Rightarrow> curate_result \<times> js_value list" where
  "curateOne h timestamp rawCandidate acc =
     (let candidate = normalizeRuleCandidate h rawCandidate; result = fst acc in
      if cc_statement candidate = []
      then (result\<lparr>cr_skipped := cr_skipped result @
              [Obj [(''candidateId'', Str (cc_candidateId candidate)), (''reason'', Str ''empty_statement'')]]\<rparr>, snd acc)
      else (case putRule (ruleValue h timestamp candidate) (snd acc) of (action, rules) \<Rightarrow>
        (result\<lparr>cr_applied := cr_applied result @
            [Obj [(''ruleId'', Str (cc_ruleId candidate)), (''candidateId'', Str (cc_candidateId candidate)),
                  (''action'', Str action)]],
           cr_actions := cr_actions result @ [action], cr_ruleIds := cr_ruleIds result @ [cc_ruleId candidate]\<rparr>, rules)))"

definition applyCurateMutations ::
    "core_host \<Rightarrow> js_value list \<Rightarrow> string \<Rightarrow> ProfileState \<Rightarrow> curate_result \<times> ProfileState" where
  "applyCurateMutations h rawCandidates timestamp state =
     (case fold (curateOne h timestamp) rawCandidates
        (\<lparr>cr_applied = [], cr_actions = [], cr_ruleIds = [], cr_skipped = []\<rparr>, st_rules state) of
        (result, rules) \<Rightarrow> (result, state\<lparr>st_rules := Core_State.sortByTimestampAndId h rules ''updatedAt'' ''ruleId''\<rparr>))"

definition GUARDED_CURATION_REQUIRED_ERROR :: string where
  "GUARDED_CURATION_REQUIRED_ERROR =
     ''VALIDATION_CONTRACT_VIOLATION: active procedural mutations must use curate_guarded.''"

definition GUARDED_CURATION_EVIDENCE_CONTRACT_ERROR :: string where
  "GUARDED_CURATION_EVIDENCE_CONTRACT_ERROR =
     ''VALIDATION_CONTRACT_VIOLATION: curate_guarded candidate promotion requires evidence-backed validation.''"

definition curateTimestamp :: "core_host \<Rightarrow> js_value \<Rightarrow> string \<Rightarrow> string core" where
  "curateTimestamp h request fieldName = isoTimestamp h
     (firstDefined [getProp ''timestamp'' request, getProp ''updatedAt'' request, getProp ''createdAt'' request]) fieldName"

definition curateHandler :: "core_host \<Rightarrow> js_value \<Rightarrow> handler" where
  "curateHandler h request r state =
     (let rawCandidates = arrOrEmpty (getProp ''candidates'' request) in
      if rawCandidates \<noteq> [] then (Inl (CoreError GUARDED_CURATION_REQUIRED_ERROR), state)
      else attempt (curateTimestamp h request ''curate.timestamp'') (\<lambda>timestamp state.
        case applyCurateMutations h rawCandidates timestamp state of (result, state) \<Rightarrow>
          (Inr (spread (buildMeta h r)
             [(''applied'', Arr (cr_applied result)), (''skipped'', Arr (cr_skipped result)),
              (''totalRules'', int_value (int (length (st_rules state))))]), state)) state)"

definition runCurate :: "core_host \<Rightarrow> js_value \<Rightarrow> stores \<Rightarrow> js_value core \<times> stores" where
  "runCurate h request = runOperation h ''curate'' (curateHandler h request) request"

section \<open>The validations of a request\<close>

record core_validation =
  va_summary :: CandidateValidationSummary
  va_reasonCodes :: "string list"

text \<open>An entry that is no object or names no candidate is passed over.\<close>

definition normalizeValidation :: "core_host \<Rightarrow> js_value \<Rightarrow> core_validation option core" where
  "normalizeValidation h validation =
     (if \<not> isObj validation then Inr None
      else chain (normalizeBoundedString (getProp ''candidateId'' validation) ''validations.candidateId'' 64) (\<lambda>candidateId.
        case candidateId of
          None \<Rightarrow> Inr None
        | Some i \<Rightarrow>
            chain (normalizeBoundedString (getProp ''evidenceEventId'' validation) ''validations.evidenceEventId'' MAX_SIGNAL_ITEM_LENGTH)
              (\<lambda>_. Inr (Some
                \<lparr>va_summary = \<lparr>cs_candidateId = i, cs_valid = truthy (getProp ''valid'' validation),
                   cs_evidenceDepth = Some (of_int (max (toPositiveInteger (getProp ''evidenceDepth'' validation) 0) 0)),
                   cs_contradictionCount = Some (of_int (max (toPositiveInteger (getProp ''contradictionCount'' validation) 0) 0)),
                   cs_freshnessDays = (case getProp ''freshnessDays'' validation of Num (JFin x) \<Rightarrow> Some x | _ \<Rightarrow> None)\<rparr>,
                 va_reasonCodes = mergeStringLists h (getProp ''reasonCodes'' validation) (Arr [])\<rparr>))))"

definition normalizeValidations :: "core_host \<Rightarrow> js_value \<Rightarrow> core_validation list core" where
  "normalizeValidations h request =
     chain (traverse (normalizeValidation h) (arrOrEmpty (getProp ''validations'' request)))
       (\<lambda>found. Inr (List.map_filter (\<lambda>v. v) found))"

text \<open>The Map keeps the last validation of a candidate.\<close>

definition validationOf :: "core_validation list \<Rightarrow> string \<Rightarrow> core_validation option" where
  "validationOf validations i = find (\<lambda>v. cs_candidateId (va_summary v) = i) (rev validations)"

section \<open>The operation curate_guarded\<close>

record guard_run =
  gr_safe :: "rule_candidate list"
  gr_quarantined :: "js_value list"
  gr_quarantineIds :: "string list"
  gr_injectionReasons :: "string list"
  gr_rejected :: "js_value list"
  gr_reasons :: "string list"

definition emptyGuard :: guard_run where
  "emptyGuard = \<lparr>gr_safe = [], gr_quarantined = [], gr_quarantineIds = [], gr_injectionReasons = [], gr_rejected = [], gr_reasons = []\<rparr>"

definition quarantine :: "core_host \<Rightarrow> rule_candidate \<Rightarrow> string list \<Rightarrow> guard_run \<Rightarrow> guard_run" where
  "quarantine h c reasons run =
     (let quarantineId = makeId ''qtn'' (digestOf h (Obj
            [(''candidateId'', Str (cc_candidateId c)), (''injectionReasons'', strs reasons)]))
      in run\<lparr>gr_quarantined := gr_quarantined run @ [Obj
             [(''quarantineId'', Str quarantineId), (''candidateId'', Str (cc_candidateId c)),
              (''statementDigest'', Str (digestOf h (Str (cc_statement c)))), (''reasonCodes'', strs reasons),
              (''status'', Str ''quarantined'')]],
           gr_quarantineIds := gr_quarantineIds run @ [quarantineId],
           gr_injectionReasons := gr_injectionReasons run @ reasons\<rparr>)"

definition reject :: "rule_candidate \<Rightarrow> string \<Rightarrow> guard_run \<Rightarrow> guard_run" where
  "reject c reason run = run
     \<lparr>gr_rejected := gr_rejected run @ [Obj [(''candidateId'', Str (cc_candidateId c)), (''reason'', Str reason)]],
      gr_reasons := gr_reasons run @ [reason]\<rparr>"

definition missingReason :: "core_validation option \<Rightarrow> string" where
  "missingReason v = (case v of
       Some x \<Rightarrow> (case va_reasonCodes x of code # _ \<Rightarrow> code | [] \<Rightarrow> ''missing_validation_evidence'')
     | None \<Rightarrow> ''missing_validation_evidence'')"

definition hasValidation :: "core_validation option \<Rightarrow> bool" where
  "hasValidation v = (case v of Some x \<Rightarrow> cs_valid (va_summary x) | None \<Rightarrow> False)"

definition guardCandidate :: "core_host \<Rightarrow> core_validation list \<Rightarrow> js_value \<Rightarrow> guard_run \<Rightarrow> guard_run" where
  "guardCandidate h validations rawCandidate run =
     (let candidate = normalizeRuleCandidate h rawCandidate;
          injectionReasons = detectPromptInjection h (cc_statement candidate);
          validation = validationOf validations (cc_candidateId candidate) in
      if injectionReasons \<noteq> [] then quarantine h candidate injectionReasons run
      else if cc_statement candidate = [] then reject candidate ''empty_statement'' run
      else if \<not> hasValidation validation then reject candidate (missingReason validation) run
      else run\<lparr>gr_safe := gr_safe run @ [candidate]\<rparr>)"

definition guardCandidates :: "core_host \<Rightarrow> core_validation list \<Rightarrow> js_value list \<Rightarrow> guard_run" where
  "guardCandidates h validations rawCandidates = fold (guardCandidate h validations) rawCandidates emptyGuard"

definition existingRule :: "js_value \<Rightarrow> ExistingCuratedRule" where
  "existingRule rule =
     \<lparr>er_ruleId = toStr (getProp ''ruleId'' rule),
      er_statement = (if nullish (getProp ''statement'' rule) then None else Some (toStr (getProp ''statement'' rule))),
      er_scope = Some (toStr (orElse (getProp ''scope'' rule) (Str ''global''))),
      er_selectedCandidateId = (case getProp ''selectedCandidateId'' rule of Str s \<Rightarrow> Some s | _ \<Rightarrow> None)\<rparr>"

definition tieBreakRejection :: "CurationRejection \<Rightarrow> js_value" where
  "tieBreakRejection j = Obj [(''candidateId'', Str (cj_candidateId j)), (''reason'', Str ''conflict_lost_tie_break''),
     (''winnerCandidateId'', Str (cj_winnerCandidateId j))]"

definition curateGuardedHandler :: "core_host \<Rightarrow> js_value \<Rightarrow> handler" where
  "curateGuardedHandler h request r =
     attempt (curateTimestamp h request ''curate_guarded.timestamp'') (\<lambda>guardTimestamp.
     attempt (normalizeValidations h request) (\<lambda>validations state.
       let run = guardCandidates h validations (arrOrEmpty (getProp ''candidates'' request));
           selection = selectCurationCandidates (localeCompare h) (gr_safe run) (map va_summary validations)
             (map existingRule (st_rules state));
           lost = snd selection;
           rejected = gr_rejected run @ map tieBreakRejection lost;
           reasons = gr_reasons run @ map (\<lambda>_. ''conflict_lost_tie_break'') lost in
       case applyCurateMutations h (map candidateValue (fst selection)) guardTimestamp state of (result, state) \<Rightarrow>
       let updated = (list_ex (\<lambda>action. action \<noteq> ''noop'') (cr_actions result) \<or> gr_quarantined run \<noteq> []);
           quarantinedCount = int_value (int (length (gr_quarantined run)));
           safeCount = int_value (int (length (gr_safe run)));
           rejectedCount = int_value (int (length rejected));
           lostCount = int_value (int (length lost)) in
       andThen (appendPolicyAuditTrail h (Obj
         [(''operation'', Str ''curate_guarded''), (''storeId'', Str (rq_storeId r)), (''profile'', Str (rq_profile r)),
          (''entityId'', Str (makeId ''guard'' (digestOf h (Obj [(''requestDigest'', Str (opSeed h r))])))),
          (''outcome'', Str (if gr_quarantined run \<noteq> [] then ''deny'' else ''allow'')),
          (''reasonCodes'', strs (if gr_quarantined run \<noteq> [] then asSortedUniqueStrings h (strs (gr_injectionReasons run))
             else if rejected \<noteq> [] then asSortedUniqueStrings h (strs (nonEmpty reasons)) else [''curation_allowed''])),
          (''details'', Obj [(''safeCandidateCount'', safeCount), (''quarantinedCount'', quarantinedCount),
             (''rejectedCount'', rejectedCount), (''tieBreakRejectedCount'', lostCount),
             (''appliedCount'', int_value (int (length (cr_applied result))))]),
          (''timestamp'', Str guardTimestamp)])) (\<lambda>auditEvent state.
         (Inr (spread (buildMeta h r)
           [(''action'', Str (if updated then ''updated'' else ''noop'')),
            (''guardDigest'', Str (digestOf h (Obj [(''appliedRuleIds'', strs (cr_ruleIds result)),
               (''quarantinedIds'', strs (gr_quarantineIds run)), (''rejected'', Arr rejected)]))),
            (''applied'', Arr (cr_applied result)), (''skipped'', Arr (cr_skipped result)),
            (''quarantined'', Arr (gr_quarantined run)), (''rejected'', Arr rejected),
            (''totalRules'', int_value (int (length (st_rules state)))),
            (''policyAuditEventId'', getProp ''auditEventId'' auditEvent),
            (''observability'', Obj [(''safeCandidateCount'', safeCount), (''quarantinedCount'', quarantinedCount),
               (''rejectedCount'', rejectedCount), (''tieBreakRejectedCount'', lostCount),
               (''requiresValidationEvidence'', Bool True), (''promptInjectionResistant'', Bool True),
               (''evidenceContract'', Str GUARDED_CURATION_EVIDENCE_CONTRACT_ERROR),
               (''slo'', buildSloObservability (opSeed h r) ''curate_guarded'' 45)])]), state)) state))"

definition runCurateGuarded :: "core_host \<Rightarrow> js_value \<Rightarrow> stores \<Rightarrow> js_value core \<times> stores" where
  "runCurateGuarded h request = runOperation h ''curate_guarded'' (curateGuardedHandler h request) request"

end
