(* ===== verification/Core_Candidates.thy ===== *)
theory Core_Candidates
  imports Core_State
begin

text \<open>
  Shadow candidates of the API core (core.ts, lines 142-145, 772-837, 2614-2774 and 3294-3484): how a
  request becomes a candidate, how one is found, and the metrics and the trace that every operation on
  candidates reports.
\<close>

section \<open>Policy exceptions\<close>

definition exceptionValue :: "string \<Rightarrow> js_value \<Rightarrow> string \<Rightarrow> js_value \<Rightarrow> string \<Rightarrow> js_value \<Rightarrow> js_value" where
  "exceptionValue code reason approvedBy reference timestamp metadata = Obj
     [(''code'', Str code), (''reason'', reason), (''approvedBy'', Str approvedBy), (''reference'', reference),
      (''timestamp'', Str timestamp), (''metadata'', metadata)]"

definition exceptionOfString :: "js_value \<Rightarrow> js_value core" where
  "exceptionOfString value =
     chain (normalizeBoundedString value ''policyException'' MAX_SIGNAL_ITEM_LENGTH) (\<lambda>code. case code of
       None \<Rightarrow> Inl (CoreError ''policyException must be a non-empty string.'')
     | Some c \<Rightarrow> Inr (exceptionValue c Null ''unspecified'' Null DEFAULT_VERSION_TIMESTAMP (Obj [])))"

definition exceptionOfObject :: "core_host \<Rightarrow> js_value \<Rightarrow> js_value core" where
  "exceptionOfObject h value =
     chain (normalizeBoundedString (firstDefined [getProp ''code'' value, getProp ''reasonCode'' value, getProp ''type'' value])
       ''policyException.code'' MAX_SIGNAL_ITEM_LENGTH) (\<lambda>code. case code of
       None \<Rightarrow> Inl (CoreError ''policyException.code must be a non-empty string.'')
     | Some c \<Rightarrow>
         chain (normalizeBoundedString (getProp ''approvedBy'' value) ''policyException.approvedBy'' 128) (\<lambda>approvedBy.
         chain (normalizeBoundedString (getProp ''reason'' value) ''policyException.reason'' 512) (\<lambda>reason.
         chain (normalizeBoundedString (firstDefined [getProp ''reference'' value, getProp ''ticket'' value])
                  ''policyException.reference'' 128) (\<lambda>reference.
         chain (isoTimestamp h (firstDefined [getProp ''timestamp'' value, getProp ''createdAt'' value])
                  ''policyException.timestamp'') (\<lambda>timestamp.
           Inr (exceptionValue c (strOrNull reason) (case approvedBy of Some a \<Rightarrow> a | None \<Rightarrow> ''unspecified'')
             (strOrNull reference) timestamp (normalizeMetadata (getProp ''metadata'' value))))))))"

fun normalizePolicyException :: "core_host \<Rightarrow> js_value \<Rightarrow> js_value core" where
  "normalizePolicyException h Undefined = Inr Null"
| "normalizePolicyException h Null = Inr Null"
| "normalizePolicyException h (Bool b) = Inr (if b
     then exceptionValue ''manual_override'' (Str ''explicit boolean policy override'') ''unspecified'' Null
       DEFAULT_VERSION_TIMESTAMP (Obj [])
     else Null)"
| "normalizePolicyException h (Str s) = exceptionOfString (Str s)"
| "normalizePolicyException h (Obj kvs) = exceptionOfObject h (Obj kvs)"
| "normalizePolicyException h v = Inl (CoreError ''policyException must be an object, string, or boolean true.'')"

section \<open>Candidates\<close>

definition SHADOW_WRITE_EVIDENCE_CONTRACT_ERROR :: string where
  "SHADOW_WRITE_EVIDENCE_CONTRACT_ERROR =
     ''EVIDENCE_POINTER_CONTRACT_VIOLATION: shadow_write requires at least one sourceEventId or evidenceEventId.''"

text \<open>\<open>v ? [v] : null\<close>\<close>

definition singleton :: "js_value \<Rightarrow> js_value" where
  "singleton v = (if truthy v then Arr [v] else Null)"

definition requestedSources :: "js_value \<Rightarrow> js_value \<Rightarrow> js_value" where
  "requestedSources candidate request = firstDefined
     [getProp ''sourceEventIds'' candidate, singleton (getProp ''sourceEventId'' candidate),
      getProp ''sourceEventIds'' request, singleton (getProp ''sourceEventId'' request),
      getProp ''evidenceEventIds'' request, getProp ''evidenceEpisodeIds'' request]"

definition requestedEvidence :: "js_value \<Rightarrow> js_value \<Rightarrow> string list \<Rightarrow> js_value" where
  "requestedEvidence candidate request sourceEventIds = firstDefined
     [getProp ''evidenceEventIds'' candidate, getProp ''evidenceEpisodeIds'' candidate,
      getProp ''evidenceEventIds'' request, getProp ''evidenceEpisodeIds'' request, strs sourceEventIds]"

text \<open>\<open>candidate.k ?? request.k\<close>\<close>

definition ofEither :: "string \<Rightarrow> js_value \<Rightarrow> js_value \<Rightarrow> js_value" where
  "ofEither k candidate request = orElse (getProp k candidate) (getProp k request)"

definition HALF :: jsnum where
  "HALF = JFin (1 / 2)"

definition normalizeShadowCandidate ::
    "core_host \<Rightarrow> js_value \<Rightarrow> js_value \<Rightarrow> string \<Rightarrow> string \<Rightarrow> string \<Rightarrow> js_value core" where
  "normalizeShadowCandidate h rawCandidate request storeId profile timestamp =
     (let candidate = (if isObj rawCandidate then rawCandidate else Obj []) in
      chain (normalizeBoundedString (ofEither ''statement'' candidate request) ''shadow_write.statement'' 1024) (\<lambda>given.
      case given of
        None \<Rightarrow> Inl (CoreError ''shadow_write requires candidate.statement to be a non-empty string.'')
      | Some statement \<Rightarrow>
      chain (normalizeGuardedStringArray h (requestedSources candidate request) ''sourceEventIds''
               (Some SHADOW_WRITE_EVIDENCE_CONTRACT_ERROR)) (\<lambda>sourceEventIds.
      chain (normalizeGuardedStringArray h (requestedEvidence candidate request sourceEventIds) ''evidenceEventIds''
               (Some SHADOW_WRITE_EVIDENCE_CONTRACT_ERROR)) (\<lambda>evidenceEventIds.
      chain (normalizeBoundedString (ofEither ''scope'' candidate request) ''shadow_write.scope'' 128) (\<lambda>givenScope.
      let scope = (case givenScope of Some s \<Rightarrow> s | None \<Rightarrow> ''global'') in
      chain (normalizePolicyException h (ofEither ''policyException'' candidate request)) (\<lambda>policyException.
      chain (isoTimestampOr h (firstDefined [getProp ''createdAt'' candidate, getProp ''timestamp'' candidate,
               getProp ''createdAt'' request, getProp ''timestamp'' request]) ''shadow_write.createdAt'' timestamp) (\<lambda>createdAt.
      chain (addDaysToIso h createdAt 30) (\<lambda>inAMonth.
      chain (isoTimestampOr h (ofEither ''expiresAt'' candidate request) ''shadow_write.expiresAt'' inAMonth) (\<lambda>expiresAt.
      chain (normalizeBoundedString (ofEither ''candidateId'' candidate request) ''shadow_write.candidateId'' 64) (\<lambda>givenId.
      let candidateId = (case givenId of Some i \<Rightarrow> i | None \<Rightarrow> makeId ''mcand'' (digestOf h (Obj
            [(''storeId'', Str storeId), (''profile'', Str profile), (''statement'', Str statement), (''scope'', Str scope),
             (''sourceEventIds'', strs sourceEventIds), (''evidenceEventIds'', strs evidenceEventIds)]))) in
      chain (normalizeBoundedString (ofEither ''ruleId'' candidate request) ''shadow_write.ruleId'' 64) (\<lambda>givenRuleId.
        Inr (Obj
          [(''candidateId'', Str candidateId),
           (''ruleId'', Str (case givenRuleId of Some i \<Rightarrow> i | None \<Rightarrow> makeId ''rule'' (digestOf h (Obj
              [(''candidateId'', Str candidateId), (''statement'', Str statement), (''scope'', Str scope)])))),
           (''statement'', Str statement), (''scope'', Str scope),
           (''confidence'', Num (clamp01 (ofEither ''confidence'' candidate request) HALF)),
           (''sourceEventIds'', strs sourceEventIds), (''evidenceEventIds'', strs evidenceEventIds),
           (''metadata'', normalizeMetadata (spread (spread (Obj []) (members (getProp ''metadata'' request)))
              (members (getProp ''metadata'' candidate)))),
           (''policyException'', policyException), (''createdAt'', Str createdAt), (''updatedAt'', Str createdAt),
           (''expiresAt'', Str expiresAt), (''status'', Str ''shadow''), (''latestReplayEvalId'', Null),
           (''latestReplayStatus'', Str ''unevaluated''), (''latestNetValueScore'', Null),
           (''negativeNetValueStreak'', int_value 0), (''promotedAt'', Null), (''demotedAt'', Null),
           (''latestDemotionReasonCodes'', Arr []), (''lastTemporalDecayAt'', Str createdAt),
           (''temporalDecayTickCount'', int_value 0), (''temporalDecayDaysAccumulated'', int_value 0)]))))))))))))"

definition buildShadowWriteAppliedEntry :: "core_host \<Rightarrow> js_value \<Rightarrow> string \<Rightarrow> js_value" where
  "buildShadowWriteAppliedEntry h candidate action = Obj
     [(''action'', Str action), (''candidateId'', orElse (getProp ''candidateId'' candidate) Null),
      (''ruleId'', orElse (getProp ''ruleId'' candidate) Null), (''statement'', orElse (getProp ''statement'' candidate) (Str [])),
      (''scope'', orElse (getProp ''scope'' candidate) (Str ''global'')),
      (''confidence'', Num (clamp01 (getProp ''confidence'' candidate) HALF)),
      (''sourceEventIds'', strs (mergeStringLists h (Arr []) (getProp ''sourceEventIds'' candidate))),
      (''evidenceEventIds'', strs (mergeStringLists h (Arr []) (getProp ''evidenceEventIds'' candidate))),
      (''policyException'', orElse (getProp ''policyException'' candidate) Null),
      (''status'', orElse (getProp ''status'' candidate) (Str ''shadow'')),
      (''createdAt'', orElse (getProp ''createdAt'' candidate) Null),
      (''updatedAt'', orElse (getProp ''updatedAt'' candidate) Null),
      (''expiresAt'', orElse (getProp ''expiresAt'' candidate) Null)]"

text \<open>The position of a candidate, where there is one.\<close>

definition resolveMemoryCandidate :: "ProfileState \<Rightarrow> string \<Rightarrow> nat option" where
  "resolveMemoryCandidate state candidateId =
     findIndex (\<lambda>candidate. getProp ''candidateId'' candidate = Str candidateId) (st_shadowCandidates state)"

definition sortCandidates :: "core_host \<Rightarrow> js_value list \<Rightarrow> js_value list" where
  "sortCandidates h candidates = Core_State.sortByTimestampAndId h candidates ''updatedAt'' ''candidateId''"

section \<open>What an operation reports\<close>

definition REPLAY_EVAL_CANDIDATE_CONTRACT_ERROR :: string where
  "REPLAY_EVAL_CANDIDATE_CONTRACT_ERROR =
     ''VALIDATION_CONTRACT_VIOLATION: replay_eval requires an existing shadow candidate.''"

definition count_value :: "'a list \<Rightarrow> js_value" where
  "count_value xs = int_value (int (length xs))"

definition buildLifecycleCandidateThroughputMetric ::
    "ProfileState \<Rightarrow> nat \<Rightarrow> nat \<Rightarrow> (string \<times> js_value) list \<Rightarrow> js_value" where
  "buildLifecycleCandidateThroughputMetric state processedCount mutatedCount actionCounts = Obj
     [(''processedCount'', int_value (int processedCount)), (''mutatedCount'', int_value (int mutatedCount)),
      (''mutationRate'', Num (if 0 < processedCount
         then roundNumber (jdiv (jint (int mutatedCount)) (jint (int processedCount))) else jint 0)),
      (''totalCandidates'', count_value (st_shadowCandidates state)),
      (''actionCounts'', stableSortObject (Obj actionCounts))]"

definition buildLifecycleGatePassRateMetric :: "ProfileState \<Rightarrow> string list \<Rightarrow> js_value" where
  "buildLifecycleGatePassRateMetric state scopedCandidateIds =
     (let relevant = filter (\<lambda>e. (scopedCandidateIds = [] \<or> getProp ''candidateId'' e \<in> Str ` set scopedCandidateIds)
            \<and> (getProp ''pass'' e = Bool True \<or> getProp ''pass'' e = Bool False)) (st_replayEvaluations state);
          passed = filter (\<lambda>e. getProp ''pass'' e = Bool True) relevant
      in Obj [(''scope'', Str (if scopedCandidateIds \<noteq> [] then ''candidate'' else ''profile'')),
           (''candidateIds'', strs scopedCandidateIds), (''passCount'', count_value passed), (''totalCount'', count_value relevant),
           (''failCount'', int_value (max (int (length relevant) - int (length passed)) 0)),
           (''rate'', if relevant \<noteq> []
              then Num (roundNumber (jdiv (jint (int (length passed))) (jint (int (length relevant))))) else Null)])"

text \<open>Counting the codes of some lists of codes into an object.\<close>

definition tally :: "string list list \<Rightarrow> js_value" where
  "tally codes = stableSortObject (Obj
     (fold (\<lambda>code counts. setProp code (int_value (toNonNegativeInteger (getProp code (Obj counts)) 0 + 1)) counts) (concat codes) []))"

definition demotionHistory :: "core_host \<Rightarrow> js_value \<Rightarrow> string list core" where
  "demotionHistory h entry =
     chain (normalizeBoundedString (getProp ''operation'' entry) ''policyAuditTrail.operation'' 64) (\<lambda>operation.
       Inr (if operation = Some ''demote'' then asSortedUniqueStrings h (getProp ''reasonCodes'' entry) else []))"

definition buildLifecycleDemotionReasonsMetric :: "core_host \<Rightarrow> ProfileState \<Rightarrow> js_value \<Rightarrow> js_value core" where
  "buildLifecycleDemotionReasonsMetric h state reasonCodes =
     (let normalizedReasonCodes = asSortedUniqueStrings h reasonCodes in
      chain (traverse (demotionHistory h) (st_policyAuditTrail state)) (\<lambda>history. Inr (Obj
        [(''reasonCodes'', strs normalizedReasonCodes), (''reasonCount'', count_value normalizedReasonCodes),
         (''operationEventCounts'', tally [normalizedReasonCodes]), (''operationReasonHistoryCounts'', tally history),
         (''profileCounts'', tally (map (\<lambda>c. asSortedUniqueStrings h (getProp ''latestDemotionReasonCodes'' c))
            (st_shadowCandidates state)))])))"

definition buildLifecycleLatencyMetric :: "string \<Rightarrow> js_value" where
  "buildLifecycleLatencyMetric requestDigest =
     (let observedLatencyMs = deterministicLatencyMs requestDigest in Obj
      [(''observedLatencyMs'', int_value observedLatencyMs), (''latencyBucket'', Str (latencyBucket observedLatencyMs))])"

definition buildLifecycleObservabilityMetrics ::
    "core_host \<Rightarrow> ProfileState \<Rightarrow> string \<Rightarrow> js_value \<Rightarrow> nat \<Rightarrow> nat \<Rightarrow> (string \<times> js_value) list \<Rightarrow> js_value \<Rightarrow> js_value core" where
  "buildLifecycleObservabilityMetrics h state requestDigest candidateIds processedCount mutatedCount actionCounts demotionReasonCodes =
     chain (buildLifecycleDemotionReasonsMetric h state demotionReasonCodes) (\<lambda>demotionReasons. Inr (stableSortObject (Obj
       [(''candidateThroughput'', buildLifecycleCandidateThroughputMetric state processedCount mutatedCount actionCounts),
        (''gatePassRate'', buildLifecycleGatePassRateMetric state (asSortedUniqueStrings h candidateIds)),
        (''demotionReasons'', demotionReasons), (''latency'', buildLifecycleLatencyMetric requestDigest),
        (''deterministic'', Bool True), (''replaySafe'', Bool True)])))"

definition buildLifecycleTrace ::
    "core_host \<Rightarrow> normalized_request \<Rightarrow> string \<Rightarrow> js_value \<Rightarrow> js_value \<Rightarrow> js_value \<Rightarrow> js_value" where
  "buildLifecycleTrace h r action candidateIds metrics detail =
     (let requestDigest = opSeed h r;
          payload = stableSortObject (Obj
            [(''operation'', Str (rq_operation r)), (''action'', Str action), (''storeId'', Str (rq_storeId r)),
             (''profile'', Str (rq_profile r)), (''requestDigest'', Str requestDigest),
             (''candidateIds'', strs (asSortedUniqueStrings h candidateIds)), (''metrics'', stableSortObject metrics),
             (''details'', stableSortObject detail), (''deterministic'', Bool True), (''replaySafe'', Bool True)]);
          traceSeed = digestOf h payload
      in Obj [(''traceId'', Str (makeId ''trace'' traceSeed)),
           (''spanId'', Str (makeId ''span'' (digestOf h (Obj [(''traceSeed'', Str traceSeed), (''operation'', Str (rq_operation r))])))),
           (''parentSpanId'', Str (makeId ''span'' (digestOf h (Obj
              [(''requestDigest'', Str requestDigest), (''operation'', Str ''lifecycle'')])))),
           (''payload'', payload), (''deterministic'', Bool True), (''replaySafe'', Bool True)])"

end
