(* ===== verification/Core_Shadow.thy ===== *)
theory Core_Shadow
  imports Core_Candidates
begin

text \<open>
  The operations on shadow candidates that store them and take them out of service (core.ts, lines
  211, 2776-2852, 5718-5871, 6304-6461 and 9946-9961): \<open>shadow_write\<close> and \<open>demote\<close>.
\<close>

section \<open>Demotion\<close>

record demotion =
  dm_action :: string
  dm_candidate :: js_value
  dm_removedRuleId :: js_value
  dm_reasonCodes :: "string list"

text \<open>The rules without the first one of an id, and the id that went.\<close>

definition removeRule :: "js_value \<Rightarrow> js_value list \<Rightarrow> js_value \<times> js_value list" where
  "removeRule ruleId rules =
     (case findIndex (\<lambda>rule. getProp ''ruleId'' rule = ruleId) rules of
        Some i \<Rightarrow> (orElse (getProp ''ruleId'' (rules ! i)) Null, take i rules @ drop (Suc i) rules)
      | None \<Rightarrow> (Null, rules))"

definition demotedCandidate :: "js_value \<Rightarrow> string \<Rightarrow> string list \<Rightarrow> js_value" where
  "demotedCandidate existing demotedAt reasonCodes = spread existing
     [(''status'', Str ''demoted''), (''demotedAt'', Str demotedAt), (''updatedAt'', Str demotedAt),
      (''latestDemotionReasonCodes'', strs reasonCodes)]"

definition applyCandidateDemotion ::
    "core_host \<Rightarrow> nat option \<Rightarrow> string \<Rightarrow> js_value \<Rightarrow> ProfileState \<Rightarrow> demotion \<times> ProfileState" where
  "applyCandidateDemotion h resolved demotedAt reasonCodes state =
     (let codes = asSortedUniqueStrings h reasonCodes;
          unchanged = (\<lambda>c. (\<lparr>dm_action = ''noop'', dm_candidate = c, dm_removedRuleId = Null, dm_reasonCodes = codes\<rparr>, state)) in
      case resolved of
        None \<Rightarrow> unchanged Null
      | Some i \<Rightarrow>
          (let existing = st_shadowCandidates state ! i;
               next_one = demotedCandidate existing demotedAt codes;
               removed = removeRule (getProp ''ruleId'' existing) (st_rules state) in
           if getProp ''status'' existing = Str ''demoted'' then unchanged existing
           else (\<lparr>dm_action = ''demoted'', dm_candidate = next_one, dm_removedRuleId = fst removed, dm_reasonCodes = codes\<rparr>,
                 state\<lparr>st_shadowCandidates := sortCandidates h ((st_shadowCandidates state)[i := next_one]),
                       st_rules := snd removed\<rparr>)))"

definition demotionTarget :: "core_host \<Rightarrow> string list \<Rightarrow> string list \<Rightarrow> js_value \<Rightarrow> string option core" where
  "demotionTarget h ruleIds candidateIds candidate =
     chain (normalizeBoundedString (getProp ''candidateId'' candidate) ''shadowCandidates.candidateId'' 64) (\<lambda>candidateId.
       Inr (case candidateId of
           Some i \<Rightarrow> if i \<in> set candidateIds \<or> getProp ''ruleId'' candidate \<in> Str ` set ruleIds then Some i else None
         | None \<Rightarrow> None))"

definition resolveDemotionTargetCandidateIds ::
    "core_host \<Rightarrow> ProfileState \<Rightarrow> js_value \<Rightarrow> js_value \<Rightarrow> string list core" where
  "resolveDemotionTargetCandidateIds h state targetRuleIds targetCandidateIds =
     (let ruleIds = asSortedUniqueStrings h targetRuleIds; candidateIds = asSortedUniqueStrings h targetCandidateIds in
      chain (traverse (demotionTarget h ruleIds candidateIds) (st_shadowCandidates state)) (\<lambda>matched.
        Inr (asSortedUniqueStrings h (strs (candidateIds @ List.map_filter (\<lambda>i. i) matched)))))"

text \<open>The latest event of an operation on an entity.\<close>

definition findPolicyAuditTrailByOperationEntity :: "ProfileState \<Rightarrow> string \<Rightarrow> string \<Rightarrow> js_value option" where
  "findPolicyAuditTrailByOperationEntity state operation entityId =
     find (\<lambda>entry. getProp ''operation'' entry = Str operation \<and> getProp ''entityId'' entry = Str entityId)
       (rev (st_policyAuditTrail state))"

definition auditIdOrNull :: "js_value option \<Rightarrow> js_value" where
  "auditIdOrNull entry = (case entry of Some e \<Rightarrow> orElse (getProp ''auditEventId'' e) Null | None \<Rightarrow> Null)"

section \<open>The operation shadow_write\<close>

definition mergedShadowCandidate :: "core_host \<Rightarrow> js_value \<Rightarrow> js_value \<Rightarrow> string \<Rightarrow> js_value" where
  "mergedShadowCandidate h existing incoming timestamp = spread existing
     [(''ruleId'', getProp ''ruleId'' incoming), (''statement'', getProp ''statement'' incoming),
      (''scope'', getProp ''scope'' incoming), (''confidence'', getProp ''confidence'' incoming),
      (''sourceEventIds'', strs (mergeStringLists h (getProp ''sourceEventIds'' existing) (getProp ''sourceEventIds'' incoming))),
      (''evidenceEventIds'', strs (mergeStringLists h (getProp ''evidenceEventIds'' existing) (getProp ''evidenceEventIds'' incoming))),
      (''metadata'', stableSortObject (spread (getProp ''metadata'' existing) (members (getProp ''metadata'' incoming)))),
      (''policyException'', firstDefined [getProp ''policyException'' incoming, getProp ''policyException'' existing, Null]),
      (''expiresAt'', orElse (getProp ''expiresAt'' incoming) (getProp ''expiresAt'' existing)),
      (''updatedAt'', Str timestamp),
      (''status'', if getProp ''status'' existing = Str ''promoted'' then Str ''promoted'' else Str ''shadow''),
      (''lastTemporalDecayAt'', Str (isoOrFallback h (firstDefined [getProp ''lastTemporalDecayAt'' existing,
         getProp ''updatedAt'' existing, getProp ''createdAt'' existing]) (strOrEmpty (getProp ''createdAt'' incoming)))),
      (''temporalDecayTickCount'', int_value (toNonNegativeInteger (getProp ''temporalDecayTickCount'' existing) 0)),
      (''temporalDecayDaysAccumulated'', int_value (toNonNegativeInteger (getProp ''temporalDecayDaysAccumulated'' existing) 0))]"

record applied_entry =
  ae_action :: string
  ae_candidate :: js_value

definition storeShadowCandidate :: "core_host \<Rightarrow> string \<Rightarrow> js_value \<Rightarrow> js_value list \<Rightarrow> applied_entry \<times> js_value list" where
  "storeShadowCandidate h timestamp incoming candidates =
     (case findIndex (\<lambda>candidate. getProp ''candidateId'' candidate = getProp ''candidateId'' incoming) candidates of
        None \<Rightarrow> (\<lparr>ae_action = ''created'', ae_candidate = incoming\<rparr>, candidates @ [incoming])
      | Some i \<Rightarrow>
          (let existing = candidates ! i; merged = mergedShadowCandidate h existing incoming timestamp in
           if stableStringify existing = stableStringify merged
           then (\<lparr>ae_action = ''noop'', ae_candidate = existing\<rparr>, candidates)
           else (\<lparr>ae_action = ''updated'', ae_candidate = merged\<rparr>, candidates[i := merged])))"

text \<open>A candidate that does not normalise ends the loop; what was stored before stays stored.\<close>

fun shadowWriteLoop ::
    "core_host \<Rightarrow> normalized_request \<Rightarrow> js_value \<Rightarrow> string \<Rightarrow> js_value list \<Rightarrow> applied_entry list \<Rightarrow> ProfileState \<Rightarrow>
     applied_entry list core \<times> ProfileState" where
  "shadowWriteLoop h r request timestamp [] applied state = (Inr applied, state)"
| "shadowWriteLoop h r request timestamp (rawCandidate # rest) applied state =
     (case normalizeShadowCandidate h rawCandidate request (rq_storeId r) (rq_profile r) timestamp of
        Inl e \<Rightarrow> (Inl e, state)
      | Inr incoming \<Rightarrow>
          (case storeShadowCandidate h timestamp incoming (st_shadowCandidates state) of (entry, candidates) \<Rightarrow>
             shadowWriteLoop h r request timestamp rest (applied @ [entry]) (state\<lparr>st_shadowCandidates := candidates\<rparr>)))"

definition shadowWriteInputs :: "js_value \<Rightarrow> js_value list" where
  "shadowWriteInputs request = (case getProp ''candidates'' request of
       Arr vs \<Rightarrow> if vs = [] then [request] else vs
     | _ \<Rightarrow> [request])"

definition countActions :: "string \<Rightarrow> applied_entry list \<Rightarrow> nat" where
  "countActions action applied = length (filter (\<lambda>e. ae_action e = action) applied)"

definition shadowWriteHandler :: "core_host \<Rightarrow> js_value \<Rightarrow> handler" where
  "shadowWriteHandler h request r =
     attempt (isoTimestamp h (firstDefined [getProp ''timestamp'' request, getProp ''createdAt'' request])
       ''shadow_write.timestamp'') (\<lambda>timestamp.
     andThen (shadowWriteLoop h r request timestamp (shadowWriteInputs request) []) (\<lambda>applied loopState.
       let state = loopState\<lparr>st_shadowCandidates := sortCandidates h (st_shadowCandidates loopState)\<rparr>;
           createdCount = countActions ''created'' applied;
           updatedCount = countActions ''updated'' applied;
           noopCount = countActions ''noop'' applied;
           mutatedCount = createdCount + updatedCount;
           candidateIds = strs (asSortedUniqueStrings h
             (Arr (filter truthy (map (\<lambda>e. orElse (getProp ''candidateId'' (ae_candidate e)) Null) applied))));
           action = (if mutatedCount = 0 then ''noop'' else if 0 < createdCount \<and> 0 < updatedCount then ''mixed''
             else if 0 < createdCount then ''created'' else ''updated'');
           counts = [(''created'', int_value (int createdCount)), (''updated'', int_value (int updatedCount)),
             (''noop'', int_value (int noopCount))];
           totals = Obj (counts @ [(''total'', count_value (st_shadowCandidates state))]);
           inputCount = length (shadowWriteInputs request) in
       attempt (buildLifecycleObservabilityMetrics h state (opSeed h r) candidateIds inputCount mutatedCount counts (Arr [])) (\<lambda>metrics state.
         let trace = buildLifecycleTrace h r action candidateIds metrics (Obj [(''counts'', totals)]) in
         (Inr (spread (buildMeta h r)
           [(''applied'', Arr (map (\<lambda>e. buildShadowWriteAppliedEntry h (ae_candidate e) (ae_action e)) applied)),
            (''trace'', trace), (''counts'', totals),
            (''observability'', Obj [(''candidateCount'', int_value (int inputCount)), (''replaySafe'', Bool True),
               (''evidenceLinked'', Bool True), (''lifecycleMetrics'', metrics), (''tracePayload'', getProp ''payload'' trace),
               (''slo'', buildSloObservability (opSeed h r) ''shadow_write'' 40)])]), state)) state))"

definition runShadowWrite :: "core_host \<Rightarrow> js_value \<Rightarrow> stores \<Rightarrow> js_value core \<times> stores" where
  "runShadowWrite h request = runOperation h ''shadow_write'' (shadowWriteHandler h request) request"

section \<open>The operation demote\<close>

record demote_request =
  dr_demotedAt :: string
  dr_threshold :: jsnum
  dr_force :: bool
  dr_replayFailed :: bool
  dr_belowThreshold :: bool
  dr_reasonCodes :: "string list"

definition shouldDemote :: "demote_request \<Rightarrow> bool" where
  "shouldDemote d = (dr_force d \<or> dr_replayFailed d \<or> dr_belowThreshold d)"

definition normalizeDemoteRequest :: "core_host \<Rightarrow> js_value \<Rightarrow> js_value \<Rightarrow> demote_request core" where
  "normalizeDemoteRequest h request candidate =
     chain (isoTimestamp h (firstDefined [getProp ''timestamp'' request, getProp ''demotedAt'' request]) ''demote.timestamp'') (\<lambda>demotedAt.
       let netValueThreshold = stableScore (getProp ''netValueThreshold'' request) (jint 0);
           force = (getProp ''force'' request = Bool True);
           replayFailed = (getProp ''latestReplayStatus'' candidate = Str ''fail'');
           belowThreshold = jlt (stableScore (getProp ''latestNetValueScore'' candidate) (jint 0)) netValueThreshold;
           defaultReasons = asSortedUniqueStrings h (strs ((if replayFailed then [''replay_eval_fail''] else [])
             @ (if belowThreshold then [''net_value_below_threshold''] else []) @ (if force then [''manual_override''] else []))) in
       chain (normalizeGuardedStringArray h (getProp ''reasonCodes'' request) ''reasonCodes'' None) (\<lambda>provided. Inr
         \<lparr>dr_demotedAt = demotedAt, dr_threshold = netValueThreshold, dr_force = force, dr_replayFailed = replayFailed,
          dr_belowThreshold = belowThreshold, dr_reasonCodes = (if provided \<noteq> [] then provided else defaultReasons)\<rparr>))"

definition demoteDetails :: "demote_request \<Rightarrow> (string \<times> js_value) list" where
  "demoteDetails d =
     [(''threshold'', Num (dr_threshold d)), (''replayFailed'', Bool (dr_replayFailed d)),
      (''belowThreshold'', Bool (dr_belowThreshold d)), (''force'', Bool (dr_force d))]"

definition demoteKept :: "core_host \<Rightarrow> normalized_request \<Rightarrow> string \<Rightarrow> demote_request \<Rightarrow> js_value \<Rightarrow> ProfileState \<Rightarrow> js_value core \<times> ProfileState" where
  "demoteKept h r candidateId d candidate state =
     attempt (buildLifecycleObservabilityMetrics h state (opSeed h r) (strs [candidateId]) 1 0 [(''noop'', int_value 1)]
       (strs (dr_reasonCodes d))) (\<lambda>metrics state.
       let trace = buildLifecycleTrace h r ''noop'' (strs [candidateId]) metrics
             (Obj (demoteDetails d @ [(''reasonCodes'', strs (dr_reasonCodes d)), (''demotionApplied'', Bool False)])) in
       (Inr (spread (buildMeta h r)
         [(''action'', Str ''noop''), (''candidate'', candidate), (''reasonCodes'', strs (dr_reasonCodes d)),
          (''threshold'', Num (dr_threshold d)), (''trace'', trace),
          (''policyAuditEventId'', auditIdOrNull (findPolicyAuditTrailByOperationEntity state ''demote'' candidateId)),
          (''observability'', Obj [(''replaySafe'', Bool True), (''demotionApplied'', Bool False), (''lifecycleMetrics'', metrics),
             (''tracePayload'', getProp ''payload'' trace), (''slo'', buildSloObservability (opSeed h r) ''demote'' 40)])]), state)) state"

definition demoteAuditEvent :: "normalized_request \<Rightarrow> string \<Rightarrow> demote_request \<Rightarrow> demotion \<Rightarrow> js_value" where
  "demoteAuditEvent r candidateId d outcome = Obj
     [(''operation'', Str ''demote''), (''storeId'', Str (rq_storeId r)), (''profile'', Str (rq_profile r)),
      (''entityId'', Str candidateId), (''outcome'', Str ''demoted''), (''reasonCodes'', strs (dr_reasonCodes d)),
      (''details'', Obj (demoteDetails d @ [(''demotedAt'', Str (dr_demotedAt d)), (''removedRuleId'', dm_removedRuleId outcome)])),
      (''timestamp'', Str (dr_demotedAt d))]"

text \<open>The event is written only when the candidate was demoted now.\<close>

definition auditIf :: "bool \<Rightarrow> core_host \<Rightarrow> js_value \<Rightarrow> ProfileState \<Rightarrow> js_value core \<times> ProfileState" where
  "auditIf written h event state = (if written then appendPolicyAuditTrail h event state else (Inr Null, state))"

definition demoteHandler :: "core_host \<Rightarrow> js_value \<Rightarrow> handler" where
  "demoteHandler h request r =
     attempt (requireNonEmptyString (getProp ''candidateId'' request) ''candidateId'') (\<lambda>candidateId state.
     case resolveMemoryCandidate state candidateId of
       None \<Rightarrow> (Inl (CoreError REPLAY_EVAL_CANDIDATE_CONTRACT_ERROR), state)
     | Some i \<Rightarrow>
         (let candidate = st_shadowCandidates state ! i in
          attempt (normalizeDemoteRequest h request candidate) (\<lambda>d state.
          if \<not> shouldDemote d then demoteKept h r candidateId d candidate state
          else case applyCandidateDemotion h (Some i) (dr_demotedAt d) (strs (dr_reasonCodes d)) state of (outcome, state) \<Rightarrow>
            let existingAudit = auditIdOrNull (findPolicyAuditTrailByOperationEntity state ''demote'' candidateId);
                demoted = (dm_action outcome = ''demoted'') in
            andThen (auditIf demoted h (demoteAuditEvent r candidateId d outcome)) (\<lambda>auditEvent state.
            attempt (buildLifecycleObservabilityMetrics h state (opSeed h r) (strs [candidateId]) 1 (of_bool demoted)
                [(''demoted'', int_value (of_bool demoted)), (''noop'', int_value (of_bool (\<not> demoted)))] (strs (dr_reasonCodes d)))
              (\<lambda>metrics state.
                let trace = buildLifecycleTrace h r (dm_action outcome) (strs [candidateId]) metrics
                      (Obj (demoteDetails d @ [(''reasonCodes'', strs (dr_reasonCodes d)), (''demotionApplied'', Bool demoted),
                         (''removedRuleId'', dm_removedRuleId outcome)])) in
                (Inr (spread (buildMeta h r)
                  [(''action'', Str (dm_action outcome)), (''candidate'', orElse (dm_candidate outcome) candidate),
                   (''removedRuleId'', dm_removedRuleId outcome), (''reasonCodes'', strs (dr_reasonCodes d)),
                   (''threshold'', Num (dr_threshold d)), (''trace'', trace),
                   (''policyAuditEventId'', orElse (getProp ''auditEventId'' auditEvent) existingAudit),
                   (''observability'', Obj [(''replaySafe'', Bool True), (''demotionApplied'', Bool demoted),
                      (''ruleRemoved'', Bool (truthy (dm_removedRuleId outcome))), (''lifecycleMetrics'', metrics),
                      (''tracePayload'', getProp ''payload'' trace),
                      (''slo'', buildSloObservability (opSeed h r) ''demote'' 40)])]), state)) state) state) state))"

definition runDemote :: "core_host \<Rightarrow> js_value \<Rightarrow> stores \<Rightarrow> js_value core \<times> stores" where
  "runDemote h request = runOperation h ''demote'' (demoteHandler h request) request"

end
