(* ===== verification/Core_Replay.thy ===== *)
theory Core_Replay
  imports Core_Shadow
begin

text \<open>
  Replay evaluation and promotion in the API core (core.ts, lines 146-149, 208-214, 2854-2874,
  3056-3207, 5873-6302): \<open>replay_eval\<close> scores a shadow candidate and demotes it after two negative
  scores in a row, \<open>promote\<close> makes a candidate with a passing evaluation and fresh evidence a rule.
\<close>

section \<open>Scores\<close>

record replay_metrics =
  rm_successRateDelta :: jsnum
  rm_reopenRateDelta :: jsnum
  rm_latencyP95DeltaMs :: jsnum
  rm_tokenCostDelta :: jsnum
  rm_policyViolationsDelta :: jsnum
  rm_hallucinationFlagDelta :: jsnum

record canary_metrics =
  cn_successRateDelta :: jsnum
  cn_errorRateDelta :: jsnum
  cn_latencyP95DeltaMs :: jsnum
  cn_policyViolationsDelta :: jsnum
  cn_hallucinationFlagDelta :: jsnum

definition eitherScore :: "js_value \<Rightarrow> string \<Rightarrow> string \<Rightarrow> jsnum" where
  "eitherScore request k k' = stableScore (orElse (getProp k request) (getProp k' request)) (jint 0)"

definition normalizeReplayEvalMetrics :: "js_value \<Rightarrow> replay_metrics" where
  "normalizeReplayEvalMetrics request =
     \<lparr>rm_successRateDelta = eitherScore request ''successRateDelta'' ''success_rate_delta'',
      rm_reopenRateDelta = eitherScore request ''reopenRateDelta'' ''reopen_rate_delta'',
      rm_latencyP95DeltaMs = eitherScore request ''latencyP95DeltaMs'' ''latency_p95_delta_ms'',
      rm_tokenCostDelta = eitherScore request ''tokenCostDelta'' ''token_cost_delta'',
      rm_policyViolationsDelta = eitherScore request ''policyViolationsDelta'' ''policy_violations_delta'',
      rm_hallucinationFlagDelta = eitherScore request ''hallucinationFlagDelta'' ''hallucination_flag_delta''\<rparr>"

definition normalizeReplayEvalCanaryMetrics :: "js_value \<Rightarrow> canary_metrics" where
  "normalizeReplayEvalCanaryMetrics request =
     \<lparr>cn_successRateDelta = eitherScore request ''canarySuccessRateDelta'' ''canary_success_rate_delta'',
      cn_errorRateDelta = eitherScore request ''canaryErrorRateDelta'' ''canary_error_rate_delta'',
      cn_latencyP95DeltaMs = eitherScore request ''canaryLatencyP95DeltaMs'' ''canary_latency_p95_delta_ms'',
      cn_policyViolationsDelta = eitherScore request ''canaryPolicyViolationsDelta'' ''canary_policy_violations_delta'',
      cn_hallucinationFlagDelta = eitherScore request ''canaryHallucinationFlagDelta'' ''canary_hallucination_flag_delta''\<rparr>"

definition metricsValue :: "replay_metrics \<Rightarrow> js_value" where
  "metricsValue m = Obj
     [(''successRateDelta'', Num (rm_successRateDelta m)), (''reopenRateDelta'', Num (rm_reopenRateDelta m)),
      (''latencyP95DeltaMs'', Num (rm_latencyP95DeltaMs m)), (''tokenCostDelta'', Num (rm_tokenCostDelta m)),
      (''policyViolationsDelta'', Num (rm_policyViolationsDelta m)),
      (''hallucinationFlagDelta'', Num (rm_hallucinationFlagDelta m))]"

definition canaryValue :: "canary_metrics \<Rightarrow> js_value" where
  "canaryValue c = Obj
     [(''successRateDelta'', Num (cn_successRateDelta c)), (''errorRateDelta'', Num (cn_errorRateDelta c)),
      (''latencyP95DeltaMs'', Num (cn_latencyP95DeltaMs c)), (''policyViolationsDelta'', Num (cn_policyViolationsDelta c)),
      (''hallucinationFlagDelta'', Num (cn_hallucinationFlagDelta c))]"

text \<open>The value of a weight is the nearest binary64 number.\<close>

definition weighted :: "jsnum \<Rightarrow> rat \<Rightarrow> jsnum" where
  "weighted x w = roundNumber (jmul x (round64 w))"

definition scoreComponents :: "replay_metrics \<Rightarrow> canary_metrics \<Rightarrow> (string \<times> jsnum) list" where
  "scoreComponents m c =
     [(''replaySuccessReward'', weighted (rm_successRateDelta m) 100),
      (''replayReopenPenalty'', weighted (rm_reopenRateDelta m) (- 80)),
      (''replayLatencyPenalty'', weighted (rm_latencyP95DeltaMs m) (- (5 / 100))),
      (''replayTokenPenalty'', weighted (rm_tokenCostDelta m) (- (1 / 10))),
      (''replayPolicyPenalty'', weighted (rm_policyViolationsDelta m) (- 200)),
      (''replayHallucinationPenalty'', weighted (rm_hallucinationFlagDelta m) (- 120)),
      (''canarySuccessReward'', weighted (cn_successRateDelta c) 60),
      (''canaryErrorPenalty'', weighted (cn_errorRateDelta c) (- 90)),
      (''canaryLatencyPenalty'', weighted (cn_latencyP95DeltaMs c) (- (4 / 100))),
      (''canaryPolicyPenalty'', weighted (cn_policyViolationsDelta c) (- 220)),
      (''canaryHallucinationPenalty'', weighted (cn_hallucinationFlagDelta c) (- 140))]"

definition scoreTotal :: "replay_metrics \<Rightarrow> canary_metrics \<Rightarrow> jsnum" where
  "scoreTotal m c = roundNumber
     (foldl (\<lambda>accumulator x. jadd accumulator (stableScore (Num x) (jint 0))) (jint 0) (map snd (scoreComponents m c)))"

definition computeReplayEvalScoreBreakdown :: "replay_metrics \<Rightarrow> canary_metrics \<Rightarrow> js_value" where
  "computeReplayEvalScoreBreakdown m c = Obj
     [(''components'', stableSortObject (Obj (map (\<lambda>(k, x). (k, Num x)) (scoreComponents m c)))),
      (''total'', Num (scoreTotal m c))]"

record safety_deltas =
  sf_replay :: "(string \<times> jsnum) list"
  sf_canary :: "(string \<times> jsnum) list"
  sf_replayThreshold :: jsnum
  sf_canaryThreshold :: jsnum
  sf_replayRegressionCount :: nat
  sf_canaryRegressionCount :: nat
  sf_score :: jsnum

definition regressions :: "jsnum \<Rightarrow> (string \<times> jsnum) list \<Rightarrow> nat" where
  "regressions threshold deltas = length (filter (\<lambda>(k, delta). jlt threshold (stableScore (Num delta) (jint 0))) deltas)"

definition excess :: "jsnum \<Rightarrow> (string \<times> jsnum) list \<Rightarrow> jsnum" where
  "excess threshold deltas = foldl (\<lambda>accumulator (k, delta).
     jadd accumulator (jmax (jint 0) (jsub (stableScore (Num delta) (jint 0)) threshold))) (jint 0) deltas"

definition computeReplayEvalSafetyDeltas :: "replay_metrics \<Rightarrow> canary_metrics \<Rightarrow> jsnum \<Rightarrow> jsnum \<Rightarrow> safety_deltas" where
  "computeReplayEvalSafetyDeltas m c replayThreshold canaryThreshold =
     (let replay = [(''policyViolationsDelta'', roundNumber (rm_policyViolationsDelta m)),
            (''hallucinationFlagDelta'', roundNumber (rm_hallucinationFlagDelta m))];
          canary = [(''policyViolationsDelta'', roundNumber (cn_policyViolationsDelta c)),
            (''hallucinationFlagDelta'', roundNumber (cn_hallucinationFlagDelta c)),
            (''errorRateDelta'', roundNumber (cn_errorRateDelta c))]
      in \<lparr>sf_replay = replay, sf_canary = canary, sf_replayThreshold = roundNumber replayThreshold,
          sf_canaryThreshold = roundNumber canaryThreshold, sf_replayRegressionCount = regressions replayThreshold replay,
          sf_canaryRegressionCount = regressions canaryThreshold canary,
          sf_score = roundNumber (jadd (excess replayThreshold replay) (excess canaryThreshold canary))\<rparr>)"

definition totalRegressionCount :: "safety_deltas \<Rightarrow> nat" where
  "totalRegressionCount d = sf_replayRegressionCount d + sf_canaryRegressionCount d"

definition severityOf :: "safety_deltas \<Rightarrow> string" where
  "severityOf d = (if 3 \<le> totalRegressionCount d then ''critical'' else if 0 < totalRegressionCount d then ''high'' else ''none'')"

definition nums :: "(string \<times> jsnum) list \<Rightarrow> js_value" where
  "nums xs = Obj (map (\<lambda>(k, x). (k, Num x)) xs)"

definition safetyDeltasValue :: "safety_deltas \<Rightarrow> js_value" where
  "safetyDeltasValue d = Obj
     [(''replay'', nums (sf_replay d)), (''canary'', nums (sf_canary d)), (''replayThreshold'', Num (sf_replayThreshold d)),
      (''canaryThreshold'', Num (sf_canaryThreshold d)),
      (''replayRegressionCount'', int_value (int (sf_replayRegressionCount d))),
      (''canaryRegressionCount'', int_value (int (sf_canaryRegressionCount d))),
      (''totalRegressionCount'', int_value (int (totalRegressionCount d))), (''safetyDeltaScore'', Num (sf_score d)),
      (''severity'', Str (severityOf d))]"

text \<open>How many evaluations of a candidate at the end of the list are negative in a row.\<close>

fun negativeRun :: "string \<Rightarrow> js_value list \<Rightarrow> nat" where
  "negativeRun candidateId [] = 0"
| "negativeRun candidateId (evaluation # rest) =
     (if getProp ''candidateId'' evaluation \<noteq> Str candidateId then negativeRun candidateId rest
      else if jlt (stableScore (getProp ''netValueScore'' evaluation) (jint 0)) (jint 0) then Suc (negativeRun candidateId rest)
      else 0)"

definition computeTrailingNegativeNetValueStreak :: "js_value list \<Rightarrow> string \<Rightarrow> nat" where
  "computeTrailingNegativeNetValueStreak replayEvaluations candidateId =
     (if candidateId = [] then 0 else negativeRun candidateId (rev replayEvaluations))"

section \<open>The operation replay_eval\<close>

record replay_evaluation =
  re_replayEvalId :: string
  re_packId :: string
  re_netValueScore :: jsnum
  re_gateThreshold :: jsnum
  re_deltas :: safety_deltas
  re_pass :: bool
  re_evaluatedAt :: string
  re_value :: js_value

definition thresholdOf :: "js_value \<Rightarrow> string \<Rightarrow> string \<Rightarrow> jsnum" where
  "thresholdOf request k k' = jmax (eitherScore request k k') (jint 0)"

definition evaluationOf :: "core_host \<Rightarrow> normalized_request \<Rightarrow> js_value \<Rightarrow> string \<Rightarrow> replay_evaluation core" where
  "evaluationOf h r request candidateId =
     chain (isoTimestamp h (firstDefined [getProp ''timestamp'' request, getProp ''evaluatedAt'' request]) ''replay_eval.timestamp'') (\<lambda>evaluatedAt.
     let m = normalizeReplayEvalMetrics request;
         c = normalizeReplayEvalCanaryMetrics request;
         netValueScore = scoreTotal m c;
         gateThreshold = stableScore (getProp ''gateThreshold'' request) (jint 0);
         replayThreshold = thresholdOf request ''safetyDeltaThreshold'' ''safety_delta_threshold'';
         canaryThreshold = thresholdOf request ''canaryDeltaThreshold'' ''canary_delta_threshold'';
         safetyDeltas = computeReplayEvalSafetyDeltas m c replayThreshold canaryThreshold;
         passed = (totalRegressionCount safetyDeltas = 0 \<and> jle gateThreshold netValueScore) in
     chain (normalizeBoundedString (getProp ''evaluationPackId'' request) ''replay_eval.evaluationPackId'' 64) (\<lambda>givenPack.
     let packId = (case givenPack of Some i \<Rightarrow> i | None \<Rightarrow> makeId ''pack'' (digestOf h (Obj
           [(''storeId'', Str (rq_storeId r)), (''profile'', Str (rq_profile r)), (''candidateId'', Str candidateId),
            (''gateThreshold'', Num gateThreshold), (''evaluatedAt'', Str evaluatedAt)]))) in
     chain (normalizeBoundedString (getProp ''replayEvalId'' request) ''replay_eval.replayEvalId'' 64) (\<lambda>givenId.
     let replayEvalId = (case givenId of Some i \<Rightarrow> i | None \<Rightarrow> makeId ''reval'' (digestOf h (Obj
           [(''candidateId'', Str candidateId), (''evaluationPackId'', Str packId), (''metrics'', metricsValue m),
            (''canaryMetrics'', canaryValue c), (''gateThreshold'', Num gateThreshold),
            (''replaySafetyDeltaThreshold'', Num replayThreshold), (''canarySafetyDeltaThreshold'', Num canaryThreshold)]))) in
     Inr \<lparr>re_replayEvalId = replayEvalId, re_packId = packId, re_netValueScore = netValueScore,
        re_gateThreshold = gateThreshold, re_deltas = safetyDeltas, re_pass = passed, re_evaluatedAt = evaluatedAt,
        re_value = Obj
          [(''replayEvalId'', Str replayEvalId), (''candidateId'', Str candidateId), (''evaluationPackId'', Str packId),
           (''metrics'', stableSortObject (metricsValue m)), (''canaryMetrics'', stableSortObject (canaryValue c)),
           (''scoreBreakdown'', stableSortObject (computeReplayEvalScoreBreakdown m c)),
           (''safetyDeltas'', stableSortObject (safetyDeltasValue safetyDeltas)), (''netValueScore'', Num netValueScore),
           (''gateThreshold'', Num gateThreshold), (''safetyRegressionCount'', int_value (int (totalRegressionCount safetyDeltas))),
           (''pass'', Bool passed), (''evaluatedAt'', Str evaluatedAt), (''metadata'', normalizeMetadata (getProp ''metadata'' request))]\<rparr>)))"

definition DEFAULT_NEGATIVE_NET_VALUE_DEMOTION_STREAK :: int where
  "DEFAULT_NEGATIVE_NET_VALUE_DEMOTION_STREAK = 2"

definition DEMOTION_REASON_SUSTAINED_NEGATIVE_NET_VALUE :: string where
  "DEMOTION_REASON_SUSTAINED_NEGATIVE_NET_VALUE = ''sustained_negative_net_value''"

definition nextStreak :: "string \<Rightarrow> replay_evaluation \<Rightarrow> js_value list \<Rightarrow> string \<Rightarrow> js_value \<Rightarrow> int" where
  "nextStreak action e evaluations candidateId candidate =
     (let previous = toNonNegativeInteger (getProp ''negativeNetValueStreak'' candidate) 0 in
      if action = ''created'' then (if jlt (re_netValueScore e) (jint 0) then previous + 1 else 0)
      else if action = ''updated'' then int (computeTrailingNegativeNetValueStreak evaluations candidateId)
      else previous)"

definition evaluatedCandidate :: "js_value \<Rightarrow> replay_evaluation \<Rightarrow> int \<Rightarrow> js_value" where
  "evaluatedCandidate candidate e streak = spread candidate
     [(''latestReplayEvalId'', Str (re_replayEvalId e)), (''latestReplayStatus'', Str (if re_pass e then ''pass'' else ''fail'')),
      (''latestNetValueScore'', Num (re_netValueScore e)), (''negativeNetValueStreak'', int_value streak),
      (''updatedAt'', Str (re_evaluatedAt e))]"

record stored_evaluation =
  se_action :: string
  se_streak :: int
  se_demotion :: "demotion option"

definition storeEvaluation :: "core_host \<Rightarrow> nat \<Rightarrow> string \<Rightarrow> replay_evaluation \<Rightarrow> ProfileState \<Rightarrow> stored_evaluation \<times> ProfileState" where
  "storeEvaluation h i candidateId e state =
     (let candidate = st_shadowCandidates state ! i;
          upserted = upsertDeterministicRecord h (st_replayEvaluations state) ''replayEvalId'' (re_value e) ''evaluatedAt'';
          action = up_action upserted;
          evaluations = up_nextRecords upserted;
          streak = nextStreak action e evaluations candidateId candidate;
          state = state\<lparr>st_replayEvaluations := evaluations, st_shadowCandidates :=
            sortCandidates h ((st_shadowCandidates state)[i := evaluatedCandidate candidate e streak])\<rparr> in
      if action \<noteq> ''noop'' \<and> DEFAULT_NEGATIVE_NET_VALUE_DEMOTION_STREAK \<le> streak
      then (case applyCandidateDemotion h (resolveMemoryCandidate state candidateId) (re_evaluatedAt e)
                 (strs [DEMOTION_REASON_SUSTAINED_NEGATIVE_NET_VALUE]) state of
              (outcome, state) \<Rightarrow> (\<lparr>se_action = action, se_streak = streak, se_demotion = Some outcome\<rparr>, state))
      else (\<lparr>se_action = action, se_streak = streak, se_demotion = None\<rparr>, state))"

definition autoDemotionValue :: "demotion option \<Rightarrow> (string \<times> js_value) list \<Rightarrow> js_value" where
  "autoDemotionValue outcome extra = (case outcome of
       None \<Rightarrow> Null
     | Some d \<Rightarrow> Obj ([(''action'', Str (dm_action d)), (''reasonCodes'', strs (dm_reasonCodes d)),
         (''removedRuleId'', dm_removedRuleId d)] @ extra))"

definition gateValue :: "replay_evaluation \<Rightarrow> js_value" where
  "gateValue e = (let d = re_deltas e in Obj
     [(''pass'', Bool (re_pass e)), (''gateThreshold'', Num (re_gateThreshold e)),
      (''safetyRegressionCount'', int_value (int (totalRegressionCount d))),
      (''replayRegressionCount'', int_value (int (sf_replayRegressionCount d))),
      (''canaryRegressionCount'', int_value (int (sf_canaryRegressionCount d))), (''safetyDeltaScore'', Num (sf_score d)),
      (''severity'', Str (severityOf d)), (''replayThreshold'', Num (sf_replayThreshold d)),
      (''canaryThreshold'', Num (sf_canaryThreshold d))])"

definition replayEvalHandler :: "core_host \<Rightarrow> js_value \<Rightarrow> handler" where
  "replayEvalHandler h request r =
     attempt (requireNonEmptyString (getProp ''candidateId'' request) ''candidateId'') (\<lambda>candidateId state.
     case resolveMemoryCandidate state candidateId of
       None \<Rightarrow> (Inl (CoreError REPLAY_EVAL_CANDIDATE_CONTRACT_ERROR), state)
     | Some i \<Rightarrow>
         attempt (evaluationOf h r request candidateId) (\<lambda>e state.
         case storeEvaluation h i candidateId e state of (stored, state) \<Rightarrow>
         let action = se_action stored;
             outcome = se_demotion stored;
             flag = (\<lambda>a. int_value (of_bool (action = a))) in
         attempt (buildLifecycleObservabilityMetrics h state (opSeed h r) (strs [candidateId]) 1 (of_bool (action \<noteq> ''noop''))
             [(''created'', flag ''created''), (''updated'', flag ''updated''), (''noop'', flag ''noop'')]
             (case outcome of Some d \<Rightarrow> strs (dm_reasonCodes d) | None \<Rightarrow> Arr [])) (\<lambda>metrics state.
           let trace = buildLifecycleTrace h r action (strs [candidateId]) metrics (Obj
                 [(''replayEvalId'', Str (re_replayEvalId e)), (''evaluationPackId'', Str (re_packId e)),
                  (''gate'', Obj [(''pass'', Bool (re_pass e)), (''gateThreshold'', Num (re_gateThreshold e)),
                     (''safetyRegressionCount'', int_value (int (totalRegressionCount (re_deltas e)))),
                     (''severity'', Str (severityOf (re_deltas e)))]),
                  (''autoDemotion'', autoDemotionValue outcome [])]) in
           (Inr (spread (buildMeta h r)
             [(''action'', Str action), (''candidateId'', Str candidateId), (''replayEvalId'', Str (re_replayEvalId e)),
              (''evaluation'', re_value e), (''trace'', trace),
              (''autoDemotion'', autoDemotionValue outcome [(''trigger'', Str DEMOTION_REASON_SUSTAINED_NEGATIVE_NET_VALUE)]),
              (''gate'', gateValue e),
              (''observability'', Obj
                 [(''replaySafe'', Bool True), (''negativeNetValueStreak'', int_value (se_streak stored)),
                  (''negativeNetValueStreakThreshold'', int_value DEFAULT_NEGATIVE_NET_VALUE_DEMOTION_STREAK),
                  (''autoDemotionApplied'', Bool (\<exists>d \<in> set_option outcome. dm_action d = ''demoted'')),
                  (''hasSafetyRegression'', Bool (0 < totalRegressionCount (re_deltas e))),
                  (''safetySeverity'', Str (severityOf (re_deltas e))), (''lifecycleMetrics'', metrics),
                  (''tracePayload'', getProp ''payload'' trace),
                  (''slo'', buildSloObservability (opSeed h r) ''replay_eval'' 45)])]), state)) state) state)"

definition runReplayEval :: "core_host \<Rightarrow> js_value \<Rightarrow> stores \<Rightarrow> js_value core \<times> stores" where
  "runReplayEval h request = runOperation h ''replay_eval'' (replayEvalHandler h request) request"

section \<open>The operation promote\<close>

definition PROMOTE_GATE_CONTRACT_ERROR :: string where
  "PROMOTE_GATE_CONTRACT_ERROR =
     ''VALIDATION_CONTRACT_VIOLATION: promote requires latest replay_eval status pass and no safety regressions.''"

definition PROMOTE_FRESH_EVIDENCE_CONTRACT_ERROR :: string where
  "PROMOTE_FRESH_EVIDENCE_CONTRACT_ERROR =
     ''VALIDATION_CONTRACT_VIOLATION: promote requires fresh non-expired evidence links.''"

definition latestEvaluation :: "core_host \<Rightarrow> ProfileState \<Rightarrow> string \<Rightarrow> js_value \<Rightarrow> js_value option" where
  "latestEvaluation h state candidateId candidate =
     (case find (\<lambda>e. getProp ''replayEvalId'' e = getProp ''latestReplayEvalId'' candidate) (st_replayEvaluations state) of
        Some e \<Rightarrow> Some e
      | None \<Rightarrow>
          (case rev (Core_State.sortByTimestampAndId h
                  (filter (\<lambda>e. getProp ''candidateId'' e = Str candidateId) (st_replayEvaluations state)) ''evaluatedAt'' ''replayEvalId'') of
             [] \<Rightarrow> None
           | e # _ \<Rightarrow> Some e))"

definition passesGate :: "js_value \<Rightarrow> bool" where
  "passesGate evaluation = (getProp ''pass'' evaluation = Bool True
     \<and> \<not> jlt (jint 0) (toNumber (getProp ''safetyRegressionCount'' evaluation)))"

record fresh_evidence =
  fe_windowDays :: int
  fe_ageDays :: int
  fe_notExpired :: bool
  fe_linked :: bool

definition freshEvidence :: "core_host \<Rightarrow> js_value \<Rightarrow> string \<Rightarrow> js_value \<Rightarrow> fresh_evidence" where
  "freshEvidence h request promotedAt candidate =
     \<lparr>fe_windowDays = min (max (toPositiveInteger (orElse (getProp ''freshEvidenceThresholdDays'' request)
         (getProp ''freshEvidenceWindowDays'' request)) DEFAULT_FRESHNESS_WARNING_DAYS) 1) 3650,
      fe_ageDays = isoAgeDays h promotedAt
        (normalizeIsoTimestampOrFallback h (orElse (getProp ''updatedAt'' candidate) (getProp ''createdAt'' candidate))),
      fe_notExpired = (compare (localeCompare h) (normalizeIsoTimestampOrFallback h (getProp ''expiresAt'' candidate)) promotedAt \<noteq> Less),
      fe_linked = (arrOrEmpty (getProp ''evidenceEventIds'' candidate) \<noteq> [])\<rparr>"

definition isFresh :: "fresh_evidence \<Rightarrow> bool" where
  "isFresh f = (fe_linked f \<and> fe_notExpired f \<and> fe_ageDays f \<le> fe_windowDays f)"

definition freshDetails :: "fresh_evidence \<Rightarrow> (string \<times> js_value) list" where
  "freshDetails f =
     [(''freshEvidenceWindowDays'', int_value (fe_windowDays f)), (''freshEvidenceAgeDays'', int_value (fe_ageDays f)),
      (''evidenceNotExpired'', Bool (fe_notExpired f)), (''hasEvidenceLinks'', Bool (fe_linked f))]"

text \<open>The candidate and the rule of a promotion. A confidence that is no number is not added to.\<close>

definition promotedCandidate :: "js_value \<Rightarrow> js_value \<Rightarrow> string \<Rightarrow> js_value" where
  "promotedCandidate candidate evaluation promotedAt = spread candidate
     [(''status'', Str ''promoted''), (''promotedAt'', orElse (getProp ''promotedAt'' candidate) (Str promotedAt)),
      (''demotedAt'', Null), (''latestReplayEvalId'', getProp ''replayEvalId'' evaluation),
      (''latestReplayStatus'', Str ''pass''), (''latestNetValueScore'', getProp ''netValueScore'' evaluation),
      (''updatedAt'', Str promotedAt)]"

definition promotedConfidence :: "js_value \<Rightarrow> js_value \<Rightarrow> jsnum" where
  "promotedConfidence candidate evaluation =
     (let confidence = toNumber (getProp ''confidence'' candidate) in
      clamp01 (Num (jadd confidence (jdiv (toNumber (getProp ''netValueScore'' evaluation)) (jint 200)))) confidence)"

definition promotedRule :: "js_value \<Rightarrow> js_value \<Rightarrow> string \<Rightarrow> js_value" where
  "promotedRule candidate evaluation promotedAt = Obj
     [(''ruleId'', getProp ''ruleId'' candidate), (''statement'', getProp ''statement'' candidate),
      (''confidence'', Num (roundNumber (promotedConfidence candidate evaluation))), (''scope'', getProp ''scope'' candidate),
      (''sourceEventIds'', getProp ''sourceEventIds'' candidate), (''evidenceEventIds'', getProp ''evidenceEventIds'' candidate),
      (''promotedFromCandidateId'', getProp ''candidateId'' candidate),
      (''promotedByReplayEvalId'', getProp ''replayEvalId'' evaluation),
      (''promotedAt'', getProp ''promotedAt'' (promotedCandidate candidate evaluation promotedAt)), (''updatedAt'', Str promotedAt)]"

definition promoteCandidate ::
    "core_host \<Rightarrow> nat \<Rightarrow> js_value \<Rightarrow> js_value \<Rightarrow> string \<Rightarrow> ProfileState \<Rightarrow> string \<times> ProfileState" where
  "promoteCandidate h i candidate evaluation promotedAt state =
     (case putRule (promotedRule candidate evaluation promotedAt) (st_rules state) of (ruleAction, rules) \<Rightarrow>
        (ruleAction, state\<lparr>st_rules := rules, st_shadowCandidates := sortCandidates h
           ((st_shadowCandidates state)[i := promotedCandidate candidate evaluation promotedAt])\<rparr>))"

definition promoteHandler :: "core_host \<Rightarrow> js_value \<Rightarrow> handler" where
  "promoteHandler h request r =
     attempt (requireNonEmptyString (getProp ''candidateId'' request) ''candidateId'') (\<lambda>candidateId state.
     case resolveMemoryCandidate state candidateId of
       None \<Rightarrow> (Inl (CoreError REPLAY_EVAL_CANDIDATE_CONTRACT_ERROR), state)
     | Some i \<Rightarrow>
     (let candidate = st_shadowCandidates state ! i in
     case latestEvaluation h state candidateId candidate of
       None \<Rightarrow> (Inl (CoreError PROMOTE_GATE_CONTRACT_ERROR), state)
     | Some evaluation \<Rightarrow>
     if \<not> passesGate evaluation then (Inl (CoreError PROMOTE_GATE_CONTRACT_ERROR), state)
     else attempt (isoTimestamp h (firstDefined [getProp ''timestamp'' request, getProp ''promotedAt'' request]) ''promote.timestamp'') (\<lambda>promotedAt state.
     let fresh = freshEvidence h request promotedAt candidate in
     if \<not> isFresh fresh then (Inl (StaleEvidence PROMOTE_FRESH_EVIDENCE_CONTRACT_ERROR (Obj (freshDetails fresh))), state)
     else case promoteCandidate h i candidate evaluation promotedAt state of (ruleAction, state) \<Rightarrow>
       let next_one = promotedCandidate candidate evaluation promotedAt;
           action = (if getProp ''status'' candidate = Str ''promoted'' \<and> ruleAction = ''noop'' then ''noop'' else ''promoted'');
           evalId = getProp ''replayEvalId'' evaluation;
           freshPart = (''freshEvidencePass'', Bool True) # freshDetails fresh in
       attempt (buildLifecycleObservabilityMetrics h state (opSeed h r) (strs [candidateId]) 1 (of_bool (action \<noteq> ''noop''))
           [(''promoted'', int_value (of_bool (action = ''promoted''))), (''noop'', int_value (of_bool (action = ''noop''))),
            (''ruleCreated'', int_value (of_bool (ruleAction = ''created''))),
            (''ruleUpdated'', int_value (of_bool (ruleAction = ''updated''))),
            (''ruleNoop'', int_value (of_bool (ruleAction = ''noop'')))]
           (getProp ''latestDemotionReasonCodes'' next_one)) (\<lambda>metrics state.
         let trace = buildLifecycleTrace h r action (strs [candidateId]) metrics
               (Obj ([(''replayEvalId'', evalId), (''ruleAction'', Str ruleAction)] @ freshPart)) in
         (Inr (spread (buildMeta h r)
           [(''action'', Str action), (''candidate'', next_one), (''rule'', promotedRule candidate evaluation promotedAt),
            (''ruleAction'', Str ruleAction), (''replayEvalId'', evalId), (''trace'', trace),
            (''observability'', Obj ([(''replayGatePass'', Bool True),
               (''safetyRegressionCount'', getProp ''safetyRegressionCount'' evaluation)] @ freshPart @
               [(''replaySafe'', Bool True), (''lifecycleMetrics'', metrics), (''tracePayload'', getProp ''payload'' trace),
                (''slo'', buildSloObservability (opSeed h r) ''promote'' 45)]))]), state)) state) state))"

definition runPromote :: "core_host \<Rightarrow> js_value \<Rightarrow> stores \<Rightarrow> js_value core \<times> stores" where
  "runPromote h request = runOperation h ''promote'' (promoteHandler h request) request"

end
