(* ===== verification/Core_Signals.thy ===== *)
theory Core_Signals
  imports Core_Shadow
begin

text \<open>
  Manual weights in the API core (core.ts, lines 66, 150-157, 2876-3054 and 6463-6678): \<open>addweight\<close>
  moves the confidence of a candidate and of its rule, once per adjustment id.
\<close>

section \<open>Weight adjustments\<close>

definition ADDWEIGHT_CANDIDATE_CONTRACT_ERROR :: string where
  "ADDWEIGHT_CANDIDATE_CONTRACT_ERROR = ''VALIDATION_CONTRACT_VIOLATION: addweight requires an existing shadow candidate.''"

definition ADDWEIGHT_REASON_CONTRACT_ERROR :: string where
  "ADDWEIGHT_REASON_CONTRACT_ERROR = ''VALIDATION_CONTRACT_VIOLATION: addweight requires a non-empty reason.''"

definition ADDWEIGHT_DELTA_CONTRACT_ERROR :: string where
  "ADDWEIGHT_DELTA_CONTRACT_ERROR = ''VALIDATION_CONTRACT_VIOLATION: addweight requires numeric delta in [-1, 1].''"

definition ADDWEIGHT_ADJUSTMENT_COLLISION_CONTRACT_ERROR :: string where
  "ADDWEIGHT_ADJUSTMENT_COLLISION_CONTRACT_ERROR =
     ''VALIDATION_CONTRACT_VIOLATION: addweight adjustmentId already exists with a different payload.''"

definition MAX_WEIGHT_ADJUSTMENT_LEDGER_EVENTS :: nat where
  "MAX_WEIGHT_ADJUSTMENT_LEDGER_EVENTS = 4096"

record weight_request =
  aw_candidateId :: string
  aw_adjustmentId :: string
  aw_requestedDelta :: jsnum
  aw_reason :: string
  aw_actor :: string
  aw_sourceEventIds :: "string list"
  aw_evidenceEventIds :: "string list"
  aw_metadata :: js_value
  aw_reasonCodes :: "string list"
  aw_timestamp :: string
  aw_digest :: string

definition parsedDelta :: "js_value \<Rightarrow> jsnum option" where
  "parsedDelta request =
     (case toNumber (firstDefined [getProp ''delta'' request, getProp ''weightDelta'' request,
             getProp ''adjustmentDelta'' request, getProp ''adjustment'' request, getProp ''amount'' request]) of
        JFin d \<Rightarrow> if d < - 1 \<or> 1 < d then None else Some (roundNumber (JFin d))
      | _ \<Rightarrow> None)"

definition actorOf :: "string option \<Rightarrow> string" where
  "actorOf given = (case given of Some a \<Rightarrow> a | None \<Rightarrow> ''human_unspecified'')"

definition normalizeAddWeightRequest :: "core_host \<Rightarrow> js_value \<Rightarrow> string \<Rightarrow> string \<Rightarrow> weight_request core" where
  "normalizeAddWeightRequest h request storeId profile =
     chain (requireNonEmptyString (getProp ''candidateId'' request) ''candidateId'') (\<lambda>candidateId.
     case parsedDelta request of
       None \<Rightarrow> Inl (CoreError ADDWEIGHT_DELTA_CONTRACT_ERROR)
     | Some requestedDelta \<Rightarrow>
     chain (normalizeBoundedString (getProp ''reason'' request) ''addweight.reason'' 512) (\<lambda>givenReason. case givenReason of
       None \<Rightarrow> Inl (CoreError ADDWEIGHT_REASON_CONTRACT_ERROR)
     | Some reason \<Rightarrow>
     chain (normalizeBoundedString (firstDefined [getProp ''actor'' request, getProp ''approvedBy'' request,
              getProp ''createdByUserId'' request, getProp ''userId'' request]) ''addweight.actor'' 128) (\<lambda>givenActor.
     let actor = actorOf givenActor in
     chain (isoTimestamp h (firstDefined [getProp ''timestamp'' request, getProp ''adjustedAt'' request,
              getProp ''createdAt'' request]) ''addweight.timestamp'') (\<lambda>timestamp.
     chain (normalizeGuardedStringArray h (orElse (getProp ''sourceEventIds'' request) (singleton (getProp ''sourceEventId'' request)))
              ''sourceEventIds'' None) (\<lambda>sourceEventIds.
     chain (normalizeGuardedStringArray h (firstDefined [getProp ''evidenceEventIds'' request, getProp ''evidenceEpisodeIds'' request,
              singleton (getProp ''evidenceEventId'' request), strs sourceEventIds]) ''evidenceEventIds'' None) (\<lambda>evidenceEventIds.
     let metadata = normalizeMetadata (getProp ''metadata'' request) in
     chain (normalizeGuardedStringArray h (getProp ''reasonCodes'' request) ''reasonCodes'' None) (\<lambda>givenCodes.
     let reasonCodes = mergeStringLists h (strs givenCodes)
           (strs [if jle (jint 0) requestedDelta then ''human_weight_increase'' else ''human_weight_decrease'', ''addweight_manual'']);
         digest = digestOf h (Obj
           [(''storeId'', Str storeId), (''profile'', Str profile), (''candidateId'', Str candidateId),
            (''requestedDelta'', Num requestedDelta), (''reason'', Str reason), (''actor'', Str actor),
            (''sourceEventIds'', strs sourceEventIds), (''evidenceEventIds'', strs evidenceEventIds), (''metadata'', metadata),
            (''reasonCodes'', strs reasonCodes), (''timestamp'', Str timestamp)]) in
     chain (normalizeBoundedString (getProp ''adjustmentId'' request) ''addweight.adjustmentId'' 64) (\<lambda>givenId. Inr
       \<lparr>aw_candidateId = candidateId, aw_adjustmentId = (case givenId of Some i \<Rightarrow> i | None \<Rightarrow> makeId ''wadj'' digest),
        aw_requestedDelta = requestedDelta, aw_reason = reason, aw_actor = actor, aw_sourceEventIds = sourceEventIds,
        aw_evidenceEventIds = evidenceEventIds, aw_metadata = metadata, aw_reasonCodes = reasonCodes,
        aw_timestamp = timestamp, aw_digest = digest\<rparr>))))))))"

definition findExistingAddWeightAuditEvent :: "ProfileState \<Rightarrow> string \<Rightarrow> js_value option" where
  "findExistingAddWeightAuditEvent state adjustmentId =
     find (\<lambda>entry. getProp ''operation'' entry = Str ''addweight''
        \<and> getProp ''adjustmentId'' (getProp ''details'' entry) = Str adjustmentId) (st_policyAuditTrail state)"

definition findWeightAdjustmentLedgerEntry :: "ProfileState \<Rightarrow> string \<Rightarrow> js_value option" where
  "findWeightAdjustmentLedgerEntry state adjustmentId =
     find (\<lambda>entry. getProp ''adjustmentId'' entry = Str adjustmentId) (st_weightAdjustmentLedger state)"

text \<open>The digest an entry was stored with must be that of the request; an entry without one matches.\<close>

definition checkDigest :: "js_value \<Rightarrow> string \<Rightarrow> string \<Rightarrow> unit core" where
  "checkDigest stored fieldName digest =
     chain (normalizeBoundedString stored fieldName 128) (\<lambda>existing.
       if existing \<noteq> None \<and> existing \<noteq> Some digest then Inl (CoreError ADDWEIGHT_ADJUSTMENT_COLLISION_CONTRACT_ERROR) else Inr ())"

definition storeLedger :: "core_host \<Rightarrow> js_value list \<Rightarrow> ProfileState \<Rightarrow> ProfileState" where
  "storeLedger h ledger state = state\<lparr>st_weightAdjustmentLedger :=
     sliceLast MAX_WEIGHT_ADJUSTMENT_LEDGER_EVENTS (Core_State.sortByTimestampAndId h ledger ''timestamp'' ''adjustmentId'')\<rparr>"

definition ledgerEntryOf :: "core_host \<Rightarrow> js_value \<Rightarrow> js_value core" where
  "ledgerEntryOf h entry =
     chain (normalizeBoundedString (getProp ''adjustmentId'' entry) ''weightAdjustmentLedger.adjustmentId'' 64) (\<lambda>givenId.
     let adjustmentId = (case givenId of Some i \<Rightarrow> i | None \<Rightarrow> makeId ''wadj'' (digestOf h entry)) in
     chain (normalizeBoundedString (getProp ''idempotencyDigest'' entry) ''weightAdjustmentLedger.idempotencyDigest'' 128) (\<lambda>givenDigest.
     chain (normalizeBoundedString (getProp ''candidateId'' entry) ''weightAdjustmentLedger.candidateId'' 64) (\<lambda>candidateId.
     chain (normalizeBoundedString (getProp ''auditEventId'' entry) ''weightAdjustmentLedger.auditEventId'' 64) (\<lambda>auditEventId.
       Inr (Obj
         [(''adjustmentId'', Str adjustmentId),
          (''idempotencyDigest'', Str (case givenDigest of Some d \<Rightarrow> d
             | None \<Rightarrow> digestOf h (Obj [(''adjustmentId'', Str adjustmentId)]))),
          (''candidateId'', strOrNull candidateId), (''auditEventId'', strOrNull auditEventId),
          (''timestamp'', Str (normalizeIsoTimestampOrFallback h (getProp ''timestamp'' entry)))])))))"

definition upsertWeightAdjustmentLedgerEntry :: "core_host \<Rightarrow> js_value \<Rightarrow> ProfileState \<Rightarrow> js_value core \<times> ProfileState" where
  "upsertWeightAdjustmentLedgerEntry h rawEntry state =
     attempt (ledgerEntryOf h (if isObj rawEntry then rawEntry else Obj [])) (\<lambda>nextEntry state.
       case find (\<lambda>e. getProp ''adjustmentId'' e = getProp ''adjustmentId'' nextEntry) (st_weightAdjustmentLedger state) of
         Some existing \<Rightarrow>
           attempt (checkDigest (getProp ''idempotencyDigest'' existing) ''weightAdjustmentLedger.idempotencyDigest''
               (strOrEmpty (getProp ''idempotencyDigest'' nextEntry)))
             (\<lambda>_ state. (Inr existing, storeLedger h (st_weightAdjustmentLedger state) state)) state
       | None \<Rightarrow> (Inr nextEntry, storeLedger h (st_weightAdjustmentLedger state @ [nextEntry]) state)) state"

section \<open>The operation addweight\<close>

definition ledgerInput :: "weight_request \<Rightarrow> js_value \<Rightarrow> js_value" where
  "ledgerInput n auditEventId = Obj
     [(''adjustmentId'', Str (aw_adjustmentId n)), (''idempotencyDigest'', Str (aw_digest n)),
      (''candidateId'', Str (aw_candidateId n)), (''auditEventId'', auditEventId), (''timestamp'', Str (aw_timestamp n))]"

definition adjustmentPart :: "weight_request \<Rightarrow> (string \<times> js_value) list" where
  "adjustmentPart n =
     [(''reason'', Str (aw_reason n)), (''actor'', Str (aw_actor n)), (''sourceEventIds'', strs (aw_sourceEventIds n)),
      (''evidenceEventIds'', strs (aw_evidenceEventIds n)), (''metadata'', aw_metadata n), (''timestamp'', Str (aw_timestamp n))]"

definition adjustmentHead :: "weight_request \<Rightarrow> jsnum \<Rightarrow> (string \<times> js_value) list" where
  "adjustmentHead n appliedDelta =
     [(''adjustmentId'', Str (aw_adjustmentId n)), (''requestedDelta'', Num (aw_requestedDelta n)), (''appliedDelta'', Num appliedDelta)]"

definition addWeightNoop :: "core_host \<Rightarrow> normalized_request \<Rightarrow> weight_request \<Rightarrow> js_value \<Rightarrow> js_value \<Rightarrow> js_value" where
  "addWeightNoop h r n candidate auditEventId = spread (buildMeta h r)
     [(''action'', Str ''noop''), (''candidate'', candidate),
      (''adjustment'', Obj (adjustmentHead n (jint 0) @ adjustmentPart n)), (''ruleAction'', Str ''noop''),
      (''policyAuditEventId'', auditEventId),
      (''observability'', Obj [(''replaySafe'', Bool True), (''deterministicNoop'', Bool True),
         (''slo'', buildSloObservability (opSeed h r) ''addweight'' 35)])]"

record weight_change =
  wc_previous :: jsnum
  wc_next :: jsnum
  wc_applied :: jsnum

definition weightChange :: "weight_request \<Rightarrow> js_value \<Rightarrow> weight_change" where
  "weightChange n candidate =
     (let previous = clamp01 (getProp ''confidence'' candidate) HALF;
          next_one = roundNumber (clamp01 (Num (jadd previous (aw_requestedDelta n))) previous)
      in \<lparr>wc_previous = previous, wc_next = next_one, wc_applied = roundNumber (jsub next_one previous)\<rparr>)"

definition weightedCandidate :: "weight_request \<Rightarrow> weight_change \<Rightarrow> js_value \<Rightarrow> js_value" where
  "weightedCandidate n w candidate = spread candidate
     [(''confidence'', Num (wc_next w)), (''updatedAt'', Str (aw_timestamp n)),
      (''metadata'', stableSortObject (spread (getProp ''metadata'' candidate)
         [(''latestWeightAdjustment'', Obj (adjustmentHead n (wc_applied w) @ adjustmentPart n))]))]"

definition weightRule :: "weight_request \<Rightarrow> weight_change \<Rightarrow> js_value \<Rightarrow> js_value list \<Rightarrow> string \<times> js_value list" where
  "weightRule n w ruleId rules =
     (case findIndex (\<lambda>rule. getProp ''ruleId'' rule = ruleId) rules of
        None \<Rightarrow> (''skipped'', rules)
      | Some i \<Rightarrow>
          (let nextRule = spread (rules ! i) [(''confidence'', Num (wc_next w)), (''updatedAt'', Str (aw_timestamp n))] in
           if stableStringify (rules ! i) = stableStringify nextRule then (''noop'', rules)
           else (''updated'', rules[i := nextRule])))"

definition addWeightAuditEvent :: "normalized_request \<Rightarrow> weight_request \<Rightarrow> weight_change \<Rightarrow> js_value \<Rightarrow> string \<Rightarrow> js_value" where
  "addWeightAuditEvent r n w candidate ruleAction = Obj
     [(''operation'', Str ''addweight''), (''storeId'', Str (rq_storeId r)), (''profile'', Str (rq_profile r)),
      (''entityId'', Str (aw_candidateId n)), (''outcome'', Str ''recorded''), (''reasonCodes'', strs (aw_reasonCodes n)),
      (''details'', Obj ([(''adjustmentId'', Str (aw_adjustmentId n)), (''idempotencyDigest'', Str (aw_digest n)),
         (''candidateId'', Str (aw_candidateId n)), (''ruleId'', orElse (getProp ''ruleId'' candidate) Null),
         (''requestedDelta'', Num (aw_requestedDelta n)), (''appliedDelta'', Num (wc_applied w)),
         (''previousConfidence'', Num (wc_previous w)), (''nextConfidence'', Num (wc_next w))] @ adjustmentPart n
         @ [(''ruleAction'', Str ruleAction)])),
      (''timestamp'', Str (aw_timestamp n))]"

definition adjustWeight ::
    "core_host \<Rightarrow> normalized_request \<Rightarrow> weight_request \<Rightarrow> nat \<Rightarrow> ProfileState \<Rightarrow> js_value core \<times> ProfileState" where
  "adjustWeight h r n i state =
     (let candidate = st_shadowCandidates state ! i;
          w = weightChange n candidate;
          nextCandidate = weightedCandidate n w candidate;
          ruled = weightRule n w (getProp ''ruleId'' candidate) (st_rules state) in
      andThen (appendPolicyAuditTrail h (addWeightAuditEvent r n w candidate (fst ruled))) (\<lambda>auditEvent.
      andThen (upsertWeightAdjustmentLedgerEntry h (ledgerInput n (getProp ''auditEventId'' auditEvent))) (\<lambda>_ state.
        (Inr (spread (buildMeta h r)
          [(''action'', Str ''adjusted''), (''candidate'', buildShadowWriteAppliedEntry h nextCandidate ''updated''),
           (''adjustment'', Obj (adjustmentHead n (wc_applied w) @ [(''previousConfidence'', Num (wc_previous w)),
              (''nextConfidence'', Num (wc_next w))] @ adjustmentPart n @ [(''effective'', Bool (wc_applied w \<noteq> jint 0))])),
           (''ruleAction'', Str (fst ruled)), (''policyAuditEventId'', getProp ''auditEventId'' auditEvent),
           (''observability'', Obj [(''replaySafe'', Bool True), (''weightAdjusted'', Bool (wc_applied w \<noteq> jint 0)),
              (''slo'', buildSloObservability (opSeed h r) ''addweight'' 35)])]), state)))
      (state\<lparr>st_shadowCandidates := sortCandidates h ((st_shadowCandidates state)[i := nextCandidate]), st_rules := snd ruled\<rparr>))"

definition addWeightHandler :: "core_host \<Rightarrow> js_value \<Rightarrow> handler" where
  "addWeightHandler h request r =
     attempt (normalizeAddWeightRequest h request (rq_storeId r) (rq_profile r)) (\<lambda>n state.
     case findWeightAdjustmentLedgerEntry state (aw_adjustmentId n) of
       Some ledgerEntry \<Rightarrow>
         attempt (checkDigest (getProp ''idempotencyDigest'' ledgerEntry) ''weightAdjustmentLedger.idempotencyDigest'' (aw_digest n))
           (\<lambda>_ state. (Inr (addWeightNoop h r n
              (case resolveMemoryCandidate state (aw_candidateId n) of
                 Some i \<Rightarrow> buildShadowWriteAppliedEntry h (st_shadowCandidates state ! i) ''noop'' | None \<Rightarrow> Null)
              (orElse (getProp ''auditEventId'' ledgerEntry) Null)), state)) state
     | None \<Rightarrow>
     (case resolveMemoryCandidate state (aw_candidateId n) of
        None \<Rightarrow> (Inl (CoreError ADDWEIGHT_CANDIDATE_CONTRACT_ERROR), state)
      | Some i \<Rightarrow>
     (case findExistingAddWeightAuditEvent state (aw_adjustmentId n) of
        Some audited \<Rightarrow>
          attempt (checkDigest (getProp ''idempotencyDigest'' (getProp ''details'' audited)) ''policyAuditTrail.idempotencyDigest'' (aw_digest n))
            (\<lambda>_. andThen (upsertWeightAdjustmentLedgerEntry h (ledgerInput n (getProp ''auditEventId'' audited))) (\<lambda>persisted state.
              (Inr (addWeightNoop h r n (buildShadowWriteAppliedEntry h (st_shadowCandidates state ! i) ''noop'')
                 (orElse (getProp ''auditEventId'' persisted) (getProp ''auditEventId'' audited))), state))) state
      | None \<Rightarrow> adjustWeight h r n i state)))"

definition runAddWeight :: "core_host \<Rightarrow> js_value \<Rightarrow> stores \<Rightarrow> js_value core \<times> stores" where
  "runAddWeight h request = runOperation h ''addweight'' (addWeightHandler h request) request"

end
