(* ===== verification/Core_Feedback.thy ===== *)
theory Core_Feedback
  imports Core_Shadow
begin

text \<open>
  Feedback and outcomes in the API core (core.ts, lines 199-211 and 9963-10497): \<open>feedback\<close> and
  \<open>outcome\<close> are stored and move the utility score of the rules and candidates they name, each signal
  once; harmful feedback demotes its targets.
\<close>

section \<open>Utility signals\<close>

text \<open>\<open>entity.metadata.utilitySignal.score\<close> where it is a number, else \<open>entity.utilityScore\<close>.\<close>

definition resolveUtilitySignalScore :: "js_value \<Rightarrow> jsnum" where
  "resolveUtilitySignalScore entity =
     (let score = toNumber (getProp ''score'' (getProp ''utilitySignal'' (getProp ''metadata'' entity))) in
      if isFinite score then clamp01 (Num score) HALF else clamp01 (getProp ''utilityScore'' entity) HALF)"

record utility_signal =
  us_signalId :: string
  us_signalType :: string
  us_source :: string
  us_delta :: jsnum
  us_note :: string
  us_actor :: string
  us_timestamp :: string

definition nextUtility :: "utility_signal \<Rightarrow> js_value \<Rightarrow> jsnum" where
  "nextUtility u entity =
     (let previous = resolveUtilitySignalScore entity in roundNumber (clamp01 (Num (jadd previous (us_delta u))) previous))"

definition signalledCandidate :: "utility_signal \<Rightarrow> js_value \<Rightarrow> js_value" where
  "signalledCandidate u candidate = spread candidate
     [(''updatedAt'', Str (us_timestamp u)),
      (''metadata'', stableSortObject (spread (getProp ''metadata'' candidate) [(''utilitySignal'', Obj
         [(''score'', Num (nextUtility u candidate)), (''previousScore'', Num (roundNumber (resolveUtilitySignalScore candidate))),
          (''delta'', Num (us_delta u)), (''signalId'', Str (us_signalId u)), (''signalType'', Str (us_signalType u)),
          (''source'', Str (us_source u)), (''note'', Str (us_note u)), (''actor'', Str (us_actor u)),
          (''timestamp'', Str (us_timestamp u))])]))]"

definition signalledRule :: "utility_signal \<Rightarrow> js_value \<Rightarrow> js_value" where
  "signalledRule u rule = spread rule
     [(''utilityScore'', Num (nextUtility u rule)), (''utilitySignalId'', Str (us_signalId u)),
      (''utilitySignalType'', Str (us_signalType u)), (''utilitySignalSource'', Str (us_source u)),
      (''utilitySignalDelta'', Num (us_delta u)), (''utilitySignalNote'', Str (us_note u)),
      (''utilitySignalActor'', Str (us_actor u)), (''utilitySignalUpdatedAt'', Str (us_timestamp u))]"

text \<open>One pass over the entities that match: an entity with this signal already is left alone. The
  ids of those that changed are collected; an id that is too long to be stored by the program throws,
  and what was changed before stays changed.\<close>

fun signalPass ::
    "(js_value \<Rightarrow> bool) \<Rightarrow> (js_value \<Rightarrow> string option core) \<Rightarrow> (js_value \<Rightarrow> js_value) \<Rightarrow> string \<Rightarrow> string \<Rightarrow>
     js_value list \<Rightarrow> js_value list core \<times> js_value list" where
  "signalPass matching existing changed idField signalId [] = (Inr [], [])"
| "signalPass matching existing changed idField signalId (entity # rest) =
     (if \<not> matching entity
      then (case signalPass matching existing changed idField signalId rest of (ids, rest') \<Rightarrow> (ids, entity # rest'))
      else case existing entity of
        Inl e \<Rightarrow> (Inl e, entity # rest)
      | Inr known \<Rightarrow>
          (case signalPass matching existing changed idField signalId rest of (ids, rest') \<Rightarrow>
             if known = Some signalId then (ids, entity # rest')
             else (chain ids (\<lambda>xs. Inr (getProp idField (changed entity) # xs)), changed entity # rest')))"

record utility_mapping =
  um_targetRuleIds :: "string list"
  um_targetCandidateIds :: "string list"
  um_updatedRuleIds :: "string list"
  um_updatedCandidateIds :: "string list"

definition candidateSignalId :: "js_value \<Rightarrow> string option core" where
  "candidateSignalId candidate = normalizeBoundedString
     (getProp ''signalId'' (getProp ''utilitySignal'' (getProp ''metadata'' candidate))) ''utilitySignal.signalId'' 64"

definition ruleSignalId :: "js_value \<Rightarrow> string option core" where
  "ruleSignalId rule = normalizeBoundedString (getProp ''utilitySignalId'' rule) ''rules.utilitySignalId'' 64"

definition among :: "string \<Rightarrow> string list \<Rightarrow> js_value \<Rightarrow> bool" where
  "among k ids entity = (getProp k entity \<in> Str ` set ids)"

definition signalRules :: "core_host \<Rightarrow> utility_signal \<Rightarrow> string list \<Rightarrow> string list \<Rightarrow> js_value list \<Rightarrow> ProfileState \<Rightarrow> utility_mapping core \<times> ProfileState" where
  "signalRules h u ruleIds candidateIds updatedCandidates state =
     (case signalPass (among ''ruleId'' ruleIds) ruleSignalId (signalledRule u) ''ruleId'' (us_signalId u) (st_rules state) of
        (found, rules) \<Rightarrow> attempt found (\<lambda>updatedRules state. (Inr
          \<lparr>um_targetRuleIds = ruleIds, um_targetCandidateIds = candidateIds,
           um_updatedRuleIds = asSortedUniqueStrings h (Arr updatedRules),
           um_updatedCandidateIds = asSortedUniqueStrings h (Arr updatedCandidates)\<rparr>, state))
          (state\<lparr>st_rules := rules\<rparr>))"

definition signalCandidates ::
    "core_host \<Rightarrow> utility_signal \<Rightarrow> string list \<Rightarrow> string list \<Rightarrow> ProfileState \<Rightarrow> js_value list core \<times> ProfileState" where
  "signalCandidates h u ruleIds candidateIds state =
     (case signalPass (\<lambda>c. among ''ruleId'' ruleIds c \<or> among ''candidateId'' candidateIds c) candidateSignalId
             (signalledCandidate u) ''candidateId'' (us_signalId u) (st_shadowCandidates state) of
        (found, candidates) \<Rightarrow> attempt found (\<lambda>updated state.
          (Inr updated, if updated = [] then state else state\<lparr>st_shadowCandidates := sortCandidates h candidates\<rparr>))
          (state\<lparr>st_shadowCandidates := candidates\<rparr>))"

definition applyUtilitySignalToCandidatesAndRules ::
    "core_host \<Rightarrow> string list \<Rightarrow> string list \<Rightarrow> utility_signal \<Rightarrow> ProfileState \<Rightarrow> utility_mapping core \<times> ProfileState" where
  "applyUtilitySignalToCandidatesAndRules h targetRuleIds targetCandidateIds given =
     (let ruleIds = asSortedUniqueStrings h (strs targetRuleIds);
          candidateIds = asSortedUniqueStrings h (strs targetCandidateIds) in
      attempt (normalizeBoundedString (Str (us_note given)) ''utilitySignal.note'' 512) (\<lambda>note.
      attempt (normalizeBoundedString (Str (us_actor given)) ''utilitySignal.actor'' 128) (\<lambda>actor.
        let u = given\<lparr>us_note := (case note of Some n \<Rightarrow> n | None \<Rightarrow> []),
              us_actor := (case actor of Some a \<Rightarrow> a | None \<Rightarrow> ''human_unspecified''),
              us_delta := roundNumber (stableScore (Num (us_delta given)) (jint 0))\<rparr> in
        andThen (signalCandidates h u ruleIds candidateIds) (signalRules h u ruleIds candidateIds))))"

definition mappingValue :: "utility_mapping \<Rightarrow> js_value" where
  "mappingValue m = Obj
     [(''targetRuleIds'', strs (um_targetRuleIds m)), (''targetCandidateIds'', strs (um_targetCandidateIds m)),
      (''updatedRuleIds'', strs (um_updatedRuleIds m)), (''updatedCandidateIds'', strs (um_updatedCandidateIds m))]"

definition mappingCount :: "utility_mapping \<Rightarrow> int" where
  "mappingCount m = int (length (um_updatedRuleIds m) + length (um_updatedCandidateIds m))"

text \<open>A signal that is stored already is not applied.\<close>

definition mapSignal ::
    "core_host \<Rightarrow> bool \<Rightarrow> string list \<Rightarrow> string list \<Rightarrow> utility_signal \<Rightarrow> ProfileState \<Rightarrow> utility_mapping core \<times> ProfileState" where
  "mapSignal h known ruleIds candidateIds u state =
     (if known then (Inr \<lparr>um_targetRuleIds = ruleIds, um_targetCandidateIds = candidateIds, um_updatedRuleIds = [],
          um_updatedCandidateIds = []\<rparr>, state)
      else applyUtilitySignalToCandidatesAndRules h ruleIds candidateIds u state)"

definition updateReason :: "utility_mapping \<Rightarrow> string" where
  "updateReason m = (if 0 < mappingCount m then ''memory_utility_signal_update'' else ''memory_utility_signal_record_only'')"

section \<open>The operation feedback\<close>

record feedback_entry =
  fb_feedbackId :: string
  fb_targetRuleId :: string
  fb_targetCandidateId :: string
  fb_signal :: string
  fb_note :: string
  fb_actor :: string
  fb_recordedAt :: string
  fb_metadata :: js_value

definition strOr :: "string \<Rightarrow> string option \<Rightarrow> string" where
  "strOr d s = (case s of Some t \<Rightarrow> t | None \<Rightarrow> d)"

text \<open>\<open>s || null\<close>\<close>

definition orNull :: "string \<Rightarrow> js_value" where
  "orNull s = (if s = [] then Null else Str s)"

definition normalizeFeedback :: "core_host \<Rightarrow> js_value \<Rightarrow> feedback_entry core" where
  "normalizeFeedback h request =
     chain (normalizeBoundedString (getProp ''targetRuleId'' request) ''feedback.targetRuleId'' 64) (\<lambda>ruleId.
     chain (normalizeBoundedString (orElse (getProp ''targetCandidateId'' request) (getProp ''candidateId'' request))
              ''feedback.targetCandidateId'' 64) (\<lambda>candidateId.
     chain (normalizeBoundedString (getProp ''note'' request) ''feedback.note'' 512) (\<lambda>givenNote.
     chain (normalizeBoundedString (orElse (getProp ''actor'' request) (getProp ''userId'' request)) ''feedback.actor'' 128) (\<lambda>givenActor.
     chain (isoTimestamp h (firstDefined [getProp ''timestamp'' request, getProp ''recordedAt'' request,
              getProp ''createdAt'' request]) ''feedback.timestamp'') (\<lambda>recordedAt.
     let signal = (if getProp ''signal'' request = Str ''harmful'' then ''harmful'' else ''helpful'');
         note = strOr [] givenNote; actor = strOr ''human_unspecified'' givenActor;
         metadata = normalizeMetadata (getProp ''metadata'' request) in
     chain (normalizeBoundedString (getProp ''feedbackId'' request) ''feedback.feedbackId'' 64) (\<lambda>givenId. Inr
       \<lparr>fb_feedbackId = (case givenId of Some i \<Rightarrow> i | None \<Rightarrow> makeId ''fdbk'' (digestOf h (Obj
          [(''targetRuleId'', Str (strOr [] ruleId)), (''targetCandidateId'', Str (strOr [] candidateId)),
           (''signal'', Str signal), (''note'', Str note), (''actor'', Str actor), (''recordedAt'', Str recordedAt),
           (''metadata'', metadata)]))),
        fb_targetRuleId = strOr [] ruleId, fb_targetCandidateId = strOr [] candidateId, fb_signal = signal, fb_note = note,
        fb_actor = actor, fb_recordedAt = recordedAt, fb_metadata = metadata\<rparr>))))))"

definition feedbackValue :: "feedback_entry \<Rightarrow> js_value" where
  "feedbackValue f = Obj
     [(''feedbackId'', Str (fb_feedbackId f)), (''targetRuleId'', Str (fb_targetRuleId f)),
      (''targetCandidateId'', orNull (fb_targetCandidateId f)), (''signal'', Str (fb_signal f)), (''note'', Str (fb_note f)),
      (''actor'', Str (fb_actor f)), (''recordedAt'', Str (fb_recordedAt f)), (''metadata'', fb_metadata f)]"

definition feedbackDelta :: "string \<Rightarrow> jsnum" where
  "feedbackDelta signal = round64 (if signal = ''harmful'' then - (18 / 100) else 12 / 100)"

definition feedbackSignal :: "feedback_entry \<Rightarrow> utility_signal" where
  "feedbackSignal f = \<lparr>us_signalId = fb_feedbackId f, us_signalType = fb_signal f, us_source = ''feedback'',
     us_delta = feedbackDelta (fb_signal f), us_note = fb_note f, us_actor = fb_actor f, us_timestamp = fb_recordedAt f\<rparr>"

definition listOf :: "string \<Rightarrow> string list" where
  "listOf s = (if s = [] then [] else [s])"

definition feedbackAuditEvent :: "normalized_request \<Rightarrow> feedback_entry \<Rightarrow> utility_mapping \<Rightarrow> js_value" where
  "feedbackAuditEvent r f m = Obj
     [(''operation'', Str ''feedback''), (''storeId'', Str (rq_storeId r)), (''profile'', Str (rq_profile r)),
      (''entityId'', Str (fb_feedbackId f)), (''outcome'', Str ''recorded''),
      (''reasonCodes'', strs [''feedback_'' @ fb_signal f, updateReason m]),
      (''details'', Obj [(''targetRuleId'', orNull (fb_targetRuleId f)), (''targetCandidateId'', orNull (fb_targetCandidateId f)),
         (''updatedRuleIds'', strs (um_updatedRuleIds m)), (''updatedCandidateIds'', strs (um_updatedCandidateIds m)),
         (''note'', Str (fb_note f)), (''actor'', Str (fb_actor f)), (''signal'', Str (fb_signal f))]),
      (''timestamp'', Str (fb_recordedAt f))]"

definition DEMOTION_REASON_EXPLICIT_HARMFUL_FEEDBACK :: string where
  "DEMOTION_REASON_EXPLICIT_HARMFUL_FEEDBACK = ''explicit_harmful_feedback''"

text \<open>The targets that were demoted and the rules that went.\<close>

fun demoteAll ::
    "core_host \<Rightarrow> string \<Rightarrow> string list \<Rightarrow> string list \<Rightarrow> js_value list \<Rightarrow> ProfileState \<Rightarrow> (string list \<times> js_value list) \<times> ProfileState" where
  "demoteAll h recordedAt [] demoted removed state = ((demoted, removed), state)"
| "demoteAll h recordedAt (candidateId # rest) demoted removed state =
     (case applyCandidateDemotion h (resolveMemoryCandidate state candidateId) recordedAt
             (strs [DEMOTION_REASON_EXPLICIT_HARMFUL_FEEDBACK]) state of
        (d, state') \<Rightarrow> demoteAll h recordedAt rest
          (if dm_action d = ''demoted'' then demoted @ [candidateId] else demoted)
          (if truthy (dm_removedRuleId d) then removed @ [dm_removedRuleId d] else removed) state')"

definition harmfulDemotion :: "core_host \<Rightarrow> feedback_entry \<Rightarrow> ProfileState \<Rightarrow> js_value core \<times> ProfileState" where
  "harmfulDemotion h f state =
     attempt (resolveDemotionTargetCandidateIds h state (strs (listOf (fb_targetRuleId f))) (strs (listOf (fb_targetCandidateId f))))
       (\<lambda>targets state.
         case demoteAll h (fb_recordedAt f) targets [] [] state of ((demoted, removed), state) \<Rightarrow>
           (Inr (Obj
             [(''action'', Str (if demoted \<noteq> [] then ''demoted'' else ''noop'')),
              (''trigger'', Str DEMOTION_REASON_EXPLICIT_HARMFUL_FEEDBACK),
              (''reasonCodes'', strs [DEMOTION_REASON_EXPLICIT_HARMFUL_FEEDBACK]), (''candidateIds'', strs targets),
              (''demotedCandidateIds'', strs (asSortedUniqueStrings h (strs demoted))),
              (''removedRuleIds'', strs (asSortedUniqueStrings h (Arr removed)))]), state)) state"

definition feedbackHandler :: "core_host \<Rightarrow> js_value \<Rightarrow> handler" where
  "feedbackHandler h request r =
     attempt (normalizeFeedback h request) (\<lambda>f state.
       let upserted = upsertDeterministicRecord h (st_feedback state) ''feedbackId'' (feedbackValue f) ''recordedAt'';
           known = (up_action upserted = ''noop'') in
       andThen (mapSignal h known (listOf (fb_targetRuleId f)) (listOf (fb_targetCandidateId f)) (feedbackSignal f)) (\<lambda>m state.
       let existingAudit = auditIdOrNull (findPolicyAuditTrailByOperationEntity state ''feedback'' (fb_feedbackId f)) in
       andThen (auditIf (\<not> known) h (feedbackAuditEvent r f m)) (\<lambda>auditEvent.
       andThen (if \<not> known \<and> fb_signal f = ''harmful'' then harmfulDemotion h f else (\<lambda>state. (Inr Null, state))) (\<lambda>autoDemotion state.
         (Inr (spread (buildMeta h r)
           [(''action'', Str (up_action upserted)), (''feedbackId'', Str (fb_feedbackId f)),
            (''targetRuleId'', Str (fb_targetRuleId f)), (''targetCandidateId'', orNull (fb_targetCandidateId f)),
            (''signal'', Str (fb_signal f)), (''note'', Str (fb_note f)), (''actor'', Str (fb_actor f)),
            (''recordedAt'', Str (fb_recordedAt f)), (''totalFeedback'', count_value (st_feedback state)),
            (''mapping'', mappingValue m), (''autoDemotion'', autoDemotion),
            (''policyAuditEventId'', orElse (getProp ''auditEventId'' auditEvent) existingAudit),
            (''observability'', Obj [(''replaySafe'', Bool True), (''mappedUtilitySignals'', int_value (mappingCount m)),
               (''autoDemotionApplied'', Bool (getProp ''action'' autoDemotion = Str ''demoted'')),
               (''slo'', buildSloObservability (opSeed h r) ''feedback'' 30)])]), state))) state)
       (state\<lparr>st_feedback := up_nextRecords upserted\<rparr>))"

definition runFeedback :: "core_host \<Rightarrow> js_value \<Rightarrow> stores \<Rightarrow> js_value core \<times> stores" where
  "runFeedback h request = runOperation h ''feedback'' (feedbackHandler h request) request"

section \<open>The operation outcome\<close>

record outcome_entry =
  oc_outcomeId :: string
  oc_task :: string
  oc_outcome :: string
  oc_usedRuleIds :: "string list"
  oc_packId :: "string option"
  oc_usedUsageIds :: "string list"
  oc_toolRefs :: "string list"
  oc_testRefs :: "string list"
  oc_artifactRefs :: "string list"
  oc_actor :: string
  oc_recordedAt :: string
  oc_status :: string
  oc_settledAt :: "string option"
  oc_metadata :: js_value

text \<open>The members an outcome, its digest and the answer share.\<close>

definition outcomeRefs :: "outcome_entry \<Rightarrow> (string \<times> js_value) list" where
  "outcomeRefs c =
     [(''usedRuleIds'', strs (oc_usedRuleIds c)), (''packId'', strOrNull (oc_packId c)),
      (''usedUsageIds'', strs (oc_usedUsageIds c)), (''toolRefs'', strs (oc_toolRefs c)),
      (''testRefs'', strs (oc_testRefs c)), (''artifactRefs'', strs (oc_artifactRefs c))]"

definition outcomeMembers :: "outcome_entry \<Rightarrow> (string \<times> js_value) list" where
  "outcomeMembers c = [(''task'', Str (oc_task c)), (''outcome'', Str (oc_outcome c))] @ outcomeRefs c @
     [(''actor'', Str (oc_actor c)), (''recordedAt'', Str (oc_recordedAt c)), (''status'', Str (oc_status c)),
      (''settledAt'', strOrNull (oc_settledAt c))]"

definition outcomeValue :: "outcome_entry \<Rightarrow> js_value" where
  "outcomeValue c = Obj ((''outcomeId'', Str (oc_outcomeId c)) # outcomeMembers c @ [(''metadata'', oc_metadata c)])"

definition settledTime :: "core_host \<Rightarrow> js_value \<Rightarrow> string \<Rightarrow> string \<Rightarrow> string option core" where
  "settledTime h request status recordedAt =
     (if status = ''settled''
      then chain (isoTimestampOr h (firstDefined [getProp ''settledAt'' request, getProp ''resolvedAt'' request, Str recordedAt])
             ''outcome.settledAt'' recordedAt) (\<lambda>t. Inr (Some t))
      else Inr None)"

definition normalizeOutcome :: "core_host \<Rightarrow> js_value \<Rightarrow> outcome_entry core" where
  "normalizeOutcome h request =
     (let either = (\<lambda>k k'. orElse (getProp k request) (getProp k' request));
          outcome = (if getProp ''outcome'' request = Str ''failure'' then ''failure'' else ''success'');
          status = (if getProp ''status'' request = Str ''provisional'' then ''provisional'' else ''settled'') in
      chain (normalizeBoundedString (getProp ''task'' request) ''outcome.task'' 128) (\<lambda>givenTask.
      chain (normalizeBoundedStringArray h (getProp ''usedRuleIds'' request) ''outcome.usedRuleIds'') (\<lambda>usedRuleIds.
      chain (normalizeBoundedString (either ''packId'' ''pack_id'') ''outcome.packId'' 64) (\<lambda>packId.
      chain (boundedStrings h (either ''usedUsageIds'' ''used_usage_ids'') ''outcome.usedUsageIds'' 64) (\<lambda>usedUsageIds.
      chain (boundedStrings h (either ''toolRefs'' ''tool_refs'') ''outcome.toolRefs'' 128) (\<lambda>toolRefs.
      chain (boundedStrings h (either ''testRefs'' ''test_refs'') ''outcome.testRefs'' 128) (\<lambda>testRefs.
      chain (boundedStrings h (either ''artifactRefs'' ''artifact_refs'') ''outcome.artifactRefs'' 128) (\<lambda>artifactRefs.
      chain (normalizeBoundedString (either ''actor'' ''userId'') ''outcome.actor'' 128) (\<lambda>givenActor.
      chain (isoTimestamp h (firstDefined [getProp ''timestamp'' request, getProp ''recordedAt'' request,
               getProp ''createdAt'' request]) ''outcome.timestamp'') (\<lambda>recordedAt.
      chain (settledTime h request status recordedAt) (\<lambda>settledAt.
      chain (normalizeBoundedString (getProp ''outcomeId'' request) ''outcome.outcomeId'' 64) (\<lambda>givenId.
        let c = \<lparr>oc_outcomeId = [], oc_task = strOr ''unspecified-task'' givenTask, oc_outcome = outcome,
              oc_usedRuleIds = usedRuleIds, oc_packId = packId, oc_usedUsageIds = usedUsageIds, oc_toolRefs = toolRefs,
              oc_testRefs = testRefs, oc_artifactRefs = artifactRefs, oc_actor = strOr ''human_unspecified'' givenActor,
              oc_recordedAt = recordedAt, oc_status = status, oc_settledAt = settledAt,
              oc_metadata = normalizeMetadata (getProp ''metadata'' request)\<rparr> in
        Inr (c\<lparr>oc_outcomeId := (case givenId of Some i \<Rightarrow> i
           | None \<Rightarrow> makeId ''out'' (digestOf h (Obj (outcomeMembers c @ [(''metadata'', oc_metadata c)]))))\<rparr>)))))))))))))"

definition outcomeSignal :: "outcome_entry \<Rightarrow> utility_signal" where
  "outcomeSignal c =
     \<lparr>us_signalId = oc_outcomeId c, us_signalType = (if oc_outcome c = ''failure'' then ''harmful'' else ''helpful''),
      us_source = ''outcome_'' @ oc_outcome c,
      us_delta = round64 (if oc_outcome c = ''failure'' then - (1 / 5) else 8 / 100), us_note = oc_task c,
      us_actor = oc_actor c, us_timestamp = oc_recordedAt c\<rparr>"

definition outcomeAuditEvent :: "normalized_request \<Rightarrow> outcome_entry \<Rightarrow> utility_mapping \<Rightarrow> js_value" where
  "outcomeAuditEvent r c m = Obj
     [(''operation'', Str ''outcome''), (''storeId'', Str (rq_storeId r)), (''profile'', Str (rq_profile r)),
      (''entityId'', Str (oc_outcomeId c)), (''outcome'', Str ''recorded''),
      (''reasonCodes'', strs [''outcome_'' @ oc_outcome c, updateReason m]),
      (''details'', Obj ([(''task'', Str (oc_task c)), (''outcome'', Str (oc_outcome c))] @ outcomeRefs c @
         [(''updatedRuleIds'', strs (um_updatedRuleIds m)), (''updatedCandidateIds'', strs (um_updatedCandidateIds m)),
          (''actor'', Str (oc_actor c)), (''status'', Str (oc_status c)), (''settledAt'', strOrNull (oc_settledAt c))])),
      (''timestamp'', Str (oc_recordedAt c))]"

definition outcomeHandler :: "core_host \<Rightarrow> js_value \<Rightarrow> handler" where
  "outcomeHandler h request r =
     attempt (normalizeOutcome h request) (\<lambda>c state.
       let upserted = upsertDeterministicRecord h (st_outcomes state) ''outcomeId'' (outcomeValue c) ''recordedAt'';
           known = (up_action upserted = ''noop'') in
       andThen (mapSignal h known (oc_usedRuleIds c) [] (outcomeSignal c)) (\<lambda>m state.
       let existingAudit = auditIdOrNull (findPolicyAuditTrailByOperationEntity state ''outcome'' (oc_outcomeId c)) in
       andThen (auditIf (\<not> known) h (outcomeAuditEvent r c m)) (\<lambda>auditEvent state.
         (Inr (spread (buildMeta h r)
           ([(''action'', Str (up_action upserted)), (''outcomeId'', Str (oc_outcomeId c))] @ outcomeMembers c @
            [(''totalOutcomes'', count_value (st_outcomes state)), (''mapping'', mappingValue m),
             (''policyAuditEventId'', orElse (getProp ''auditEventId'' auditEvent) existingAudit),
             (''observability'', Obj [(''replaySafe'', Bool True), (''mappedUtilitySignals'', int_value (mappingCount m)),
                (''slo'', buildSloObservability (opSeed h r) ''outcome'' 30)])])), state)) state)
       (state\<lparr>st_outcomes := up_nextRecords upserted\<rparr>))"

definition runOutcome :: "core_host \<Rightarrow> js_value \<Rightarrow> stores \<Rightarrow> js_value core \<times> stores" where
  "runOutcome h request = runOperation h ''outcome'' (outcomeHandler h request) request"

end
