(* ===== verification/Core_Operations.thy ===== *)
theory Core_Operations
  imports Core_Context Core_Decisions Core_Curation Core_Replay Core_Signals Core_Feedback Core_Audit
begin

text \<open>
  The reports of the API core and the dispatch of an operation by its name (core.ts, lines
  12686-12891). The operations of \<open>core_op\<close> are those that are modelled.
\<close>

section \<open>The operation audit\<close>

definition duplicateStep :: "string \<Rightarrow> string list \<times> string list \<Rightarrow> string list \<times> string list" where
  "duplicateStep statement acc =
     (let k = toLowerCase statement in
      if k \<in> set (fst acc) then (fst acc, if statement \<in> set (snd acc) then snd acc else snd acc @ [statement])
      else (fst acc @ [k], snd acc))"

text \<open>Statements that repeat an earlier one up to case; \<open>toLowerCase\<close> of no string throws.\<close>

definition statementOf :: "js_value \<Rightarrow> string core" where
  "statementOf rule = (case getProp ''statement'' rule of
       Str s \<Rightarrow> Inr s
     | _ \<Rightarrow> Inl (RuntimeTypeError ''rule.statement.toLowerCase is not a function''))"

definition duplicateRules :: "js_value list \<Rightarrow> string list core" where
  "duplicateRules rules =
     chain (traverse statementOf rules) (\<lambda>statements. Inr (snd (fold duplicateStep statements ([], []))))"

definition checkValue :: "string \<Rightarrow> bool \<Rightarrow> js_value" where
  "checkValue check passed = Obj [(''name'', Str check), (''status'', Str (if passed then ''pass'' else ''warn''))]"

definition auditHandler :: "core_host \<Rightarrow> js_value \<Rightarrow> handler" where
  "auditHandler h request r state =
     attempt (duplicateRules (st_rules state)) (\<lambda>duplicates state.
       (Inr (spread (buildMeta h r)
         [(''checks'', Arr [checkValue ''events_present'' (st_events state \<noteq> []),
             checkValue ''rules_present'' (st_rules state \<noteq> []), checkValue ''duplicate_rules'' (duplicates = [])]),
          (''duplicateRules'', strs duplicates)]), state)) state"

definition runAudit :: "core_host \<Rightarrow> js_value \<Rightarrow> stores \<Rightarrow> js_value core \<times> stores" where
  "runAudit h request = runOperation h ''audit'' (auditHandler h request) request"

section \<open>The operation export\<close>

definition antiPattern :: "js_value \<Rightarrow> js_value" where
  "antiPattern entry = firstTruthy [getProp ''note'' entry, getProp ''targetRuleId'' entry]"

definition exportHandler :: "core_host \<Rightarrow> js_value \<Rightarrow> handler" where
  "exportHandler h request r state =
     (let topRules = take 5 (st_rules state);
          topAntiPatterns = map antiPattern (take 5 (filter (\<lambda>e. getProp ''signal'' e = Str ''harmful'') (st_feedback state)));
          lines = [''# UMS Memory Export'', [], ''Store: '' @ rq_storeId r, ''Profile: '' @ rq_profile r, [], ''## Top Rules'']
            @ map (\<lambda>rule. ''- '' @ toStr (getProp ''statement'' rule) @ '' (confidence='' @ toStr (getProp ''confidence'' rule) @ '')'') topRules
            @ [[], ''## Anti-pattern Signals''] @ map (\<lambda>line. ''- '' @ toStr line) topAntiPatterns
      in (Inr (spread (buildMeta h r)
           [(''format'', Str (if getProp ''format'' request = Str ''playbook'' then ''playbook'' else ''agents-md'')),
            (''agentsMd'', Str (join [CHR 0x0A] lines)),
            (''playbook'', Obj [(''storeId'', Str (rq_storeId r)), (''profile'', Str (rq_profile r)), (''topRules'', Arr topRules),
               (''antiPatterns'', Arr topAntiPatterns)])]), state))"

definition runExport :: "core_host \<Rightarrow> js_value \<Rightarrow> stores \<Rightarrow> js_value core \<times> stores" where
  "runExport h request = runOperation h ''export'' (exportHandler h request) request"

section \<open>The operation doctor\<close>

definition statusOf :: "ProfileState \<Rightarrow> js_value" where
  "statusOf s = Obj
     [(''events'', count_value (st_events s)), (''rules'', count_value (st_rules s)), (''feedback'', count_value (st_feedback s)),
      (''outcomes'', count_value (st_outcomes s)), (''learnerProfiles'', count_value (st_learnerProfiles s)),
      (''identityGraphEdges'', count_value (st_identityGraphEdges s)), (''misconceptions'', count_value (st_misconceptions s)),
      (''painSignals'', count_value (st_painSignals s)), (''failureSignals'', count_value (st_failureSignals s)),
      (''incidentEscalations'', count_value (st_incidentEscalations s)),
      (''manualOverrideControls'', count_value (st_manualOverrideControls s)),
      (''curriculumPlanItems'', count_value (st_curriculumPlanItems s)),
      (''curriculumRecommendationSnapshots'', count_value (st_curriculumRecommendationSnapshots s)),
      (''reviewScheduleEntries'', count_value (st_reviewScheduleEntries s)),
      (''reviewArchivalRecords'', count_value (arrOrEmpty (getProp ''archivedRecords'' (st_reviewArchivalTiers s)))),
      (''policyDecisions'', count_value (st_policyDecisions s)), (''policyAuditTrail'', count_value (st_policyAuditTrail s)),
      (''weightAdjustmentLedger'', count_value (st_weightAdjustmentLedger s)),
      (''shadowCandidates'', count_value (st_shadowCandidates s)), (''replayEvaluations'', count_value (st_replayEvaluations s))]"

definition doctorHandler :: "core_host \<Rightarrow> js_value \<Rightarrow> handler" where
  "doctorHandler h request r state =
     (Inr (spread (buildMeta h r)
       [(''healthy'', Bool True),
        (''checks'', Arr [checkValue ''json_contracts'' True, checkValue ''deterministic_hashing'' True, checkValue ''store_initialized'' True]),
        (''status'', statusOf state)]), state)"

definition runDoctor :: "core_host \<Rightarrow> js_value \<Rightarrow> stores \<Rightarrow> js_value core \<times> stores" where
  "runDoctor h request = runOperation h ''doctor'' (doctorHandler h request) request"

section \<open>The modelled operations\<close>

datatype core_op =
    OpIngest | OpContext | OpReflect | OpValidate | OpCurate | OpCurateGuarded
  | OpShadowWrite | OpReplayEval | OpPromote | OpDemote | OpAddWeight | OpFeedback | OpOutcome
  | OpPolicyDecisionUpdate | OpRecallAuthorization | OpAttributionRankingPolicy
  | OpShadowAttribution | OpAttributionReport | OpAudit | OpExport | OpDoctor

fun opName :: "core_op \<Rightarrow> string" where
  "opName OpIngest = ''ingest''"
| "opName OpContext = ''context''"
| "opName OpReflect = ''reflect''"
| "opName OpValidate = ''validate''"
| "opName OpCurate = ''curate''"
| "opName OpCurateGuarded = ''curate_guarded''"
| "opName OpShadowWrite = ''shadow_write''"
| "opName OpReplayEval = ''replay_eval''"
| "opName OpPromote = ''promote''"
| "opName OpDemote = ''demote''"
| "opName OpAddWeight = ''addweight''"
| "opName OpFeedback = ''feedback''"
| "opName OpOutcome = ''outcome''"
| "opName OpPolicyDecisionUpdate = ''policy_decision_update''"
| "opName OpRecallAuthorization = ''recall_authorization''"
| "opName OpAttributionRankingPolicy = ''attribution_ranking_policy''"
| "opName OpShadowAttribution = ''shadow_attribution''"
| "opName OpAttributionReport = ''attribution_report''"
| "opName OpAudit = ''audit''"
| "opName OpExport = ''export''"
| "opName OpDoctor = ''doctor''"

fun opHandler :: "core_host \<Rightarrow> policy_plugin \<Rightarrow> core_op \<Rightarrow> js_value \<Rightarrow> handler" where
  "opHandler h plugin OpIngest = ingestHandler h"
| "opHandler h plugin OpContext = contextHandler h"
| "opHandler h plugin OpReflect = reflectHandler h"
| "opHandler h plugin OpValidate = validateHandler h"
| "opHandler h plugin OpCurate = curateHandler h"
| "opHandler h plugin OpCurateGuarded = curateGuardedHandler h"
| "opHandler h plugin OpShadowWrite = shadowWriteHandler h"
| "opHandler h plugin OpReplayEval = replayEvalHandler h"
| "opHandler h plugin OpPromote = promoteHandler h"
| "opHandler h plugin OpDemote = demoteHandler h"
| "opHandler h plugin OpAddWeight = addWeightHandler h"
| "opHandler h plugin OpFeedback = feedbackHandler h"
| "opHandler h plugin OpOutcome = outcomeHandler h"
| "opHandler h plugin OpPolicyDecisionUpdate = policyDecisionUpdateHandler h plugin"
| "opHandler h plugin OpRecallAuthorization = recallAuthorizationHandler h"
| "opHandler h plugin OpAttributionRankingPolicy = attributionRankingPolicyHandler h"
| "opHandler h plugin OpShadowAttribution = shadowAttributionHandler h"
| "opHandler h plugin OpAttributionReport = attributionReportHandler h"
| "opHandler h plugin OpAudit = auditHandler h"
| "opHandler h plugin OpExport = exportHandler h"
| "opHandler h plugin OpDoctor = doctorHandler h"

section \<open>Dispatch\<close>

text \<open>The names of the modelled operations, aliases included.\<close>

definition RUNNERS :: "(string \<times> core_op) list" where
  "RUNNERS =
     [(''ingest'', OpIngest), (''context'', OpContext), (''reflect'', OpReflect), (''validate'', OpValidate),
      (''curate'', OpCurate), (''shadow_write'', OpShadowWrite), (''replay_eval'', OpReplayEval), (''promote'', OpPromote),
      (''demote'', OpDemote), (''addweight'', OpAddWeight), (''add_weight'', OpAddWeight), (''/addweight'', OpAddWeight),
      (''curate_guarded'', OpCurateGuarded), (''guarded_curate'', OpCurateGuarded), (''secure_curate'', OpCurateGuarded),
      (''policy_decision_update'', OpPolicyDecisionUpdate), (''recall_authorization'', OpRecallAuthorization),
      (''recall_authorize'', OpRecallAuthorization), (''attribution_ranking_policy'', OpAttributionRankingPolicy),
      (''feedback'', OpFeedback), (''outcome'', OpOutcome), (''shadow_attribution'', OpShadowAttribution),
      (''attribution_report'', OpAttributionReport), (''audit'', OpAudit), (''export'', OpExport), (''doctor'', OpDoctor)]"

text \<open>The operations that are not modelled are a parameter. The table is a plain object: a name it
  inherits is found too. \<open>constructor\<close> is the function \<open>Object\<close>, which gives an object back, and
  \<open>__proto__\<close> is no function. Operation names and requests are untyped.\<close>

definition executeOperation ::
    "core_host \<Rightarrow> policy_plugin \<Rightarrow> (string \<Rightarrow> (js_value \<Rightarrow> stores \<Rightarrow> js_value core \<times> stores) option) \<Rightarrow>
     js_value \<Rightarrow> js_value \<Rightarrow> stores \<Rightarrow> js_value core \<times> stores" where
  "executeOperation h plugin others operation request stores =
     (let op = toLowerCase (trim (strOrEmpty operation));
          given = orElse request (Obj []) in
      case map_of RUNNERS op of
        Some c \<Rightarrow> runOperation h (opName c) (opHandler h plugin c given) given stores
      | None \<Rightarrow>
      (case others op of
        Some runner \<Rightarrow> runner given stores
      | None \<Rightarrow>
          if op = ''constructor'' then (Inr given, stores)
          else if op = ''__proto__'' then (Inl (RuntimeTypeError ''runner is not a function''), stores)
          else (Inl (UnsupportedOperation (''Unsupported operation: '' @ toStr operation)), stores)))"

end
