(* ===== verification/Core_Invariants.thy ===== *)
theory Core_Invariants
  imports Core_Operations
begin

text \<open>
  What every operation of the API core keeps of a profile: the audit trail is bounded, ordered and free of
  duplicates, the digests of the ledger are those of its events, and in each collection an id names
  at most one record. The locale \<open>profile_machine\<close> turns this into an invariant of the stores.
\<close>

section \<open>Records and their ids\<close>

abbreviation idsOf :: "string \<Rightarrow> js_value list \<Rightarrow> js_value list" where
  "idsOf k xs \<equiv> map (getProp k) xs"

lemma getProp_setProp_eq: "getProp k (Obj (setProp j v kvs)) = (if j = k then v else getProp k (Obj kvs))"
  by (simp add: update_conv')

lemma getProp_spread_other:
  "k \<notin> fst ` set kvs \<Longrightarrow> getProp k (spread base kvs) = getProp k base"
proof -
  have "k \<notin> fst ` set kvs \<Longrightarrow> getProp k (Obj (fold (\<lambda>(k, v). setProp k v) kvs own)) = getProp k (Obj own)" for own
    by (induction kvs arbitrary: own) (auto simp: getProp_setProp_eq simp del: getProp.simps)
  from this [of "case base of Obj own \<Rightarrow> own | _ \<Rightarrow> []"] show "k \<notin> fst ` set kvs \<Longrightarrow> ?thesis"
    by (cases base) (simp_all add: spread_def)
qed

lemma idsOf_update: "\<lbrakk>i < length xs; getProp k x = getProp k (xs ! i)\<rbrakk> \<Longrightarrow> idsOf k (xs[i := x]) = idsOf k xs"
  by (simp add: map_update list_update_same_conv)

lemma distinct_idsOf_sort [simp]: "distinct (idsOf k (Core_State.sortByTimestampAndId h xs a b)) = distinct (idsOf k xs)"
  by (simp add: Core_State.sortByTimestampAndId_def distinct_map_sort)

lemma distinct_idsOf_sortCandidates [simp]: "distinct (idsOf k (sortCandidates h xs)) = distinct (idsOf k xs)"
  by (simp add: sortCandidates_def)

text \<open>The three ways a record gets into a collection: it replaces the one of its id, or it is new.\<close>

lemma replaced_ids:
  assumes "findIndex (\<lambda>r. getProp k r = getProp k x) xs = Some i"
  shows "i < length xs" "getProp k (xs ! i) = getProp k x" "idsOf k (xs[i := x]) = idsOf k xs"
  using findIndex_SomeD [OF assms] idsOf_update [of i xs k x] by auto

lemma added_ids:
  "findIndex (\<lambda>r. getProp k r = getProp k x) xs = None \<Longrightarrow> distinct (idsOf k xs) \<Longrightarrow> distinct (idsOf k (xs @ [x]))"
  by (auto simp: findIndex_None)

lemma distinct_upsert:
  "distinct (idsOf k xs) \<Longrightarrow> distinct (idsOf k (up_nextRecords (upsertDeterministicRecord h xs k x t)))"
  using replaced_ids(3) added_ids by (auto simp: upsertDeterministicRecord_def split: option.split)

lemma distinct_putRule: "distinct (idsOf ''ruleId'' xs) \<Longrightarrow> distinct (idsOf ''ruleId'' (snd (putRule x xs)))"
  using replaced_ids(3) added_ids by (auto simp: putRule_def split: option.split)

section \<open>The invariant\<close>

definition ledgerOk :: "ProfileState \<Rightarrow> bool" where
  "ledgerOk s = (map (getProp ''digest'') (st_events s) = map Str (st_eventDigests s) \<and> distinct (st_eventDigests s))"

definition weightLedgerOk :: "js_value list \<Rightarrow> bool" where
  "weightLedgerOk ledger = (length ledger \<le> MAX_WEIGHT_ADJUSTMENT_LEDGER_EVENTS \<and> distinct (idsOf ''adjustmentId'' ledger))"

text \<open>An object has each name once.\<close>

definition uniqueNames :: "js_value \<Rightarrow> bool" where
  "uniqueNames v = (case v of Obj kvs \<Rightarrow> distinct (map fst kvs) | _ \<Rightarrow> True)"

lemma spread_unique: "uniqueNames v \<Longrightarrow> uniqueNames (spread v kvs)"
proof -
  have "distinct (map fst own) \<Longrightarrow> distinct (map fst (fold (\<lambda>(k, v). setProp k v) kvs own))" for own
    by (induction kvs arbitrary: own) (auto simp: distinct_update)
  then show "uniqueNames v \<Longrightarrow> ?thesis" by (cases v) (simp_all add: spread_def uniqueNames_def)
qed

definition profileOk :: "core_host \<Rightarrow> ProfileState \<Rightarrow> bool" where
  "profileOk h s = (trailOk h (st_policyAuditTrail s) \<and> ledgerOk s \<and> weightLedgerOk (st_weightAdjustmentLedger s)
     \<and> distinct (idsOf ''ruleId'' (st_rules s)) \<and> distinct (idsOf ''candidateId'' (st_shadowCandidates s))
     \<and> distinct (idsOf ''replayEvalId'' (st_replayEvaluations s)) \<and> distinct (idsOf ''decisionId'' (st_policyDecisions s))
     \<and> list_all uniqueNames (st_policyDecisions s) \<and> distinct (idsOf ''feedbackId'' (st_feedback s)) \<and> distinct (idsOf ''outcomeId'' (st_outcomes s)))"

named_theorems keeps

lemma profileOk_updates [keeps]:
  assumes "profileOk h s"
  shows "profileOk h (s\<lparr>st_recallAllowlistPolicy := v\<rparr>)" "profileOk h (s\<lparr>st_attributionRankingPolicy := v\<rparr>)"
    and "trailOk h t \<Longrightarrow> profileOk h (s\<lparr>st_policyAuditTrail := t\<rparr>)"
    and "distinct (idsOf ''ruleId'' xs) \<Longrightarrow> profileOk h (s\<lparr>st_rules := xs\<rparr>)"
    and "distinct (idsOf ''candidateId'' xs) \<Longrightarrow> profileOk h (s\<lparr>st_shadowCandidates := xs\<rparr>)"
    and "distinct (idsOf ''replayEvalId'' xs) \<Longrightarrow> profileOk h (s\<lparr>st_replayEvaluations := xs\<rparr>)"
    and "distinct (idsOf ''decisionId'' xs) \<Longrightarrow> list_all uniqueNames xs \<Longrightarrow> profileOk h (s\<lparr>st_policyDecisions := xs\<rparr>)"
    and "distinct (idsOf ''feedbackId'' xs) \<Longrightarrow> profileOk h (s\<lparr>st_feedback := xs\<rparr>)"
    and "distinct (idsOf ''outcomeId'' xs) \<Longrightarrow> profileOk h (s\<lparr>st_outcomes := xs\<rparr>)"
    and "weightLedgerOk xs \<Longrightarrow> profileOk h (s\<lparr>st_weightAdjustmentLedger := xs\<rparr>)"
  using assms by (simp_all add: profileOk_def ledgerOk_def)

lemma profileOk_ids:
  assumes "profileOk h s"
  shows "trailOk h (st_policyAuditTrail s)" "distinct (idsOf ''ruleId'' (st_rules s))"
    "distinct (idsOf ''candidateId'' (st_shadowCandidates s))" "distinct (idsOf ''replayEvalId'' (st_replayEvaluations s))"
    "distinct (idsOf ''decisionId'' (st_policyDecisions s))" "distinct (idsOf ''feedbackId'' (st_feedback s))"
    "distinct (idsOf ''outcomeId'' (st_outcomes s))" "weightLedgerOk (st_weightAdjustmentLedger s)"
    "list_all uniqueNames (st_policyDecisions s)"
  using assms by (simp_all add: profileOk_def)

lemma profileOk_ledger: "profileOk h s \<Longrightarrow> distinct (idsOf ''adjustmentId'' (st_weightAdjustmentLedger s))"
  by (simp add: profileOk_def weightLedgerOk_def)

lemma new_profileOk: "profileOk h (newProfileState h storeId profile)"
  by (simp add: profileOk_def newProfileState_def ledgerOk_def weightLedgerOk_def)

section \<open>The combinators\<close>

lemma attempt_kept:
  "\<lbrakk>P s; \<And>x. r = Inr x \<Longrightarrow> P s \<Longrightarrow> P (snd (k x s))\<rbrakk> \<Longrightarrow> P (snd (attempt r k s))"
  by (simp add: attempt_def split: sum.split)

lemma andThen_kept:
  "\<lbrakk>P (snd (m s)); \<And>x s'. P s' \<Longrightarrow> P (snd (k x s'))\<rbrakk> \<Longrightarrow> P (snd (andThen m k s))"
  by (auto simp: andThen_def attempt_def split: prod.split sum.split)

lemmas attempt_keeps [keeps] = attempt_kept [of "profileOk h" for h]
lemmas andThen_keeps [keeps] = andThen_kept [of "profileOk h" for h]

lemma pair_keeps [keeps]:
  "\<lbrakk>profileOk h (snd m); \<And>x s. profileOk h s \<Longrightarrow> profileOk h (snd (f x s))\<rbrakk> \<Longrightarrow>
     profileOk h (snd (case m of (x, s) \<Rightarrow> f x s))"
  by (cases m) simp

lemma result_keeps [keeps]: "profileOk h s \<Longrightarrow> profileOk h (snd (x, s))"
  by simp

lemma append_keeps [keeps]: "profileOk h s \<Longrightarrow> profileOk h (snd (appendPolicyAuditTrail h raw s))"
  by (auto simp: append_eq profileOk_ids trailAfter_ok intro!: profileOk_updates split: sum.split)

lemma auditIf_keeps [keeps]: "profileOk h s \<Longrightarrow> profileOk h (snd (auditIf b h raw s))"
  by (simp add: auditIf_def append_keeps)

lemma getOrCreate_keeps [keeps]:
  "profileOk h s \<Longrightarrow> profileOk h (snd (getOrCreateRecallAllowlistPolicy h storeId profile s))"
  "profileOk h s \<Longrightarrow> profileOk h (snd (getOrCreateAttributionRankingPolicy h storeId profile s))"
  by (simp_all add: getOrCreateRecallAllowlistPolicy_def getOrCreateAttributionRankingPolicy_def attempt_def profileOk_updates
      split: sum.split)

lemma ensure_keeps [keeps]:
  "profileOk h s \<Longrightarrow> profileOk h (snd (ensureRecallAuthorizationForOperation h storeId profile requester operation timestamp s))"
  unfolding ensureRecallAuthorizationForOperation_def Let_def
  by (intro keeps) simp_all

section \<open>The event ledger\<close>

lemma normalized_digest: "normalizeEvent h event index = Inr n \<Longrightarrow> getProp ''digest'' (ev_value n) = Str (ev_digest n)"
  by (auto simp: normalizeEvent_def Let_def chain_eq_Inr)

lemma ingestEvent_keeps:
  assumes "profileOk h s" "normalizeEvent h event index = Inr n"
  shows "profileOk h (snd (ingestEvent n run s))"
  using assms by (auto simp: ingestEvent_def profileOk_def ledgerOk_def normalized_digest)

lemma ingestLoop_keeps [keeps]:
  "profileOk h s \<Longrightarrow> profileOk h (snd (ingestLoop h events index run s))"
proof (induction h events index run s rule: ingestLoop.induct)
  case (2 h event rest index run s)
  then show ?case by (auto split: sum.split prod.split dest: ingestEvent_keeps [where run = run])
qed simp

section \<open>Rules\<close>

lemma curateOne_ids:
  "distinct (idsOf ''ruleId'' (snd acc)) \<Longrightarrow> distinct (idsOf ''ruleId'' (snd (curateOne h t raw acc)))"
  using distinct_putRule [of "snd acc"] by (auto simp: curateOne_def Let_def split: prod.split) (metis snd_conv)

lemma curateAll_ids:
  "distinct (idsOf ''ruleId'' (snd acc)) \<Longrightarrow> distinct (idsOf ''ruleId'' (snd (fold (curateOne h t) raws acc)))"
  by (induction raws arbitrary: acc) (simp_all add: curateOne_ids)

lemma curate_keeps [keeps]: "profileOk h s \<Longrightarrow> profileOk h (snd (applyCurateMutations h raws t s))"
  using curateAll_ids [of "(_, st_rules s)" h t raws]
  by (auto simp: applyCurateMutations_def profileOk_ids split: prod.split intro!: profileOk_updates) (metis snd_conv)

lemma distinct_removeRule: "distinct (idsOf k rules) \<Longrightarrow> distinct (idsOf k (snd (removeRule i rules)))"
proof (cases "findIndex (\<lambda>rule. getProp ''ruleId'' rule = i) rules")
  case (Some j)
  assume "distinct (idsOf k rules)"
  then have "distinct (idsOf k (take j rules) @ idsOf k (drop j rules))" by (metis append_take_drop_id map_append)
  then have "distinct (idsOf k (take j rules) @ idsOf k (drop (Suc j) rules))"
    using set_drop_subset_set_drop [of j "Suc j" "idsOf k rules"] distinct_drop [of "idsOf k (drop j rules)" 1]
    by (auto simp: drop_map)
  then show ?thesis using Some by (simp add: removeRule_def)
qed (simp add: removeRule_def)

lemma distinct_weightRule: "distinct (idsOf ''ruleId'' rules) \<Longrightarrow> distinct (idsOf ''ruleId'' (snd (weightRule n w i rules)))"
proof (cases "findIndex (\<lambda>rule. getProp ''ruleId'' rule = i) rules")
  case (Some j)
  assume "distinct (idsOf ''ruleId'' rules)"
  then show ?thesis using findIndex_SomeD [OF Some] idsOf_update [of j rules "''ruleId''"]
    by (simp add: weightRule_def Some Let_def getProp_spread_other)
qed (simp add: weightRule_def)

section \<open>Candidates\<close>

lemma candidate_index: "resolveMemoryCandidate s c = Some i \<Longrightarrow> i < length (st_shadowCandidates s)"
  using findIndex_SomeD by (auto simp: resolveMemoryCandidate_def)

lemma storeShadow_ids:
  "distinct (idsOf ''candidateId'' cs) \<Longrightarrow> distinct (idsOf ''candidateId'' (snd (storeShadowCandidate h t x cs)))"
proof (cases "findIndex (\<lambda>c. getProp ''candidateId'' c = getProp ''candidateId'' x) cs")
  case (Some i)
  assume "distinct (idsOf ''candidateId'' cs)"
  then show ?thesis using findIndex_SomeD [OF Some] idsOf_update [of i cs "''candidateId''"]
    by (simp add: storeShadowCandidate_def Some Let_def mergedShadowCandidate_def getProp_spread_other)
next
  case None
  assume "distinct (idsOf ''candidateId'' cs)"
  from added_ids [OF None this] show ?thesis by (simp add: storeShadowCandidate_def None)
qed

lemma shadowWriteLoop_keeps [keeps]:
  "profileOk h s \<Longrightarrow> profileOk h (snd (shadowWriteLoop h r request t raws applied s))"
proof (induction raws arbitrary: applied s)
  case (Cons raw raws)
  then show ?case
    using storeShadow_ids [of "st_shadowCandidates s" h t]
    by (auto simp: profileOk_ids split: sum.split prod.split intro!: Cons.IH profileOk_updates) (metis snd_conv)
qed simp

lemma demotion_keeps [keeps]:
  assumes "profileOk h s" "\<And>i. found = Some i \<Longrightarrow> i < length (st_shadowCandidates s)"
  shows "profileOk h (snd (applyCandidateDemotion h found t codes s))"
proof (cases found)
  case (Some i)
  then have "idsOf ''candidateId'' ((st_shadowCandidates s)[i := demotedCandidate (st_shadowCandidates s ! i) t cs])
      = idsOf ''candidateId'' (st_shadowCandidates s)" for cs
    using assms(2) by (intro idsOf_update) (simp_all add: demotedCandidate_def getProp_spread_other)
  then show ?thesis using assms(1) distinct_removeRule Some
    by (auto simp: applyCandidateDemotion_def Let_def profileOk_ids intro!: profileOk_updates)
qed (simp add: applyCandidateDemotion_def Let_def assms)

lemma demotion_resolved_keeps [keeps]:
  "profileOk h s \<Longrightarrow> profileOk h (snd (applyCandidateDemotion h (resolveMemoryCandidate s c) t codes s))"
  by (erule demotion_keeps) (rule candidate_index)

lemma demoteAll_keeps: "profileOk h s \<Longrightarrow> profileOk h (snd (demoteAll h t targets demoted removed s))"
proof (induction targets arbitrary: demoted removed s)
  case (Cons c targets)
  obtain d s' where e: "applyCandidateDemotion h (resolveMemoryCandidate s c) t
      (strs [DEMOTION_REASON_EXPLICIT_HARMFUL_FEEDBACK]) s = (d, s')" by fastforce
  then have "profileOk h s'" using demotion_resolved_keeps [OF Cons.prems, of c t "strs [DEMOTION_REASON_EXPLICIT_HARMFUL_FEEDBACK]"] by simp
  then show ?case by (simp add: e Cons.IH)
qed simp

lemma harmful_keeps [keeps]: "profileOk h s \<Longrightarrow> profileOk h (snd (harmfulDemotion h f s))"
  unfolding harmfulDemotion_def
  by (intro attempt_keeps pair_keeps demoteAll_keeps) (auto split: prod.split)

section \<open>Evaluations and promotions\<close>

lemma candidate_ids:
  assumes "i < length cs" "k \<notin> fst ` set kvs"
  shows "idsOf k (cs[i := spread (cs ! i) kvs]) = idsOf k cs"
  using assms by (simp add: idsOf_update getProp_spread_other)

lemma evaluation_keeps [keeps]:
  assumes "profileOk h s" "i < length (st_shadowCandidates s)"
  shows "profileOk h (snd (storeEvaluation h i c e s))"
proof -
  define evaluations where "evaluations = up_nextRecords (upsertDeterministicRecord h (st_replayEvaluations s) ''replayEvalId'' (re_value e) ''evaluatedAt'')"
  define cs where "cs streak = sortCandidates h ((st_shadowCandidates s)[i := evaluatedCandidate (st_shadowCandidates s ! i) e streak])" for streak
  have "idsOf ''candidateId'' ((st_shadowCandidates s)[i := evaluatedCandidate (st_shadowCandidates s ! i) e streak])
      = idsOf ''candidateId'' (st_shadowCandidates s)" for streak
    unfolding evaluatedCandidate_def using assms(2) by (intro candidate_ids) simp_all
  then have "distinct (idsOf ''candidateId'' (cs streak))" for streak
    using assms(1) by (simp add: cs_def profileOk_ids)
  moreover have "distinct (idsOf ''replayEvalId'' evaluations)"
    unfolding evaluations_def by (rule distinct_upsert) (rule profileOk_ids(4) [OF assms(1)])
  ultimately have kept: "profileOk h (s\<lparr>st_replayEvaluations := evaluations, st_shadowCandidates := cs streak\<rparr>)" for streak
    using assms(1) by (intro profileOk_updates)
  show ?thesis
    unfolding storeEvaluation_def Let_def evaluations_def [symmetric] cs_def [symmetric]
    by (auto intro!: pair_keeps demotion_resolved_keeps kept)
qed

lemma promotion_keeps [keeps]:
  assumes "profileOk h s" "i < length (st_shadowCandidates s)"
  shows "profileOk h (snd (promoteCandidate h i (st_shadowCandidates s ! i) e t s))"
proof -
  have "idsOf ''candidateId'' ((st_shadowCandidates s)[i := promotedCandidate (st_shadowCandidates s ! i) e t])
      = idsOf ''candidateId'' (st_shadowCandidates s)"
    unfolding promotedCandidate_def using assms(2) by (intro candidate_ids) simp_all
  then show ?thesis using assms(1) distinct_putRule [OF profileOk_ids(2) [OF assms(1)]]
    by (auto simp: promoteCandidate_def profileOk_ids split: prod.split intro!: profileOk_updates) (metis snd_conv)
qed

section \<open>Weights\<close>

lemma sorted_ledger_ok:
  "distinct (idsOf ''adjustmentId'' xs) \<Longrightarrow>
     weightLedgerOk (sliceLast MAX_WEIGHT_ADJUSTMENT_LEDGER_EVENTS (Core_State.sortByTimestampAndId h xs a b))"
  using distinct_sliceLast [of "getProp ''adjustmentId''"] by (simp add: weightLedgerOk_def) (simp add: sliceLast_def)

lemma storeLedger_keeps:
  "\<lbrakk>profileOk h s; distinct (idsOf ''adjustmentId'' xs)\<rbrakk> \<Longrightarrow> profileOk h (storeLedger h xs s)"
  by (simp add: storeLedger_def profileOk_updates sorted_ledger_ok)

lemma ledgerUpsert_keeps [keeps]: "profileOk h s \<Longrightarrow> profileOk h (snd (upsertWeightAdjustmentLedgerEntry h raw s))"
  unfolding upsertWeightAdjustmentLedgerEntry_def
proof (rule attempt_keeps)
  fix entry
  assume s: "profileOk h s"
  then have ids: "distinct (idsOf ''adjustmentId'' (st_weightAdjustmentLedger s))" by (rule profileOk_ledger)
  show "profileOk h (snd (case find (\<lambda>e. getProp ''adjustmentId'' e = getProp ''adjustmentId'' entry) (st_weightAdjustmentLedger s) of
      None \<Rightarrow> (Inr entry, storeLedger h (st_weightAdjustmentLedger s @ [entry]) s)
    | Some existing \<Rightarrow> attempt (checkDigest (getProp ''idempotencyDigest'' existing) ''weightAdjustmentLedger.idempotencyDigest''
        (strOrEmpty (getProp ''idempotencyDigest'' entry)))
        (\<lambda>_ state. (Inr existing, storeLedger h (st_weightAdjustmentLedger state) state)) s))"
  proof (cases "find (\<lambda>e. getProp ''adjustmentId'' e = getProp ''adjustmentId'' entry) (st_weightAdjustmentLedger s)")
    case None
    then have "distinct (idsOf ''adjustmentId'' (st_weightAdjustmentLedger s @ [entry]))"
      using ids by (auto simp: find_None_iff)
    then show ?thesis using None s by (simp add: storeLedger_keeps)
  next
    case (Some existing)
    show ?thesis unfolding Some option.case
      by (rule attempt_keeps [OF s]) (simp add: storeLedger_keeps profileOk_ledger)
  qed
qed

lemma adjust_keeps [keeps]:
  assumes "profileOk h s" "i < length (st_shadowCandidates s)"
  shows "profileOk h (snd (adjustWeight h r n i s))"
proof -
  have ids: "idsOf ''candidateId'' ((st_shadowCandidates s)[i := weightedCandidate n w (st_shadowCandidates s ! i)])
      = idsOf ''candidateId'' (st_shadowCandidates s)" for w
    unfolding weightedCandidate_def using assms(2) by (intro candidate_ids) simp_all
  show ?thesis
    unfolding adjustWeight_def Let_def
    by (intro andThen_keeps append_keeps ledgerUpsert_keeps profileOk_updates assms(1))
       (simp_all add: ids profileOk_ids [OF assms(1)] distinct_weightRule)
qed

section \<open>Signals\<close>

lemma signalPass_ids:
  assumes "\<And>x. getProp k (changed x) = getProp k x"
  shows "idsOf k (snd (signalPass matching existing changed idField signalId xs)) = idsOf k xs"
  by (induction xs) (auto simp: assms split: prod.split sum.split)

lemma signalCandidates_keeps [keeps]: "profileOk h s \<Longrightarrow> profileOk h (snd (signalCandidates h u ruleIds candidateIds s))"
proof -
  assume s: "profileOk h s"
  let ?p = "signalPass (\<lambda>c. among ''ruleId'' ruleIds c \<or> among ''candidateId'' candidateIds c) candidateSignalId
      (signalledCandidate u) ''candidateId'' (us_signalId u) (st_shadowCandidates s)"
  have "idsOf ''candidateId'' (snd ?p) = idsOf ''candidateId'' (st_shadowCandidates s)"
    by (rule signalPass_ids) (simp add: signalledCandidate_def getProp_spread_other)
  then have "distinct (idsOf ''candidateId'' (snd ?p))" using s by (simp add: profileOk_ids)
  then show ?thesis
    using s by (auto simp: signalCandidates_def split: prod.split intro!: attempt_keeps profileOk_updates)
qed

lemma signalRules_keeps [keeps]: "profileOk h s \<Longrightarrow> profileOk h (snd (signalRules h u ruleIds candidateIds updated s))"
proof -
  assume s: "profileOk h s"
  let ?p = "signalPass (among ''ruleId'' ruleIds) ruleSignalId (signalledRule u) ''ruleId'' (us_signalId u) (st_rules s)"
  have "idsOf ''ruleId'' (snd ?p) = idsOf ''ruleId'' (st_rules s)"
    by (rule signalPass_ids) (simp add: signalledRule_def getProp_spread_other)
  then have "distinct (idsOf ''ruleId'' (snd ?p))" using s by (simp add: profileOk_ids)
  then show ?thesis
    using s by (auto simp: signalRules_def split: prod.split intro!: attempt_keeps profileOk_updates)
qed

lemma mapSignal_keeps [keeps]: "profileOk h s \<Longrightarrow> profileOk h (snd (mapSignal h known ruleIds candidateIds u s))"
  unfolding mapSignal_def applyUtilitySignalToCandidatesAndRules_def Let_def
  by (auto intro!: attempt_keeps andThen_keeps signalCandidates_keeps signalRules_keeps)

section \<open>Decisions\<close>

lemma storeDecision_ids:
  "distinct (idsOf ''decisionId'' ds) \<Longrightarrow> distinct (idsOf ''decisionId'' (sd_decisions (storeDecision h x ds)))"
proof (cases "findIndex (\<lambda>d. getProp ''decisionId'' d = getProp ''decisionId'' x) ds")
  case (Some i)
  assume "distinct (idsOf ''decisionId'' ds)"
  then show ?thesis using findIndex_SomeD [OF Some] idsOf_update [of i ds "''decisionId''"]
    by (simp add: storeDecision_def Some Let_def mergePolicyDecision_def getProp_spread_other)
next
  case None
  assume "distinct (idsOf ''decisionId'' ds)"
  from added_ids [OF None this] show ?thesis by (simp add: storeDecision_def None)
qed

lemma storeDecision_unique:
  assumes "list_all uniqueNames ds" "uniqueNames x"
  shows "list_all uniqueNames (sd_decisions (storeDecision h x ds))"
proof (cases "findIndex (\<lambda>d. getProp ''decisionId'' d = getProp ''decisionId'' x) ds")
  case (Some i)
  then have "uniqueNames (ds ! i)" using findIndex_SomeD [OF Some] assms(1) by (simp add: list_all_length)
  then have "uniqueNames (mergePolicyDecision h (ds ! i) x)" unfolding mergePolicyDecision_def by (rule spread_unique)
  then show ?thesis using assms(1) by (auto simp: storeDecision_def Some Let_def list_all_iff dest: subsetD [OF set_update_subset_insert])
qed (use assms in \<open>simp add: storeDecision_def\<close>)

lemma incoming_unique:
  "normalizePolicyDecisionUpdateRequest h request s p = Inr x \<Longrightarrow> uniqueNames (applyPolicyPackInvocationToDecision h x i)"
  unfolding applyPolicyPackInvocationToDecision_def
  by (rule spread_unique) (auto simp: normalizePolicyDecisionUpdateRequest_def Let_def chain_eq_Inr uniqueNames_def split: if_splits)

section \<open>The operations\<close>

lemma decision_keeps: "profileOk h s \<Longrightarrow> profileOk h (snd (policyDecisionUpdateHandler h plugin request r s))"
  unfolding policyDecisionUpdateHandler_def Let_def
  by (intro attempt_keeps andThen_keeps append_keeps profileOk_updates) (simp_all add: storeDecision_ids storeDecision_unique incoming_unique profileOk_ids)

lemma read_only_keeps:
  assumes "profileOk h s"
  shows "profileOk h (snd (reflectHandler h request r s))" "profileOk h (snd (validateHandler h request r s))"
    "profileOk h (snd (shadowAttributionHandler h request r s))" "profileOk h (snd (attributionReportHandler h request r s))"
    "profileOk h (snd (auditHandler h request r s))" "profileOk h (snd (exportHandler h request r s))"
    "profileOk h (snd (doctorHandler h request r s))"
  using assms
  by (simp_all add: reflectHandler_def validateHandler_def shadowAttributionHandler_def attributionReportHandler_def auditHandler_def
      exportHandler_def doctorHandler_def attempt_def Let_def split: sum.split)

lemma context_keeps: "profileOk h s \<Longrightarrow> profileOk h (snd (contextHandler h request r s))"
  unfolding contextHandler_def by (auto intro!: attempt_keeps andThen_keeps ensure_keeps)

lemma ingest_keeps: "profileOk h s \<Longrightarrow> profileOk h (snd (ingestHandler h request r s))"
  unfolding ingestHandler_def by (auto intro!: andThen_keeps ingestLoop_keeps)

lemma curate_op_keeps: "profileOk h s \<Longrightarrow> profileOk h (snd (curateHandler h request r s))"
  unfolding curateHandler_def Let_def by (auto intro!: attempt_keeps pair_keeps curate_keeps)

lemma curateGuarded_keeps: "profileOk h s \<Longrightarrow> profileOk h (snd (curateGuardedHandler h request r s))"
  unfolding curateGuardedHandler_def Let_def by (intro attempt_keeps pair_keeps andThen_keeps append_keeps curate_keeps) simp_all

lemma recall_keeps: "profileOk h s \<Longrightarrow> profileOk h (snd (recallAuthorizationHandler h request r s))"
  unfolding recallAuthorizationHandler_def Let_def
  by (auto intro!: attempt_keeps andThen_keeps getOrCreate_keeps append_keeps profileOk_updates(1))

lemma ranking_keeps: "profileOk h s \<Longrightarrow> profileOk h (snd (attributionRankingPolicyHandler h request r s))"
  unfolding attributionRankingPolicyHandler_def Let_def
  by (auto intro!: attempt_keeps andThen_keeps getOrCreate_keeps append_keeps profileOk_updates(2))

lemma shadowWrite_keeps: "profileOk h s \<Longrightarrow> profileOk h (snd (shadowWriteHandler h request r s))"
  unfolding shadowWriteHandler_def Let_def
  by (auto intro!: attempt_keeps andThen_keeps shadowWriteLoop_keeps profileOk_updates(5) simp: profileOk_ids)

lemma demote_keeps: "profileOk h s \<Longrightarrow> profileOk h (snd (demoteHandler h request r s))"
  unfolding demoteHandler_def demoteKept_def Let_def
  by (auto intro!: attempt_keeps andThen_keeps pair_keeps auditIf_keeps demotion_keeps split: option.split) (erule candidate_index)+

lemma replayEval_keeps: "profileOk h s \<Longrightarrow> profileOk h (snd (replayEvalHandler h request r s))"
  unfolding replayEvalHandler_def Let_def
  by (auto intro!: attempt_keeps pair_keeps evaluation_keeps intro: candidate_index split: option.split)

lemma promote_keeps: "profileOk h s \<Longrightarrow> profileOk h (snd (promoteHandler h request r s))"
  unfolding promoteHandler_def Let_def
  by (auto intro!: attempt_keeps pair_keeps promotion_keeps split: option.split) (erule candidate_index)+

lemma addWeight_keeps: "profileOk h s \<Longrightarrow> profileOk h (snd (addWeightHandler h request r s))"
  unfolding addWeightHandler_def
  by (auto intro!: attempt_keeps andThen_keeps ledgerUpsert_keeps adjust_keeps intro: candidate_index split: option.split)

lemma feedback_keeps: "profileOk h s \<Longrightarrow> profileOk h (snd (feedbackHandler h request r s))"
  unfolding feedbackHandler_def Let_def
  by (auto intro!: attempt_keeps andThen_keeps mapSignal_keeps auditIf_keeps harmful_keeps profileOk_updates(8) distinct_upsert
      simp: profileOk_ids)

lemma outcome_keeps: "profileOk h s \<Longrightarrow> profileOk h (snd (outcomeHandler h request r s))"
  unfolding outcomeHandler_def Let_def
  by (auto intro!: attempt_keeps andThen_keeps mapSignal_keeps auditIf_keeps profileOk_updates(9) distinct_upsert simp: profileOk_ids)

lemmas operation_keeps = decision_keeps read_only_keeps context_keeps ingest_keeps curate_op_keeps curateGuarded_keeps recall_keeps
  ranking_keeps shadowWrite_keeps demote_keeps replayEval_keeps promote_keeps addWeight_keeps feedback_keeps outcome_keeps

lemma opHandler_keeps: "profileOk h s \<Longrightarrow> profileOk h (snd (opHandler h plugin op request r s))"
  by (cases op) (simp_all add: operation_keeps)

interpretation core: profile_machine h "opHandler h plugin" opName "\<lambda>s p. profileOk h" for h plugin
  by unfold_locales (simp_all add: new_profileOk opHandler_keeps)

end
