(* ===== verification/Core_Frames.thy ===== *)
theory Core_Frames
  imports Core_Invariants
begin

text \<open>
  What the operations of the API core leave alone. The contract \<open>rule_frame\<close>: a property of a profile
  that no change outside the rules and decisions touches, and no change of the rules that adds no statement. All
  operations but \<open>curate_guarded\<close>, \<open>promote\<close> and \<open>policy_decision_update\<close> keep such a property.
\<close>

section \<open>Statements of rules\<close>

definition statements :: "js_value list \<Rightarrow> js_value set" where
  "statements rules = getProp ''statement'' ` set rules"

lemma statements_ids: "statements rules = set (idsOf ''statement'' rules)"
  by (simp add: statements_def)

lemma statements_sort [simp]: "statements (Core_State.sortByTimestampAndId h xs a b) = statements xs"
  by (simp add: statements_def Core_State.sortByTimestampAndId_def)

lemma statements_removeRule: "statements (snd (removeRule i rules)) \<subseteq> statements rules"
proof (cases "findIndex (\<lambda>rule. getProp ''ruleId'' rule = i) rules")
  case (Some j)
  have "set (take j rules @ drop (Suc j) rules) \<subseteq> set rules" by (auto dest: in_set_takeD in_set_dropD)
  then show ?thesis by (auto simp: removeRule_def Some statements_def)
qed (simp add: removeRule_def)

lemma statements_weightRule: "statements (snd (weightRule n w i rules)) = statements rules"
proof (cases "findIndex (\<lambda>rule. getProp ''ruleId'' rule = i) rules")
  case (Some j)
  then have "idsOf ''statement'' (rules[j := spread (rules ! j) kvs]) = idsOf ''statement'' rules"
    if "''statement'' \<notin> fst ` set kvs" for kvs
    using findIndex_SomeD [OF Some] that by (intro candidate_ids) simp_all
  then show ?thesis by (simp add: weightRule_def Some Let_def statements_ids del: set_map)
qed (simp add: weightRule_def)

lemma statements_signals:
  "statements (snd (signalPass m e (signalledRule u) i n xs)) = statements xs"
proof -
  have "idsOf ''statement'' (snd (signalPass m e (signalledRule u) i n xs)) = idsOf ''statement'' xs"
    by (rule signalPass_ids) (simp add: signalledRule_def getProp_spread_other)
  then show ?thesis by (simp only: statements_ids del: set_map)
qed

section \<open>The contract\<close>

locale rule_frame =
  fixes P :: "ProfileState \<Rightarrow> bool"
  assumes events: "P s \<Longrightarrow> P (s\<lparr>st_events := es\<rparr>)"
    and digests: "P s \<Longrightarrow> P (s\<lparr>st_eventDigests := ds\<rparr>)"
    and allowlist: "P s \<Longrightarrow> P (s\<lparr>st_recallAllowlistPolicy := v\<rparr>)"
    and ranking: "P s \<Longrightarrow> P (s\<lparr>st_attributionRankingPolicy := v\<rparr>)"
    and trail: "P s \<Longrightarrow> P (s\<lparr>st_policyAuditTrail := xs\<rparr>)"
    and candidates: "P s \<Longrightarrow> P (s\<lparr>st_shadowCandidates := xs\<rparr>)"
    and evaluations: "P s \<Longrightarrow> P (s\<lparr>st_replayEvaluations := xs\<rparr>)"
    and feedback: "P s \<Longrightarrow> P (s\<lparr>st_feedback := xs\<rparr>)"
    and outcomes: "P s \<Longrightarrow> P (s\<lparr>st_outcomes := xs\<rparr>)"
    and ledger: "P s \<Longrightarrow> P (s\<lparr>st_weightAdjustmentLedger := xs\<rparr>)"
    and rules: "\<lbrakk>P s; statements xs \<subseteq> statements (st_rules s)\<rbrakk> \<Longrightarrow> P (s\<lparr>st_rules := xs\<rparr>)"
begin

lemmas updates = events digests allowlist ranking trail candidates evaluations feedback outcomes ledger

lemmas attempts = attempt_kept [of P]
lemmas andThens = andThen_kept [of P]

lemma pairs: "\<lbrakk>P (snd m); \<And>x s. P s \<Longrightarrow> P (snd (f x s))\<rbrakk> \<Longrightarrow> P (snd (case m of (x, s) \<Rightarrow> f x s))"
  by (cases m) simp

lemma append: "P s \<Longrightarrow> P (snd (appendPolicyAuditTrail h raw s))"
  by (simp add: append_eq trail split: sum.split)

lemma auditIf: "P s \<Longrightarrow> P (snd (auditIf b h raw s))"
  by (simp add: auditIf_def append)

lemma policies:
  "P s \<Longrightarrow> P (snd (getOrCreateRecallAllowlistPolicy h storeId profile s))"
  "P s \<Longrightarrow> P (snd (getOrCreateAttributionRankingPolicy h storeId profile s))"
  by (simp_all add: getOrCreateRecallAllowlistPolicy_def getOrCreateAttributionRankingPolicy_def attempt_def updates split: sum.split)

lemma ensure: "P s \<Longrightarrow> P (snd (ensureRecallAuthorizationForOperation h storeId profile requester operation timestamp s))"
  unfolding ensureRecallAuthorizationForOperation_def Let_def by (intro attempts andThens policies append) simp_all

lemma ingestLoop: "P s \<Longrightarrow> P (snd (ingestLoop h events index run s))"
proof (induction h events index run s rule: ingestLoop.induct)
  case (2 h event rest index run s)
  have "P (snd (ingestEvent n run s))" for n using 2(2) by (simp add: ingestEvent_def updates)
  with 2 show ?case by (auto split: sum.split prod.split) (metis snd_conv)
qed simp

lemma shadowLoop: "P s \<Longrightarrow> P (snd (shadowWriteLoop h r request t raws applied s))"
proof (induction raws arbitrary: applied s)
  case (Cons raw raws)
  then show ?case by (auto split: sum.split prod.split intro!: Cons.IH updates)
qed simp

lemma demotion: "P s \<Longrightarrow> P (snd (applyCandidateDemotion h found t codes s))"
proof (cases found)
  case (Some i)
  assume s: "P s"
  have "P (s\<lparr>st_shadowCandidates := xs, st_rules := snd (removeRule j (st_rules s))\<rparr>)" for xs j
    using statements_removeRule [of j "st_rules s"] s by (intro rules candidates) simp_all
  then show ?thesis using s by (simp add: applyCandidateDemotion_def Let_def Some)
qed (simp add: applyCandidateDemotion_def Let_def)

lemma demoteAll: "P s \<Longrightarrow> P (snd (demoteAll h t targets demoted removed s))"
proof (induction targets arbitrary: demoted removed s)
  case (Cons c targets)
  obtain d s' where e: "applyCandidateDemotion h (resolveMemoryCandidate s c) t
      (strs [DEMOTION_REASON_EXPLICIT_HARMFUL_FEEDBACK]) s = (d, s')" by fastforce
  then have "P s'" using demotion [OF Cons.prems, of h "resolveMemoryCandidate s c" t "strs [DEMOTION_REASON_EXPLICIT_HARMFUL_FEEDBACK]"] by simp
  then show ?case by (simp add: e Cons.IH)
qed simp

lemma harmful: "P s \<Longrightarrow> P (snd (harmfulDemotion h f s))"
  unfolding harmfulDemotion_def by (intro attempts pairs demoteAll) (auto split: prod.split)

lemma evaluation: "P s \<Longrightarrow> P (snd (storeEvaluation h i c e s))"
  unfolding storeEvaluation_def Let_def by (auto intro!: pairs demotion updates)

lemma ledgerUpsert: "P s \<Longrightarrow> P (snd (upsertWeightAdjustmentLedgerEntry h raw s))"
  unfolding upsertWeightAdjustmentLedgerEntry_def storeLedger_def
  by (rule attempts) (auto intro!: attempts ledger split: option.split)

lemma adjust: "P s \<Longrightarrow> P (snd (adjustWeight h r n i s))"
  unfolding adjustWeight_def Let_def
  by (intro andThens append ledgerUpsert rules candidates) (simp_all add: statements_weightRule)

lemma candidateSignals: "P s \<Longrightarrow> P (snd (signalCandidates h u ruleIds candidateIds s))"
  by (auto simp: signalCandidates_def split: prod.split intro!: attempts updates)

lemma ruleSignals: "P s \<Longrightarrow> P (snd (signalRules h u ruleIds candidateIds updated s))"
proof -
  have "P (s\<lparr>st_rules := snd (signalPass m e (signalledRule u) i n (st_rules s))\<rparr>)" if "P s" for s m e i n
    using that by (intro rules) (simp_all add: statements_signals)
  then show "P s \<Longrightarrow> ?thesis"
    by (auto simp: signalRules_def split: prod.split intro!: attempts) (metis snd_conv)
qed

lemma signals: "P s \<Longrightarrow> P (snd (mapSignal h known ruleIds candidateIds u s))"
  unfolding mapSignal_def applyUtilitySignalToCandidatesAndRules_def Let_def
  by (auto intro!: attempts andThens candidateSignals ruleSignals)

section \<open>The operations\<close>

lemma reports:
  assumes "P s"
  shows "P (snd (reflectHandler h request r s))" "P (snd (validateHandler h request r s))"
    "P (snd (shadowAttributionHandler h request r s))" "P (snd (attributionReportHandler h request r s))"
    "P (snd (auditHandler h request r s))" "P (snd (exportHandler h request r s))" "P (snd (doctorHandler h request r s))"
  using assms
  by (simp_all add: reflectHandler_def validateHandler_def shadowAttributionHandler_def attributionReportHandler_def auditHandler_def
      exportHandler_def doctorHandler_def attempt_def Let_def split: sum.split)

lemma recallPack: "P s \<Longrightarrow> P (snd (contextHandler h request r s))"
  unfolding contextHandler_def by (auto intro!: attempts andThens ensure)

lemma ingest: "P s \<Longrightarrow> P (snd (ingestHandler h request r s))"
  unfolding ingestHandler_def by (auto intro!: andThens ingestLoop)

lemma curate: "P s \<Longrightarrow> P (snd (curateHandler h request r s))"
  unfolding curateHandler_def Let_def applyCurateMutations_def by (auto intro!: attempts rules)

lemma recall: "P s \<Longrightarrow> P (snd (recallAuthorizationHandler h request r s))"
  unfolding recallAuthorizationHandler_def Let_def by (auto intro!: attempts andThens policies append allowlist)

lemma rankingPolicy: "P s \<Longrightarrow> P (snd (attributionRankingPolicyHandler h request r s))"
  unfolding attributionRankingPolicyHandler_def Let_def by (auto intro!: attempts andThens policies append ranking)

lemma shadowWrite: "P s \<Longrightarrow> P (snd (shadowWriteHandler h request r s))"
  unfolding shadowWriteHandler_def Let_def by (auto intro!: attempts andThens shadowLoop candidates)

lemma demote: "P s \<Longrightarrow> P (snd (demoteHandler h request r s))"
  unfolding demoteHandler_def demoteKept_def Let_def
  by (auto intro!: attempts andThens pairs auditIf demotion split: option.split)

lemma replayEval: "P s \<Longrightarrow> P (snd (replayEvalHandler h request r s))"
  unfolding replayEvalHandler_def Let_def by (auto intro!: attempts pairs evaluation split: option.split)

lemma addWeight: "P s \<Longrightarrow> P (snd (addWeightHandler h request r s))"
  unfolding addWeightHandler_def by (auto intro!: attempts andThens ledgerUpsert adjust split: option.split)

lemma feedbacks: "P s \<Longrightarrow> P (snd (feedbackHandler h request r s))"
  unfolding feedbackHandler_def Let_def by (auto intro!: attempts andThens signals auditIf harmful feedback)

lemma outcome: "P s \<Longrightarrow> P (snd (outcomeHandler h request r s))"
  unfolding outcomeHandler_def Let_def by (auto intro!: attempts andThens signals auditIf outcomes)

lemma kept_by:
  assumes "P s" "op \<notin> {OpCurateGuarded, OpPromote, OpPolicyDecisionUpdate}"
  shows "P (snd (opHandler h plugin op request r s))"
  using assms by (cases op) (simp_all add: reports recallPack ingest curate recall rankingPolicy shadowWrite demote replayEval addWeight
      feedbacks outcome)

end

end
