(* ===== verification/Core_Shape.thy ===== *)
theory Core_Shape
  imports Core_Invariants Json_Shape
begin

text \<open>
  The API core compares records by their stable texts. Two objects of one stable text have the same
  members under their names: in particular the same strings.
\<close>

lemma map_of_reordered:
  assumes "distinct (map fst kvs)" "mset xs = mset kvs"
  shows "map_of xs = map_of kvs"
  using assms by (metis map_of_inject_set mset_eq_setD mset_map mset_eq_imp_distinct_iff)

lemma sorted_members:
  assumes "distinct (map fst kvs)"
  shows "getProp k (stableSortObject (Obj kvs)) = (case map_of kvs k of Some v \<Rightarrow> stableSortObject v | None \<Rightarrow> Undefined)"
proof -
  let ?ms = "map (\<lambda>(k, v). (k, stableSortObject v)) kvs"
  have "map_of (arraySort (key fst codeUnitOrder) ?ms) = map_of ?ms"
    using assms by (intro map_of_reordered) (simp_all add: o_def split_def)
  moreover have "map_of ?ms k = map_option stableSortObject (map_of kvs k)" by (simp add: map_of_map)
  ultimately show ?thesis by (cases "map_of kvs k") simp_all
qed

text \<open>The members that are printed, by name.\<close>

definition printed :: "js_value \<Rightarrow> string \<Rightarrow> json_shape option" where
  "printed v k = (if getProp k v = Undefined then None else Some (shapeOf (jsonOf (getProp k v))))"

lemma map_of_defined:
  "distinct (map fst kvs) \<Longrightarrow> map_of (filter (\<lambda>(k, v). v \<noteq> Undefined) kvs) k =
     (case map_of kvs k of Some v \<Rightarrow> if v = Undefined then None else Some v | None \<Rightarrow> None)"
  by (induction kvs) (auto split: option.split simp: map_of_eq_None_iff)

lemma printed_shape:
  assumes "distinct (map fst kvs)" "shapeOf (jsonOf (Obj kvs)) = SObj ms"
  shows "map_of ms k = printed (Obj kvs) k"
proof -
  have "map_of ms k = map_option (\<lambda>v. shapeOf (jsonOf v)) (map_of (filter (\<lambda>(k, v). v \<noteq> Undefined) kvs) k)"
    using assms(2) map_of_map [of "\<lambda>v. shapeOf (jsonOf v)" "filter (\<lambda>(k, v). v \<noteq> Undefined) kvs"]
    by (auto simp: split_def o_def)
  then show ?thesis using map_of_defined [OF assms(1), of k] by (auto simp: printed_def split: option.splits)
qed

lemma stable_equal_members:
  assumes "uniqueNames v" "uniqueNames w" "isObj v" "isObj w" "stableStringify v = stableStringify w"
  shows "printed (stableSortObject v) k = printed (stableSortObject w) k"
proof -
  have "\<exists>xs. stableSortObject u = Obj xs \<and> distinct (map fst xs)" if "uniqueNames u" "isObj u" for u
  proof -
    from that obtain kvs where kvs: "u = Obj kvs" "distinct (map fst kvs)" by (cases u) (simp_all add: uniqueNames_def isObj_def)
    have "map fst (map (\<lambda>(k, v). (k, stableSortObject v)) kvs) = map fst kvs" by (simp add: split_def)
    with kvs show ?thesis by (simp add: distinct_map_sort split_def o_def)
  qed
  from this [OF assms(1,3)] this [OF assms(2,4)] obtain xs ys
    where "stableSortObject v = Obj xs" "distinct (map fst xs)" "stableSortObject w = Obj ys" "distinct (map fst ys)" by blast
  moreover have "shapeOf (jsonOf (stableSortObject v)) = shapeOf (jsonOf (stableSortObject w))"
    using assms(5) unfolding stableStringify_def by (rule stringify_shape)
  ultimately show ?thesis using printed_shape [of xs _ k] printed_shape [of ys _ k] by simp
qed

lemma stable_equal_string:
  assumes "uniqueNames v" "uniqueNames w" "stableStringify v = stableStringify w" "getProp k v = Str s" "isObj w"
  shows "getProp k w = Str s"
proof -
  from assms(4) have v: "isObj v" by (cases v) (simp_all add: isObj_def)
  have sorted: "getProp k (stableSortObject u) = stableSortObject (getProp k u)" if "uniqueNames u" "isObj u" for u
    using that sorted_members [of _ k] by (cases u) (auto simp: uniqueNames_def isObj_def simp del: stableSortObject.simps(2) split: option.split)
  from stable_equal_members [OF assms(1,2) v assms(5) assms(3), of k]
  have "printed (stableSortObject w) k = Some (SStr s)"
    using sorted [OF assms(1) v] assms(4) by (simp add: printed_def)
  then show ?thesis using sorted [OF assms(2,5)] by (cases "getProp k w") (auto simp: printed_def split: if_splits)
qed

end
