(* ===== verification/Core_Decision_Properties.thy ===== *)
theory Core_Decision_Properties
  imports Core_Frames Core_Shape Core_Recall_Properties
begin

text \<open>
  Runs of the API core, and what they guarantee of policy decisions: a plugin that does not pass a decision
  denies it, and a denied decision stays denied.
\<close>

section \<open>Runs\<close>

text \<open>Calls of the modelled operations, each with the plugin that is set when it is made.\<close>

definition executeAll :: "core_host \<Rightarrow> (policy_plugin \<times> js_value \<times> js_value) list \<Rightarrow> stores \<Rightarrow> stores" where
  "executeAll h calls stores =
     fold (\<lambda>(plugin, operation, request) stores. snd (executeOperation h plugin (\<lambda>_. None) operation request stores)) calls stores"

lemma execute_cases:
  obtains (kept) "snd (executeOperation h plugin (\<lambda>_. None) operation request stores) = stores"
  | (run) c given where "snd (executeOperation h plugin (\<lambda>_. None) operation request stores)
      = snd (runOperation h (opName c) (opHandler h plugin c given) given stores)"
proof (cases "map_of RUNNERS (toLowerCase (trim (strOrEmpty operation)))")
  case None
  then have "snd (executeOperation h plugin (\<lambda>_. None) operation request stores) = stores"
    by (simp add: executeOperation_def Let_def)
  then show thesis by (rule kept)
next
  case (Some c)
  then have "snd (executeOperation h plugin (\<lambda>_. None) operation request stores)
      = snd (runOperation h (opName c) (opHandler h plugin c (orElse request (Obj []))) (orElse request (Obj [])) stores)"
    by (simp add: executeOperation_def Let_def)
  then show thesis by (rule run)
qed

lemma executeAll_kept:
  assumes "\<And>plugin c request stores. Q stores \<Longrightarrow> Q (snd (runOperation h (opName c) (opHandler h plugin c request) request stores))"
  shows "Q stores \<Longrightarrow> Q (executeAll h calls stores)"
proof (induction calls arbitrary: stores)
  case (Cons call calls)
  obtain plugin operation request where call: "call = (plugin, operation, request)" by (metis prod_cases3)
  have "Q (snd (executeOperation h plugin (\<lambda>_. None) operation request stores))"
    using Cons.prems assms by (cases rule: execute_cases [of h plugin operation request stores]) simp_all
  from Cons.IH [OF this] show ?case by (simp add: executeAll_def call)
qed (simp add: executeAll_def)

lemma executeAll_append: "executeAll h (xs @ ys) stores = executeAll h ys (executeAll h xs stores)"
  by (simp add: executeAll_def)

lemma reachable_ok: "allProfiles (\<lambda>s p. profileOk h) (executeAll h calls [])"
  by (rule executeAll_kept) (rule core.kept_by_call, simp_all add: allProfiles_def findProfile_def getStoreProfiles_def)

lemma findProfile_ok: "\<lbrakk>allProfiles (\<lambda>s p. profileOk h) stores; findProfile s p stores = Some state\<rbrakk> \<Longrightarrow> profileOk h state"
  by (simp add: allProfiles_def)

lemma getProfile_ok: "allProfiles (\<lambda>s p. profileOk h) stores \<Longrightarrow> profileOk h (getProfileState h s p stores)"
  by (auto simp: getProfileState_def allProfiles_def new_profileOk split: option.split)

lemma run_state:
  assumes "normalizeRequest operation request = Inr r"
  shows "fst (runOperation h operation handle request stores)
      = fst (handle r (getProfileState h (rq_storeId r) (rq_profile r) stores))"
    and "findProfile (rq_storeId r) (rq_profile r) (snd (runOperation h operation handle request stores))
      = Some (snd (handle r (getProfileState h (rq_storeId r) (rq_profile r) stores)))"
  using assms by (simp_all add: runOperation_def split: prod.split)

section \<open>What a decision update stores\<close>

lemma members_of_spread:
  "getProp k (spread v kvs) = (case map_of (rev kvs) k of Some x \<Rightarrow> x | None \<Rightarrow> getProp k v)"
proof -
  have "getProp k (Obj (fold (\<lambda>(k, v). setProp k v) kvs own)) = (case map_of (rev kvs) k of Some x \<Rightarrow> x | None \<Rightarrow> getProp k (Obj own))" for own
    by (induction kvs arbitrary: own) (auto simp: getProp_setProp_eq map_add_def simp del: getProp.simps split: option.split)
  from this [of "case v of Obj own \<Rightarrow> own | _ \<Rightarrow> []"] show ?thesis by (cases v) (simp_all add: spread_def split: option.split)
qed

lemma merged_members:
  "getProp ''decisionId'' (mergePolicyDecision h d x) = getProp ''decisionId'' d"
  "getProp ''outcome'' (mergePolicyDecision h d x) = Str (mergedOutcome d x)"
  by (simp_all add: mergePolicyDecision_def members_of_spread)

lemma applied_members:
  "getProp ''decisionId'' (applyPolicyPackInvocationToDecision h x i) = getProp ''decisionId'' x"
  "getProp ''outcome'' (applyPolicyPackInvocationToDecision h x i) = enforcedOutcome x i"
  by (simp_all add: applyPolicyPackInvocationToDecision_def members_of_spread)

lemma outcome_deny [simp]: "getProp ''outcome'' d = Str ''deny'' \<Longrightarrow> decisionOutcome d = ''deny''"
proof -
  have "normalizeBoundedStringLenient (Str ''deny'') 16 = Some ''deny''" "toLowerCase ''deny'' = ''deny''" by code_simp+
  then show "getProp ''outcome'' d = Str ''deny'' \<Longrightarrow> decisionOutcome d = ''deny''" by (simp add: decisionOutcome_def)
qed

lemma severity_bound: "severity o' = Some n \<Longrightarrow> n \<le> 3 \<and> (n = 3 \<longrightarrow> o' = ''deny'')"
  by (auto simp: severity_def split: if_split_asm)

lemma severity_deny [simp]: "severity ''deny'' = Some 3"
  by (simp add: severity_def)

lemma deny_wins:
  assumes "getProp ''outcome'' x = Str ''deny''"
  shows "mergedOutcome d x = ''deny''"
proof (cases "severity (decisionOutcome d)")
  case (Some n)
  then show ?thesis using severity_bound [OF Some] assms by (auto simp: mergedOutcome_def)
qed (simp add: mergedOutcome_def assms)

lemma severity_outcome: "o' \<in> set POLICY_OUTCOMES \<Longrightarrow> \<exists>n \<le> 3. severity o' = Some n"
  by (auto simp: POLICY_OUTCOMES_def severity_def)

lemma deny_stays:
  assumes "getProp ''outcome'' d = Str ''deny''" "decisionOutcome x \<in> set POLICY_OUTCOMES"
  shows "mergedOutcome d x = ''deny''"
  using severity_outcome [OF assms(2)] assms(1) by (auto simp: mergedOutcome_def)

text \<open>A denied decision: one of that id, with the outcome deny.\<close>

definition denied :: "js_value \<Rightarrow> js_value list \<Rightarrow> bool" where
  "denied i ds = (\<exists>d \<in> set ds. getProp ''decisionId'' d = i \<and> getProp ''outcome'' d = Str ''deny'')"

lemma storeDecision_denies:
  assumes "list_all uniqueNames ds" "uniqueNames x" "getProp ''outcome'' x = Str ''deny''"
  shows "denied (getProp ''decisionId'' x) (sd_decisions (storeDecision h x ds))"
    and "getProp ''outcome'' (sd_next (storeDecision h x ds)) = Str ''deny''"
proof -
  have "denied (getProp ''decisionId'' x) (sd_decisions (storeDecision h x ds))
     \<and> getProp ''outcome'' (sd_next (storeDecision h x ds)) = Str ''deny''"
  proof (cases "findIndex (\<lambda>d. getProp ''decisionId'' d = getProp ''decisionId'' x) ds")
    case None
    with assms(3) show ?thesis by (simp add: storeDecision_def denied_def)
  next
    case (Some i)
    let ?d = "ds ! i" let ?m = "mergePolicyDecision h ?d x"
    from findIndex_SomeD [OF Some] have i: "i < length ds" "getProp ''decisionId'' ?d = getProp ''decisionId'' x" by auto
    have m: "getProp ''outcome'' ?m = Str ''deny''" using deny_wins [OF assms(3)] by (simp add: merged_members)
    show ?thesis
    proof (cases "stableStringify ?d = stableStringify ?m")
      case True
      have u: "uniqueNames ?d" using assms(1) i by (simp add: list_all_length)
      then have "uniqueNames ?m" unfolding mergePolicyDecision_def by (rule spread_unique)
      moreover have "isObj ?d"
      proof -
        have "isObj ?m" by (simp add: mergePolicyDecision_def spread_def isObj_def)
        then show ?thesis using True stringify_shape [of "jsonOf (stableSortObject ?m)" "jsonOf (stableSortObject ?d)"]
          by (cases ?d; cases ?m) (auto simp: stableStringify_def isObj_def)
      qed
      ultimately have "getProp ''outcome'' ?d = Str ''deny''"
        using stable_equal_string [OF _ u True [symmetric] m] by blast
      with True i show ?thesis by (auto simp: storeDecision_def Some Let_def denied_def)
    next
      case False
      with i m show ?thesis by (auto simp: storeDecision_def Some Let_def denied_def merged_members set_update_memI intro!: bexI [of _ ?m])
    qed
  qed
  then show "denied (getProp ''decisionId'' x) (sd_decisions (storeDecision h x ds))"
    and "getProp ''outcome'' (sd_next (storeDecision h x ds)) = Str ''deny''" by blast+
qed

lemma storeDecision_keeps_denial:
  assumes "distinct (idsOf ''decisionId'' ds)" "denied j ds" "decisionOutcome x \<in> set POLICY_OUTCOMES"
  shows "denied j (sd_decisions (storeDecision h x ds))"
proof (cases "findIndex (\<lambda>d. getProp ''decisionId'' d = getProp ''decisionId'' x) ds")
  case None
  with assms(2) show ?thesis by (auto simp: storeDecision_def denied_def)
next
  case (Some i)
  from findIndex_SomeD [OF Some] have i: "i < length ds" "getProp ''decisionId'' (ds ! i) = getProp ''decisionId'' x" by auto
  from assms(2) obtain k where k: "k < length ds" "getProp ''decisionId'' (ds ! k) = j" "getProp ''outcome'' (ds ! k) = Str ''deny''"
    by (auto simp: denied_def in_set_conv_nth)
  let ?m = "mergePolicyDecision h (ds ! i) x"
  have "denied j (ds[i := ?m])"
  proof (cases "k = i")
    case True
    with k i show ?thesis
      using deny_stays [OF k(3) assms(3)] by (auto simp: denied_def merged_members set_update_memI intro!: bexI [of _ ?m])
  next
    case False
    with k have "ds ! k \<in> set (ds[i := ?m])" by (metis length_list_update nth_list_update_neq nth_mem)
    with k show ?thesis by (auto simp: denied_def)
  qed
  with assms(2) show ?thesis by (simp add: storeDecision_def Some Let_def)
qed

section \<open>The operation\<close>

lemma request_outcome:
  assumes "normalizePolicyDecisionUpdateRequest h request s p = Inr x"
  obtains o' where "getProp ''outcome'' x = Str o'" "o' \<in> set POLICY_OUTCOMES"
  using assms by (auto simp: normalizePolicyDecisionUpdateRequest_def Let_def chain_eq_Inr normalizeDeterministicEnum_def
      POLICY_OUTCOMES_def split: if_splits)

lemma outcome_of_string: "\<lbrakk>getProp ''outcome'' d = Str o'; o' \<in> set POLICY_OUTCOMES\<rbrakk> \<Longrightarrow> decisionOutcome d \<in> set POLICY_OUTCOMES"
proof -
  have "list_all (\<lambda>o'. normalizeBoundedStringLenient (Str o') 16 = Some o' \<and> toLowerCase o' = o') POLICY_OUTCOMES" by code_simp
  then show "\<lbrakk>getProp ''outcome'' d = Str o'; o' \<in> set POLICY_OUTCOMES\<rbrakk> \<Longrightarrow> decisionOutcome d \<in> set POLICY_OUTCOMES"
    by (auto simp: decisionOutcome_def POLICY_OUTCOMES_def Let_def)
qed

lemma applied_outcome:
  assumes "normalizePolicyDecisionUpdateRequest h request s p = Inr x"
  shows "decisionOutcome (applyPolicyPackInvocationToDecision h x i) \<in> set POLICY_OUTCOMES"
proof -
  obtain o' where o': "getProp ''outcome'' x = Str o'" "o' \<in> set POLICY_OUTCOMES" using assms by (rule request_outcome)
  show ?thesis
    by (rule outcome_of_string [of _ "if enforcedOutcome x i = Str ''deny'' then ''deny'' else o'"])
       (use o' in \<open>auto simp: applied_members enforcedOutcome_def POLICY_OUTCOMES_def\<close>)
qed

definition storedBy :: "core_host \<Rightarrow> policy_plugin \<Rightarrow> string \<Rightarrow> js_value \<Rightarrow> ProfileState \<Rightarrow> stored_decision" where
  "storedBy h plugin storeId x s = storeDecision h
     (applyPolicyPackInvocationToDecision h x (invokePolicyPackPluginForDecisionUpdate h plugin storeId x)) (st_policyDecisions s)"

lemma decision_handler:
  assumes "normalizePolicyDecisionUpdateRequest h request (rq_storeId r) (rq_profile r) = Inr x"
  shows "st_policyDecisions (snd (policyDecisionUpdateHandler h plugin request r s)) = sd_decisions (storedBy h plugin (rq_storeId r) x s)"
    and "fst (policyDecisionUpdateHandler h plugin request r s) = Inr v \<Longrightarrow>
      getProp ''decision'' v = sd_next (storedBy h plugin (rq_storeId r) x s)"
  using assms
  by (auto simp: policyDecisionUpdateHandler_def Let_def andThen_def append_eq storedBy_def members_of_spread split: sum.splits)

lemma failed_request:
  "normalizePolicyDecisionUpdateRequest h request (rq_storeId r) (rq_profile r) = Inl e \<Longrightarrow>
     snd (policyDecisionUpdateHandler h plugin request r s) = s"
  by (simp add: policyDecisionUpdateHandler_def)

text \<open>The plugin passes a decision: it answers, keeps the contract, and its outcome is pass.\<close>

definition passes :: "core_host \<Rightarrow> policy_plugin \<Rightarrow> string \<Rightarrow> js_value \<Rightarrow> bool" where
  "passes h plugin storeId incoming =
     (case resolvePolicyPackPluginRawResponse (pp_evaluate plugin (pluginRequest storeId incoming)) of
        Inl _ \<Rightarrow> False
      | Inr answer \<Rightarrow> (case normalizePolicyPackPluginResponse h answer of Inl _ \<Rightarrow> False | Inr p \<Rightarrow> pr_outcome p = ''pass''))"

lemma response_outcome: "normalizePolicyPackPluginResponse h v = Inr p \<Longrightarrow> pr_outcome p \<in> {''pass'', ''deny''}"
  by (auto simp: normalizePolicyPackPluginResponse_def Let_def chain_eq_Inr split: if_splits)

lemma not_passed_denied:
  "\<not> passes h plugin storeId x \<Longrightarrow> enforcedOutcome x (invokePolicyPackPluginForDecisionUpdate h plugin storeId x) = Str ''deny''"
  using response_outcome
  by (fastforce simp: passes_def enforcedOutcome_def invokePolicyPackPluginForDecisionUpdate_def toFailClosedPolicyPackInvocation_def Let_def
      split: sum.splits)

text \<open>C11: Policy decisions fail closed: when the plugin throws, answers with a promise or a failed effect, breaks
  its contract or denies, the decision that is stored is denied, whatever the request asked for and
  whatever was stored before, and so is the decision of the answer.\<close>

theorem plugin_fails_closed:
  assumes "normalizeRequest ''policy_decision_update'' request = Inr r"
    and "normalizePolicyDecisionUpdateRequest h request (rq_storeId r) (rq_profile r) = Inr x"
    and "allProfiles (\<lambda>s p. profileOk h) stores"
    and "\<not> passes h plugin (rq_storeId r) x"
  shows "\<exists>state. findProfile (rq_storeId r) (rq_profile r) (snd (runPolicyDecisionUpdate h plugin request stores)) = Some state
      \<and> denied (getProp ''decisionId'' x) (st_policyDecisions state)
      \<and> (\<forall>v. fst (runPolicyDecisionUpdate h plugin request stores) = Inr v \<longrightarrow>
          getProp ''outcome'' (getProp ''decision'' v) = Str ''deny'')"
proof -
  let ?s = "getProfileState h (rq_storeId r) (rq_profile r) stores"
  let ?x = "applyPolicyPackInvocationToDecision h x (invokePolicyPackPluginForDecisionUpdate h plugin (rq_storeId r) x)"
  have "list_all uniqueNames (st_policyDecisions ?s)" using getProfile_ok [OF assms(3)] by (rule profileOk_ids)
  moreover have "uniqueNames ?x" using assms(2) by (rule incoming_unique)
  moreover have "getProp ''outcome'' ?x = Str ''deny''" using not_passed_denied [OF assms(4)] by (simp add: applied_members)
  ultimately have stored: "denied (getProp ''decisionId'' x) (sd_decisions (storedBy h plugin (rq_storeId r) x ?s))"
      "getProp ''outcome'' (sd_next (storedBy h plugin (rq_storeId r) x ?s)) = Str ''deny''"
    using storeDecision_denies [of "st_policyDecisions ?s" ?x h] by (simp_all add: storedBy_def applied_members)
  then show ?thesis
    using decision_handler [OF assms(2)] unfolding runPolicyDecisionUpdate_def by (simp add: run_state [OF assms(1)])
qed

section \<open>Denials are kept\<close>

interpretation decisions: rule_frame "\<lambda>s. Q (st_policyDecisions s)" for Q
  by unfold_locales simp_all

lemma curate_keeps_decisions: "Q (st_policyDecisions s) \<Longrightarrow> Q (st_policyDecisions (snd (applyCurateMutations h raws t s)))"
  by (simp add: applyCurateMutations_def split: prod.split)

lemma promote_keeps_decisions: "Q (st_policyDecisions s) \<Longrightarrow> Q (st_policyDecisions (snd (promoteCandidate h i c e t s)))"
  by (simp add: promoteCandidate_def split: prod.split)

lemma curations_keep_decisions:
  assumes "Q (st_policyDecisions s)"
  shows "Q (st_policyDecisions (snd (curateGuardedHandler h request r s)))"
    and "Q (st_policyDecisions (snd (promoteHandler h request r s)))"
proof -
  show "Q (st_policyDecisions (snd (curateGuardedHandler h request r s)))"
    unfolding curateGuardedHandler_def Let_def
    by (intro decisions.attempts [of Q] decisions.pairs [of Q] decisions.andThens [of Q] decisions.append [of Q]
        curate_keeps_decisions [of Q]) (simp_all add: assms)
  show "Q (st_policyDecisions (snd (promoteHandler h request r s)))"
    unfolding promoteHandler_def Let_def using assms
    by (auto intro!: decisions.attempts [of Q] decisions.pairs [of Q] promote_keeps_decisions [of Q] split: option.split)
qed

lemma update_keeps_denial:
  assumes "profileOk h s" "denied i (st_policyDecisions s)"
  shows "denied i (st_policyDecisions (snd (policyDecisionUpdateHandler h plugin request r s)))"
proof (cases "normalizePolicyDecisionUpdateRequest h request (rq_storeId r) (rq_profile r)")
  case (Inr x)
  then show ?thesis
    using storeDecision_keeps_denial [OF profileOk_ids(5) [OF assms(1)] assms(2) applied_outcome [OF Inr]]
    by (simp add: decision_handler(1) storedBy_def)
qed (simp add: failed_request assms)

lemma handler_keeps_denial:
  assumes "profileOk h s" "denied i (st_policyDecisions s)"
  shows "denied i (st_policyDecisions (snd (opHandler h plugin op request r s)))"
proof (cases "op \<in> {OpCurateGuarded, OpPromote, OpPolicyDecisionUpdate}")
  case True
  then show ?thesis using assms by (auto simp: update_keeps_denial curations_keep_decisions [of "denied i"])
next
  case False
  with assms(2) show ?thesis by (rule decisions.kept_by)
qed

text \<open>A profile that is there, with a property.\<close>

definition present :: "string \<Rightarrow> string \<Rightarrow> (ProfileState \<Rightarrow> bool) \<Rightarrow> stores \<Rightarrow> bool" where
  "present s p Q stores = (\<exists>state. findProfile s p stores = Some state \<and> Q state)"

lemma run_keeps_present:
  assumes "\<And>r state. Q state \<Longrightarrow> Q (snd (handle r state))" "present s p Q stores"
  shows "present s p Q (snd (runOperation h operation handle request stores))"
proof (cases "normalizeRequest operation request")
  case (Inr r)
  show ?thesis
  proof (cases "(s, p) = (rq_storeId r, rq_profile r)")
    case True
    with assms(2) have "Q (getProfileState h (rq_storeId r) (rq_profile r) stores)" by (auto simp: present_def getProfileState_def)
    with assms(1) True show ?thesis by (auto simp: present_def run_state [OF Inr])
  next
    case False
    with assms(2) show ?thesis by (simp add: present_def runOperation_frame [OF Inr])
  qed
qed (simp add: runOperation_def assms(2))

text \<open>C5: A denial is permanent: once a decision of a profile is denied it stays denied, whatever operations are
  called afterwards on any store, with whatever plugins.\<close>

theorem denial_permanent:
  assumes "findProfile s p (executeAll h earlier []) = Some state"
    and "denied i (st_policyDecisions state)"
  shows "\<exists>state'. findProfile s p (executeAll h (earlier @ later) []) = Some state' \<and> denied i (st_policyDecisions state')"
proof -
  let ?Q = "\<lambda>state. profileOk h state \<and> denied i (st_policyDecisions state)"
  have "present s p ?Q (executeAll h earlier [])"
    using assms findProfile_ok [OF reachable_ok assms(1)] by (simp add: present_def)
  then have "present s p ?Q (executeAll h later (executeAll h earlier []))"
    by (rule executeAll_kept [rotated]) (rule run_keeps_present, simp_all add: opHandler_keeps handler_keeps_denial)
  then show ?thesis by (auto simp: present_def executeAll_append)
qed

section \<open>Examples\<close>

definition throwingPlugin :: policy_plugin where
  "throwingPlugin = \<lparr>pp_name = Str ''p'', pp_evaluate = (\<lambda>_. PluginThrows ThrownOther)\<rparr>"

definition allowRequest :: js_value where
  "allowRequest = Obj [(''storeId'', Str ''a''), (''policyKey'', Str ''k''), (''decisionId'', Str ''d1''), (''outcome'', Str ''allow''),
     (''provenanceEventIds'', strs [''e1''])]"

definition sampleDecision :: js_value where
  "sampleDecision = projr (normalizePolicyDecisionUpdateRequest sampleCoreHost allowRequest ''a'' INTERNAL_PROFILE_ID)"

lemma sample_update:
  "normalizeRequest ''policy_decision_update'' allowRequest = Inr (sampleNormalized allowRequest ''policy_decision_update'')"
  "normalizePolicyDecisionUpdateRequest sampleCoreHost allowRequest ''a'' INTERNAL_PROFILE_ID = Inr sampleDecision"
  "getProp ''decisionId'' sampleDecision = Str ''d1''"
  by code_simp+

lemma sample_throws: "\<not> passes sampleCoreHost throwingPlugin ''a'' sampleDecision"
  by (simp add: passes_def throwingPlugin_def resolvePolicyPackPluginRawResponse_def)

lemma plugin_fails_closed_witness:
  "\<exists>state. findProfile ''a'' INTERNAL_PROFILE_ID (snd (runPolicyDecisionUpdate sampleCoreHost throwingPlugin allowRequest [])) = Some state
     \<and> denied (Str ''d1'') (st_policyDecisions state)"
  using plugin_fails_closed [OF sample_update(1), of sampleCoreHost sampleDecision "[]" throwingPlugin] sample_update(2,3) sample_throws
  by (auto simp: allProfiles_def findProfile_def getStoreProfiles_def)

definition deniedRun :: "(policy_plugin \<times> js_value \<times> js_value) list" where
  "deniedRun = [(throwingPlugin, Str ''policy_decision_update'', allowRequest)]"

lemma run_of_update:
  "snd (executeOperation h plugin others (Str ''policy_decision_update'') (Obj kvs) stores)
     = snd (runOperation h ''policy_decision_update'' (policyDecisionUpdateHandler h plugin (Obj kvs)) (Obj kvs) stores)"
proof -
  have "map_of RUNNERS (toLowerCase (trim (strOrEmpty (Str ''policy_decision_update'')))) = Some OpPolicyDecisionUpdate" by code_simp
  then show ?thesis by (simp add: executeOperation_def orElse_def nullish_def Let_def)
qed

lemma sample_denied:
  obtains state where "findProfile ''a'' INTERNAL_PROFILE_ID (executeAll sampleCoreHost deniedRun []) = Some state"
    "denied (Str ''d1'') (st_policyDecisions state)"
proof -
  let ?r = "sampleNormalized allowRequest ''policy_decision_update''"
  have "executeAll sampleCoreHost deniedRun [] = snd (runOperation sampleCoreHost ''policy_decision_update''
      (policyDecisionUpdateHandler sampleCoreHost throwingPlugin allowRequest) allowRequest [])"
    by (simp add: executeAll_def deniedRun_def allowRequest_def run_of_update)
  moreover have "denied (Str ''d1'') (sd_decisions (storedBy sampleCoreHost throwingPlugin ''a'' sampleDecision
      (getProfileState sampleCoreHost ''a'' INTERNAL_PROFILE_ID [])))"
    by code_simp
  ultimately show thesis
    using run_state(2) [OF sample_update(1)] decision_handler(1) [of sampleCoreHost allowRequest ?r sampleDecision] sample_update(2) that
    by simp
qed

lemma denial_permanent_witness:
  "\<exists>state'. findProfile ''a'' INTERNAL_PROFILE_ID (executeAll sampleCoreHost
       (deniedRun @ [(createNoopPolicyPackPlugin, Str ''policy_decision_update'', allowRequest)]) []) = Some state'
     \<and> denied (Str ''d1'') (st_policyDecisions state')"
proof -
  obtain state where "findProfile ''a'' INTERNAL_PROFILE_ID (executeAll sampleCoreHost deniedRun []) = Some state"
    "denied (Str ''d1'') (st_policyDecisions state)" by (rule sample_denied)
  then show ?thesis by (rule denial_permanent)
qed

end
