(* ===== verification/Core_Rule_Properties.thy ===== *)
theory Core_Rule_Properties
  imports Core_Decision_Properties Ace_Properties
begin

text \<open>
  How statements get into the rules of a profile: only through the guard of \<open>curate_guarded\<close> or through
  the gate and the freshness check of \<open>promote\<close>.
\<close>

section \<open>The guard of a curation\<close>











section \<open>Statements as an invariant\<close>






section \<open>Every operation\<close>






section \<open>Examples\<close>


definition guardedRequest :: js_value where
  "guardedRequest = Obj [(''storeId'', Str ''a''),
     (''candidates'', Arr [Obj [(''statement'', Str ''use tabs''), (''sourceEventId'', Str ''e1''), (''confidence'', Num (JFin 1))]]),
     (''validations'', Arr [Obj [(''candidateId'', Str ''cand_{\"source\":\"e''), (''valid'', Bool True)]])]"


definition guardedValidations :: "core_validation list" where
  "guardedValidations = projr (normalizeValidations sampleCoreHost guardedRequest)"


lemma guardedRequest_safe:
  "map cc_statement (gr_safe (guardCandidates sampleCoreHost guardedValidations (arrOrEmpty (getProp ''candidates'' guardedRequest))))
     = [''use tabs'']"
  by code_simp





end
