(* ===== verification/Spec2Isabelle.thy ===== *)
theory Spec2Isabelle
  imports Ums_Prelude Js_Number Json_Text Contracts Idempotent_Calls Authorization Tenant_Routing
    Lifecycle Ncm_Model Ncm_Service Ncm_Properties Identity_Model Identity_Service Identity_Sync
    Identity_Properties Federation Ace_Pipeline Ace_Properties Js_Value Redaction Ums_Events Ums_Engine
    Ums_Engine_Properties Ums_Snapshot Json_Parse Snapshot_Codec Snapshot_Properties Snapshot_Order Worklist
    Base64_Url Retrieval_Model Retrieval_Payload Retrieval_Scopes Retrieval_Ranking Retrieval_Cursor
    Retrieval_Pack Retrieval_Service Retrieval_Reconcile Retrieval_Properties Retrieval_Isolation
    Retrieval_Example Json_Shape Core_Values Core_State Core_Audit Core_Recall Core_Attribution Core_Context
    Core_Recall_Properties Core_Decisions Core_Ingest Core_Curation Core_Candidates Core_Shadow Core_Replay
    Core_Signals Core_Feedback Core_Operations Core_Invariants Core_Frames Core_Shape Core_Decision_Properties
    Core_Rule_Properties
begin

text \<open>
  The decision core of ums-memory, a multi-tenant memory system written in TypeScript: the
  services of libs/shared/src/effect/services, the storage snapshots under them, and the API of
  apps/api/src, which decide who may read, write, promote or share a memory.

  \<^bold>\<open>The program and how its parts interact.\<close>  A request enters with identity claims.  The tenant
  router maps the claims and the issuer to one tenant of the catalog; the authorization service
  evaluates the role/action matrix; the enterprise identity service uses both (injected) to open
  sessions, to apply directory (SCIM) events and to authorize users from stored roles.  The retrieval
  service answers queries: it exports a snapshot of the tenant's storage through the snapshot codec,
  parses it, selects the scopes that the request may see, ranks the memories, asks the policy service
  about each, reconciles memories that contradict one another, and delivers pages with cursors,
  explanations and an actionable pack.  Memories are proposed by the reflector, graded by the validator
  and elected by the curation of the ACE pipeline; the lifecycle service carries a candidate from
  shadow through replay evaluation to a rule and back; the NCM service adjusts weights from feedback
  and operator actions; the context pack and the federation modules decide what is served and shared.
  The UMS engine turns raw documents of several platforms into events, redacts them, stores them per
  store and space, and recalls, exports and restores them.  The API core keeps, per store and profile,
  a ledger of events, rules, shadow candidates, evaluations, decisions and an audit trail; its
  operations take untyped requests and use the ACE pipeline for reflection, validation, curation and
  the context pack.

  \<^bold>\<open>Theories, sources, lemmas.\<close>

  \<^item> \<open>Ums_Prelude\<close>: throwing code (\<open>'a result\<close>), exits of Effect programs (success, typed failure,
    defect), the \<open>String\<close>, \<open>Array\<close>, \<open>Set\<close> and \<open>Map\<close> operations the sources call, sorted arrays.
  \<^item> \<open>Js_Number\<close>: binary64 arithmetic with its rounding, \<open>toFixed(6)\<close>, \<open>Math.round\<close> and
    \<open>Number::toString\<close>; monotonicity of rounding and exactness on safe integers.
  \<^item> \<open>Json_Text\<close>: JSON values, key sorting and \<open>JSON.stringify\<close>; printing of string arrays is
    injective.
  \<^item> \<open>Contracts\<close>: effect/contracts and errors.ts, the schema checks and the decoders.
  \<^item> \<open>Authorization\<close>: authorization-service.ts.  Hierarchy of the roles; a denial is a typed
    failure.  Locale \<open>authorization_service\<close>, interpreted as \<open>rbac\<close>.
  \<^item> \<open>Tenant_Routing\<close>: tenant-routing-service.ts.  The index-building decision refines a
    declarative specification of a route.  Locale \<open>tenant_router\<close>, interpreted as \<open>tr\<close>.
  \<^item> \<open>Idempotent_Calls\<close>: the locale \<open>response_cache\<close>, the contract of a service that answers a
    repeated request from a cache, with lemmas about whole histories of calls.
  \<^item> \<open>Lifecycle\<close>: lifecycle-service.ts.  The four operations, the abstract one-slot machine they
    refine, the invariant of the Maps, the promotion gate; interpretation \<open>lifecycle\<close> of
    \<open>response_cache\<close>.
  \<^item> \<open>Ncm_Model\<close>, \<open>Ncm_Service\<close>, \<open>Ncm_Properties\<close>: ncm-hybrid-service.ts.  Data and normalisers;
    the four operations; the locale \<open>replayable_log\<close> (resubmission of a request to a log) with
    its interpretations \<open>ingest_log\<close> and \<open>adjust_log\<close>, weight bounds, console isolation.
  \<^item> \<open>Identity_Model\<close>, \<open>Identity_Service\<close>, \<open>Identity_Sync\<close>, \<open>Identity_Properties\<close>:
    enterprise-identity-service.ts.  Data and normalisers; the four operations; the locale
    \<open>sync_channel\<close> (checkpointed delivery) with its interpretation \<open>directory\<close> on the deliveries
    of user and group events; sessions, rows written, authorization from stored roles.  The
    session lemmas rest on \<open>tr\<close>, those on stored roles on \<open>rbac\<close>.
  \<^item> \<open>Ace_Pipeline\<close>, \<open>Ace_Properties\<close>: ace/reflector.ts, validator.ts, curation-tiebreaks.ts and
    context-pack.ts.  What each stage selects and in which order.
  \<^item> \<open>Federation\<close>: federation/canary-routing.ts and shadow-evaluator.ts.  The canary fails closed;
    the shadow evaluation serves local results only.
  \<^item> \<open>Js_Value\<close>: untyped values (objects, arrays, strings, numbers) and the member access, \<open>||\<close>,
    \<open>??\<close>, \<open>String\<close> and \<open>parseInt\<close> the engine applies to them.
  \<^item> \<open>Redaction\<close>: \<open>redactSecrets\<close> of ums/engine.ts.  Locale \<open>redacting_scan\<close>, the contract of
    one global replacement, interpreted for its three patterns; completeness of the redaction.
  \<^item> \<open>Ums_Events\<close>, \<open>Ums_Engine\<close>: ums/engine.ts.  Normalisation of every input shape; stores,
    ingestion, recall, export and import.
  \<^item> \<open>Ums_Engine_Properties\<close>, \<open>Ums_Snapshot\<close>: ingestion refines first-wins insertion (locale
    \<open>insert_once\<close>, interpreted as \<open>ingestion\<close>), what recall selects, the invariant of the
    reachable states, the round trip of export and import.
  \<^item> \<open>Json_Parse\<close>, \<open>Json_Shape\<close>: \<open>JSON.parse\<close> and its round trip with \<open>JSON.stringify\<close>; texts are equal only for
    values of one shape.
  \<^item> \<open>Snapshot_Codec\<close>, \<open>Snapshot_Properties\<close>, \<open>Snapshot_Order\<close>: effect/storage/sqlite/snapshot-codec.ts.  Export,
    canonical text, strict parser, import; the round trip of a snapshot, the import order of rows that
    refer to rows of their table.
  \<^item> \<open>Worklist\<close>, \<open>Base64_Url\<close>: the worklist loop of the planner computes a transitive closure; the texts of
    cursors are read back.
  \<^item> \<open>Retrieval_Model\<close>, \<open>Retrieval_Payload\<close>, \<open>Retrieval_Scopes\<close>, \<open>Retrieval_Ranking\<close>, \<open>Retrieval_Cursor\<close>,
    \<open>Retrieval_Pack\<close>, \<open>Retrieval_Service\<close>: retrieval-service.ts in the order of the file.
    \<open>Retrieval_Reconcile\<close>, \<open>Retrieval_Properties\<close>, \<open>Retrieval_Isolation\<close>, \<open>Retrieval_Example\<close>: what a
    retrieval delivers, the groups of contradicting memories, non-interference of tenants, one
    retrieval on a concrete snapshot.
  \<^item> \<open>Core_Values\<close>, \<open>Core_State\<close>, \<open>Core_Audit\<close>: the helpers, the process-wide stores and the frame of an
    operation of apps/api/src/core.ts; the audit trail.  Locale \<open>profile_machine\<close>, operations that keep
    an invariant of profiles.
  \<^item> \<open>Core_Recall\<close>, \<open>Core_Attribution\<close>, \<open>Core_Context\<close>, \<open>Core_Decisions\<close>, \<open>Core_Ingest\<close>, \<open>Core_Curation\<close>,
    \<open>Core_Candidates\<close>, \<open>Core_Shadow\<close>, \<open>Core_Replay\<close>, \<open>Core_Signals\<close>, \<open>Core_Feedback\<close>, \<open>Core_Operations\<close>: 21 operations
    of core.ts, group by group, and the dispatch \<open>executeOperation\<close>.
  \<^item> \<open>Core_Invariants\<close>, \<open>Core_Frames\<close>, \<open>Core_Shape\<close>: every operation keeps the well-formedness of a profile
    (interpretation \<open>core\<close> of \<open>profile_machine\<close>); the locale \<open>rule_frame\<close>, what all but three operations leave alone,
    interpreted as \<open>decisions\<close> and \<open>contents\<close>; records of one stable text have the same strings.
  \<^item> \<open>Core_Recall_Properties\<close>, \<open>Core_Decision_Properties\<close>, \<open>Core_Rule_Properties\<close>: cross-store recall is refused
    without a leak and on record; decisions fail closed and a denial is permanent; rules come only
    through the gates; reachable profiles are well formed.

  \<^bold>\<open>State.\<close>  The lifecycle service keeps three Maps (candidates, latest replay, responses by
  digest); they are association lists in insertion order with Map semantics.  The NCM and identity
  services keep nothing: the caller passes arrays of stored rows and stores the arrays of the
  response, so an operation is a function of the request, and a caller that stores what it gets
  back is a fold (\<open>Ncm_Properties\<close>, \<open>Identity_Sync\<close>).  The UMS engine keeps nested Maps (store, space, event
  id), again association lists in insertion order.  The retrieval service keeps nothing; the snapshot is its
  input.  The API core keeps a Map of stores of profiles; an operation gives its answer or its error
  beside the new stores, because what an operation changed before it throws stays changed.  Effects that throw inside \<open>Effect.try\<close> are
  typed failures, those that throw inside \<open>Effect.sync\<close> or \<open>Effect.suspend\<close> are defects.

  \<^bold>\<open>Parameters.\<close>  Host and third-party code is an argument, never defined here: \<open>localeCompare\<close>
  (assumed a total preorder with equality as its kernel where a proof needs it), SHA-256 (assumed
  injective on the texts compared, where a property speaks of two different requests), the issue
  formatter and the decoders of the schema library, \<open>Date.parse\<close>, the clock, and the callbacks the
  sources inject (\<open>normalizeRuleCandidate\<close>, \<open>makeUsageId\<close>; the API core passes its own), the custom unsafe patterns of
  the UMS engine (predicates on texts), the SQLite database and HMAC of the snapshot codec, the storage
  and policy services of the retrieval, the texts of JSON syntax errors, \<open>toISOString\<close>, the policy-pack
  plugin of the API core, and the operations of the API core that are not modelled (an argument of
  \<open>executeOperation\<close>, none of them in \<open>executeAll\<close>).  Every property with such a hypothesis
  has a witness on a concrete host.

  \<^bold>\<open>Conventions, bounds and fuel.\<close>  A string is a list of code units below 256; objects have no
  identity, since the modelled code copies before it changes.  An untyped object has one entry per
  key and no member \<open>toString\<close> of its own; \<open>parseInt\<close> yields exact integers.  Two loops of the number model run
  on fuel: the search for a binary exponent has 700 steps for decimal exponents and
  \<open>shortestDigits\<close> tries up to 17 digits, which suffice for every finite binary64 value
  (exponents lie between -324 and 308, and 17 significant digits identify a value).  Numbers that
  the sources only compare are rationals or integers, where no rounding can happen; scores of the
  context pack and of the federation modules are finite.  \<open>JSON.parse\<close> runs on twice the length of the text
  plus one, which is shown to suffice; the unit 255 stands for units above it, and member names
  are neither array indices nor \<open>__proto__\<close>.  Base64 decoding skips foreign characters as \<open>Buffer.from\<close> does.
  A chronology note is read as its writer makes it, and a stored event shares no object with the
  request it came from.

  \<^bold>\<open>Not modelled, and why.\<close>  storage-repository.ts and the migrations issue SQL, whose meaning is the
  database's; the HTTP server, worker, persistence and telemetry are input/output around these
  services.  The daemon, the account sync, the command line and the scripts drive the services from
  files and processes.  Of core.ts the operations on learner profiles, identity graphs, misconceptions,
  curricula, review schedules, pain and failure signals, tutor degradation, the memory console, the audit
  export and the import of store snapshots are left out: each is a normaliser and an upsert of the
  kind modelled here, on further collections of the profile, and no policy decision is
  theirs.  Two of them write rules or candidates: the manual override, with which an operator promotes or
  suppresses a candidate past the gates, and the clock of the review schedule, which demotes candidates that
  expire; properties about rules speak of the modelled operations.  The in-memory repositories and entities of libs/shared keep rows for tests
  of the same services.
\<close>

end
